(* ===== verification/FNS_Prelude.thy ===== *)
theory FNS_Prelude
  imports
    Main
    "HOL-Library.Word"
    "HOL-Library.Sublist"
    "HOL-Library.Char_ord"
    "HOL-Library.List_Lexorder"
    "HOL-Library.Product_Lexorder"
begin

text \<open>
  Shared vocabulary of the development: the Rust types and standard-library routines that every
  component uses. \<open>Result\<close> with the \<open>?\<close> operator, the machine integers at their widths,
  \<open>str\<close> as its UTF-8 bytes (a \<^typ>\<open>string\<close> of 8-bit \<^typ>\<open>char\<close>) with the string methods the
  sources call, decimal printing and parsing of \<open>u64\<close>, and big-endian byte encodings.
  The lemmas that characterise them are declared for the simplifier or collected in
  \<open>result_simps\<close>, \<open>bytes_simps\<close> and \<open>str_simps\<close>, which the component theories use.
\<close>

named_theorems result_simps \<open>characterisations of successful and failed results\<close>
named_theorems bytes_simps \<open>lengths and round trips of byte encodings\<close>
named_theorems str_simps \<open>characterisations of the string methods\<close>

section \<open>Results\<close>

datatype ('a, 'e) result = Ok 'a | Err 'e

text \<open>The operator \<open>?\<close>: continue with the value or return the error.\<close>

fun and_then :: "('a, 'e) result \<Rightarrow> ('a \<Rightarrow> ('b, 'e) result) \<Rightarrow> ('b, 'e) result" where
  "and_then (Ok v) f = f v"
| "and_then (Err e) f = Err e"

fun map_err :: "('e \<Rightarrow> 'f) \<Rightarrow> ('a, 'e) result \<Rightarrow> ('a, 'f) result" where
  "map_err g (Ok v) = Ok v"
| "map_err g (Err e) = Err (g e)"

text \<open>The statement \<open>if cond { return Err(e); }\<close> in front of the rest of a function.\<close>

definition fail_if :: "bool \<Rightarrow> 'e \<Rightarrow> ('a, 'e) result \<Rightarrow> ('a, 'e) result" where
  "fail_if c e k = (if c then Err e else k)"

text \<open>\<open>Option::ok_or\<close>.\<close>

definition ok_or :: "'a option \<Rightarrow> 'e \<Rightarrow> ('a, 'e) result" where
  "ok_or x e = (case x of Some v \<Rightarrow> Ok v | None \<Rightarrow> Err e)"

definition is_ok :: "('a, 'e) result \<Rightarrow> bool" where
  "is_ok r = (case r of Ok _ \<Rightarrow> True | Err _ \<Rightarrow> False)"

lemma is_ok_simps [simp]: "is_ok (Ok v)" "\<not> is_ok (Err e)"
  by (simp_all add: is_ok_def)

lemma is_ok_iff: "is_ok r \<longleftrightarrow> (\<exists>v. r = Ok v)"
  by (cases r) simp_all

lemma and_then_Ok_iff [result_simps]:
  "and_then r f = Ok v \<longleftrightarrow> (\<exists>x. r = Ok x \<and> f x = Ok v)"
  by (cases r) simp_all

lemma and_then_Err_iff:
  "and_then r f = Err e \<longleftrightarrow> r = Err e \<or> (\<exists>x. r = Ok x \<and> f x = Err e)"
  by (cases r) simp_all

lemma and_then_cong [fundef_cong]:
  "r = r' \<Longrightarrow> (\<And>v. r' = Ok v \<Longrightarrow> f v = g v) \<Longrightarrow> and_then r f = and_then r' g"
  by (cases r') simp_all

lemma map_err_Ok_iff [result_simps]: "map_err g r = Ok v \<longleftrightarrow> r = Ok v"
  by (cases r) simp_all

lemma fail_if_Ok_iff [result_simps]: "fail_if c e k = Ok v \<longleftrightarrow> \<not> c \<and> k = Ok v"
  by (simp add: fail_if_def)

lemma fail_if_simps [simp]: "fail_if True e k = Err e" "fail_if False e k = k"
  by (simp_all add: fail_if_def)

lemma ok_or_Ok_iff [result_simps]: "ok_or x e = Ok v \<longleftrightarrow> x = Some v"
  by (simp add: ok_or_def split: option.splits)

lemma ok_or_simps [simp]: "ok_or None e = Err e" "ok_or (Some v) e = Ok v"
  by (simp_all add: ok_or_def)

lemma unit_Ok_cases: "r = Ok () \<or> (\<exists>e. r = Err e)" for r :: "(unit, 'e) result"
  by (cases r) simp_all

section \<open>Machine integers\<close>

type_synonym u8 = "8 word"
type_synonym u32 = "32 word"
type_synonym u64 = "64 word"
type_synonym i64 = "64 word"

text \<open>An \<open>i64\<close> is its 64 bits, read with \<^const>\<open>sint\<close>. \<open>checked_add\<close> reports overflow.\<close>

definition checked_add :: "'w::len word \<Rightarrow> 'w word \<Rightarrow> 'w word option" where
  "checked_add a b = (if unat a + unat b < 2 ^ LENGTH('w) then Some (a + b) else None)"

lemma checked_add_Some_iff:
  "checked_add a b = Some (c :: 'w::len word) \<longleftrightarrow> unat c = unat a + unat b"
proof
  assume "checked_add a b = Some c"
  then have lt: "unat a + unat b < 2 ^ LENGTH('w)" and c: "c = a + b"
    by (auto simp: checked_add_def split: if_splits)
  from lt c show "unat c = unat a + unat b"
    by (simp add: unat_word_ariths)
next
  assume eq: "unat c = unat a + unat b"
  then have lt: "unat a + unat b < 2 ^ LENGTH('w)"
    by (metis unsigned_less)
  then have "unat (a + b) = unat c"
    by (simp add: unat_word_ariths eq)
  then have "a + b = c" by (rule word_unat_eq_iff [THEN iffD2])
  with lt show "checked_add a b = Some c"
    by (simp add: checked_add_def)
qed

lemma checked_add_None_iff:
  "checked_add a (b :: 'w::len word) = None \<longleftrightarrow> 2 ^ LENGTH('w) \<le> unat a + unat b"
  by (simp add: checked_add_def not_less)

text \<open>Unsigned comparison is comparison of the values.\<close>

lemmas unat_order = word_le_nat_alt word_less_nat_alt

section \<open>Strings\<close>

text \<open>
  A Rust \<open>str\<close> is a UTF-8 byte sequence, so it is modelled by its bytes: \<open>len()\<close> is
  \<^const>\<open>length\<close>, the ASCII methods work on the characters directly, and \<open>chars()\<close> decodes.
\<close>

definition starts_with :: "string \<Rightarrow> string \<Rightarrow> bool" where
  "starts_with s p = (take (length p) s = p)"

definition ends_with_char :: "string \<Rightarrow> char \<Rightarrow> bool" where
  "ends_with_char s c = (s \<noteq> [] \<and> last s = c)"

definition strip_prefix :: "string \<Rightarrow> string \<Rightarrow> string option" where
  "strip_prefix s p = (if starts_with s p then Some (drop (length p) s) else None)"

fun contains_str :: "string \<Rightarrow> string \<Rightarrow> bool" where
  "contains_str [] p = (p = [])"
| "contains_str (c # s) p = (starts_with (c # s) p \<or> contains_str s p)"

text \<open>\<open>str::split(c)\<close>: the pieces between the separators, at least one.\<close>

fun split_on :: "char \<Rightarrow> string \<Rightarrow> string list" where
  "split_on c [] = [[]]"
| "split_on c (x # xs) =
     (if x = c then [] # split_on c xs
      else (case split_on c xs of [] \<Rightarrow> [[x]] | s # ss \<Rightarrow> (x # s) # ss))"

text \<open>\<open>str::to_ascii_uppercase\<close>.\<close>

definition ascii_upper :: "char \<Rightarrow> char" where
  "ascii_upper c =
     (if 97 \<le> (of_char c :: nat) \<and> of_char c \<le> (122 :: nat) then char_of ((of_char c :: nat) - 32) else c)"

definition to_ascii_uppercase :: "string \<Rightarrow> string" where
  "to_ascii_uppercase s = map ascii_upper s"

text \<open>\<open>str::chars()\<close>: the Unicode scalar values of a UTF-8 byte sequence.\<close>

fun chars :: "string \<Rightarrow> nat list" where
  "chars [] = []"
| "chars [a] = [of_char a]"
| "chars [a, b] =
     (if (of_char a :: nat) < 128 then of_char a # chars [b]
      else [(of_char a mod 32) * 64 + of_char b mod 64])"
| "chars [a, b, c] =
     (if (of_char a :: nat) < 128 then of_char a # chars [b, c]
      else if (of_char a :: nat) < 224 then ((of_char a mod 32) * 64 + of_char b mod 64) # chars [c]
      else [((of_char a mod 16) * 64 + of_char b mod 64) * 64 + of_char c mod 64])"
| "chars (a # b # c # d # s) =
     (if (of_char a :: nat) < 128 then of_char a # chars (b # c # d # s)
      else if (of_char a :: nat) < 224 then
        ((of_char a mod 32) * 64 + of_char b mod 64) # chars (c # d # s)
      else if (of_char a :: nat) < 240 then
        (((of_char a mod 16) * 64 + of_char b mod 64) * 64 + of_char c mod 64) # chars (d # s)
      else
        ((((of_char a mod 8) * 64 + of_char b mod 64) * 64 + of_char c mod 64) * 64
          + of_char d mod 64) # chars s)"

definition is_ascii_digit :: "char \<Rightarrow> bool" where
  "is_ascii_digit c = (48 \<le> (of_char c :: nat) \<and> of_char c \<le> (57 :: nat))"

definition is_ascii_alphabetic :: "char \<Rightarrow> bool" where
  "is_ascii_alphabetic c =
     ((65 \<le> (of_char c :: nat) \<and> of_char c \<le> (90 :: nat)) \<or>
      (97 \<le> (of_char c :: nat) \<and> of_char c \<le> (122 :: nat)))"

definition is_ascii_alphanumeric :: "char \<Rightarrow> bool" where
  "is_ascii_alphanumeric c = (is_ascii_alphabetic c \<or> is_ascii_digit c)"

lemma starts_with_iff [str_simps]: "starts_with s p \<longleftrightarrow> (\<exists>r. s = p @ r)"
  unfolding starts_with_def by (metis append_eq_conv_conj append_take_drop_id)

lemma starts_with_prefix: "starts_with s p \<longleftrightarrow> prefix p s"
  by (simp add: starts_with_iff prefix_def)

lemma strip_prefix_Some_iff [str_simps]: "strip_prefix s p = Some r \<longleftrightarrow> s = p @ r"
  by (auto simp: strip_prefix_def starts_with_iff)

lemma contains_str_iff [str_simps]: "contains_str s p \<longleftrightarrow> (\<exists>a b. s = a @ p @ b)"
proof (induction s)
  case Nil
  then show ?case by auto
next
  case (Cons c s)
  have "starts_with (c # s) p \<or> (\<exists>a b. s = a @ p @ b) \<longleftrightarrow> (\<exists>a b. c # s = a @ p @ b)"
    by (metis (no_types) append_Cons append_Nil neq_Nil_conv list.inject starts_with_iff)
  with Cons show ?case by simp
qed

lemma split_on_nonempty [simp]: "split_on c s \<noteq> []"
  by (induction s) (auto split: list.splits)

lemma split_on_no_sep: "seg \<in> set (split_on c s) \<Longrightarrow> c \<notin> set seg"
  by (induction s arbitrary: seg) (auto split: list.splits if_splits)

lemma split_on_append:
  "c \<notin> set seg \<Longrightarrow> split_on c (seg @ c # s) = seg # split_on c s"
  by (induction seg) auto

lemma split_on_single: "c \<notin> set seg \<Longrightarrow> split_on c seg = [seg]"
  by (induction seg) auto

lemma chars_ascii: "\<forall>c\<in>set s. (of_char c :: nat) < 128 \<Longrightarrow> chars s = map of_char s"
  by (induction s rule: chars.induct) auto

section \<open>Decimal text of unsigned integers\<close>

text \<open>\<open>u64::to_string\<close> and \<open>str::parse::<u64>\<close> (an optional \<open>+\<close>, at least one digit, no overflow).\<close>

definition digit_char :: "nat \<Rightarrow> char" where
  "digit_char d = char_of (48 + d)"

definition digit_value :: "char \<Rightarrow> nat" where
  "digit_value c = of_char c - 48"

fun show_nat :: "nat \<Rightarrow> string" where
  "show_nat n = (if n < 10 then [digit_char n] else show_nat (n div 10) @ [digit_char (n mod 10)])"

declare show_nat.simps [simp del]

fun parse_digits :: "nat \<Rightarrow> string \<Rightarrow> nat option" where
  "parse_digits acc [] = Some acc"
| "parse_digits acc (c # cs) =
     (if is_ascii_digit c \<and> acc * 10 + digit_value c < 2 ^ 64
      then parse_digits (acc * 10 + digit_value c) cs else None)"

definition parse_u64 :: "string \<Rightarrow> u64 option" where
  "parse_u64 s =
     (case s of
        [] \<Rightarrow> None
      | c # cs \<Rightarrow>
          if c = CHR ''+'' then (if cs = [] then None else map_option word_of_nat (parse_digits 0 cs))
          else map_option word_of_nat (parse_digits 0 s))"

definition show_u64 :: "u64 \<Rightarrow> string" where
  "show_u64 w = show_nat (unat w)"

lemma digit_char_digit [simp]: "d < 10 \<Longrightarrow> is_ascii_digit (digit_char d)"
  by (simp add: is_ascii_digit_def digit_char_def)

lemma digit_value_char [simp]: "d < 10 \<Longrightarrow> digit_value (digit_char d) = d"
  by (simp add: digit_value_def digit_char_def)

lemma digit_char_not_plus: "d < 10 \<Longrightarrow> digit_char d \<noteq> CHR ''+''"
  by (auto simp: digit_char_def dest!: arg_cong [where f = "of_char :: char \<Rightarrow> nat"])

lemma parse_digits_append:
  "parse_digits acc (xs @ ys) = (case parse_digits acc xs of None \<Rightarrow> None | Some v \<Rightarrow> parse_digits v ys)"
  by (induction xs arbitrary: acc) simp_all

lemma show_nat_nonempty [simp]: "show_nat n \<noteq> []"
  by (subst show_nat.simps) simp

lemma show_nat_digits: "\<forall>c\<in>set (show_nat n). is_ascii_digit c"
proof (induction n rule: show_nat.induct)
  case (1 n)
  then show ?case
    by (subst show_nat.simps) auto
qed

lemma parse_show_nat: "n < 2 ^ 64 \<Longrightarrow> parse_digits 0 (show_nat n) = Some n"
proof (induction n rule: show_nat.induct)
  case (1 n)
  show ?case
  proof (cases "n < 10")
    case True
    then show ?thesis using 1 by (subst show_nat.simps) simp
  next
    case False
    have "n div 10 < 2 ^ 64" using 1(2) by linarith
    with False 1(1) have IH: "parse_digits 0 (show_nat (n div 10)) = Some (n div 10)" by simp
    have "n div 10 * 10 + n mod 10 = n" by simp
    then show ?thesis
      using 1(2) False by (subst show_nat.simps) (simp add: parse_digits_append IH)
  qed
qed

lemma show_nat_not_plus: "hd (show_nat n) \<noteq> CHR ''+''"
proof -
  have "is_ascii_digit (hd (show_nat n))"
    using show_nat_digits [of n] by (simp add: list_all_iff)
  then show ?thesis by (auto simp: is_ascii_digit_def)
qed

lemma parse_show_u64 [simp]: "parse_u64 (show_u64 w) = Some w"
proof -
  have "unat w < 2 ^ 64" using unsigned_less [of w] by simp
  then have "parse_digits 0 (show_nat (unat w)) = Some (unat w)" by (rule parse_show_nat)
  then show ?thesis
    using show_nat_not_plus [of "unat w"]
    by (cases "show_nat (unat w)") (auto simp: parse_u64_def show_u64_def)
qed

lemma show_u64_inject [simp]: "show_u64 v = show_u64 w \<longleftrightarrow> v = w"
  by (metis option.inject parse_show_u64)

lemma show_u64_nonempty [simp]: "show_u64 w \<noteq> []"
  by (simp add: show_u64_def)

section \<open>Big-endian bytes\<close>

text \<open>\<open>to_be_bytes\<close> and \<open>from_be_bytes\<close> of an unsigned integer of \<open>n\<close> bytes.\<close>

primrec be_bytes :: "nat \<Rightarrow> nat \<Rightarrow> u8 list" where
  "be_bytes 0 x = []"
| "be_bytes (Suc n) x = be_bytes n (x div 256) @ [word_of_nat (x mod 256)]"

definition be_val :: "u8 list \<Rightarrow> nat" where
  "be_val bs = foldl (\<lambda>acc b. acc * 256 + unat b) 0 bs"

definition to_be :: "'w::len word \<Rightarrow> u8 list" where
  "to_be w = be_bytes (LENGTH('w) div 8) (unat w)"

definition from_be :: "u8 list \<Rightarrow> 'w::len word" where
  "from_be bs = word_of_nat (be_val bs)"

lemma be_val_Nil [simp]: "be_val [] = 0"
  by (simp add: be_val_def)

lemma be_val_snoc [simp]: "be_val (bs @ [b]) = be_val bs * 256 + unat b"
  by (simp add: be_val_def)

lemma length_be_bytes [simp, bytes_simps]: "length (be_bytes n x) = n"
  by (induction n arbitrary: x) simp_all

lemma unat_byte_of_nat [simp]: "unat (word_of_nat (x mod 256) :: u8) = x mod 256"
  by (simp add: unsigned_of_nat take_bit_eq_mod)

lemma be_val_be_bytes [bytes_simps]: "be_val (be_bytes n x) = x mod 256 ^ n"
proof (induction n arbitrary: x)
  case (Suc n)
  have "x mod 256 ^ Suc n = 256 * (x div 256 mod 256 ^ n) + x mod 256"
    by (simp add: mod_mult2_eq)
  with Suc show ?case by (simp add: mult.commute)
qed simp

lemma be_val_bound: "be_val bs < 256 ^ length bs"
proof (induction bs rule: rev_induct)
  case (snoc b bs)
  have "unat b < 256" using unsigned_less [of b] by simp
  with snoc show ?case by simp
qed simp

lemma be_bytes_be_val [bytes_simps]: "be_bytes (length bs) (be_val bs) = bs"
proof (induction bs rule: rev_induct)
  case (snoc b bs)
  have b: "unat b < 256" using unsigned_less [of b] by simp
  then have "(be_val bs * 256 + unat b) div 256 = be_val bs"
    and "(be_val bs * 256 + unat b) mod 256 = unat b" by simp_all
  with snoc show ?case by simp
qed simp

lemma length_to_be [simp, bytes_simps]: "length (to_be (w :: 'w::len word)) = LENGTH('w) div 8"
  by (simp add: to_be_def)

lemma from_be_to_be [bytes_simps]:
  assumes "LENGTH('w::len) = 8 * k"
  shows "from_be (to_be (w :: 'w word)) = w"
proof -
  have "unat w < 2 ^ LENGTH('w)" by (rule unsigned_less)
  also have "(2 :: nat) ^ LENGTH('w) = 256 ^ k"
    by (simp add: assms power_mult)
  finally show ?thesis
    using assms by (simp add: from_be_def to_be_def be_val_be_bytes)
qed

lemma to_be_from_be [bytes_simps]:
  assumes "LENGTH('w::len) = 8 * length bs"
  shows "to_be (from_be bs :: 'w word) = bs"
proof -
  have "be_val bs < 2 ^ LENGTH('w)"
    using be_val_bound [of bs] by (simp add: assms power_mult)
  then have "unat (from_be bs :: 'w word) = be_val bs"
    by (simp add: from_be_def unsigned_of_nat take_bit_nat_eq_self)
  then show ?thesis
    using assms be_bytes_be_val [of bs] by (simp add: to_be_def)
qed

lemma from_be_to_be_u64 [simp, bytes_simps]: "from_be (to_be (w :: u64)) = w"
  by (rule from_be_to_be [where k = 8]) simp

lemma from_be_to_be_u32 [simp, bytes_simps]: "from_be (to_be (w :: u32)) = w"
  by (rule from_be_to_be [where k = 4]) simp

text \<open>A field of a fixed layout is a run of bytes at an offset.\<close>

definition slice :: "nat \<Rightarrow> nat \<Rightarrow> 'a list \<Rightarrow> 'a list" where
  "slice i j xs = take (j - i) (drop i xs)"

lemma length_slice: "j \<le> length xs \<Longrightarrow> length (slice i j xs) = j - i"
  by (simp add: slice_def)

lemma slice_append_right:
  "length a \<le> i \<Longrightarrow> slice i j (a @ b) = slice (i - length a) (j - length a) b"
  by (cases "j \<le> i") (auto simp: slice_def)

lemma slice_append_exact: "slice 0 (length a) (a @ b) = a"
  by (simp add: slice_def)

lemma slice_append_left: "j \<le> length a \<Longrightarrow> slice i j (a @ b) = slice i j a"
  by (cases "i \<le> length a") (auto simp: slice_def)

lemma slice_join: "i \<le> j \<Longrightarrow> j \<le> k \<Longrightarrow> slice i j xs @ slice j k xs = slice i k xs"
  by (auto simp: le_iff_add slice_def take_add add.commute)

lemma slice_single: "i < length xs \<Longrightarrow> slice i (Suc i) xs = [xs ! i]"
  by (simp add: slice_def take_Suc_conv_app_nth)

lemma slice_drop: "slice 0 i xs @ drop i xs = xs"
  by (simp add: slice_def)

section \<open>Bytes and text\<close>

definition as_bytes :: "string \<Rightarrow> u8 list" where
  "as_bytes s = map (\<lambda>c. word_of_nat (of_char c)) s"

definition bytes_str :: "u8 list \<Rightarrow> string" where
  "bytes_str bs = map (\<lambda>b. char_of (unat b)) bs"

text \<open>Well-formed UTF-8 byte sequences, as \<open>str::from_utf8\<close> accepts them.\<close>

definition utf8_cont :: "u8 \<Rightarrow> bool" where
  "utf8_cont b = (0x80 \<le> b \<and> b \<le> 0xBF)"

fun utf8_valid :: "u8 list \<Rightarrow> bool" where
  "utf8_valid [] = True"
| "utf8_valid (a # r) =
     (if a < 0x80 then utf8_valid r
      else if 0xC2 \<le> a \<and> a \<le> 0xDF then
        (case r of b # s \<Rightarrow> utf8_cont b \<and> utf8_valid s | _ \<Rightarrow> False)
      else if 0xE0 \<le> a \<and> a \<le> 0xEF then
        (case r of
           b # c # s \<Rightarrow>
             utf8_cont b \<and> (a = 0xE0 \<longrightarrow> 0xA0 \<le> b) \<and> (a = 0xED \<longrightarrow> b \<le> 0x9F) \<and> utf8_cont c \<and> utf8_valid s
         | _ \<Rightarrow> False)
      else if 0xF0 \<le> a \<and> a \<le> 0xF4 then
        (case r of
           b # c # d # s \<Rightarrow>
             utf8_cont b \<and> (a = 0xF0 \<longrightarrow> 0x90 \<le> b) \<and> (a = 0xF4 \<longrightarrow> b \<le> 0x8F) \<and> utf8_cont c \<and> utf8_cont d \<and>
             utf8_valid s
         | _ \<Rightarrow> False)
      else False)"

lemma bytes_str_as_bytes [simp]: "bytes_str (as_bytes s) = s"
proof -
  have "char_of (unat (word_of_nat (of_char c) :: u8)) = c" for c :: char
    by (simp add: unsigned_of_nat take_bit_eq_mod of_char_mod_256)
  then show ?thesis by (simp add: bytes_str_def as_bytes_def comp_def map_idI)
qed

lemma length_as_bytes [simp]: "length (as_bytes s) = length s"
  by (simp add: as_bytes_def)

lemma utf8_valid_ascii: "\<forall>b\<in>set bs. b < 0x80 \<Longrightarrow> utf8_valid bs"
  by (induction bs) auto

section \<open>Interfaces of textual types\<close>

text \<open>
  An enumeration with wire names: \<open>as_str\<close> and its partial inverse. The contract is that a name
  is recognised exactly when it is the name of a variant, and then as that variant.
\<close>

locale wire_enum =
  fixes as_str :: "'a \<Rightarrow> string"
    and parse :: "string \<Rightarrow> 'a option"
  assumes parse_as_str: "parse (as_str v) = Some v"
    and parse_sound: "parse s = Some v \<Longrightarrow> as_str v = s"
begin

lemma as_str_eq_iff: "as_str v = as_str w \<longleftrightarrow> v = w"
  by (metis option.inject parse_as_str)

lemma parse_Some_iff: "parse s = Some v \<longleftrightarrow> as_str v = s"
  using parse_as_str parse_sound by blast

lemma parse_None_iff: "parse s = None \<longleftrightarrow> s \<notin> range as_str"
  by (cases "parse s") (auto simp: parse_as_str dest: parse_sound)

end

text \<open>
  A value type with one canonical text: parsing succeeds on exactly the texts that printing
  produces from well-formed values.
\<close>

locale canonical_text =
  fixes parse :: "string \<Rightarrow> ('a, 'e) result"
    and print :: "'a \<Rightarrow> string"
    and wf :: "'a \<Rightarrow> bool"
  assumes parse_Ok_iff: "parse s = Ok v \<longleftrightarrow> print v = s \<and> wf v"
begin

lemma parse_print: "wf v \<Longrightarrow> parse (print v) = Ok v"
  by (simp add: parse_Ok_iff)

lemma print_parse: "parse s = Ok v \<Longrightarrow> print v = s"
  by (simp add: parse_Ok_iff)

lemma parse_wf: "parse s = Ok v \<Longrightarrow> wf v"
  by (simp add: parse_Ok_iff)

lemma parse_injective: "parse s = Ok v \<Longrightarrow> parse t = Ok v \<Longrightarrow> s = t"
  using print_parse by blast

lemma print_injective: "wf v \<Longrightarrow> wf w \<Longrightarrow> print v = print w \<Longrightarrow> v = w"
  by (metis parse_print result.inject(1))

lemma parse_Err_iff: "(\<exists>e. parse s = Err e) \<longleftrightarrow> \<not> (\<exists>v. wf v \<and> print v = s)"
  using parse_Ok_iff [of s] by (cases "parse s") auto

end

end
