(* ===== verification/Protocol_Values.thy ===== *)
theory Protocol_Values
  imports FNS_Prelude
begin

text \<open>
  The value types of the workspace protocol (\<open>fns-protocol\<close>: \<open>error.rs\<close>, \<open>revision.rs\<close>,
  \<open>nullable.rs\<close>, \<open>value.rs\<close>): validation errors and the catalogue of protocol error codes,
  revisions, the required-but-nullable wrapper, UUID identifiers, content hashes, workspace paths,
  the enumerations and file metadata. Each parser is the code's sequence of checks; the lemmas
  characterise what it accepts, and the locale \<open>canonical_text\<close> is interpreted for every textual
  type. The crates \<open>uuid\<close>, \<open>unicode-normalization\<close> and \<open>serde_json\<close> are not part of the
  repository, so their functions are arguments.
\<close>

section \<open>Errors\<close>

record WorkspaceValidationError =
  field :: string
  reason :: string

definition validation_error :: "string \<Rightarrow> string \<Rightarrow> WorkspaceValidationError" where
  "validation_error f r = \<lparr>field = f, reason = r\<rparr>"

record ProtocolDecodeError =
  decode_field :: string
  decode_reason :: string

definition decode_error_from :: "WorkspaceValidationError \<Rightarrow> ProtocolDecodeError" where
  "decode_error_from e = \<lparr>decode_field = field e, decode_reason = reason e\<rparr>"

record ProtocolEncodeError =
  encode_field :: string
  encode_reason :: string

definition encode_error_from :: "WorkspaceValidationError \<Rightarrow> ProtocolEncodeError" where
  "encode_error_from e = \<lparr>encode_field = field e, encode_reason = reason e\<rparr>"

type_synonym validation = "(unit, WorkspaceValidationError) result"

datatype WorkspaceV2ErrorCode =
    InvalidFrame | InvalidJson | UnknownAction | Unauthenticated | Forbidden | InvalidRequest
  | InvalidRevision | InvalidHash | InvalidPath | WorkspaceNotFound | WorkspaceLimitExceeded
  | ClientNotRegistered | StaleBaseRevision | OperationReused | BlobRequired | BlobNotFound
  | BlobHashMismatch | BlobSizeMismatch | BlobTransferOutOfOrder | BlobLimitExceeded
  | ConflictNotFound | ConflictRevisionStale | ServerBusy | Internal

fun code_as_str :: "WorkspaceV2ErrorCode \<Rightarrow> string" where
  "code_as_str InvalidFrame = ''invalid_frame''"
| "code_as_str InvalidJson = ''invalid_json''"
| "code_as_str UnknownAction = ''unknown_action''"
| "code_as_str Unauthenticated = ''unauthenticated''"
| "code_as_str Forbidden = ''forbidden''"
| "code_as_str InvalidRequest = ''invalid_request''"
| "code_as_str InvalidRevision = ''invalid_revision''"
| "code_as_str InvalidHash = ''invalid_hash''"
| "code_as_str InvalidPath = ''invalid_path''"
| "code_as_str WorkspaceNotFound = ''workspace_not_found''"
| "code_as_str WorkspaceLimitExceeded = ''workspace_limit_exceeded''"
| "code_as_str ClientNotRegistered = ''client_not_registered''"
| "code_as_str StaleBaseRevision = ''stale_base_revision''"
| "code_as_str OperationReused = ''operation_reused''"
| "code_as_str BlobRequired = ''blob_required''"
| "code_as_str BlobNotFound = ''blob_not_found''"
| "code_as_str BlobHashMismatch = ''blob_hash_mismatch''"
| "code_as_str BlobSizeMismatch = ''blob_size_mismatch''"
| "code_as_str BlobTransferOutOfOrder = ''blob_transfer_out_of_order''"
| "code_as_str BlobLimitExceeded = ''blob_limit_exceeded''"
| "code_as_str ConflictNotFound = ''conflict_not_found''"
| "code_as_str ConflictRevisionStale = ''conflict_revision_stale''"
| "code_as_str ServerBusy = ''server_busy''"
| "code_as_str Internal = ''internal''"

fun code_message :: "WorkspaceV2ErrorCode \<Rightarrow> string" where
  "code_message InvalidFrame = ''invalid control frame''"
| "code_message InvalidJson = ''invalid JSON payload''"
| "code_message UnknownAction = ''unknown workspace action''"
| "code_message Unauthenticated = ''authentication required''"
| "code_message Forbidden = ''workspace access forbidden''"
| "code_message InvalidRequest = ''invalid request''"
| "code_message InvalidRevision = ''invalid workspace revision''"
| "code_message InvalidHash = ''invalid content hash''"
| "code_message InvalidPath = ''path must be a canonical workspace-relative POSIX path''"
| "code_message WorkspaceNotFound = ''workspace not found''"
| "code_message WorkspaceLimitExceeded = ''workspace limit exceeded''"
| "code_message ClientNotRegistered = ''client not registered''"
| "code_message StaleBaseRevision = ''base revision is stale''"
| "code_message OperationReused = ''operation identifier was reused''"
| "code_message BlobRequired = ''blob upload required''"
| "code_message BlobNotFound = ''blob not found''"
| "code_message BlobHashMismatch = ''blob hash mismatch''"
| "code_message BlobSizeMismatch = ''blob size mismatch''"
| "code_message BlobTransferOutOfOrder = ''blob transfer is out of order''"
| "code_message BlobLimitExceeded = ''blob transfer limit exceeded''"
| "code_message ConflictNotFound = ''conflict not found''"
| "code_message ConflictRevisionStale = ''conflict revision is stale''"
| "code_message ServerBusy = ''server is busy''"
| "code_message Internal = ''internal server error''"

fun code_retryable :: "WorkspaceV2ErrorCode \<Rightarrow> bool" where
  "code_retryable ServerBusy = True"
| "code_retryable Internal = True"
| "code_retryable _ = False"

record WorkspaceV2FieldError =
  fe_field :: string
  fe_reason :: string

record WorkspaceV2Error =
  v2_code :: WorkspaceV2ErrorCode
  v2_message :: string
  v2_retryable :: bool
  v2_fields :: "WorkspaceV2FieldError list"

definition v2_error_new :: "WorkspaceV2ErrorCode \<Rightarrow> WorkspaceV2FieldError list \<Rightarrow> WorkspaceV2Error" where
  "v2_error_new c fs =
     \<lparr>v2_code = c, v2_message = code_message c, v2_retryable = code_retryable c, v2_fields = fs\<rparr>"

definition v2_error_validate :: "WorkspaceV2Error \<Rightarrow> validation" where
  "v2_error_validate e =
     fail_if (v2_message e \<noteq> code_message (v2_code e)) (validation_error ''error.message'' ''message_mismatch'')
    (fail_if (v2_retryable e \<noteq> code_retryable (v2_code e))
       (validation_error ''error.retryable'' ''retryability_mismatch'')
    (Ok ()))"

section \<open>Revisions\<close>

datatype WorkspaceRevision = WorkspaceRevision (revision_get: u64)

instantiation WorkspaceRevision :: linorder
begin

definition less_eq_WorkspaceRevision :: "WorkspaceRevision \<Rightarrow> WorkspaceRevision \<Rightarrow> bool" where
  "a \<le> b \<longleftrightarrow> revision_get a \<le> revision_get b"

definition less_WorkspaceRevision :: "WorkspaceRevision \<Rightarrow> WorkspaceRevision \<Rightarrow> bool" where
  "a < b \<longleftrightarrow> revision_get a < revision_get b"

instance
  by standard (auto simp: less_eq_WorkspaceRevision_def less_WorkspaceRevision_def
      intro: WorkspaceRevision.expand)

end

definition ZERO :: WorkspaceRevision where
  "ZERO = WorkspaceRevision 0"

definition revision_validation_error :: "string \<Rightarrow> WorkspaceValidationError" where
  "revision_validation_error r = validation_error ''revision'' r"

definition revision_parse :: "string \<Rightarrow> (WorkspaceRevision, WorkspaceValidationError) result" where
  "revision_parse value =
     fail_if (value = []) (revision_validation_error ''empty'')
       (case parse_u64 value of
          Some parsed \<Rightarrow>
            if show_u64 parsed = value then Ok (WorkspaceRevision parsed)
            else Err (revision_validation_error ''non_canonical_decimal'')
        | None \<Rightarrow> Err (revision_validation_error ''non_canonical_decimal''))"

definition revision_print :: "WorkspaceRevision \<Rightarrow> string" where
  "revision_print r = show_u64 (revision_get r)"

datatype WorkspaceConflictRevision = WorkspaceConflictRevision (conflict_revision_get: u64)

definition conflict_validation_error :: "string \<Rightarrow> WorkspaceValidationError" where
  "conflict_validation_error r = validation_error ''conflictRevision'' r"

definition conflict_revision_parse :: "string \<Rightarrow> (WorkspaceConflictRevision, WorkspaceValidationError) result" where
  "conflict_revision_parse value =
     fail_if (value = []) (conflict_validation_error ''empty'')
       (case parse_u64 value of
          Some parsed \<Rightarrow>
            if show_u64 parsed = value \<and> parsed \<noteq> 0 then Ok (WorkspaceConflictRevision parsed)
            else if parsed = 0 \<and> value = ''0'' then Err (conflict_validation_error ''must_be_positive'')
            else Err (conflict_validation_error ''non_canonical_decimal'')
        | None \<Rightarrow> Err (conflict_validation_error ''non_canonical_decimal''))"

definition conflict_revision_print :: "WorkspaceConflictRevision \<Rightarrow> string" where
  "conflict_revision_print r = show_u64 (conflict_revision_get r)"

text \<open>
  The four \<open>decode_json\<close> functions parse a JSON string first; \<open>json_string\<close> stands for
  \<open>serde_json::from_slice::<String>\<close>.
\<close>

definition revision_decode_json ::
    "(u8 list \<Rightarrow> string option) \<Rightarrow> u8 list \<Rightarrow> (WorkspaceRevision, WorkspaceValidationError) result" where
  "revision_decode_json json_string raw =
     and_then (ok_or (json_string raw) (revision_validation_error ''must_be_string'')) revision_parse"

definition conflict_revision_decode_json ::
    "(u8 list \<Rightarrow> string option) \<Rightarrow> u8 list \<Rightarrow> (WorkspaceConflictRevision, WorkspaceValidationError) result" where
  "conflict_revision_decode_json json_string raw =
     and_then (ok_or (json_string raw) (conflict_validation_error ''must_be_string'')) conflict_revision_parse"

section \<open>Nullable fields\<close>

datatype 'a RequiredNullable = Null | Value 'a

fun is_null :: "'a RequiredNullable \<Rightarrow> bool" where
  "is_null Null = True"
| "is_null (Value _) = False"

fun into_option :: "'a RequiredNullable \<Rightarrow> 'a option" where
  "into_option Null = None"
| "into_option (Value v) = Some v"

section \<open>Identifiers\<close>

text \<open>
  A UUID is its 128 bits. \<open>parse_str\<close> and \<open>to_string\<close> of the \<open>uuid\<close> crate are the fields of
  \<open>uuid_lib\<close>; each identifier is a newtype that accepts the canonical spelling only.
\<close>

type_synonym uuid = "128 word"

record uuid_lib =
  uuid_parse_str :: "string \<Rightarrow> uuid option"
  uuid_to_string :: "uuid \<Rightarrow> string"

datatype WorkspaceId = WorkspaceId uuid
datatype ClientId = ClientId uuid
datatype OperationId = OperationId uuid
datatype RequestId = RequestId uuid
datatype StreamId = StreamId uuid
datatype TransferId = TransferId (transfer_uuid: uuid)
datatype ConflictId = ConflictId uuid

definition uuid_validation_error :: "string \<Rightarrow> string \<Rightarrow> WorkspaceValidationError" where
  "uuid_validation_error f r = validation_error f r"

definition uuid_newtype_parse ::
    "uuid_lib \<Rightarrow> string \<Rightarrow> (uuid \<Rightarrow> 'id) \<Rightarrow> string \<Rightarrow> ('id, WorkspaceValidationError) result" where
  "uuid_newtype_parse lib fld mk value =
     (case uuid_parse_str lib value of
        Some parsed \<Rightarrow>
          if uuid_to_string lib parsed = value then Ok (mk parsed)
          else Err (uuid_validation_error fld ''invalid_uuid'')
      | None \<Rightarrow> Err (uuid_validation_error fld ''invalid_uuid''))"

definition transfer_id_parse :: "uuid_lib \<Rightarrow> string \<Rightarrow> (TransferId, WorkspaceValidationError) result" where
  "transfer_id_parse lib value = uuid_newtype_parse lib ''transferId'' TransferId value"

section \<open>Content hashes\<close>

datatype WorkspaceContentHash = WorkspaceContentHash (hash_str: string)

definition content_hash_validation_error :: "string \<Rightarrow> WorkspaceValidationError" where
  "content_hash_validation_error r = validation_error ''contentHash'' r"

definition is_lower_hex :: "char \<Rightarrow> bool" where
  "is_lower_hex c =
     (is_ascii_digit c \<or> (97 \<le> (of_char c :: nat) \<and> of_char c \<le> (102 :: nat)))"

definition content_hash_parse :: "string \<Rightarrow> (WorkspaceContentHash, WorkspaceValidationError) result" where
  "content_hash_parse value =
     (if length value = 71 \<and> starts_with value ''blake3:'' \<and> list_all is_lower_hex (drop 7 value)
      then Ok (WorkspaceContentHash value)
      else Err (content_hash_validation_error ''invalid_blake3''))"

definition content_hash_decode_json ::
    "(u8 list \<Rightarrow> string option) \<Rightarrow> u8 list \<Rightarrow> (WorkspaceContentHash, WorkspaceValidationError) result" where
  "content_hash_decode_json json_string raw =
     and_then (ok_or (json_string raw) (content_hash_validation_error ''must_be_string'')) content_hash_parse"

section \<open>Workspace paths\<close>

datatype WorkspacePath = WorkspacePath (path_str: string)

instantiation WorkspacePath :: linorder
begin

definition less_eq_WorkspacePath :: "WorkspacePath \<Rightarrow> WorkspacePath \<Rightarrow> bool" where
  "a \<le> b \<longleftrightarrow> path_str a \<le> path_str b"

definition less_WorkspacePath :: "WorkspacePath \<Rightarrow> WorkspacePath \<Rightarrow> bool" where
  "a < b \<longleftrightarrow> path_str a < path_str b"

instance
  by standard (auto simp: less_eq_WorkspacePath_def less_WorkspacePath_def
      intro: WorkspacePath.expand)

end

definition path_validation_error :: "string \<Rightarrow> WorkspaceValidationError" where
  "path_validation_error r = validation_error ''path'' r"

text \<open>Control characters (C0, DEL and C1) and \<open><>:"|?*\<close> are refused, as code points.\<close>

definition unsafe_character :: "nat \<Rightarrow> bool" where
  "unsafe_character c = (c \<le> 31 \<or> (127 \<le> c \<and> c \<le> 159) \<or> c \<in> {60, 62, 58, 34, 124, 63, 42})"

definition windows_device_name :: "string \<Rightarrow> bool" where
  "windows_device_name segment =
     (let base = to_ascii_uppercase (takeWhile (\<lambda>c. c \<noteq> CHR ''.'') segment);
          numbered_device =
            length base = 4 \<and> (starts_with base ''COM'' \<or> starts_with base ''LPT'') \<and>
            base ! 3 \<in> set ''123456789''
      in base \<in> {''CON'', ''PRN'', ''AUX'', ''NUL''} \<or> numbered_device)"

definition path_check_segment :: "string \<Rightarrow> validation" where
  "path_check_segment segment =
     fail_if (segment = [] \<or> segment = ''.'' \<or> segment = ''..'') (path_validation_error ''invalid_segment'')
    (fail_if (ends_with_char segment CHR ''.'' \<or> ends_with_char segment CHR '' '')
       (path_validation_error ''windows_unsafe_suffix'')
    (fail_if (list_ex unsafe_character (chars segment)) (path_validation_error ''unsafe_character'')
    (fail_if (windows_device_name segment) (path_validation_error ''windows_device_name'')
    (Ok ()))))"

fun path_check_segments :: "string list \<Rightarrow> validation" where
  "path_check_segments [] = Ok ()"
| "path_check_segments (segment # rest) =
     and_then (path_check_segment segment) (\<lambda>_. path_check_segments rest)"

definition path_parse :: "(string \<Rightarrow> string) \<Rightarrow> string \<Rightarrow> (WorkspacePath, WorkspaceValidationError) result" where
  "path_parse nfc value =
     fail_if (value = [] \<or> length value > 4096) (path_validation_error ''invalid_length_or_utf8'')
    (fail_if (nfc value \<noteq> value) (path_validation_error ''not_nfc'')
    (fail_if
       (starts_with value ''/'' \<or> ends_with_char value CHR ''/'' \<or> contains_str value ''//'' \<or>
        CHR 0x5C \<in> set value)
       (path_validation_error ''not_relative_posix'')
    (and_then (path_check_segments (split_on CHR ''/'' value)) (\<lambda>_. Ok (WorkspacePath value)))))"

definition path_decode_json ::
    "(string \<Rightarrow> string) \<Rightarrow> (u8 list \<Rightarrow> string option) \<Rightarrow> u8 list \<Rightarrow>
     (WorkspacePath, WorkspaceValidationError) result" where
  "path_decode_json nfc json_string raw =
     and_then (ok_or (json_string raw) (path_validation_error ''must_be_string'')) (path_parse nfc)"

section \<open>Enumerations and metadata\<close>

datatype WorkspaceEntryKind = File | Directory | Symlink | Tombstone
datatype WorkspaceMutationKind = UpsertFile | Mkdir | UpsertSymlink | Delete | Rename
datatype WorkspaceSnapshotMode = Snapshot | Incremental
datatype WorkspaceBlobDirection = Upload | Download
datatype WorkspaceConflictKind = Content | DeleteModify | Rename | Binary
datatype WorkspaceConflictChoice = Current | Incoming | Merged | Delete
datatype WorkspaceMutationRejectReason =
  StaleBaseRevision | OperationReused | BlobRequired | ConflictCreated

definition BLOB_CHUNK_BYTES :: u32 where
  "BLOB_CHUNK_BYTES = 1048576"

definition MAX_BLOB_BYTES :: u64 where
  "MAX_BLOB_BYTES = 5368709120"

record WorkspaceFileMetadata =
  md_size :: u64
  md_modified_at_ms :: i64
  md_executable :: bool

definition metadata_validate :: "WorkspaceFileMetadata \<Rightarrow> WorkspaceEntryKind \<Rightarrow> validation" where
  "metadata_validate m kind =
     fail_if (md_size m > MAX_BLOB_BYTES) (validation_error ''metadata.size'' ''limit_exceeded'')
    (fail_if (\<not> (0 \<le> sint (md_modified_at_ms m) \<and> sint (md_modified_at_ms m) \<le> 253402300799999))
       (validation_error ''metadata.modifiedAtMs'' ''out_of_range'')
    (if kind = Directory \<or> kind = Tombstone then
       fail_if (md_size m \<noteq> 0) (validation_error ''metadata.size'' ''must_be_zero'')
      (fail_if (md_executable m) (validation_error ''metadata.executable'' ''must_be_false'')
      (Ok ()))
     else Ok ()))"

section \<open>Canonical texts\<close>

lemma show_u64_eq_empty [simp]: "show_u64 w = [] \<longleftrightarrow> False" "[] = show_u64 w \<longleftrightarrow> False"
  using show_u64_nonempty [of w] by (auto simp del: show_u64_nonempty)

lemma parse_u64_show_iff:
  "(case parse_u64 s of Some w \<Rightarrow> show_u64 w = s \<and> w = v | None \<Rightarrow> False) \<longleftrightarrow> show_u64 v = s"
  by (auto split: option.splits)

interpretation revision_text: canonical_text revision_parse revision_print "\<lambda>_. True"
proof
  fix s v
  show "revision_parse s = Ok v \<longleftrightarrow> revision_print v = s \<and> True"
    using parse_u64_show_iff [of s "revision_get v"]
    by (cases v)
      (auto simp: revision_parse_def revision_print_def fail_if_Ok_iff split: option.splits if_splits)
qed

interpretation conflict_revision_text:
  canonical_text conflict_revision_parse conflict_revision_print "\<lambda>r. conflict_revision_get r \<noteq> 0"
proof
  fix s v
  show "conflict_revision_parse s = Ok v \<longleftrightarrow>
      conflict_revision_print v = s \<and> conflict_revision_get v \<noteq> 0"
    using parse_u64_show_iff [of s "conflict_revision_get v"]
    by (cases v)
      (auto simp: conflict_revision_parse_def conflict_revision_print_def fail_if_Ok_iff
        split: option.splits if_splits)
qed

text \<open>
  The part of the contract of \<open>uuid\<close> that the identifiers rely on: the printed form of an
  identifier is parsed back to it.
\<close>

definition uuid_law :: "uuid_lib \<Rightarrow> bool" where
  "uuid_law lib \<longleftrightarrow> (\<forall>u. uuid_parse_str lib (uuid_to_string lib u) = Some u)"

lemma uuid_newtype_parse_Ok_iff:
  assumes "uuid_law lib" "inj mk"
  shows "uuid_newtype_parse lib fld mk s = Ok (mk u) \<longleftrightarrow> uuid_to_string lib u = s"
proof -
  have inj: "mk v = mk u \<longleftrightarrow> v = u" for v using assms(2) by (simp add: inj_eq)
  show ?thesis
    using assms(1) unfolding uuid_newtype_parse_def uuid_law_def
    by (auto simp: inj split: option.splits) (metis option.inject)
qed

definition content_hash_wf :: "WorkspaceContentHash \<Rightarrow> bool" where
  "content_hash_wf h \<longleftrightarrow>
     (\<exists>d. hash_str h = ''blake3:'' @ d \<and> length d = 64 \<and> (\<forall>c\<in>set d. c \<in> set ''0123456789abcdef''))"

lemma is_lower_hex_iff: "is_lower_hex c \<longleftrightarrow> c \<in> set ''0123456789abcdef''"
proof
  assume "is_lower_hex c"
  then have "(of_char c :: nat) \<in> {48..<58} \<union> {97..<103}"
    by (auto simp: is_lower_hex_def is_ascii_digit_def)
  then have "(of_char c :: nat) \<in> set [48..<58] \<union> set [97..<103]"
    by (simp only: set_upt)
  moreover have "c = char_of (of_char c :: nat)" by simp
  ultimately have "c \<in> char_of ` (set [48..<58] \<union> set [97..<103 :: nat])" by blast
  moreover have "char_of ` (set [48..<58] \<union> set [97..<103 :: nat]) \<subseteq> set ''0123456789abcdef''"
    by code_simp
  ultimately show "c \<in> set ''0123456789abcdef''" by blast
next
  assume "c \<in> set ''0123456789abcdef''"
  then show "is_lower_hex c" by (auto simp: is_lower_hex_def is_ascii_digit_def)
qed

lemma content_hash_wf_iff:
  "length s = 71 \<and> starts_with s ''blake3:'' \<and> list_all is_lower_hex (drop 7 s) \<longleftrightarrow>
   content_hash_wf (WorkspaceContentHash s)"
proof
  assume "length s = 71 \<and> starts_with s ''blake3:'' \<and> list_all is_lower_hex (drop 7 s)"
  then have len: "length s = 71" and pre: "starts_with s ''blake3:''"
    and hex: "\<forall>c\<in>set (drop 7 s). c \<in> set ''0123456789abcdef''"
    unfolding list_all_iff is_lower_hex_iff [symmetric] by auto
  have "take 7 s = ''blake3:''" using pre by (simp add: starts_with_def numeral_eq_Suc)
  then have "s = ''blake3:'' @ drop 7 s" by (metis append_take_drop_id)
  moreover have "length (drop 7 s) = 64" using len by simp
  ultimately show "content_hash_wf (WorkspaceContentHash s)"
    using hex unfolding content_hash_wf_def WorkspaceContentHash.sel by blast
next
  assume "content_hash_wf (WorkspaceContentHash s)"
  then obtain d where "s = ''blake3:'' @ d" "length d = 64" "\<forall>c\<in>set d. is_lower_hex c"
    by (auto simp only: content_hash_wf_def WorkspaceContentHash.sel is_lower_hex_iff)
  then show "length s = 71 \<and> starts_with s ''blake3:'' \<and> list_all is_lower_hex (drop 7 s)"
    by (simp add: starts_with_def list_all_iff)
qed

interpretation content_hash_text: canonical_text content_hash_parse hash_str content_hash_wf
proof
  fix s v
  show "content_hash_parse s = Ok v \<longleftrightarrow> hash_str v = s \<and> content_hash_wf v"
    by (cases v) (auto simp: content_hash_parse_def content_hash_wf_iff)
qed

section \<open>Workspace paths are safe\<close>

text \<open>
  Where a relative path leads when an operating system resolves it lexically. On POSIX empty and \<open>.\<close>
  segments stay, \<open>..\<close> goes up, every other segment goes down; a leading \<open>/\<close> starts at the file system
  root. Windows also separates at backslashes, drops dots and spaces at the end of a name, and does not
  distinguish the case of names (\<open>casing\<close> is the case folding of the volume). A name of a device, or one with a
  character that Windows reserves (among them the colon of drives and streams), is no entry of a
  directory: the result is \<open>None\<close>.
\<close>

fun resolve_step :: "string list \<Rightarrow> string \<Rightarrow> string list" where
  "resolve_step dir seg =
     (if seg = [] \<or> seg = ''.'' then dir else if seg = ''..'' then butlast dir else dir @ [seg])"

definition resolve :: "string list \<Rightarrow> string \<Rightarrow> string list" where
  "resolve root s = foldl resolve_step (if starts_with s ''/'' then [] else root) (split_on CHR ''/'' s)"

definition windows_name :: "string \<Rightarrow> string" where
  "windows_name seg = rev (dropWhile (\<lambda>c. c = CHR ''.'' \<or> c = CHR '' '') (rev seg))"

definition windows_reserved :: "nat \<Rightarrow> bool" where
  "windows_reserved c \<longleftrightarrow> c < 32 \<or> c \<in> of_char ` set ''<>:|?*'' \<or> c = 34"

fun windows_step :: "(string \<Rightarrow> string) \<Rightarrow> string list option \<Rightarrow> string \<Rightarrow> string list option" where
  "windows_step casing None seg = None"
| "windows_step casing (Some dir) seg =
     (if seg = ''..'' then Some (butlast dir)
      else if windows_name seg = [] then Some dir
      else if windows_device_name (windows_name seg) \<or> list_ex windows_reserved (chars seg) then None
      else Some (dir @ [casing (windows_name seg)]))"

definition resolve_windows :: "(string \<Rightarrow> string) \<Rightarrow> string list \<Rightarrow> string \<Rightarrow> string list option" where
  "resolve_windows casing root s =
     (let t = map (\<lambda>c. if c = CHR 0x5C then CHR ''/'' else c) s
      in foldl (windows_step casing) (Some (if starts_with t ''/'' then [] else root)) (split_on CHR ''/'' t))"

definition path_wf :: "(string \<Rightarrow> string) \<Rightarrow> WorkspacePath \<Rightarrow> bool" where
  "path_wf nfc p \<longleftrightarrow>
     (let s = path_str p in
      s \<noteq> [] \<and> length s \<le> 4096 \<and> nfc s = s \<and> CHR 0x5C \<notin> set s \<and>
      (\<forall>seg\<in>set (split_on CHR ''/'' s).
         seg \<notin> {[], ''.'', ''..''} \<and> last seg \<notin> {CHR ''.'', CHR '' ''} \<and>
         (\<forall>c\<in>set (chars seg). \<not> unsafe_character c) \<and> \<not> windows_device_name seg))"

lemma path_check_segment_Ok_iff:
  "path_check_segment seg = Ok () \<longleftrightarrow>
     seg \<notin> {[], ''.'', ''..''} \<and> last seg \<notin> {CHR ''.'', CHR '' ''} \<and>
     (\<forall>c\<in>set (chars seg). \<not> unsafe_character c) \<and> \<not> windows_device_name seg"
  by (auto simp: path_check_segment_def result_simps ends_with_char_def list_ex_iff)

lemma path_check_segments_Ok_iff:
  "path_check_segments segs = Ok () \<longleftrightarrow> (\<forall>seg\<in>set segs. path_check_segment seg = Ok ())"
  by (induction segs) (auto simp: result_simps)

lemma split_on_join: "split_on c (a @ c # b) = split_on c a @ split_on c b"
  by (induction a) (auto split: list.splits)

lemma path_parse_Ok_iff: "path_parse nfc s = Ok p \<longleftrightarrow> path_str p = s \<and> path_wf nfc p"
proof -
  have no_empty: "\<not> starts_with s ''/'' \<and> \<not> ends_with_char s CHR ''/'' \<and> \<not> contains_str s ''//''"
    if "[] \<notin> set (split_on CHR ''/'' s)"
  proof (intro conjI)
    show "\<not> starts_with s ''/''"
      using that by (auto simp: starts_with_iff)
    show "\<not> ends_with_char s CHR ''/''"
      using that split_on_join [of "CHR ''/''" "butlast s" "[]"]
      by (auto simp: ends_with_char_def dest: append_butlast_last_id)
    show "\<not> contains_str s ''//''"
      using that by (auto simp: contains_str_iff split_on_join)
  qed
  show ?thesis
    using no_empty
    by (cases p)
      (auto simp: path_parse_def result_simps path_wf_def Let_def path_check_segments_Ok_iff
        path_check_segment_Ok_iff)
qed

interpretation path_text: canonical_text "path_parse nfc" path_str "path_wf nfc" for nfc
  by unfold_locales (rule path_parse_Ok_iff)

lemma foldl_resolve_step:
  "\<forall>seg\<in>set segs. seg \<notin> {[], ''.'', ''..''} \<Longrightarrow> foldl resolve_step root segs = root @ segs"
  by (induction segs arbitrary: root) auto

lemma split_on_inject: "split_on c s = split_on c t \<Longrightarrow> s = t"
proof (induction s arbitrary: t)
  case Nil
  then show ?case
    by (cases t) (auto split: if_splits list.splits dest: sym)
next
  case (Cons x s)
  show ?case
    using Cons.prems Cons.IH [of "tl t"]
    by (cases t) (auto split: if_splits list.splits)
qed

lemma windows_name_plain: "seg \<noteq> [] \<Longrightarrow> last seg \<notin> {CHR ''.'', CHR '' ''} \<Longrightarrow> windows_name seg = seg"
  by (cases seg rule: rev_cases) (auto simp: windows_name_def)

lemma windows_reserved_unsafe: "windows_reserved c \<Longrightarrow> unsafe_character c"
  by (auto simp: windows_reserved_def unsafe_character_def of_char_def)

lemma foldl_windows_step:
  assumes "\<forall>seg\<in>set segs. path_check_segment seg = Ok ()"
  shows "foldl (windows_step casing) (Some root) segs = Some (root @ map casing segs)"
  using assms
proof (induction segs arbitrary: root)
  case (Cons seg segs)
  then have seg: "seg \<noteq> ''..''" "windows_name seg = seg" "seg \<noteq> []" "\<not> windows_device_name seg"
      "\<not> list_ex windows_reserved (chars seg)"
    by (auto simp: path_check_segment_Ok_iff windows_name_plain list_ex_iff dest: windows_reserved_unsafe)
  with Cons show ?case by simp
qed simp

lemma path_wf_segments:
  assumes "path_wf nfc p"
  shows "\<forall>seg\<in>set (split_on CHR ''/'' (path_str p)). path_check_segment seg = Ok ()" "\<not> starts_with (path_str p) ''/''"
  using assms by (auto simp: path_wf_def Let_def path_check_segment_Ok_iff starts_with_iff)

lemma path_wf_resolve:
  assumes "path_wf nfc p"
  shows "resolve root (path_str p) = root @ split_on CHR ''/'' (path_str p)"
    "resolve_windows casing root (path_str p) = Some (root @ map casing (split_on CHR ''/'' (path_str p)))"
proof -
  have plain: "map (\<lambda>c. if c = CHR 0x5C then CHR ''/'' else c) (path_str p) = path_str p"
    using assms by (intro map_idI) (auto simp: path_wf_def Let_def)
  show "resolve root (path_str p) = root @ split_on CHR ''/'' (path_str p)"
    using path_wf_segments [OF assms] foldl_resolve_step [of "split_on CHR ''/'' (path_str p)" root]
    unfolding resolve_def by (auto simp: path_check_segment_Ok_iff)
  show "resolve_windows casing root (path_str p) = Some (root @ map casing (split_on CHR ''/'' (path_str p)))"
    using path_wf_segments [OF assms] foldl_windows_step unfolding resolve_windows_def plain by simp
qed



section \<open>Errors and metadata\<close>

text \<open>
  C17: An error received from the peer is accepted exactly when it is the error that the code's own
  constructor builds for its code and fields: a message or a retry flag that does not belong to the
  code is refused.
\<close>

theorem v2_error_validate_iff:
  "v2_error_validate e = Ok () \<longleftrightarrow> e = v2_error_new (v2_code e) (v2_fields e)"
  by (cases e) (auto simp: v2_error_validate_def v2_error_new_def result_simps)

definition metadata_wf :: "WorkspaceFileMetadata \<Rightarrow> WorkspaceEntryKind \<Rightarrow> bool" where
  "metadata_wf m kind \<longleftrightarrow>
     unat (md_size m) \<le> 5368709120 \<and> sint (md_modified_at_ms m) \<in> {0..253402300799999} \<and>
     (kind \<in> {Directory, Tombstone} \<longrightarrow> md_size m = 0 \<and> \<not> md_executable m)"

lemma metadata_validate_Ok_iff [result_simps]:
  "metadata_validate m kind = Ok () \<longleftrightarrow> metadata_wf m kind"
  by (auto simp: metadata_validate_def metadata_wf_def result_simps MAX_BLOB_BYTES_def unat_order)

text \<open>
  An instance of the \<open>uuid\<close> interface for concrete evaluation: the text is the 16 bytes.
\<close>

definition raw_uuid_lib :: uuid_lib where
  "raw_uuid_lib =
     \<lparr>uuid_parse_str = (\<lambda>s. if length s = 16 then Some (from_be (map (\<lambda>c. word_of_nat (of_char c)) s)) else None),
      uuid_to_string = (\<lambda>u. map (\<lambda>b. char_of (unat b)) (to_be u))\<rparr>"

lemma raw_uuid_law: "uuid_law raw_uuid_lib"
proof -
  have "word_of_nat (of_char (char_of (unat b) :: char)) = b" for b :: u8
  proof -
    have lt: "unat b < (256 :: nat)" using unsigned_less [of b] by simp
    have "(of_char (char_of (unat b) :: char) :: nat) = unat b"
      using lt by (simp only: of_char_of mod_less)
    then show ?thesis by simp
  qed
  then have "map (\<lambda>c. word_of_nat (of_char c)) (map (\<lambda>b. char_of (unat b)) bs) = bs" for bs :: "u8 list"
    by (simp add: comp_def map_idI)
  moreover have "from_be (to_be (u :: uuid)) = u" for u
    by (rule from_be_to_be [where k = 16]) simp
  ultimately show ?thesis by (simp add: uuid_law_def raw_uuid_lib_def)
qed

end
