(* ===== verification/Protocol_Binary.thy ===== *)
theory Protocol_Binary
  imports Protocol_Values
begin

text \<open>
  The binary frames that carry blob chunks (\<open>fns-protocol/src/binary.rs\<close>): a 64-byte header and the
  payload. The encoder builds the frame in the buffer that holds the payload, exactly as the code
  does; \<open>encode_binary_frame_owned_eq\<close> shows that this is the plain layout \<open>frame_header\<close> followed
  by the payload, and \<open>binary_frame_codec\<close> that the decoder accepts exactly the frames the encoder
  produces. \<open>blake3::hash\<close> is the argument \<open>blake3\<close>.
\<close>

section \<open>Header and chunk sequence\<close>

definition BLOB_HEADER_LEN :: nat where "BLOB_HEADER_LEN = 64"
definition BLOB_MAGIC :: "u8 list" where "BLOB_MAGIC = [0x46, 0x4E, 0x53, 0x32]"
definition BLOB_VERSION :: u8 where "BLOB_VERSION = 2"
definition UPLOAD_DIRECTION :: u8 where "UPLOAD_DIRECTION = 1"
definition DOWNLOAD_DIRECTION :: u8 where "DOWNLOAD_DIRECTION = 2"
definition FINAL_CHUNK_FLAG :: u8 where "FINAL_CHUNK_FLAG = 1"

lemmas frame_constants =
  BLOB_HEADER_LEN_def BLOB_MAGIC_def BLOB_VERSION_def UPLOAD_DIRECTION_def DOWNLOAD_DIRECTION_def
  FINAL_CHUNK_FLAG_def BLOB_CHUNK_BYTES_def

record WorkspaceBlobHeader =
  bh_direction :: WorkspaceBlobDirection
  bh_final_chunk :: bool
  bh_transfer_id :: TransferId
  bh_chunk_index :: u64
  bh_offset :: u64
  bh_payload_len :: u32
  bh_chunk_digest :: "u8 list"

definition validate_sequence :: "WorkspaceBlobHeader \<Rightarrow> u64 \<Rightarrow> u64 \<Rightarrow> bool \<Rightarrow> validation" where
  "validate_sequence h expected_index expected_offset is_last =
     fail_if (bh_payload_len h = 0) (validation_error ''payloadLength'' ''empty_payload_forbidden'')
    (fail_if (bh_chunk_index h \<noteq> expected_index) (validation_error ''chunkIndex'' ''out_of_order'')
    (fail_if (bh_offset h \<noteq> expected_offset) (validation_error ''offset'' ''out_of_order'')
    (fail_if (bh_final_chunk h \<noteq> is_last) (validation_error ''final'' ''flag_mismatch'')
    (fail_if (\<not> is_last \<and> bh_payload_len h \<noteq> BLOB_CHUNK_BYTES)
       (validation_error ''payloadLength'' ''non_final_must_be_full'')
    (fail_if (bh_payload_len h > BLOB_CHUNK_BYTES) (validation_error ''payloadLength'' ''limit_exceeded'')
    (Ok ()))))))"

definition compute_blob_digest :: "(u8 list \<Rightarrow> u8 list) \<Rightarrow> u8 list \<Rightarrow> u8 list \<times> u8 list" where
  "compute_blob_digest blake3 payload = (let full = blake3 payload in (full, take 16 full))"

section \<open>Encoding\<close>

definition validate_payload_len :: "nat \<Rightarrow> validation" where
  "validate_payload_len payload_len =
     fail_if (payload_len = 0) (validation_error ''payloadLength'' ''empty_payload_forbidden'')
    (fail_if (payload_len > unat BLOB_CHUNK_BYTES) (validation_error ''payloadLength'' ''limit_exceeded'')
    (Ok ()))"

text \<open>\<open>buf[i..i + src.len()].copy_from_slice(src)\<close>; \<open>copy_within\<close> and \<open>fill\<close> are its instances.\<close>

definition write_at :: "nat \<Rightarrow> 'a list \<Rightarrow> 'a list \<Rightarrow> 'a list" where
  "write_at i src buf = take i buf @ src @ drop (i + length src) buf"

definition direction_byte :: "WorkspaceBlobDirection \<Rightarrow> u8" where
  "direction_byte d = (case d of Upload \<Rightarrow> UPLOAD_DIRECTION | Download \<Rightarrow> DOWNLOAD_DIRECTION)"

definition encode_binary_frame_owned ::
    "(u8 list \<Rightarrow> u8 list) \<Rightarrow> WorkspaceBlobDirection \<Rightarrow> bool \<Rightarrow> TransferId \<Rightarrow> u64 \<Rightarrow> u64 \<Rightarrow> u8 list \<Rightarrow>
     (u8 list, WorkspaceValidationError) result" where
  "encode_binary_frame_owned blake3 direction final_chunk transfer_id chunk_index offset frame =
     fail_if (transfer_uuid transfer_id = 0) (validation_error ''transferId'' ''invalid_uuid'')
    (and_then (validate_payload_len (length frame)) (\<lambda>_.
       let payload_len = length frame;
           chunk_digest = snd (compute_blob_digest blake3 frame);
           frame = frame @ replicate BLOB_HEADER_LEN 0;
           frame = write_at BLOB_HEADER_LEN (take payload_len frame) frame;
           frame = write_at 0 (replicate BLOB_HEADER_LEN 0) frame;
           frame = write_at 0 BLOB_MAGIC frame;
           frame = frame[4 := BLOB_VERSION];
           frame = frame[5 := direction_byte direction];
           frame = frame[6 := of_bool final_chunk * FINAL_CHUNK_FLAG];
           frame = frame[7 := word_of_nat BLOB_HEADER_LEN];
           frame = write_at 8 (to_be (transfer_uuid transfer_id)) frame;
           frame = write_at 24 (to_be chunk_index) frame;
           frame = write_at 32 (to_be offset) frame;
           frame = write_at 40 (to_be (word_of_nat payload_len :: u32)) frame;
           frame = write_at 48 chunk_digest frame
       in Ok frame))"

definition encode_binary_frame ::
    "(u8 list \<Rightarrow> u8 list) \<Rightarrow> WorkspaceBlobDirection \<Rightarrow> bool \<Rightarrow> TransferId \<Rightarrow> u64 \<Rightarrow> u64 \<Rightarrow> u8 list \<Rightarrow>
     (u8 list, WorkspaceValidationError) result" where
  "encode_binary_frame blake3 direction final_chunk transfer_id chunk_index offset payload =
     encode_binary_frame_owned blake3 direction final_chunk transfer_id chunk_index offset payload"

section \<open>Decoding\<close>

definition decode_binary_frame ::
    "uuid_lib \<Rightarrow> (u8 list \<Rightarrow> u8 list) \<Rightarrow> u8 list \<Rightarrow>
     (WorkspaceBlobHeader \<times> u8 list, WorkspaceValidationError) result" where
  "decode_binary_frame lib blake3 frame =
     fail_if (length frame < BLOB_HEADER_LEN) (validation_error ''header'' ''invalid_length'')
    (fail_if (slice 0 4 frame \<noteq> BLOB_MAGIC) (validation_error ''magic'' ''invalid'')
    (fail_if (frame ! 4 \<noteq> BLOB_VERSION) (validation_error ''version'' ''invalid'')
    (and_then
       (if frame ! 5 = UPLOAD_DIRECTION then Ok Upload
        else if frame ! 5 = DOWNLOAD_DIRECTION then Ok Download
        else Err (validation_error ''direction'' ''invalid_enum'')) (\<lambda>direction.
     fail_if (and (frame ! 6) (not FINAL_CHUNK_FLAG) \<noteq> 0) (validation_error ''flags'' ''reserved_bits'')
    (let final_chunk = (and (frame ! 6) FINAL_CHUNK_FLAG \<noteq> 0) in
     fail_if (unat (frame ! 7) \<noteq> BLOB_HEADER_LEN) (validation_error ''headerLength'' ''invalid'')
    (let transfer_uuid = (from_be (slice 8 24 frame) :: uuid) in
     fail_if (transfer_uuid = 0) (validation_error ''transferId'' ''invalid_uuid'')
    (and_then (transfer_id_parse lib (uuid_to_string lib transfer_uuid)) (\<lambda>transfer_id.
     let chunk_index = from_be (slice 24 32 frame);
         offset = from_be (slice 32 40 frame);
         payload_len = (from_be (slice 40 44 frame) :: u32) in
     fail_if (payload_len = 0) (validation_error ''payloadLength'' ''empty_payload_forbidden'')
    (fail_if (payload_len > BLOB_CHUNK_BYTES) (validation_error ''payloadLength'' ''limit_exceeded'')
    (fail_if (length frame \<noteq> BLOB_HEADER_LEN + unat payload_len)
       (validation_error ''payloadLength'' ''frame_mismatch'')
    (fail_if (slice 44 48 frame \<noteq> [0, 0, 0, 0]) (validation_error ''reserved'' ''non_zero'')
    (let payload = drop BLOB_HEADER_LEN frame;
         expected_digest = snd (compute_blob_digest blake3 payload);
         chunk_digest = slice 48 64 frame in
     fail_if (chunk_digest \<noteq> expected_digest) (validation_error ''chunkDigest'' ''mismatch'')
    (Ok (\<lparr>bh_direction = direction, bh_final_chunk = final_chunk, bh_transfer_id = transfer_id,
          bh_chunk_index = chunk_index, bh_offset = offset, bh_payload_len = payload_len,
          bh_chunk_digest = chunk_digest\<rparr>, payload))))))))))))))"

section \<open>The layout of a frame\<close>

definition frame_header ::
    "WorkspaceBlobDirection \<Rightarrow> bool \<Rightarrow> TransferId \<Rightarrow> u64 \<Rightarrow> u64 \<Rightarrow> u32 \<Rightarrow> u8 list \<Rightarrow> u8 list" where
  "frame_header direction final_chunk transfer_id chunk_index offset payload_len chunk_digest =
     BLOB_MAGIC @ [BLOB_VERSION, direction_byte direction, of_bool final_chunk * FINAL_CHUNK_FLAG, 64] @
     to_be (transfer_uuid transfer_id) @ to_be chunk_index @ to_be offset @ to_be payload_len @
     [0, 0, 0, 0] @ chunk_digest"

lemma length_frame_header [simp]:
  "length (frame_header d fin t i off n dg) = 48 + length dg"
  by (simp add: frame_header_def BLOB_MAGIC_def)

lemma length_write_at [simp]: "i + length src \<le> length buf \<Longrightarrow> length (write_at i src buf) = length buf"
  by (simp add: write_at_def)

lemma write_at_append:
  "length old = length src \<Longrightarrow> write_at (length a) src (a @ old @ rest) = a @ src @ rest"
  by (simp add: write_at_def)

lemma write_header_fields:
  assumes "length u = 16" "length ci = 8" "length off = 8" "length n = 4" "length dg = 16"
  shows "write_at 48 dg (write_at 40 n (write_at 32 off (write_at 24 ci (write_at 8 u
      ((write_at 0 BLOB_MAGIC (replicate 64 0 @ payload))[4 := v, 5 := d, 6 := fl, 7 := hl]))))) =
    BLOB_MAGIC @ [v, d, fl, hl] @ u @ ci @ off @ n @ [0, 0, 0, 0] @ dg @ payload"
proof -
  have zeros: "replicate 64 (0 :: u8) = [0, 0, 0, 0, 0, 0, 0, 0] @ replicate 16 0 @ replicate 8 0 @
      replicate 8 0 @ replicate 4 0 @ [0, 0, 0, 0] @ replicate 16 0"
    by code_simp
  have head: "(write_at 0 BLOB_MAGIC ([0, 0, 0, 0, 0, 0, 0, 0] @ x))[4 := v, 5 := d, 6 := fl, 7 := hl] =
      (BLOB_MAGIC @ [v, d, fl, hl]) @ x" for x
    by (simp add: write_at_def BLOB_MAGIC_def)
  have fields: "write_at 48 dg (write_at 40 n (write_at 32 off (write_at 24 ci (write_at 8 u
      (h @ replicate 16 0 @ replicate 8 0 @ replicate 8 0 @ replicate 4 0 @ z @ replicate 16 0 @ payload))))) =
      h @ u @ ci @ off @ n @ z @ dg @ payload" if "length h = 8" "length z = 4" for h z
    using assms that by (simp add: write_at_def)
  show ?thesis
    unfolding zeros append_assoc head
    using fields [of "BLOB_MAGIC @ [v, d, fl, hl]" "[0, 0, 0, 0]"] by (simp add: BLOB_MAGIC_def)
qed

lemma encode_binary_frame_owned_eq:
  assumes "length (blake3 payload) = 32" "transfer_uuid t \<noteq> 0" "validate_payload_len (length payload) = Ok ()"
  shows "encode_binary_frame_owned blake3 d fin t i off payload =
    Ok (frame_header d fin t i off (word_of_nat (length payload)) (take 16 (blake3 payload)) @ payload)"
proof -
  have moved: "write_at 0 (replicate 64 0) (write_at 64 (take (length payload) (payload @ replicate 64 0))
      (payload @ replicate 64 0)) = replicate 64 0 @ payload"
    by (simp add: write_at_def)
  show ?thesis
    using assms
    by (simp add: encode_binary_frame_owned_def compute_blob_digest_def Let_def BLOB_HEADER_LEN_def
        moved [simplified] write_header_fields frame_header_def)
qed

section \<open>The decoder accepts exactly the encoder's frames\<close>

lemma frame_decompose:
  assumes "64 \<le> length f"
  shows "f = slice 0 4 f @ [f ! 4, f ! 5, f ! 6, f ! 7] @ slice 8 24 f @ slice 24 32 f @ slice 32 40 f @
    slice 40 44 f @ slice 44 48 f @ slice 48 64 f @ drop 64 f"
proof -
  have bytes: "[f ! 4, f ! 5, f ! 6, f ! 7] = slice 4 8 f"
    using slice_single [of 4 f] slice_single [of 5 f] slice_single [of 6 f] slice_single [of 7 f] assms
      slice_join [of 4 5 8 f] slice_join [of 5 6 8 f] slice_join [of 6 7 8 f] by simp
  show ?thesis
    unfolding bytes
    by (simp add: slice_join slice_drop del: append_assoc flip: append_assoc)
qed

lemma flag_byte:
  "and b (not 1) = (0 :: u8) \<longleftrightarrow> b = of_bool (and b 1 \<noteq> 0)"
proof -
  have "and b (not 1) = 0 \<longleftrightarrow> b = and b 1"
    by (auto simp: bit_eq_iff bit_simps)
  moreover have "and b 1 = of_bool (and b 1 \<noteq> 0)"
    by (simp add: and_one_eq mod2_eq_if)
  ultimately show ?thesis by simp
qed

lemma direction_byte_iff:
  "direction_byte d = b \<longleftrightarrow>
     (if b = UPLOAD_DIRECTION then d = Upload else b = DOWNLOAD_DIRECTION \<and> d = Download)"
  by (cases d) (auto simp: direction_byte_def frame_constants)

lemma frame_fields:
  assumes "f = frame_header d fin t i off n dg @ p" "length dg = 16"
  shows "slice 0 4 f = BLOB_MAGIC" "f ! 4 = BLOB_VERSION" "f ! 5 = direction_byte d"
    "f ! 6 = of_bool fin" "f ! 7 = 64" "slice 8 24 f = to_be (transfer_uuid t)"
    "slice 24 32 f = to_be i" "slice 32 40 f = to_be off" "slice 40 44 f = to_be n"
    "slice 44 48 f = [0, 0, 0, 0]" "slice 48 64 f = dg" "drop 64 f = p" "length f = 64 + length p"
  using assms(2) unfolding assms(1) by (simp_all add: frame_header_def frame_constants slice_def)

lemma from_be_to_be_uuid [simp, bytes_simps]: "from_be (to_be (u :: uuid)) = u"
  by (rule from_be_to_be [where k = 16]) simp

lemma transfer_id_parse_to_string:
  "uuid_law lib \<Longrightarrow> transfer_id_parse lib (uuid_to_string lib u) = Ok (TransferId u)"
  by (simp add: transfer_id_parse_def uuid_newtype_parse_def uuid_law_def)

definition header_wf :: "(u8 list \<Rightarrow> u8 list) \<Rightarrow> WorkspaceBlobHeader \<Rightarrow> u8 list \<Rightarrow> bool" where
  "header_wf blake3 h p \<longleftrightarrow>
     transfer_uuid (bh_transfer_id h) \<noteq> 0 \<and> p \<noteq> [] \<and> length p \<le> 1048576 \<and>
     bh_payload_len h = word_of_nat (length p) \<and> bh_chunk_digest h = take 16 (blake3 p)"

definition header_bytes :: "WorkspaceBlobHeader \<Rightarrow> u8 list" where
  "header_bytes h = frame_header (bh_direction h) (bh_final_chunk h) (bh_transfer_id h)
     (bh_chunk_index h) (bh_offset h) (bh_payload_len h) (bh_chunk_digest h)"

lemma payload_len_iff:
  "n = word_of_nat (length p) \<and> p \<noteq> [] \<and> length p \<le> 1048576 \<longleftrightarrow>
     n \<noteq> 0 \<and> \<not> n > BLOB_CHUNK_BYTES \<and> length p = unat (n :: u32)"
proof -
  have "unat (word_of_nat (length p) :: u32) = length p" if "length p \<le> 1048576"
    using that by (simp add: unsigned_of_nat take_bit_nat_eq_self)
  then show ?thesis
    by (auto simp: unat_order BLOB_CHUNK_BYTES_def unat_eq_zero)
qed

lemma decode_encoded:
  assumes "uuid_law lib" "length (bh_chunk_digest h) = 16" "header_wf blake3 h p"
  shows "decode_binary_frame lib blake3 (header_bytes h @ p) = Ok (h, p)"
proof -
  have n: "bh_payload_len h \<noteq> 0" "\<not> bh_payload_len h > BLOB_CHUNK_BYTES" "length p = unat (bh_payload_len h)"
    using assms(3) payload_len_iff [of "bh_payload_len h" p] by (auto simp: header_wf_def)
  define f where "f = header_bytes h @ p"
  have "f = frame_header (bh_direction h) (bh_final_chunk h) (bh_transfer_id h)
      (bh_chunk_index h) (bh_offset h) (bh_payload_len h) (bh_chunk_digest h) @ p"
    by (simp add: f_def header_bytes_def)
  note fields = frame_fields [OF this assms(2)]
  have "decode_binary_frame lib blake3 f = Ok (h, p)"
    using assms n
    by (cases "bh_direction h"; cases "bh_final_chunk h"; cases h)
      (simp_all add: decode_binary_frame_def Let_def fields BLOB_HEADER_LEN_def direction_byte_def
        transfer_id_parse_to_string compute_blob_digest_def header_wf_def
        UPLOAD_DIRECTION_def DOWNLOAD_DIRECTION_def FINAL_CHUNK_FLAG_def)
  then show ?thesis by (simp add: f_def)
qed

lemma decode_accepted:
  assumes "uuid_law lib" "decode_binary_frame lib blake3 f = Ok (h, p)"
  shows "f = header_bytes h @ p" "header_wf blake3 h p"
proof -
  have len: "64 \<le> length f" and dec:
    "slice 0 4 f = BLOB_MAGIC" "f ! 4 = BLOB_VERSION" "direction_byte (bh_direction h) = f ! 5"
    "and (f ! 6) (not 1) = 0" "bh_final_chunk h = (and (f ! 6) 1 \<noteq> 0)" "unat (f ! 7) = 64"
    "bh_transfer_id h = TransferId (from_be (slice 8 24 f))" "from_be (slice 8 24 f) \<noteq> (0 :: uuid)"
    "bh_chunk_index h = from_be (slice 24 32 f)" "bh_offset h = from_be (slice 32 40 f)"
    "bh_payload_len h = from_be (slice 40 44 f)" "slice 44 48 f = [0, 0, 0, 0]"
    "bh_payload_len h \<noteq> 0" "\<not> bh_payload_len h > BLOB_CHUNK_BYTES"
    "length f = 64 + unat (bh_payload_len h)" "p = drop 64 f" "bh_chunk_digest h = slice 48 64 f"
    "bh_chunk_digest h = take 16 (blake3 p)"
    using assms(2)
    by (auto simp: decode_binary_frame_def Let_def result_simps transfer_id_parse_to_string [OF assms(1)]
        compute_blob_digest_def BLOB_HEADER_LEN_def direction_byte_def FINAL_CHUNK_FLAG_def
        split: if_splits)
  have fl: "f ! 6 = of_bool (bh_final_chunk h) * FINAL_CHUNK_FLAG"
    using dec(4,5) flag_byte [of "f ! 6"] by (simp only: FINAL_CHUNK_FLAG_def mult_1_right)
  have hl: "f ! 7 = 64"
    using dec(6) by (simp add: word_unat_eq_iff)
  have words: "to_be (from_be (slice 8 24 f) :: uuid) = slice 8 24 f"
    "to_be (from_be (slice 24 32 f) :: u64) = slice 24 32 f"
    "to_be (from_be (slice 32 40 f) :: u64) = slice 32 40 f"
    "to_be (from_be (slice 40 44 f) :: u32) = slice 40 44 f"
    using len by (auto intro!: to_be_from_be simp: length_slice)
  have "header_bytes h @ p = slice 0 4 f @ [f ! 4, f ! 5, f ! 6, f ! 7] @ slice 8 24 f @
      slice 24 32 f @ slice 32 40 f @ slice 40 44 f @ slice 44 48 f @ slice 48 64 f @ drop 64 f"
    by (simp only: header_bytes_def frame_header_def dec(1,2,3,7,9,10,11,12,16,17) fl hl words
        TransferId.sel append_assoc)
  then show "f = header_bytes h @ p" using frame_decompose [OF len] by argo
  have "length p = unat (bh_payload_len h)" using dec by simp
  with dec payload_len_iff [of "bh_payload_len h" p] show "header_wf blake3 h p"
    by (simp add: header_wf_def)
qed

lemma encode_Ok_iff:
  assumes "length (blake3 p) = 32" "bh_payload_len h = word_of_nat (length p)"
    "bh_chunk_digest h = take 16 (blake3 p)"
  shows "encode_binary_frame blake3 (bh_direction h) (bh_final_chunk h) (bh_transfer_id h)
      (bh_chunk_index h) (bh_offset h) p = Ok f \<longleftrightarrow> header_wf blake3 h p \<and> f = header_bytes h @ p"
proof -
  have len: "validate_payload_len (length p) = Ok () \<longleftrightarrow> p \<noteq> [] \<and> length p \<le> 1048576"
    by (simp add: validate_payload_len_def result_simps BLOB_CHUNK_BYTES_def not_less)
  show ?thesis
  proof (cases "transfer_uuid (bh_transfer_id h) \<noteq> 0 \<and> validate_payload_len (length p) = Ok ()")
    case True
    then show ?thesis
      using assms encode_binary_frame_owned_eq [of blake3 p "bh_transfer_id h"] len
      by (auto simp: encode_binary_frame_def header_wf_def header_bytes_def)
  next
    case False
    then show ?thesis
      using assms len
      by (auto simp: encode_binary_frame_def encode_binary_frame_owned_def header_wf_def result_simps Let_def)
  qed
qed

text \<open>
  C3: The blob frame codec is exact: a byte string decodes to a header and a payload if and only if
  encoding that payload with the header's direction, final flag, transfer, index and offset gives
  that byte string, and then the header's length and digest are the payload's. So every encoded
  frame decodes to what was encoded, and no other byte string is accepted. The UUID library parses
  what it prints, and the hash has 32 bytes.
\<close>

theorem binary_frame_codec:
  assumes "uuid_law lib" "\<And>q. length (blake3 q) = 32"
  shows "decode_binary_frame lib blake3 f = Ok (h, p) \<longleftrightarrow>
    encode_binary_frame blake3 (bh_direction h) (bh_final_chunk h) (bh_transfer_id h)
      (bh_chunk_index h) (bh_offset h) p = Ok f \<and>
    bh_payload_len h = word_of_nat (length p) \<and> bh_chunk_digest h = take 16 (blake3 p)"
proof
  assume dec: "decode_binary_frame lib blake3 f = Ok (h, p)"
  note acc = decode_accepted [OF assms(1) dec]
  then show "encode_binary_frame blake3 (bh_direction h) (bh_final_chunk h) (bh_transfer_id h)
      (bh_chunk_index h) (bh_offset h) p = Ok f \<and>
    bh_payload_len h = word_of_nat (length p) \<and> bh_chunk_digest h = take 16 (blake3 p)"
    using assms(2) [of p] encode_Ok_iff [of blake3 p h f] by (simp add: header_wf_def)
next
  assume enc: "encode_binary_frame blake3 (bh_direction h) (bh_final_chunk h) (bh_transfer_id h)
      (bh_chunk_index h) (bh_offset h) p = Ok f \<and>
    bh_payload_len h = word_of_nat (length p) \<and> bh_chunk_digest h = take 16 (blake3 p)"
  then have "header_wf blake3 h p" "f = header_bytes h @ p"
    using assms(2) [of p] encode_Ok_iff [of blake3 p h f] by simp_all
  with decode_encoded [OF assms(1) _ this(1)] assms(2) [of p] enc
  show "decode_binary_frame lib blake3 f = Ok (h, p)" by simp
qed

theorem binary_frame_codec_witness:
  "\<exists>f h. decode_binary_frame raw_uuid_lib (\<lambda>q. replicate 32 (last q)) f = Ok (h, [7, 9]) \<and>
     length f = 66 \<and> bh_offset h = 1048576 \<and> bh_chunk_index h = 1"
proof -
  let ?b = "\<lambda>q :: u8 list. replicate 32 (last q)"
  define h where "h = \<lparr>bh_direction = Upload, bh_final_chunk = True, bh_transfer_id = TransferId 5,
    bh_chunk_index = 1, bh_offset = 1048576, bh_payload_len = 2, bh_chunk_digest = replicate 16 9\<rparr>"
  have "encode_binary_frame ?b Upload True (TransferId 5) 1 1048576 [7, 9] = Ok (header_bytes h @ [7, 9])"
    using encode_Ok_iff [of ?b "[7, 9]" h "header_bytes h @ [7, 9]"] by (simp add: h_def header_wf_def)
  then have "decode_binary_frame raw_uuid_lib ?b (header_bytes h @ [7, 9]) = Ok (h, [7, 9])"
    using binary_frame_codec [of raw_uuid_lib ?b "header_bytes h @ [7, 9]" h "[7, 9]"]
    by (simp add: raw_uuid_law h_def)
  moreover have "length (header_bytes h @ [7, 9]) = 66"
    by (simp add: header_bytes_def h_def)
  ultimately show ?thesis by (intro exI [of _ "header_bytes h @ [7, 9]"] exI [of _ h]) (simp add: h_def)
qed

end
