(* ===== verification/Protocol_Messages.thy ===== *)
theory Protocol_Messages
  imports Protocol_Values
begin

text \<open>
  The messages of the workspace protocol and their validation (\<open>fns-protocol/src/message.rs\<close>): one
  record per struct and one \<open>validate\<close> function per method, as the code's sequence of checks. The
  lemmas \<open>..._Ok_iff\<close> turn the checks into the invariant a validated message has, which is what the
  synchronisation engine relies on.
\<close>

section \<open>Shared checks\<close>

definition validate_required_null :: "string \<Rightarrow> 'a RequiredNullable \<Rightarrow> validation" where
  "validate_required_null fld v = (if is_null v then Ok () else Err (validation_error fld ''must_be_null''))"

definition validate_blob_size :: "u64 \<Rightarrow> validation" where
  "validate_blob_size sz =
     (if sz > MAX_BLOB_BYTES then Err (validation_error ''size'' ''limit_exceeded'') else Ok ())"

definition blob_chunk_count :: "u64 \<Rightarrow> u64" where
  "blob_chunk_count sz = (if sz = 0 then 0 else (sz - 1) div ucast BLOB_CHUNK_BYTES + 1)"

section \<open>Session messages\<close>

record WorkspaceHelloRequest =
  hq_protocol_version :: string
  hq_client_id :: ClientId
  hq_client_version :: string
  hq_capabilities :: "string list"

definition hello_request_validate :: "WorkspaceHelloRequest \<Rightarrow> validation" where
  "hello_request_validate m =
     fail_if (hq_protocol_version m \<noteq> ''2'') (validation_error ''protocolVersion'' ''unsupported'')
    (fail_if (hq_client_version m = []) (validation_error ''clientVersion'' ''required'')
    (let expected = [''binary_chunks'', ''conflicts'', ''snapshot_v1''] in
     fail_if (length (hq_capabilities m) \<noteq> length expected \<or> hq_capabilities m \<noteq> expected)
       (validation_error ''capabilities'' ''required_set'')
    (Ok ())))"

record WorkspaceHelloResponse =
  hr_protocol_version :: string
  hr_server_version :: string
  hr_max_control_frame_bytes :: u32
  hr_max_binary_chunk_bytes :: u32
  hr_max_blob_bytes :: u64
  hr_max_transfers_per_connection :: u32
  hr_heartbeat_seconds :: u32

definition hello_response_validate :: "WorkspaceHelloResponse \<Rightarrow> validation" where
  "hello_response_validate m =
     fail_if (hr_protocol_version m \<noteq> ''2'' \<or> hr_server_version m = [])
       (validation_error ''hello'' ''invalid_version'')
    (fail_if
       (hr_max_control_frame_bytes m \<noteq> 65536 \<or> hr_max_binary_chunk_bytes m \<noteq> BLOB_CHUNK_BYTES \<or>
        hr_max_blob_bytes m \<noteq> MAX_BLOB_BYTES \<or> hr_max_transfers_per_connection m \<noteq> 4 \<or>
        hr_heartbeat_seconds m \<noteq> 25)
       (validation_error ''hello'' ''invalid_limits'')
    (Ok ()))"

record WorkspaceSubscribeRequest =
  sq_workspace_id :: WorkspaceId
  sq_client_id :: ClientId
  sq_last_ack_revision :: WorkspaceRevision

definition subscribe_request_validate :: "WorkspaceSubscribeRequest \<Rightarrow> validation" where
  "subscribe_request_validate m = Ok ()"

section \<open>Path states and snapshot streams\<close>

record WorkspacePathState =
  ps_path :: WorkspacePath
  ps_path_revision :: WorkspaceRevision
  ps_kind :: WorkspaceEntryKind
  ps_content_hash :: "WorkspaceContentHash RequiredNullable"
  ps_metadata :: WorkspaceFileMetadata
  ps_tombstone :: bool

definition path_state_validate :: "WorkspacePathState \<Rightarrow> validation" where
  "path_state_validate s =
     fail_if (ps_tombstone s \<noteq> (ps_kind s = Tombstone)) (validation_error ''tombstone'' ''kind_mismatch'')
    (and_then
       (if ps_kind s = File \<or> ps_kind s = Symlink then
          fail_if (is_null (ps_content_hash s)) (validation_error ''contentHash'' ''required_for_kind'') (Ok ())
        else
          fail_if (\<not> is_null (ps_content_hash s)) (validation_error ''contentHash'' ''must_be_null_for_kind'')
            (Ok ()))
       (\<lambda>_. metadata_validate (ps_metadata s) (ps_kind s)))"

record WorkspaceSnapshotBeginMessage =
  sb_workspace_id :: WorkspaceId
  sb_stream_id :: StreamId
  sb_mode :: WorkspaceSnapshotMode
  sb_from_revision :: WorkspaceRevision
  sb_final_revision :: WorkspaceRevision
  sb_entry_count :: u32
  sb_event_count :: u32
  sb_conflict_count :: u32

definition snapshot_begin_validate :: "WorkspaceSnapshotBeginMessage \<Rightarrow> validation" where
  "snapshot_begin_validate m =
     fail_if (sb_final_revision m < sb_from_revision m) (validation_error ''finalRevision'' ''before_from_revision'')
    (if sb_mode m = Snapshot \<and> sb_event_count m \<noteq> 0 then
       Err (validation_error ''eventCount'' ''must_be_zero_for_snapshot'')
     else if sb_mode m = Incremental \<and> sb_entry_count m \<noteq> 0 then
       Err (validation_error ''entryCount'' ''must_be_zero_for_incremental'')
     else Ok ())"

record WorkspaceSnapshotEntryMessage =
  se_workspace_id :: WorkspaceId
  se_stream_id :: StreamId
  se_index :: u32
  se_entry :: WorkspacePathState

definition snapshot_entry_validate :: "WorkspaceSnapshotEntryMessage \<Rightarrow> validation" where
  "snapshot_entry_validate m = path_state_validate (se_entry m)"

definition snapshot_entry_validate_at :: "WorkspaceSnapshotEntryMessage \<Rightarrow> u32 \<Rightarrow> validation" where
  "snapshot_entry_validate_at m expected_index =
     fail_if (se_index m \<noteq> expected_index) (validation_error ''index'' ''stream_gap'')
    (snapshot_entry_validate m)"

record WorkspaceSnapshotEndMessage =
  sn_workspace_id :: WorkspaceId
  sn_stream_id :: StreamId
  sn_mode :: WorkspaceSnapshotMode
  sn_delivered_count :: u32
  sn_final_revision :: WorkspaceRevision

definition snapshot_end_validate :: "WorkspaceSnapshotEndMessage \<Rightarrow> validation" where
  "snapshot_end_validate m = Ok ()"

definition snapshot_end_validate_against ::
    "WorkspaceSnapshotEndMessage \<Rightarrow> WorkspaceSnapshotBeginMessage \<Rightarrow> validation" where
  "snapshot_end_validate_against m begn =
     and_then (snapshot_begin_validate begn) (\<lambda>_.
     fail_if
       (sn_workspace_id m \<noteq> sb_workspace_id begn \<or> sn_stream_id m \<noteq> sb_stream_id begn \<or>
        sn_mode m \<noteq> sb_mode begn \<or> sn_final_revision m \<noteq> sb_final_revision begn)
       (validation_error ''snapshotEnd'' ''begin_mismatch'')
    (let selected_count = (case sb_mode begn of Snapshot \<Rightarrow> sb_entry_count begn
                                              | Incremental \<Rightarrow> sb_event_count begn) in
     and_then (ok_or (checked_add selected_count (sb_conflict_count begn))
                 (validation_error ''deliveredCount'' ''count_overflow'')) (\<lambda>expected.
     fail_if (sn_delivered_count m \<noteq> expected) (validation_error ''deliveredCount'' ''count_mismatch'')
    (Ok ()))))"

section \<open>Mutations\<close>

record WorkspaceMutation =
  wm_workspace_id :: WorkspaceId
  wm_client_id :: ClientId
  wm_operation_id :: OperationId
  wm_path :: WorkspacePath
  wm_base_path_revision :: WorkspaceRevision
  wm_kind :: WorkspaceMutationKind
  wm_content_hash :: "WorkspaceContentHash RequiredNullable"
  wm_metadata :: WorkspaceFileMetadata
  wm_new_path :: "WorkspacePath option"
  wm_target_base_path_revision :: "WorkspaceRevision option"

definition mutation_validate_paths :: "WorkspaceMutation \<Rightarrow> validation" where
  "mutation_validate_paths m =
     (if wm_kind m = WorkspaceMutationKind.Rename then
        and_then (ok_or (wm_new_path m) (validation_error ''newPath'' ''required_for_rename'')) (\<lambda>new_path.
        fail_if (wm_target_base_path_revision m = None)
          (validation_error ''targetBasePathRevision'' ''required_for_rename'')
       (fail_if (new_path = wm_path m) (validation_error ''newPath'' ''same_as_path'')
       (fail_if (starts_with (path_str new_path) (path_str (wm_path m) @ ''/''))
          (validation_error ''newPath'' ''directory_into_child'')
       (Ok ()))))
      else
        fail_if (wm_new_path m \<noteq> None) (validation_error ''newPath'' ''forbidden_for_kind'')
       (fail_if (wm_target_base_path_revision m \<noteq> None)
          (validation_error ''targetBasePathRevision'' ''forbidden_for_kind'')
       (Ok ())))"

definition mutation_validate_content :: "WorkspaceMutation \<Rightarrow> validation" where
  "mutation_validate_content m =
     (case wm_kind m of
        UpsertFile \<Rightarrow>
          fail_if (is_null (wm_content_hash m)) (validation_error ''contentHash'' ''required_for_kind'')
            (metadata_validate (wm_metadata m) File)
      | UpsertSymlink \<Rightarrow>
          fail_if (is_null (wm_content_hash m)) (validation_error ''contentHash'' ''required_for_kind'')
            (metadata_validate (wm_metadata m) Symlink)
      | Mkdir \<Rightarrow>
          fail_if (\<not> is_null (wm_content_hash m)) (validation_error ''contentHash'' ''must_be_null_for_kind'')
            (metadata_validate (wm_metadata m) Directory)
      | WorkspaceMutationKind.Delete \<Rightarrow>
          fail_if (\<not> is_null (wm_content_hash m)) (validation_error ''contentHash'' ''must_be_null_for_kind'')
            (metadata_validate (wm_metadata m) Tombstone)
      | WorkspaceMutationKind.Rename \<Rightarrow> Ok ())"

definition mutation_validate :: "WorkspaceMutation \<Rightarrow> validation" where
  "mutation_validate m = and_then (mutation_validate_paths m) (\<lambda>_. mutation_validate_content m)"

record WorkspaceMutationAcceptedMessage =
  ma_workspace_id :: WorkspaceId
  ma_client_id :: ClientId
  ma_operation_id :: OperationId
  ma_revision :: WorkspaceRevision
  ma_path_state :: WorkspacePathState
  ma_old_path_state :: "WorkspacePathState option"
  ma_new_path_state :: "WorkspacePathState option"

definition mutation_accepted_validate :: "WorkspaceMutationAcceptedMessage \<Rightarrow> validation" where
  "mutation_accepted_validate m =
     fail_if (ma_revision m = ZERO \<or> ps_path_revision (ma_path_state m) \<noteq> ma_revision m)
       (validation_error ''revision'' ''path_state_mismatch'')
    (and_then (path_state_validate (ma_path_state m)) (\<lambda>_.
     fail_if ((ma_old_path_state m \<noteq> None) \<noteq> (ma_new_path_state m \<noteq> None))
       (validation_error ''pathState'' ''rename_pair_required'')
    (case (ma_old_path_state m, ma_new_path_state m) of
       (Some old, Some new) \<Rightarrow>
         and_then (path_state_validate old) (\<lambda>_.
         and_then (path_state_validate new) (\<lambda>_.
         fail_if (ps_path old = ps_path new) (validation_error ''oldPathState.path'' ''rename_path_required'')
        (fail_if (ps_path_revision old \<noteq> ma_revision m)
           (validation_error ''oldPathState.pathRevision'' ''revision_mismatch'')
        (fail_if (ps_path_revision new \<noteq> ma_revision m)
           (validation_error ''newPathState.pathRevision'' ''revision_mismatch'')
        (fail_if (ma_path_state m \<noteq> new) (validation_error ''pathState'' ''new_path_state_mismatch'')
        (Ok ()))))))
     | _ \<Rightarrow> Ok ())))"

record WorkspaceMutationRejectedMessage =
  mr_workspace_id :: WorkspaceId
  mr_client_id :: ClientId
  mr_operation_id :: OperationId
  mr_reason :: WorkspaceMutationRejectReason
  mr_current_path_state :: "WorkspacePathState RequiredNullable"
  mr_conflict_id :: "ConflictId RequiredNullable"
  mr_required_hash :: "WorkspaceContentHash RequiredNullable"

definition mutation_rejected_validate :: "WorkspaceMutationRejectedMessage \<Rightarrow> validation" where
  "mutation_rejected_validate m =
     and_then (case mr_current_path_state m of Value state \<Rightarrow> path_state_validate state | Null \<Rightarrow> Ok ()) (\<lambda>_.
     case mr_reason m of
       ConflictCreated \<Rightarrow>
         fail_if (is_null (mr_conflict_id m)) (validation_error ''conflictId'' ''required_for_reason'')
        (fail_if (\<not> is_null (mr_required_hash m)) (validation_error ''requiredHash'' ''forbidden_for_reason'')
        (Ok ()))
     | WorkspaceMutationRejectReason.BlobRequired \<Rightarrow>
         fail_if (is_null (mr_required_hash m) \<or> \<not> is_null (mr_conflict_id m))
           (validation_error ''requiredHash'' ''required_for_reason'') (Ok ())
     | _ \<Rightarrow>
         fail_if (\<not> is_null (mr_conflict_id m) \<or> \<not> is_null (mr_required_hash m))
           (validation_error ''reason'' ''payload_mismatch'') (Ok ()))"

section \<open>Events and acknowledgements\<close>

record WorkspaceEventMessage =
  ev_workspace_id :: WorkspaceId
  ev_stream_id :: StreamId
  ev_index :: u32
  ev_revision :: WorkspaceRevision
  ev_operation_id :: OperationId
  ev_origin_client_id :: ClientId
  ev_mutation :: WorkspaceMutation
  ev_path_state :: WorkspacePathState
  ev_old_path_state :: "WorkspacePathState option"
  ev_new_path_state :: "WorkspacePathState option"

definition event_validate_states :: "WorkspaceEventMessage \<Rightarrow> validation" where
  "event_validate_states m =
     (if wm_kind (ev_mutation m) = WorkspaceMutationKind.Rename then
        (case (ev_old_path_state m, ev_new_path_state m, wm_new_path (ev_mutation m)) of
           (Some old, Some new, Some expected_new_path) \<Rightarrow>
             and_then (path_state_validate old) (\<lambda>_.
             and_then (path_state_validate new) (\<lambda>_.
             fail_if (ps_path old \<noteq> wm_path (ev_mutation m))
               (validation_error ''oldPathState.path'' ''mutation_path_mismatch'')
            (fail_if (ps_path new \<noteq> expected_new_path)
               (validation_error ''newPathState.path'' ''mutation_new_path_mismatch'')
            (fail_if (ps_path_revision old \<noteq> ev_revision m)
               (validation_error ''oldPathState.pathRevision'' ''revision_mismatch'')
            (fail_if (ps_path_revision new \<noteq> ev_revision m)
               (validation_error ''newPathState.pathRevision'' ''revision_mismatch'')
            (fail_if (ev_path_state m \<noteq> new) (validation_error ''pathState'' ''new_path_state_mismatch'')
            (Ok ())))))))
         | _ \<Rightarrow> Err (validation_error ''pathState'' ''rename_pair_required''))
      else
        fail_if (ev_old_path_state m \<noteq> None \<or> ev_new_path_state m \<noteq> None)
          (validation_error ''pathState'' ''forbidden_for_kind'')
       (Ok ()))"

definition event_validate :: "WorkspaceEventMessage \<Rightarrow> validation" where
  "event_validate m =
     and_then (mutation_validate (ev_mutation m)) (\<lambda>_.
     fail_if
       (wm_workspace_id (ev_mutation m) \<noteq> ev_workspace_id m \<or>
        wm_operation_id (ev_mutation m) \<noteq> ev_operation_id m \<or>
        wm_client_id (ev_mutation m) \<noteq> ev_origin_client_id m)
       (validation_error ''mutation'' ''event_identity_mismatch'')
    (fail_if (ps_path_revision (ev_path_state m) \<noteq> ev_revision m)
       (validation_error ''pathState.pathRevision'' ''revision_mismatch'')
    (and_then (path_state_validate (ev_path_state m)) (\<lambda>_. event_validate_states m))))"

definition event_validate_after :: "WorkspaceEventMessage \<Rightarrow> u32 \<Rightarrow> WorkspaceRevision \<Rightarrow> validation" where
  "event_validate_after m previous_index previous_revision =
     fail_if (checked_add previous_index 1 \<noteq> Some (ev_index m)) (validation_error ''index'' ''stream_gap'')
    (fail_if (ev_revision m \<le> previous_revision) (validation_error ''revision'' ''not_strictly_increasing'')
    (event_validate m))"

record WorkspaceAckRequest =
  ack_workspace_id :: WorkspaceId
  ack_client_id :: ClientId
  ack_revision :: WorkspaceRevision

definition ack_request_validate :: "WorkspaceAckRequest \<Rightarrow> validation" where
  "ack_request_validate m = Ok ()"

definition ack_validate_between :: "WorkspaceAckRequest \<Rightarrow> WorkspaceRevision \<Rightarrow> WorkspaceRevision \<Rightarrow> validation" where
  "ack_validate_between m previous delivered =
     fail_if (ack_revision m \<le> previous) (validation_error ''revision'' ''ack_regression'')
    (fail_if (ack_revision m > delivered) (validation_error ''revision'' ''ack_overshoot'')
    (Ok ()))"

section \<open>Blob transfers\<close>

record WorkspaceBlobNeedUploadPush =
  nu_workspace_id :: WorkspaceId
  nu_direction :: WorkspaceBlobDirection
  nu_operation_id :: OperationId
  nu_content_hash :: WorkspaceContentHash
  nu_size :: u64

definition need_upload_validate :: "WorkspaceBlobNeedUploadPush \<Rightarrow> validation" where
  "need_upload_validate m =
     fail_if (nu_direction m \<noteq> Upload) (validation_error ''direction'' ''must_be_upload'')
    (validate_blob_size (nu_size m))"

record WorkspaceBlobNeedDownloadRequest =
  nd_workspace_id :: WorkspaceId
  nd_direction :: WorkspaceBlobDirection
  nd_operation_id :: "OperationId RequiredNullable"
  nd_content_hash :: WorkspaceContentHash
  nd_size :: "u64 RequiredNullable"

definition need_download_request_validate :: "WorkspaceBlobNeedDownloadRequest \<Rightarrow> validation" where
  "need_download_request_validate m =
     fail_if (nd_direction m \<noteq> Download) (validation_error ''direction'' ''must_be_download'')
    (and_then (validate_required_null ''operationId'' (nd_operation_id m)) (\<lambda>_.
     validate_required_null ''size'' (nd_size m)))"

record WorkspaceBlobNeedDownloadResponse =
  nr_workspace_id :: WorkspaceId
  nr_direction :: WorkspaceBlobDirection
  nr_operation_id :: "OperationId RequiredNullable"
  nr_content_hash :: WorkspaceContentHash
  nr_size :: u64

definition need_download_response_validate :: "WorkspaceBlobNeedDownloadResponse \<Rightarrow> validation" where
  "need_download_response_validate m =
     fail_if (nr_direction m \<noteq> Download) (validation_error ''direction'' ''must_be_download'')
    (and_then (validate_required_null ''operationId'' (nr_operation_id m)) (\<lambda>_.
     validate_blob_size (nr_size m)))"

record WorkspaceBlobBeginMessage =
  bb_workspace_id :: WorkspaceId
  bb_transfer_id :: TransferId
  bb_direction :: WorkspaceBlobDirection
  bb_content_hash :: WorkspaceContentHash
  bb_size :: u64
  bb_chunk_size :: u32
  bb_chunk_count :: u64

definition blob_begin_validate :: "WorkspaceBlobBeginMessage \<Rightarrow> validation" where
  "blob_begin_validate m =
     and_then (validate_blob_size (bb_size m)) (\<lambda>_.
     fail_if (bb_chunk_size m \<noteq> BLOB_CHUNK_BYTES) (validation_error ''chunkSize'' ''must_equal_limit'')
    (fail_if (bb_chunk_count m \<noteq> blob_chunk_count (bb_size m))
       (validation_error ''chunkCount'' ''arithmetic_mismatch'')
    (Ok ())))"

record WorkspaceBlobEndMessage =
  bn_workspace_id :: WorkspaceId
  bn_transfer_id :: TransferId
  bn_direction :: WorkspaceBlobDirection
  bn_content_hash :: WorkspaceContentHash
  bn_size :: u64
  bn_chunk_count :: u64

definition blob_end_validate :: "WorkspaceBlobEndMessage \<Rightarrow> validation" where
  "blob_end_validate m =
     and_then (validate_blob_size (bn_size m)) (\<lambda>_.
     fail_if (bn_chunk_count m \<noteq> blob_chunk_count (bn_size m))
       (validation_error ''chunkCount'' ''arithmetic_mismatch'')
    (Ok ()))"

section \<open>Conflicts\<close>

record WorkspaceConflictSide =
  cs_path :: "WorkspacePath RequiredNullable"
  cs_path_revision :: WorkspaceRevision
  cs_content_hash :: "WorkspaceContentHash RequiredNullable"
  cs_metadata :: WorkspaceFileMetadata
  cs_tombstone :: bool

definition validate_with_field :: "WorkspaceConflictSide \<Rightarrow> string \<Rightarrow> validation" where
  "validate_with_field s fld =
     fail_if (is_null (cs_path s) \<and> \<not> cs_tombstone s)
       (validation_error (fld @ ''.path'') ''null_requires_tombstone'')
    (if cs_tombstone s then
       fail_if (\<not> is_null (cs_content_hash s))
         (validation_error (fld @ ''.contentHash'') ''must_be_null_for_tombstone'')
      (metadata_validate (cs_metadata s) Tombstone)
     else if is_null (cs_content_hash s) then metadata_validate (cs_metadata s) Directory
     else metadata_validate (cs_metadata s) File)"

definition side_is_live_file_at :: "WorkspaceConflictSide \<Rightarrow> WorkspacePath \<Rightarrow> bool" where
  "side_is_live_file_at side path =
     (\<not> cs_tombstone side \<and> (case cs_path side of Value p \<Rightarrow> p = path | Null \<Rightarrow> False) \<and>
      \<not> is_null (cs_content_hash side))"

record WorkspaceConflictCreatedMessage =
  cc_workspace_id :: WorkspaceId
  cc_conflict_id :: ConflictId
  cc_conflict_revision :: WorkspaceConflictRevision
  cc_path :: WorkspacePath
  cc_kind :: WorkspaceConflictKind
  cc_ancestor :: WorkspaceConflictSide
  cc_current :: WorkspaceConflictSide
  cc_incoming :: WorkspaceConflictSide
  cc_created_by_operation_id :: OperationId

definition conflict_created_validate :: "WorkspaceConflictCreatedMessage \<Rightarrow> validation" where
  "conflict_created_validate m =
     and_then (validate_with_field (cc_ancestor m) ''ancestor'') (\<lambda>_.
     and_then (validate_with_field (cc_current m) ''current'') (\<lambda>_.
     and_then (validate_with_field (cc_incoming m) ''incoming'') (\<lambda>_.
     if cc_kind m = Content \<or> cc_kind m = Binary then
       fail_if (\<not> side_is_live_file_at (cc_current m) (cc_path m)) (validation_error ''current'' ''kind_mismatch'')
      (fail_if (\<not> side_is_live_file_at (cc_incoming m) (cc_path m)) (validation_error ''incoming'' ''kind_mismatch'')
      (Ok ()))
     else if cc_kind m = DeleteModify then
       fail_if (cs_tombstone (cc_current m) = cs_tombstone (cc_incoming m))
         (validation_error ''incoming'' ''kind_mismatch'')
      (let live = (if cs_tombstone (cc_current m) then cc_incoming m else cc_current m) in
       fail_if (\<not> side_is_live_file_at live (cc_path m)) (validation_error ''incoming'' ''kind_mismatch'')
      (Ok ()))
     else
       (case (cs_path (cc_current m), cs_path (cc_incoming m)) of
          (Value current, Value incoming) \<Rightarrow>
            fail_if (cs_tombstone (cc_current m) \<or> cs_tombstone (cc_incoming m))
              (validation_error ''incoming'' ''kind_mismatch'')
           (fail_if (current = incoming) (validation_error ''incoming.path'' ''rename_path_required'')
           (Ok ()))
        | _ \<Rightarrow> Err (validation_error ''incoming'' ''kind_mismatch'')))))"

record WorkspaceConflictResolvedRequest =
  rq_workspace_id :: WorkspaceId
  rq_client_id :: ClientId
  rq_operation_id :: OperationId
  rq_conflict_id :: ConflictId
  rq_conflict_revision :: WorkspaceConflictRevision
  rq_choice :: WorkspaceConflictChoice
  rq_path :: WorkspacePath
  rq_content_hash :: "WorkspaceContentHash RequiredNullable"
  rq_metadata :: WorkspaceFileMetadata

definition validate_side_replay ::
    "WorkspaceConflictResolvedRequest \<Rightarrow> WorkspaceConflictSide \<Rightarrow> validation" where
  "validate_side_replay request side =
     (let matches = \<not> cs_tombstone side \<and>
            (case cs_path side of Value path \<Rightarrow> path = rq_path request | Null \<Rightarrow> False) \<and>
            rq_content_hash request = cs_content_hash side \<and> rq_metadata request = cs_metadata side
      in if matches then Ok () else Err (validation_error ''choice'' ''side_mismatch''))"

definition validate_delete_resolution :: "WorkspaceConflictResolvedRequest \<Rightarrow> validation" where
  "validate_delete_resolution request =
     fail_if (\<not> is_null (rq_content_hash request)) (validation_error ''contentHash'' ''must_be_null_for_delete'')
    (fail_if (md_size (rq_metadata request) \<noteq> 0) (validation_error ''metadata.size'' ''must_be_zero_for_delete'')
    (fail_if (md_modified_at_ms (rq_metadata request) \<noteq> 0)
       (validation_error ''metadata.modifiedAtMs'' ''must_be_zero_for_delete'')
    (fail_if (md_executable (rq_metadata request))
       (validation_error ''metadata.executable'' ''must_be_false_for_delete'')
    (Ok ()))))"

definition conflict_resolved_request_validate :: "WorkspaceConflictResolvedRequest \<Rightarrow> validation" where
  "conflict_resolved_request_validate m =
     (case rq_choice m of
        Merged \<Rightarrow>
          fail_if (is_null (rq_content_hash m)) (validation_error ''contentHash'' ''required_for_merged'')
            (metadata_validate (rq_metadata m) File)
      | WorkspaceConflictChoice.Delete \<Rightarrow> validate_delete_resolution m
      | _ \<Rightarrow> Ok ())"

definition conflict_resolved_request_validate_against ::
    "WorkspaceConflictResolvedRequest \<Rightarrow> WorkspaceConflictCreatedMessage \<Rightarrow> validation" where
  "conflict_resolved_request_validate_against m created =
     fail_if (rq_conflict_revision m \<noteq> cc_conflict_revision created)
       (validation_error ''conflictRevision'' ''conflict_revision_stale'')
    (and_then (conflict_created_validate created) (\<lambda>_.
     fail_if (rq_workspace_id m \<noteq> cc_workspace_id created \<or> rq_conflict_id m \<noteq> cc_conflict_id created)
       (validation_error ''conflictId'' ''conflict_mismatch'')
    (case rq_choice m of
       Current \<Rightarrow> validate_side_replay m (cc_current created)
     | Incoming \<Rightarrow> validate_side_replay m (cc_incoming created)
     | _ \<Rightarrow>
         fail_if (rq_path m \<noteq> cc_path created) (validation_error ''path'' ''conflict_path_mismatch'')
           (conflict_resolved_request_validate m))))"

record WorkspaceConflictResolvedMessage =
  cr_workspace_id :: WorkspaceId
  cr_conflict_id :: ConflictId
  cr_conflict_revision :: WorkspaceConflictRevision
  cr_operation_id :: OperationId
  cr_revision :: WorkspaceRevision
  cr_choice :: WorkspaceConflictChoice
  cr_path_state :: WorkspacePathState
  cr_resolved_by_client_id :: ClientId

definition conflict_resolved_validate :: "WorkspaceConflictResolvedMessage \<Rightarrow> validation" where
  "conflict_resolved_validate m =
     fail_if (cr_revision m = ZERO) (validation_error ''revision'' ''must_be_positive'')
    (fail_if (ps_path_revision (cr_path_state m) \<noteq> cr_revision m)
       (validation_error ''pathState.pathRevision'' ''revision_mismatch'')
    (path_state_validate (cr_path_state m)))"

section \<open>What validated messages satisfy\<close>

definition path_state_wf :: "WorkspacePathState \<Rightarrow> bool" where
  "path_state_wf s \<longleftrightarrow>
     (ps_tombstone s \<longleftrightarrow> ps_kind s = Tombstone) \<and>
     (is_null (ps_content_hash s) \<longleftrightarrow> ps_kind s \<in> {Directory, Tombstone}) \<and>
     metadata_wf (ps_metadata s) (ps_kind s)"

lemma path_state_validate_Ok_iff [result_simps]: "path_state_validate s = Ok () \<longleftrightarrow> path_state_wf s"
  by (cases "ps_kind s") (auto simp: path_state_validate_def path_state_wf_def result_simps)

text \<open>
  A path lies at or below another when its segments extend the other's; the code compares the texts.
\<close>

fun join_segments :: "char \<Rightarrow> string list \<Rightarrow> string" where
  "join_segments c [] = []"
| "join_segments c [s] = s"
| "join_segments c (s # t # ts) = s @ c # join_segments c (t # ts)"

lemma split_on_join_segments:
  "segs \<noteq> [] \<Longrightarrow> \<forall>s\<in>set segs. c \<notin> set s \<Longrightarrow> split_on c (join_segments c segs) = segs"
  by (induction c segs rule: join_segments.induct) (auto simp: split_on_single split_on_append)

definition path_segments :: "WorkspacePath \<Rightarrow> string list" where
  "path_segments p = split_on CHR ''/'' (path_str p)"

lemma starts_with_descendant:
  "starts_with (path_str q) (path_str p @ ''/'') \<longleftrightarrow> strict_prefix (path_segments p) (path_segments q)"
proof
  assume "starts_with (path_str q) (path_str p @ ''/'')"
  then show "strict_prefix (path_segments p) (path_segments q)"
    by (auto simp: starts_with_iff path_segments_def split_on_join strict_prefix_def)
next
  assume "strict_prefix (path_segments p) (path_segments q)"
  then obtain rs where rs: "path_segments q = path_segments p @ rs" "rs \<noteq> []"
    by (auto simp: strict_prefix_def prefix_def)
  then have "\<forall>s\<in>set rs. CHR ''/'' \<notin> set s"
    using split_on_no_sep [of _ "CHR ''/''" "path_str q"] by (auto simp: path_segments_def)
  with rs have "split_on CHR ''/'' (path_str q) =
      split_on CHR ''/'' (path_str p @ CHR ''/'' # join_segments CHR ''/'' rs)"
    by (simp add: split_on_join split_on_join_segments path_segments_def)
  then have "path_str q = path_str p @ CHR ''/'' # join_segments CHR ''/'' rs"
    by (rule split_on_inject)
  then show "starts_with (path_str q) (path_str p @ ''/'')"
    by (auto simp: starts_with_iff)
qed

lemma path_segments_inject: "path_segments p = path_segments q \<longleftrightarrow> p = q"
  by (auto simp: path_segments_def intro: WorkspacePath.expand dest: split_on_inject)

definition entry_kind_of :: "WorkspaceMutationKind \<Rightarrow> WorkspaceEntryKind" where
  "entry_kind_of k = (case k of UpsertFile \<Rightarrow> File | UpsertSymlink \<Rightarrow> Symlink | Mkdir \<Rightarrow> Directory | _ \<Rightarrow> Tombstone)"

definition mutation_wf :: "WorkspaceMutation \<Rightarrow> bool" where
  "mutation_wf m \<longleftrightarrow>
     (if wm_kind m = WorkspaceMutationKind.Rename then
        (\<exists>q r. wm_new_path m = Some q \<and> wm_target_base_path_revision m = Some r \<and>
           \<not> prefix (path_segments (wm_path m)) (path_segments q))
      else
        wm_new_path m = None \<and> wm_target_base_path_revision m = None \<and>
        (is_null (wm_content_hash m) \<longleftrightarrow> entry_kind_of (wm_kind m) \<in> {Directory, Tombstone}) \<and>
        metadata_wf (wm_metadata m) (entry_kind_of (wm_kind m)))"

lemma mutation_validate_Ok_iff [result_simps]: "mutation_validate m = Ok () \<longleftrightarrow> mutation_wf m"
proof (cases "wm_kind m = WorkspaceMutationKind.Rename")
  case True
  have "q \<noteq> wm_path m \<and> \<not> starts_with (path_str q) (path_str (wm_path m) @ ''/'') \<longleftrightarrow>
      \<not> prefix (path_segments (wm_path m)) (path_segments q)" for q
    by (auto simp: starts_with_descendant strict_prefix_def path_segments_inject)
  with True show ?thesis
    by (auto simp: mutation_validate_def mutation_validate_paths_def mutation_validate_content_def
        mutation_wf_def result_simps)
next
  case False
  then show ?thesis
    by (cases "wm_kind m")
      (auto simp: mutation_validate_def mutation_validate_paths_def mutation_validate_content_def
        mutation_wf_def result_simps entry_kind_of_def)
qed

text \<open>
  C8: A mutation is accepted by validation exactly when it is well formed: a rename has a target with
  a base revision, and the target is neither the source nor inside the source directory (as a
  sequence of path segments); any other mutation has no target, carries a content hash exactly when it
  writes a file or a symbolic link, and its metadata fits the entry it creates.
\<close>

theorem mutation_validate_iff: "mutation_validate m = Ok () \<longleftrightarrow> mutation_wf m"
  by (rule mutation_validate_Ok_iff)

section \<open>Chunk arithmetic\<close>

lemma validate_blob_size_Ok_iff [result_simps]:
  "validate_blob_size sz = Ok () \<longleftrightarrow> unat sz \<le> 5368709120"
  by (simp add: validate_blob_size_def MAX_BLOB_BYTES_def unat_order)

lemma unat_blob_chunk_count: "unat (blob_chunk_count sz) = (unat sz + 1048575) div 1048576"
proof (cases "sz = 0")
  case False
  then have pos: "0 < unat sz" by (simp add: unat_gt_0)
  have one: "unat (sz - 1) = unat sz - 1" using False by (simp add: unat_minus_one)
  have chunk: "unat (ucast BLOB_CHUNK_BYTES :: u64) = 1048576" by (simp add: BLOB_CHUNK_BYTES_def)
  have "unat sz < 2 ^ 64" using unsigned_less [of sz] by simp
  then have "(unat sz - 1) div 1048576 + 1 < 2 ^ 64" by (simp add: div_le_dividend less_trans_Suc)
  moreover have "(unat sz + 1048575) div 1048576 = (unat sz - 1) div 1048576 + 1"
  proof -
    obtain k where k: "unat sz = Suc k" using pos by (cases "unat sz") auto
    have "Suc k + 1048575 = k + 1048576" by simp
    then show ?thesis unfolding k by simp
  qed
  ultimately show ?thesis
    using False by (simp add: blob_chunk_count_def unat_word_ariths unat_div one chunk)
qed (simp add: blob_chunk_count_def)

text \<open>
  C15: An announced blob transfer describes exactly its content: the chunks of 1 MiB cover the blob,
  all but the last are full, the last is not empty, an empty blob has no chunk, and there are at most
  5120 chunks. No step of the 64-bit arithmetic wraps around.
\<close>

theorem blob_begin_chunks_cover:
  assumes "blob_begin_validate m = Ok ()"
  shows "unat (bb_size m) \<le> unat (bb_chunk_count m) * unat (bb_chunk_size m) \<and>
    unat (bb_chunk_count m) * unat (bb_chunk_size m) < unat (bb_size m) + unat (bb_chunk_size m) \<and>
    unat (bb_chunk_count m) \<le> 5120"
proof -
  have size: "unat (bb_size m) \<le> 5368709120" and chunk: "unat (bb_chunk_size m) = 1048576"
    and count: "unat (bb_chunk_count m) = (unat (bb_size m) + 1048575) div 1048576"
    using assms by (auto simp: blob_begin_validate_def result_simps unat_blob_chunk_count BLOB_CHUNK_BYTES_def)
  show ?thesis
    unfolding count chunk using size by (intro conjI; linarith)
qed

theorem blob_begin_chunks_cover_witness:
  "unat (blob_chunk_count 1048577) * 1048576 < 1048577 + (1048576 :: nat)"
proof -
  have "blob_begin_validate \<lparr>bb_workspace_id = WorkspaceId 1, bb_transfer_id = TransferId 2,
      bb_direction = Upload, bb_content_hash = WorkspaceContentHash [], bb_size = 1048577,
      bb_chunk_size = BLOB_CHUNK_BYTES, bb_chunk_count = blob_chunk_count 1048577\<rparr> = Ok ()"
    by (simp add: blob_begin_validate_def result_simps)
  from blob_begin_chunks_cover [OF this] show ?thesis
    by (simp add: BLOB_CHUNK_BYTES_def)
qed

section \<open>Conflict resolution\<close>

lemma validate_side_replay_Ok_iff:
  "validate_side_replay m side = Ok () \<longleftrightarrow>
     \<not> cs_tombstone side \<and> cs_path side = Value (rq_path m) \<and>
     rq_content_hash m = cs_content_hash side \<and> rq_metadata m = cs_metadata side"
  by (auto simp: validate_side_replay_def Let_def split: RequiredNullable.splits)

text \<open>
  C9: A resolution accepted against a conflict is for that conflict at its current revision and
  says one of exactly four things: keep the current side or take the incoming side (which must be
  live, and is repeated exactly), store a merged file at the conflict's path, or delete at the
  conflict's path (with nothing left of content and metadata).
\<close>

theorem conflict_resolution_accepted_iff:
  "conflict_resolved_request_validate_against m created = Ok () \<longleftrightarrow>
     conflict_created_validate created = Ok () \<and>
     rq_conflict_revision m = cc_conflict_revision created \<and>
     rq_workspace_id m = cc_workspace_id created \<and> rq_conflict_id m = cc_conflict_id created \<and>
     ((\<exists>side. (rq_choice m, side) \<in> {(Current, cc_current created), (Incoming, cc_incoming created)} \<and>
        \<not> cs_tombstone side \<and> cs_path side = Value (rq_path m) \<and>
        rq_content_hash m = cs_content_hash side \<and> rq_metadata m = cs_metadata side) \<or>
      rq_path m = cc_path created \<and>
        (rq_choice m = Merged \<and> \<not> is_null (rq_content_hash m) \<and> metadata_wf (rq_metadata m) File \<or>
         rq_choice m = WorkspaceConflictChoice.Delete \<and> is_null (rq_content_hash m) \<and>
         rq_metadata m = \<lparr>md_size = 0, md_modified_at_ms = 0, md_executable = False\<rparr>))"
proof -
  have del: "validate_delete_resolution m = Ok () \<longleftrightarrow> is_null (rq_content_hash m) \<and>
      rq_metadata m = \<lparr>md_size = 0, md_modified_at_ms = 0, md_executable = False\<rparr>"
    by (cases "rq_metadata m") (auto simp: validate_delete_resolution_def result_simps)
  show ?thesis
    by (cases "rq_choice m")
      (auto simp: conflict_resolved_request_validate_against_def conflict_resolved_request_validate_def
        result_simps validate_side_replay_Ok_iff del)
qed

end
