(* ===== verification/Protocol_Actions.thy ===== *)
theory Protocol_Actions
  imports Protocol_Messages
begin

text \<open>
  The action registry of the workspace protocol (\<open>fns-protocol/src/action.rs\<close>): flows, actions, message
  bodies and the table of which action carries which body in which flow; and the strict JSON reader
  (\<open>strict_json.rs\<close>) that refuses duplicate object keys. The generated code of the two macros is
  written out. The parser and the printer of \<open>serde_json\<close> are the fields of \<open>serde_lib\<close>.
\<close>

section \<open>Flows and actions\<close>

datatype WorkspaceFlow = ClientRequest | ServerResponse | ServerPush

fun flow_as_str :: "WorkspaceFlow \<Rightarrow> string" where
  "flow_as_str ClientRequest = ''client_request''"
| "flow_as_str ServerResponse = ''server_response''"
| "flow_as_str ServerPush = ''server_push''"

definition flow_from_str :: "string \<Rightarrow> (WorkspaceFlow, WorkspaceValidationError) result" where
  "flow_from_str s =
     (if s = ''client_request'' then Ok ClientRequest
      else if s = ''server_response'' then Ok ServerResponse
      else if s = ''server_push'' then Ok ServerPush
      else Err (validation_error ''flow'' ''unknown_flow''))"

datatype WorkspaceAction =
    AHello | ASubscribe | ASnapshotBegin | ASnapshotEntry | ASnapshotEnd | AMutation
  | AMutationAccepted | AMutationRejected | AEvent | AAck | ABlobNeed | ABlobBegin | ABlobEnd
  | AConflictCreated | AConflictResolved

definition all_actions :: "WorkspaceAction list" where
  "all_actions =
     [AHello, ASubscribe, ASnapshotBegin, ASnapshotEntry, ASnapshotEnd, AMutation, AMutationAccepted,
      AMutationRejected, AEvent, AAck, ABlobNeed, ABlobBegin, ABlobEnd, AConflictCreated, AConflictResolved]"

fun action_as_str :: "WorkspaceAction \<Rightarrow> string" where
  "action_as_str AHello = ''WorkspaceHello''"
| "action_as_str ASubscribe = ''WorkspaceSubscribe''"
| "action_as_str ASnapshotBegin = ''WorkspaceSnapshotBegin''"
| "action_as_str ASnapshotEntry = ''WorkspaceSnapshotEntry''"
| "action_as_str ASnapshotEnd = ''WorkspaceSnapshotEnd''"
| "action_as_str AMutation = ''WorkspaceMutation''"
| "action_as_str AMutationAccepted = ''WorkspaceMutationAccepted''"
| "action_as_str AMutationRejected = ''WorkspaceMutationRejected''"
| "action_as_str AEvent = ''WorkspaceEvent''"
| "action_as_str AAck = ''WorkspaceAck''"
| "action_as_str ABlobNeed = ''WorkspaceBlobNeed''"
| "action_as_str ABlobBegin = ''WorkspaceBlobBegin''"
| "action_as_str ABlobEnd = ''WorkspaceBlobEnd''"
| "action_as_str AConflictCreated = ''WorkspaceConflictCreated''"
| "action_as_str AConflictResolved = ''WorkspaceConflictResolved''"

text \<open>The arms of the generated \<open>match\<close> on the token are the actions in their order.\<close>

definition action_from_str :: "string \<Rightarrow> (WorkspaceAction, WorkspaceValidationError) result" where
  "action_from_str s =
     ok_or (find (\<lambda>a. action_as_str a = s) all_actions) (validation_error ''action'' ''unknown_action'')"

definition MAX_ACTION_BYTES :: nat where "MAX_ACTION_BYTES = 64"

definition valid_action_token :: "string \<Rightarrow> bool" where
  "valid_action_token action =
     (length action \<le> MAX_ACTION_BYTES \<and>
      (case action of [] \<Rightarrow> False
       | first # rest \<Rightarrow> is_ascii_alphabetic first \<and> list_all is_ascii_alphanumeric rest))"

section \<open>Bodies and the registry\<close>

datatype MessageBodyKind =
    KHelloRequest | KHelloResponse | KSubscribeRequest | KSnapshotBegin | KSnapshotEntry | KSnapshotEnd
  | KMutation | KMutationAccepted | KMutationRejected | KEvent | KAck | KBlobNeedDownloadRequest
  | KBlobNeedDownloadResponse | KBlobNeedUploadPush | KBlobBegin | KBlobEnd | KConflictCreated
  | KConflictResolvedRequest | KConflictResolved

datatype MessageBody =
    BHelloRequest WorkspaceHelloRequest
  | BHelloResponse WorkspaceHelloResponse
  | BSubscribeRequest WorkspaceSubscribeRequest
  | BSnapshotBegin WorkspaceSnapshotBeginMessage
  | BSnapshotEntry WorkspaceSnapshotEntryMessage
  | BSnapshotEnd WorkspaceSnapshotEndMessage
  | BMutation WorkspaceMutation
  | BMutationAccepted WorkspaceMutationAcceptedMessage
  | BMutationRejected WorkspaceMutationRejectedMessage
  | BEvent WorkspaceEventMessage
  | BAck WorkspaceAckRequest
  | BBlobNeedDownloadRequest WorkspaceBlobNeedDownloadRequest
  | BBlobNeedDownloadResponse WorkspaceBlobNeedDownloadResponse
  | BBlobNeedUploadPush WorkspaceBlobNeedUploadPush
  | BBlobBegin WorkspaceBlobBeginMessage
  | BBlobEnd WorkspaceBlobEndMessage
  | BConflictCreated WorkspaceConflictCreatedMessage
  | BConflictResolvedRequest WorkspaceConflictResolvedRequest
  | BConflictResolved WorkspaceConflictResolvedMessage

fun body_kind :: "MessageBody \<Rightarrow> MessageBodyKind" where
  "body_kind (BHelloRequest _) = KHelloRequest"
| "body_kind (BHelloResponse _) = KHelloResponse"
| "body_kind (BSubscribeRequest _) = KSubscribeRequest"
| "body_kind (BSnapshotBegin _) = KSnapshotBegin"
| "body_kind (BSnapshotEntry _) = KSnapshotEntry"
| "body_kind (BSnapshotEnd _) = KSnapshotEnd"
| "body_kind (BMutation _) = KMutation"
| "body_kind (BMutationAccepted _) = KMutationAccepted"
| "body_kind (BMutationRejected _) = KMutationRejected"
| "body_kind (BEvent _) = KEvent"
| "body_kind (BAck _) = KAck"
| "body_kind (BBlobNeedDownloadRequest _) = KBlobNeedDownloadRequest"
| "body_kind (BBlobNeedDownloadResponse _) = KBlobNeedDownloadResponse"
| "body_kind (BBlobNeedUploadPush _) = KBlobNeedUploadPush"
| "body_kind (BBlobBegin _) = KBlobBegin"
| "body_kind (BBlobEnd _) = KBlobEnd"
| "body_kind (BConflictCreated _) = KConflictCreated"
| "body_kind (BConflictResolvedRequest _) = KConflictResolvedRequest"
| "body_kind (BConflictResolved _) = KConflictResolved"

fun body_validate :: "MessageBody \<Rightarrow> validation" where
  "body_validate (BHelloRequest m) = hello_request_validate m"
| "body_validate (BHelloResponse m) = hello_response_validate m"
| "body_validate (BSubscribeRequest m) = subscribe_request_validate m"
| "body_validate (BSnapshotBegin m) = snapshot_begin_validate m"
| "body_validate (BSnapshotEntry m) = snapshot_entry_validate m"
| "body_validate (BSnapshotEnd m) = snapshot_end_validate m"
| "body_validate (BMutation m) = mutation_validate m"
| "body_validate (BMutationAccepted m) = mutation_accepted_validate m"
| "body_validate (BMutationRejected m) = mutation_rejected_validate m"
| "body_validate (BEvent m) = event_validate m"
| "body_validate (BAck m) = ack_request_validate m"
| "body_validate (BBlobNeedDownloadRequest m) = need_download_request_validate m"
| "body_validate (BBlobNeedDownloadResponse m) = need_download_response_validate m"
| "body_validate (BBlobNeedUploadPush m) = need_upload_validate m"
| "body_validate (BBlobBegin m) = blob_begin_validate m"
| "body_validate (BBlobEnd m) = blob_end_validate m"
| "body_validate (BConflictCreated m) = conflict_created_validate m"
| "body_validate (BConflictResolvedRequest m) = conflict_resolved_request_validate m"
| "body_validate (BConflictResolved m) = conflict_resolved_validate m"

record ActionFlowSpec =
  spec_action :: WorkspaceAction
  spec_flow :: WorkspaceFlow
  spec_body_kind :: MessageBodyKind

definition flow_spec :: "WorkspaceAction \<Rightarrow> MessageBodyKind \<Rightarrow> WorkspaceFlow \<Rightarrow> ActionFlowSpec" where
  "flow_spec a k f = \<lparr>spec_action = a, spec_flow = f, spec_body_kind = k\<rparr>"

definition ACTION_FLOW_SPECS :: "ActionFlowSpec list" where
  "ACTION_FLOW_SPECS =
     [flow_spec AHello KHelloRequest ClientRequest,
      flow_spec AHello KHelloResponse ServerResponse,
      flow_spec ASubscribe KSubscribeRequest ClientRequest,
      flow_spec ASnapshotBegin KSnapshotBegin ServerPush,
      flow_spec ASnapshotEntry KSnapshotEntry ServerPush,
      flow_spec ASnapshotEnd KSnapshotEnd ServerPush,
      flow_spec AMutation KMutation ClientRequest,
      flow_spec AMutationAccepted KMutationAccepted ServerResponse,
      flow_spec AMutationRejected KMutationRejected ServerResponse,
      flow_spec AEvent KEvent ServerPush,
      flow_spec AAck KAck ClientRequest,
      flow_spec AAck KAck ServerResponse,
      flow_spec ABlobNeed KBlobNeedDownloadRequest ClientRequest,
      flow_spec ABlobNeed KBlobNeedDownloadResponse ServerResponse,
      flow_spec ABlobNeed KBlobNeedUploadPush ServerPush,
      flow_spec ABlobBegin KBlobBegin ClientRequest,
      flow_spec ABlobBegin KBlobBegin ServerResponse,
      flow_spec ABlobBegin KBlobBegin ServerPush,
      flow_spec ABlobEnd KBlobEnd ClientRequest,
      flow_spec ABlobEnd KBlobEnd ServerResponse,
      flow_spec ABlobEnd KBlobEnd ServerPush,
      flow_spec AConflictCreated KConflictCreated ServerPush,
      flow_spec AConflictResolved KConflictResolvedRequest ClientRequest,
      flow_spec AConflictResolved KConflictResolved ServerResponse,
      flow_spec AConflictResolved KConflictResolved ServerPush]"

definition flow_allowed :: "WorkspaceAction \<Rightarrow> WorkspaceFlow \<Rightarrow> bool" where
  "flow_allowed action flow =
     list_ex (\<lambda>spec. spec_action spec = action \<and> spec_flow spec = flow) ACTION_FLOW_SPECS"

definition body_allowed :: "WorkspaceAction \<Rightarrow> WorkspaceFlow \<Rightarrow> MessageBody \<Rightarrow> bool" where
  "body_allowed action flow body =
     list_ex (\<lambda>spec. spec_action spec = action \<and> spec_flow spec = flow \<and> spec_body_kind spec = body_kind body)
       ACTION_FLOW_SPECS"

section \<open>Strict JSON\<close>

text \<open>
  A JSON text as the deserializer visits it: numbers and strings are opaque here, and an object is its
  members in their order, duplicates included.
\<close>

datatype json = JNull | JBool bool | JNumber string | JString string | JArray "json list" | JObject "(string \<times> json) list"

text \<open>
  \<open>visit_members seen\<close> is the loop of \<open>ObjectVisitor::visit_map\<close> with the keys seen so far;
  the error is the key that occurs again.
\<close>

fun visit_value :: "json \<Rightarrow> (unit, string) result"
  and visit_elements :: "json list \<Rightarrow> (unit, string) result"
  and visit_members :: "string set \<Rightarrow> (string \<times> json) list \<Rightarrow> (unit, string) result" where
  "visit_value (JArray xs) = visit_elements xs"
| "visit_value (JObject ms) = visit_members {} ms"
| "visit_value _ = Ok ()"
| "visit_elements [] = Ok ()"
| "visit_elements (x # xs) = and_then (visit_value x) (\<lambda>_. visit_elements xs)"
| "visit_members seen [] = Ok ()"
| "visit_members seen ((key, v) # ms) =
     fail_if (key \<in> seen) key (and_then (visit_value v) (\<lambda>_. visit_members (insert key seen) ms))"

definition check_duplicates :: "json option \<Rightarrow> bool" where
  "check_duplicates parsed =
     (case parsed of Some (JObject ms) \<Rightarrow> visit_members {} ms = Ok () | _ \<Rightarrow> False)"

text \<open>
  \<open>strict_json::from_slice\<close>: the text is one JSON object without duplicate keys and nothing after it
  (\<open>json_text\<close>), and then the type's own deserializer reads it (\<open>typed\<close>).
\<close>

definition strict_from_slice :: "(u8 list \<Rightarrow> json option) \<Rightarrow> (u8 list \<Rightarrow> 'a option) \<Rightarrow> u8 list \<Rightarrow> 'a option" where
  "strict_from_slice json_text typed raw = (if check_duplicates (json_text raw) then typed raw else None)"

text \<open>Every object inside a JSON value has distinct keys.\<close>

fun keys_distinct :: "json \<Rightarrow> bool" where
  "keys_distinct (JArray xs) = (\<forall>x\<in>set xs. keys_distinct x)"
| "keys_distinct (JObject ms) = (distinct (map fst ms) \<and> (\<forall>m\<in>set ms. keys_distinct (snd m)))"
| "keys_distinct _ = True"

lemma visit_Ok_iff:
  "visit_value j = Ok () \<longleftrightarrow> keys_distinct j"
  "visit_elements js = Ok () \<longleftrightarrow> (\<forall>x\<in>set js. keys_distinct x)"
  "visit_members seen ms = Ok () \<longleftrightarrow>
     set (map fst ms) \<inter> seen = {} \<and> distinct (map fst ms) \<and> (\<forall>m\<in>set ms. keys_distinct (snd m))"
  by (induction j and js and seen ms rule: visit_value_visit_elements_visit_members.induct)
    (auto simp: result_simps)

text \<open>
  C16: The strict reader accepts a text exactly when it is one JSON object in which no object, at any
  depth, repeats a key, and the type's deserializer accepts it; it then returns what that deserializer
  returns.
\<close>

theorem strict_from_slice_iff:
  "strict_from_slice json_text typed raw = Some v \<longleftrightarrow>
     (\<exists>ms. json_text raw = Some (JObject ms) \<and> keys_distinct (JObject ms)) \<and> typed raw = Some v"
  by (auto simp: strict_from_slice_def check_duplicates_def visit_Ok_iff split: option.splits json.splits)

section \<open>Decoding a body\<close>

record serde_lib =
  json_text :: "u8 list \<Rightarrow> json option"
  body_from_json :: "MessageBodyKind \<Rightarrow> u8 list \<Rightarrow> MessageBody option"
  body_to_json :: "MessageBody \<Rightarrow> u8 list option"

text \<open>The deserializer of a body type yields bodies of that type.\<close>

definition typed_bodies :: "('a serde_lib_scheme) \<Rightarrow> bool" where
  "typed_bodies lib \<longleftrightarrow> (\<forall>k raw b. body_from_json lib k raw = Some b \<longrightarrow> body_kind b = k)"

text \<open>
  The generated \<open>match\<close> has one arm per entry of the registry, in its order; the precheck makes its
  last arm unreachable.
\<close>

definition decode_data ::
    "('a serde_lib_scheme) \<Rightarrow> WorkspaceAction \<Rightarrow> WorkspaceFlow \<Rightarrow> u8 list \<Rightarrow> (MessageBody, ProtocolDecodeError) result" where
  "decode_data lib action flow raw =
     (case find (\<lambda>spec. spec_action spec = action \<and> spec_flow spec = flow) ACTION_FLOW_SPECS of
        None \<Rightarrow> Err (decode_error_from (validation_error ''flow'' ''flow_not_allowed''))
      | Some spec \<Rightarrow>
          ok_or (strict_from_slice (json_text lib) (body_from_json lib (spec_body_kind spec)) raw)
            (decode_error_from (validation_error ''data'' ''invalid_json'')))"

definition encode_body :: "('a serde_lib_scheme) \<Rightarrow> MessageBody \<Rightarrow> (u8 list, ProtocolEncodeError) result" where
  "encode_body lib body =
     ok_or (body_to_json lib body) (encode_error_from (validation_error ''data'' ''serialization_failed''))"

section \<open>Properties of the registry\<close>

lemma find_actions: "find (\<lambda>a. action_as_str a = action_as_str v) all_actions = Some v"
  by (cases v) (simp_all add: all_actions_def)

interpretation action_names: wire_enum action_as_str "\<lambda>s. case action_from_str s of Ok a \<Rightarrow> Some a | Err _ \<Rightarrow> None"
proof
  show "(case action_from_str (action_as_str v) of Ok a \<Rightarrow> Some a | Err _ \<Rightarrow> None) = Some v" for v
    by (simp add: action_from_str_def find_actions)
  show "action_as_str v = s" if "(case action_from_str s of Ok a \<Rightarrow> Some a | Err _ \<Rightarrow> None) = Some v" for s v
    using that by (auto simp: action_from_str_def ok_or_def find_Some_iff split: option.splits)
qed

interpretation flow_names: wire_enum flow_as_str "\<lambda>s. case flow_from_str s of Ok a \<Rightarrow> Some a | Err _ \<Rightarrow> None"
proof
  show "(case flow_from_str (flow_as_str v) of Ok a \<Rightarrow> Some a | Err _ \<Rightarrow> None) = Some v" for v
    by (cases v) (simp_all add: flow_from_str_def)
  show "flow_as_str v = s" if "(case flow_from_str s of Ok a \<Rightarrow> Some a | Err _ \<Rightarrow> None) = Some v" for s v
    using that by (auto simp: flow_from_str_def split: if_splits)
qed

lemma action_from_str_Ok_iff: "action_from_str s = Ok a \<longleftrightarrow> action_as_str a = s"
  using action_names.parse_Some_iff [of s a] by (cases "action_from_str s") auto

lemma valid_action_tokens: "valid_action_token (action_as_str a)"
  by (cases a) (simp_all add: valid_action_token_def MAX_ACTION_BYTES_def is_ascii_alphabetic_def
      is_ascii_alphanumeric_def is_ascii_digit_def)

lemma registry_functional:
  "\<forall>s\<in>set ACTION_FLOW_SPECS. \<forall>t\<in>set ACTION_FLOW_SPECS.
     spec_action s = spec_action t \<and> spec_flow s = spec_flow t \<longrightarrow> s = t"
  by code_simp

lemma registry_find:
  "body_allowed action flow body \<longleftrightarrow>
     (\<exists>spec. find (\<lambda>spec. spec_action spec = action \<and> spec_flow spec = flow) ACTION_FLOW_SPECS = Some spec \<and>
        spec_body_kind spec = body_kind body)"
proof
  assume "body_allowed action flow body"
  then obtain spec where spec: "spec \<in> set ACTION_FLOW_SPECS" "spec_action spec = action" "spec_flow spec = flow"
      "spec_body_kind spec = body_kind body"
    by (auto simp: body_allowed_def list_ex_iff)
  then obtain t where t: "find (\<lambda>spec. spec_action spec = action \<and> spec_flow spec = flow) ACTION_FLOW_SPECS = Some t"
    by (cases "find (\<lambda>spec. spec_action spec = action \<and> spec_flow spec = flow) ACTION_FLOW_SPECS")
      (auto simp: find_None_iff)
  then have "t \<in> set ACTION_FLOW_SPECS" "spec_action t = action" "spec_flow t = flow"
    by (auto simp: find_Some_iff)
  with spec registry_functional have "t = spec" by blast
  with t spec show "\<exists>spec. find (\<lambda>spec. spec_action spec = action \<and> spec_flow spec = flow) ACTION_FLOW_SPECS =
      Some spec \<and> spec_body_kind spec = body_kind body" by blast
next
  assume "\<exists>spec. find (\<lambda>spec. spec_action spec = action \<and> spec_flow spec = flow) ACTION_FLOW_SPECS = Some spec \<and>
      spec_body_kind spec = body_kind body"
  then show "body_allowed action flow body"
    by (auto simp: body_allowed_def list_ex_iff find_Some_iff)
qed

lemma decode_data_allowed:
  "typed_bodies lib \<Longrightarrow> decode_data lib action flow raw = Ok body \<Longrightarrow> body_allowed action flow body"
  by (auto simp: decode_data_def registry_find typed_bodies_def result_simps strict_from_slice_def
      split: option.splits if_splits)

end
