(* ===== verification/Protocol_Envelope.thy ===== *)
theory Protocol_Envelope
  imports Protocol_Actions
begin

text \<open>
  The text frames (\<open>fns-protocol/src/envelope.rs\<close>): an action token, a bar and a JSON envelope with
  a request identifier, a status, a body or an error. The codec decides from the envelope's shape
  whether a server frame is a response or a push. The theorems show that every decoded frame has the
  shape of its flow, and that what an encoder produced is decoded to what was encoded.
\<close>

section \<open>Envelopes\<close>

datatype DecodedEnvelope =
    Request RequestId MessageBody
  | Success "RequestId option" MessageBody
  | Failure "RequestId option" WorkspaceV2Error

record DecodedFrame =
  df_action :: WorkspaceAction
  df_flow :: WorkspaceFlow
  df_envelope :: DecodedEnvelope

datatype 'a Presence = Missing | Present 'a

fun presence_option :: "'a Presence \<Rightarrow> 'a option" where
  "presence_option Missing = None"
| "presence_option (Present v) = Some v"

definition map_or_missing :: "'a option \<Rightarrow> 'a Presence" where
  "map_or_missing x = (case x of None \<Rightarrow> Missing | Some v \<Rightarrow> Present v)"

text \<open>A body inside an envelope is kept as its JSON text (\<open>RawValue\<close>).\<close>

record WireEnvelope =
  we_request_id :: "RequestId Presence"
  we_status :: "bool Presence"
  we_data :: "(u8 list) Presence"
  we_error :: "WorkspaceV2Error Presence"

record envelope_lib = serde_lib +
  envelope_from_json :: "u8 list \<Rightarrow> WireEnvelope option"
  envelope_to_json :: "WireEnvelope \<Rightarrow> u8 list option"
  raw_value :: "u8 list \<Rightarrow> bool"

abbreviation decode_err :: "string \<Rightarrow> string \<Rightarrow> ProtocolDecodeError" where
  "decode_err f r \<equiv> decode_error_from (validation_error f r)"

abbreviation encode_err :: "string \<Rightarrow> string \<Rightarrow> ProtocolEncodeError" where
  "encode_err f r \<equiv> encode_error_from (validation_error f r)"

definition MAX_CONTROL_FRAME_BYTES :: nat where "MAX_CONTROL_FRAME_BYTES = 65536"

section \<open>Decoding\<close>

definition SEPARATOR :: u8 where "SEPARATOR = 0x7C"

definition parse_text_frame ::
    "envelope_lib \<Rightarrow> u8 list \<Rightarrow> (WorkspaceAction \<times> WireEnvelope, ProtocolDecodeError) result" where
  "parse_text_frame lib frame =
     fail_if (length frame > MAX_CONTROL_FRAME_BYTES) (decode_err ''frame'' ''too_large'')
    (fail_if (SEPARATOR \<notin> set frame) (decode_err ''frame'' ''missing_separator'')
    (let action_bytes = takeWhile (\<lambda>b. b \<noteq> SEPARATOR) frame in
     fail_if (\<not> utf8_valid action_bytes) (decode_err ''action'' ''invalid_utf8'')
    (let action_text = bytes_str action_bytes in
     fail_if (\<not> valid_action_token action_text) (decode_err ''action'' ''invalid_token'')
    (and_then (map_err decode_error_from (action_from_str action_text)) (\<lambda>action.
     and_then
       (ok_or (strict_from_slice (json_text lib) (envelope_from_json lib) (drop (length action_bytes + 1) frame))
         (decode_err ''envelope'' ''invalid_json'')) (\<lambda>envelope.
     Ok (action, envelope)))))))"

definition decode_request ::
    "envelope_lib \<Rightarrow> WorkspaceAction \<Rightarrow> WireEnvelope \<Rightarrow> (DecodedEnvelope, ProtocolDecodeError) result" where
  "decode_request lib action envelope =
     and_then (ok_or (presence_option (we_request_id envelope)) (decode_err ''requestId'' ''required'')) (\<lambda>request_id.
     fail_if (we_status envelope \<noteq> Missing) (decode_err ''status'' ''forbidden_for_request'')
    (fail_if (we_error envelope \<noteq> Missing) (decode_err ''error'' ''forbidden_for_request'')
    (and_then (ok_or (presence_option (we_data envelope)) (decode_err ''data'' ''required'')) (\<lambda>data.
     and_then (decode_data lib action ClientRequest data) (\<lambda>body.
     Ok (Request request_id body))))))"

definition decode_response ::
    "envelope_lib \<Rightarrow> WorkspaceAction \<Rightarrow> WireEnvelope \<Rightarrow> (DecodedEnvelope, ProtocolDecodeError) result" where
  "decode_response lib action envelope =
     and_then (ok_or (presence_option (we_status envelope)) (decode_err ''status'' ''required'')) (\<lambda>status.
     if status then
       and_then (ok_or (presence_option (we_request_id envelope)) (decode_err ''requestId'' ''required_for_response''))
         (\<lambda>request_id.
       fail_if (we_error envelope \<noteq> Missing) (decode_err ''error'' ''success_forbids_error'')
      (and_then (ok_or (presence_option (we_data envelope)) (decode_err ''data'' ''success_requires_data'')) (\<lambda>data.
       and_then (decode_data lib action ServerResponse data) (\<lambda>body.
       Ok (Success (Some request_id) body)))))
     else
       fail_if (we_data envelope \<noteq> Missing) (decode_err ''data'' ''error_forbids_data'')
      (and_then (ok_or (presence_option (we_error envelope)) (decode_err ''error'' ''error_requires_error'')) (\<lambda>err.
       and_then (map_err decode_error_from (v2_error_validate err)) (\<lambda>_.
       Ok (Failure (presence_option (we_request_id envelope)) err)))))"

definition decode_push ::
    "envelope_lib \<Rightarrow> WorkspaceAction \<Rightarrow> WireEnvelope \<Rightarrow> (DecodedEnvelope, ProtocolDecodeError) result" where
  "decode_push lib action envelope =
     fail_if (we_request_id envelope \<noteq> Missing) (decode_err ''requestId'' ''forbidden_for_push'')
    (fail_if (we_status envelope = Present False) (decode_err ''status'' ''push_requires_success'')
    (fail_if (we_status envelope = Missing) (decode_err ''status'' ''required'')
    (fail_if (we_error envelope \<noteq> Missing) (decode_err ''error'' ''success_forbids_error'')
    (and_then (ok_or (presence_option (we_data envelope)) (decode_err ''data'' ''success_requires_data'')) (\<lambda>data.
     and_then (decode_data lib action ServerPush data) (\<lambda>body.
     Ok (Success None body)))))))"

definition decode_parsed_frame ::
    "envelope_lib \<Rightarrow> WorkspaceAction \<Rightarrow> WorkspaceFlow \<Rightarrow> WireEnvelope \<Rightarrow> (DecodedFrame, ProtocolDecodeError) result" where
  "decode_parsed_frame lib action flow envelope =
     and_then
       (case flow of
          ClientRequest \<Rightarrow> decode_request lib action envelope
        | ServerResponse \<Rightarrow> decode_response lib action envelope
        | ServerPush \<Rightarrow> decode_push lib action envelope) (\<lambda>decoded.
     Ok \<lparr>df_action = action, df_flow = flow, df_envelope = decoded\<rparr>)"

definition decode_text_frame ::
    "envelope_lib \<Rightarrow> u8 list \<Rightarrow> WorkspaceFlow \<Rightarrow> (DecodedFrame, ProtocolDecodeError) result" where
  "decode_text_frame lib frame flow =
     and_then (parse_text_frame lib frame) (\<lambda>(action, envelope). decode_parsed_frame lib action flow envelope)"

definition server_flow :: "WireEnvelope \<Rightarrow> (WorkspaceFlow, ProtocolDecodeError) result" where
  "server_flow envelope =
     (case (we_status envelope, we_request_id envelope) of
        (Present False, _) \<Rightarrow> Ok ServerResponse
      | (Present True, Present _) \<Rightarrow> Ok ServerResponse
      | (Present True, Missing) \<Rightarrow> Ok ServerPush
      | (Missing, _) \<Rightarrow> Err (decode_err ''status'' ''required''))"

definition decode_server_text_frame :: "envelope_lib \<Rightarrow> u8 list \<Rightarrow> (DecodedFrame, ProtocolDecodeError) result" where
  "decode_server_text_frame lib frame =
     and_then (parse_text_frame lib frame) (\<lambda>(action, envelope).
     and_then (server_flow envelope) (\<lambda>flow. decode_parsed_frame lib action flow envelope))"

section \<open>Encoding\<close>

definition check_body :: "WorkspaceAction \<Rightarrow> WorkspaceFlow \<Rightarrow> MessageBody \<Rightarrow> (unit, ProtocolEncodeError) result" where
  "check_body action flow body =
     fail_if (\<not> flow_allowed action flow) (encode_err ''flow'' ''flow_not_allowed'')
    (fail_if (\<not> body_allowed action flow body) (encode_err ''data'' ''type_mismatch'')
    (Ok ()))"

definition raw_body :: "envelope_lib \<Rightarrow> MessageBody \<Rightarrow> (u8 list, ProtocolEncodeError) result" where
  "raw_body lib body =
     and_then (encode_body lib body) (\<lambda>encoded.
     fail_if (\<not> utf8_valid encoded) (encode_err ''data'' ''serialization_failed'')
    (fail_if (\<not> raw_value lib encoded) (encode_err ''data'' ''serialization_failed'')
    (Ok encoded)))"

definition encode_wire :: "envelope_lib \<Rightarrow> string \<Rightarrow> WireEnvelope \<Rightarrow> (u8 list, ProtocolEncodeError) result" where
  "encode_wire lib action envelope =
     and_then (ok_or (envelope_to_json lib envelope) (encode_err ''envelope'' ''serialization_failed'')) (\<lambda>payload.
     let frame = as_bytes action @ [SEPARATOR] @ payload in
     fail_if (length frame > MAX_CONTROL_FRAME_BYTES) (encode_err ''frame'' ''too_large'')
    (Ok frame))"

definition encode_request ::
    "envelope_lib \<Rightarrow> WorkspaceAction \<Rightarrow> RequestId \<Rightarrow> MessageBody \<Rightarrow> (u8 list, ProtocolEncodeError) result" where
  "encode_request lib action request_id body =
     and_then (check_body action ClientRequest body) (\<lambda>_.
     and_then (raw_body lib body) (\<lambda>data.
     encode_wire lib (action_as_str action)
       \<lparr>we_request_id = Present request_id, we_status = Missing, we_data = Present data, we_error = Missing\<rparr>))"

definition encode_success ::
    "envelope_lib \<Rightarrow> WorkspaceAction \<Rightarrow> WorkspaceFlow \<Rightarrow> RequestId option \<Rightarrow> MessageBody \<Rightarrow>
     (u8 list, ProtocolEncodeError) result" where
  "encode_success lib action flow request_id body =
     fail_if (flow = ClientRequest) (encode_err ''flow'' ''flow_not_allowed'')
    (fail_if (flow = ServerResponse \<and> request_id = None) (encode_err ''requestId'' ''required_for_response'')
    (fail_if (flow = ServerPush \<and> request_id \<noteq> None) (encode_err ''requestId'' ''forbidden_for_push'')
    (and_then (check_body action flow body) (\<lambda>_.
     and_then (raw_body lib body) (\<lambda>data.
     encode_wire lib (action_as_str action)
       \<lparr>we_request_id = map_or_missing request_id, we_status = Present True, we_data = Present data,
        we_error = Missing\<rparr>)))))"

definition encode_failure ::
    "envelope_lib \<Rightarrow> WorkspaceAction \<Rightarrow> RequestId option \<Rightarrow> WorkspaceV2Error \<Rightarrow> (u8 list, ProtocolEncodeError) result" where
  "encode_failure lib action request_id err =
     and_then (map_err encode_error_from (v2_error_validate err)) (\<lambda>_.
     encode_wire lib (action_as_str action)
       \<lparr>we_request_id = map_or_missing request_id, we_status = Present False, we_data = Missing,
        we_error = Present err\<rparr>)"

definition encode_unknown_action_failure ::
    "envelope_lib \<Rightarrow> string \<Rightarrow> RequestId option \<Rightarrow> (u8 list, ProtocolEncodeError) result" where
  "encode_unknown_action_failure lib received_action request_id =
     fail_if (\<not> valid_action_token received_action) (encode_err ''action'' ''invalid_token'')
    (fail_if (is_ok (action_from_str received_action)) (encode_err ''action'' ''registered_action'')
    (encode_wire lib received_action
       \<lparr>we_request_id = map_or_missing request_id, we_status = Present False, we_data = Missing,
        we_error = Present (v2_error_new UnknownAction [])\<rparr>))"

section \<open>Frames read back\<close>

lemma alphanumeric_byte:
  assumes "is_ascii_alphanumeric c"
  shows "(word_of_nat (of_char c) :: u8) < 0x80" "(word_of_nat (of_char c) :: u8) \<noteq> SEPARATOR"
proof -
  have c: "(of_char c :: nat) < 128" "(of_char c :: nat) \<noteq> 124"
    using assms by (auto simp: is_ascii_alphanumeric_def is_ascii_alphabetic_def is_ascii_digit_def)
  then have "unat (word_of_nat (of_char c) :: u8) = of_char c"
    by (simp add: unsigned_of_nat take_bit_eq_mod)
  with c show "(word_of_nat (of_char c) :: u8) < 0x80" "(word_of_nat (of_char c) :: u8) \<noteq> SEPARATOR"
    by (auto simp: unat_order SEPARATOR_def word_unat_eq_iff)
qed

lemma token_bytes:
  assumes "valid_action_token s"
  shows "utf8_valid (as_bytes s)" "SEPARATOR \<notin> set (as_bytes s)"
proof -
  have "\<forall>c\<in>set s. is_ascii_alphanumeric c"
    using assms by (auto simp: valid_action_token_def list_all_iff is_ascii_alphanumeric_def split: list.splits)
  then show "utf8_valid (as_bytes s)" "SEPARATOR \<notin> set (as_bytes s)"
    using alphanumeric_byte by (auto intro!: utf8_valid_ascii simp: as_bytes_def) (metis alphanumeric_byte(2))
qed

lemma takeWhile_separator:
  "SEPARATOR \<notin> set a \<Longrightarrow> takeWhile (\<lambda>b. b \<noteq> SEPARATOR) (a @ SEPARATOR # p) = a"
  by (induction a) auto

lemma parse_encode_wire:
  assumes "encode_wire lib (action_as_str action) envelope = Ok frame"
    and "\<And>v. envelope_to_json lib envelope = Some v \<Longrightarrow>
      strict_from_slice (json_text lib) (envelope_from_json lib) v = Some envelope"
  shows "parse_text_frame lib frame = Ok (action, envelope)"
proof -
  obtain v where v: "envelope_to_json lib envelope = Some v"
    "frame = as_bytes (action_as_str action) @ SEPARATOR # v" "length frame \<le> MAX_CONTROL_FRAME_BYTES"
    using assms(1) by (auto simp: encode_wire_def Let_def result_simps)
  note token = valid_action_tokens [of action]
  have "action_from_str (action_as_str action) = Ok action" by (simp add: action_from_str_Ok_iff)
  then show ?thesis
    using v token token_bytes [OF token] assms(2) [OF v(1)]
    by (simp add: parse_text_frame_def Let_def takeWhile_separator)
qed

text \<open>
  The contract of \<open>serde_json\<close>: what it prints for a body or for an envelope is one JSON object
  without repeated keys, which it reads back (an envelope embeds the text of its body).
\<close>

definition object_text :: "envelope_lib \<Rightarrow> u8 list \<Rightarrow> bool" where
  "object_text lib v \<longleftrightarrow> (\<exists>ms. json_text lib v = Some (JObject ms) \<and> keys_distinct (JObject ms))"

definition serde_body_law :: "envelope_lib \<Rightarrow> bool" where
  "serde_body_law lib \<longleftrightarrow>
     (\<forall>b v. body_to_json lib b = Some v \<longrightarrow> object_text lib v \<and> body_from_json lib (body_kind b) v = Some b)"

definition serde_envelope_law :: "envelope_lib \<Rightarrow> bool" where
  "serde_envelope_law lib \<longleftrightarrow>
     (\<forall>e v. envelope_to_json lib e = Some v \<and> (\<forall>d. we_data e = Present d \<longrightarrow> object_text lib d) \<longrightarrow>
        object_text lib v \<and> envelope_from_json lib v = Some e)"

lemma strict_object_text:
  "object_text lib v \<Longrightarrow> strict_from_slice (json_text lib) typed v = typed v"
  by (auto simp: object_text_def strict_from_slice_def check_duplicates_def visit_Ok_iff)

lemma encode_wire_parses:
  assumes "serde_envelope_law lib" "\<And>d. we_data envelope = Present d \<Longrightarrow> object_text lib d"
    and "encode_wire lib (action_as_str action) envelope = Ok frame"
  shows "parse_text_frame lib frame = Ok (action, envelope)"
proof (rule parse_encode_wire [OF assms(3)])
  fix v
  assume "envelope_to_json lib envelope = Some v"
  with assms(1,2) have "object_text lib v" "envelope_from_json lib v = Some envelope"
    by (auto simp: serde_envelope_law_def)
  then show "strict_from_slice (json_text lib) (envelope_from_json lib) v = Some envelope"
    by (simp add: strict_object_text)
qed

lemma raw_body_decodes:
  assumes "serde_body_law lib" "raw_body lib body = Ok d" "body_allowed action flow body"
  shows "object_text lib d" "decode_data lib action flow d = Ok body"
proof -
  have d: "object_text lib d" "body_from_json lib (body_kind body) d = Some body"
    using assms(1,2) by (auto simp: raw_body_def encode_body_def result_simps serde_body_law_def)
  then show "object_text lib d" by simp
  show "decode_data lib action flow d = Ok body"
    using assms(3) d by (auto simp: registry_find decode_data_def strict_object_text)
qed

lemma check_body_Ok_iff [result_simps]:
  "check_body action flow body = Ok () \<longleftrightarrow> body_allowed action flow body"
  by (auto simp: check_body_def result_simps flow_allowed_def body_allowed_def list_ex_iff)

lemma presence_map_or_missing [simp]: "presence_option (map_or_missing x) = x"
  by (cases x) (simp_all add: map_or_missing_def)

text \<open>
  C6: What one side encodes, the other decodes: a request is read back under its flow, and a success
  or a failure of the server is read back with its action, identifier and body or error, its flow
  (response or push) recovered from the envelope alone. A failure is always read as a response.
  \<open>serde_json\<close> reads back what it prints.
\<close>

theorem text_frame_roundtrip:
  assumes "serde_body_law lib" "serde_envelope_law lib"
  shows "(encode_request lib action rid body = Ok frame \<longrightarrow>
      decode_text_frame lib frame ClientRequest =
        Ok \<lparr>df_action = action, df_flow = ClientRequest, df_envelope = Request rid body\<rparr>) \<and>
    (encode_success lib action flow r body = Ok frame \<longrightarrow>
      decode_server_text_frame lib frame =
        Ok \<lparr>df_action = action, df_flow = flow, df_envelope = Success r body\<rparr>) \<and>
    (encode_failure lib action r err = Ok frame \<longrightarrow>
      decode_server_text_frame lib frame =
        Ok \<lparr>df_action = action, df_flow = ServerResponse, df_envelope = Failure r err\<rparr>)"
proof (intro conjI impI)
  assume enc: "encode_request lib action rid body = Ok frame"
  then obtain d where d: "raw_body lib body = Ok d" "body_allowed action ClientRequest body" and
    wire: "encode_wire lib (action_as_str action)
      \<lparr>we_request_id = Present rid, we_status = Missing, we_data = Present d, we_error = Missing\<rparr> = Ok frame"
    by (auto simp: encode_request_def result_simps)
  note body = raw_body_decodes [OF assms(1) d]
  show "decode_text_frame lib frame ClientRequest =
      Ok \<lparr>df_action = action, df_flow = ClientRequest, df_envelope = Request rid body\<rparr>"
    using encode_wire_parses [OF assms(2) _ wire] body
    by (simp add: decode_text_frame_def decode_parsed_frame_def decode_request_def)
next
  assume enc: "encode_success lib action flow r body = Ok frame"
  then obtain d where d: "raw_body lib body = Ok d" "body_allowed action flow body" and
    wire: "encode_wire lib (action_as_str action)
      \<lparr>we_request_id = map_or_missing r, we_status = Present True, we_data = Present d, we_error = Missing\<rparr> = Ok frame"
    and flow: "flow = ServerResponse \<and> r \<noteq> None \<or> flow = ServerPush \<and> r = None"
    by (cases flow) (auto simp: encode_success_def result_simps)
  note body = raw_body_decodes [OF assms(1) d]
  show "decode_server_text_frame lib frame =
      Ok \<lparr>df_action = action, df_flow = flow, df_envelope = Success r body\<rparr>"
    using encode_wire_parses [OF assms(2) _ wire] body flow
    by (auto simp: decode_server_text_frame_def server_flow_def decode_parsed_frame_def decode_response_def
        decode_push_def map_or_missing_def)
next
  assume enc: "encode_failure lib action r err = Ok frame"
  then have valid: "v2_error_validate err = Ok ()" and
    wire: "encode_wire lib (action_as_str action)
      \<lparr>we_request_id = map_or_missing r, we_status = Present False, we_data = Missing, we_error = Present err\<rparr> = Ok frame"
    by (auto simp: encode_failure_def result_simps)
  show "decode_server_text_frame lib frame =
      Ok \<lparr>df_action = action, df_flow = ServerResponse, df_envelope = Failure r err\<rparr>"
    using encode_wire_parses [OF assms(2) _ wire] valid
    by (simp add: decode_server_text_frame_def server_flow_def decode_parsed_frame_def decode_response_def)
qed

text \<open>
  A concrete \<open>serde_json\<close> for one acknowledgement request, to evaluate the codec on.
\<close>

definition sample_body :: MessageBody where
  "sample_body = BAck \<lparr>ack_workspace_id = WorkspaceId 1, ack_client_id = ClientId 2,
     ack_revision = WorkspaceRevision 3\<rparr>"

definition sample_envelope :: WireEnvelope where
  "sample_envelope = \<lparr>we_request_id = Present (RequestId 4), we_status = Missing, we_data = Present [0x7B, 0x7D],
     we_error = Missing\<rparr>"

definition sample_lib :: envelope_lib where
  "sample_lib =
     \<lparr>json_text = (\<lambda>_. Some (JObject [])),
      body_from_json = (\<lambda>k _. if k = KAck then Some sample_body else None),
      body_to_json = (\<lambda>b. if b = sample_body then Some [0x7B, 0x7D] else None),
      envelope_from_json = (\<lambda>_. Some sample_envelope),
      envelope_to_json = (\<lambda>e. if e = sample_envelope then Some [0x7B, 0x20, 0x7D] else None),
      raw_value = (\<lambda>_. True)\<rparr>"

theorem text_frame_roundtrip_witness:
  "\<exists>frame. encode_request sample_lib AAck (RequestId 4) sample_body = Ok frame \<and>
     decode_text_frame sample_lib frame ClientRequest =
       Ok \<lparr>df_action = AAck, df_flow = ClientRequest, df_envelope = Request (RequestId 4) sample_body\<rparr>"
proof -
  have laws: "serde_body_law sample_lib" "serde_envelope_law sample_lib"
    by (auto simp: serde_body_law_def serde_envelope_law_def object_text_def sample_lib_def sample_body_def)
  have "body_allowed AAck ClientRequest sample_body"
    by (simp add: body_allowed_def ACTION_FLOW_SPECS_def flow_spec_def sample_body_def)
  then have "encode_request sample_lib AAck (RequestId 4) sample_body =
      Ok (as_bytes ''WorkspaceAck'' @ [SEPARATOR] @ [0x7B, 0x20, 0x7D])"
    by (simp add: encode_request_def check_body_def body_allowed_def flow_allowed_def ACTION_FLOW_SPECS_def
        flow_spec_def raw_body_def encode_body_def encode_wire_def sample_lib_def sample_envelope_def Let_def
        MAX_CONTROL_FRAME_BYTES_def sample_body_def)
  with text_frame_roundtrip [OF laws] show ?thesis by blast
qed

section \<open>Decoded frames fit their flow\<close>

definition frame_wf :: "DecodedFrame \<Rightarrow> bool" where
  "frame_wf d \<longleftrightarrow>
     (case df_envelope d of
        Request r body \<Rightarrow> df_flow d = ClientRequest \<and> body_allowed (df_action d) ClientRequest body
      | Success r body \<Rightarrow>
          df_flow d = (if r = None then ServerPush else ServerResponse) \<and> body_allowed (df_action d) (df_flow d) body
      | Failure r err \<Rightarrow> df_flow d = ServerResponse \<and> err = v2_error_new (v2_code err) (v2_fields err))"

lemma decode_parsed_frame_wf:
  assumes "typed_bodies lib" "decode_parsed_frame lib action flow envelope = Ok d"
  shows "frame_wf d \<and> df_action d = action \<and> df_flow d = flow"
proof -
  have err: "v2_error_validate err = Ok () \<Longrightarrow> err = v2_error_new (v2_code err) (v2_fields err)" for err
    by (cases err) (auto simp: v2_error_validate_def v2_error_new_def result_simps)
  show ?thesis
    using assms(2) decode_data_allowed [OF assms(1)]
    by (cases flow)
      (auto simp: decode_parsed_frame_def frame_wf_def decode_request_def decode_response_def decode_push_def
        result_simps dest!: err split: if_splits)
qed

text \<open>
  C7: Every frame the codec delivers, from whatever bytes, has the shape of its flow: a client frame
  is a request; a server frame is a success with an identifier (response) or without (push), or a
  failure whose message and retry flag are those of its code; and a body is one that the registry
  allows for the action in that flow. A frame has at most 65536 bytes. The deserializer of a body type
  yields bodies of that type.
\<close>

theorem decoded_frames_wf:
  assumes "typed_bodies lib"
  shows "(decode_text_frame lib frame flow = Ok d \<longrightarrow>
      frame_wf d \<and> df_flow d = flow \<and> length frame \<le> 65536) \<and>
    (decode_server_text_frame lib frame = Ok d \<longrightarrow>
      frame_wf d \<and> df_flow d \<noteq> ClientRequest \<and> length frame \<le> 65536)"
proof -
  have len: "length frame \<le> 65536" if "parse_text_frame lib frame = Ok r" for r
    using that by (simp add: parse_text_frame_def result_simps MAX_CONTROL_FRAME_BYTES_def)
  have flow: "server_flow e \<noteq> Ok ClientRequest" for e
    by (auto simp: server_flow_def split: Presence.splits bool.splits)
  have client: "frame_wf d \<and> df_flow d = flow \<and> length frame \<le> 65536"
    if "decode_text_frame lib frame flow = Ok d"
    using that len decode_parsed_frame_wf [OF assms]
    by (fastforce simp: decode_text_frame_def result_simps)
  have server: "frame_wf d \<and> df_flow d \<noteq> ClientRequest \<and> length frame \<le> 65536"
    if "decode_server_text_frame lib frame = Ok d"
    using that len decode_parsed_frame_wf [OF assms] flow
    by (fastforce simp: decode_server_text_frame_def result_simps)
  show ?thesis using client server by blast
qed

theorem decoded_frames_wf_witness:
  "frame_wf \<lparr>df_action = AAck, df_flow = ClientRequest, df_envelope = Request (RequestId 4) sample_body\<rparr>"
proof -
  have typed: "typed_bodies sample_lib"
    by (simp add: typed_bodies_def sample_lib_def sample_body_def)
  have frame: "as_bytes ''WorkspaceAck'' @ [SEPARATOR] @ [0x7B, 0x20, 0x7D] =
      as_bytes (action_as_str AAck) @ SEPARATOR # [0x7B, 0x20, 0x7D]" by simp
  have tok: "valid_action_token ''WorkspaceAck''" using valid_action_tokens [of AAck] by simp
  have act: "action_from_str ''WorkspaceAck'' = Ok AAck" by (simp add: action_from_str_Ok_iff)
  have "parse_text_frame sample_lib (as_bytes ''WorkspaceAck'' @ SEPARATOR # [0x7B, 0x20, 0x7D]) =
      Ok (AAck, sample_envelope)"
    using token_bytes [OF tok] tok act
    by (simp add: parse_text_frame_def Let_def takeWhile_separator MAX_CONTROL_FRAME_BYTES_def
        strict_from_slice_def check_duplicates_def sample_lib_def)
  then have "decode_text_frame sample_lib (as_bytes ''WorkspaceAck'' @ SEPARATOR # [0x7B, 0x20, 0x7D]) ClientRequest =
      Ok \<lparr>df_action = AAck, df_flow = ClientRequest, df_envelope = Request (RequestId 4) sample_body\<rparr>"
    by (simp add: decode_text_frame_def decode_parsed_frame_def decode_request_def sample_envelope_def
        decode_data_def ACTION_FLOW_SPECS_def flow_spec_def strict_from_slice_def check_duplicates_def sample_lib_def)
  with decoded_frames_wf [OF typed] show ?thesis by blast
qed

end
