(* ===== verification/Fs_Rules.thy ===== *)
theory Fs_Rules
  imports Protocol_Values
begin

text \<open>
  The synchronisation rules (\<open>fns-fs/src/rules.rs\<close>): which paths are synchronised. Patterns are
  compiled by \<open>globset\<close>, which is the argument \<open>glob\<close>: it gives the matcher of a pattern, or nothing
  for an invalid pattern. The theorems show the order of precedence, in particular that no
  configuration can include an internal file or, with protection on, a secret.
\<close>

section \<open>Rules\<close>

type_synonym matcher = "string \<Rightarrow> bool"
type_synonym glob = "string \<Rightarrow> matcher option"

definition DEFAULT_INCLUDES :: "string list" where
  "DEFAULT_INCLUDES = [''**'']"

definition DEFAULT_EXCLUDES :: "string list" where
  "DEFAULT_EXCLUDES =
     [''.git/**'', ''.hg/**'', ''.svn/**'', ''node_modules/**'', ''.venv/**'', ''venv/**'', ''target/**'',
      ''build/**'', ''dist/**'', ''.next/**'', ''.cache/**'', ''**/__pycache__/**'', ''**/.pytest_cache/**'',
      ''**/.mypy_cache/**'', ''**/.ruff_cache/**'', ''**/*.log'', ''**/*.sock'', ''**/*.pid'', ''**/.DS_Store'',
      ''**/.fns_state.json'']"

definition HARD_INTERNAL_EXCLUDES :: "string list" where
  "HARD_INTERNAL_EXCLUDES =
     [''.fns_state.json'', ''**/.fns_state.json'', ''.fns-case-probe-*'', ''**/.fns-case-probe-*'',
      ''.fns-tmp-*'', ''**/.fns-tmp-*'', ''.fns-delete-*'', ''**/.fns-delete-*'', ''.fns-rename-*'',
      ''**/.fns-rename-*'', ''.fns-internal/**'', ''**/.fns-internal/**'']"

definition HARD_SECRET_EXCLUDES :: "string list" where
  "HARD_SECRET_EXCLUDES =
     [''.env'', ''**/.env'', ''.env.*'', ''**/.env.*'', ''*.pem'', ''**/*.pem'', ''*.key'', ''**/*.key'',
      ''.ssh/**'', ''**/.ssh/**'', ''id_rsa'', ''**/id_rsa'', ''id_ed25519'', ''**/id_ed25519'',
      ''.aws/credentials'', ''**/.aws/credentials'',
      ''.config/gcloud/application_default_credentials.json'',
      ''**/.config/gcloud/application_default_credentials.json'',
      ''.azure/accessTokens.json'', ''**/.azure/accessTokens.json'',
      ''.azure/msal_token_cache.json'', ''**/.azure/msal_token_cache.json'',
      ''.kube/config'', ''**/.kube/config'', ''.docker/config.json'', ''**/.docker/config.json'']"

definition SAFE_ENV_BASENAMES :: "string list" where
  "SAFE_ENV_BASENAMES = [''.env.example'', ''.env.sample'', ''.env.template'']"

definition ENV_SECRET_PATTERN_COUNT :: nat where "ENV_SECRET_PATTERN_COUNT = 4"

record SyncRuleConfig =
  rc_includes :: "string list"
  rc_excludes :: "string list"
  rc_protect_secrets :: bool

definition default_rule_config :: SyncRuleConfig where
  "default_rule_config = \<lparr>rc_includes = [], rc_excludes = [], rc_protect_secrets = True\<rparr>"

datatype RuleSource = HardInternal | HardSecurity | UserExclude | UserInclude | DefaultExclude | DefaultInclude

record RuleDecision =
  rd_included :: bool
  rd_source :: RuleSource

record SyncRules =
  hard_internal :: "matcher list"
  hard_env_secrets :: "matcher list"
  hard_other_secrets :: "matcher list"
  user_excludes :: "matcher list"
  user_includes :: "matcher list"
  default_excludes :: "matcher list"
  default_includes :: "matcher list"
  user_include_prefixes :: "string list"
  protect_secrets :: bool

datatype FsError =
    InvalidRule nat string | RootNotDirectory | RootSymlink | InvalidPath string | PathEscape
  | PathCollision WorkspacePath | UnsupportedSymlink | UnstableFile WorkspacePath | ContentMismatch
  | SizeMismatch | QueueDisconnected | Io string

definition INVALID_RULE_REASON :: string where "INVALID_RULE_REASON = ''invalid glob pattern''"

text \<open>Patterns are compiled in order; the error is the index of the first invalid one.\<close>

fun compile_globs_from :: "glob \<Rightarrow> nat \<Rightarrow> string list \<Rightarrow> (matcher list, FsError) result" where
  "compile_globs_from glob index [] = Ok []"
| "compile_globs_from glob index (pattern # ps) =
     and_then (ok_or (glob pattern) (InvalidRule index INVALID_RULE_REASON)) (\<lambda>m.
     and_then (compile_globs_from glob (index + 1) ps) (\<lambda>ms. Ok (m # ms)))"

definition compile_globs :: "glob \<Rightarrow> string list \<Rightarrow> (matcher list, FsError) result" where
  "compile_globs glob ps = compile_globs_from glob 0 ps"

definition literal_prefix :: "string \<Rightarrow> string" where
  "literal_prefix pattern = takeWhile (\<lambda>c. c \<notin> set ''*?[{'') pattern"

definition rules_compile :: "glob \<Rightarrow> SyncRuleConfig \<Rightarrow> (SyncRules, FsError) result" where
  "rules_compile glob config =
     (let prefixes = map literal_prefix (rc_includes config) in
      and_then (compile_globs glob HARD_INTERNAL_EXCLUDES) (\<lambda>internal.
      and_then (compile_globs glob (take ENV_SECRET_PATTERN_COUNT HARD_SECRET_EXCLUDES)) (\<lambda>env.
      and_then (compile_globs glob (drop ENV_SECRET_PATTERN_COUNT HARD_SECRET_EXCLUDES)) (\<lambda>other.
      and_then (compile_globs glob (rc_excludes config)) (\<lambda>uex.
      and_then (compile_globs glob (rc_includes config)) (\<lambda>uin.
      and_then (compile_globs glob DEFAULT_EXCLUDES) (\<lambda>dex.
      and_then (compile_globs glob DEFAULT_INCLUDES) (\<lambda>din.
      Ok \<lparr>hard_internal = internal, hard_env_secrets = env, hard_other_secrets = other,
          user_excludes = uex, user_includes = uin, default_excludes = dex, default_includes = din,
          user_include_prefixes = prefixes, protect_secrets = rc_protect_secrets config\<rparr>))))))))"

definition matches_any :: "matcher list \<Rightarrow> string \<Rightarrow> bool \<Rightarrow> bool" where
  "matches_any globs path is_dir =
     (list_ex (\<lambda>g. g path) globs \<or> (is_dir \<and> list_ex (\<lambda>g. g (path @ ''/'')) globs))"

definition basename :: "string \<Rightarrow> string" where
  "basename path = last (split_on CHR ''/'' path)"

definition has_safe_env_basename :: "string \<Rightarrow> bool" where
  "has_safe_env_basename path = (basename path \<in> set SAFE_ENV_BASENAMES)"

definition safe_env_alias :: "string \<Rightarrow> string option" where
  "safe_env_alias path =
     (if has_safe_env_basename path then Some (take (length path - length (basename path)) path @ ''.env'') else None)"

definition matches_user_rule :: "matcher list \<Rightarrow> string \<Rightarrow> bool \<Rightarrow> bool" where
  "matches_user_rule globs path is_dir =
     (matches_any globs path is_dir \<or>
      (case safe_env_alias path of None \<Rightarrow> False | Some alias \<Rightarrow> matches_any globs alias is_dir))"

definition rule_included :: "RuleSource \<Rightarrow> RuleDecision" where
  "rule_included source = \<lparr>rd_included = True, rd_source = source\<rparr>"

definition rule_excluded :: "RuleSource \<Rightarrow> RuleDecision" where
  "rule_excluded source = \<lparr>rd_included = False, rd_source = source\<rparr>"

definition decide :: "SyncRules \<Rightarrow> WorkspacePath \<Rightarrow> bool \<Rightarrow> RuleDecision" where
  "decide rules path is_dir =
     (let v = path_str path in
      if matches_any (hard_internal rules) v is_dir then rule_excluded HardInternal
      else if protect_secrets rules \<and>
          (matches_any (hard_other_secrets rules) v is_dir \<or>
           (\<not> has_safe_env_basename v \<and> matches_any (hard_env_secrets rules) v is_dir))
        then rule_excluded HardSecurity
      else if matches_user_rule (user_excludes rules) v is_dir then rule_excluded UserExclude
      else if matches_user_rule (user_includes rules) v is_dir then rule_included UserInclude
      else if matches_any (default_excludes rules) v is_dir then rule_excluded DefaultExclude
      else \<lparr>rd_included = matches_any (default_includes rules) v is_dir, rd_source = DefaultInclude\<rparr>)"

text \<open>\<open>trim_end_matches('/')\<close> and the prefix test of \<open>is_ancestor\<close>.\<close>

definition trim_end_matches :: "char \<Rightarrow> string \<Rightarrow> string" where
  "trim_end_matches c s = rev (dropWhile (\<lambda>x. x = c) (rev s))"

definition is_ancestor :: "string \<Rightarrow> string \<Rightarrow> bool" where
  "is_ancestor path pre =
     (let pre = trim_end_matches CHR ''/'' pre in
      pre \<noteq> [] \<and> (path = pre \<or>
        (case strip_prefix pre path of None \<Rightarrow> False | Some rest \<Rightarrow> starts_with rest ''/'')))"

definition should_descend :: "SyncRules \<Rightarrow> WorkspacePath \<Rightarrow> bool" where
  "should_descend rules path =
     (let d = decide rules path True in
      if rd_source d \<in> {HardInternal, HardSecurity, UserExclude} then False
      else if rd_included d then True
      else if rd_source d = DefaultExclude then
        list_ex (\<lambda>pre. is_ancestor (path_str path) pre) (user_include_prefixes rules)
      else False)"

section \<open>Precedence\<close>

lemma compile_globs_from_set:
  "compile_globs_from glob i ps = Ok ms \<Longrightarrow> p \<in> set ps \<Longrightarrow> \<exists>m\<in>set ms. glob p = Some m"
  by (induction ps arbitrary: i ms) (auto simp: result_simps)

lemma compile_globs_set: "compile_globs glob ps = Ok ms \<Longrightarrow> p \<in> set ps \<Longrightarrow> \<exists>m\<in>set ms. glob p = Some m"
  unfolding compile_globs_def by (rule compile_globs_from_set)

lemma matches_compiled:
  assumes "compile_globs glob ps = Ok ms" "pat \<in> set ps" "glob pat = Some m" "m s \<or> (d \<and> m (s @ ''/''))"
  shows "matches_any ms s d"
  using compile_globs_set [OF assms(1,2)] assms(3,4) by (auto simp: matches_any_def list_ex_iff)

definition pattern_matches :: "glob \<Rightarrow> string list \<Rightarrow> WorkspacePath \<Rightarrow> bool \<Rightarrow> bool" where
  "pattern_matches glob ps path is_dir \<longleftrightarrow>
     (\<exists>pat\<in>set ps. \<exists>m. glob pat = Some m \<and> (m (path_str path) \<or> (is_dir \<and> m (path_str path @ ''/''))))"

lemma rules_compile_fields:
  assumes "rules_compile glob config = Ok rules"
  shows "compile_globs glob HARD_INTERNAL_EXCLUDES = Ok (hard_internal rules)"
    "compile_globs glob (take ENV_SECRET_PATTERN_COUNT HARD_SECRET_EXCLUDES) = Ok (hard_env_secrets rules)"
    "compile_globs glob (drop ENV_SECRET_PATTERN_COUNT HARD_SECRET_EXCLUDES) = Ok (hard_other_secrets rules)"
    "compile_globs glob (rc_excludes config) = Ok (user_excludes rules)"
    "protect_secrets rules = rc_protect_secrets config"
  using assms by (auto simp: rules_compile_def Let_def result_simps)

lemma matches_pattern:
  "compile_globs glob ps = Ok ms \<Longrightarrow> pattern_matches glob ps path d \<Longrightarrow> matches_any ms (path_str path) d"
  unfolding pattern_matches_def by (blast intro: matches_compiled)

text \<open>
  C14: No configuration of includes and excludes synchronises, or descends into, a path that an
  internal pattern matches; while secrets are protected, the same holds for every secret pattern
  (the environment-file patterns spare exactly the three sample file names); and a path that a user
  exclude pattern matches is never synchronised, whatever the user includes.
\<close>

theorem protected_paths_never_included:
  assumes "rules_compile glob config = Ok rules"
    and "pattern_matches glob HARD_INTERNAL_EXCLUDES path is_dir \<or>
      rc_protect_secrets config \<and>
        (pattern_matches glob (drop 4 HARD_SECRET_EXCLUDES) path is_dir \<or>
         pattern_matches glob (take 4 HARD_SECRET_EXCLUDES) path is_dir \<and>
           basename (path_str path) \<notin> {''.env.example'', ''.env.sample'', ''.env.template''}) \<or>
      pattern_matches glob (rc_excludes config) path is_dir"
  shows "\<not> rd_included (decide rules path is_dir) \<and> (is_dir \<longrightarrow> \<not> should_descend rules path)"
proof -
  note fields = rules_compile_fields [OF assms(1)]
  have env: "has_safe_env_basename s \<longleftrightarrow> basename s \<in> {''.env.example'', ''.env.sample'', ''.env.template''}" for s
    by (simp add: has_safe_env_basename_def SAFE_ENV_BASENAMES_def)
  have d: "\<not> rd_included (decide rules path is_dir) \<and>
      rd_source (decide rules path is_dir) \<in> {HardInternal, HardSecurity, UserExclude}"
    using assms(2) fields(1-4) [THEN matches_pattern] fields(5)
    by (auto simp: decide_def Let_def rule_excluded_def env ENV_SECRET_PATTERN_COUNT_def matches_user_rule_def)
  then show ?thesis by (auto simp: should_descend_def Let_def)
qed

text \<open>A matcher for literal patterns, to evaluate the rules on.\<close>

definition literal_glob :: glob where
  "literal_glob pattern = Some (\<lambda>s. s = pattern)"

lemma compile_literal: "compile_globs_from literal_glob i ps = Ok (map (\<lambda>p s. s = p) ps)"
  by (induction ps arbitrary: i) (simp_all add: literal_glob_def)

theorem protected_paths_never_included_witness:
  "\<exists>rules. rules_compile literal_glob \<lparr>rc_includes = [''.env''], rc_excludes = [], rc_protect_secrets = True\<rparr> = Ok rules \<and>
     \<not> rd_included (decide rules (WorkspacePath ''.env'') False)"
proof -
  let ?c = "\<lparr>rc_includes = [''.env''], rc_excludes = [], rc_protect_secrets = True\<rparr>"
  obtain rules where rules: "rules_compile literal_glob ?c = Ok rules"
    by (simp add: rules_compile_def compile_globs_def compile_literal literal_glob_def)
  have "pattern_matches literal_glob (take 4 HARD_SECRET_EXCLUDES) (WorkspacePath ''.env'') False"
    by (simp add: pattern_matches_def literal_glob_def HARD_SECRET_EXCLUDES_def)
  with protected_paths_never_included [OF rules, of "WorkspacePath ''.env''" False] rules
  show ?thesis by (simp add: basename_def)
qed

end
