(* ===== verification/FNS_Maps.thy ===== *)
theory FNS_Maps
  imports FNS_Prelude
begin

text \<open>
  The ordered maps of the standard library (\<open>BTreeMap\<close>) as association lists with strictly
  increasing keys, so that iteration visits the entries in key order. The locale \<open>map_ops\<close> is the
  interface the components rely on: what a lookup returns after an update, and how the size changes;
  it is interpreted on the association lists. A \<open>HashMap\<close> whose iteration order matters is the
  same list, and the operation that iterates over it takes the order as an argument.
\<close>

section \<open>The interface\<close>

locale map_ops =
  fixes get :: "'m \<Rightarrow> 'k \<Rightarrow> 'v option"
    and put :: "'k \<Rightarrow> 'v \<Rightarrow> 'm \<Rightarrow> 'm"
    and del :: "'k \<Rightarrow> 'm \<Rightarrow> 'm"
    and keys :: "'m \<Rightarrow> 'k list"
    and wf :: "'m \<Rightarrow> bool"
  assumes get_put: "wf m \<Longrightarrow> get (put k v m) = (get m)(k \<mapsto> v)"
    and get_del: "wf m \<Longrightarrow> get (del k m) = (get m)(k := None)"
    and wf_put: "wf m \<Longrightarrow> wf (put k v m)"
    and wf_del: "wf m \<Longrightarrow> wf (del k m)"
    and distinct_keys: "wf m \<Longrightarrow> distinct (keys m)"
    and keys_dom: "wf m \<Longrightarrow> set (keys m) = dom (get m)"
begin

lemma len_keys: "wf m \<Longrightarrow> length (keys m) = card (dom (get m))"
  by (metis distinct_card distinct_keys keys_dom)

lemma finite_dom: "wf m \<Longrightarrow> finite (dom (get m))"
  by (metis List.finite_set keys_dom)

lemma len_put: "wf m \<Longrightarrow> length (keys (put k v m)) = (if get m k = None then Suc (length (keys m)) else length (keys m))"
  by (auto simp: len_keys wf_put get_put finite_dom card_insert_if domIff insert_absorb)

lemma len_del: "wf m \<Longrightarrow> length (keys (del k m)) = (if get m k = None then length (keys m) else length (keys m) - 1)"
proof -
  assume wf: "wf m"
  have "dom ((get m)(k := None)) = dom (get m) - {k}" by auto
  then show ?thesis
    using wf by (auto simp: len_keys wf_del get_del finite_dom domIff card_Diff_singleton_if)
qed

lemma len_del_le: "wf m \<Longrightarrow> length (keys (del k m)) \<le> length (keys m)"
  by (simp add: len_del)

end

section \<open>Association lists in key order\<close>

type_synonym ('k, 'v) btree_map = "('k \<times> 'v) list"

definition bt_get :: "('k, 'v) btree_map \<Rightarrow> 'k \<Rightarrow> 'v option" where
  "bt_get m k = map_of m k"

fun bt_insert :: "'k::linorder \<Rightarrow> 'v \<Rightarrow> ('k, 'v) btree_map \<Rightarrow> ('k, 'v) btree_map" where
  "bt_insert k v [] = [(k, v)]"
| "bt_insert k v ((a, b) # m) =
     (if k < a then (k, v) # (a, b) # m else if k = a then (k, v) # m else (a, b) # bt_insert k v m)"

definition bt_remove :: "'k \<Rightarrow> ('k, 'v) btree_map \<Rightarrow> ('k, 'v) btree_map" where
  "bt_remove k m = filter (\<lambda>e. fst e \<noteq> k) m"

definition bt_retain :: "('k \<Rightarrow> 'v \<Rightarrow> bool) \<Rightarrow> ('k, 'v) btree_map \<Rightarrow> ('k, 'v) btree_map" where
  "bt_retain p m = filter (\<lambda>e. p (fst e) (snd e)) m"

definition bt_keys :: "('k, 'v) btree_map \<Rightarrow> 'k list" where
  "bt_keys m = map fst m"

definition bt_wf :: "('k::linorder, 'v) btree_map \<Rightarrow> bool" where
  "bt_wf m = sorted_wrt (<) (map fst m)"

lemma bt_wf_Nil [simp]: "bt_wf []"
  by (simp add: bt_wf_def)

lemma bt_wf_Cons: "bt_wf ((a, b) # m) \<longleftrightarrow> (\<forall>e\<in>set m. a < fst e) \<and> bt_wf m"
  by (simp add: bt_wf_def)

lemma set_bt_insert: "set (map fst (bt_insert k v m)) = insert k (set (map fst m))"
  by (induction k v m rule: bt_insert.induct) auto

lemma bt_wf_insert: "bt_wf m \<Longrightarrow> bt_wf (bt_insert k v m)"
proof (induction k v m rule: bt_insert.induct)
  case (2 k v a b m)
  have "\<forall>e\<in>set (bt_insert k v m). fst e = k \<or> fst e \<in> set (map fst m)"
    using set_bt_insert [of k v m] by (metis image_eqI insert_iff list.set_map)
  with 2 show ?case by (fastforce simp: bt_wf_Cons not_less)
qed (simp add: bt_wf_Cons)

lemma bt_get_insert: "bt_wf m \<Longrightarrow> bt_get (bt_insert k v m) = (bt_get m)(k \<mapsto> v)"
proof (induction k v m rule: bt_insert.induct)
  case (2 k v a b m)
  have "map_of m k = None" if "\<not> a < k" "k \<noteq> a \<longrightarrow> k < a"
    using that 2(2) by (auto simp: bt_wf_Cons map_of_eq_None_iff)
  with 2 show ?case by (auto simp: bt_get_def bt_wf_Cons fun_eq_iff)
qed (simp add: bt_get_def fun_eq_iff)

lemma bt_wf_filter: "bt_wf m \<Longrightarrow> bt_wf (filter p m)"
  by (induction m) (auto simp: bt_wf_Cons)

lemma bt_wf_remove [simp]: "bt_wf m \<Longrightarrow> bt_wf (bt_remove k m)"
  by (simp add: bt_remove_def bt_wf_filter)

lemma bt_wf_retain [simp]: "bt_wf m \<Longrightarrow> bt_wf (bt_retain p m)"
  by (simp add: bt_retain_def bt_wf_filter)

lemma bt_get_remove: "bt_get (bt_remove k m) = (bt_get m)(k := None)"
  by (induction m) (auto simp: bt_get_def bt_remove_def fun_eq_iff)

lemma bt_distinct: "bt_wf m \<Longrightarrow> distinct (bt_keys m)"
  by (induction m) (fastforce simp: bt_wf_Cons bt_keys_def)+

lemma bt_dom: "set (bt_keys m) = dom (bt_get m)"
  by (induction m) (auto simp: bt_keys_def bt_get_def)

interpretation bt: map_ops bt_get bt_insert bt_remove bt_keys bt_wf
  by unfold_locales (simp_all add: bt_get_insert bt_get_remove bt_wf_insert bt_distinct bt_dom)

lemma length_bt_keys [simp]: "length (bt_keys m) = length m"
  by (simp add: bt_keys_def)

lemmas bt_length_insert = bt.len_put [simplified length_bt_keys]
lemmas bt_length_remove = bt.len_del [simplified length_bt_keys]

lemma bt_length_retain_le: "length (bt_retain p m) \<le> length m"
  by (simp add: bt_retain_def)

lemma bt_length_remove_le: "length (bt_remove k m) \<le> length m"
  by (simp add: bt_remove_def)

lemma bt_get_retain: "bt_wf m \<Longrightarrow>
  bt_get (bt_retain p m) k = (case bt_get m k of None \<Rightarrow> None | Some v \<Rightarrow> if p k v then Some v else None)"
proof (induction m)
  case (Cons e m)
  have "map_of m (fst e) = None"
    using Cons(2) by (cases e) (auto simp: bt_wf_Cons map_of_eq_None_iff)
  with Cons show ?case
    by (cases e) (auto simp: bt_get_def bt_retain_def bt_wf_Cons split: option.splits)
qed (simp add: bt_get_def bt_retain_def)

section \<open>Hash maps\<close>

text \<open>
  A \<open>HashMap\<close> as its entries in some order; code that depends on the order takes it as an argument.
\<close>

type_synonym ('k, 'v) hash_map = "('k \<times> 'v) list"

definition hm_get :: "('k, 'v) hash_map \<Rightarrow> 'k \<Rightarrow> 'v option" where
  "hm_get m k = map_of m k"

definition hm_remove :: "'k \<Rightarrow> ('k, 'v) hash_map \<Rightarrow> ('k, 'v) hash_map" where
  "hm_remove k m = filter (\<lambda>e. fst e \<noteq> k) m"

definition hm_insert :: "'k \<Rightarrow> 'v \<Rightarrow> ('k, 'v) hash_map \<Rightarrow> ('k, 'v) hash_map" where
  "hm_insert k v m = (k, v) # hm_remove k m"

definition hm_keys :: "('k, 'v) hash_map \<Rightarrow> 'k list" where
  "hm_keys m = map fst m"

definition hm_wf :: "('k, 'v) hash_map \<Rightarrow> bool" where
  "hm_wf m = distinct (map fst m)"

lemma hm_wf_Nil [simp]: "hm_wf []"
  by (simp add: hm_wf_def)

lemma hm_wf_remove [simp]: "hm_wf m \<Longrightarrow> hm_wf (hm_remove k m)"
  by (induction m) (auto simp: hm_wf_def hm_remove_def)

lemma hm_wf_insert [simp]: "hm_wf m \<Longrightarrow> hm_wf (hm_insert k v m)"
  using hm_wf_remove [of m k] by (auto simp: hm_wf_def hm_insert_def hm_remove_def)

lemma hm_get_remove: "hm_get (hm_remove k m) = (hm_get m)(k := None)"
  by (induction m) (auto simp: hm_get_def hm_remove_def fun_eq_iff)

lemma hm_get_insert: "hm_get (hm_insert k v m) = (hm_get m)(k \<mapsto> v)"
  using hm_get_remove [of k m] by (auto simp: hm_get_def hm_insert_def fun_eq_iff)

lemma hm_dom: "set (hm_keys m) = dom (hm_get m)"
  by (induction m) (auto simp: hm_keys_def hm_get_def)

interpretation hm: map_ops hm_get hm_insert hm_remove hm_keys hm_wf
  by unfold_locales (simp_all add: hm_get_insert hm_get_remove hm_dom, simp add: hm_wf_def hm_keys_def)

lemma length_hm_keys [simp]: "length (hm_keys m) = length m"
  by (simp add: hm_keys_def)

lemmas hm_length_insert = hm.len_put [simplified length_hm_keys]
lemmas hm_length_remove = hm.len_del [simplified length_hm_keys]
lemmas hm_length_remove_le = hm.len_del_le [simplified length_hm_keys]

lemma hm_get_mem: "hm_wf m \<Longrightarrow> hm_get m k = Some v \<longleftrightarrow> (k, v) \<in> set m"
  by (simp add: hm_get_def hm_wf_def map_of_eq_Some_iff)

end
