(* ===== verification/Fs_Coalesce.thy ===== *)
theory Fs_Coalesce
  imports Fs_Rules FNS_Maps "HOL-Library.Multiset"
begin

text \<open>
  The event coalescer (\<open>fns-fs/src/coalesce.rs\<close>): it folds bursts of file-system notifications into
  changes, pairs the halves of renames, drops the echoes of the client's own writes, and asks for a
  rescan when it runs out of capacity. Instants and durations are natural numbers; \<open>Instant::now()\<close>
  and the iteration order of the hash map are arguments.
\<close>

section \<open>State\<close>

type_synonym instant = nat
type_synonym duration = nat

datatype FsChange =
    Create WorkspacePath | Update WorkspacePath | Delete WorkspacePath
  | Rename WorkspacePath WorkspacePath | RescanRequired

datatype CoalescePush = Accepted | PushRescanRequired

record EntrySignature =
  sig_kind :: WorkspaceEntryKind
  sig_content_hash :: "WorkspaceContentHash option"
  sig_size :: u64

datatype NativeFileId = Unix u64 u64

record FileFingerprint =
  fp_file_id :: NativeFileId
  fp_size :: u64
  fp_modified_at_ns :: int
  fp_changed_at_ns :: int

record ObservedEntry =
  oe_path :: WorkspacePath
  oe_kind :: WorkspaceEntryKind
  oe_metadata :: WorkspaceFileMetadata
  oe_fingerprint :: FileFingerprint
  oe_symlink_target :: "(u8 list) option"

text \<open>The trait \<open>PriorEntryLookup\<close> as its two methods.\<close>

record PriorEntryLookup =
  pl_signature :: "WorkspacePath \<Rightarrow> EntrySignature option"
  pl_observed :: "WorkspacePath \<Rightarrow> ObservedEntry option"

record ApplyReceipt =
  ar_apply_id :: uuid
  ar_touched :: "WorkspacePath list"
  ar_postimages :: "ObservedEntry option list"
  ar_postimage_hashes :: "WorkspaceContentHash option list"
  ar_cleanup_name :: "string option"

datatype NativeWatchKind = WCreate | WModify | WRemove | WRenameFrom | WRenameTo | WRenameBoth

record NormalizedWatchEvent =
  nw_kind :: NativeWatchKind
  nw_paths :: "string list"
  nw_rename_cookie :: "u64 option"
  nw_observed_at :: instant

datatype PendingKind = PCreate | PModify | PRemove

record PendingPath =
  pp_kind :: PendingKind
  pp_last_seen :: instant

record RenameHalf =
  rh_path :: string
  rh_kind :: NativeWatchKind
  rh_observed_at :: instant

record PendingRename =
  pr_from :: string
  pr_to :: string
  pr_observed_at :: instant

datatype PathKey = PathAccepted string | PathIgnored

record Suppression =
  su_missing :: bool
  su_kind :: WorkspaceEntryKind
  su_size :: u64
  su_executable :: bool
  su_fingerprint :: FileFingerprint
  su_hash :: "WorkspaceContentHash option"
  su_expires_at :: instant

record EventCoalescer =
  debounce :: duration
  rename :: duration
  capacity :: nat
  pending :: "(string, PendingPath) btree_map"
  occupied :: "string set"
  cookie_halves :: "(u64, RenameHalf) btree_map"
  unmatched_renames :: "RenameHalf list"
  direct_renames :: "PendingRename list"
  suppressions :: "(string, Suppression) btree_map"
  rescan_required :: bool
  rules :: SyncRules

definition with_rules :: "duration \<Rightarrow> duration \<Rightarrow> nat \<Rightarrow> SyncRules \<Rightarrow> EventCoalescer" where
  "with_rules db rn cap rs =
     \<lparr>debounce = db, rename = rn, capacity = cap, pending = [], occupied = {}, cookie_halves = [],
      unmatched_renames = [], direct_renames = [], suppressions = [], rescan_required = False, rules = rs\<rparr>"

section \<open>Helpers\<close>

definition ready :: "instant \<Rightarrow> instant \<Rightarrow> duration \<Rightarrow> bool" where
  "ready now at window = (at \<le> now \<and> window \<le> now - at)"

definition within_window :: "instant \<Rightarrow> instant \<Rightarrow> duration \<Rightarrow> bool" where
  "within_window left right window =
     (if right \<le> left then left - right \<le> window else right - left \<le> window)"

definition coalesce_parse_path :: "(string \<Rightarrow> string) \<Rightarrow> string \<Rightarrow> (WorkspacePath, FsError) result" where
  "coalesce_parse_path nfc path = map_err (\<lambda>e. InvalidPath (reason e)) (path_parse nfc path)"

definition is_descendant :: "string \<Rightarrow> string \<Rightarrow> bool" where
  "is_descendant path parent =
     (path = parent \<or> (case strip_prefix path parent of None \<Rightarrow> False | Some rest \<Rightarrow> starts_with rest ''/''))"

definition synthetic_suppression_fingerprint :: FileFingerprint where
  "synthetic_suppression_fingerprint =
     \<lparr>fp_file_id = Unix 0 0, fp_size = 0, fp_modified_at_ns = 0, fp_changed_at_ns = 0\<rparr>"

text \<open>
  One round of the loop of \<open>collapse_renames\<close>: the first pair of positions, in the order of the two
  nested loops, where one rename ends where the other starts.
\<close>

definition rename_link :: "(string \<times> string) list \<Rightarrow> (nat \<times> nat) option" where
  "rename_link rs =
     find (\<lambda>(left, right). left \<noteq> right \<and> snd (rs ! left) = fst (rs ! right))
       (List.product [0..<length rs] [0..<length rs])"

definition remove_at :: "nat \<Rightarrow> 'a list \<Rightarrow> 'a list" where
  "remove_at i xs = take i xs @ drop (Suc i) xs"

lemma rename_link_bounds:
  assumes "rename_link rs = Some (l, r)"
  shows "l < length rs" "r < length rs" "l \<noteq> r" "snd (rs ! l) = fst (rs ! r)"
proof -
  have "(l, r) \<in> set (List.product [0..<length rs] [0..<length rs])" "l \<noteq> r \<and> snd (rs ! l) = fst (rs ! r)"
    using assms unfolding rename_link_def find_Some_iff by (metis nth_mem, auto)
  then show "l < length rs" "r < length rs" "l \<noteq> r" "snd (rs ! l) = fst (rs ! r)" by auto
qed

function link_renames :: "(string \<times> string) list \<Rightarrow> (string \<times> string) list" where
  "link_renames rs =
     (case rename_link rs of
        None \<Rightarrow> rs
      | Some (left, right) \<Rightarrow>
          link_renames (remove_at right (rs[left := (fst (rs ! left), snd (rs ! right))])))"
  by pat_completeness auto
termination
  by (relation "measure length") (auto simp: remove_at_def dest: rename_link_bounds)

declare link_renames.simps [simp del]

text \<open>\<open>Vec::dedup\<close> removes consecutive repetitions.\<close>

definition collapse_renames :: "(string \<times> string) list \<Rightarrow> (string \<times> string) list" where
  "collapse_renames renames =
     filter (\<lambda>(from, to). from \<noteq> to) (remdups_adj (sort (link_renames renames)))"

section \<open>Recording\<close>

definition clear_pending :: "EventCoalescer \<Rightarrow> EventCoalescer" where
  "clear_pending c =
     c\<lparr>pending := [], occupied := {}, cookie_halves := [], unmatched_renames := [], direct_renames := []\<rparr>"

definition require_rescan :: "EventCoalescer \<Rightarrow> EventCoalescer \<times> CoalescePush" where
  "require_rescan c = ((clear_pending c)\<lparr>rescan_required := True\<rparr>, PushRescanRequired)"

definition prune_suppressions :: "instant \<Rightarrow> EventCoalescer \<Rightarrow> EventCoalescer" where
  "prune_suppressions now c = c\<lparr>suppressions := bt_retain (\<lambda>_ s. su_expires_at s > now) (suppressions c)\<rparr>"

text \<open>A native path is its bytes; the workspace's separator is the native one (\<open>cfg(unix)\<close>).\<close>

definition path_key :: "(string \<Rightarrow> string) \<Rightarrow> EventCoalescer \<Rightarrow> string \<Rightarrow> PathKey option" where
  "path_key nfc c path =
     (if \<not> utf8_valid (as_bytes path) then None
      else (case path_parse nfc path of
              Err _ \<Rightarrow> None
            | Ok workspace_path \<Rightarrow>
                if rd_included (decide (rules c) workspace_path False) \<and>
                   rd_included (decide (rules c) workspace_path True)
                then Some (PathAccepted path) else Some PathIgnored))"

definition reserve_paths :: "string list \<Rightarrow> EventCoalescer \<Rightarrow> EventCoalescer option" where
  "reserve_paths paths c =
     (let additional = length (filter (\<lambda>p. p \<notin> occupied c) paths) in
      if card (occupied c) + additional + length (suppressions c) > capacity c then None
      else Some (c\<lparr>occupied := occupied c \<union> set paths\<rparr>))"

definition reserve_rename_slot :: "EventCoalescer \<Rightarrow> bool" where
  "reserve_rename_slot c =
     (length (suppressions c) + length (pending c) + length (cookie_halves c) +
      length (unmatched_renames c) + length (direct_renames c) < capacity c)"

definition merge_pending :: "PendingKind \<Rightarrow> PendingKind \<Rightarrow> PendingKind option" where
  "merge_pending previous next =
     (case (previous, next) of
        (PCreate, PModify) \<Rightarrow> Some PCreate
      | (PCreate, PRemove) \<Rightarrow> None
      | (PRemove, PCreate) \<Rightarrow> Some PModify
      | (PRemove, PModify) \<Rightarrow> Some PModify
      | (PModify, PRemove) \<Rightarrow> Some PRemove
      | (previous, _) \<Rightarrow> Some previous)"

definition pending_of :: "NativeWatchKind \<Rightarrow> PendingKind option" where
  "pending_of kind =
     (case kind of WCreate \<Rightarrow> Some PCreate | WModify \<Rightarrow> Some PModify | WRemove \<Rightarrow> Some PRemove | _ \<Rightarrow> None)"

definition record_path :: "string \<Rightarrow> NativeWatchKind \<Rightarrow> instant \<Rightarrow> EventCoalescer \<Rightarrow> EventCoalescer" where
  "record_path path kind observed_at c =
     (case pending_of kind of
        None \<Rightarrow> c
      | Some next \<Rightarrow>
          (case bt_get (pending c) path of
             None \<Rightarrow> c\<lparr>pending := bt_insert path \<lparr>pp_kind = next, pp_last_seen = observed_at\<rparr> (pending c)\<rparr>
           | Some previous \<Rightarrow>
               (case merge_pending (pp_kind previous) next of
                  None \<Rightarrow> c\<lparr>occupied := occupied c - {path}, pending := bt_remove path (pending c)\<rparr>
                | Some k \<Rightarrow>
                    c\<lparr>pending := bt_insert path \<lparr>pp_kind = k, pp_last_seen = observed_at\<rparr> (pending c)\<rparr>)))"

text \<open>The halves of the same kind and path are merged, keeping the later instant.\<close>

fun touch_unmatched :: "RenameHalf \<Rightarrow> RenameHalf list \<Rightarrow> RenameHalf list option" where
  "touch_unmatched half [] = None"
| "touch_unmatched half (previous # hs) =
     (if rh_path previous = rh_path half \<and> rh_kind previous = rh_kind half
      then Some (previous\<lparr>rh_observed_at := max (rh_observed_at previous) (rh_observed_at half)\<rparr> # hs)
      else map_option (\<lambda>r. previous # r) (touch_unmatched half hs))"

definition push_unmatched :: "RenameHalf \<Rightarrow> EventCoalescer \<Rightarrow> EventCoalescer option" where
  "push_unmatched half c =
     (case touch_unmatched half (unmatched_renames c) of
        Some hs \<Rightarrow> Some (c\<lparr>unmatched_renames := hs\<rparr>)
      | None \<Rightarrow>
          if \<not> reserve_rename_slot c then None
          else Some (c\<lparr>unmatched_renames := unmatched_renames c @ [half]\<rparr>))"

section \<open>Accepting an event\<close>

definition push_rename_both :: "(string \<Rightarrow> string) \<Rightarrow> NormalizedWatchEvent \<Rightarrow> EventCoalescer \<Rightarrow> EventCoalescer \<times> CoalescePush" where
  "push_rename_both nfc event c =
     (case nw_paths event of
        [p, q] \<Rightarrow>
          (case (path_key nfc c p, path_key nfc c q) of
             (None, _) \<Rightarrow> require_rescan c
           | (_, None) \<Rightarrow> require_rescan c
           | (Some (PathAccepted from), Some (PathAccepted to)) \<Rightarrow>
               (case reserve_paths [from, to] c of
                  None \<Rightarrow> require_rescan c
                | Some c \<Rightarrow>
                    if \<not> reserve_rename_slot c then require_rescan c
                    else (c\<lparr>direct_renames := direct_renames c @
                             [\<lparr>pr_from = from, pr_to = to, pr_observed_at = nw_observed_at event\<rparr>]\<rparr>, Accepted))
           | (Some (PathAccepted path), Some PathIgnored) \<Rightarrow>
               (case reserve_paths [path] c of
                  None \<Rightarrow> require_rescan c
                | Some c \<Rightarrow> (record_path path WRemove (nw_observed_at event) c, Accepted))
           | (Some PathIgnored, Some (PathAccepted path)) \<Rightarrow>
               (case reserve_paths [path] c of
                  None \<Rightarrow> require_rescan c
                | Some c \<Rightarrow> (record_path path WCreate (nw_observed_at event) c, Accepted))
           | (Some PathIgnored, Some PathIgnored) \<Rightarrow> (c, Accepted))
      | _ \<Rightarrow> require_rescan c)"

definition push_cookie_half :: "u64 \<Rightarrow> RenameHalf \<Rightarrow> EventCoalescer \<Rightarrow> EventCoalescer \<times> CoalescePush" where
  "push_cookie_half cookie half c =
     (case bt_get (cookie_halves c) cookie of
        Some previous \<Rightarrow>
          let c = c\<lparr>cookie_halves := bt_remove cookie (cookie_halves c)\<rparr> in
          if rh_kind previous = rh_kind half \<or>
             \<not> within_window (rh_observed_at previous) (rh_observed_at half) (rename c)
          then
            (case push_unmatched previous c of
               None \<Rightarrow> require_rescan c
             | Some c \<Rightarrow>
                 if \<not> reserve_rename_slot c then require_rescan c
                 else (c\<lparr>cookie_halves := bt_insert cookie half (cookie_halves c)\<rparr>, Accepted))
          else
            (let (from, to) = (if rh_kind previous = WRenameFrom then (rh_path previous, rh_path half)
                               else (rh_path half, rh_path previous))
             in (c\<lparr>direct_renames := direct_renames c @
                    [\<lparr>pr_from = from, pr_to = to,
                      pr_observed_at = max (rh_observed_at previous) (rh_observed_at half)\<rparr>]\<rparr>, Accepted))
      | None \<Rightarrow>
          if \<not> reserve_rename_slot c then require_rescan c
          else (c\<lparr>cookie_halves := bt_insert cookie half (cookie_halves c)\<rparr>, Accepted))"

definition push_rename_half :: "(string \<Rightarrow> string) \<Rightarrow> NormalizedWatchEvent \<Rightarrow> EventCoalescer \<Rightarrow> EventCoalescer \<times> CoalescePush" where
  "push_rename_half nfc event c =
     (case nw_paths event of
        [p] \<Rightarrow>
          (case path_key nfc c p of
             None \<Rightarrow> require_rescan c
           | Some PathIgnored \<Rightarrow> (c, Accepted)
           | Some (PathAccepted path) \<Rightarrow>
               (case reserve_paths [path] c of
                  None \<Rightarrow> require_rescan c
                | Some c \<Rightarrow>
                    let half = \<lparr>rh_path = path, rh_kind = nw_kind event, rh_observed_at = nw_observed_at event\<rparr> in
                    (case nw_rename_cookie event of
                       Some cookie \<Rightarrow> push_cookie_half cookie half c
                     | None \<Rightarrow>
                         (case push_unmatched half c of None \<Rightarrow> require_rescan c | Some c \<Rightarrow> (c, Accepted)))))
      | _ \<Rightarrow> require_rescan c)"

fun push_paths :: "(string \<Rightarrow> string) \<Rightarrow> NativeWatchKind \<Rightarrow> instant \<Rightarrow> string list \<Rightarrow> EventCoalescer \<Rightarrow> EventCoalescer \<times> CoalescePush" where
  "push_paths nfc kind at [] c = (c, Accepted)"
| "push_paths nfc kind at (p # ps) c =
     (case path_key nfc c p of
        None \<Rightarrow> require_rescan c
      | Some PathIgnored \<Rightarrow> push_paths nfc kind at ps c
      | Some (PathAccepted path) \<Rightarrow>
          (case reserve_paths [path] c of
             None \<Rightarrow> require_rescan c
           | Some c \<Rightarrow> push_paths nfc kind at ps (record_path path kind at c)))"

definition push :: "(string \<Rightarrow> string) \<Rightarrow> instant \<Rightarrow> NormalizedWatchEvent \<Rightarrow> EventCoalescer \<Rightarrow> EventCoalescer \<times> CoalescePush" where
  "push nfc now event c =
     (let c = prune_suppressions now c in
      if rescan_required c then (c, PushRescanRequired)
      else (case nw_kind event of
              WRenameBoth \<Rightarrow> push_rename_both nfc event c
            | WRenameFrom \<Rightarrow> push_rename_half nfc event c
            | WRenameTo \<Rightarrow> push_rename_half nfc event c
            | kind \<Rightarrow> push_paths nfc kind (nw_observed_at event) (nw_paths event) c))"

section \<open>Suppressing the client's own writes\<close>

definition is_suppressed ::
    "string \<Rightarrow> instant \<Rightarrow> PriorEntryLookup \<Rightarrow> WorkspacePath \<Rightarrow> EventCoalescer \<Rightarrow> bool \<times> EventCoalescer" where
  "is_suppressed path now prior workspace_path c =
     (case bt_get (suppressions c) path of
        None \<Rightarrow> (False, c)
      | Some s \<Rightarrow>
          if su_expires_at s \<le> now then (False, c\<lparr>suppressions := bt_remove path (suppressions c)\<rparr>)
          else if su_missing s then (pl_signature prior workspace_path = None, c)
          else (case pl_signature prior workspace_path of
                  None \<Rightarrow> (False, c)
                | Some current \<Rightarrow>
                    let basic_match = sig_kind current = su_kind s \<and> sig_size current = su_size s \<and>
                          (case su_hash s of None \<Rightarrow> True | Some h \<Rightarrow> sig_content_hash current = Some h) in
                    if \<not> basic_match then (False, c)
                    else (case pl_observed prior workspace_path of
                            None \<Rightarrow> (False, c)
                          | Some observed \<Rightarrow>
                              (oe_kind observed = su_kind s \<and> md_size (oe_metadata observed) = su_size s \<and>
                               md_executable (oe_metadata observed) = su_executable s \<and>
                               oe_fingerprint observed = su_fingerprint s, c))))"

text \<open>\<open>min_by_key\<close> returns the first of several minima; the map is visited in key order.\<close>

fun oldest_suppression :: "(string, Suppression) btree_map \<Rightarrow> string option" where
  "oldest_suppression [] = None"
| "oldest_suppression ((p, s) # m) =
     (case oldest_suppression m of
        None \<Rightarrow> Some p
      | Some q \<Rightarrow>
          (case bt_get m q of
             Some t \<Rightarrow> if su_expires_at s \<le> su_expires_at t then Some p else Some q
           | None \<Rightarrow> Some p))"

definition suppression_of :: "ObservedEntry option \<Rightarrow> WorkspaceContentHash option \<Rightarrow> instant \<Rightarrow> Suppression" where
  "suppression_of observed hash expires_at =
     \<lparr>su_missing = (observed = None),
      su_kind = (case observed of None \<Rightarrow> Tombstone | Some o' \<Rightarrow> oe_kind o'),
      su_size = (case observed of None \<Rightarrow> 0 | Some o' \<Rightarrow> md_size (oe_metadata o')),
      su_executable = (case observed of None \<Rightarrow> False | Some o' \<Rightarrow> md_executable (oe_metadata o')),
      su_fingerprint = (case observed of None \<Rightarrow> synthetic_suppression_fingerprint | Some o' \<Rightarrow> oe_fingerprint o'),
      su_hash = hash, su_expires_at = expires_at\<rparr>"

text \<open>\<open>Vec::get(i)\<close>.\<close>

definition vec_get :: "'a list \<Rightarrow> nat \<Rightarrow> 'a option" where
  "vec_get xs i = (if i < length xs then Some (xs ! i) else None)"

definition suppress_path :: "ApplyReceipt \<Rightarrow> instant \<Rightarrow> nat \<Rightarrow> WorkspacePath \<Rightarrow> EventCoalescer \<Rightarrow> EventCoalescer" where
  "suppress_path receipt expires_at index path c =
     (let key = path_str path;
          already_tracked = bt_get (suppressions c) key \<noteq> None;
          observed = (case vec_get (ar_postimages receipt) index of None \<Rightarrow> None | Some o' \<Rightarrow> o');
          hash = (case vec_get (ar_postimage_hashes receipt) index of None \<Rightarrow> None | Some h \<Rightarrow> h);
          track = (\<lambda>c. c\<lparr>suppressions := bt_insert key (suppression_of observed hash expires_at) (suppressions c)\<rparr>)
      in if \<not> already_tracked \<and> card (occupied c) + length (suppressions c) \<ge> capacity c then
           (case oldest_suppression (suppressions c) of
              None \<Rightarrow> c
            | Some oldest \<Rightarrow> track (c\<lparr>suppressions := bt_remove oldest (suppressions c)\<rparr>))
         else track c)"

fun suppress_paths :: "ApplyReceipt \<Rightarrow> instant \<Rightarrow> nat \<Rightarrow> WorkspacePath list \<Rightarrow> EventCoalescer \<Rightarrow> EventCoalescer" where
  "suppress_paths receipt expires_at index [] c = c"
| "suppress_paths receipt expires_at index (p # ps) c =
     suppress_paths receipt expires_at (index + 1) ps (suppress_path receipt expires_at index p c)"

definition suppress :: "instant \<Rightarrow> ApplyReceipt \<Rightarrow> EventCoalescer \<Rightarrow> EventCoalescer" where
  "suppress now receipt c =
     (let c = prune_suppressions now c in
      suppress_paths receipt (now + rename c) 0 (ar_touched receipt) c)"

section \<open>Flushing\<close>

type_synonym changes = "(string, FsChange) btree_map"

text \<open>
  Each loop of \<open>flush_ready\<close> updates the coalescer and the collected changes; a failure of
  \<open>parse_path\<close> leaves the function with the coalescer as it is then.
\<close>

type_synonym flushing = "EventCoalescer \<times> (changes, FsError) result"

definition change_of :: "PendingKind \<Rightarrow> WorkspacePath \<Rightarrow> FsChange" where
  "change_of kind path =
     (case kind of PCreate \<Rightarrow> Create path | PModify \<Rightarrow> Update path | PRemove \<Rightarrow> Delete path)"

fun flush_paths ::
    "(string \<Rightarrow> string) \<Rightarrow> instant \<Rightarrow> PriorEntryLookup \<Rightarrow> (string \<times> PendingPath) list \<Rightarrow> EventCoalescer \<Rightarrow> changes \<Rightarrow> flushing" where
  "flush_paths nfc now prior [] c changes = (c, Ok changes)"
| "flush_paths nfc now prior ((path, p) # ps) c changes =
     (let c = c\<lparr>pending := bt_remove path (pending c), occupied := occupied c - {path}\<rparr> in
      case coalesce_parse_path nfc path of
        Err e \<Rightarrow> (c, Err e)
      | Ok workspace_path \<Rightarrow>
          (let (suppressed, c) = is_suppressed path now prior workspace_path c in
           flush_paths nfc now prior ps c
             (if suppressed then changes else bt_insert path (change_of (pp_kind p) workspace_path) changes)))"

text \<open>A rename whose two ends are both echoes is dropped; the second end is asked only if the first is.\<close>

definition emit_rename ::
    "(string \<Rightarrow> string) \<Rightarrow> instant \<Rightarrow> PriorEntryLookup \<Rightarrow> string \<Rightarrow> string \<Rightarrow> EventCoalescer \<Rightarrow> changes \<Rightarrow> flushing" where
  "emit_rename nfc now prior from to c changes =
     (let changes = bt_retain (\<lambda>path _. \<not> is_descendant path from \<and> \<not> is_descendant path to) changes in
      case coalesce_parse_path nfc from of
        Err e \<Rightarrow> (c, Err e)
      | Ok from_path \<Rightarrow>
          (case coalesce_parse_path nfc to of
             Err e \<Rightarrow> (c, Err e)
           | Ok to_path \<Rightarrow>
               (let (first, c) = is_suppressed from now prior from_path c;
                    (both, c) = (if first then is_suppressed to now prior to_path c else (False, c))
                in (c, Ok (if both then changes else bt_insert from (Rename from_path to_path) changes)))))"

definition half_signature :: "(string \<Rightarrow> string) \<Rightarrow> PriorEntryLookup \<Rightarrow> RenameHalf \<Rightarrow> EntrySignature option" where
  "half_signature nfc prior half =
     (case coalesce_parse_path nfc (rh_path half) of Ok path \<Rightarrow> pl_signature prior path | Err _ \<Rightarrow> None)"

text \<open>
  A source half is paired when exactly one target half has its signature within the rename window
  and no other source half has that signature.
\<close>

definition rename_partner ::
    "duration \<Rightarrow> RenameHalf list \<Rightarrow> EntrySignature option list \<Rightarrow> RenameHalf list \<Rightarrow> EntrySignature option list \<Rightarrow> nat \<Rightarrow> nat option" where
  "rename_partner window froms from_signatures tos to_signatures from_index =
     (case from_signatures ! from_index of
        None \<Rightarrow> None
      | Some signature \<Rightarrow>
          (case filter (\<lambda>index. to_signatures ! index = Some signature \<and>
                   within_window (rh_observed_at (froms ! from_index)) (rh_observed_at (tos ! index)) window)
                 [0..<length to_signatures] of
             [to_index] \<Rightarrow>
               if length (filter (\<lambda>candidate. candidate = Some signature) from_signatures) = 1
               then Some to_index else None
           | _ \<Rightarrow> None))"

definition rename_pairs ::
    "duration \<Rightarrow> RenameHalf list \<Rightarrow> EntrySignature option list \<Rightarrow> RenameHalf list \<Rightarrow> EntrySignature option list \<Rightarrow> (nat \<times> nat) list" where
  "rename_pairs window froms from_signatures tos to_signatures =
     concat (map (\<lambda>i. case rename_partner window froms from_signatures tos to_signatures i of
                        None \<Rightarrow> [] | Some j \<Rightarrow> [(i, j)]) [0..<length from_signatures])"

fun flush_pairs ::
    "(string \<Rightarrow> string) \<Rightarrow> instant \<Rightarrow> PriorEntryLookup \<Rightarrow> RenameHalf list \<Rightarrow> RenameHalf list \<Rightarrow> (nat \<times> nat) list \<Rightarrow> EventCoalescer \<Rightarrow> changes \<Rightarrow> flushing" where
  "flush_pairs nfc now prior froms tos [] c changes = (c, Ok changes)"
| "flush_pairs nfc now prior froms tos ((i, j) # pairs) c changes =
     (let from = rh_path (froms ! i); to = rh_path (tos ! j);
          c = c\<lparr>occupied := occupied c - {from} - {to}\<rparr> in
      case emit_rename nfc now prior from to c changes of
        (c, Err e) \<Rightarrow> (c, Err e)
      | (c, Ok changes) \<Rightarrow> flush_pairs nfc now prior froms tos pairs c changes)"

fun flush_halves ::
    "(string \<Rightarrow> string) \<Rightarrow> instant \<Rightarrow> PriorEntryLookup \<Rightarrow> (WorkspacePath \<Rightarrow> FsChange) \<Rightarrow> RenameHalf list \<Rightarrow> EventCoalescer \<Rightarrow> changes \<Rightarrow> flushing" where
  "flush_halves nfc now prior mk [] c changes = (c, Ok changes)"
| "flush_halves nfc now prior mk (half # halves) c changes =
     (let c = c\<lparr>occupied := occupied c - {rh_path half}\<rparr> in
      case coalesce_parse_path nfc (rh_path half) of
        Err e \<Rightarrow> (c, Err e)
      | Ok path \<Rightarrow>
          (let (suppressed, c) = is_suppressed (rh_path half) now prior path c in
           flush_halves nfc now prior mk halves c
             (if suppressed then changes else bt_insert (rh_path half) (mk path) changes)))"

fun flush_renames ::
    "(string \<Rightarrow> string) \<Rightarrow> instant \<Rightarrow> PriorEntryLookup \<Rightarrow> (string \<times> string) list \<Rightarrow> (string \<times> string) list \<Rightarrow> EventCoalescer \<Rightarrow> changes \<Rightarrow> flushing" where
  "flush_renames nfc now prior raw [] c changes = (c, Ok changes)"
| "flush_renames nfc now prior raw ((from, to) # rs) c changes =
     (let c = c\<lparr>occupied := occupied c - {from} - {to} - (fst ` set raw \<union> snd ` set raw)\<rparr> in
      case emit_rename nfc now prior from to c changes of
        (c, Err e) \<Rightarrow> (c, Err e)
      | (c, Ok changes) \<Rightarrow> flush_renames nfc now prior raw rs c changes)"

definition and_flush :: "flushing \<Rightarrow> (EventCoalescer \<Rightarrow> changes \<Rightarrow> flushing) \<Rightarrow> flushing" where
  "and_flush r k = (case r of (c, Err e) \<Rightarrow> (c, Err e) | (c, Ok changes) \<Rightarrow> k c changes)"

definition flush_halves_step ::
    "(string \<Rightarrow> string) \<Rightarrow> ((u64 \<times> RenameHalf) list \<Rightarrow> (u64 \<times> RenameHalf) list) \<Rightarrow> instant \<Rightarrow> PriorEntryLookup \<Rightarrow> EventCoalescer \<Rightarrow> changes \<Rightarrow> flushing" where
  "flush_halves_step nfc hash_order now prior c changes =
     (let is_ready = (\<lambda>half. ready now (rh_observed_at half) (rename c));
          expired = map snd (filter (\<lambda>e. is_ready (snd e)) (hash_order (cookie_halves c))) @ unmatched_renames c;
          c = c\<lparr>cookie_halves := bt_retain (\<lambda>_ half. \<not> is_ready half) (cookie_halves c),
                unmatched_renames := filter (\<lambda>half. \<not> is_ready half) expired\<rparr>;
          froms = filter (\<lambda>half. is_ready half \<and> rh_kind half = WRenameFrom) expired;
          tos = filter (\<lambda>half. is_ready half \<and> rh_kind half = WRenameTo) expired;
          from_signatures = map (half_signature nfc prior) froms;
          to_signatures = map (half_signature nfc prior) tos;
          pairs = rename_pairs (rename c) froms from_signatures tos to_signatures;
          lone_froms = map (\<lambda>i. froms ! i) (filter (\<lambda>i. i \<notin> fst ` set pairs) [0..<length froms]);
          lone_tos = map (\<lambda>j. tos ! j) (filter (\<lambda>j. j \<notin> snd ` set pairs) [0..<length tos])
      in and_flush (flush_pairs nfc now prior froms tos pairs c changes) (\<lambda>c changes.
         and_flush (flush_halves nfc now prior Delete lone_froms c changes) (\<lambda>c changes.
         flush_halves nfc now prior Create lone_tos c changes)))"

definition flush_renames_step ::
    "(string \<Rightarrow> string) \<Rightarrow> instant \<Rightarrow> PriorEntryLookup \<Rightarrow> EventCoalescer \<Rightarrow> changes \<Rightarrow> flushing" where
  "flush_renames_step nfc now prior c changes =
     (let is_ready = (\<lambda>r. ready now (pr_observed_at r) (debounce c));
          renames = map (\<lambda>r. (pr_from r, pr_to r)) (filter is_ready (direct_renames c));
          c = c\<lparr>direct_renames := filter (\<lambda>r. \<not> is_ready r) (direct_renames c)\<rparr>
      in flush_renames nfc now prior renames (collapse_renames renames) c changes)"

definition flush_ready ::
    "(string \<Rightarrow> string) \<Rightarrow> ((u64 \<times> RenameHalf) list \<Rightarrow> (u64 \<times> RenameHalf) list) \<Rightarrow> instant \<Rightarrow> PriorEntryLookup \<Rightarrow> EventCoalescer \<Rightarrow>
     EventCoalescer \<times> (FsChange list, FsError) result" where
  "flush_ready nfc hash_order now prior c =
     (let c = prune_suppressions now c in
      if rescan_required c then ((clear_pending c)\<lparr>rescan_required := False\<rparr>, Ok [RescanRequired])
      else
        (let ready_paths = filter (\<lambda>e. ready now (pp_last_seen (snd e)) (debounce c)) (pending c);
             (c, r) = and_flush (flush_paths nfc now prior ready_paths c []) (\<lambda>c changes.
                      and_flush (flush_halves_step nfc hash_order now prior c changes) (\<lambda>c changes.
                      flush_renames_step nfc now prior c changes))
         in (c, and_then r (\<lambda>changes. Ok (map snd changes)))))"

section \<open>Invariant\<close>

definition valid_path :: "(string \<Rightarrow> string) \<Rightarrow> string \<Rightarrow> bool" where
  "valid_path nfc p \<longleftrightarrow> is_ok (path_parse nfc p)"

definition coalescer_inv :: "(string \<Rightarrow> string) \<Rightarrow> EventCoalescer \<Rightarrow> bool" where
  "coalescer_inv nfc c \<longleftrightarrow>
     finite (occupied c) \<and> bt_wf (pending c) \<and> bt_wf (cookie_halves c) \<and> bt_wf (suppressions c) \<and>
     card (occupied c) + length (suppressions c) \<le> capacity c \<and>
     length (cookie_halves c) + length (unmatched_renames c) + length (direct_renames c) \<le> capacity c \<and>
     (\<forall>e\<in>set (pending c). valid_path nfc (fst e)) \<and>
     (\<forall>e\<in>set (cookie_halves c). valid_path nfc (rh_path (snd e))) \<and>
     (\<forall>h\<in>set (unmatched_renames c). valid_path nfc (rh_path h)) \<and>
     (\<forall>r\<in>set (direct_renames c). valid_path nfc (pr_from r) \<and> valid_path nfc (pr_to r)) \<and>
     (rescan_required c \<longrightarrow> pending c = [] \<and> occupied c = {} \<and> cookie_halves c = [] \<and>
        unmatched_renames c = [] \<and> direct_renames c = [])"

text \<open>Everything but recording only drops tracked state.\<close>

definition shrinks :: "EventCoalescer \<Rightarrow> EventCoalescer \<Rightarrow> bool" where
  "shrinks c d \<longleftrightarrow>
     capacity d = capacity c \<and> rescan_required d = rescan_required c \<and> occupied d \<subseteq> occupied c \<and>
     set (pending d) \<subseteq> set (pending c) \<and> (bt_wf (pending c) \<longrightarrow> bt_wf (pending d)) \<and>
     set (cookie_halves d) \<subseteq> set (cookie_halves c) \<and> (bt_wf (cookie_halves c) \<longrightarrow> bt_wf (cookie_halves d)) \<and>
     length (cookie_halves d) \<le> length (cookie_halves c) \<and>
     (bt_wf (suppressions c) \<longrightarrow> bt_wf (suppressions d)) \<and> length (suppressions d) \<le> length (suppressions c) \<and>
     set (unmatched_renames d) \<subseteq> set (unmatched_renames c) \<and>
     length (unmatched_renames d) \<le> length (unmatched_renames c) \<and>
     set (direct_renames d) \<subseteq> set (direct_renames c) \<and> length (direct_renames d) \<le> length (direct_renames c)"

lemma shrinks_refl [simp, intro]: "shrinks c c"
  by (simp add: shrinks_def)

lemma shrinks_trans: "shrinks c d \<Longrightarrow> shrinks d e \<Longrightarrow> shrinks c e"
  unfolding shrinks_def by (elim conjE, intro conjI; (simp | blast | linarith))

lemma inv_shrinks:
  assumes "coalescer_inv nfc c" "shrinks c d"
  shows "coalescer_inv nfc d"
proof -
  note inv = assms(1) [unfolded coalescer_inv_def] and sh = assms(2) [unfolded shrinks_def]
  have fin: "finite (occupied d)" and le: "card (occupied d) \<le> card (occupied c)"
    using inv sh by (auto intro: card_mono finite_subset)
  show ?thesis
    unfolding coalescer_inv_def
  proof (intro conjI)
    show "card (occupied d) + length (suppressions d) \<le> capacity d"
      using inv sh le by linarith
    show "length (cookie_halves d) + length (unmatched_renames d) + length (direct_renames d) \<le> capacity d"
      using inv sh by linarith
    show "rescan_required d \<longrightarrow> pending d = [] \<and> occupied d = {} \<and> cookie_halves d = [] \<and>
        unmatched_renames d = [] \<and> direct_renames d = []"
      using inv sh by (metis length_0_conv le_zero_eq set_empty subset_empty)
  qed (use fin inv sh in \<open>simp_all, blast+\<close>)
qed

lemma bt_remove_subset: "set (bt_remove k m) \<subseteq> set m"
  by (auto simp: bt_remove_def)

lemma bt_retain_subset: "set (bt_retain p m) \<subseteq> set m"
  by (auto simp: bt_retain_def)

lemma shrinks_prune: "shrinks c (prune_suppressions now c)"
  by (simp add: shrinks_def prune_suppressions_def bt_length_retain_le)

lemma shrinks_suppressed: "shrinks c (snd (is_suppressed path now prior wp c))"
  by (auto simp: is_suppressed_def Let_def shrinks_def bt_length_remove_le split: option.splits)

lemma shrinks_occupied: "shrinks c (c\<lparr>occupied := occupied c - X\<rparr>)"
  by (auto simp: shrinks_def)

lemma shrinks_pending: "shrinks c (c\<lparr>pending := bt_remove p (pending c), occupied := occupied c - X\<rparr>)"
  using bt_remove_subset [of p "pending c"] by (auto simp: shrinks_def)

lemma shrinks_flush_paths: "shrinks c (fst (flush_paths nfc now prior ps c ch))"
proof (induction ps arbitrary: c ch)
  case (Cons e ps)
  obtain path p where e: "e = (path, p)" by (cases e)
  let ?c = "c\<lparr>pending := bt_remove path (pending c), occupied := occupied c - {path}\<rparr>"
  have 1: "shrinks c ?c" by (rule shrinks_pending)
  show ?case
  proof (cases "coalesce_parse_path nfc path")
    case (Ok wp)
    obtain b d where d: "is_suppressed path now prior wp ?c = (b, d)" by fastforce
    then have "shrinks ?c d" using shrinks_suppressed [of ?c path now prior wp] by simp
    with 1 Cons [of d] Ok d e show ?thesis
      by (auto intro: shrinks_trans)
  qed (use 1 e in simp)
qed simp

lemma shrinks_emit: "shrinks c (fst (emit_rename nfc now prior from to c ch))"
proof -
  have "shrinks c d" if "is_suppressed p now prior wp c = (b, d)" for p wp b d
    using shrinks_suppressed [of c p now prior wp] that by simp
  moreover have "shrinks c e" if "is_suppressed p now prior wp c = (b, d)"
      "is_suppressed q now prior wq d = (b', e)" for p wp b d q wq b' e
    using shrinks_suppressed [of c p now prior wp] shrinks_suppressed [of d q now prior wq] that
    by (auto intro: shrinks_trans)
  ultimately show ?thesis
    by (auto simp: emit_rename_def Let_def split: result.splits prod.splits if_splits)
qed

lemma shrinks_flush_pairs: "shrinks c (fst (flush_pairs nfc now prior froms tos ps c ch))"
proof (induction ps arbitrary: c ch)
  case (Cons e ps)
  obtain i j where e: "e = (i, j)" by (cases e)
  let ?c = "c\<lparr>occupied := occupied c - {rh_path (froms ! i)} - {rh_path (tos ! j)}\<rparr>"
  obtain d r where d: "emit_rename nfc now prior (rh_path (froms ! i)) (rh_path (tos ! j)) ?c ch = (d, r)"
    by fastforce
  have "shrinks c ?c" by (auto simp: shrinks_def)
  moreover have "shrinks ?c d" using shrinks_emit [of ?c] d by (metis fst_conv)
  ultimately have "shrinks c d" by (rule shrinks_trans)
  with Cons [of d] d e show ?case
    by (cases r) (auto simp: Let_def intro: shrinks_trans)
qed simp

lemma shrinks_flush_halves: "shrinks c (fst (flush_halves nfc now prior mk hs c ch))"
proof (induction hs arbitrary: c ch)
  case (Cons h hs)
  let ?c = "c\<lparr>occupied := occupied c - {rh_path h}\<rparr>"
  have 1: "shrinks c ?c" by (rule shrinks_occupied)
  show ?case
  proof (cases "coalesce_parse_path nfc (rh_path h)")
    case (Ok wp)
    obtain b d where d: "is_suppressed (rh_path h) now prior wp ?c = (b, d)" by fastforce
    then have "shrinks ?c d" using shrinks_suppressed [of ?c "rh_path h" now prior wp] by simp
    with 1 Cons [of d] Ok d show ?thesis
      by (auto intro: shrinks_trans)
  qed (use 1 in simp)
qed simp

lemma shrinks_flush_renames: "shrinks c (fst (flush_renames nfc now prior raw rs c ch))"
proof (induction rs arbitrary: c ch)
  case (Cons e rs)
  obtain src dst where e: "e = (src, dst)" by (cases e)
  let ?c = "c\<lparr>occupied := occupied c - {src} - {dst} - (fst ` set raw \<union> snd ` set raw)\<rparr>"
  obtain d r where d: "emit_rename nfc now prior src dst ?c ch = (d, r)" by fastforce
  have "shrinks c ?c" by (auto simp: shrinks_def)
  moreover have "shrinks ?c d" using shrinks_emit [of ?c] d by (metis fst_conv)
  ultimately have "shrinks c d" by (rule shrinks_trans)
  with Cons [of d] d e show ?case
    by (cases r) (auto simp: Let_def intro: shrinks_trans)
qed simp

lemma shrinks_and_flush:
  assumes "shrinks c (fst r)" "\<And>d ch. r = (d, Ok ch) \<Longrightarrow> shrinks d (fst (k d ch))"
  shows "shrinks c (fst (and_flush r k))"
  using assms by (auto simp: and_flush_def split: prod.splits result.splits intro: shrinks_trans)

lemma shrinks_halves_step:
  assumes "mset (ho (cookie_halves c)) = mset (cookie_halves c)"
  shows "shrinks c (fst (flush_halves_step nfc ho now prior c ch))"
proof -
  let ?ready = "\<lambda>half. ready now (rh_observed_at half) (rename c)"
  let ?exp = "map snd (filter (\<lambda>e. ?ready (snd e)) (ho (cookie_halves c))) @ unmatched_renames c"
  let ?c = "c\<lparr>cookie_halves := bt_retain (\<lambda>_ half. \<not> ?ready half) (cookie_halves c),
      unmatched_renames := filter (\<lambda>half. \<not> ?ready half) ?exp\<rparr>"
  have "filter (\<lambda>half. \<not> ?ready half) ?exp = filter (\<lambda>half. \<not> ?ready half) (unmatched_renames c)"
    by (simp add: filter_empty_conv)
  then have c: "shrinks c ?c"
    using bt_retain_subset by (auto simp: shrinks_def bt_length_retain_le simp del: filter_append)
  show ?thesis
    unfolding flush_halves_step_def Let_def
    by (rule shrinks_trans [OF c])
      (intro shrinks_and_flush shrinks_flush_pairs shrinks_flush_halves)
qed

lemma shrinks_renames_step: "shrinks c (fst (flush_renames_step nfc now prior c ch))"
proof -
  have "shrinks c (c\<lparr>direct_renames := filter p (direct_renames c)\<rparr>)" for p
    by (auto simp: shrinks_def)
  then show ?thesis
    unfolding flush_renames_step_def Let_def by (rule shrinks_trans [OF _ shrinks_flush_renames])
qed

lemma flush_paths_fields:
  "cookie_halves (fst (flush_paths nfc now prior ps c ch)) = cookie_halves c"
proof (induction ps arbitrary: c ch)
  case (Cons e ps)
  have "cookie_halves (snd (is_suppressed p now prior wp c)) = cookie_halves c" for p wp c
    by (auto simp: is_suppressed_def Let_def split: option.splits)
  then have "cookie_halves d = cookie_halves c" if "is_suppressed p now prior wp c = (b, d)" for p wp c b d
    using that by (metis snd_conv)
  with Cons show ?case
    by (cases e) (auto simp: Let_def split: result.splits prod.splits)
qed simp

lemma inv_flush:
  assumes "coalescer_inv nfc c" "mset (ho (cookie_halves c)) = mset (cookie_halves c)"
  shows "coalescer_inv nfc (fst (flush_ready nfc ho now prior c))"
proof -
  let ?p = "prune_suppressions now c"
  have p: "coalescer_inv nfc ?p" using assms(1) shrinks_prune by (rule inv_shrinks)
  show ?thesis
  proof (cases "rescan_required ?p")
    case True
    then show ?thesis
      using p by (simp add: flush_ready_def Let_def clear_pending_def coalescer_inv_def)
  next
    case False
    have cookies: "cookie_halves ?p = cookie_halves c" by (simp add: prune_suppressions_def)
    have "shrinks ?p (fst (and_flush (flush_paths nfc now prior ps ?p []) (\<lambda>c changes.
        and_flush (flush_halves_step nfc ho now prior c changes) (\<lambda>c changes.
        flush_renames_step nfc now prior c changes))))" for ps
    proof (rule shrinks_and_flush [OF shrinks_flush_paths])
      fix d ch
      assume "flush_paths nfc now prior ps ?p [] = (d, Ok ch)"
      then have "cookie_halves d = cookie_halves c"
        using flush_paths_fields [of nfc now prior ps ?p "[]"] cookies by simp
      then show "shrinks d (fst (and_flush (flush_halves_step nfc ho now prior d ch) (\<lambda>c changes.
          flush_renames_step nfc now prior c changes)))"
        using assms(2) by (intro shrinks_and_flush shrinks_halves_step shrinks_renames_step) simp
    qed
    with inv_shrinks [OF p] have "coalescer_inv nfc (fst (and_flush (flush_paths nfc now prior ps ?p []) (\<lambda>c changes.
        and_flush (flush_halves_step nfc ho now prior c changes) (\<lambda>c changes.
        flush_renames_step nfc now prior c changes))))" for ps
      by blast
    with False show ?thesis by (simp add: flush_ready_def Let_def case_prod_beta)
  qed
qed

section \<open>Recording keeps the invariant\<close>

lemma inv_require_rescan: "coalescer_inv nfc c \<Longrightarrow> coalescer_inv nfc (fst (require_rescan c))"
  by (simp add: require_rescan_def clear_pending_def coalescer_inv_def)

lemma path_key_valid: "path_key nfc c p = Some (PathAccepted path) \<Longrightarrow> valid_path nfc path"
  by (auto simp: path_key_def valid_path_def split: result.splits if_splits)

lemma inv_reserve_paths:
  assumes "coalescer_inv nfc c" "reserve_paths paths c = Some d" "\<not> rescan_required c"
  shows "coalescer_inv nfc d" "\<not> rescan_required d"
proof -
  have d: "d = c\<lparr>occupied := occupied c \<union> set paths\<rparr>"
    "card (occupied c) + length (filter (\<lambda>p. p \<notin> occupied c) paths) + length (suppressions c) \<le> capacity c"
    using assms(2) by (auto simp: reserve_paths_def Let_def split: if_splits)
  have "occupied c \<union> set paths = occupied c \<union> set (filter (\<lambda>p. p \<notin> occupied c) paths)" by auto
  then have "card (occupied c \<union> set paths) \<le> card (occupied c) + length (filter (\<lambda>p. p \<notin> occupied c) paths)"
    by (metis card_Un_le card_length add_left_mono le_trans)
  with d assms(1,3) show "coalescer_inv nfc d" "\<not> rescan_required d"
    by (auto simp: coalescer_inv_def)
qed

lemma set_bt_insert_subset: "set (bt_insert k v m) \<subseteq> insert (k, v) (set m)"
  by (induction k v m rule: bt_insert.induct) auto

lemma inv_record_path:
  assumes "coalescer_inv nfc c" "valid_path nfc path" "\<not> rescan_required c"
  shows "coalescer_inv nfc (record_path path kind at c)" "\<not> rescan_required (record_path path kind at c)"
proof -
  have ins: "coalescer_inv nfc (c\<lparr>pending := bt_insert path v (pending c)\<rparr>)" for v
    using assms set_bt_insert_subset [of path v "pending c"] bt_wf_insert [of "pending c" path v]
    by (fastforce simp: coalescer_inv_def)
  have del: "coalescer_inv nfc (c\<lparr>occupied := occupied c - {path}, pending := bt_remove path (pending c)\<rparr>)"
    using bt_remove_subset [of path "pending c"]
    by (intro inv_shrinks [OF assms(1)]) (auto simp: shrinks_def)
  from ins del show "coalescer_inv nfc (record_path path kind at c)"
    using assms(1) by (auto simp: record_path_def split: option.splits)
  show "\<not> rescan_required (record_path path kind at c)"
    using assms(3) by (auto simp: record_path_def split: option.splits)
qed

lemma touch_unmatched_Some:
  "touch_unmatched half hs = Some hs' \<Longrightarrow> map rh_path hs' = map rh_path hs"
  by (induction hs arbitrary: hs') (auto split: if_splits)

lemma inv_push_unmatched:
  assumes "coalescer_inv nfc c" "valid_path nfc (rh_path half)" "\<not> rescan_required c"
    and "push_unmatched half c = Some d"
  shows "coalescer_inv nfc d" "\<not> rescan_required d" "cookie_halves d = cookie_halves c"
proof -
  consider hs where "touch_unmatched half (unmatched_renames c) = Some hs" "d = c\<lparr>unmatched_renames := hs\<rparr>"
    | "reserve_rename_slot c" "d = c\<lparr>unmatched_renames := unmatched_renames c @ [half]\<rparr>"
    using assms(4) by (auto simp: push_unmatched_def split: option.splits if_splits)
  then have "coalescer_inv nfc d \<and> \<not> rescan_required d \<and> cookie_halves d = cookie_halves c"
  proof cases
    case 1
    note paths = touch_unmatched_Some [OF 1(1)]
    have "length hs = length (unmatched_renames c)" using paths by (metis length_map)
    moreover have "rh_path ` set hs = rh_path ` set (unmatched_renames c)" using paths by (metis list.set_map)
    then have "\<forall>h\<in>set hs. valid_path nfc (rh_path h)"
      using assms(1) unfolding coalescer_inv_def by (metis (no_types, lifting) imageE imageI)
    ultimately show ?thesis
      using 1(2) assms(1,3) by (auto simp: coalescer_inv_def)
  next
    case 2
    then show ?thesis
      using assms(1-3) by (auto simp: coalescer_inv_def reserve_rename_slot_def)
  qed
  then show "coalescer_inv nfc d" "\<not> rescan_required d" "cookie_halves d = cookie_halves c" by simp_all
qed

lemma inv_insert_cookie:
  assumes "coalescer_inv nfc c" "valid_path nfc (rh_path half)" "\<not> rescan_required c" "reserve_rename_slot c"
  shows "coalescer_inv nfc (c\<lparr>cookie_halves := bt_insert cookie half (cookie_halves c)\<rparr>)"
proof -
  have wf: "bt_wf (cookie_halves c)" using assms(1) by (simp add: coalescer_inv_def)
  have "length (bt_insert cookie half (cookie_halves c)) \<le> Suc (length (cookie_halves c))"
    using bt_length_insert [OF wf] by simp
  then show ?thesis
    using assms bt_wf_insert [OF wf, of cookie half] set_bt_insert_subset [of cookie half "cookie_halves c"]
    by (fastforce simp: coalescer_inv_def reserve_rename_slot_def)
qed

lemma inv_push_direct:
  assumes "coalescer_inv nfc c" "valid_path nfc (pr_from r)" "valid_path nfc (pr_to r)" "\<not> rescan_required c"
    and "length (cookie_halves c) + length (unmatched_renames c) + length (direct_renames c) < capacity c"
  shows "coalescer_inv nfc (c\<lparr>direct_renames := direct_renames c @ [r]\<rparr>)"
  using assms by (auto simp: coalescer_inv_def)

lemma inv_push_cookie_half:
  assumes "coalescer_inv nfc c" "valid_path nfc (rh_path half)" "\<not> rescan_required c"
  shows "coalescer_inv nfc (fst (push_cookie_half cookie half c))"
proof (cases "bt_get (cookie_halves c) cookie")
  case None
  with assms show ?thesis
    by (auto simp: push_cookie_half_def intro: inv_insert_cookie inv_require_rescan)
next
  case (Some previous)
  let ?c = "c\<lparr>cookie_halves := bt_remove cookie (cookie_halves c)\<rparr>"
  have wf: "bt_wf (cookie_halves c)" using assms(1) by (simp add: coalescer_inv_def)
  have "(cookie, previous) \<in> set (cookie_halves c)"
    using Some by (simp add: bt_get_def map_of_SomeD)
  then have prev: "valid_path nfc (rh_path previous)" and pos: "0 < length (cookie_halves c)"
    using assms(1) by (auto simp: coalescer_inv_def)
  have "shrinks c ?c"
    using bt_remove_subset [of cookie "cookie_halves c"] by (simp add: shrinks_def bt_length_remove_le)
  then have c: "coalescer_inv nfc ?c" "\<not> rescan_required ?c"
    using assms by (auto intro: inv_shrinks)
  have slot: "length (cookie_halves ?c) + length (unmatched_renames ?c) + length (direct_renames ?c) < capacity ?c"
  proof -
    have "length (bt_remove cookie (cookie_halves c)) = length (cookie_halves c) - 1"
      using bt_length_remove [OF wf, of cookie] Some by simp
    moreover have "length (cookie_halves c) + length (unmatched_renames c) + length (direct_renames c) \<le> capacity c"
      using assms(1) by (simp add: coalescer_inv_def)
    ultimately show ?thesis using pos by (simp del: length_greater_0_conv)
  qed
  show ?thesis
  proof (cases "rh_kind previous = rh_kind half \<or>
      \<not> within_window (rh_observed_at previous) (rh_observed_at half) (rename c)")
    case True
    then show ?thesis
      using Some c inv_push_unmatched(1,2) [OF c(1) prev c(2)] assms(2)
      by (auto simp: push_cookie_half_def Let_def split: option.splits
          intro!: inv_insert_cookie inv_require_rescan)
  next
    case False
    then show ?thesis
      using Some inv_push_direct [OF c(1) _ _ c(2) slot] prev assms(2)
      by (auto simp: push_cookie_half_def Let_def)
  qed
qed

lemma inv_push_paths:
  "coalescer_inv nfc c \<Longrightarrow> \<not> rescan_required c \<Longrightarrow> coalescer_inv nfc (fst (push_paths nfc kind at ps c))"
proof (induction ps arbitrary: c)
  case (Cons p ps)
  show ?case
  proof (cases "path_key nfc c p")
    case (Some key)
    show ?thesis
    proof (cases key)
      case (PathAccepted path)
      have valid: "valid_path nfc path" using Some PathAccepted path_key_valid by blast
      show ?thesis
      proof (cases "reserve_paths [path] c")
        case (Some d)
        note d = inv_reserve_paths [OF Cons.prems(1) Some Cons.prems(2)]
        show ?thesis
          using Cons.IH [OF inv_record_path [OF d(1) valid d(2)]] Some \<open>path_key nfc c p = Some key\<close> PathAccepted
          by simp
      qed (use Cons.prems \<open>path_key nfc c p = Some key\<close> PathAccepted in \<open>simp add: inv_require_rescan\<close>)
    qed (use Cons Some in simp)
  qed (use Cons.prems in \<open>simp add: inv_require_rescan\<close>)
qed simp

lemma inv_push_rename_half:
  assumes "coalescer_inv nfc c" "\<not> rescan_required c"
  shows "coalescer_inv nfc (fst (push_rename_half nfc event c))"
proof -
  have half: "coalescer_inv nfc (fst (case ck of Some cookie \<Rightarrow> push_cookie_half cookie h d
      | None \<Rightarrow> (case push_unmatched h d of None \<Rightarrow> require_rescan d | Some e \<Rightarrow> (e, Accepted))))"
    if "coalescer_inv nfc d" "\<not> rescan_required d" "valid_path nfc (rh_path h)" for ck d h
    using that inv_push_cookie_half [OF that(1,3,2)] inv_push_unmatched [OF that(1,3,2)]
    by (auto simp: inv_require_rescan split: option.splits)
  have accepted: "coalescer_inv nfc (fst (case reserve_paths [path] c of None \<Rightarrow> require_rescan c
      | Some c \<Rightarrow> let half = \<lparr>rh_path = path, rh_kind = nw_kind event, rh_observed_at = nw_observed_at event\<rparr> in
          (case nw_rename_cookie event of Some cookie \<Rightarrow> push_cookie_half cookie half c
           | None \<Rightarrow> (case push_unmatched half c of None \<Rightarrow> require_rescan c | Some c \<Rightarrow> (c, Accepted)))))"
    if "path_key nfc c p = Some (PathAccepted path)" for p path
    using half inv_reserve_paths [OF assms(1) _ assms(2), of "[path]"] path_key_valid [OF that] assms(1)
    by (cases "reserve_paths [path] c") (simp_all add: inv_require_rescan Let_def)
  show ?thesis
  proof (cases "\<exists>p. nw_paths event = [p]")
    case True
    then obtain p where p: "nw_paths event = [p]" by blast
    show ?thesis
    proof (cases "path_key nfc c p")
      case (Some key)
      then show ?thesis
        using p accepted [of p] assms(1) by (cases key) (simp_all add: push_rename_half_def)
    qed (use p assms in \<open>simp add: push_rename_half_def inv_require_rescan\<close>)
  next
    case False
    then show ?thesis
      using assms by (auto simp: push_rename_half_def inv_require_rescan split: list.splits)
  qed
qed

lemma inv_push_rename_both:
  assumes "coalescer_inv nfc c" "\<not> rescan_required c"
  shows "coalescer_inv nfc (fst (push_rename_both nfc event c))"
proof -
  have direct: "coalescer_inv nfc (d\<lparr>direct_renames := direct_renames d @ [r]\<rparr>)"
    if "coalescer_inv nfc d" "\<not> rescan_required d" "reserve_rename_slot d" "valid_path nfc (pr_from r)"
      "valid_path nfc (pr_to r)" for d r
    using that by (intro inv_push_direct) (auto simp: reserve_rename_slot_def)
  show ?thesis
    using assms inv_reserve_paths [OF assms(1) _ assms(2)] path_key_valid [of nfc c]
    by (auto simp: push_rename_both_def inv_require_rescan
        split: list.splits option.splits PathKey.splits
        intro!: direct inv_record_path inv_require_rescan)
qed

lemma inv_push:
  assumes "coalescer_inv nfc c"
  shows "coalescer_inv nfc (fst (push nfc now event c))"
proof -
  have p: "coalescer_inv nfc (prune_suppressions now c)" using assms shrinks_prune by (rule inv_shrinks)
  then show ?thesis
    using inv_push_rename_both [OF p] inv_push_rename_half [OF p] inv_push_paths [OF p]
    by (auto simp: push_def Let_def split: NativeWatchKind.splits)
qed

lemma oldest_suppression_mem: "oldest_suppression m = Some p \<Longrightarrow> bt_get m p \<noteq> None"
  by (induction m rule: oldest_suppression.induct) (auto simp: bt_get_def split: option.splits if_splits)

lemma oldest_suppression_None: "oldest_suppression m = None \<Longrightarrow> m = []"
  by (cases m rule: oldest_suppression.cases) (auto split: option.splits if_splits)

lemma inv_suppress_path:
  assumes "coalescer_inv nfc c"
  shows "coalescer_inv nfc (suppress_path receipt ex i path c)"
proof -
  have wf: "bt_wf (suppressions c)" and cap: "card (occupied c) + length (suppressions c) \<le> capacity c"
    using assms by (simp_all add: coalescer_inv_def)
  have upd: "coalescer_inv nfc (c\<lparr>suppressions := m\<rparr>)"
    if "bt_wf m" "card (occupied c) + length m \<le> capacity c" for m
    using assms that by (simp add: coalescer_inv_def)
  let ?key = "path_str path"
  have track: "coalescer_inv nfc (c\<lparr>suppressions := bt_insert ?key v (suppressions c)\<rparr>)"
    if "bt_get (suppressions c) ?key \<noteq> None \<or> card (occupied c) + length (suppressions c) < capacity c" for v
    using that cap bt_length_insert [OF wf, of ?key v] by (intro upd bt_wf_insert wf) auto
  have evict: "coalescer_inv nfc (c\<lparr>suppressions := bt_insert ?key v (bt_remove q (suppressions c))\<rparr>)"
    if q: "oldest_suppression (suppressions c) = Some q" for q v
  proof -
    have "length (bt_remove q (suppressions c)) = length (suppressions c) - 1" "suppressions c \<noteq> []"
      using bt_length_remove [OF wf, of q] oldest_suppression_mem [OF q] by (auto simp: bt_get_def)
    moreover have "length (bt_insert ?key v (bt_remove q (suppressions c))) \<le> Suc (length (bt_remove q (suppressions c)))"
      using bt_length_insert [of "bt_remove q (suppressions c)" ?key v] wf by simp
    ultimately have "length (bt_insert ?key v (bt_remove q (suppressions c))) \<le> length (suppressions c)"
      by (cases "suppressions c") auto
    with cap show ?thesis by (intro upd bt_wf_insert bt_wf_remove wf) linarith
  qed
  show ?thesis
  proof (cases "bt_get (suppressions c) ?key = None \<and> capacity c \<le> card (occupied c) + length (suppressions c)")
    case True
    then show ?thesis
      using assms evict by (cases "oldest_suppression (suppressions c)") (simp_all add: suppress_path_def Let_def)
  next
    case False
    then show ?thesis using track by (auto simp: suppress_path_def Let_def)
  qed
qed

lemma inv_suppress:
  assumes "coalescer_inv nfc c"
  shows "coalescer_inv nfc (suppress now receipt c)"
proof -
  have "coalescer_inv nfc (suppress_paths receipt ex i ps c)" if "coalescer_inv nfc c" for ex i ps c
    using that by (induction ps arbitrary: i c) (simp_all add: inv_suppress_path)
  then show ?thesis
    unfolding suppress_def Let_def using inv_shrinks [OF assms shrinks_prune] by blast
qed

section \<open>Reachable coalescers\<close>

inductive coalescer_reachable :: "(string \<Rightarrow> string) \<Rightarrow> EventCoalescer \<Rightarrow> bool" for nfc where
  fresh: "coalescer_reachable nfc (with_rules db rn cap rs)"
| pushed: "coalescer_reachable nfc c \<Longrightarrow> coalescer_reachable nfc (fst (push nfc now event c))"
| flushed: "coalescer_reachable nfc c \<Longrightarrow> mset (ho (cookie_halves c)) = mset (cookie_halves c) \<Longrightarrow>
    coalescer_reachable nfc (fst (flush_ready nfc ho now prior c))"
| suppressed: "coalescer_reachable nfc c \<Longrightarrow> coalescer_reachable nfc (suppress now receipt c)"

lemma reachable_inv: "coalescer_reachable nfc c \<Longrightarrow> coalescer_inv nfc c"
proof (induction rule: coalescer_reachable.induct)
  case (fresh db rn cap rs)
  then show ?case by (simp add: coalescer_inv_def with_rules_def)
qed (simp_all add: inv_push inv_flush inv_suppress)

section \<open>Collapsing renames\<close>

lemma remove_at_subset: "set (remove_at i xs) \<subseteq> set xs"
  by (auto simp: remove_at_def dest: in_set_takeD in_set_dropD)

lemma link_renames_ends:
  "fst ` set (link_renames rs) \<subseteq> fst ` set rs \<and> snd ` set (link_renames rs) \<subseteq> snd ` set rs"
proof (induction rs rule: link_renames.induct)
  case (1 rs)
  show ?case
  proof (cases "rename_link rs")
    case None
    then show ?thesis by (simp add: link_renames.simps)
  next
    case (Some lr)
    obtain l r where lr: "lr = (l, r)" by (cases lr)
    let ?rs = "remove_at r (rs[l := (fst (rs ! l), snd (rs ! r))])"
    note b = rename_link_bounds [OF Some [unfolded lr]]
    have "set ?rs \<subseteq> insert (fst (rs ! l), snd (rs ! r)) (set rs)"
      using remove_at_subset [of r] set_update_subset_insert by (metis order_trans)
    then have ends: "fst ` set ?rs \<subseteq> fst ` set rs" "snd ` set ?rs \<subseteq> snd ` set rs"
      using nth_mem [OF b(1)] nth_mem [OF b(2)] by fastforce+
    have step: "link_renames rs = link_renames ?rs"
      by (subst link_renames.simps) (simp add: Some lr)
    show ?thesis
      unfolding step using "1.IH" [OF Some lr [symmetric]] ends by blast
  qed
qed

lemma link_renames_done: "rename_link (link_renames rs) = None"
proof (induction rs rule: link_renames.induct)
  case (1 rs)
  then show ?case
    by (subst link_renames.simps) (auto split: option.splits)
qed

lemma link_renames_chain:
  "distinct (a # b # ps) \<Longrightarrow> link_renames (zip (a # b # ps) (b # ps)) = [(a, last (b # ps))]"
proof (induction ps arbitrary: b)
  case Nil
  have "rename_link [(a, b)] = None" by (simp add: rename_link_def)
  then show ?case by (subst link_renames.simps) simp
next
  case (Cons c ps)
  have "[0..<Suc (Suc (length ps))] = 0 # 1 # [2..<Suc (Suc (length ps))]"
    using upt_conv_Cons [of 0 "Suc (Suc (length ps))"] upt_conv_Cons [of 1 "Suc (Suc (length ps))"]
    by (simp add: numeral_2_eq_2 del: upt_Suc)
  moreover have "length (zip (a # b # c # ps) (b # c # ps)) = Suc (Suc (length ps))" by simp
  ultimately have "rename_link (zip (a # b # c # ps) (b # c # ps)) = Some (0, 1)"
    unfolding rename_link_def by (simp del: upt_Suc)
  then have "link_renames (zip (a # b # c # ps) (b # c # ps)) = link_renames (zip (a # c # ps) (c # ps))"
    by (subst link_renames.simps) (simp add: remove_at_def)
  with Cons show ?case by simp
qed

lemma collapse_renames_chain:
  assumes "distinct ps" "2 \<le> length ps"
  shows "collapse_renames (zip ps (tl ps)) = [(hd ps, last ps)]"
proof -
  obtain a b qs where ps: "ps = a # b # qs"
    using assms(2) by (metis Suc_le_length_iff numeral_2_eq_2)
  then have "a \<noteq> last (b # qs)" using assms(1) by (metis distinct.simps(2) last_in_set list.discI)
  then show ?thesis
    using link_renames_chain [of a b qs] assms(1) unfolding ps by (simp add: collapse_renames_def)
qed

lemma collapse_subset: "set (collapse_renames rs) \<subseteq> set (link_renames rs)"
  by (auto simp: collapse_renames_def)

text \<open>What a rename does to a directory tree, and a sequence of them in order.\<close>

definition rename_file :: "(string \<rightharpoonup> 'a) \<Rightarrow> string \<times> string \<Rightarrow> (string \<rightharpoonup> 'a)" where
  "rename_file tree r = (tree(fst r := None))(snd r := tree (fst r))"

definition rename_files :: "(string \<times> string) list \<Rightarrow> (string \<rightharpoonup> 'a) \<Rightarrow> (string \<rightharpoonup> 'a)" where
  "rename_files rs tree = foldl rename_file tree rs"

lemma collapse_renames_swapped:
  "collapse_renames [(''b'', ''c''), (''a'', ''b'')] = [(''a'', ''c'')] \<and>
   rename_files [(''b'', ''c''), (''a'', ''b'')] [''a'' \<mapsto> 1, ''b'' \<mapsto> 2] = [''b'' \<mapsto> 1, ''c'' \<mapsto> (2 :: nat)] \<and>
   rename_files [(''a'', ''c'')] [''a'' \<mapsto> 1, ''b'' \<mapsto> 2] = [''b'' \<mapsto> 2, ''c'' \<mapsto> (1 :: nat)]"
proof (intro conjI)
  show "collapse_renames [(''b'', ''c''), (''a'', ''b'')] = [(''a'', ''c'')]" by code_simp
qed (simp_all add: rename_files_def rename_file_def fun_eq_iff)

text \<open>
  C13: The renames reported together never chain: no reported rename starts where another (or itself)
  ends, whatever was observed, so they can be applied in any order; their ends are ends of observed
  renames; and a chain of renames observed in order is reported as one rename from its first to its
  last path. But the order of the renames is not looked at: \<open>b\<close> renamed to \<open>c\<close> and then \<open>a\<close> renamed to
  \<open>b\<close> is reported as \<open>a\<close> renamed to \<open>c\<close>, which is not what happened (\<open>a\<close> is at \<open>b\<close>, and \<open>c\<close> has the
  content of \<open>b\<close>).
\<close>

theorem collapse_renames_disjoint:
  "(\<forall>x y. x \<in> set (collapse_renames rs) \<and> y \<in> set (collapse_renames rs) \<longrightarrow> snd x \<noteq> fst y) \<and>
   fst ` set (collapse_renames rs) \<subseteq> fst ` set rs \<and> snd ` set (collapse_renames rs) \<subseteq> snd ` set rs \<and>
   (distinct ps \<and> 2 \<le> length ps \<longrightarrow> collapse_renames (zip ps (tl ps)) = [(hd ps, last ps)]) \<and>
   collapse_renames [(''b'', ''c''), (''a'', ''b'')] = [(''a'', ''c'')] \<and>
   rename_files [(''b'', ''c''), (''a'', ''b'')] [''a'' \<mapsto> 1, ''b'' \<mapsto> 2] = [''b'' \<mapsto> 1, ''c'' \<mapsto> (2 :: nat)] \<and>
   rename_files [(''a'', ''c'')] [''a'' \<mapsto> 1, ''b'' \<mapsto> 2] = [''b'' \<mapsto> 2, ''c'' \<mapsto> (1 :: nat)]"
proof (intro conjI allI impI)
  fix x y
  assume xy: "x \<in> set (collapse_renames rs) \<and> y \<in> set (collapse_renames rs)"
  let ?ls = "link_renames rs"
  obtain l r where l: "l < length ?ls" "?ls ! l = x" and r: "r < length ?ls" "?ls ! r = y"
    using xy collapse_subset [of rs] by (metis in_set_conv_nth subsetD)
  show "snd x \<noteq> fst y"
  proof (cases "l = r")
    case True
    then show ?thesis using xy l r by (auto simp: collapse_renames_def)
  next
    case False
    have "(l, r) \<in> set (List.product [0..<length ?ls] [0..<length ?ls])" using l r by simp
    with link_renames_done [of rs] False l r show ?thesis
      unfolding rename_link_def find_None_iff by fastforce
  qed
next
  show "fst ` set (collapse_renames rs) \<subseteq> fst ` set rs" "snd ` set (collapse_renames rs) \<subseteq> snd ` set rs"
    using collapse_subset [of rs] link_renames_ends [of rs] by (meson image_mono order_trans)+
  show "collapse_renames (zip ps (tl ps)) = [(hd ps, last ps)]" if "distinct ps \<and> 2 \<le> length ps"
    using that collapse_renames_chain by blast
qed (simp_all only: collapse_renames_swapped)

theorem collapse_renames_disjoint_witness:
  "collapse_renames [(''a'', ''b''), (''b'', ''c'')] = [(''a'', ''c'')]"
  using collapse_renames_disjoint [of "[(''a'', ''b''), (''b'', ''c'')]" "[''a'', ''b'', ''c'']"] by simp

section \<open>Bursts on one path\<close>

text \<open>A burst of notifications that fits a path which exists or not at its start.\<close>

fun burst_fits :: "bool \<Rightarrow> (NativeWatchKind \<times> instant) list \<Rightarrow> bool" where
  "burst_fits ex [] = True"
| "burst_fits ex ((WCreate, t) # es) = (\<not> ex \<and> burst_fits True es)"
| "burst_fits ex ((WModify, t) # es) = (ex \<and> burst_fits True es)"
| "burst_fits ex ((WRemove, t) # es) = (ex \<and> burst_fits False es)"
| "burst_fits ex (_ # es) = False"

definition exists_after :: "bool \<Rightarrow> (NativeWatchKind \<times> instant) list \<Rightarrow> bool" where
  "exists_after ex es = (if es = [] then ex else fst (last es) \<noteq> WRemove)"

definition record_burst :: "string \<Rightarrow> (NativeWatchKind \<times> instant) list \<Rightarrow> EventCoalescer \<Rightarrow> EventCoalescer" where
  "record_burst path es c = fold (\<lambda>(k, t) c. record_path path k t c) es c"

definition net_change :: "bool \<Rightarrow> bool \<Rightarrow> PendingKind option" where
  "net_change before after =
     (if before then Some (if after then PModify else PRemove) else if after then Some PCreate else None)"

lemma pending_record_path:
  assumes "bt_wf (pending c)"
  shows "bt_wf (pending (record_path path k t c))"
    and "bt_get (pending (record_path path k t c)) path =
      (case pending_of k of None \<Rightarrow> bt_get (pending c) path
       | Some n \<Rightarrow> map_option (\<lambda>m. \<lparr>pp_kind = m, pp_last_seen = t\<rparr>)
           (case bt_get (pending c) path of None \<Rightarrow> Some n | Some q \<Rightarrow> merge_pending (pp_kind q) n))"
  using assms
  by (auto simp: record_path_def bt_wf_insert bt_get_insert bt_get_remove split: option.splits)

lemma record_burst_kind:
  assumes "bt_wf (pending c)" "burst_fits ex es"
    and "map_option pp_kind (bt_get (pending c) path) = (if untouched then None else net_change ex0 ex)"
    and "untouched \<Longrightarrow> ex0 = ex" "untouched \<Longrightarrow> es \<noteq> []"
  shows "map_option pp_kind (bt_get (pending (record_burst path es c)) path) =
    net_change ex0 (exists_after ex es)"
  using assms
proof (induction es arbitrary: c ex untouched)
  case Nil
  then show ?case by (cases untouched) (simp_all add: record_burst_def exists_after_def)
next
  case (Cons e es)
  obtain k t where e: "e = (k, t)" by (cases e)
  let ?c = "record_path path k t c"
  let ?ex = "k \<noteq> WRemove"
  have fits: "k \<in> {WCreate, WModify, WRemove}" "ex = (k \<noteq> WCreate)" "burst_fits ?ex es"
    using Cons.prems(2) e by (cases k; simp)+
  note upd = pending_record_path [OF Cons.prems(1), of path k t]
  have "map_option pp_kind (bt_get (pending ?c) path) = (if False then None else net_change ex0 ?ex)"
    using upd(2) Cons.prems(3,4) fits(1,2)
    by (cases untouched; cases ex0; cases "bt_get (pending c) path")
      (auto simp: pending_of_def net_change_def merge_pending_def)
  from Cons.IH [OF upd(1) fits(3) this] have
    "map_option pp_kind (bt_get (pending (record_burst path es ?c)) path) = net_change ex0 (exists_after ?ex es)"
    by simp
  then show ?case
    by (simp add: record_burst_def exists_after_def e)
qed

text \<open>
  C12: However long a burst of notifications on one path is, what is kept of it is its net effect: a
  creation, an update, a deletion, or nothing when the path did not exist before and does not exist
  after.
\<close>

theorem record_burst_net_effect:
  assumes "bt_wf (pending c)" "bt_get (pending c) path = None" "burst_fits before es" "es \<noteq> []"
  shows "map_option pp_kind (bt_get (pending (record_burst path es c)) path) =
    net_change before (exists_after before es)"
  using record_burst_kind [OF assms(1,3), of path True before] assms(2,4) by simp

theorem record_burst_net_effect_witness:
  "map_option pp_kind (bt_get (pending (record_burst ''f'' [(WCreate, 1), (WModify, 2), (WRemove, 3)]
     (with_rules 200 500 8 \<lparr>hard_internal = [], hard_env_secrets = [], hard_other_secrets = [], user_excludes = [],
        user_includes = [], default_excludes = [], default_includes = [], user_include_prefixes = [],
        protect_secrets = True\<rparr>))) ''f'') = None"
  by (subst record_burst_net_effect [where before = False])
    (simp_all add: with_rules_def bt_get_def net_change_def exists_after_def)

section \<open>Flushing never fails\<close>

lemma parse_valid: "valid_path nfc p \<Longrightarrow> \<exists>wp. coalesce_parse_path nfc p = Ok wp"
  by (auto simp: valid_path_def coalesce_parse_path_def is_ok_iff)

lemma flush_paths_Ok: "\<forall>e\<in>set ps. valid_path nfc (fst e) \<Longrightarrow> is_ok (snd (flush_paths nfc now prior ps c ch))"
proof (induction ps arbitrary: c ch)
  case (Cons e ps)
  then show ?case
    using parse_valid [of nfc "fst e"] by (cases e) (auto simp: Let_def case_prod_beta)
qed simp

lemma emit_rename_Ok:
  "valid_path nfc p \<Longrightarrow> valid_path nfc q \<Longrightarrow> is_ok (snd (emit_rename nfc now prior p q c ch))"
  using parse_valid [of nfc p] parse_valid [of nfc q]
  by (auto simp: emit_rename_def Let_def case_prod_beta)

lemma flush_pairs_Ok:
  "\<forall>(i, j)\<in>set ps. valid_path nfc (rh_path (froms ! i)) \<and> valid_path nfc (rh_path (tos ! j)) \<Longrightarrow>
   is_ok (snd (flush_pairs nfc now prior froms tos ps c ch))"
proof (induction ps arbitrary: c ch)
  case (Cons e ps)
  obtain i j where e: "e = (i, j)" by (cases e)
  let ?c = "c\<lparr>occupied := occupied c - {rh_path (froms ! i)} - {rh_path (tos ! j)}\<rparr>"
  have "is_ok (snd (emit_rename nfc now prior (rh_path (froms ! i)) (rh_path (tos ! j)) ?c ch))"
    using Cons.prems e by (intro emit_rename_Ok) auto
  then obtain d ch' where "emit_rename nfc now prior (rh_path (froms ! i)) (rh_path (tos ! j)) ?c ch = (d, Ok ch')"
    by (metis is_ok_iff prod.collapse)
  then show ?case using Cons e by (simp add: Let_def)
qed simp

lemma flush_halves_Ok:
  "\<forall>h\<in>set hs. valid_path nfc (rh_path h) \<Longrightarrow> is_ok (snd (flush_halves nfc now prior mk hs c ch))"
proof (induction hs arbitrary: c ch)
  case (Cons h hs)
  then show ?case
    using parse_valid [of nfc "rh_path h"] by (auto simp: Let_def case_prod_beta)
qed simp

lemma flush_renames_Ok:
  "\<forall>(p, q)\<in>set rs. valid_path nfc p \<and> valid_path nfc q \<Longrightarrow>
   is_ok (snd (flush_renames nfc now prior raw rs c ch))"
proof (induction rs arbitrary: c ch)
  case (Cons e rs)
  obtain src dst where e: "e = (src, dst)" by (cases e)
  let ?c = "c\<lparr>occupied := occupied c - {src} - {dst} - (fst ` set raw \<union> snd ` set raw)\<rparr>"
  have "is_ok (snd (emit_rename nfc now prior src dst ?c ch))"
    using Cons.prems e by (intro emit_rename_Ok) auto
  then obtain d ch' where "emit_rename nfc now prior src dst ?c ch = (d, Ok ch')"
    by (metis is_ok_iff prod.collapse)
  then show ?case using Cons e by (simp add: Let_def)
qed simp

lemma and_flush_Ok:
  "is_ok (snd r) \<Longrightarrow> (\<And>d ch. r = (d, Ok ch) \<Longrightarrow> is_ok (snd (k d ch))) \<Longrightarrow> is_ok (snd (and_flush r k))"
  by (cases r) (auto simp: and_flush_def is_ok_iff)

lemma rename_partner_bound:
  assumes "rename_partner w froms fs tos ts i = Some j"
  shows "j < length ts"
proof -
  obtain P where "filter P [0..<length ts] = [j]"
    using assms by (auto simp: rename_partner_def split: option.splits list.splits if_splits)
  then have "j \<in> set (filter P [0..<length ts])" by simp
  then show ?thesis by simp
qed

lemma rename_pairs_bound:
  "(i, j) \<in> set (rename_pairs w froms fs tos ts) \<Longrightarrow> i < length fs \<and> j < length ts"
  using rename_partner_bound by (fastforce simp: rename_pairs_def split: option.splits)

lemma halves_step_Ok:
  assumes "coalescer_inv nfc c" "mset (ho (cookie_halves c)) = mset (cookie_halves c)"
  shows "is_ok (snd (flush_halves_step nfc ho now prior c ch))"
proof -
  let ?ready = "\<lambda>half. ready now (rh_observed_at half) (rename c)"
  let ?exp = "map snd (filter (\<lambda>e. ?ready (snd e)) (ho (cookie_halves c))) @ unmatched_renames c"
  have "set (ho (cookie_halves c)) = set (cookie_halves c)"
    using assms(2) by (rule mset_eq_setD)
  then have valid: "\<forall>h\<in>set ?exp. valid_path nfc (rh_path h)"
    using assms(1) by (auto simp: coalescer_inv_def)
  then have nth: "valid_path nfc (rh_path (filter p ?exp ! i))" if "i < length (filter p ?exp)" for p i
    using nth_mem [OF that] by (simp only: set_filter mem_Collect_eq)
  show ?thesis
    unfolding flush_halves_step_def Let_def
  proof (intro and_flush_Ok flush_pairs_Ok flush_halves_Ok)
  qed (auto simp del: filter_append dest!: rename_pairs_bound intro!: nth)
qed

lemma collapse_renames_ends:
  "\<forall>r\<in>set rs. P (fst r) \<and> P (snd r) \<Longrightarrow> \<forall>(p, q)\<in>set (collapse_renames rs). P p \<and> P q"
proof (intro ballI)
  fix r
  assume P: "\<forall>r\<in>set rs. P (fst r) \<and> P (snd r)" and r: "r \<in> set (collapse_renames rs)"
  have "r \<in> set (link_renames rs)" using r collapse_subset by blast
  then have "fst r \<in> fst ` set rs" "snd r \<in> snd ` set rs" using link_renames_ends [of rs] by auto
  then show "case r of (p, q) \<Rightarrow> P p \<and> P q" using P by (auto simp: case_prod_beta)
qed

lemma renames_step_Ok:
  assumes "coalescer_inv nfc c"
  shows "is_ok (snd (flush_renames_step nfc now prior c ch))"
  unfolding flush_renames_step_def Let_def
proof (intro flush_renames_Ok collapse_renames_ends)
  show "\<forall>r\<in>set (map (\<lambda>r. (pr_from r, pr_to r))
      (filter (\<lambda>r. ready now (pr_observed_at r) (debounce c)) (direct_renames c))).
    valid_path nfc (fst r) \<and> valid_path nfc (snd r)"
    using assms by (auto simp: coalescer_inv_def)
qed

lemma flush_ready_Ok:
  assumes "coalescer_inv nfc c" "mset (ho (cookie_halves c)) = mset (cookie_halves c)"
  shows "is_ok (snd (flush_ready nfc ho now prior c))"
proof (cases "rescan_required c")
  case True
  then show ?thesis by (simp add: flush_ready_def Let_def prune_suppressions_def)
next
  case False
  let ?p = "prune_suppressions now c"
  let ?ps = "filter (\<lambda>e. ready now (pp_last_seen (snd e)) (debounce ?p)) (pending ?p)"
  have p: "coalescer_inv nfc ?p" using assms(1) shrinks_prune by (rule inv_shrinks)
  have "is_ok (snd (and_flush (flush_paths nfc now prior ?ps ?p []) (\<lambda>c changes.
      and_flush (flush_halves_step nfc ho now prior c changes) (\<lambda>c changes.
      flush_renames_step nfc now prior c changes))))"
  proof (rule and_flush_Ok)
    show "is_ok (snd (flush_paths nfc now prior ?ps ?p []))"
      using p by (intro flush_paths_Ok) (auto simp: coalescer_inv_def)
    fix d ch
    assume d: "flush_paths nfc now prior ?ps ?p [] = (d, Ok ch)"
    have inv: "coalescer_inv nfc d"
      using inv_shrinks [OF p shrinks_flush_paths] d by (metis fst_conv)
    have "cookie_halves d = cookie_halves c"
      using flush_paths_fields [of nfc now prior ?ps ?p "[]"] d by (simp add: prune_suppressions_def)
    with assms(2) have ho: "mset (ho (cookie_halves d)) = mset (cookie_halves d)" by simp
    show "is_ok (snd (and_flush (flush_halves_step nfc ho now prior d ch) (\<lambda>c changes.
        flush_renames_step nfc now prior c changes)))"
    proof (rule and_flush_Ok [OF halves_step_Ok [where ho = ho, OF inv ho]])
      fix e ch'
      assume "flush_halves_step nfc ho now prior d ch = (e, Ok ch')"
      then have "coalescer_inv nfc e"
        using inv_shrinks [OF inv shrinks_halves_step [where ho = ho, OF ho]] by (metis fst_conv)
      then show "is_ok (snd (flush_renames_step nfc now prior e ch'))" by (rule renames_step_Ok)
    qed
  qed
  with False show ?thesis
    by (auto simp: flush_ready_def Let_def case_prod_beta prune_suppressions_def is_ok_iff)
qed


definition permissive_rules :: SyncRules where
  "permissive_rules =
     \<lparr>hard_internal = [], hard_env_secrets = [], hard_other_secrets = [], user_excludes = [], user_includes = [],
      default_excludes = [], default_includes = [\<lambda>_. True], user_include_prefixes = [], protect_secrets = True\<rparr>"

definition empty_lookup :: PriorEntryLookup where
  "empty_lookup = \<lparr>pl_signature = (\<lambda>_. None), pl_observed = (\<lambda>_. None)\<rparr>"

definition watch :: "NativeWatchKind \<Rightarrow> string list \<Rightarrow> instant \<Rightarrow> NormalizedWatchEvent" where
  "watch k ps t = \<lparr>nw_kind = k, nw_paths = ps, nw_rename_cookie = None, nw_observed_at = t\<rparr>"


section \<open>Limits of the coalescer\<close>

text \<open>
  An example: the number of pending paths is not bounded by the capacity, since flushing a rename frees its two
  paths although one of them still has a pending change, so more paths can be recorded than the
  capacity allows.
\<close>

lemma pending_exceeds_capacity:
  "\<exists>c. coalescer_reachable id c \<and> capacity c = 2 \<and> length (pending c) = 3"
proof -
  let ?c0 = "with_rules 200 500 2 permissive_rules"
  let ?c1 = "fst (push id 0 (watch WRenameBoth [''a'', ''b''] 0) ?c0)"
  let ?c2 = "fst (push id 100 (watch WCreate [''a''] 100) ?c1)"
  let ?c3 = "fst (flush_ready id id 200 empty_lookup ?c2)"
  let ?c4 = "fst (push id 200 (watch WCreate [''c'', ''d''] 200) ?c3)"
  have "coalescer_reachable id ?c4" by (intro coalescer_reachable.intros) simp
  moreover have "capacity ?c4 = 2 \<and> length (pending ?c4) = 3" by code_simp
  ultimately show ?thesis by blast
qed

end
