(* ===== verification/Sync_Model.thy ===== *)
theory Sync_Model
  imports Protocol_Messages Fs_Rules
begin

text \<open>
  The data model of the synchronisation core (\<open>fns-sync-core\<close>: \<open>model.rs\<close>, \<open>effect.rs\<close>,
  \<open>error.rs\<close>): durable stages with their wire names, the records of the local database, local
  intents and the commands the engine emits. The locale \<open>wire_enum\<close> is interpreted for every stage
  enumeration. JSON bodies are byte strings; \<open>serde_json\<close> is not part of the repository.
\<close>

section \<open>Stages\<close>

datatype OutboxStage = Queued | Dispatched | AwaitingBlob | BlockedConflict
datatype StreamItemStatus = Received | WaitingBlob | Ready | Applied | Preserved
datatype StreamConflictStatus = Received | Replaced | Pruned
datatype ApplyItemKind = Entry | Event | ConflictResolved
datatype ApplyNamespace = SnapshotEntry | StreamEvent | LiveEvent | StreamConflictResolved | LiveConflictResolved
datatype ApplyStage = Prepared | FilesystemStarted | FilesystemApplied | DatabaseCommitted | Finalized
datatype ConflictStatus = WaitingBlobs | Manual | AutoReady | Resolving | RefreshRequired
datatype StreamRevisionItemKind = Event | ConflictResolved

fun outbox_stage_as_str :: "OutboxStage \<Rightarrow> string" where
  "outbox_stage_as_str Queued = ''queued''"
| "outbox_stage_as_str Dispatched = ''dispatched''"
| "outbox_stage_as_str AwaitingBlob = ''awaiting_blob''"
| "outbox_stage_as_str BlockedConflict = ''blocked_conflict''"

definition outbox_stage_parse :: "string \<Rightarrow> OutboxStage option" where
  "outbox_stage_parse s =
     (if s = ''queued'' then Some Queued else if s = ''dispatched'' then Some Dispatched
      else if s = ''awaiting_blob'' then Some AwaitingBlob
      else if s = ''blocked_conflict'' then Some BlockedConflict else None)"

fun item_status_as_str :: "StreamItemStatus \<Rightarrow> string" where
  "item_status_as_str StreamItemStatus.Received = ''received''"
| "item_status_as_str WaitingBlob = ''waiting_blob''"
| "item_status_as_str Ready = ''ready''"
| "item_status_as_str Applied = ''applied''"
| "item_status_as_str Preserved = ''preserved''"

definition item_status_parse :: "string \<Rightarrow> StreamItemStatus option" where
  "item_status_parse s =
     (if s = ''received'' then Some StreamItemStatus.Received
      else if s = ''waiting_blob'' then Some WaitingBlob
      else if s = ''ready'' then Some Ready else if s = ''applied'' then Some Applied
      else if s = ''preserved'' then Some Preserved else None)"

fun apply_stage_as_str :: "ApplyStage \<Rightarrow> string" where
  "apply_stage_as_str Prepared = ''prepared''"
| "apply_stage_as_str FilesystemStarted = ''filesystem_started''"
| "apply_stage_as_str FilesystemApplied = ''filesystem_applied''"
| "apply_stage_as_str DatabaseCommitted = ''database_committed''"
| "apply_stage_as_str Finalized = ''finalized''"

definition apply_stage_parse :: "string \<Rightarrow> ApplyStage option" where
  "apply_stage_parse s =
     (if s = ''prepared'' then Some Prepared else if s = ''filesystem_started'' then Some FilesystemStarted
      else if s = ''filesystem_applied'' then Some FilesystemApplied
      else if s = ''database_committed'' then Some DatabaseCommitted
      else if s = ''finalized'' then Some Finalized else None)"

fun conflict_status_as_str :: "ConflictStatus \<Rightarrow> string" where
  "conflict_status_as_str WaitingBlobs = ''waiting_blobs''"
| "conflict_status_as_str Manual = ''manual''"
| "conflict_status_as_str AutoReady = ''auto_ready''"
| "conflict_status_as_str Resolving = ''resolving''"
| "conflict_status_as_str RefreshRequired = ''refresh_required''"

definition conflict_status_parse :: "string \<Rightarrow> ConflictStatus option" where
  "conflict_status_parse s =
     (if s = ''waiting_blobs'' then Some WaitingBlobs else if s = ''manual'' then Some Manual
      else if s = ''auto_ready'' then Some AutoReady else if s = ''resolving'' then Some Resolving
      else if s = ''refresh_required'' then Some RefreshRequired else None)"

interpretation outbox_stage_names: wire_enum outbox_stage_as_str outbox_stage_parse
proof
  show "outbox_stage_parse (outbox_stage_as_str v) = Some v" for v
    by (cases v) (simp_all add: outbox_stage_parse_def)
  show "outbox_stage_as_str v = s" if "outbox_stage_parse s = Some v" for s v
    using that by (auto simp: outbox_stage_parse_def split: if_splits)
qed

interpretation item_status_names: wire_enum item_status_as_str item_status_parse
proof
  show "item_status_parse (item_status_as_str v) = Some v" for v
    by (cases v) (simp_all add: item_status_parse_def)
  show "item_status_as_str v = s" if "item_status_parse s = Some v" for s v
    using that by (auto simp: item_status_parse_def split: if_splits)
qed

interpretation apply_stage_names: wire_enum apply_stage_as_str apply_stage_parse
proof
  show "apply_stage_parse (apply_stage_as_str v) = Some v" for v
    by (cases v) (simp_all add: apply_stage_parse_def)
  show "apply_stage_as_str v = s" if "apply_stage_parse s = Some v" for s v
    using that by (auto simp: apply_stage_parse_def split: if_splits)
qed

interpretation conflict_status_names: wire_enum conflict_status_as_str conflict_status_parse
proof
  show "conflict_status_parse (conflict_status_as_str v) = Some v" for v
    by (cases v) (simp_all add: conflict_status_parse_def)
  show "conflict_status_as_str v = s" if "conflict_status_parse s = Some v" for s v
    using that by (auto simp: conflict_status_parse_def split: if_splits)
qed

section \<open>Errors and commands\<close>

datatype ConflictBlockedReason =
    BlockedWaitingBlobs | AutomaticResolutionPending | ResolutionPending | BlockedRefreshRequired
  | SelectedSideDeleted

datatype SyncError =
    InvalidConfiguration string | StorageUnavailable | CorruptState string string | OperationChanged
  | StreamInvariant string | ProtocolInvariant string | ConflictUnavailable | ConflictRevisionStale
  | ConflictResolutionChanged | ConflictResolutionBlocked ConflictBlockedReason | MergeRejected string
  | ResourceLimit string | Filesystem FsError | ScanIncomplete

datatype SyncCommand =
    CmdMutation WorkspaceMutation
  | ResolveConflict WorkspaceConflictResolvedRequest
  | UploadBlob WorkspaceId OperationId WorkspaceContentHash u64
  | DownloadBlob WorkspaceId "OperationId option" WorkspaceContentHash u64
  | SendAck WorkspaceAckRequest

fun command_operation_id :: "SyncCommand \<Rightarrow> OperationId option" where
  "command_operation_id (CmdMutation m) = Some (wm_operation_id m)"
| "command_operation_id (ResolveConflict r) = Some (rq_operation_id r)"
| "command_operation_id (UploadBlob _ op _ _) = Some op"
| "command_operation_id (DownloadBlob _ op _ _) = op"
| "command_operation_id (SendAck _) = None"

fun command_mutation :: "SyncCommand \<Rightarrow> (WorkspaceMutation, SyncError) result" where
  "command_mutation (CmdMutation m) = Ok m"
| "command_mutation _ = Err (ProtocolInvariant ''command_not_mutation'')"

fun is_mutation :: "SyncCommand \<Rightarrow> bool" where
  "is_mutation (CmdMutation _) = True"
| "is_mutation _ = False"

section \<open>Records\<close>

record WorkspaceCursor =
  wc_workspace_id :: WorkspaceId
  wc_client_id :: ClientId
  wc_last_ack_revision :: WorkspaceRevision
  wc_last_applied_revision :: WorkspaceRevision
  wc_pending_ack_revision :: "WorkspaceRevision option"
  wc_pending_segment_ack_revision :: "WorkspaceRevision option"

record OutboxRecord =
  ob_client_id :: ClientId
  ob_operation_id :: OperationId
  ob_workspace_id :: WorkspaceId
  ob_body_json :: "u8 list"
  ob_body_digest :: "u8 list"
  ob_stage :: OutboxStage
  ob_created_at_ms :: i64

record LocalIntentRecord =
  li_workspace_id :: WorkspaceId
  li_path :: WorkspacePath
  li_intent_json :: "u8 list"
  li_updated_at_ms :: i64

record LocalDesiredEntry =
  de_path :: WorkspacePath
  de_kind :: WorkspaceEntryKind
  de_content_hash :: "WorkspaceContentHash RequiredNullable"
  de_metadata :: WorkspaceFileMetadata

datatype LocalIntent =
    IntentDesired LocalDesiredEntry
  | IntentDelete WorkspacePath
  | IntentRename WorkspacePath WorkspacePath WorkspaceEntryKind "WorkspaceContentHash RequiredNullable" WorkspaceFileMetadata

fun intent_paths :: "LocalIntent \<Rightarrow> WorkspacePath list" where
  "intent_paths (IntentDesired entry) = [de_path entry]"
| "intent_paths (IntentDelete path) = [path]"
| "intent_paths (IntentRename from to _ _ _) = [from, to]"

fun intent_desired_entry :: "LocalIntent \<Rightarrow> LocalDesiredEntry option" where
  "intent_desired_entry (IntentDesired entry) = Some entry"
| "intent_desired_entry (IntentDelete path) = None"
| "intent_desired_entry (IntentRename from to kind content_hash metadata) =
     Some \<lparr>de_path = to, de_kind = kind, de_content_hash = content_hash, de_metadata = metadata\<rparr>"

record StreamStateRecord =
  ss_workspace_id :: WorkspaceId
  ss_stream_id :: StreamId
  ss_mode :: WorkspaceSnapshotMode
  ss_from_revision :: WorkspaceRevision
  ss_final_revision :: WorkspaceRevision
  ss_expected_entry_count :: u32
  ss_expected_event_count :: u32
  ss_expected_conflict_count :: u32
  ss_next_event_index :: u32
  ss_end_received :: bool

record StreamEntryRecord =
  sr_workspace_id :: WorkspaceId
  sr_stream_id :: StreamId
  sr_entry_index :: u32
  sr_body_json :: "u8 list"
  sr_body_digest :: "u8 list"
  sr_status :: StreamItemStatus

record StreamRevisionItemRecord =
  si_workspace_id :: WorkspaceId
  si_stream_id :: StreamId
  si_revision :: WorkspaceRevision
  si_item_kind :: StreamRevisionItemKind
  si_body_json :: "u8 list"
  si_body_digest :: "u8 list"
  si_event_index :: "u32 option"
  si_status :: StreamItemStatus

record StreamConflictRecord =
  sc_workspace_id :: WorkspaceId
  sc_stream_id :: StreamId
  sc_conflict_id :: ConflictId
  sc_conflict_revision :: WorkspaceConflictRevision
  sc_created_json :: "u8 list"
  sc_status :: StreamConflictStatus

end
