(* ===== verification/Sync_Reconcile.thy ===== *)
theory Sync_Reconcile
  imports Sync_Model
begin

text \<open>
  Local wishes and the mutations that carry them to the server
  (\<open>fns-sync-core/src/reconcile.rs\<close>): a desired operation is stored as an intent, becomes a mutation
  against the current path states, and is recognised again in a mutation.
\<close>

datatype DesiredOperation =
    Upsert LocalDesiredEntry
  | DesiredDelete WorkspacePath
  | DesiredRename WorkspacePath WorkspacePath WorkspaceEntryKind "WorkspaceContentHash RequiredNullable" WorkspaceFileMetadata

fun desired_paths :: "DesiredOperation \<Rightarrow> WorkspacePath list" where
  "desired_paths (Upsert entry) = [de_path entry]"
| "desired_paths (DesiredDelete path) = [path]"
| "desired_paths (DesiredRename from to _ _ _) = [from, to]"

fun intent_for_path :: "DesiredOperation \<Rightarrow> WorkspacePath \<Rightarrow> LocalIntent" where
  "intent_for_path (Upsert entry) path = IntentDesired entry"
| "intent_for_path (DesiredDelete deleted) path = IntentDelete deleted"
| "intent_for_path (DesiredRename from to kind content_hash metadata) path =
     IntentRename from to kind content_hash metadata"

fun desired_from_intent :: "LocalIntent \<Rightarrow> DesiredOperation" where
  "desired_from_intent (IntentDesired entry) = Upsert entry"
| "desired_from_intent (IntentDelete path) = DesiredDelete path"
| "desired_from_intent (IntentRename from to kind content_hash metadata) =
     DesiredRename from to kind content_hash metadata"

definition zero_metadata :: WorkspaceFileMetadata where
  "zero_metadata = \<lparr>md_size = 0, md_modified_at_ms = 0, md_executable = False\<rparr>"

text \<open>
  The target of a validated rename is present; the \<open>expect\<close> of the code is the \<open>None\<close> here.
\<close>

definition desired_from_mutation :: "WorkspaceMutation \<Rightarrow> WorkspaceEntryKind option \<Rightarrow> DesiredOperation option" where
  "desired_from_mutation m rename_kind =
     (case wm_kind m of
        UpsertFile \<Rightarrow>
          Some (Upsert \<lparr>de_path = wm_path m, de_kind = File, de_content_hash = wm_content_hash m,
            de_metadata = wm_metadata m\<rparr>)
      | UpsertSymlink \<Rightarrow>
          Some (Upsert \<lparr>de_path = wm_path m, de_kind = Symlink, de_content_hash = wm_content_hash m,
            de_metadata = wm_metadata m\<rparr>)
      | Mkdir \<Rightarrow>
          Some (Upsert \<lparr>de_path = wm_path m, de_kind = Directory, de_content_hash = Null,
            de_metadata = zero_metadata\<rparr>)
      | WorkspaceMutationKind.Delete \<Rightarrow> Some (DesiredDelete (wm_path m))
      | WorkspaceMutationKind.Rename \<Rightarrow>
          (case wm_new_path m of
             None \<Rightarrow> None
           | Some to \<Rightarrow>
               let kind = (case rename_kind of Some k \<Rightarrow> k
                           | None \<Rightarrow> if is_null (wm_content_hash m) then Directory else File) in
               Some (if kind = Directory
                     then DesiredRename (wm_path m) to kind Null zero_metadata
                     else DesiredRename (wm_path m) to kind (wm_content_hash m) (wm_metadata m))))"

definition state_revision :: "(WorkspacePath \<rightharpoonup> WorkspacePathState) \<Rightarrow> WorkspacePath \<Rightarrow> WorkspaceRevision" where
  "state_revision states path = (case states path of None \<Rightarrow> ZERO | Some s \<Rightarrow> ps_path_revision s)"

definition live_revision :: "(WorkspacePath \<rightharpoonup> WorkspacePathState) \<Rightarrow> WorkspacePath \<Rightarrow> WorkspaceRevision" where
  "live_revision states path =
     (case states path of
        None \<Rightarrow> ZERO
      | Some s \<Rightarrow> if ps_kind s \<noteq> Tombstone then ps_path_revision s else ZERO)"

definition upsert_kind :: "WorkspaceEntryKind \<Rightarrow> WorkspaceMutationKind" where
  "upsert_kind k =
     (case k of File \<Rightarrow> UpsertFile | Symlink \<Rightarrow> UpsertSymlink | Directory \<Rightarrow> Mkdir
      | Tombstone \<Rightarrow> WorkspaceMutationKind.Delete)"

definition mutation_for_desired ::
    "DesiredOperation \<Rightarrow> WorkspaceId \<Rightarrow> ClientId \<Rightarrow> OperationId \<Rightarrow> (WorkspacePath \<rightharpoonup> WorkspacePathState) \<Rightarrow> WorkspaceMutation" where
  "mutation_for_desired desired workspace_id client_id operation_id states =
     (case desired of
        Upsert entry \<Rightarrow>
          let kind = upsert_kind (de_kind entry);
              plain = (kind = Mkdir \<or> kind = WorkspaceMutationKind.Delete) in
          \<lparr>wm_workspace_id = workspace_id, wm_client_id = client_id, wm_operation_id = operation_id,
           wm_path = de_path entry,
           wm_base_path_revision =
             (if kind = UpsertFile \<or> kind = UpsertSymlink then live_revision states (de_path entry)
              else state_revision states (de_path entry)),
           wm_kind = kind,
           wm_content_hash = (if plain then Null else de_content_hash entry),
           wm_metadata = (if plain then zero_metadata else de_metadata entry),
           wm_new_path = None, wm_target_base_path_revision = None\<rparr>
      | DesiredDelete path \<Rightarrow>
          \<lparr>wm_workspace_id = workspace_id, wm_client_id = client_id, wm_operation_id = operation_id,
           wm_path = path, wm_base_path_revision = state_revision states path,
           wm_kind = WorkspaceMutationKind.Delete, wm_content_hash = Null, wm_metadata = zero_metadata,
           wm_new_path = None, wm_target_base_path_revision = None\<rparr>
      | DesiredRename from to kind content_hash metadata \<Rightarrow>
          \<lparr>wm_workspace_id = workspace_id, wm_client_id = client_id, wm_operation_id = operation_id,
           wm_path = from, wm_base_path_revision = state_revision states from,
           wm_kind = WorkspaceMutationKind.Rename,
           wm_content_hash = (if kind = Directory then Null else content_hash),
           wm_metadata = (if kind = Directory then zero_metadata else metadata),
           wm_new_path = Some to, wm_target_base_path_revision = Some (state_revision states to)\<rparr>)"

definition mutation_matches_desired :: "WorkspaceMutation \<Rightarrow> DesiredOperation \<Rightarrow> bool" where
  "mutation_matches_desired m desired =
     (desired_from_mutation m (case desired of DesiredRename _ _ kind _ _ \<Rightarrow> Some kind | _ \<Rightarrow> None) = Some desired)"

section \<open>Properties\<close>

lemma intent_round_trip: "desired_from_intent (intent_for_path desired path) = desired"
  by (cases desired) simp_all

lemma intent_for_path_paths: "intent_paths (intent_for_path desired path) = desired_paths desired"
  by (cases desired) simp_all

text \<open>
  A directory is desired without content and metadata; a tombstone is desired as a deletion.
\<close>

definition desired_normal :: "DesiredOperation \<Rightarrow> bool" where
  "desired_normal d \<longleftrightarrow>
     (case d of
        Upsert e \<Rightarrow> de_kind e \<noteq> Tombstone \<and>
          (de_kind e = Directory \<longrightarrow> de_content_hash e = Null \<and> de_metadata e = zero_metadata)
      | DesiredDelete p \<Rightarrow> True
      | DesiredRename p q k h m \<Rightarrow> k = Directory \<longrightarrow> h = Null \<and> m = zero_metadata)"

text \<open>
  C11: The mutation made for a desired operation is recognised as that operation exactly when the
  operation is in normal form (directories carry no content or metadata, and a tombstone is desired
  as a deletion); it carries the given identities; and storing the operation as an intent and reading
  it back loses nothing.
\<close>

theorem mutation_for_desired_recognised:
  "(mutation_matches_desired (mutation_for_desired d w c op states) d \<longleftrightarrow> desired_normal d) \<and>
   wm_operation_id (mutation_for_desired d w c op states) = op \<and>
   wm_path (mutation_for_desired d w c op states) = hd (desired_paths d) \<and>
   desired_from_intent (intent_for_path d path) = d"
proof (intro conjI)
  show "mutation_matches_desired (mutation_for_desired d w c op states) d \<longleftrightarrow> desired_normal d"
  proof (cases d)
    case (Upsert e)
    then show ?thesis
      by (cases e; cases "de_kind e")
        (auto simp: mutation_matches_desired_def mutation_for_desired_def desired_from_mutation_def
          desired_normal_def upsert_kind_def Let_def)
  qed (auto simp: mutation_matches_desired_def mutation_for_desired_def desired_from_mutation_def
      desired_normal_def Let_def)
qed (cases d; simp add: mutation_for_desired_def Let_def intent_round_trip)+

text \<open>A desired operation that the protocol can carry.\<close>

definition desired_wf :: "DesiredOperation \<Rightarrow> bool" where
  "desired_wf d \<longleftrightarrow>
     (case d of
        Upsert e \<Rightarrow> de_kind e \<in> {File, Symlink} \<longrightarrow> \<not> is_null (de_content_hash e) \<and> metadata_wf (de_metadata e) (de_kind e)
      | DesiredDelete p \<Rightarrow> True
      | DesiredRename p q k h m \<Rightarrow> \<not> prefix (path_segments p) (path_segments q))"

lemma zero_metadata_wf: "metadata_wf zero_metadata k"
  by (simp add: metadata_wf_def zero_metadata_def)

text \<open>
  C10: Every mutation the client makes for a well-formed desired operation passes the protocol's
  validation, whatever the path states are, and it is based on the revision of the state it replaces:
  a file or link written where only a tombstone is known starts from revision zero, everything else
  from the known revision of the path.
\<close>

theorem mutation_for_desired_valid:
  assumes "desired_wf d"
  shows "mutation_validate (mutation_for_desired d w c op states) = Ok () \<and>
    (let m = mutation_for_desired d w c op states in
     wm_base_path_revision m =
       (if wm_kind m \<in> {UpsertFile, UpsertSymlink} \<and> (\<exists>s. states (wm_path m) = Some s \<and> ps_kind s = Tombstone)
        then ZERO else state_revision states (wm_path m)))"
proof
  have valid: "mutation_validate m = Ok () \<longleftrightarrow> mutation_wf m" for m by (rule mutation_validate_Ok_iff)
  show "mutation_validate (mutation_for_desired d w c op states) = Ok ()"
  proof (cases d)
    case (Upsert e)
    then show ?thesis
      unfolding valid using assms
      by (cases "de_kind e")
        (auto simp: mutation_wf_def mutation_for_desired_def desired_wf_def upsert_kind_def entry_kind_of_def
          zero_metadata_wf Let_def)
  qed (use assms in \<open>auto simp: valid mutation_wf_def mutation_for_desired_def desired_wf_def entry_kind_of_def
      zero_metadata_wf Let_def\<close>)
  show "let m = mutation_for_desired d w c op states in
     wm_base_path_revision m =
       (if wm_kind m \<in> {UpsertFile, UpsertSymlink} \<and> (\<exists>s. states (wm_path m) = Some s \<and> ps_kind s = Tombstone)
        then ZERO else state_revision states (wm_path m))"
    by (cases d) (auto simp: mutation_for_desired_def live_revision_def state_revision_def Let_def
        split: option.splits)
qed

theorem mutation_for_desired_valid_witness:
  "mutation_validate (mutation_for_desired
     (DesiredRename (WorkspacePath ''a'') (WorkspacePath ''b/a'') File (Value (WorkspaceContentHash [])) zero_metadata)
     (WorkspaceId 1) (ClientId 2) (OperationId 3) (\<lambda>_. None)) = Ok ()"
proof -
  have "desired_wf (DesiredRename (WorkspacePath ''a'') (WorkspacePath ''b/a'') File
      (Value (WorkspaceContentHash [])) zero_metadata)"
    by (simp add: desired_wf_def path_segments_def)
  from mutation_for_desired_valid [OF this] show ?thesis by blast
qed

end
