(* ===== verification/Transport_Transfer.thy ===== *)
theory Transport_Transfer
  imports Protocol_Binary Protocol_Envelope Sync_Model FNS_Maps
begin

text \<open>
  Blob transfers of one connection (\<open>fns-transport\<close>: \<open>transfer.rs\<close>, \<open>blob.rs\<close>): pending uploads wait
  for the engine's intent and the server's need, active transfers have identifiers that are never
  reused on the connection, and receipts answer repeated download messages. Instants and durations
  are natural numbers. The open file of an upload is the list of its bytes that are not read yet, and
  its running hash the list of the bytes fed to the hasher. The order in which a hash map is visited
  is an argument.
\<close>

section \<open>State\<close>

datatype TransportErrorCode =
    InvalidConfiguration | AuthenticationRejected | Forbidden | Network | RequestTimeout | IdleTimeout
  | TransferTimeout | Protocol | Core | Filesystem | StateCorrupt | ConflictUnavailable
  | ConflictRevisionStale | ConflictResolutionChanged | ConflictWaitingBlobs
  | ConflictAutomaticResolutionPending | ConflictResolutionPending | ConflictRefreshRequired
  | ConflictSelectedSideDeleted | MergeFileRequired | MergeContentUnavailable | ResourceLimit
  | ShutdownTimeout

record TransportError =
  te_code :: TransportErrorCode
  te_retryable :: bool

abbreviation protocol_error :: TransportError where
  "protocol_error \<equiv> \<lparr>te_code = Protocol, te_retryable = False\<rparr>"

abbreviation resource_limit :: TransportError where
  "resource_limit \<equiv> \<lparr>te_code = TransportErrorCode.ResourceLimit, te_retryable = False\<rparr>"

record UploadIntent =
  ui_workspace_id :: WorkspaceId
  ui_operation_id :: OperationId
  ui_content_hash :: WorkspaceContentHash
  ui_size :: u64

record PendingUpload =
  pu_intent :: "UploadIntent option"
  pu_need :: "WorkspaceBlobNeedUploadPush option"
  pu_retry :: SyncCommand

datatype UploadPhase = AwaitingBeginResponse | Streaming | ReadyForEnd | AwaitingEndResponse
datatype DownloadPhase = Receiving | DownloadReadyForEnd | DownloadAwaitingEndResponse

record UploadTransfer =
  ut_transfer_id :: TransferId
  ut_workspace_id :: WorkspaceId
  ut_operation_id :: OperationId
  ut_content_hash :: WorkspaceContentHash
  ut_size :: u64
  ut_phase :: UploadPhase
  ut_next_chunk_index :: u64
  ut_next_offset :: u64
  ut_file :: "u8 list"
  ut_hasher :: "u8 list"
  ut_started_at :: nat
  ut_last_progress_at :: nat

record DownloadTransfer =
  dt_transfer_id :: TransferId
  dt_workspace_id :: WorkspaceId
  dt_operation_id :: "OperationId option"
  dt_content_hash :: WorkspaceContentHash
  dt_size :: u64
  dt_begin :: WorkspaceBlobBeginMessage
  dt_phase :: DownloadPhase
  dt_next_chunk_index :: u64
  dt_next_offset :: u64
  dt_started_at :: nat
  dt_last_progress_at :: nat

datatype ActiveTransfer = ActiveUpload UploadTransfer | ActiveDownload DownloadTransfer

record TransferTable =
  pending_uploads :: "(OperationId, PendingUpload) hash_map"
  active :: "(TransferId, ActiveTransfer) hash_map"
  max_active :: nat
  per_connection_ids :: "TransferId list"
  download_begin_receipts :: "(TransferId, WorkspaceBlobBeginMessage) hash_map"
  download_end_receipts :: "(TransferId, WorkspaceBlobEndMessage) hash_map"
  receipt_order :: "(TransferId \<times> bool) list"

definition MAX_ACTIVE_TRANSFERS :: nat where "MAX_ACTIVE_TRANSFERS = 4"
definition MAX_TRANSFER_IDS_PER_CONNECTION :: nat where "MAX_TRANSFER_IDS_PER_CONNECTION = 1024"
definition MAX_COMPLETED_TRANSFER_RECEIPTS :: nat where "MAX_COMPLETED_TRANSFER_RECEIPTS = 256"

section \<open>Messages and transfers\<close>

definition chunk_count :: "u64 \<Rightarrow> u64" where
  "chunk_count sz = (if sz = 0 then 0 else (sz - 1) div ucast BLOB_CHUNK_BYTES + 1)"

definition encode_blob_begin_upload ::
    "envelope_lib \<Rightarrow> WorkspaceId \<Rightarrow> TransferId \<Rightarrow> WorkspaceContentHash \<Rightarrow> u64 \<Rightarrow> RequestId \<Rightarrow> (u8 list, TransportError) result" where
  "encode_blob_begin_upload lib workspace_id transfer_id content_hash sz request_id =
     map_err (\<lambda>_. protocol_error)
       (encode_request lib ABlobBegin request_id
         (BBlobBegin \<lparr>bb_workspace_id = workspace_id, bb_transfer_id = transfer_id, bb_direction = Upload,
            bb_content_hash = content_hash, bb_size = sz, bb_chunk_size = BLOB_CHUNK_BYTES,
            bb_chunk_count = chunk_count sz\<rparr>))"

definition encode_blob_end_upload ::
    "envelope_lib \<Rightarrow> WorkspaceId \<Rightarrow> TransferId \<Rightarrow> WorkspaceContentHash \<Rightarrow> u64 \<Rightarrow> RequestId \<Rightarrow> (u8 list, TransportError) result" where
  "encode_blob_end_upload lib workspace_id transfer_id content_hash sz request_id =
     map_err (\<lambda>_. protocol_error)
       (encode_request lib ABlobEnd request_id
         (BBlobEnd \<lparr>bn_workspace_id = workspace_id, bn_transfer_id = transfer_id, bn_direction = Upload,
            bn_content_hash = content_hash, bn_size = sz, bn_chunk_count = chunk_count sz\<rparr>))"

definition upload_new ::
    "TransferId \<Rightarrow> WorkspaceId \<Rightarrow> OperationId \<Rightarrow> WorkspaceContentHash \<Rightarrow> u64 \<Rightarrow> u8 list \<Rightarrow> nat \<Rightarrow> UploadTransfer" where
  "upload_new t w op h sz file now =
     \<lparr>ut_transfer_id = t, ut_workspace_id = w, ut_operation_id = op, ut_content_hash = h, ut_size = sz,
      ut_phase = AwaitingBeginResponse, ut_next_chunk_index = 0, ut_next_offset = 0, ut_file = file,
      ut_hasher = [], ut_started_at = now, ut_last_progress_at = now\<rparr>"

definition download_new_with_progress ::
    "TransferId \<Rightarrow> WorkspaceId \<Rightarrow> OperationId option \<Rightarrow> WorkspaceContentHash \<Rightarrow> u64 \<Rightarrow> nat \<Rightarrow> nat \<Rightarrow> DownloadTransfer" where
  "download_new_with_progress t w op h sz started progress =
     \<lparr>dt_transfer_id = t, dt_workspace_id = w, dt_operation_id = op, dt_content_hash = h, dt_size = sz,
      dt_begin = \<lparr>bb_workspace_id = w, bb_transfer_id = t, bb_direction = Download, bb_content_hash = h,
        bb_size = sz, bb_chunk_size = BLOB_CHUNK_BYTES, bb_chunk_count = chunk_count sz\<rparr>,
      dt_phase = Receiving, dt_next_chunk_index = 0, dt_next_offset = 0, dt_started_at = started,
      dt_last_progress_at = progress\<rparr>"

definition download_new ::
    "TransferId \<Rightarrow> WorkspaceId \<Rightarrow> OperationId option \<Rightarrow> WorkspaceContentHash \<Rightarrow> u64 \<Rightarrow> nat \<Rightarrow> DownloadTransfer" where
  "download_new t w op h sz now = download_new_with_progress t w op h sz now now"

section \<open>Pending uploads\<close>

definition table_new :: "nat \<Rightarrow> TransferTable" where
  "table_new n =
     \<lparr>pending_uploads = [], active = [], max_active = min n MAX_ACTIVE_TRANSFERS, per_connection_ids = [],
      download_begin_receipts = [], download_end_receipts = [], receipt_order = []\<rparr>"

definition add_upload_intent :: "UploadIntent \<Rightarrow> SyncCommand \<Rightarrow> TransferTable \<Rightarrow> TransferTable" where
  "add_upload_intent intent retry t =
     (let op = ui_operation_id intent;
          entry = (case hm_get (pending_uploads t) op of
                     Some p \<Rightarrow> p | None \<Rightarrow> \<lparr>pu_intent = None, pu_need = None, pu_retry = retry\<rparr>)
      in t\<lparr>pending_uploads := hm_insert op (entry\<lparr>pu_intent := Some intent\<rparr>) (pending_uploads t)\<rparr>)"

definition has_matching_upload :: "OperationId \<Rightarrow> WorkspaceContentHash \<Rightarrow> u64 \<Rightarrow> TransferTable \<Rightarrow> bool" where
  "has_matching_upload op h sz t =
     (case hm_get (pending_uploads t) op of
        None \<Rightarrow> False
      | Some p \<Rightarrow> (case pu_need p of None \<Rightarrow> False | Some need \<Rightarrow> nu_content_hash need = h \<and> nu_size need = sz))"

text \<open>Whether an intent or an earlier need disagrees with a new need.\<close>

definition need_conflicts :: "WorkspaceBlobNeedUploadPush \<Rightarrow> PendingUpload \<Rightarrow> bool" where
  "need_conflicts need p =
     ((case pu_need p of
         None \<Rightarrow> False
       | Some previous \<Rightarrow> nu_workspace_id previous \<noteq> nu_workspace_id need \<or>
           nu_content_hash previous \<noteq> nu_content_hash need \<or> nu_size previous \<noteq> nu_size need) \<or>
      (case pu_intent p of
         None \<Rightarrow> False
       | Some intent \<Rightarrow> ui_workspace_id intent \<noteq> nu_workspace_id need \<or>
           ui_content_hash intent \<noteq> nu_content_hash need \<or> ui_size intent \<noteq> nu_size need))"

definition halves_match :: "PendingUpload \<Rightarrow> bool" where
  "halves_match p =
     (case (pu_intent p, pu_need p) of
        (Some intent, Some need) \<Rightarrow>
          ui_workspace_id intent = nu_workspace_id need \<and> ui_operation_id intent = nu_operation_id need \<and>
          ui_content_hash intent = nu_content_hash need \<and> ui_size intent = nu_size need
      | _ \<Rightarrow> False)"

definition add_server_need ::
    "WorkspaceBlobNeedUploadPush \<Rightarrow> TransferTable \<Rightarrow> TransferTable \<times> (bool, TransportError) result" where
  "add_server_need need t =
     (let op = nu_operation_id need in
      if (case hm_get (pending_uploads t) op of None \<Rightarrow> False | Some existing \<Rightarrow> need_conflicts need existing)
      then (t, Err protocol_error)
      else
        (let entry = (case hm_get (pending_uploads t) op of
                        Some p \<Rightarrow> p
                      | None \<Rightarrow> \<lparr>pu_intent = None, pu_need = None,
                          pu_retry = UploadBlob (nu_workspace_id need) (nu_operation_id need)
                            (nu_content_hash need) (nu_size need)\<rparr>);
             entry = entry\<lparr>pu_need := Some need\<rparr>
         in (t\<lparr>pending_uploads := hm_insert op entry (pending_uploads t)\<rparr>, Ok (halves_match entry))))"

definition take_pending_retry :: "OperationId \<Rightarrow> TransferTable \<Rightarrow> TransferTable \<times> SyncCommand option" where
  "take_pending_retry op t =
     (t\<lparr>pending_uploads := hm_remove op (pending_uploads t)\<rparr>,
      map_option pu_retry (hm_get (pending_uploads t) op))"

section \<open>Active transfers\<close>

definition active_count :: "TransferTable \<Rightarrow> nat" where
  "active_count t = length (active t)"

definition has_active_upload :: "OperationId \<Rightarrow> TransferTable \<Rightarrow> bool" where
  "has_active_upload op t =
     list_ex (\<lambda>(_, tr). case tr of ActiveUpload u \<Rightarrow> ut_operation_id u = op | _ \<Rightarrow> False) (active t)"

definition matches_download :: "TransferId \<Rightarrow> WorkspaceContentHash \<Rightarrow> u64 \<Rightarrow> TransferTable \<Rightarrow> bool" where
  "matches_download i h sz t =
     (case hm_get (active t) i of
        Some (ActiveDownload d) \<Rightarrow> dt_content_hash d = h \<and> dt_size d = sz
      | _ \<Rightarrow> False)"

definition has_active_download :: "WorkspaceContentHash \<Rightarrow> u64 \<Rightarrow> TransferTable \<Rightarrow> bool" where
  "has_active_download h sz t =
     list_ex (\<lambda>(_, tr). case tr of ActiveDownload d \<Rightarrow> dt_content_hash d = h \<and> dt_size d = sz | _ \<Rightarrow> False) (active t)"

definition reserve_transfer :: "TransferId \<Rightarrow> TransferTable \<Rightarrow> TransferTable \<times> (unit, TransportError) result" where
  "reserve_transfer i t =
     (if length (active t) \<ge> max_active t then (t, Err resource_limit)
      else if length (per_connection_ids t) \<ge> MAX_TRANSFER_IDS_PER_CONNECTION \<or> i \<in> set (per_connection_ids t)
      then (t, Err resource_limit)
      else (t\<lparr>per_connection_ids := per_connection_ids t @ [i]\<rparr>, Ok ()))"

text \<open>\<open>reserve_slot\<close> draws a fresh UUID, the argument here.\<close>

definition reserve_slot :: "uuid \<Rightarrow> TransferTable \<Rightarrow> TransferTable \<times> (TransferId, TransportError) result" where
  "reserve_slot u t =
     (case reserve_transfer (TransferId u) t of
        (t, Err e) \<Rightarrow> (t, Err e)
      | (t, Ok _) \<Rightarrow> (t, Ok (TransferId u)))"

text \<open>The loop of \<open>trim_receipts\<close> pops the oldest receipts until at most 256 are left.\<close>

function trim_receipts :: "TransferTable \<Rightarrow> TransferTable" where
  "trim_receipts t =
     (if length (receipt_order t) > MAX_COMPLETED_TRANSFER_RECEIPTS then
        (case receipt_order t of
           [] \<Rightarrow> t
         | (i, begin) # rest \<Rightarrow>
             trim_receipts
               (if begin then t\<lparr>receipt_order := rest, download_begin_receipts := hm_remove i (download_begin_receipts t)\<rparr>
                else t\<lparr>receipt_order := rest, download_end_receipts := hm_remove i (download_end_receipts t)\<rparr>))
      else t)"
  by pat_completeness auto
termination
  by (relation "measure (\<lambda>t. length (receipt_order t))") auto

declare trim_receipts.simps [simp del]

definition record_download_begin :: "WorkspaceBlobBeginMessage \<Rightarrow> TransferTable \<Rightarrow> TransferTable" where
  "record_download_begin b t =
     trim_receipts (t\<lparr>download_begin_receipts := hm_insert (bb_transfer_id b) b (download_begin_receipts t),
       receipt_order := receipt_order t @ [(bb_transfer_id b, True)]\<rparr>)"

definition record_download_end :: "WorkspaceBlobEndMessage \<Rightarrow> TransferTable \<Rightarrow> TransferTable" where
  "record_download_end e t =
     trim_receipts (t\<lparr>download_end_receipts := hm_insert (bn_transfer_id e) e (download_end_receipts t),
       receipt_order := receipt_order t @ [(bn_transfer_id e, False)]\<rparr>)"

definition add_upload :: "UploadTransfer \<Rightarrow> TransferTable \<Rightarrow> TransferTable" where
  "add_upload u t = t\<lparr>active := hm_insert (ut_transfer_id u) (ActiveUpload u) (active t)\<rparr>"

definition add_download :: "DownloadTransfer \<Rightarrow> TransferTable \<Rightarrow> TransferTable" where
  "add_download d t =
     (let t = record_download_begin (dt_begin d) t in
      t\<lparr>active := hm_insert (dt_transfer_id d) (ActiveDownload d) (active t)\<rparr>)"

definition table_remove :: "TransferId \<Rightarrow> TransferTable \<Rightarrow> TransferTable \<times> ActiveTransfer option" where
  "table_remove i t = (t\<lparr>active := hm_remove i (active t)\<rparr>, hm_get (active t) i)"

definition table_get :: "TransferId \<Rightarrow> TransferTable \<Rightarrow> ActiveTransfer option" where
  "table_get i t = hm_get (active t) i"

definition put_upload :: "UploadTransfer \<Rightarrow> TransferTable \<Rightarrow> TransferTable" where
  "put_upload u t = t\<lparr>active := hm_insert (ut_transfer_id u) (ActiveUpload u) (active t)\<rparr>"

type_synonym visit_order = "(TransferId \<times> ActiveTransfer) list \<Rightarrow> (TransferId \<times> ActiveTransfer) list"

definition take_upload_in_phase :: "visit_order \<Rightarrow> UploadPhase \<Rightarrow> TransferTable \<Rightarrow> TransferTable \<times> UploadTransfer option" where
  "take_upload_in_phase ord phase t =
     (case find (\<lambda>(_, tr). case tr of ActiveUpload u \<Rightarrow> ut_phase u = phase | _ \<Rightarrow> False) (ord (active t)) of
        None \<Rightarrow> (t, None)
      | Some (i, _) \<Rightarrow>
          (t\<lparr>active := hm_remove i (active t)\<rparr>,
           case hm_get (active t) i of Some (ActiveUpload u) \<Rightarrow> Some u | _ \<Rightarrow> None))"

definition take_streaming_upload :: "visit_order \<Rightarrow> TransferTable \<Rightarrow> TransferTable \<times> UploadTransfer option" where
  "take_streaming_upload ord t = take_upload_in_phase ord Streaming t"

definition take_upload_ready_for_end :: "visit_order \<Rightarrow> TransferTable \<Rightarrow> TransferTable \<times> UploadTransfer option" where
  "take_upload_ready_for_end ord t = take_upload_in_phase ord ReadyForEnd t"

definition download_ready_for_end :: "visit_order \<Rightarrow> TransferTable \<Rightarrow> TransferId option" where
  "download_ready_for_end ord t =
     map_option fst (find (\<lambda>(_, tr). case tr of ActiveDownload d \<Rightarrow> dt_phase d = DownloadReadyForEnd | _ \<Rightarrow> False)
       (ord (active t)))"

definition mark_upload_begin_accepted :: "nat \<Rightarrow> TransferId \<Rightarrow> TransferTable \<Rightarrow> TransferTable \<times> (unit, TransportError) result" where
  "mark_upload_begin_accepted now i t =
     (case hm_get (active t) i of
        Some (ActiveUpload u) \<Rightarrow>
          if ut_phase u \<noteq> AwaitingBeginResponse then (t, Err protocol_error)
          else (t\<lparr>active := hm_insert i (ActiveUpload (u\<lparr>ut_phase := Streaming, ut_last_progress_at := now\<rparr>)) (active t)\<rparr>,
                Ok ())
      | _ \<Rightarrow> (t, Err protocol_error))"

definition mark_progress :: "TransferId \<Rightarrow> nat \<Rightarrow> TransferTable \<Rightarrow> TransferTable \<times> (unit, TransportError) result" where
  "mark_progress i now t =
     (case hm_get (active t) i of
        None \<Rightarrow> (t, Err protocol_error)
      | Some (ActiveUpload u) \<Rightarrow>
          (t\<lparr>active := hm_insert i (ActiveUpload (u\<lparr>ut_last_progress_at := now\<rparr>)) (active t)\<rparr>, Ok ())
      | Some (ActiveDownload d) \<Rightarrow>
          (t\<lparr>active := hm_insert i (ActiveDownload (d\<lparr>dt_last_progress_at := now\<rparr>)) (active t)\<rparr>, Ok ()))"

definition classify_download_begin :: "WorkspaceBlobBeginMessage \<Rightarrow> TransferTable \<Rightarrow> (bool, TransportError) result" where
  "classify_download_begin b t =
     (case hm_get (active t) (bb_transfer_id b) of
        Some (ActiveDownload d) \<Rightarrow> if dt_begin d = b then Ok True else Err protocol_error
      | Some (ActiveUpload _) \<Rightarrow> Err protocol_error
      | None \<Rightarrow>
          (case hm_get (download_begin_receipts t) (bb_transfer_id b) of
             Some receipt \<Rightarrow> if receipt = b then Ok True else Err protocol_error
           | None \<Rightarrow>
               if bb_transfer_id b \<in> set (per_connection_ids t) then Err protocol_error else Ok False))"

definition classify_download_end :: "WorkspaceBlobEndMessage \<Rightarrow> TransferTable \<Rightarrow> (bool, TransportError) result" where
  "classify_download_end e t =
     (case hm_get (download_end_receipts t) (bn_transfer_id e) of
        Some receipt \<Rightarrow> if receipt = e then Ok True else Err protocol_error
      | None \<Rightarrow> Ok False)"

definition transfer_started_at :: "ActiveTransfer \<Rightarrow> nat" where
  "transfer_started_at tr = (case tr of ActiveUpload u \<Rightarrow> ut_started_at u | ActiveDownload d \<Rightarrow> dt_started_at d)"

definition transfer_last_progress_at :: "ActiveTransfer \<Rightarrow> nat" where
  "transfer_last_progress_at tr =
     (case tr of ActiveUpload u \<Rightarrow> ut_last_progress_at u | ActiveDownload d \<Rightarrow> dt_last_progress_at d)"

text \<open>Subtraction of natural numbers saturates, as \<open>saturating_duration_since\<close> does.\<close>

definition transfer_expired :: "ActiveTransfer \<Rightarrow> nat \<Rightarrow> nat \<Rightarrow> nat \<Rightarrow> bool" where
  "transfer_expired tr now idle_timeout max_lifetime =
     (now - transfer_started_at tr \<ge> max_lifetime \<or> now - transfer_last_progress_at tr \<ge> idle_timeout)"

text \<open>\<open>min_by_key\<close>: the first entry with the least key.\<close>

fun first_min :: "('a \<Rightarrow> nat) \<Rightarrow> 'a list \<Rightarrow> 'a option" where
  "first_min f [] = None"
| "first_min f (x # xs) =
     (case first_min f xs of None \<Rightarrow> Some x | Some y \<Rightarrow> if f x \<le> f y then Some x else Some y)"

definition table_expired :: "visit_order \<Rightarrow> nat \<Rightarrow> nat \<Rightarrow> nat \<Rightarrow> TransferTable \<Rightarrow> TransferId option" where
  "table_expired ord now idle_timeout max_lifetime t =
     map_option fst (first_min (\<lambda>e. transfer_started_at (snd e))
       (filter (\<lambda>e. transfer_expired (snd e) now idle_timeout max_lifetime) (ord (active t))))"

definition transfer_deadline :: "nat \<Rightarrow> nat \<Rightarrow> ActiveTransfer \<Rightarrow> nat" where
  "transfer_deadline idle_timeout max_lifetime tr =
     min (transfer_started_at tr + max_lifetime) (transfer_last_progress_at tr + idle_timeout)"

definition table_next_deadline :: "nat \<Rightarrow> nat \<Rightarrow> TransferTable \<Rightarrow> nat option" where
  "table_next_deadline idle_timeout max_lifetime t =
     first_min id (map (\<lambda>e. transfer_deadline idle_timeout max_lifetime (snd e)) (active t))"

definition reset_connection :: "TransferTable \<Rightarrow> TransferTable" where
  "reset_connection t = t\<lparr>active := [], per_connection_ids := []\<rparr>"

section \<open>Progress of a transfer\<close>

text \<open>
  \<open>to_hex\<close> of a BLAKE3 hash, and the content hash that the session computes from the bytes hashed
  so far.
\<close>

definition hex_digit :: "nat \<Rightarrow> char" where
  "hex_digit n = ''0123456789abcdef'' ! n"

definition to_hex :: "u8 list \<Rightarrow> string" where
  "to_hex bytes = concat (map (\<lambda>b. [hex_digit (unat b div 16), hex_digit (unat b mod 16)]) bytes)"

definition hashed_content :: "(u8 list \<Rightarrow> u8 list) \<Rightarrow> u8 list \<Rightarrow> (WorkspaceContentHash, WorkspaceValidationError) result" where
  "hashed_content blake3 bytes = content_hash_parse (''blake3:'' @ to_hex (blake3 bytes))"

text \<open>
  Index and offset of the next chunk agree with the size: before the end the offset is a whole number
  of chunks, at the end all chunks of the announced count are through.
\<close>

definition chunk_progress :: "u64 \<Rightarrow> u64 \<Rightarrow> u64 \<Rightarrow> bool" where
  "chunk_progress sz idx off \<longleftrightarrow>
     sz \<le> MAX_BLOB_BYTES \<and> off \<le> sz \<and>
     (if off = sz then idx = chunk_count sz else unat off = unat idx * unat BLOB_CHUNK_BYTES)"

text \<open>The length of the next payload, as \<open>advance_upload\<close> computes it.\<close>

definition next_payload_len :: "u64 \<Rightarrow> u64 \<Rightarrow> nat" where
  "next_payload_len sz off = unat (min (sz - off) (ucast BLOB_CHUNK_BYTES))"

lemma chunk_count_eq [simp]: "chunk_count = blob_chunk_count"
  by (simp add: fun_eq_iff chunk_count_def blob_chunk_count_def)

lemma unat_chunk_bytes: "unat BLOB_CHUNK_BYTES = 1048576" "unat (ucast BLOB_CHUNK_BYTES :: u64) = 1048576"
  by (simp_all add: BLOB_CHUNK_BYTES_def)

lemma unat_max_blob: "unat MAX_BLOB_BYTES = 5368709120"
  by (simp add: MAX_BLOB_BYTES_def)

lemma chunk_progress_nat:
  "chunk_progress sz idx off \<longleftrightarrow> unat sz \<le> 5368709120 \<and> unat off \<le> unat sz \<and>
     (if off = sz then unat idx = (unat sz + 1048575) div 1048576 else unat off = unat idx * 1048576)"
  by (simp add: chunk_progress_def word_le_nat_alt unat_max_blob unat_chunk_bytes word_unat_eq_iff unat_blob_chunk_count)

lemma chunk_progress_start: "sz \<le> MAX_BLOB_BYTES \<Longrightarrow> chunk_progress sz 0 0"
  by (auto simp: chunk_progress_nat word_le_nat_alt unat_max_blob)

lemma next_payload_len_nat:
  assumes "off \<le> sz" shows "next_payload_len sz off = min (unat sz - unat off) 1048576"
  using assms by (simp add: next_payload_len_def min_def word_le_nat_alt unat_sub unat_chunk_bytes)

lemma chunk_progress_step:
  assumes "chunk_progress sz idx off" "off \<noteq> sz" "n = next_payload_len sz off"
  shows "chunk_progress sz (idx + 1) (off + word_of_nat n)" and "unat (off + word_of_nat n) = unat off + n"
    and "unat (idx + 1) = unat idx + 1" and "0 < n" and "n \<le> 1048576"
    and "unat off + n \<noteq> unat sz \<Longrightarrow> n = 1048576"
proof -
  have sz: "unat sz \<le> 5368709120" and lt: "unat off < unat sz" and off: "unat off = unat idx * 1048576"
    using assms(1,2) by (auto simp: chunk_progress_nat word_unat_eq_iff le_less split: if_splits)
  have n: "n = min (unat sz - unat off) 1048576"
    using assms(3) lt by (simp add: next_payload_len_nat word_le_nat_alt)
  then show pos: "0 < n" and le: "n \<le> 1048576" and "unat off + n \<noteq> unat sz \<Longrightarrow> n = 1048576"
    using lt by auto
  have nat_n: "unat (word_of_nat n :: u64) = n"
    using le by (simp add: unat_of_nat)
  have "unat off + n \<le> 5368709120" using sz lt n by simp
  then show o: "unat (off + word_of_nat n) = unat off + n"
    by (simp add: unat_word_ariths nat_n)
  show i: "unat (idx + 1) = unat idx + 1"
    using sz lt off by (simp add: unat_word_ariths)
  show "chunk_progress sz (idx + 1) (off + word_of_nat n)"
    unfolding chunk_progress_nat word_unat_eq_iff o i using sz lt off n by (auto simp: min_def split: if_splits)
qed

section \<open>The invariant of the table\<close>

definition active_id :: "ActiveTransfer \<Rightarrow> TransferId" where
  "active_id tr = (case tr of ActiveUpload u \<Rightarrow> ut_transfer_id u | ActiveDownload d \<Rightarrow> dt_transfer_id d)"

text \<open>
  An upload has hashed exactly the bytes before its offset, has sent nothing before the server
  accepted it, and is ready for its end only when all bytes are sent and have the announced hash.
\<close>

definition upload_ok :: "(u8 list \<Rightarrow> u8 list) \<Rightarrow> UploadTransfer \<Rightarrow> bool" where
  "upload_ok blake3 u \<longleftrightarrow>
     chunk_progress (ut_size u) (ut_next_chunk_index u) (ut_next_offset u) \<and>
     length (ut_hasher u) = unat (ut_next_offset u) \<and>
     (ut_phase u = AwaitingBeginResponse \<longrightarrow> ut_next_offset u = 0) \<and>
     (ut_phase u \<in> {ReadyForEnd, AwaitingEndResponse} \<longrightarrow>
        ut_next_offset u = ut_size u \<and> hashed_content blake3 (ut_hasher u) = Ok (ut_content_hash u))"

definition download_ok :: "DownloadTransfer \<Rightarrow> bool" where
  "download_ok d \<longleftrightarrow>
     chunk_progress (dt_size d) (dt_next_chunk_index d) (dt_next_offset d) \<and>
     dt_begin d = \<lparr>bb_workspace_id = dt_workspace_id d, bb_transfer_id = dt_transfer_id d, bb_direction = Download,
       bb_content_hash = dt_content_hash d, bb_size = dt_size d, bb_chunk_size = BLOB_CHUNK_BYTES,
       bb_chunk_count = chunk_count (dt_size d)\<rparr> \<and>
     (dt_phase d \<noteq> Receiving \<longrightarrow> dt_next_offset d = dt_size d)"

definition transfer_ok :: "(u8 list \<Rightarrow> u8 list) \<Rightarrow> ActiveTransfer \<Rightarrow> bool" where
  "transfer_ok blake3 tr = (case tr of ActiveUpload u \<Rightarrow> upload_ok blake3 u | ActiveDownload d \<Rightarrow> download_ok d)"

definition active_inv :: "(u8 list \<Rightarrow> u8 list) \<Rightarrow> TransferTable \<Rightarrow> bool" where
  "active_inv blake3 t \<longleftrightarrow>
     hm_wf (active t) \<and> length (active t) \<le> max_active t \<and> max_active t \<le> MAX_ACTIVE_TRANSFERS \<and>
     distinct (per_connection_ids t) \<and> length (per_connection_ids t) \<le> MAX_TRANSFER_IDS_PER_CONNECTION \<and>
     (\<forall>(i, tr) \<in> set (active t). active_id tr = i \<and> i \<in> set (per_connection_ids t) \<and> transfer_ok blake3 tr)"

definition receipts_inv :: "TransferTable \<Rightarrow> bool" where
  "receipts_inv t \<longleftrightarrow>
     hm_wf (download_begin_receipts t) \<and> hm_wf (download_end_receipts t) \<and>
     (\<forall>(i, b) \<in> set (download_begin_receipts t). bb_transfer_id b = i \<and> (i, True) \<in> set (receipt_order t)) \<and>
     (\<forall>(i, e) \<in> set (download_end_receipts t). bn_transfer_id e = i \<and> (i, False) \<in> set (receipt_order t))"

definition pending_inv :: "TransferTable \<Rightarrow> bool" where
  "pending_inv t \<longleftrightarrow> hm_wf (pending_uploads t) \<and>
     (\<forall>(op, p) \<in> set (pending_uploads t).
        (\<forall>intent. pu_intent p = Some intent \<longrightarrow> ui_operation_id intent = op) \<and>
        (\<forall>need. pu_need p = Some need \<longrightarrow> nu_operation_id need = op))"

definition table_inv :: "(u8 list \<Rightarrow> u8 list) \<Rightarrow> TransferTable \<Rightarrow> bool" where
  "table_inv blake3 t \<longleftrightarrow> active_inv blake3 t \<and> pending_inv t \<and> receipts_inv t \<and>
     length (receipt_order t) \<le> MAX_COMPLETED_TRANSFER_RECEIPTS"

lemma hm_get_empty [simp]: "hm_get [] = Map.empty"
  by (simp add: hm_get_def fun_eq_iff)

lemma set_hm_insert: "e \<in> set (hm_insert k v m) \<longleftrightarrow> e = (k, v) \<or> e \<in> set m \<and> fst e \<noteq> k"
  by (auto simp: hm_insert_def hm_remove_def)

lemma set_hm_remove: "e \<in> set (hm_remove k m) \<longleftrightarrow> e \<in> set m \<and> fst e \<noteq> k"
  by (auto simp: hm_remove_def)

lemma ball_hm_insert: "(\<forall>e\<in>set m. P e) \<Longrightarrow> P (k, v) \<Longrightarrow> \<forall>e\<in>set (hm_insert k v m). P e"
  by (auto simp: hm_insert_def hm_remove_def)

lemma ball_hm_remove: "(\<forall>e\<in>set m. P e) \<Longrightarrow> \<forall>e\<in>set (hm_remove k m). P e"
  by (auto simp: hm_remove_def)

lemma table_inv_wf: "table_inv blake3 t \<Longrightarrow> hm_wf (active t)"
  by (simp add: table_inv_def active_inv_def)

lemma table_inv_new: "table_inv blake3 (table_new n)"
  by (simp add: table_inv_def active_inv_def receipts_inv_def pending_inv_def table_new_def)

lemma receipts_inv_trim:
  "receipts_inv t \<Longrightarrow> receipts_inv (trim_receipts t) \<and>
     length (receipt_order (trim_receipts t)) \<le> MAX_COMPLETED_TRANSFER_RECEIPTS \<and>
     active (trim_receipts t) = active t \<and> max_active (trim_receipts t) = max_active t \<and>
     per_connection_ids (trim_receipts t) = per_connection_ids t \<and> pending_uploads (trim_receipts t) = pending_uploads t"
proof (induction t rule: trim_receipts.induct)
  case (1 t)
  show ?case
  proof (cases "length (receipt_order t) > MAX_COMPLETED_TRANSFER_RECEIPTS")
    case True
    then obtain i b rest where order: "receipt_order t = (i, b) # rest"
      by (cases "receipt_order t") auto
    define t' where "t' = (if b then t\<lparr>receipt_order := rest, download_begin_receipts := hm_remove i (download_begin_receipts t)\<rparr>
                else t\<lparr>receipt_order := rest, download_end_receipts := hm_remove i (download_end_receipts t)\<rparr>)"
    have "receipts_inv t'"
      using 1(2) order by (auto simp: t'_def receipts_inv_def set_hm_remove)
    then have "receipts_inv (trim_receipts t') \<and> length (receipt_order (trim_receipts t')) \<le> MAX_COMPLETED_TRANSFER_RECEIPTS \<and>
      active (trim_receipts t') = active t' \<and> max_active (trim_receipts t') = max_active t' \<and>
      per_connection_ids (trim_receipts t') = per_connection_ids t' \<and> pending_uploads (trim_receipts t') = pending_uploads t'"
      using 1(1) [OF True order refl] by (simp add: t'_def)
    moreover have "trim_receipts t = trim_receipts t'"
      using True order by (subst trim_receipts.simps) (simp add: t'_def)
    ultimately show ?thesis by (simp add: t'_def)
  next
    case False
    with 1(2) show ?thesis by (simp add: trim_receipts.simps [of t])
  qed
qed

lemma table_inv_reserve:
  assumes "table_inv blake3 t" "reserve_transfer i t = (t', r)"
  shows "table_inv blake3 t'" and "active t' = active t"
    and "r = Ok () \<Longrightarrow> i \<in> set (per_connection_ids t') \<and> length (active t') < max_active t' \<and> i \<notin> set (per_connection_ids t)"
  using assms
  by (auto simp: reserve_transfer_def table_inv_def active_inv_def receipts_inv_def split: if_splits)
     (simp add: pending_inv_def)

lemma table_inv_insert:
  assumes "table_inv blake3 t" "length (active t) < max_active t \<or> hm_get (active t) i \<noteq> None"
    and "i \<in> set (per_connection_ids t)" "active_id tr = i" "transfer_ok blake3 tr"
  shows "table_inv blake3 (t\<lparr>active := hm_insert i tr (active t)\<rparr>)"
proof -
  have wf: "hm_wf (active t)" using assms(1) by (simp add: table_inv_def active_inv_def)
  have "length (hm_insert i tr (active t)) \<le> max_active t"
    using assms(1,2) by (auto simp: hm_length_insert [OF wf] table_inv_def active_inv_def)
  moreover have "\<forall>e\<in>set (hm_insert i tr (active t)).
      case e of (j, tr) \<Rightarrow> active_id tr = j \<and> j \<in> set (per_connection_ids t) \<and> transfer_ok blake3 tr"
    using assms by (intro ball_hm_insert) (auto simp: table_inv_def active_inv_def)
  ultimately show ?thesis
    using assms(1) wf by (simp add: table_inv_def active_inv_def receipts_inv_def pending_inv_def)
qed

lemma table_inv_drop:
  assumes "table_inv blake3 t" shows "table_inv blake3 (t\<lparr>active := hm_remove i (active t)\<rparr>)"
  using assms hm_length_remove_le [of "active t" i]
  by (auto simp: table_inv_def active_inv_def receipts_inv_def pending_inv_def set_hm_remove)

lemma table_inv_lookup:
  assumes "table_inv blake3 t" "hm_get (active t) i = Some tr"
  shows "active_id tr = i" "i \<in> set (per_connection_ids t)" "transfer_ok blake3 tr"
    and "length (hm_remove i (active t)) < max_active t"
proof -
  have wf: "hm_wf (active t)" using assms(1) by (simp add: table_inv_def active_inv_def)
  then have mem: "(i, tr) \<in> set (active t)" using assms(2) by (simp add: hm_get_mem)
  then show "active_id tr = i" "i \<in> set (per_connection_ids t)" "transfer_ok blake3 tr"
    using assms(1) by (auto simp: table_inv_def active_inv_def)
  have "0 < length (active t)" "length (active t) \<le> max_active t"
    using mem assms(1) by (auto simp: table_inv_def active_inv_def)
  moreover have "length (hm_remove i (active t)) = length (active t) - 1"
    using assms(2) wf by (simp add: hm_length_remove)
  ultimately show "length (hm_remove i (active t)) < max_active t" by linarith
qed

lemma table_inv_record:
  assumes "table_inv blake3 t"
  shows "table_inv blake3 (record_download_begin b t)" "table_inv blake3 (record_download_end e t)"
proof -
  have wf: "hm_wf (download_begin_receipts t)" "hm_wf (download_end_receipts t)"
    using assms by (simp_all add: table_inv_def receipts_inv_def)
  let ?b = "t\<lparr>download_begin_receipts := hm_insert (bb_transfer_id b) b (download_begin_receipts t),
       receipt_order := receipt_order t @ [(bb_transfer_id b, True)]\<rparr>"
  let ?e = "t\<lparr>download_end_receipts := hm_insert (bn_transfer_id e) e (download_end_receipts t),
       receipt_order := receipt_order t @ [(bn_transfer_id e, False)]\<rparr>"
  have "receipts_inv ?b" "receipts_inv ?e"
    using assms wf by (auto simp: table_inv_def receipts_inv_def set_hm_insert)
  from this [THEN receipts_inv_trim]
  show "table_inv blake3 (record_download_begin b t)" "table_inv blake3 (record_download_end e t)"
    using assms by (simp_all add: record_download_begin_def record_download_end_def table_inv_def active_inv_def pending_inv_def)
qed

lemma record_keeps_active:
  assumes "table_inv blake3 t"
  shows "active (record_download_begin b t) = active t" "max_active (record_download_begin b t) = max_active t"
    "per_connection_ids (record_download_begin b t) = per_connection_ids t"
    "active (record_download_end e t) = active t" "max_active (record_download_end e t) = max_active t"
proof -
  let ?b = "t\<lparr>download_begin_receipts := hm_insert (bb_transfer_id b) b (download_begin_receipts t),
       receipt_order := receipt_order t @ [(bb_transfer_id b, True)]\<rparr>"
  let ?e = "t\<lparr>download_end_receipts := hm_insert (bn_transfer_id e) e (download_end_receipts t),
       receipt_order := receipt_order t @ [(bn_transfer_id e, False)]\<rparr>"
  have "receipts_inv ?b" "receipts_inv ?e"
    using assms by (auto simp: table_inv_def receipts_inv_def set_hm_insert)
  from this [THEN receipts_inv_trim]
  show "active (record_download_begin b t) = active t" "max_active (record_download_begin b t) = max_active t"
    "per_connection_ids (record_download_begin b t) = per_connection_ids t" "active (record_download_end e t) = active t"
    "max_active (record_download_end e t) = max_active t"
    by (simp_all add: record_download_begin_def record_download_end_def)
qed

end
