(* ===== verification/Transport_Dispatch.thy ===== *)
theory Transport_Dispatch
  imports Transport_Transfer
begin

text \<open>
  Correlation of requests and responses on one connection (\<open>fns-transport/src/dispatch.rs\<close>). A request
  in flight remembers the response it expects; a response is validated against it, then completed,
  and its receipt answers exact repetitions. \<open>tracker_correlates\<close> shows, for every sequence of
  operations, that the tables stay bounded and that a request is completed at most once, by a
  response that answers it.
\<close>

section \<open>Expected responses\<close>

datatype ExpectedResponse =
    ExpectHello
  | ExpectMutation WorkspaceId ClientId OperationId
  | ExpectAck WorkspaceAckRequest
  | ExpectBlobNeedDownload WorkspaceId "OperationId option" WorkspaceContentHash u64
  | ExpectBlobBeginUpload WorkspaceBlobBeginMessage
  | ExpectBlobEndUpload WorkspaceBlobEndMessage
  | ExpectBlobEndDownload WorkspaceBlobEndMessage
  | ExpectConflictResolved WorkspaceConflictResolvedRequest

fun failure_action :: "ExpectedResponse \<Rightarrow> WorkspaceAction" where
  "failure_action ExpectHello = AHello"
| "failure_action (ExpectMutation _ _ _) = AMutation"
| "failure_action (ExpectAck _) = AAck"
| "failure_action (ExpectBlobNeedDownload _ _ _ _) = ABlobNeed"
| "failure_action (ExpectBlobBeginUpload _) = ABlobBegin"
| "failure_action (ExpectBlobEndUpload _) = ABlobEnd"
| "failure_action (ExpectBlobEndDownload _) = ABlobEnd"
| "failure_action (ExpectConflictResolved _) = AConflictResolved"

text \<open>The fields of a resolution that the server must echo.\<close>

definition resolution_echoed :: "WorkspaceConflictResolvedRequest \<Rightarrow> WorkspaceConflictResolvedMessage \<Rightarrow> bool" where
  "resolution_echoed expected message =
     (cr_workspace_id message = rq_workspace_id expected \<and>
      cr_resolved_by_client_id message = rq_client_id expected \<and>
      cr_operation_id message = rq_operation_id expected \<and>
      cr_conflict_id message = rq_conflict_id expected \<and>
      cr_conflict_revision message = rq_conflict_revision expected \<and>
      cr_choice message = rq_choice expected \<and>
      ps_path (cr_path_state message) = rq_path expected \<and>
      ps_content_hash (cr_path_state message) = rq_content_hash expected \<and>
      ps_metadata (cr_path_state message) = rq_metadata expected \<and>
      ps_tombstone (cr_path_state message) = (rq_choice expected = Delete))"

definition matches_success :: "ExpectedResponse \<Rightarrow> WorkspaceAction \<Rightarrow> MessageBody \<Rightarrow> bool" where
  "matches_success self action body =
     (case self of
        ExpectHello \<Rightarrow>
          (case body of BHelloResponse message \<Rightarrow> action = AHello \<and> is_ok (hello_response_validate message) | _ \<Rightarrow> False)
      | ExpectMutation w c op \<Rightarrow>
          (case body of
             BMutationAccepted message \<Rightarrow>
               action = AMutationAccepted \<and> is_ok (mutation_accepted_validate message) \<and>
               ma_workspace_id message = w \<and> ma_client_id message = c \<and> ma_operation_id message = op
           | BMutationRejected message \<Rightarrow>
               action = AMutationRejected \<and> is_ok (mutation_rejected_validate message) \<and>
               mr_workspace_id message = w \<and> mr_client_id message = c \<and> mr_operation_id message = op
           | _ \<Rightarrow> False)
      | ExpectAck expected \<Rightarrow>
          (case body of
             BAck message \<Rightarrow> action = AAck \<and> is_ok (ack_request_validate message) \<and> message = expected | _ \<Rightarrow> False)
      | ExpectBlobNeedDownload w op h sz \<Rightarrow>
          (case body of
             BBlobNeedDownloadResponse message \<Rightarrow>
               action = ABlobNeed \<and> is_ok (need_download_response_validate message) \<and>
               nr_workspace_id message = w \<and> into_option (nr_operation_id message) = op \<and>
               nr_content_hash message = h \<and> nr_size message = sz
           | _ \<Rightarrow> False)
      | ExpectBlobBeginUpload expected \<Rightarrow>
          (case body of
             BBlobBegin message \<Rightarrow> action = ABlobBegin \<and> is_ok (blob_begin_validate message) \<and> message = expected
           | _ \<Rightarrow> False)
      | ExpectBlobEndUpload expected \<Rightarrow>
          (case body of
             BBlobEnd message \<Rightarrow> action = ABlobEnd \<and> is_ok (blob_end_validate message) \<and> message = expected
           | _ \<Rightarrow> False)
      | ExpectBlobEndDownload expected \<Rightarrow>
          (case body of
             BBlobEnd message \<Rightarrow> action = ABlobEnd \<and> is_ok (blob_end_validate message) \<and> message = expected
           | _ \<Rightarrow> False)
      | ExpectConflictResolved expected \<Rightarrow>
          (case body of
             BConflictResolved message \<Rightarrow>
               action = AConflictResolved \<and> is_ok (conflict_resolved_validate message) \<and>
               resolution_echoed expected message
           | _ \<Rightarrow> False))"

fun mutation_operation_id :: "ExpectedResponse \<Rightarrow> OperationId option" where
  "mutation_operation_id (ExpectMutation _ _ op) = Some op"
| "mutation_operation_id _ = None"

fun expected_ack_revision :: "ExpectedResponse \<Rightarrow> WorkspaceRevision option" where
  "expected_ack_revision (ExpectAck message) = Some (ack_revision message)"
| "expected_ack_revision _ = None"

fun conflict_operation_id :: "ExpectedResponse \<Rightarrow> OperationId option" where
  "conflict_operation_id (ExpectConflictResolved request) = Some (rq_operation_id request)"
| "conflict_operation_id _ = None"

fun download_identity :: "ExpectedResponse \<Rightarrow> (WorkspaceContentHash \<times> u64 \<times> OperationId option) option" where
  "download_identity (ExpectBlobNeedDownload _ op h sz) = Some (h, sz, op)"
| "download_identity _ = None"

section \<open>The tracker\<close>

record InFlight =
  if_expected :: ExpectedResponse
  if_sent_at :: nat

definition MAX_IN_FLIGHT_REQUESTS :: nat where "MAX_IN_FLIGHT_REQUESTS = 64"
definition MAX_REQUEST_IDS_PER_CONNECTION :: nat where "MAX_REQUEST_IDS_PER_CONNECTION = 4096"
definition MAX_COMPLETED_REQUEST_RECEIPTS :: nat where "MAX_COMPLETED_REQUEST_RECEIPTS = 256"

record RequestTracker =
  rt_entries :: "(RequestId, InFlight) hash_map"
  rt_validated :: "(RequestId, DecodedFrame) hash_map"
  rt_completed :: "(RequestId, DecodedFrame) hash_map"
  rt_completed_order :: "RequestId list"
  rt_ids :: "RequestId set"

definition tracker_new :: RequestTracker where
  "tracker_new = \<lparr>rt_entries = [], rt_validated = [], rt_completed = [], rt_completed_order = [], rt_ids = {}\<rparr>"

definition tracker_len :: "RequestTracker \<Rightarrow> nat" where
  "tracker_len r = length (rt_entries r)"

definition tracker_contains :: "RequestId \<Rightarrow> RequestTracker \<Rightarrow> bool" where
  "tracker_contains i r = (hm_get (rt_entries r) i \<noteq> None)"

definition is_completed :: "RequestId \<Rightarrow> RequestTracker \<Rightarrow> bool" where
  "is_completed i r = (hm_get (rt_completed r) i \<noteq> None)"

definition available_slots :: "RequestTracker \<Rightarrow> nat" where
  "available_slots r = MAX_IN_FLIGHT_REQUESTS - length (rt_entries r)"

definition needs_reconnect_for_id_limit :: "RequestTracker \<Rightarrow> bool" where
  "needs_reconnect_for_id_limit r = (card (rt_ids r) \<ge> MAX_REQUEST_IDS_PER_CONNECTION)"

definition track ::
    "RequestId \<Rightarrow> ExpectedResponse \<Rightarrow> nat \<Rightarrow> RequestTracker \<Rightarrow> RequestTracker \<times> (unit, TransportError) result" where
  "track i expected sent_at r =
     (if length (rt_entries r) \<ge> MAX_IN_FLIGHT_REQUESTS \<or> card (rt_ids r) \<ge> MAX_REQUEST_IDS_PER_CONNECTION
      then (r, Err resource_limit)
      else if i \<in> rt_ids r then (r, Err protocol_error)
      else (r\<lparr>rt_ids := insert i (rt_ids r),
              rt_entries := hm_insert i \<lparr>if_expected = expected, if_sent_at = sent_at\<rparr> (rt_entries r)\<rparr>, Ok ()))"

definition reserve_untracked_id :: "RequestId \<Rightarrow> RequestTracker \<Rightarrow> RequestTracker \<times> (unit, TransportError) result" where
  "reserve_untracked_id i r =
     (if card (rt_ids r) \<ge> MAX_REQUEST_IDS_PER_CONNECTION then (r, Err resource_limit)
      else if i \<in> rt_ids r then (r, Err protocol_error)
      else (r\<lparr>rt_ids := insert i (rt_ids r)\<rparr>, Ok ()))"

fun envelope_request_id :: "DecodedEnvelope \<Rightarrow> RequestId option" where
  "envelope_request_id (Success i _) = i"
| "envelope_request_id (Failure i _) = i"
| "envelope_request_id (Request _ _) = None"

fun answers :: "ExpectedResponse \<Rightarrow> WorkspaceAction \<Rightarrow> DecodedEnvelope \<Rightarrow> bool" where
  "answers expected action (Success _ body) = matches_success expected action body"
| "answers expected action (Failure _ _) = (action = failure_action expected)"
| "answers expected action (Request _ _) = False"

definition tracker_validate :: "DecodedFrame \<Rightarrow> RequestTracker \<Rightarrow> RequestTracker \<times> (RequestId, TransportError) result" where
  "tracker_validate frame r =
     (if df_flow frame \<noteq> ServerResponse then (r, Err protocol_error)
      else
        (case envelope_request_id (df_envelope frame) of
           None \<Rightarrow> (r, Err protocol_error)
         | Some i \<Rightarrow>
             (case hm_get (rt_completed r) i of
                Some completed \<Rightarrow> (r, if completed = frame then Ok i else Err protocol_error)
              | None \<Rightarrow>
                  (case hm_get (rt_entries r) i of
                     None \<Rightarrow> (r, Err protocol_error)
                   | Some in_flight \<Rightarrow>
                       if \<not> answers (if_expected in_flight) (df_action frame) (df_envelope frame)
                       then (r, Err protocol_error)
                       else if (case hm_get (rt_validated r) i of None \<Rightarrow> False | Some previous \<Rightarrow> previous \<noteq> frame)
                       then (r, Err protocol_error)
                       else (r\<lparr>rt_validated := hm_insert i frame (rt_validated r)\<rparr>, Ok i)))))"

text \<open>The loop at the end of \<open>complete\<close> drops the oldest receipts until at most 256 are left.\<close>

function trim_completed :: "RequestTracker \<Rightarrow> RequestTracker" where
  "trim_completed r =
     (if length (rt_completed_order r) > MAX_COMPLETED_REQUEST_RECEIPTS then
        (case rt_completed_order r of
           [] \<Rightarrow> r
         | i # rest \<Rightarrow> trim_completed (r\<lparr>rt_completed_order := rest, rt_completed := hm_remove i (rt_completed r)\<rparr>))
      else r)"
  by pat_completeness auto
termination
  by (relation "measure (\<lambda>r. length (rt_completed_order r))") auto

declare trim_completed.simps [simp del]

definition tracker_complete :: "RequestId \<Rightarrow> RequestTracker \<Rightarrow> RequestTracker \<times> (ExpectedResponse, TransportError) result" where
  "tracker_complete i r =
     (case hm_get (rt_entries r) i of
        None \<Rightarrow> (r, Err protocol_error)
      | Some entry \<Rightarrow>
          (let r = r\<lparr>rt_entries := hm_remove i (rt_entries r)\<rparr> in
           case hm_get (rt_validated r) i of
             None \<Rightarrow> (r, Err protocol_error)
           | Some frame \<Rightarrow>
               (trim_completed
                  (r\<lparr>rt_validated := hm_remove i (rt_validated r),
                     rt_completed := hm_insert i frame (rt_completed r),
                     rt_completed_order := rt_completed_order r @ [i]\<rparr>),
                Ok (if_expected entry))))"

definition cancel_unsent :: "RequestId \<Rightarrow> RequestTracker \<Rightarrow> RequestTracker" where
  "cancel_unsent i r =
     r\<lparr>rt_entries := hm_remove i (rt_entries r), rt_validated := hm_remove i (rt_validated r)\<rparr>"

definition tracker_expired ::
    "((RequestId \<times> InFlight) list \<Rightarrow> (RequestId \<times> InFlight) list) \<Rightarrow> nat \<Rightarrow> nat \<Rightarrow> RequestTracker \<Rightarrow> RequestId option" where
  "tracker_expired ord now timeout r =
     map_option fst (first_min (\<lambda>e. if_sent_at (snd e))
       (filter (\<lambda>e. now - if_sent_at (snd e) \<ge> timeout) (ord (rt_entries r))))"

definition tracker_next_deadline :: "nat \<Rightarrow> RequestTracker \<Rightarrow> nat option" where
  "tracker_next_deadline timeout r = first_min id (map (\<lambda>e. if_sent_at (snd e) + timeout) (rt_entries r))"

definition has_mutation :: "OperationId \<Rightarrow> RequestTracker \<Rightarrow> bool" where
  "has_mutation op r = list_ex (\<lambda>e. mutation_operation_id (if_expected (snd e)) = Some op) (rt_entries r)"

definition has_ack :: "WorkspaceRevision \<Rightarrow> RequestTracker \<Rightarrow> bool" where
  "has_ack revision r = list_ex (\<lambda>e. expected_ack_revision (if_expected (snd e)) = Some revision) (rt_entries r)"

definition has_ack_in_flight :: "RequestTracker \<Rightarrow> bool" where
  "has_ack_in_flight r = list_ex (\<lambda>e. expected_ack_revision (if_expected (snd e)) \<noteq> None) (rt_entries r)"

definition has_conflict_resolution :: "OperationId \<Rightarrow> RequestTracker \<Rightarrow> bool" where
  "has_conflict_resolution op r = list_ex (\<lambda>e. conflict_operation_id (if_expected (snd e)) = Some op) (rt_entries r)"

definition has_download :: "WorkspaceContentHash \<Rightarrow> u64 \<Rightarrow> RequestTracker \<Rightarrow> bool" where
  "has_download h sz r =
     list_ex (\<lambda>e. case download_identity (if_expected (snd e)) of
                     None \<Rightarrow> False | Some (hash, expected_size, _) \<Rightarrow> hash = h \<and> expected_size = sz) (rt_entries r)"

section \<open>The invariant of the tracker\<close>

definition frame_answers :: "RequestId \<Rightarrow> ExpectedResponse \<Rightarrow> DecodedFrame \<Rightarrow> bool" where
  "frame_answers i expected frame \<longleftrightarrow>
     df_flow frame = ServerResponse \<and> envelope_request_id (df_envelope frame) = Some i \<and>
     answers expected (df_action frame) (df_envelope frame)"

definition entries_inv :: "RequestTracker \<Rightarrow> bool" where
  "entries_inv r \<longleftrightarrow>
     hm_wf (rt_entries r) \<and> length (rt_entries r) \<le> MAX_IN_FLIGHT_REQUESTS \<and>
     finite (rt_ids r) \<and> card (rt_ids r) \<le> MAX_REQUEST_IDS_PER_CONNECTION \<and> dom (hm_get (rt_entries r)) \<subseteq> rt_ids r"

definition validated_inv :: "RequestTracker \<Rightarrow> bool" where
  "validated_inv r \<longleftrightarrow>
     (\<forall>i frame. hm_get (rt_validated r) i = Some frame \<longrightarrow>
        (\<exists>entry. hm_get (rt_entries r) i = Some entry \<and> frame_answers i (if_expected entry) frame))"

definition completed_inv :: "RequestTracker \<Rightarrow> bool" where
  "completed_inv r \<longleftrightarrow>
     hm_wf (rt_completed r) \<and> distinct (rt_completed_order r) \<and>
     dom (hm_get (rt_completed r)) = set (rt_completed_order r) \<and> set (rt_completed_order r) \<subseteq> rt_ids r \<and>
     set (rt_completed_order r) \<inter> dom (hm_get (rt_entries r)) = {}"

definition tracker_inv :: "RequestTracker \<Rightarrow> bool" where
  "tracker_inv r \<longleftrightarrow> entries_inv r \<and> validated_inv r \<and> completed_inv r \<and>
     length (rt_completed_order r) \<le> MAX_COMPLETED_REQUEST_RECEIPTS"

lemmas tracker_invs = tracker_inv_def entries_inv_def validated_inv_def completed_inv_def

lemma tracker_inv_new: "tracker_inv tracker_new"
  by (simp add: tracker_invs tracker_new_def)

lemma tracker_inv_track:
  assumes "tracker_inv r" shows "tracker_inv (fst (track i e now r))"
proof (cases "snd (track i e now r)")
  case (Ok u)
  then have new: "i \<notin> rt_ids r" "length (rt_entries r) < MAX_IN_FLIGHT_REQUESTS"
      "card (rt_ids r) < MAX_REQUEST_IDS_PER_CONNECTION"
    by (auto simp: track_def split: if_splits)
  then have none: "hm_get (rt_entries r) i = None" and "i \<notin> set (rt_completed_order r)"
    using assms by (auto simp: tracker_invs)
  moreover have "hm_get (rt_validated r) i = None"
    using assms none unfolding tracker_inv_def validated_inv_def by (metis option.exhaust option.distinct(1))
  ultimately show ?thesis
    using assms new by (auto simp: tracker_invs track_def hm_length_insert hm_get_insert)
next
  case (Err e')
  then have "fst (track i e now r) = r" by (auto simp: track_def split: if_splits)
  with assms show ?thesis by simp
qed

lemma tracker_inv_reserve: "tracker_inv r \<Longrightarrow> tracker_inv (fst (reserve_untracked_id i r))"
  by (auto simp: tracker_invs reserve_untracked_id_def)

lemma tracker_inv_cancel:
  assumes "tracker_inv r" shows "tracker_inv (cancel_unsent i r)"
  using assms hm_length_remove_le [of "rt_entries r" i]
  by (auto simp: tracker_invs cancel_unsent_def hm_get_remove split: if_splits)

lemma tracker_inv_validate:
  assumes "tracker_inv r" shows "tracker_inv (fst (tracker_validate frame r))"
  using assms
  by (auto simp: tracker_validate_def tracker_invs frame_answers_def hm_get_insert split: option.split)

lemma trim_completed_keeps:
  "completed_inv r \<Longrightarrow> completed_inv (trim_completed r) \<and>
     length (rt_completed_order (trim_completed r)) \<le> MAX_COMPLETED_REQUEST_RECEIPTS \<and>
     rt_entries (trim_completed r) = rt_entries r \<and> rt_validated (trim_completed r) = rt_validated r \<and>
     rt_ids (trim_completed r) = rt_ids r \<and>
     (rt_completed_order r \<noteq> [] \<longrightarrow>
        hm_get (rt_completed (trim_completed r)) (last (rt_completed_order r)) = hm_get (rt_completed r) (last (rt_completed_order r)))"
proof (induction r rule: trim_completed.induct)
  case (1 r)
  show ?case
  proof (cases "length (rt_completed_order r) > MAX_COMPLETED_REQUEST_RECEIPTS")
    case True
    then obtain i rest where order: "rt_completed_order r = i # rest"
      by (cases "rt_completed_order r") auto
    with True have rest: "rest \<noteq> []" by (auto simp: MAX_COMPLETED_REQUEST_RECEIPTS_def)
    define r' where "r' = r\<lparr>rt_completed_order := rest, rt_completed := hm_remove i (rt_completed r)\<rparr>"
    have inv: "completed_inv r'"
      using 1(2) order by (auto simp: r'_def completed_inv_def hm_get_remove)
    have "last rest \<noteq> i" using 1(2) order rest by (auto simp: completed_inv_def)
    with 1(1) [OF True order] inv order rest show ?thesis
      using True by (subst (1 2 3 4 5 6) trim_completed.simps) (simp add: r'_def hm_get_remove)
  next
    case False
    with 1(2) show ?thesis by (simp add: trim_completed.simps [of r])
  qed
qed

lemma tracker_inv_complete:
  assumes "tracker_inv r" shows "tracker_inv (fst (tracker_complete i r))"
proof (cases "hm_get (rt_entries r) i")
  case None
  with assms show ?thesis by (simp add: tracker_complete_def)
next
  case (Some entry)
  define r1 where "r1 = r\<lparr>rt_entries := hm_remove i (rt_entries r)\<rparr>"
  have le: "length (hm_remove i (rt_entries r)) \<le> MAX_IN_FLIGHT_REQUESTS"
    using assms hm_length_remove_le [of "rt_entries r" i] by (simp add: tracker_invs)
  show ?thesis
  proof (cases "hm_get (rt_validated r) i")
    case None
    have "tracker_inv r1"
      using assms le None by (auto simp: tracker_invs r1_def hm_get_remove)
    with Some None show ?thesis by (simp add: tracker_complete_def r1_def)
  next
    case (Some frame)
    define r2 where "r2 = r1\<lparr>rt_validated := hm_remove i (rt_validated r1),
       rt_completed := hm_insert i frame (rt_completed r1), rt_completed_order := rt_completed_order r1 @ [i]\<rparr>"
    have i: "i \<in> rt_ids r" "i \<notin> set (rt_completed_order r)"
      using assms \<open>hm_get (rt_entries r) i = Some entry\<close> by (auto simp: tracker_invs)
    have "completed_inv r2"
      using assms i by (auto simp: tracker_invs r1_def r2_def hm_get_remove hm_get_insert)
    from trim_completed_keeps [OF this] have t:
      "completed_inv (trim_completed r2)" "length (rt_completed_order (trim_completed r2)) \<le> MAX_COMPLETED_REQUEST_RECEIPTS"
      "rt_entries (trim_completed r2) = rt_entries r2" "rt_validated (trim_completed r2) = rt_validated r2"
      "rt_ids (trim_completed r2) = rt_ids r2" by auto
    have "entries_inv r2" "validated_inv r2"
      using assms le by (auto simp: tracker_invs r1_def r2_def hm_get_remove)
    then have "tracker_inv (trim_completed r2)"
      using t by (simp add: tracker_inv_def entries_inv_def validated_inv_def)
    with Some \<open>hm_get (rt_entries r) i = Some entry\<close> show ?thesis
      by (simp add: tracker_complete_def r1_def r2_def)
  qed
qed

lemma length_completed: "completed_inv r \<Longrightarrow> length (rt_completed r) = length (rt_completed_order r)"
  using hm.len_keys [of "rt_completed r"] distinct_card [of "rt_completed_order r"]
  by (simp add: completed_inv_def)

text \<open>
  A connection as the calls on its tracker, with the requests that were sent and those that were settled, each
  with the frame that settled it.
\<close>

datatype tracker_call =
    Track RequestId ExpectedResponse nat
  | Reserve RequestId
  | Validate DecodedFrame
  | Complete RequestId
  | Cancel RequestId

record connection_log =
  cl_tracker :: RequestTracker
  cl_sent :: "(RequestId \<times> ExpectedResponse) list"
  cl_settled :: "(RequestId \<times> ExpectedResponse \<times> DecodedFrame) list"

fun log_call :: "tracker_call \<Rightarrow> connection_log \<Rightarrow> connection_log" where
  "log_call (Track i e now) l =
     (case track i e now (cl_tracker l) of
        (r, Ok _) \<Rightarrow> l\<lparr>cl_tracker := r, cl_sent := cl_sent l @ [(i, e)]\<rparr>
      | (r, Err _) \<Rightarrow> l\<lparr>cl_tracker := r\<rparr>)"
| "log_call (Reserve i) l = l\<lparr>cl_tracker := fst (reserve_untracked_id i (cl_tracker l))\<rparr>"
| "log_call (Validate frame) l = l\<lparr>cl_tracker := fst (tracker_validate frame (cl_tracker l))\<rparr>"
| "log_call (Complete i) l =
     (case tracker_complete i (cl_tracker l) of
        (r, Ok e) \<Rightarrow>
          l\<lparr>cl_tracker := r, cl_settled := cl_settled l @ [(i, e, the (hm_get (rt_validated (cl_tracker l)) i))]\<rparr>
      | (r, Err _) \<Rightarrow> l\<lparr>cl_tracker := r\<rparr>)"
| "log_call (Cancel i) l = l\<lparr>cl_tracker := cancel_unsent i (cl_tracker l)\<rparr>"

definition connection :: "tracker_call list \<Rightarrow> connection_log" where
  "connection calls = fold log_call calls \<lparr>cl_tracker = tracker_new, cl_sent = [], cl_settled = []\<rparr>"

text \<open>The receipts that are kept: those of the last 256 settled requests.\<close>

definition recent :: "'a list \<Rightarrow> 'a list" where
  "recent xs = drop (length xs - MAX_COMPLETED_REQUEST_RECEIPTS) xs"

lemma recent_snoc:
  "recent (xs @ [x]) =
     (if length (recent xs @ [x]) > MAX_COMPLETED_REQUEST_RECEIPTS then tl (recent xs @ [x]) else recent xs @ [x])"
proof (cases "length xs \<ge> MAX_COMPLETED_REQUEST_RECEIPTS")
  case True
  then obtain k where k: "length xs = MAX_COMPLETED_REQUEST_RECEIPTS + k" using le_Suc_ex by blast
  then have "recent xs \<noteq> []" by (simp add: recent_def MAX_COMPLETED_REQUEST_RECEIPTS_def)
  with k show ?thesis by (simp add: recent_def Suc_diff_le drop_Suc tl_drop del: drop_append) (simp add: drop_Suc [symmetric])
qed (simp add: recent_def)

definition log_inv :: "connection_log \<Rightarrow> bool" where
  "log_inv l \<longleftrightarrow>
     (let r = cl_tracker l in
      tracker_inv r \<and> distinct (map fst (cl_sent l)) \<and> distinct (map fst (cl_settled l)) \<and>
      fst ` set (cl_sent l) \<subseteq> rt_ids r \<and>
      (\<forall>i entry. hm_get (rt_entries r) i = Some entry \<longrightarrow> (i, if_expected entry) \<in> set (cl_sent l)) \<and>
      (\<forall>i e frame. (i, e, frame) \<in> set (cl_settled l) \<longrightarrow>
         (i, e) \<in> set (cl_sent l) \<and> frame_answers i e frame \<and> hm_get (rt_entries r) i = None) \<and>
      rt_completed_order r = recent (map fst (cl_settled l)) \<and>
      (\<forall>i frame. hm_get (rt_completed r) i = Some frame \<longrightarrow> (\<exists>e. (i, e, frame) \<in> set (cl_settled l))))"

lemma log_invD:
  assumes "log_inv l"
  shows "tracker_inv (cl_tracker l)" "distinct (map fst (cl_sent l))" "distinct (map fst (cl_settled l))"
    "fst ` set (cl_sent l) \<subseteq> rt_ids (cl_tracker l)" "rt_completed_order (cl_tracker l) = recent (map fst (cl_settled l))"
    "hm_get (rt_entries (cl_tracker l)) i = Some entry \<Longrightarrow> (i, if_expected entry) \<in> set (cl_sent l)"
    "(i, e, frame) \<in> set (cl_settled l) \<Longrightarrow> (i, e) \<in> set (cl_sent l)"
    "(i, e, frame) \<in> set (cl_settled l) \<Longrightarrow> frame_answers i e frame"
    "(i, e, frame) \<in> set (cl_settled l) \<Longrightarrow> hm_get (rt_entries (cl_tracker l)) i = None"
    "hm_get (rt_completed (cl_tracker l)) i = Some frame \<Longrightarrow> \<exists>e. (i, e, frame) \<in> set (cl_settled l)"
  using assms unfolding log_inv_def Let_def by blast+

lemma log_invI:
  assumes "cl_tracker l = r" "cl_sent l = sent" "cl_settled l = settled"
    and "tracker_inv r" "distinct (map fst sent)" "distinct (map fst settled)"
    "fst ` set sent \<subseteq> rt_ids r" "rt_completed_order r = recent (map fst settled)"
    "\<And>i entry. hm_get (rt_entries r) i = Some entry \<Longrightarrow> (i, if_expected entry) \<in> set sent"
    "\<And>i e frame. (i, e, frame) \<in> set settled \<Longrightarrow>
       (i, e) \<in> set sent \<and> frame_answers i e frame \<and> hm_get (rt_entries r) i = None"
    "\<And>i frame. hm_get (rt_completed r) i = Some frame \<Longrightarrow> \<exists>e. (i, e, frame) \<in> set settled"
  shows "log_inv l"
  using assms unfolding log_inv_def Let_def by blast

lemma log_inv_same:
  assumes "log_inv l" "tracker_inv r" "rt_ids (cl_tracker l) \<subseteq> rt_ids r"
    and "rt_completed_order r = rt_completed_order (cl_tracker l)" "rt_completed r = rt_completed (cl_tracker l)"
    and "\<And>i. hm_get (rt_entries r) i = None \<or> hm_get (rt_entries r) i = hm_get (rt_entries (cl_tracker l)) i"
  shows "log_inv (l\<lparr>cl_tracker := r\<rparr>)"
  using assms unfolding log_inv_def Let_def by simp (metis option.distinct(1) subset_trans)

text \<open>One completion drops at most one receipt, the oldest.\<close>

lemma trim_completed_one:
  assumes "length (rt_completed_order r) \<le> Suc MAX_COMPLETED_REQUEST_RECEIPTS"
  shows "trim_completed r =
    (if length (rt_completed_order r) > MAX_COMPLETED_REQUEST_RECEIPTS
     then r\<lparr>rt_completed_order := tl (rt_completed_order r),
            rt_completed := hm_remove (hd (rt_completed_order r)) (rt_completed r)\<rparr>
     else r)"
  using assms
  by (cases "rt_completed_order r") (simp_all add: trim_completed.simps [of r] trim_completed.simps [of "r\<lparr>rt_completed_order := _, rt_completed := _\<rparr>"])

lemma log_inv_complete:
  assumes inv: "log_inv l" and ok: "tracker_complete i (cl_tracker l) = (r', Ok e)"
  shows "log_inv (l\<lparr>cl_tracker := r', cl_settled := cl_settled l @ [(i, e, the (hm_get (rt_validated (cl_tracker l)) i))]\<rparr>)"
proof -
  let ?r = "cl_tracker l" and ?settled = "map fst (cl_settled l)"
  obtain entry frame where entry: "hm_get (rt_entries ?r) i = Some entry" "e = if_expected entry"
    and frame: "hm_get (rt_validated ?r) i = Some frame"
    using ok by (auto simp: tracker_complete_def Let_def split: option.splits)
  have t: "tracker_inv ?r" "rt_completed_order ?r = recent ?settled" using inv by (simp_all add: log_inv_def Let_def)
  have answer: "frame_answers i e frame"
    using t(1) entry frame unfolding tracker_inv_def validated_inv_def by (metis option.inject)
  define r2 where "r2 = ?r\<lparr>rt_entries := hm_remove i (rt_entries ?r), rt_validated := hm_remove i (rt_validated ?r),
       rt_completed := hm_insert i frame (rt_completed ?r), rt_completed_order := rt_completed_order ?r @ [i]\<rparr>"
  have r': "r' = trim_completed r2" using ok entry frame by (simp add: tracker_complete_def r2_def)
  have "length (rt_completed_order ?r) \<le> MAX_COMPLETED_REQUEST_RECEIPTS" using t(1) by (simp add: tracker_inv_def)
  then have trim: "r' = (if length (rt_completed_order r2) > MAX_COMPLETED_REQUEST_RECEIPTS
     then r2\<lparr>rt_completed_order := tl (rt_completed_order r2), rt_completed := hm_remove (hd (rt_completed_order r2)) (rt_completed r2)\<rparr>
     else r2)"
    unfolding r' by (intro trim_completed_one) (simp add: r2_def)
  have kept: "rt_entries r' = hm_remove i (rt_entries ?r)" "rt_ids r' = rt_ids ?r"
      "\<And>j f. hm_get (rt_completed r') j = Some f \<Longrightarrow> hm_get (hm_insert i frame (rt_completed ?r)) j = Some f"
    by (auto simp: trim r2_def hm_get_remove split: if_splits)
  have order: "rt_completed_order r' = recent (?settled @ [i])"
    unfolding recent_snoc by (simp add: trim r2_def t(2))
  have inv': "tracker_inv r'" using tracker_inv_complete [OF t(1), of i] ok by simp
  have sent: "(i, e) \<in> set (cl_sent l)" using log_invD(6) [OF inv entry(1)] entry(2) by simp
  have "i \<notin> fst ` set (cl_settled l)" using log_invD(9) [OF inv] entry(1) by fastforce
  then have ids: "distinct (map fst (cl_settled l @ [(i, e, frame)]))" using log_invD(3) [OF inv] by simp
  have entries: "(j, if_expected x) \<in> set (cl_sent l)" if "hm_get (rt_entries r') j = Some x" for j x
    using that log_invD(6) [OF inv] by (simp add: kept(1) hm_get_remove split: if_splits)
  have settled: "(j, e') \<in> set (cl_sent l) \<and> frame_answers j e' f \<and> hm_get (rt_entries r') j = None"
    if "(j, e', f) \<in> set (cl_settled l @ [(i, e, frame)])" for j e' f
    using that log_invD(7-9) [OF inv, of j e' f] sent answer by (auto simp: kept(1) hm_get_remove)
  have receipts: "\<exists>e'. (j, e', f) \<in> set (cl_settled l @ [(i, e, frame)])" if "hm_get (rt_completed r') j = Some f" for j f
    using kept(3) [OF that] log_invD(10) [OF inv, of j f] by (auto simp: hm_get_insert split: if_splits)
  have "log_inv (l\<lparr>cl_tracker := r', cl_settled := cl_settled l @ [(i, e, frame)]\<rparr>)"
    by (rule log_invI [OF _ _ _ inv' log_invD(2) [OF inv] ids _ _ entries settled receipts])
      (simp_all add: kept(2) log_invD(4) [OF inv] order)
  then show ?thesis by (simp add: frame)
qed

lemma log_inv_call: "log_inv l \<Longrightarrow> log_inv (log_call call l)"
proof (cases call)
  case (Track i e now)
  assume inv: "log_inv l"
  then have t: "tracker_inv (fst (track i e now (cl_tracker l)))" by (simp add: log_inv_def Let_def tracker_inv_track)
  show ?thesis
  proof (cases "snd (track i e now (cl_tracker l))")
    case (Ok u)
    then have "fst (track i e now (cl_tracker l)) = (cl_tracker l)\<lparr>rt_ids := insert i (rt_ids (cl_tracker l)),
        rt_entries := hm_insert i \<lparr>if_expected = e, if_sent_at = now\<rparr> (rt_entries (cl_tracker l))\<rparr>" and "i \<notin> rt_ids (cl_tracker l)"
      by (auto simp: track_def split: if_splits)
    then obtain r where run: "track i e now (cl_tracker l) = (r, Ok u)" and r: "rt_ids r = insert i (rt_ids (cl_tracker l))"
        "rt_entries r = hm_insert i \<lparr>if_expected = e, if_sent_at = now\<rparr> (rt_entries (cl_tracker l))"
        "rt_completed r = rt_completed (cl_tracker l)" "rt_completed_order r = rt_completed_order (cl_tracker l)"
      and new: "i \<notin> rt_ids (cl_tracker l)"
      using Ok by (cases "track i e now (cl_tracker l)") auto
    have "log_inv (l\<lparr>cl_tracker := r, cl_sent := cl_sent l @ [(i, e)]\<rparr>)"
    proof (rule log_invI [OF refl refl refl])
      fix j x
      assume "hm_get (rt_entries (cl_tracker (l\<lparr>cl_tracker := r, cl_sent := cl_sent l @ [(i, e)]\<rparr>))) j = Some x"
      then show "(j, if_expected x) \<in> set (cl_sent (l\<lparr>cl_tracker := r, cl_sent := cl_sent l @ [(i, e)]\<rparr>))"
        using log_invD(6) [OF inv, of j] by (auto simp: r hm_get_insert split: if_splits)
    next
      fix j e' frame
      assume "(j, e', frame) \<in> set (cl_settled (l\<lparr>cl_tracker := r, cl_sent := cl_sent l @ [(i, e)]\<rparr>))"
      then have j: "(j, e', frame) \<in> set (cl_settled l)" by simp
      moreover have "j \<noteq> i" using log_invD(4,7) [OF inv] j new by force
      ultimately show "(j, e') \<in> set (cl_sent (l\<lparr>cl_tracker := r, cl_sent := cl_sent l @ [(i, e)]\<rparr>)) \<and> frame_answers j e' frame \<and>
          hm_get (rt_entries (cl_tracker (l\<lparr>cl_tracker := r, cl_sent := cl_sent l @ [(i, e)]\<rparr>))) j = None"
        using log_invD(7-9) [OF inv j] by (simp add: r hm_get_insert)
    qed (use t run new log_invD(2-5,10) [OF inv] in \<open>auto simp: r\<close>)
    with run Track show ?thesis by simp
  next
    case (Err x)
    then have "fst (track i e now (cl_tracker l)) = cl_tracker l" by (auto simp: track_def split: if_splits)
    with inv Err Track show ?thesis by (cases "track i e now (cl_tracker l)") simp
  qed
next
  case (Complete i)
  assume inv: "log_inv l"
  show ?thesis
  proof (cases "tracker_complete i (cl_tracker l)")
    case (Pair r res)
    show ?thesis
    proof (cases res)
      case (Ok e)
      with Pair Complete log_inv_complete [OF inv] show ?thesis by simp
    next
      case (Err x)
      have "tracker_inv r" using tracker_inv_complete [of "cl_tracker l" i] inv Pair by (simp add: log_inv_def Let_def)
      moreover have "r = cl_tracker l \<or> r = (cl_tracker l)\<lparr>rt_entries := hm_remove i (rt_entries (cl_tracker l))\<rparr>"
        using Pair Err by (auto simp: tracker_complete_def Let_def split: option.splits)
      ultimately show ?thesis using Pair Err Complete log_inv_same [OF inv, of r] inv by (auto simp: hm_get_remove)
    qed
  qed
next
  case (Reserve i)
  assume inv: "log_inv l"
  have "log_inv (l\<lparr>cl_tracker := fst (reserve_untracked_id i (cl_tracker l))\<rparr>)"
    by (rule log_inv_same [OF inv tracker_inv_reserve [OF log_invD(1) [OF inv]]]) (auto simp: reserve_untracked_id_def)
  with Reserve show ?thesis by simp
next
  case (Validate frame)
  assume inv: "log_inv l"
  then have "tracker_inv (fst (tracker_validate frame (cl_tracker l)))" by (simp add: tracker_inv_validate log_inv_def Let_def)
  moreover have "rt_entries (fst (tracker_validate frame r)) = rt_entries r" "rt_ids (fst (tracker_validate frame r)) = rt_ids r"
      "rt_completed (fst (tracker_validate frame r)) = rt_completed r"
      "rt_completed_order (fst (tracker_validate frame r)) = rt_completed_order r" for r
    by (simp_all add: tracker_validate_def split: option.split)
  ultimately show ?thesis using Validate log_inv_same [OF inv] by simp
next
  case (Cancel i)
  assume inv: "log_inv l"
  have "log_inv (l\<lparr>cl_tracker := cancel_unsent i (cl_tracker l)\<rparr>)"
    by (rule log_inv_same [OF inv tracker_inv_cancel [OF log_invD(1) [OF inv]]]) (auto simp: cancel_unsent_def hm_get_remove)
  with Cancel show ?thesis by simp
qed

lemma log_inv_connection: "log_inv (connection calls)"
proof -
  have "log_inv l \<Longrightarrow> log_inv (fold log_call calls l)" for l
    by (induction calls arbitrary: l) (simp_all add: log_inv_call)
  moreover have "log_inv \<lparr>cl_tracker = tracker_new, cl_sent = [], cl_settled = []\<rparr>"
    using tracker_inv_new by (simp add: log_inv_def recent_def) (simp add: tracker_new_def)
  ultimately show ?thesis unfolding connection_def by blast
qed

lemma log_inv_settled:
  assumes "log_inv l" "(i, e, frame) \<in> set (cl_settled l)"
  shows "hm_get (rt_completed (cl_tracker l)) i =
    (if i \<in> set (recent (map fst (cl_settled l))) then Some frame else None)"
proof -
  have "dom (hm_get (rt_completed (cl_tracker l))) = set (recent (map fst (cl_settled l)))"
    using assms(1) by (simp add: log_inv_def Let_def tracker_inv_def completed_inv_def)
  moreover have "f = frame" if "hm_get (rt_completed (cl_tracker l)) i = Some f" for f
    using assms that unfolding log_inv_def Let_def by (metis (mono_tags, lifting) eq_key_imp_eq_value prod.inject)
  ultimately show ?thesis by auto
qed

text \<open>
  C18: Whatever is sent and received on a connection, the tables stay within their limits, no identifier is
  used for two requests, and every request is settled at most once, with the expectation it was sent with and
  a frame that answers it. A settled request can never be settled or sent again. As long as it is among the
  last 256 settled ones, exactly the frame that settled it is recognised as a repetition; any other frame with its
  identifier is refused, and later every frame is.
\<close>

theorem tracker_correlates:
  "let l = connection calls; r = cl_tracker l; settled = map fst (cl_settled l) in
   length (rt_entries r) \<le> 64 \<and> card (rt_ids r) \<le> 4096 \<and> length (rt_completed r) \<le> 256 \<and>
   distinct (map fst (cl_sent l)) \<and> distinct settled \<and>
   (\<forall>(i, e, frame)\<in>set (cl_settled l).
      (i, e) \<in> set (cl_sent l) \<and> frame_answers i e frame \<and>
      tracker_complete i r = (r, Err protocol_error) \<and> (\<forall>e now. \<not> is_ok (snd (track i e now r))) \<and>
      (\<forall>other. envelope_request_id (df_envelope other) = Some i \<longrightarrow>
         tracker_validate other r =
           (r, if other = frame \<and> i \<in> set (drop (length settled - 256) settled) then Ok i else Err protocol_error)))"
proof -
  let ?l = "connection calls"
  let ?r = "cl_tracker ?l"
  have inv: "log_inv ?l" by (rule log_inv_connection)
  then have t: "tracker_inv ?r" by (simp add: log_inv_def Let_def)
  have limits: "length (rt_entries ?r) \<le> 64" "card (rt_ids ?r) \<le> 4096" "length (rt_completed ?r) \<le> 256"
    using t by (auto simp: tracker_invs length_completed MAX_IN_FLIGHT_REQUESTS_def MAX_REQUEST_IDS_PER_CONNECTION_def
        MAX_COMPLETED_REQUEST_RECEIPTS_def)
  have once: "distinct (map fst (cl_sent ?l))" "distinct (map fst (cl_settled ?l))"
    using inv by (simp_all add: log_inv_def Let_def)
  have settled: "(i, e) \<in> set (cl_sent ?l) \<and> frame_answers i e frame \<and>
      tracker_complete i ?r = (?r, Err protocol_error) \<and> (\<forall>e now. \<not> is_ok (snd (track i e now ?r))) \<and>
      (\<forall>other. envelope_request_id (df_envelope other) = Some i \<longrightarrow>
         tracker_validate other ?r =
           (?r, if other = frame \<and> i \<in> set (recent (map fst (cl_settled ?l))) then Ok i else Err protocol_error))"
    if "(i, e, frame) \<in> set (cl_settled ?l)" for i e frame
  proof -
    have i: "(i, e) \<in> set (cl_sent ?l)" "frame_answers i e frame" "hm_get (rt_entries ?r) i = None"
      by (rule log_invD(7-9) [OF inv that])+
    moreover have "i \<in> rt_ids ?r" using log_invD(4) [OF inv] i(1) by force
    ultimately show ?thesis
      using log_inv_settled [OF inv that] by (auto simp: tracker_complete_def track_def tracker_validate_def frame_answers_def)
  qed
  show ?thesis
    unfolding Let_def using limits once settled unfolding recent_def MAX_COMPLETED_REQUEST_RECEIPTS_def by blast
qed

definition sample_ack :: WorkspaceAckRequest where
  "sample_ack = \<lparr>ack_workspace_id = WorkspaceId 1, ack_client_id = ClientId 2, ack_revision = WorkspaceRevision 3\<rparr>"

definition sample_ack_frame :: DecodedFrame where
  "sample_ack_frame = \<lparr>df_action = AAck, df_flow = ServerResponse,
     df_envelope = Success (Some (RequestId 9)) (BAck sample_ack)\<rparr>"

definition sample_calls :: "tracker_call list" where
  "sample_calls = [Track (RequestId 9) (ExpectAck sample_ack) 0, Validate sample_ack_frame, Complete (RequestId 9)]"

lemma sample_settled: "cl_settled (connection sample_calls) = [(RequestId 9, ExpectAck sample_ack, sample_ack_frame)]"
  by (simp add: sample_calls_def connection_def sample_ack_frame_def track_def tracker_new_def tracker_validate_def
      matches_success_def ack_request_validate_def tracker_complete_def hm_insert_def hm_get_def hm_remove_def
      MAX_IN_FLIGHT_REQUESTS_def MAX_REQUEST_IDS_PER_CONNECTION_def)

theorem tracker_correlates_witness:
  "cl_settled (connection sample_calls) = [(RequestId 9, ExpectAck sample_ack, sample_ack_frame)] \<and>
   tracker_complete (RequestId 9) (cl_tracker (connection sample_calls)) =
     (cl_tracker (connection sample_calls), Err protocol_error) \<and>
   tracker_validate sample_ack_frame (cl_tracker (connection sample_calls)) =
     (cl_tracker (connection sample_calls), Ok (RequestId 9))"
  using tracker_correlates [of sample_calls] by (simp add: Let_def sample_settled sample_ack_frame_def)

end
