(* ===== verification/Transport_Session.thy ===== *)
theory Transport_Session
  imports Transport_Dispatch
begin

text \<open>
  A session on one WebSocket connection (\<open>fns-transport/src/session.rs\<close>, \<open>socket.rs\<close>): its state, and
  everything that sends. The asynchronous methods become functions on the session that return a
  result and the session after it; awaiting the engine worker or the socket is a call, since each
  method runs to its end before the session loop takes the next event. The engine worker is the
  record \<open>engine_ops\<close> of functions on an engine state of any type, so every statement holds for every
  engine. The frames that were sent are recorded in \<open>s_sent\<close>; whether a send succeeds, the random
  identifiers and the visit order of hash maps are arguments in \<open>session_env\<close>. The clock is read once
  per event (\<open>s_now\<close>), and the budget of the drain in progress is the field \<open>s_budget\<close>. Log output and
  the diagnostics handle are left out.
\<close>

section \<open>State\<close>

record StreamState =
  st_begin :: WorkspaceSnapshotBeginMessage
  st_next_event_index :: u32
  st_event_count :: u32
  st_conflict_count :: u32
  st_end_received :: bool

datatype SessionPhase = AwaitingHello | AwaitingSubscribe | StreamingPhase StreamState | Online | Closing

datatype SessionConnectionPhase = Handshaking | Subscribing | OnlinePhase

record SessionRuntimeStatus =
  rs_phase :: SessionConnectionPhase
  rs_active_transfers :: nat

definition handshaking :: SessionRuntimeStatus where
  "handshaking = \<lparr>rs_phase = Handshaking, rs_active_transfers = 0\<rparr>"

record PendingDownload =
  pd_workspace_id :: WorkspaceId
  pd_operation_id :: "OperationId option"
  pd_content_hash :: WorkspaceContentHash
  pd_size :: u64
  pd_started_at :: nat
  pd_last_progress_at :: nat

datatype DeferredLiveMessage =
    DeferredEvent WorkspaceEventMessage
  | DeferredConflictCreated WorkspaceConflictCreatedMessage
  | DeferredConflictResolved WorkspaceConflictResolvedMessage

record SessionLimits =
  sl_request_timeout :: nat
  sl_idle_timeout :: nat
  sl_transfer_idle_timeout :: nat
  sl_transfer_max_lifetime :: nat
  sl_drain_item_budget :: nat
  sl_drain_byte_budget :: nat
  sl_pending_outbound_capacity :: nat
  sl_deferred_event_capacity :: nat

definition INBOUND_QUEUE_CAPACITY :: nat where "INBOUND_QUEUE_CAPACITY = 8"
definition OUTBOUND_QUEUE_CAPACITY :: nat where "OUTBOUND_QUEUE_CAPACITY = 8"
definition IDLE_TIMEOUT :: nat where "IDLE_TIMEOUT = 90000"
definition REQUEST_TIMEOUT :: nat where "REQUEST_TIMEOUT = 60000"
definition TRANSFER_IDLE_TIMEOUT :: nat where "TRANSFER_IDLE_TIMEOUT = 90000"
definition TRANSFER_MAX_LIFETIME :: nat where "TRANSFER_MAX_LIFETIME = 1800000"
definition MAX_SESSION_TRANSFERS :: nat where "MAX_SESSION_TRANSFERS = 2"

text \<open>Durations are in milliseconds; the two ticker intervals only say how often events occur.\<close>

definition default_limits :: SessionLimits where
  "default_limits =
     \<lparr>sl_request_timeout = REQUEST_TIMEOUT, sl_idle_timeout = IDLE_TIMEOUT,
      sl_transfer_idle_timeout = TRANSFER_IDLE_TIMEOUT, sl_transfer_max_lifetime = TRANSFER_MAX_LIFETIME,
      sl_drain_item_budget = OUTBOUND_QUEUE_CAPACITY,
      sl_drain_byte_budget = max (MAX_CONTROL_FRAME_BYTES * OUTBOUND_QUEUE_CAPACITY) (BLOB_HEADER_LEN + unat BLOB_CHUNK_BYTES),
      sl_pending_outbound_capacity = OUTBOUND_QUEUE_CAPACITY, sl_deferred_event_capacity = INBOUND_QUEUE_CAPACITY\<rparr>"

record DrainBudget =
  items_remaining :: nat
  bytes_remaining :: nat

datatype Outbound = SentText "u8 list" | SentBinary "u8 list" | SentPing "u8 list" | SentPong "u8 list"

datatype InboundMessage =
    InText "u8 list" | InBinary "u8 list" | InPing "u8 list" | InPong "u8 list" | InClose

record 'e session =
  s_phase :: SessionPhase
  s_engine :: 'e
  s_workspace_id :: WorkspaceId
  s_client_id :: ClientId
  s_pkg_version :: string
  s_pending_outbound :: "SyncCommand list"
  s_transfers :: TransferTable
  s_pending_downloads :: "PendingDownload list"
  s_requests :: RequestTracker
  s_deferred_events :: "DeferredLiveMessage list"
  s_deferred_events_ready :: bool
  s_deferred_until_ack_revision :: "WorkspaceRevision option"
  s_refresh_requested :: bool
  s_subscribe_deadline :: "nat option"
  s_last_inbound_at :: nat
  s_limits :: SessionLimits
  s_status :: "SessionRuntimeStatus option"
  s_sent :: "Outbound list"
  s_drawn :: nat
  s_now :: nat
  s_budget :: DrainBudget

definition session_new :: "'e \<Rightarrow> WorkspaceId \<Rightarrow> ClientId \<Rightarrow> string \<Rightarrow> SessionLimits \<Rightarrow> bool \<Rightarrow> nat \<Rightarrow> 'e session" where
  "session_new engine workspace_id client_id pkg_version limits observed now =
     \<lparr>s_phase = AwaitingHello, s_engine = engine, s_workspace_id = workspace_id, s_client_id = client_id,
      s_pkg_version = pkg_version, s_pending_outbound = [], s_transfers = table_new 2, s_pending_downloads = [],
      s_requests = tracker_new, s_deferred_events = [], s_deferred_events_ready = False,
      s_deferred_until_ack_revision = None, s_refresh_requested = False, s_subscribe_deadline = None,
      s_last_inbound_at = now, s_limits = limits, s_status = (if observed then Some handshaking else None),
      s_sent = [], s_drawn = 0, s_now = now, s_budget = \<lparr>items_remaining = 0, bytes_remaining = 0\<rparr>\<rparr>"

section \<open>Methods that may fail\<close>

type_synonym ('e, 'a) fallible = "'e session \<Rightarrow> ('a, TransportError) result \<times> 'e session"

definition ret :: "'a \<Rightarrow> ('e, 'a) fallible" where
  "ret v = (\<lambda>s. (Ok v, s))"

definition raise :: "TransportError \<Rightarrow> ('e, 'a) fallible" where
  "raise e = (\<lambda>s. (Err e, s))"

text \<open>The operator \<open>?\<close> after a call, and the rest of the method.\<close>

definition bindm :: "('e, 'a) fallible \<Rightarrow> ('a \<Rightarrow> ('e, 'b) fallible) \<Rightarrow> ('e, 'b) fallible" where
  "bindm m f = (\<lambda>s. case m s of (Ok v, s') \<Rightarrow> f v s' | (Err e, s') \<Rightarrow> (Err e, s'))"

definition gets :: "('e session \<Rightarrow> 'a) \<Rightarrow> ('e, 'a) fallible" where
  "gets f = (\<lambda>s. (Ok (f s), s))"

definition modify :: "('e session \<Rightarrow> 'e session) \<Rightarrow> ('e, unit) fallible" where
  "modify f = (\<lambda>s. (Ok (), f s))"

definition lift_result :: "('a, TransportError) result \<Rightarrow> ('e, 'a) fallible" where
  "lift_result r = (\<lambda>s. (r, s))"

definition refuse_if :: "bool \<Rightarrow> TransportError \<Rightarrow> ('e, unit) fallible" where
  "refuse_if c e = (if c then raise e else ret ())"

definition require :: "('a, 'x) result \<Rightarrow> ('e, 'a) fallible" where
  "require r = lift_result (map_err (\<lambda>_. protocol_error) r)"

definition on_transfers :: "(TransferTable \<Rightarrow> TransferTable \<times> ('a, TransportError) result) \<Rightarrow> ('e, 'a) fallible" where
  "on_transfers f = (\<lambda>s. case f (s_transfers s) of (t, r) \<Rightarrow> (r, s\<lparr>s_transfers := t\<rparr>))"

definition on_requests :: "(RequestTracker \<Rightarrow> RequestTracker \<times> ('a, TransportError) result) \<Rightarrow> ('e, 'a) fallible" where
  "on_requests f = (\<lambda>s. case f (s_requests s) of (t, r) \<Rightarrow> (r, s\<lparr>s_requests := t\<rparr>))"

text \<open>\<open>if let Err(error) = call { cleanup; return Err(error); }\<close>\<close>

definition on_error :: "('e, 'a) fallible \<Rightarrow> ('e session \<Rightarrow> 'e session) \<Rightarrow> ('e, 'a) fallible" where
  "on_error m cleanup = (\<lambda>s. case m s of (Ok v, s) \<Rightarrow> (Ok v, s) | (Err e, s) \<Rightarrow> (Err e, cleanup s))"

definition with_transfers :: "(TransferTable \<Rightarrow> TransferTable) \<Rightarrow> ('e, unit) fallible" where
  "with_transfers f = modify (\<lambda>s. s\<lparr>s_transfers := f (s_transfers s)\<rparr>)"

type_synonym ('e, 'a) engine_call = "'e \<Rightarrow> ('a, TransportError) result \<times> 'e"

definition call :: "('e, 'a) engine_call \<Rightarrow> ('e, 'a) fallible" where
  "call f = (\<lambda>s. case f (s_engine s) of (r, e) \<Rightarrow> (r, s\<lparr>s_engine := e\<rparr>))"

record 'e engine_ops =
  eng_prepare_connection_attempt :: "('e, nat) engine_call"
  eng_abort_blob_imports :: "('e, unit) engine_call"
  eng_cursor :: "('e, WorkspaceCursor) engine_call"
  eng_active_stream_mode :: "('e, WorkspaceSnapshotMode option) engine_call"
  eng_completed_stream_ack_revision :: "('e, WorkspaceRevision option) engine_call"
  eng_list_conflicts :: "('e, (ConflictId \<times> ConflictStatus) list) engine_call"
  eng_pending_commands :: "nat \<Rightarrow> ('e, SyncCommand list) engine_call"
  eng_snapshot_begin :: "WorkspaceSnapshotBeginMessage \<Rightarrow> ('e, unit) engine_call"
  eng_snapshot_entry :: "WorkspaceSnapshotEntryMessage \<Rightarrow> ('e, SyncCommand list) engine_call"
  eng_snapshot_end :: "WorkspaceSnapshotEndMessage \<Rightarrow> ('e, SyncCommand list) engine_call"
  eng_workspace_event :: "WorkspaceEventMessage \<Rightarrow> ('e, SyncCommand list) engine_call"
  eng_mutation_accepted :: "WorkspaceMutationAcceptedMessage \<Rightarrow> ('e, SyncCommand list) engine_call"
  eng_mutation_rejected :: "WorkspaceMutationRejectedMessage \<Rightarrow> ('e, SyncCommand list) engine_call"
  eng_conflict_created :: "WorkspaceConflictCreatedMessage \<Rightarrow> ('e, SyncCommand list) engine_call"
  eng_conflict_resolved :: "WorkspaceConflictResolvedMessage \<Rightarrow> ('e, SyncCommand list) engine_call"
  eng_conflict_resolution_accepted :: "WorkspaceConflictResolvedMessage \<Rightarrow> ('e, unit) engine_call"
  eng_conflict_resolution_rejected :: "OperationId \<Rightarrow> WorkspaceV2ErrorCode \<Rightarrow> ('e, SyncCommand list) engine_call"
  eng_ack_confirmed :: "WorkspaceAckRequest \<Rightarrow> ('e, unit) engine_call"
  eng_open_blob :: "WorkspaceContentHash \<Rightarrow> ('e, u64 option \<times> u8 list) engine_call"
  eng_blob_uploaded :: "OperationId \<Rightarrow> ('e, unit) engine_call"
  eng_begin_blob_import :: "TransferId \<Rightarrow> WorkspaceContentHash \<Rightarrow> u64 \<Rightarrow> ('e, unit) engine_call"
  eng_write_blob_chunk :: "TransferId \<Rightarrow> u8 list \<Rightarrow> ('e, unit) engine_call"
  eng_seal_blob_import :: "TransferId \<Rightarrow> ('e, unit) engine_call"
  eng_commit_blob_import :: "TransferId \<Rightarrow> ('e, SyncCommand list) engine_call"

text \<open>
  A blob file that the engine opens comes with the length its metadata reports, if the metadata can be
  read, and its bytes.
\<close>

record 'e session_env =
  env_engine :: "'e engine_ops"
  env_lib :: envelope_lib
  env_uuid :: uuid_lib
  env_blake3 :: "u8 list \<Rightarrow> u8 list"
  env_fresh :: "nat \<Rightarrow> uuid"
  env_socket_ok :: "nat \<Rightarrow> bool"
  env_order :: visit_order
  env_request_order :: "(RequestId \<times> InFlight) list \<Rightarrow> (RequestId \<times> InFlight) list"

section \<open>Sending\<close>

definition network_error :: TransportError where
  "network_error = \<lparr>te_code = Network, te_retryable = True\<rparr>"

definition filesystem_error :: TransportError where
  "filesystem_error = \<lparr>te_code = TransportErrorCode.Filesystem, te_retryable = False\<rparr>"

definition queue_full :: TransportError where
  "queue_full = \<lparr>te_code = TransportErrorCode.ResourceLimit, te_retryable = True\<rparr>"

definition fresh_uuid :: "'e session_env \<Rightarrow> ('e, uuid) fallible" where
  "fresh_uuid env = (\<lambda>s. (Ok (env_fresh env (s_drawn s)), s\<lparr>s_drawn := Suc (s_drawn s)\<rparr>))"

definition fresh_request_id :: "'e session_env \<Rightarrow> ('e, RequestId) fallible" where
  "fresh_request_id env = bindm (fresh_uuid env) (\<lambda>u. ret (RequestId u))"

definition socket_send :: "'e session_env \<Rightarrow> Outbound \<Rightarrow> ('e, unit) fallible" where
  "socket_send env message =
     (\<lambda>s. if env_socket_ok env (length (s_sent s)) then (Ok (), s\<lparr>s_sent := s_sent s @ [message]\<rparr>)
          else (Err network_error, s))"

definition send_text :: "'e session_env \<Rightarrow> u8 list \<Rightarrow> ('e, unit) fallible" where
  "send_text env data =
     (if utf8_valid data then socket_send env (SentText data) else raise protocol_error)"

definition send_binary :: "'e session_env \<Rightarrow> u8 list \<Rightarrow> ('e, unit) fallible" where
  "send_binary env data = socket_send env (SentBinary data)"

definition send_ping :: "'e session_env \<Rightarrow> u8 list \<Rightarrow> ('e, unit) fallible" where
  "send_ping env data = socket_send env (SentPing data)"

definition send_pong :: "'e session_env \<Rightarrow> u8 list \<Rightarrow> ('e, unit) fallible" where
  "send_pong env data = socket_send env (SentPong data)"

definition budget_new :: "SessionLimits \<Rightarrow> DrainBudget" where
  "budget_new limits = \<lparr>items_remaining = sl_drain_item_budget limits, bytes_remaining = sl_drain_byte_budget limits\<rparr>"

definition claim_item :: "('e, bool) fallible" where
  "claim_item =
     (\<lambda>s. let b = s_budget s in
          if items_remaining b = 0 then (Ok False, s)
          else (Ok True, s\<lparr>s_budget := b\<lparr>items_remaining := items_remaining b - 1\<rparr>\<rparr>))"

definition reserve_bytes :: "nat \<Rightarrow> ('e, bool) fallible" where
  "reserve_bytes n =
     (\<lambda>s. let b = s_budget s in
          if n > bytes_remaining b then (Ok False, s)
          else (Ok True, s\<lparr>s_budget := b\<lparr>bytes_remaining := bytes_remaining b - n\<rparr>\<rparr>))"

definition can_reserve_bytes :: "nat \<Rightarrow> 'e session \<Rightarrow> bool" where
  "can_reserve_bytes n s = (n \<le> bytes_remaining (s_budget s))"

definition connection_phase :: "SessionPhase \<Rightarrow> SessionConnectionPhase option" where
  "connection_phase phase =
     (case phase of
        AwaitingHello \<Rightarrow> Some Handshaking
      | AwaitingSubscribe \<Rightarrow> Some Subscribing
      | StreamingPhase _ \<Rightarrow> Some Subscribing
      | Online \<Rightarrow> Some OnlinePhase
      | Closing \<Rightarrow> None)"

definition publish_runtime_status :: "('e, unit) fallible" where
  "publish_runtime_status =
     modify (\<lambda>s. case connection_phase (s_phase s) of
        None \<Rightarrow> s
      | Some phase \<Rightarrow>
          s\<lparr>s_status := map_option
               (\<lambda>_. \<lparr>rs_phase = phase, rs_active_transfers = active_count (s_transfers s)\<rparr>) (s_status s)\<rparr>)"

definition send_tracked_text ::
    "'e session_env \<Rightarrow> RequestId \<Rightarrow> ExpectedResponse \<Rightarrow> u8 list \<Rightarrow> ('e, bool) fallible" where
  "send_tracked_text env request_id expected frame =
     bindm (gets (\<lambda>s. available_slots (s_requests s) = 0)) (\<lambda>full.
     if full then ret False
     else
       bindm (reserve_bytes (length frame)) (\<lambda>reserved.
       if \<not> reserved then ret False
       else
         bindm (gets s_now) (\<lambda>now.
         bindm (on_requests (track request_id expected now)) (\<lambda>_.
         bindm (on_error (send_text env frame)
            (\<lambda>s. s\<lparr>s_requests := cancel_unsent request_id (s_requests s)\<rparr>)) (\<lambda>_.
         ret True)))))"

section \<open>Queues\<close>

definition enqueue_commands :: "SyncCommand list \<Rightarrow> ('e, unit) fallible" where
  "enqueue_commands commands =
     bindm (gets (\<lambda>s. length (s_pending_outbound s) + length commands > sl_pending_outbound_capacity (s_limits s))) (\<lambda>full.
     if full then raise queue_full
     else modify (\<lambda>s. s\<lparr>s_pending_outbound := s_pending_outbound s @ commands\<rparr>))"

definition is_download :: "SyncCommand \<Rightarrow> bool" where
  "is_download command = (case command of DownloadBlob _ _ _ _ \<Rightarrow> True | _ \<Rightarrow> False)"

definition enqueue_replayable_download_commands :: "SyncCommand list \<Rightarrow> ('e, unit) fallible" where
  "enqueue_replayable_download_commands commands =
     (if \<not> list_all is_download commands then enqueue_commands commands
      else modify (\<lambda>s.
        let available = sl_pending_outbound_capacity (s_limits s) - length (s_pending_outbound s)
        in s\<lparr>s_pending_outbound := s_pending_outbound s @ take available commands\<rparr>))"

definition enqueue_front :: "SyncCommand \<Rightarrow> ('e, unit) fallible" where
  "enqueue_front command =
     bindm (gets (\<lambda>s. length (s_pending_outbound s) \<ge> sl_pending_outbound_capacity (s_limits s))) (\<lambda>full.
     if full then raise queue_full
     else modify (\<lambda>s. s\<lparr>s_pending_outbound := command # s_pending_outbound s\<rparr>))"

definition complete_response :: "RequestId option \<Rightarrow> ('e, ExpectedResponse) fallible" where
  "complete_response request_id =
     (case request_id of None \<Rightarrow> raise protocol_error | Some i \<Rightarrow> on_requests (tracker_complete i))"

definition defer_live_message :: "DeferredLiveMessage \<Rightarrow> ('e, unit) fallible" where
  "defer_live_message message =
     bindm (gets (\<lambda>s. length (s_deferred_events s) \<ge> sl_deferred_event_capacity (s_limits s))) (\<lambda>full.
     if full then raise queue_full
     else modify (\<lambda>s. s\<lparr>s_deferred_events := s_deferred_events s @ [message]\<rparr>))"

definition refresh_stream_completion :: "'e session_env \<Rightarrow> ('e, unit) fallible" where
  "refresh_stream_completion env =
     bindm (gets s_phase) (\<lambda>phase.
     case phase of
       StreamingPhase stream \<Rightarrow>
         if \<not> st_end_received stream then ret ()
         else
           (let final_revision = sb_final_revision (st_begin stream) in
            bindm (call (eng_completed_stream_ack_revision (env_engine env))) (\<lambda>completed.
            if completed = Some final_revision then
              bindm (modify (\<lambda>s. s\<lparr>s_phase := Online\<rparr>)) (\<lambda>_. publish_runtime_status)
            else
              bindm (call (eng_cursor (env_engine env))) (\<lambda>cursor.
              if wc_last_ack_revision cursor \<ge> final_revision then
                bindm (call (eng_active_stream_mode (env_engine env))) (\<lambda>mode.
                if mode = None then
                  bindm (modify (\<lambda>s. s\<lparr>s_phase := Online,
                     s_deferred_until_ack_revision :=
                       (if s_deferred_until_ack_revision s = Some final_revision then None
                        else s_deferred_until_ack_revision s),
                     s_deferred_events_ready := (s_deferred_events s \<noteq> [])\<rparr>)) (\<lambda>_. publish_runtime_status)
                else ret ())
              else ret ())))
     | _ \<Rightarrow> ret ())"

section \<open>Uploads and the end of downloads\<close>

definition taking :: "(TransferTable \<Rightarrow> TransferTable \<times> 'a) \<Rightarrow> ('e, 'a) fallible" where
  "taking f = on_transfers (\<lambda>t. case f t of (t, v) \<Rightarrow> (t, Ok v))"

definition mark_transfer_progress :: "TransferId \<Rightarrow> ('e, unit) fallible" where
  "mark_transfer_progress i = bindm (gets s_now) (\<lambda>now. on_transfers (mark_progress i now))"

text \<open>The end of \<open>upload_blob\<close>: the transfer is in the table, and its announcement is sent or withdrawn.\<close>

definition announce_upload ::
    "'e session_env \<Rightarrow> RequestId \<Rightarrow> WorkspaceId \<Rightarrow> TransferId \<Rightarrow> WorkspaceContentHash \<Rightarrow> u64 \<Rightarrow> u8 list \<Rightarrow> ('e, bool) fallible" where
  "announce_upload env begin_request_id workspace_id transfer_id content_hash sz begin_frame =
     bindm (send_tracked_text env begin_request_id
        (ExpectBlobBeginUpload \<lparr>bb_workspace_id = workspace_id, bb_transfer_id = transfer_id,
           bb_direction = Upload, bb_content_hash = content_hash, bb_size = sz,
           bb_chunk_size = BLOB_CHUNK_BYTES, bb_chunk_count = chunk_count sz\<rparr>) begin_frame) (\<lambda>sent.
     if \<not> sent then
       bindm (taking (table_remove transfer_id)) (\<lambda>_. ret False)
     else
       bindm (mark_transfer_progress transfer_id) (\<lambda>_. ret True))"

text \<open>Opens the cached blob and sends only the announcement.\<close>

definition upload_blob ::
    "'e session_env \<Rightarrow> WorkspaceId \<Rightarrow> OperationId \<Rightarrow> WorkspaceContentHash \<Rightarrow> u64 \<Rightarrow> ('e, bool) fallible" where
  "upload_blob env workspace_id operation_id content_hash sz =
     bindm (gets (\<lambda>s. available_slots (s_requests s) = 0)) (\<lambda>full.
     if full then ret False
     else
       bindm (refuse_if (sz > MAX_BLOB_BYTES) protocol_error) (\<lambda>_.
       bindm (call (eng_open_blob (env_engine env) content_hash)) (\<lambda>(len, file).
       bindm (refuse_if (len \<noteq> Some sz) filesystem_error) (\<lambda>_.
       bindm (fresh_uuid env) (\<lambda>u.
       bindm (on_transfers (reserve_slot u)) (\<lambda>transfer_id.
       bindm (fresh_request_id env) (\<lambda>begin_request_id.
       bindm (lift_result (encode_blob_begin_upload (env_lib env) workspace_id transfer_id content_hash sz begin_request_id))
         (\<lambda>begin_frame.
       bindm (gets (can_reserve_bytes (length begin_frame))) (\<lambda>can.
       if \<not> can then ret False
       else
         bindm (gets s_now) (\<lambda>now.
         bindm (with_transfers (add_upload
            (upload_new transfer_id workspace_id operation_id content_hash sz file now))) (\<lambda>_.
         announce_upload env begin_request_id workspace_id transfer_id content_hash sz begin_frame)))))))))))"

text \<open>After the last byte: nothing may follow in the file, and the hash must be the announced one.\<close>

definition verify_uploaded :: "'e session_env \<Rightarrow> UploadTransfer \<Rightarrow> ('e, unit) fallible" where
  "verify_uploaded env upload =
     bindm (refuse_if (ut_file upload \<noteq> []) filesystem_error) (\<lambda>_.
     bindm (require (hashed_content (env_blake3 env) (ut_hasher upload))) (\<lambda>actual.
     refuse_if (actual \<noteq> ut_content_hash upload) filesystem_error))"

definition stream_chunk :: "'e session_env \<Rightarrow> UploadTransfer \<Rightarrow> ('e, unit) fallible" where
  "stream_chunk env upload =
     (let payload_len = next_payload_len (ut_size upload) (ut_next_offset upload);
          frame_len = BLOB_HEADER_LEN + payload_len in
      bindm (gets (can_reserve_bytes frame_len)) (\<lambda>can.
      if \<not> can then with_transfers (put_upload upload)
      else
        bindm (refuse_if (length (ut_file upload) < payload_len) filesystem_error) (\<lambda>_.
        let payload = take payload_len (ut_file upload);
            upload = upload\<lparr>ut_file := drop payload_len (ut_file upload), ut_hasher := ut_hasher upload @ payload\<rparr>;
            final_chunk = (ut_next_offset upload + word_of_nat payload_len = ut_size upload) in
        bindm (if final_chunk then verify_uploaded env upload else ret ()) (\<lambda>_.
        bindm (require (encode_binary_frame_owned (env_blake3 env) Upload final_chunk (ut_transfer_id upload)
          (ut_next_chunk_index upload) (ut_next_offset upload) payload)) (\<lambda>frame.
        bindm (reserve_bytes (length frame)) (\<lambda>reserved.
        if \<not> reserved then with_transfers (put_upload upload)
        else
          bindm (send_binary env frame) (\<lambda>_.
          let upload = upload\<lparr>ut_next_offset := ut_next_offset upload + word_of_nat payload_len,
                ut_next_chunk_index := ut_next_chunk_index upload + 1\<rparr>;
              upload = (if final_chunk then upload\<lparr>ut_phase := ReadyForEnd\<rparr> else upload) in
          bindm (with_transfers (put_upload upload)) (\<lambda>_.
          mark_transfer_progress (ut_transfer_id upload)))))))))"

definition advance_streaming :: "'e session_env \<Rightarrow> UploadTransfer \<Rightarrow> ('e, unit) fallible" where
  "advance_streaming env upload =
     (if ut_next_offset upload = ut_size upload then
        bindm (verify_uploaded env upload) (\<lambda>_.
        with_transfers (put_upload (upload\<lparr>ut_phase := ReadyForEnd\<rparr>)))
      else stream_chunk env upload)"

definition end_upload :: "'e session_env \<Rightarrow> UploadTransfer \<Rightarrow> ('e, unit) fallible" where
  "end_upload env upload =
     bindm (fresh_request_id env) (\<lambda>request_id.
     bindm (lift_result (encode_blob_end_upload (env_lib env) (ut_workspace_id upload) (ut_transfer_id upload)
        (ut_content_hash upload) (ut_size upload) request_id)) (\<lambda>frame.
     bindm (send_tracked_text env request_id
        (ExpectBlobEndUpload \<lparr>bn_workspace_id = ut_workspace_id upload, bn_transfer_id = ut_transfer_id upload,
           bn_direction = Upload, bn_content_hash = ut_content_hash upload, bn_size = ut_size upload,
           bn_chunk_count = chunk_count (ut_size upload)\<rparr>) frame) (\<lambda>sent.
     if \<not> sent then with_transfers (put_upload upload)
     else
       bindm (with_transfers (put_upload (upload\<lparr>ut_phase := AwaitingEndResponse\<rparr>))) (\<lambda>_.
       mark_transfer_progress (ut_transfer_id upload)))))"

definition advance_upload :: "'e session_env \<Rightarrow> ('e, unit) fallible" where
  "advance_upload env =
     bindm (taking (take_upload_ready_for_end (env_order env))) (\<lambda>ready.
     case ready of
       Some upload \<Rightarrow> end_upload env upload
     | None \<Rightarrow>
         bindm (taking (take_streaming_upload (env_order env))) (\<lambda>streaming.
         case streaming of
           None \<Rightarrow> ret ()
         | Some upload \<Rightarrow> advance_streaming env upload))"

definition set_download_phase :: "TransferId \<Rightarrow> DownloadPhase \<Rightarrow> ('e, unit) fallible" where
  "set_download_phase i phase =
     on_transfers (\<lambda>t. case table_get i t of
        Some (ActiveDownload d) \<Rightarrow> (t\<lparr>active := hm_insert i (ActiveDownload (d\<lparr>dt_phase := phase\<rparr>)) (active t)\<rparr>, Ok ())
      | _ \<Rightarrow> (t, Err protocol_error))"

definition advance_download_end :: "'e session_env \<Rightarrow> ('e, unit) fallible" where
  "advance_download_end env =
     bindm (gets (\<lambda>s. download_ready_for_end (env_order env) (s_transfers s))) (\<lambda>ready.
     case ready of
       None \<Rightarrow> ret ()
     | Some transfer_id \<Rightarrow>
         bindm (gets (\<lambda>s. table_get transfer_id (s_transfers s))) (\<lambda>transfer.
         case transfer of
           Some (ActiveDownload d) \<Rightarrow>
             (let end_message = \<lparr>bn_workspace_id = dt_workspace_id d, bn_transfer_id = transfer_id,
                    bn_direction = Download, bn_content_hash = dt_content_hash d, bn_size = dt_size d,
                    bn_chunk_count = bb_chunk_count (dt_begin d)\<rparr> in
              bindm (fresh_request_id env) (\<lambda>request_id.
              bindm (require (encode_request (env_lib env) ABlobEnd request_id (BBlobEnd end_message))) (\<lambda>frame.
              bindm (send_tracked_text env request_id (ExpectBlobEndDownload end_message) frame) (\<lambda>sent.
              if \<not> sent then ret ()
              else
                bindm (set_download_phase transfer_id DownloadAwaitingEndResponse) (\<lambda>_.
                mark_transfer_progress transfer_id)))))
         | _ \<Rightarrow> raise protocol_error))"

end
