(* ===== verification/Transport_Commands.thy ===== *)
theory Transport_Commands
  imports Transport_Session
begin

text \<open>
  The outbound half of a session (\<open>fns-transport/src/session.rs\<close>): the handshake requests, the
  translation of engine commands to requests, and the drain that runs at every tick within a budget
  of items and bytes. The loops of the drain recurse on the number of items left in the budget, which
  every iteration decreases.
\<close>

section \<open>Commands\<close>

datatype CommandSendResult = Consumed | Deferred SyncCommand

text \<open>Sends a request for a command and defers the command when there is no slot or no budget.\<close>

definition send_request_or_defer ::
    "'e session_env \<Rightarrow> WorkspaceAction \<Rightarrow> MessageBody \<Rightarrow> ExpectedResponse \<Rightarrow> SyncCommand \<Rightarrow> ('e, CommandSendResult) fallible" where
  "send_request_or_defer env action body expected command =
     bindm (fresh_request_id env) (\<lambda>request_id.
     bindm (require (encode_request (env_lib env) action request_id body)) (\<lambda>frame.
     bindm (send_tracked_text env request_id expected frame) (\<lambda>sent.
     ret (if sent then Consumed else Deferred command))))"

definition send_mutation :: "'e session_env \<Rightarrow> WorkspaceMutation \<Rightarrow> ('e, CommandSendResult) fallible" where
  "send_mutation env body =
     bindm (gets (\<lambda>s. has_mutation (wm_operation_id body) (s_requests s))) (\<lambda>busy.
     if busy then ret Consumed
     else send_request_or_defer env AMutation (BMutation body)
       (ExpectMutation (wm_workspace_id body) (wm_client_id body) (wm_operation_id body)) (CmdMutation body))"

definition send_resolution :: "'e session_env \<Rightarrow> WorkspaceConflictResolvedRequest \<Rightarrow> ('e, CommandSendResult) fallible" where
  "send_resolution env body =
     bindm (gets (\<lambda>s. has_conflict_resolution (rq_operation_id body) (s_requests s))) (\<lambda>busy.
     if busy then ret Consumed
     else
       bindm (require (conflict_resolved_request_validate body)) (\<lambda>_.
       send_request_or_defer env AConflictResolved (BConflictResolvedRequest body)
         (ExpectConflictResolved body) (ResolveConflict body)))"

definition send_ack :: "'e session_env \<Rightarrow> WorkspaceAckRequest \<Rightarrow> ('e, CommandSendResult) fallible" where
  "send_ack env body =
     bindm (call (eng_cursor (env_engine env))) (\<lambda>cursor.
     bindm (gets s_phase) (\<lambda>phase.
     bindm (gets (\<lambda>s. has_ack_in_flight (s_requests s))) (\<lambda>busy.
     let is_terminal_ack = (wc_pending_ack_revision cursor = Some (ack_revision body));
         is_segment_ack = (wc_pending_segment_ack_revision cursor = Some (ack_revision body) \<and>
           wc_pending_ack_revision cursor = None);
         is_online = (phase = Online);
         is_streaming = (case phase of StreamingPhase _ \<Rightarrow> True | _ \<Rightarrow> False) in
     if \<not> is_terminal_ack \<and> \<not> is_segment_ack then ret Consumed
     else if is_terminal_ack \<and> \<not> is_online then ret Consumed
     else if \<not> is_online \<and> \<not> is_streaming then ret Consumed
     else if busy then ret Consumed
     else send_request_or_defer env AAck (BAck body) (ExpectAck body) (SendAck body))))"

definition download_known :: "WorkspaceContentHash \<Rightarrow> u64 \<Rightarrow> 'e session \<Rightarrow> bool" where
  "download_known h sz s =
     (list_ex (\<lambda>p. pd_content_hash p = h \<and> pd_size p = sz) (s_pending_downloads s) \<or>
      has_active_download h sz (s_transfers s) \<or> has_download h sz (s_requests s))"

definition transfer_slots_full :: "'e session \<Rightarrow> bool" where
  "transfer_slots_full s =
     (active_count (s_transfers s) + length (s_pending_downloads s) \<ge> MAX_SESSION_TRANSFERS)"

definition send_download ::
    "'e session_env \<Rightarrow> WorkspaceId \<Rightarrow> OperationId option \<Rightarrow> WorkspaceContentHash \<Rightarrow> u64 \<Rightarrow> ('e, CommandSendResult) fallible" where
  "send_download env workspace_id operation_id content_hash sz =
     bindm (gets (\<lambda>s. download_known content_hash sz s \<or> transfer_slots_full s)) (\<lambda>skip.
     if skip then ret Consumed
     else
       let need_body = \<lparr>nd_workspace_id = workspace_id, nd_direction = Download, nd_operation_id = Null,
             nd_content_hash = content_hash, nd_size = Null\<rparr> in
       bindm (fresh_request_id env) (\<lambda>request_id.
       bindm (require (need_download_request_validate need_body)) (\<lambda>_.
       bindm (require (encode_request (env_lib env) ABlobNeed request_id (BBlobNeedDownloadRequest need_body))) (\<lambda>frame.
       bindm (send_tracked_text env request_id (ExpectBlobNeedDownload workspace_id None content_hash sz) frame) (\<lambda>sent.
       if \<not> sent then ret (Deferred (DownloadBlob workspace_id operation_id content_hash sz))
       else
         bindm (modify (\<lambda>s. s\<lparr>s_pending_downloads := s_pending_downloads s @
            [\<lparr>pd_workspace_id = workspace_id, pd_operation_id = operation_id, pd_content_hash = content_hash,
              pd_size = sz, pd_started_at = s_now s, pd_last_progress_at = s_now s\<rparr>]\<rparr>)) (\<lambda>_.
         ret Consumed))))))"

definition send_upload ::
    "'e session_env \<Rightarrow> WorkspaceId \<Rightarrow> OperationId \<Rightarrow> WorkspaceContentHash \<Rightarrow> u64 \<Rightarrow> ('e, CommandSendResult) fallible" where
  "send_upload env workspace_id operation_id content_hash sz =
     (let retry = UploadBlob workspace_id operation_id content_hash sz in
      bindm (with_transfers (add_upload_intent
         \<lparr>ui_workspace_id = workspace_id, ui_operation_id = operation_id, ui_content_hash = content_hash, ui_size = sz\<rparr>
         retry)) (\<lambda>_.
      bindm (gets (\<lambda>s. has_matching_upload operation_id content_hash sz (s_transfers s) \<and>
                       \<not> has_active_upload operation_id (s_transfers s) \<and> \<not> transfer_slots_full s)) (\<lambda>startable.
      if \<not> startable then ret Consumed
      else
        bindm (gets (\<lambda>s. available_slots (s_requests s) = 0)) (\<lambda>full.
        if full then ret (Deferred retry)
        else
          bindm (upload_blob env workspace_id operation_id content_hash sz) (\<lambda>sent.
          ret (if sent then Consumed else Deferred retry))))))"

fun send_command :: "'e session_env \<Rightarrow> SyncCommand \<Rightarrow> ('e, CommandSendResult) fallible" where
  "send_command env (CmdMutation body) = send_mutation env body"
| "send_command env (ResolveConflict body) = send_resolution env body"
| "send_command env (SendAck body) = send_ack env body"
| "send_command env (DownloadBlob w op h sz) = send_download env w op h sz"
| "send_command env (UploadBlob w op h sz) = send_upload env w op h sz"

section \<open>The drain\<close>

text \<open>One turn of the loop over the queue, once an item is claimed, and the rest of the loop.\<close>

definition send_next :: "'e session_env \<Rightarrow> ('e, unit) fallible \<Rightarrow> ('e, unit) fallible" where
  "send_next env continue =
     bindm (gets s_pending_outbound) (\<lambda>queue.
     case queue of
       [] \<Rightarrow> ret ()
     | command # rest \<Rightarrow>
         bindm (modify (\<lambda>s. s\<lparr>s_pending_outbound := rest\<rparr>)) (\<lambda>_.
         bindm (send_command env command) (\<lambda>outcome.
         case outcome of
           Consumed \<Rightarrow> continue
         | Deferred command \<Rightarrow> modify (\<lambda>s. s\<lparr>s_pending_outbound := command # s_pending_outbound s\<rparr>))))"

fun drain_queue_items :: "'e session_env \<Rightarrow> nat \<Rightarrow> ('e, unit) fallible" where
  "drain_queue_items env 0 = ret ()"
| "drain_queue_items env (Suc n) = bindm claim_item (\<lambda>_. send_next env (drain_queue_items env n))"

definition drain_pending_queue :: "'e session_env \<Rightarrow> ('e, unit) fallible" where
  "drain_pending_queue env = bindm (gets (\<lambda>s. items_remaining (s_budget s))) (drain_queue_items env)"

fun deliver_deferred :: "'e session_env \<Rightarrow> DeferredLiveMessage \<Rightarrow> ('e, SyncCommand list) fallible" where
  "deliver_deferred env (DeferredEvent event) = call (eng_workspace_event (env_engine env) event)"
| "deliver_deferred env (DeferredConflictCreated message) = call (eng_conflict_created (env_engine env) message)"
| "deliver_deferred env (DeferredConflictResolved message) = call (eng_conflict_resolved (env_engine env) message)"

definition deliver_next :: "'e session_env \<Rightarrow> ('e, unit) fallible \<Rightarrow> ('e, unit) fallible" where
  "deliver_next env continue =
     bindm (gets s_deferred_events) (\<lambda>events.
     case events of
       [] \<Rightarrow> modify (\<lambda>s. s\<lparr>s_deferred_events_ready := False\<rparr>)
     | message # rest \<Rightarrow>
         bindm (modify (\<lambda>s. s\<lparr>s_deferred_events := rest\<rparr>)) (\<lambda>_.
         bindm (deliver_deferred env message) (\<lambda>commands.
         bindm (enqueue_replayable_download_commands commands) (\<lambda>_.
         continue))))"

fun drain_deferred_items :: "'e session_env \<Rightarrow> nat \<Rightarrow> ('e, unit) fallible" where
  "drain_deferred_items env 0 = ret ()"
| "drain_deferred_items env (Suc n) =
     bindm (gets s_deferred_events_ready) (\<lambda>ready.
     if \<not> ready then ret ()
     else bindm claim_item (\<lambda>_. deliver_next env (drain_deferred_items env n)))"

definition send_subscribe :: "'e session_env \<Rightarrow> ('e, unit) fallible" where
  "send_subscribe env =
     bindm (call (eng_cursor (env_engine env))) (\<lambda>cursor.
     bindm (fresh_request_id env) (\<lambda>request_id.
     bindm (gets (\<lambda>s. \<lparr>sq_workspace_id = s_workspace_id s, sq_client_id = s_client_id s,
        sq_last_ack_revision = wc_last_ack_revision cursor\<rparr>)) (\<lambda>subscribe.
     bindm (require (encode_request (env_lib env) ASubscribe request_id (BSubscribeRequest subscribe))) (\<lambda>frame.
     bindm (on_requests (reserve_untracked_id request_id)) (\<lambda>_.
     bindm (send_text env frame) (\<lambda>_.
     bindm (modify (\<lambda>s. s\<lparr>s_phase := AwaitingSubscribe,
        s_subscribe_deadline := Some (s_now s + sl_request_timeout (s_limits s))\<rparr>)) (\<lambda>_.
     publish_runtime_status)))))))"

text \<open>Runs the method when an item of the budget can be claimed.\<close>

definition with_item :: "('e, unit) fallible \<Rightarrow> ('e, unit) fallible" where
  "with_item m = bindm claim_item (\<lambda>claimed. if claimed then m else ret ())"

text \<open>The synthesized acknowledgement; the result says whether the drain goes on.\<close>

definition drain_ack :: "'e session_env \<Rightarrow> ('e, bool) fallible" where
  "drain_ack env =
     bindm (call (eng_cursor (env_engine env))) (\<lambda>cursor.
     bindm (gets (\<lambda>s. s_phase s = Online \<and> \<not> has_ack_in_flight (s_requests s))) (\<lambda>allowed.
     case wc_pending_ack_revision cursor of
       None \<Rightarrow> ret True
     | Some revision \<Rightarrow>
         if \<not> allowed then ret True
         else
           bindm claim_item (\<lambda>claimed.
           if \<not> claimed then ret True
           else
             bindm (send_command env (SendAck \<lparr>ack_workspace_id = wc_workspace_id cursor,
                ack_client_id = wc_client_id cursor, ack_revision = revision\<rparr>)) (\<lambda>outcome.
             case outcome of
               Consumed \<Rightarrow> ret True
             | Deferred command \<Rightarrow> bindm (enqueue_front command) (\<lambda>_. ret False)))))"

definition drain_fetch :: "'e session_env \<Rightarrow> ('e, unit) fallible" where
  "drain_fetch env =
     bindm (gets (\<lambda>s. items_remaining (s_budget s) = 0 \<or>
        length (s_pending_outbound s) \<ge> sl_pending_outbound_capacity (s_limits s))) (\<lambda>stop.
     if stop then ret ()
     else
       bindm (gets (\<lambda>s. min (min (items_remaining (s_budget s))
           (sl_pending_outbound_capacity (s_limits s) - length (s_pending_outbound s)))
           (max (available_slots (s_requests s)) 1))) (\<lambda>fetch_limit.
       if fetch_limit = 0 then ret ()
       else
         bindm (call (eng_pending_commands (env_engine env) fetch_limit)) (\<lambda>commands.
         bindm (refresh_stream_completion env) (\<lambda>_.
         bindm (enqueue_commands commands) (\<lambda>_.
         drain_pending_queue env)))))"

definition drain_outbound :: "'e session_env \<Rightarrow> ('e, unit) fallible" where
  "drain_outbound env =
     bindm (gets (\<lambda>s. needs_reconnect_for_id_limit (s_requests s))) (\<lambda>exhausted.
     bindm (refuse_if exhausted network_error) (\<lambda>_.
     bindm (gets s_refresh_requested) (\<lambda>refresh.
     if refresh then
       bindm (send_subscribe env) (\<lambda>_. modify (\<lambda>s. s\<lparr>s_refresh_requested := False\<rparr>))
     else
       bindm (refresh_stream_completion env) (\<lambda>_.
       bindm (modify (\<lambda>s. s\<lparr>s_budget := budget_new (s_limits s)\<rparr>)) (\<lambda>_.
       bindm (with_item (advance_download_end env)) (\<lambda>_.
       bindm (with_item (advance_upload env)) (\<lambda>_.
       bindm (drain_ack env) (\<lambda>proceed.
       if \<not> proceed then ret ()
       else
         bindm (bindm (gets (\<lambda>s. items_remaining (s_budget s))) (drain_deferred_items env)) (\<lambda>_.
         bindm (drain_pending_queue env) (\<lambda>_.
         drain_fetch env))))))))))"

section \<open>The handshake\<close>

definition server_failure_error :: "WorkspaceV2Error \<Rightarrow> TransportError" where
  "server_failure_error e =
     (case v2_code e of
        Unauthenticated \<Rightarrow> \<lparr>te_code = AuthenticationRejected, te_retryable = False\<rparr>
      | WorkspaceV2ErrorCode.Forbidden \<Rightarrow> \<lparr>te_code = TransportErrorCode.Forbidden, te_retryable = False\<rparr>
      | code \<Rightarrow> \<lparr>te_code = Protocol, te_retryable = code_retryable code\<rparr>)"

definition hello_capabilities :: "string list" where
  "hello_capabilities = [''binary_chunks'', ''conflicts'', ''snapshot_v1'']"

definition send_hello_request :: "'e session_env \<Rightarrow> ('e, unit) fallible" where
  "send_hello_request env =
     bindm (fresh_request_id env) (\<lambda>request_id.
     bindm (gets (\<lambda>s. \<lparr>hq_protocol_version = ''2'', hq_client_id = s_client_id s,
        hq_client_version = s_pkg_version s, hq_capabilities = hello_capabilities\<rparr>)) (\<lambda>hello.
     bindm (require (encode_request (env_lib env) AHello request_id (BHelloRequest hello))) (\<lambda>frame.
     bindm (gets s_now) (\<lambda>now.
     bindm (on_requests (track request_id ExpectHello now)) (\<lambda>_.
     on_error (send_text env frame) (\<lambda>s. s\<lparr>s_requests := cancel_unsent request_id (s_requests s)\<rparr>))))))"

definition handle_hello_text :: "'e session_env \<Rightarrow> u8 list \<Rightarrow> ('e, unit) fallible" where
  "handle_hello_text env data =
     bindm (modify (\<lambda>s. s\<lparr>s_last_inbound_at := s_now s\<rparr>)) (\<lambda>_.
     bindm (require (decode_server_text_frame (env_lib env) data)) (\<lambda>decoded.
     bindm (on_requests (tracker_validate decoded)) (\<lambda>correlated.
     case df_envelope decoded of
       Success _ (BHelloResponse _) \<Rightarrow>
         bindm (on_requests (tracker_complete correlated)) (\<lambda>_.
         bindm (modify (\<lambda>s. s\<lparr>s_phase := AwaitingSubscribe\<rparr>)) (\<lambda>_.
         publish_runtime_status))
     | Failure _ e \<Rightarrow>
         bindm (on_requests (tracker_complete correlated)) (\<lambda>_. raise (server_failure_error e))
     | _ \<Rightarrow> raise protocol_error)))"

text \<open>
  The loop that awaits the answer to Hello, over the items the reader yields with their arrival times;
  the end of the list is the end of the stream. Binary messages, pongs and read errors are skipped.
\<close>

fun await_hello :: "'e session_env \<Rightarrow> (nat \<times> (InboundMessage, TransportError) result) list \<Rightarrow> ('e, unit) fallible" where
  "await_hello env [] = raise network_error"
| "await_hello env ((now, item) # rest) =
     (case item of
        Ok (InText data) \<Rightarrow> bindm (modify (\<lambda>s. s\<lparr>s_now := now\<rparr>)) (\<lambda>_. handle_hello_text env data)
      | Ok InClose \<Rightarrow> raise network_error
      | Ok (InPing data) \<Rightarrow>
          bindm (modify (\<lambda>s. s\<lparr>s_now := now, s_last_inbound_at := now\<rparr>)) (\<lambda>_.
          bindm (send_pong env data) (\<lambda>_. await_hello env rest))
      | _ \<Rightarrow> await_hello env rest)"

definition send_hello :: "'e session_env \<Rightarrow> (nat \<times> (InboundMessage, TransportError) result) list \<Rightarrow> ('e, unit) fallible" where
  "send_hello env items = bindm (send_hello_request env) (\<lambda>_. await_hello env items)"

end
