(* ===== verification/Transport_Inbound.thy ===== *)
theory Transport_Inbound
  imports Transport_Commands
begin

text \<open>
  The inbound half of a session (\<open>fns-transport/src/session.rs\<close>): binary frames, text frames by action,
  the timers, and the event loop.
\<close>

section \<open>Binary frames\<close>

text \<open>The checks on a chunk that belongs to an active download, and the download after it.\<close>

definition accept_chunk ::
    "WorkspaceBlobHeader \<Rightarrow> nat \<Rightarrow> DownloadTransfer \<Rightarrow> (u64 \<times> u64, TransportError) result" where
  "accept_chunk header payload_len d =
     fail_if (dt_phase d \<noteq> Receiving) protocol_error
    (and_then (ok_or (checked_add (dt_next_offset d) (word_of_nat payload_len)) protocol_error) (\<lambda>next_offset.
     fail_if (next_offset > dt_size d) protocol_error
    (let is_last = (next_offset = dt_size d) in
     and_then (map_err (\<lambda>_. protocol_error)
       (validate_sequence header (dt_next_chunk_index d) (dt_next_offset d) is_last)) (\<lambda>_.
     and_then (ok_or (checked_add (dt_next_chunk_index d) 1) protocol_error) (\<lambda>next_index.
     fail_if (next_index > bb_chunk_count (dt_begin d) \<or> is_last \<and> next_index \<noteq> bb_chunk_count (dt_begin d))
       protocol_error
    (Ok (next_index, next_offset)))))))"

definition advance_download :: "TransferId \<Rightarrow> u64 \<Rightarrow> u64 \<Rightarrow> ('e, unit) fallible" where
  "advance_download i next_index next_offset =
     on_transfers (\<lambda>t. case table_get i t of
        Some (ActiveDownload d) \<Rightarrow>
          (t\<lparr>active := hm_insert i (ActiveDownload (d\<lparr>dt_next_chunk_index := next_index,
             dt_next_offset := next_offset\<rparr>)) (active t)\<rparr>, Ok ())
      | _ \<Rightarrow> (t, Err protocol_error))"

definition handle_binary_frame :: "'e session_env \<Rightarrow> u8 list \<Rightarrow> ('e, unit) fallible" where
  "handle_binary_frame env data =
     bindm (require (decode_binary_frame (env_uuid env) (env_blake3 env) data)) (\<lambda>(header, payload).
     bindm (refuse_if (bh_direction header \<noteq> Download) protocol_error) (\<lambda>_.
     bindm (gets (\<lambda>s. table_get (bh_transfer_id header) (s_transfers s))) (\<lambda>transfer.
     case transfer of
       Some (ActiveDownload d) \<Rightarrow>
         bindm (lift_result (accept_chunk header (length payload) d)) (\<lambda>(next_index, next_offset).
         bindm (call (eng_write_blob_chunk (env_engine env) (bh_transfer_id header) (drop BLOB_HEADER_LEN data))) (\<lambda>_.
         bindm (advance_download (bh_transfer_id header) next_index next_offset) (\<lambda>_.
         mark_transfer_progress (bh_transfer_id header))))
     | _ \<Rightarrow> raise protocol_error)))"

section \<open>Failures of requests\<close>

definition handle_failure :: "'e session_env \<Rightarrow> RequestId option \<Rightarrow> WorkspaceV2Error \<Rightarrow> ('e, unit) fallible" where
  "handle_failure env correlated e =
     bindm (complete_response correlated) (\<lambda>expected.
     case expected of
       ExpectConflictResolved request \<Rightarrow>
         bindm (call (eng_conflict_resolution_rejected (env_engine env) (rq_operation_id request) (v2_code e))) (\<lambda>commands.
         bindm (enqueue_commands commands) (\<lambda>_.
         if v2_code e = WorkspaceV2ErrorCode.BlobRequired then ret ()
         else if v2_code e = WorkspaceV2ErrorCode.ConflictRevisionStale \<or> v2_code e = ConflictNotFound then
           bindm (call (eng_list_conflicts (env_engine env))) (\<lambda>conflicts.
           modify (\<lambda>s. s\<lparr>s_refresh_requested :=
             list_ex (\<lambda>(i, status). i = rq_conflict_id request \<and> status = RefreshRequired) conflicts\<rparr>))
         else raise (server_failure_error e)))
     | _ \<Rightarrow> raise (server_failure_error e))"

section \<open>Streams, events and conflicts\<close>

definition is_streaming :: "SessionPhase \<Rightarrow> bool" where
  "is_streaming phase = (case phase of StreamingPhase _ \<Rightarrow> True | _ \<Rightarrow> False)"

definition handle_snapshot_begin :: "'e session_env \<Rightarrow> WorkspaceSnapshotBeginMessage \<Rightarrow> ('e, unit) fallible" where
  "handle_snapshot_begin env msg =
     bindm (require (snapshot_begin_validate msg)) (\<lambda>_.
     bindm (modify (\<lambda>s. s\<lparr>s_phase := StreamingPhase
        \<lparr>st_begin = msg, st_next_event_index = 0, st_event_count = sb_event_count msg,
         st_conflict_count = sb_conflict_count msg, st_end_received = False\<rparr>\<rparr>)) (\<lambda>_.
     bindm publish_runtime_status (\<lambda>_.
     bindm (call (eng_snapshot_begin (env_engine env) msg)) (\<lambda>_.
     modify (\<lambda>s. s\<lparr>s_subscribe_deadline := None\<rparr>)))))"

definition handle_snapshot_end :: "'e session_env \<Rightarrow> WorkspaceSnapshotEndMessage \<Rightarrow> ('e, unit) fallible" where
  "handle_snapshot_end env msg =
     (let final_revision = sn_final_revision msg in
      bindm (gets (\<lambda>s. s_phase s = Online \<and> s_deferred_until_ack_revision s = Some final_revision)) (\<lambda>duplicate.
      bindm (gets (\<lambda>s. is_streaming (s_phase s))) (\<lambda>streaming.
      bindm (refuse_if (\<not> streaming \<and> \<not> duplicate) protocol_error) (\<lambda>_.
      bindm (call (eng_snapshot_end (env_engine env) msg)) (\<lambda>cmds.
      bindm (gets s_phase) (\<lambda>phase.
      bindm (case phase of
               StreamingPhase stream \<Rightarrow>
                 bindm (modify (\<lambda>s. s\<lparr>s_phase := StreamingPhase (stream\<lparr>st_end_received := True\<rparr>)\<rparr>)) (\<lambda>_.
                 bindm (call (eng_active_stream_mode (env_engine env))) (\<lambda>mode.
                 bindm (modify (\<lambda>s. s\<lparr>s_deferred_until_ack_revision := map_option (\<lambda>_. final_revision) mode\<rparr>)) (\<lambda>_.
                 refresh_stream_completion env)))
             | _ \<Rightarrow> ret ()) (\<lambda>_.
      enqueue_commands cmds)))))))"

definition handle_event :: "'e session_env \<Rightarrow> WorkspaceEventMessage \<Rightarrow> ('e, unit) fallible" where
  "handle_event env event =
     bindm (call (eng_cursor (env_engine env))) (\<lambda>_.
     bindm (call (eng_active_stream_mode (env_engine env))) (\<lambda>active_stream.
     bindm (gets (\<lambda>s. s_deferred_until_ack_revision s \<noteq> None \<or> active_stream = Some Snapshot)) (\<lambda>deferred.
     if deferred then defer_live_message (DeferredEvent event)
     else
       bindm (call (eng_workspace_event (env_engine env) event)) (\<lambda>cmds.
       enqueue_replayable_download_commands cmds))))"

definition handle_conflict_created :: "'e session_env \<Rightarrow> WorkspaceConflictCreatedMessage \<Rightarrow> ('e, unit) fallible" where
  "handle_conflict_created env msg =
     bindm (gets (\<lambda>s. s_deferred_until_ack_revision s \<noteq> None)) (\<lambda>deferred.
     if deferred then defer_live_message (DeferredConflictCreated msg)
     else
       bindm (call (eng_conflict_created (env_engine env) msg)) (\<lambda>cmds. enqueue_commands cmds))"

definition handle_conflict_resolved ::
    "'e session_env \<Rightarrow> RequestId option \<Rightarrow> WorkspaceConflictResolvedMessage \<Rightarrow> ('e, unit) fallible" where
  "handle_conflict_resolved env correlated msg =
     (if correlated \<noteq> None then
        bindm (call (eng_conflict_resolution_accepted (env_engine env) msg)) (\<lambda>_.
        bindm (complete_response correlated) (\<lambda>_. ret ()))
      else
        bindm (gets s_deferred_until_ack_revision) (\<lambda>until.
        bindm (if until \<noteq> None then ret None else call (eng_active_stream_mode (env_engine env))) (\<lambda>mode.
        if until \<noteq> None \<or> mode = Some Snapshot then defer_live_message (DeferredConflictResolved msg)
        else
          bindm (call (eng_conflict_resolved (env_engine env) msg)) (\<lambda>commands.
          enqueue_replayable_download_commands commands))))"

definition handle_ack :: "'e session_env \<Rightarrow> RequestId option \<Rightarrow> WorkspaceAckRequest \<Rightarrow> ('e, unit) fallible" where
  "handle_ack env correlated msg =
     bindm (call (eng_ack_confirmed (env_engine env) msg)) (\<lambda>_.
     bindm (complete_response correlated) (\<lambda>_.
     bindm (gets s_deferred_until_ack_revision) (\<lambda>until.
     if until = Some (ack_revision msg) then
       bindm (call (eng_active_stream_mode (env_engine env))) (\<lambda>mode.
       if mode = None then
         modify (\<lambda>s. s\<lparr>s_deferred_until_ack_revision := None,
           s_deferred_events_ready := (s_deferred_events s \<noteq> [])\<rparr>)
       else ret ())
     else ret ())))"

section \<open>Blob messages\<close>

definition handle_need_upload :: "WorkspaceBlobNeedUploadPush \<Rightarrow> ('e, unit) fallible" where
  "handle_need_upload need =
     bindm (require (need_upload_validate need)) (\<lambda>_.
     bindm (gets s_workspace_id) (\<lambda>workspace_id.
     bindm (refuse_if (nu_workspace_id need \<noteq> workspace_id) protocol_error) (\<lambda>_.
     bindm (on_transfers (add_server_need need)) (\<lambda>_. ret ()))))"

text \<open>\<open>iter_mut().find\<close>: the first element with the property is updated.\<close>

fun update_first :: "('a \<Rightarrow> bool) \<Rightarrow> ('a \<Rightarrow> 'a) \<Rightarrow> 'a list \<Rightarrow> 'a list option" where
  "update_first p f [] = None"
| "update_first p f (x # xs) = (if p x then Some (f x # xs) else map_option ((#) x) (update_first p f xs))"

definition handle_need_download_response ::
    "RequestId option \<Rightarrow> WorkspaceBlobNeedDownloadResponse \<Rightarrow> ('e, unit) fallible" where
  "handle_need_download_response correlated resp =
     bindm (require (need_download_response_validate resp)) (\<lambda>_.
     bindm (gets s_workspace_id) (\<lambda>workspace_id.
     bindm (refuse_if (nr_workspace_id resp \<noteq> workspace_id) protocol_error) (\<lambda>_.
     bindm (gets (\<lambda>s. update_first (\<lambda>p. pd_content_hash p = nr_content_hash resp)
        (\<lambda>p. p\<lparr>pd_workspace_id := nr_workspace_id resp, pd_size := nr_size resp, pd_last_progress_at := s_now s\<rparr>)
        (s_pending_downloads s))) (\<lambda>updated.
     case updated of
       None \<Rightarrow> raise protocol_error
     | Some downloads \<Rightarrow>
         bindm (modify (\<lambda>s. s\<lparr>s_pending_downloads := downloads\<rparr>)) (\<lambda>_.
         bindm (complete_response correlated) (\<lambda>_. ret ()))))))"

text \<open>\<open>position\<close> and \<open>remove\<close>: the first pending download of this content.\<close>

fun take_first :: "('a \<Rightarrow> bool) \<Rightarrow> 'a list \<Rightarrow> ('a \<times> 'a list) option" where
  "take_first p [] = None"
| "take_first p (x # xs) =
     (if p x then Some (x, xs) else map_option (\<lambda>(y, ys). (y, x # ys)) (take_first p xs))"

definition begin_download :: "'e session_env \<Rightarrow> WorkspaceBlobBeginMessage \<Rightarrow> ('e, unit) fallible" where
  "begin_download env msg =
     bindm (gets (\<lambda>s. classify_download_begin msg (s_transfers s))) (\<lambda>class.
     bindm (lift_result class) (\<lambda>repeated.
     if repeated then ret ()
     else
       bindm (gets (\<lambda>s. take_first (\<lambda>p. pd_content_hash p = bb_content_hash msg \<and> pd_size p = bb_size msg)
          (s_pending_downloads s))) (\<lambda>found.
       case found of
         None \<Rightarrow> raise protocol_error
       | Some (pending, rest) \<Rightarrow>
           bindm (modify (\<lambda>s. s\<lparr>s_pending_downloads := rest\<rparr>)) (\<lambda>_.
           bindm (on_transfers (reserve_transfer (bb_transfer_id msg))) (\<lambda>_.
           bindm (call (eng_begin_blob_import (env_engine env) (bb_transfer_id msg) (bb_content_hash msg) (bb_size msg))) (\<lambda>_.
           bindm (gets s_now) (\<lambda>now.
           bindm (with_transfers (add_download (download_new_with_progress (bb_transfer_id msg)
              (pd_workspace_id pending) (pd_operation_id pending) (bb_content_hash msg) (bb_size msg)
              (pd_started_at pending) now))) (\<lambda>_.
           bindm (gets (\<lambda>s. matches_download (bb_transfer_id msg) (bb_content_hash msg) (bb_size msg) (s_transfers s))) (\<lambda>ok.
           refuse_if (\<not> ok) protocol_error)))))))))"

definition handle_blob_begin ::
    "'e session_env \<Rightarrow> RequestId option \<Rightarrow> WorkspaceBlobBeginMessage \<Rightarrow> ('e, unit) fallible" where
  "handle_blob_begin env correlated msg =
     bindm (require (blob_begin_validate msg)) (\<lambda>_.
     bindm (gets s_workspace_id) (\<lambda>workspace_id.
     bindm (refuse_if (bb_workspace_id msg \<noteq> workspace_id) protocol_error) (\<lambda>_.
     if bb_direction msg = Download then begin_download env msg
     else
       bindm (complete_response correlated) (\<lambda>expected.
       case expected of
         ExpectBlobBeginUpload expected_begin \<Rightarrow>
           bindm (gets s_now) (\<lambda>now. on_transfers (mark_upload_begin_accepted now (bb_transfer_id expected_begin)))
       | _ \<Rightarrow> raise protocol_error))))"

definition finish_upload :: "'e session_env \<Rightarrow> RequestId option \<Rightarrow> WorkspaceBlobEndMessage \<Rightarrow> ('e, unit) fallible" where
  "finish_upload env correlated msg =
     bindm (gets (\<lambda>s. table_get (bn_transfer_id msg) (s_transfers s))) (\<lambda>transfer.
     case transfer of
       Some (ActiveUpload upload) \<Rightarrow>
         bindm (refuse_if (ut_workspace_id upload \<noteq> bn_workspace_id msg \<or> ut_content_hash upload \<noteq> bn_content_hash msg \<or>
            ut_size upload \<noteq> bn_size msg \<or> ut_phase upload \<noteq> AwaitingEndResponse) protocol_error) (\<lambda>_.
         bindm (complete_response correlated) (\<lambda>expected.
         bindm (refuse_if (case expected of ExpectBlobEndUpload _ \<Rightarrow> False | _ \<Rightarrow> True) protocol_error) (\<lambda>_.
         bindm (call (eng_blob_uploaded (env_engine env) (ut_operation_id upload))) (\<lambda>_.
         bindm (taking (table_remove (bn_transfer_id msg))) (\<lambda>_.
         bindm (taking (take_pending_retry (ut_operation_id upload))) (\<lambda>_. ret ()))))))
     | _ \<Rightarrow> raise protocol_error)"

definition commit_download :: "'e session_env \<Rightarrow> RequestId option \<Rightarrow> ('e, unit) fallible" where
  "commit_download env correlated =
     bindm (complete_response correlated) (\<lambda>expected.
     case expected of
       ExpectBlobEndDownload expected_end \<Rightarrow>
         bindm (gets (\<lambda>s. table_get (bn_transfer_id expected_end) (s_transfers s))) (\<lambda>transfer.
         case transfer of
           Some (ActiveDownload d) \<Rightarrow>
             bindm (refuse_if (dt_phase d \<noteq> DownloadAwaitingEndResponse) protocol_error) (\<lambda>_.
             bindm (call (eng_commit_blob_import (env_engine env) (bn_transfer_id expected_end))) (\<lambda>commands.
             bindm (taking (table_remove (bn_transfer_id expected_end))) (\<lambda>_.
             bindm (refresh_stream_completion env) (\<lambda>_.
             enqueue_replayable_download_commands commands))))
         | _ \<Rightarrow> raise protocol_error)
     | _ \<Rightarrow> raise protocol_error)"

definition seal_download :: "'e session_env \<Rightarrow> WorkspaceBlobEndMessage \<Rightarrow> ('e, unit) fallible" where
  "seal_download env msg =
     bindm (gets (\<lambda>s. classify_download_end msg (s_transfers s))) (\<lambda>class.
     bindm (lift_result class) (\<lambda>repeated.
     if repeated then ret ()
     else
       bindm (gets (\<lambda>s. table_get (bn_transfer_id msg) (s_transfers s))) (\<lambda>transfer.
       case transfer of
         Some (ActiveDownload d) \<Rightarrow>
           bindm (refuse_if (dt_phase d \<noteq> Receiving \<or> dt_workspace_id d \<noteq> bn_workspace_id msg \<or>
              dt_content_hash d \<noteq> bn_content_hash msg \<or> dt_size d \<noteq> bn_size msg \<or>
              bb_chunk_count (dt_begin d) \<noteq> bn_chunk_count msg \<or> dt_next_offset d \<noteq> bn_size msg \<or>
              dt_next_chunk_index d \<noteq> bn_chunk_count msg) protocol_error) (\<lambda>_.
           bindm (call (eng_seal_blob_import (env_engine env) (bn_transfer_id msg))) (\<lambda>_.
           bindm (set_download_phase (bn_transfer_id msg) DownloadReadyForEnd) (\<lambda>_.
           with_transfers (record_download_end msg))))
       | _ \<Rightarrow> raise protocol_error)))"

definition handle_blob_end :: "'e session_env \<Rightarrow> RequestId option \<Rightarrow> WorkspaceBlobEndMessage \<Rightarrow> ('e, unit) fallible" where
  "handle_blob_end env correlated msg =
     bindm (require (blob_end_validate msg)) (\<lambda>_.
     bindm (gets s_workspace_id) (\<lambda>workspace_id.
     bindm (refuse_if (bn_workspace_id msg \<noteq> workspace_id) protocol_error) (\<lambda>_.
     if bn_direction msg = Upload then finish_upload env correlated msg
     else if correlated \<noteq> None then commit_download env correlated
     else seal_download env msg)))"

section \<open>Text frames\<close>

definition handle_body ::
    "'e session_env \<Rightarrow> RequestId option \<Rightarrow> WorkspaceAction \<Rightarrow> MessageBody \<Rightarrow> ('e, unit) fallible" where
  "handle_body env correlated action body =
     (case action of
        ASnapshotBegin \<Rightarrow> (case body of BSnapshotBegin msg \<Rightarrow> handle_snapshot_begin env msg | _ \<Rightarrow> ret ())
      | ASnapshotEntry \<Rightarrow>
          (case body of
             BSnapshotEntry entry \<Rightarrow>
               bindm (call (eng_snapshot_entry (env_engine env) entry)) (\<lambda>cmds. enqueue_replayable_download_commands cmds)
           | _ \<Rightarrow> ret ())
      | ASnapshotEnd \<Rightarrow> (case body of BSnapshotEnd msg \<Rightarrow> handle_snapshot_end env msg | _ \<Rightarrow> ret ())
      | AEvent \<Rightarrow> (case body of BEvent event \<Rightarrow> handle_event env event | _ \<Rightarrow> ret ())
      | AMutationAccepted \<Rightarrow>
          (case body of
             BMutationAccepted msg \<Rightarrow>
               bindm (call (eng_mutation_accepted (env_engine env) msg)) (\<lambda>cmds.
               bindm (complete_response correlated) (\<lambda>_. enqueue_commands cmds))
           | _ \<Rightarrow> ret ())
      | AMutationRejected \<Rightarrow>
          (case body of
             BMutationRejected msg \<Rightarrow>
               bindm (call (eng_mutation_rejected (env_engine env) msg)) (\<lambda>cmds.
               bindm (complete_response correlated) (\<lambda>_. enqueue_commands cmds))
           | _ \<Rightarrow> ret ())
      | AConflictCreated \<Rightarrow> (case body of BConflictCreated msg \<Rightarrow> handle_conflict_created env msg | _ \<Rightarrow> ret ())
      | AConflictResolved \<Rightarrow>
          (case body of BConflictResolved msg \<Rightarrow> handle_conflict_resolved env correlated msg | _ \<Rightarrow> ret ())
      | AAck \<Rightarrow> (case body of BAck msg \<Rightarrow> handle_ack env correlated msg | _ \<Rightarrow> ret ())
      | ABlobNeed \<Rightarrow>
          (case body of
             BBlobNeedUploadPush need \<Rightarrow> handle_need_upload need
           | BBlobNeedDownloadResponse resp \<Rightarrow> handle_need_download_response correlated resp
           | _ \<Rightarrow> ret ())
      | ABlobBegin \<Rightarrow> (case body of BBlobBegin msg \<Rightarrow> handle_blob_begin env correlated msg | _ \<Rightarrow> ret ())
      | ABlobEnd \<Rightarrow> (case body of BBlobEnd msg \<Rightarrow> handle_blob_end env correlated msg | _ \<Rightarrow> ret ())
      | AHello \<Rightarrow> raise protocol_error
      | ASubscribe \<Rightarrow> raise protocol_error
      | AMutation \<Rightarrow> raise protocol_error)"

text \<open>
  A request envelope cannot come from the decoder of server frames; the actions that reject it do so
  whatever the envelope is, the others ignore it.
\<close>

definition handle_request_envelope :: "WorkspaceAction \<Rightarrow> ('e, unit) fallible" where
  "handle_request_envelope action =
     (if action = AHello \<or> action = ASubscribe \<or> action = AMutation then raise protocol_error else ret ())"

definition handle_text_frame :: "'e session_env \<Rightarrow> u8 list \<Rightarrow> ('e, unit) fallible" where
  "handle_text_frame env data =
     bindm (require (decode_server_text_frame (env_lib env) data)) (\<lambda>decoded.
     bindm (if df_flow decoded = ServerResponse
            then bindm (on_requests (tracker_validate decoded)) (\<lambda>i. ret (Some i))
            else ret None) (\<lambda>correlated.
     bindm (gets (\<lambda>s. case correlated of None \<Rightarrow> False | Some i \<Rightarrow> is_completed i (s_requests s))) (\<lambda>repeated.
     if repeated then ret ()
     else
       (case df_envelope decoded of
          Failure _ e \<Rightarrow> handle_failure env correlated e
        | Success _ body \<Rightarrow> handle_body env correlated (df_action decoded) body
        | Request _ _ \<Rightarrow> handle_request_envelope (df_action decoded)))))"

section \<open>Timers\<close>

definition min_deadline :: "nat \<Rightarrow> nat option \<Rightarrow> nat" where
  "min_deadline d other = (case other of None \<Rightarrow> d | Some o' \<Rightarrow> min d o')"

definition pending_deadline :: "SessionLimits \<Rightarrow> PendingDownload \<Rightarrow> nat" where
  "pending_deadline limits p =
     min (pd_started_at p + sl_transfer_max_lifetime limits) (pd_last_progress_at p + sl_transfer_idle_timeout limits)"

definition next_deadline :: "'e session \<Rightarrow> nat" where
  "next_deadline s =
     (let limits = s_limits s;
          deadline = s_last_inbound_at s + sl_idle_timeout limits;
          deadline = min_deadline deadline (tracker_next_deadline (sl_request_timeout limits) (s_requests s));
          deadline = min_deadline deadline (s_subscribe_deadline s);
          deadline = min_deadline deadline
            (table_next_deadline (sl_transfer_idle_timeout limits) (sl_transfer_max_lifetime limits) (s_transfers s))
      in min_deadline deadline (first_min id (map (pending_deadline limits) (s_pending_downloads s))))"

definition pending_expired :: "SessionLimits \<Rightarrow> nat \<Rightarrow> PendingDownload \<Rightarrow> bool" where
  "pending_expired limits now p =
     (now - pd_started_at p \<ge> sl_transfer_max_lifetime limits \<or>
      now - pd_last_progress_at p \<ge> sl_transfer_idle_timeout limits)"

definition expired_error :: "'e session_env \<Rightarrow> nat \<Rightarrow> 'e session \<Rightarrow> TransportError option" where
  "expired_error env now s =
     (let limits = s_limits s in
      if tracker_expired (env_request_order env) now (sl_request_timeout limits) (s_requests s) \<noteq> None \<or>
         (case s_subscribe_deadline s of None \<Rightarrow> False | Some deadline \<Rightarrow> now \<ge> deadline)
      then Some \<lparr>te_code = RequestTimeout, te_retryable = True\<rparr>
      else if table_expired (env_order env) now (sl_transfer_idle_timeout limits) (sl_transfer_max_lifetime limits)
           (s_transfers s) \<noteq> None \<or> list_ex (pending_expired limits now) (s_pending_downloads s)
      then Some \<lparr>te_code = TransferTimeout, te_retryable = True\<rparr>
      else if now - s_last_inbound_at s \<ge> sl_idle_timeout limits
      then Some \<lparr>te_code = IdleTimeout, te_retryable = True\<rparr>
      else None)"

section \<open>The event loop\<close>

datatype SessionResult = Closed | SessionError TransportError

datatype session_event =
    Shutdown | DeadlineElapsed | DrainTick | HeartbeatTick
  | InboundItem "(InboundMessage, TransportError) result option"

text \<open>One turn of the loop: the session ends with a result, or goes on.\<close>

definition finish :: "('e, unit) fallible \<Rightarrow> 'e session \<Rightarrow> SessionResult option \<times> 'e session" where
  "finish m s =
     (case m s of
        (Err e, s) \<Rightarrow> (Some (SessionError e), s)
      | (Ok _, s) \<Rightarrow> (None, snd (publish_runtime_status s)))"

definition network_failure :: "('e, unit) fallible \<Rightarrow> ('e, unit) fallible" where
  "network_failure m = (\<lambda>s. case m s of (Ok v, s) \<Rightarrow> (Ok v, s) | (Err _, s) \<Rightarrow> (Err network_error, s))"

definition loop_turn :: "'e session_env \<Rightarrow> session_event \<Rightarrow> 'e session \<Rightarrow> SessionResult option \<times> 'e session" where
  "loop_turn env event s =
     (case event of
        Shutdown \<Rightarrow> (Some Closed, s)
      | DeadlineElapsed \<Rightarrow>
          (case expired_error env (s_now s) s of
             Some e \<Rightarrow> (Some (SessionError e), s)
           | None \<Rightarrow> (None, snd (publish_runtime_status s)))
      | DrainTick \<Rightarrow> finish (drain_outbound env) s
      | HeartbeatTick \<Rightarrow> finish (network_failure (send_ping env [0])) s
      | InboundItem item \<Rightarrow>
          (let s = s\<lparr>s_last_inbound_at := s_now s\<rparr> in
           case item of
             None \<Rightarrow> (Some Closed, s)
           | Some (Err e) \<Rightarrow> (Some (SessionError e), s)
           | Some (Ok InClose) \<Rightarrow> (Some Closed, s)
           | Some (Ok (InPing data)) \<Rightarrow> finish (network_failure (send_pong env data)) s
           | Some (Ok (InText data)) \<Rightarrow> finish (handle_text_frame env data) s
           | Some (Ok (InBinary data)) \<Rightarrow> finish (handle_binary_frame env data) s
           | Some (Ok (InPong _)) \<Rightarrow> finish (ret ()) s))"

text \<open>The loop over the events of a run, each with the time at which it is handled.\<close>

fun session_loop :: "'e session_env \<Rightarrow> (nat \<times> session_event) list \<Rightarrow> 'e session \<Rightarrow> SessionResult option \<times> 'e session" where
  "session_loop env [] s = (None, s)"
| "session_loop env ((now, event) # rest) s =
     (case loop_turn env event (s\<lparr>s_now := now\<rparr>) of
        (Some r, s) \<Rightarrow> (Some r, s)
      | (None, s) \<Rightarrow> session_loop env rest s)"

definition run_inner ::
    "'e session_env \<Rightarrow> (nat \<times> (InboundMessage, TransportError) result) list \<Rightarrow> (nat \<times> session_event) list \<Rightarrow>
     'e session \<Rightarrow> SessionResult option \<times> 'e session" where
  "run_inner env hello_items events s =
     (case send_hello env hello_items s of
        (Err e, s) \<Rightarrow> (Some (SessionError e), s)
      | (Ok _, s) \<Rightarrow>
          (case send_subscribe env s of
             (Err e, s) \<Rightarrow> (Some (SessionError e), s)
           | (Ok _, s) \<Rightarrow> session_loop env events s))"

text \<open>\<open>None\<close> stands for a run that has not ended after the given events.\<close>

definition run ::
    "'e session_env \<Rightarrow> (nat \<times> (InboundMessage, TransportError) result) list \<Rightarrow> (nat \<times> session_event) list \<Rightarrow>
     'e session \<Rightarrow> SessionResult option \<times> 'e session" where
  "run env hello_items events s =
     (case call (eng_prepare_connection_attempt (env_engine env)) s of
        (Err e, s) \<Rightarrow> (Some (SessionError e), s)
      | (Ok _, s) \<Rightarrow>
          (case run_inner env hello_items events s of
             (None, s) \<Rightarrow> (None, s)
           | (Some r, s) \<Rightarrow>
               (case call (eng_abort_blob_imports (env_engine env)) s of
                  (Ok _, s) \<Rightarrow> (Some r, s)
                | (Err e, s) \<Rightarrow> (Some (SessionError e), s))))"

end
