(* ===== verification/Transport_Invariant.thy ===== *)
theory Transport_Invariant
  imports Transport_Inbound
begin

text \<open>
  The invariant of a session and its preservation by every method. The proofs use a small calculus of
  weakest preconditions for the methods: \<open>wp m Q E s\<close> says that \<open>m\<close>, started in \<open>s\<close>, returns a value
  and a session that satisfy \<open>Q\<close>, or fails in a session that satisfies \<open>E\<close>.
\<close>

section \<open>Weakest preconditions\<close>

definition wp :: "('e, 'a) fallible \<Rightarrow> ('a \<Rightarrow> 'e session \<Rightarrow> bool) \<Rightarrow> ('e session \<Rightarrow> bool) \<Rightarrow> 'e session \<Rightarrow> bool" where
  "wp m Q E s = (case m s of (Ok v, s') \<Rightarrow> Q v s' | (Err _, s') \<Rightarrow> E s')"

named_theorems wp_simps \<open>weakest preconditions of the building blocks\<close>

lemma wp_ret [wp_simps]: "wp (ret v) Q E = Q v"
  by (simp add: fun_eq_iff wp_def ret_def)

lemma wp_raise [wp_simps]: "wp (raise e) Q E = E"
  by (simp add: fun_eq_iff wp_def raise_def)

lemma wp_bindm [wp_simps]: "wp (bindm m f) Q E s = wp m (\<lambda>v. wp (f v) Q E) E s"
  by (simp add: wp_def bindm_def split: prod.split result.split)

lemma wp_gets [wp_simps]: "wp (gets f) Q E s = Q (f s) s"
  by (simp add: wp_def gets_def)

lemma wp_modify [wp_simps]: "wp (modify f) Q E s = Q () (f s)"
  by (simp add: wp_def modify_def)

lemma wp_refuse_if [wp_simps]: "wp (refuse_if c e) Q E s = (if c then E s else Q () s)"
  by (simp add: refuse_if_def wp_simps)

lemma wp_lift_result [wp_simps]: "wp (lift_result r) Q E s = (case r of Ok v \<Rightarrow> Q v s | Err _ \<Rightarrow> E s)"
  by (simp add: wp_def lift_result_def split: result.split)

lemma wp_require [wp_simps]: "wp (require r) Q E s = (case r of Ok v \<Rightarrow> Q v s | Err _ \<Rightarrow> E s)"
  by (cases r) (simp_all add: require_def wp_simps)

lemma wp_with_transfers [wp_simps]: "wp (with_transfers f) Q E s = Q () (s\<lparr>s_transfers := f (s_transfers s)\<rparr>)"
  by (simp add: with_transfers_def wp_simps)

lemma wp_on_transfers [wp_simps]:
  "wp (on_transfers f) Q E s =
     (case f (s_transfers s) of (t, Ok v) \<Rightarrow> Q v (s\<lparr>s_transfers := t\<rparr>) | (t, Err _) \<Rightarrow> E (s\<lparr>s_transfers := t\<rparr>))"
  by (simp add: wp_def on_transfers_def split: prod.split result.split)

lemma wp_on_requests [wp_simps]:
  "wp (on_requests f) Q E s =
     (case f (s_requests s) of (t, Ok v) \<Rightarrow> Q v (s\<lparr>s_requests := t\<rparr>) | (t, Err _) \<Rightarrow> E (s\<lparr>s_requests := t\<rparr>))"
  by (simp add: wp_def on_requests_def split: prod.split result.split)

lemma wp_call [wp_simps]:
  "wp (call f) Q E s =
     (case f (s_engine s) of (Ok v, e) \<Rightarrow> Q v (s\<lparr>s_engine := e\<rparr>) | (Err _, e) \<Rightarrow> E (s\<lparr>s_engine := e\<rparr>))"
  by (simp add: wp_def call_def split: prod.split result.split)

lemma wp_taking [wp_simps]:
  "wp (taking f) Q E s = (case f (s_transfers s) of (t, v) \<Rightarrow> Q v (s\<lparr>s_transfers := t\<rparr>))"
  by (simp add: taking_def wp_simps split: prod.split)

lemma wp_if [wp_simps]: "wp (if c then m else n) Q E s = (if c then wp m Q E s else wp n Q E s)"
  by simp

lemma wp_mono: "wp m Q E s \<Longrightarrow> (\<And>v s'. Q v s' \<Longrightarrow> Q' v s') \<Longrightarrow> (\<And>s'. E s' \<Longrightarrow> E' s') \<Longrightarrow> wp m Q' E' s"
  by (auto simp: wp_def split: prod.splits result.splits)

section \<open>The invariant\<close>

text \<open>No two requests in flight have the same key.\<close>

definition in_flight_key :: "(ExpectedResponse \<Rightarrow> 'k option) \<Rightarrow> RequestTracker \<Rightarrow> RequestId \<Rightarrow> 'k option" where
  "in_flight_key key r i = Option.bind (hm_get (rt_entries r) i) (\<lambda>entry. key (if_expected entry))"

definition unique_in_flight :: "(ExpectedResponse \<Rightarrow> 'k option) \<Rightarrow> RequestTracker \<Rightarrow> bool" where
  "unique_in_flight key r \<longleftrightarrow>
     (\<forall>i j k. in_flight_key key r i = Some k \<and> in_flight_key key r j = Some k \<longrightarrow> i = j)"

definition ack_key :: "ExpectedResponse \<Rightarrow> unit option" where
  "ack_key e = map_option (\<lambda>_. ()) (expected_ack_revision e)"

definition download_key :: "ExpectedResponse \<Rightarrow> (WorkspaceContentHash \<times> u64) option" where
  "download_key e = map_option (\<lambda>(h, sz, _). (h, sz)) (download_identity e)"

definition in_flight_inv :: "RequestTracker \<Rightarrow> bool" where
  "in_flight_inv r \<longleftrightarrow> unique_in_flight mutation_operation_id r \<and> unique_in_flight conflict_operation_id r \<and>
     unique_in_flight ack_key r \<and> unique_in_flight download_key r"

definition session_inv :: "'e session_env \<Rightarrow> 'e session \<Rightarrow> bool" where
  "session_inv env s \<longleftrightarrow>
     table_inv (env_blake3 env) (s_transfers s) \<and> max_active (s_transfers s) = MAX_SESSION_TRANSFERS \<and>
     active_count (s_transfers s) + length (s_pending_downloads s) \<le> MAX_SESSION_TRANSFERS \<and>
     tracker_inv (s_requests s) \<and> in_flight_inv (s_requests s) \<and>
     length (s_pending_outbound s) \<le> sl_pending_outbound_capacity (s_limits s) \<and>
     length (s_deferred_events s) \<le> sl_deferred_event_capacity (s_limits s)"

text \<open>
  What the session relies on: the order in which a hash map is visited is some order of its entries,
  a BLAKE3 hash has 32 bytes, and the UUID library parses what it prints.
\<close>

definition env_ok :: "'e session_env \<Rightarrow> bool" where
  "env_ok env \<longleftrightarrow> (\<forall>xs. set (env_order env xs) = set xs) \<and> (\<forall>xs. set (env_request_order env xs) = set xs) \<and>
     (\<forall>q. length (env_blake3 env q) = 32) \<and> uuid_law (env_uuid env)"

section \<open>Methods that keep a predicate\<close>

definition kept :: "('e session \<Rightarrow> bool) \<Rightarrow> ('e, 'a) fallible \<Rightarrow> bool" where
  "kept I m \<longleftrightarrow> (\<forall>s. I s \<longrightarrow> wp m (\<lambda>_. I) I s)"

abbreviation keeps :: "'e session_env \<Rightarrow> ('e, 'a) fallible \<Rightarrow> bool" where
  "keeps env m \<equiv> kept (session_inv env) m"

named_theorems keeps_intros \<open>methods that keep a predicate\<close>

lemma keepsI: "(\<And>s. I s \<Longrightarrow> wp m (\<lambda>_. I) I s) \<Longrightarrow> kept I m"
  by (simp add: kept_def)

lemma keepsD: "kept I m \<Longrightarrow> I s \<Longrightarrow> wp m (\<lambda>_. I) I s"
  by (simp add: kept_def)

lemma keeps_snd: "kept I m \<Longrightarrow> I s \<Longrightarrow> I (snd (m s))"
  using keepsD [of I m s] by (cases "m s"; cases "fst (m s)") (simp_all add: wp_def)

lemma keeps_ret [keeps_intros]: "kept I (ret v)"
  by (simp add: kept_def wp_simps)

lemma keeps_raise [keeps_intros]: "kept I (raise e)"
  by (simp add: kept_def wp_simps)

lemma keeps_bindm [keeps_intros]: "kept I m \<Longrightarrow> (\<And>v. kept I (f v)) \<Longrightarrow> kept I (bindm m f)"
  by (auto simp: kept_def wp_simps intro: wp_mono)

lemma keeps_gets [keeps_intros]: "kept I (gets f)"
  by (simp add: kept_def wp_simps)

lemma keeps_refuse_if [keeps_intros]: "kept I (refuse_if c e)"
  by (simp add: kept_def wp_simps)

lemma keeps_lift_result [keeps_intros]: "kept I (lift_result r)"
  by (simp add: kept_def wp_simps split: result.split)

lemma keeps_require [keeps_intros]: "kept I (require r)"
  by (simp add: kept_def wp_simps split: result.split)

lemma keeps_if [keeps_intros]: "(c \<Longrightarrow> kept I m) \<Longrightarrow> (\<not> c \<Longrightarrow> kept I n) \<Longrightarrow> kept I (if c then m else n)"
  by simp

lemma keeps_option [keeps_intros]:
  "(x = None \<Longrightarrow> kept I m) \<Longrightarrow> (\<And>v. x = Some v \<Longrightarrow> kept I (f v)) \<Longrightarrow> kept I (case x of None \<Rightarrow> m | Some v \<Rightarrow> f v)"
  by (cases x) simp_all

lemma keeps_prod [keeps_intros]: "(\<And>a b. x = (a, b) \<Longrightarrow> kept I (f a b)) \<Longrightarrow> kept I (case x of (a, b) \<Rightarrow> f a b)"
  by (cases x) simp

lemma keeps_modify [keeps_intros]: "(\<And>s. I s \<Longrightarrow> I (f s)) \<Longrightarrow> kept I (modify f)"
  by (simp add: kept_def wp_simps)

lemma keeps_phase [keeps_intros]:
  "(\<And>stream. kept I (f stream)) \<Longrightarrow> kept I m \<Longrightarrow> kept I (case phase of StreamingPhase stream \<Rightarrow> f stream | _ \<Rightarrow> m)"
  by (cases phase) simp_all

lemma keeps_transfer_download [keeps_intros]:
  "(\<And>d. x = Some (ActiveDownload d) \<Longrightarrow> kept I (f d)) \<Longrightarrow> kept I m \<Longrightarrow>
     kept I (case x of Some (ActiveDownload d) \<Rightarrow> f d | _ \<Rightarrow> m)"
  by (simp split: option.split ActiveTransfer.split)

lemma keeps_transfer_upload [keeps_intros]:
  "(\<And>u. x = Some (ActiveUpload u) \<Longrightarrow> kept I (f u)) \<Longrightarrow> kept I m \<Longrightarrow>
     kept I (case x of Some (ActiveUpload u) \<Rightarrow> f u | _ \<Rightarrow> m)"
  by (simp split: option.split ActiveTransfer.split)

lemma wp_on_error [wp_simps]: "wp (on_error m f) Q E s = wp m Q (\<lambda>s. E (f s)) s"
  by (simp add: wp_def on_error_def split: prod.split result.split)

lemma keeps_on_error [keeps_intros]: "kept I m \<Longrightarrow> (\<And>s. I s \<Longrightarrow> I (f s)) \<Longrightarrow> kept I (on_error m f)"
  by (auto simp: kept_def wp_simps intro: wp_mono)

text \<open>
  A predicate that does not look at the engine, the counters, the output, the budget or the published
  status is kept by everything that only changes these.
\<close>

locale frame_predicate =
  fixes I :: "'e session \<Rightarrow> bool"
  assumes engine: "I (s\<lparr>s_engine := e\<rparr>) = I s"
    and drawn: "I (s\<lparr>s_drawn := d\<rparr>) = I s"
    and sent: "I (s\<lparr>s_sent := out\<rparr>) = I s"
    and budget: "I (s\<lparr>s_budget := b\<rparr>) = I s"
    and status: "I (s\<lparr>s_status := st\<rparr>) = I s"
begin

lemma kept_call: "kept I (call f)"
  by (auto simp: kept_def wp_simps engine split: prod.split result.split)

lemma kept_publish: "kept I publish_runtime_status"
  by (simp add: kept_def publish_runtime_status_def wp_simps status split: option.split)

lemma kept_fresh: "kept I (fresh_uuid env)" "kept I (fresh_request_id env)"
  by (simp_all add: kept_def fresh_request_id_def wp_simps wp_def fresh_uuid_def ret_def bindm_def drawn)

lemma kept_socket_send: "kept I (socket_send env m)"
  by (simp add: kept_def wp_def socket_send_def sent)

lemma kept_send:
  "kept I (send_text env d)" "kept I (send_binary env d)" "kept I (send_ping env d)" "kept I (send_pong env d)"
  unfolding send_text_def send_binary_def send_ping_def send_pong_def by (intro keeps_intros kept_socket_send)+

lemma kept_budget: "kept I claim_item" "kept I (reserve_bytes n)"
  by (simp_all add: kept_def wp_def claim_item_def reserve_bytes_def Let_def budget)

lemmas kept_frame = kept_call kept_publish kept_fresh kept_send kept_budget

end

section \<open>Requests in flight\<close>

definition key_free :: "(ExpectedResponse \<Rightarrow> 'k option) \<Rightarrow> ExpectedResponse \<Rightarrow> RequestTracker \<Rightarrow> bool" where
  "key_free key e r \<longleftrightarrow> (\<forall>k i. key e = Some k \<longrightarrow> in_flight_key key r i \<noteq> Some k)"

definition expected_free :: "ExpectedResponse \<Rightarrow> RequestTracker \<Rightarrow> bool" where
  "expected_free e r \<longleftrightarrow> key_free mutation_operation_id e r \<and> key_free conflict_operation_id e r \<and>
     key_free ack_key e r \<and> key_free download_key e r"

lemma unique_in_flight_mono:
  assumes "unique_in_flight key r" "\<And>i k. in_flight_key key r' i = Some k \<Longrightarrow> in_flight_key key r i = Some k"
  shows "unique_in_flight key r'"
  using assms unfolding unique_in_flight_def by blast

lemma unique_in_flight_track:
  assumes "unique_in_flight key r" "key_free key e r" shows "unique_in_flight key (fst (track i e now r))"
  using assms unfolding unique_in_flight_def key_free_def
  by (auto simp: track_def in_flight_key_def hm_get_insert split: if_splits)

lemma in_flight_inv_track: "in_flight_inv r \<Longrightarrow> expected_free e r \<Longrightarrow> in_flight_inv (fst (track i e now r))"
  by (simp add: in_flight_inv_def expected_free_def unique_in_flight_track)

lemma in_flight_inv_mono:
  assumes "in_flight_inv r" "\<And>i. hm_get (rt_entries r') i = None \<or> hm_get (rt_entries r') i = hm_get (rt_entries r) i"
  shows "in_flight_inv r'"
proof -
  have "in_flight_key key r' i = Some k \<Longrightarrow> in_flight_key key r i = Some k" for key :: "ExpectedResponse \<Rightarrow> 'k option" and i k
    using assms(2) [of i] by (auto simp: in_flight_key_def)
  with assms(1) show ?thesis
    unfolding in_flight_inv_def by (meson unique_in_flight_mono in_flight_key_def)
qed

lemma entries_cancel: "hm_get (rt_entries (cancel_unsent i r)) j = None \<or> hm_get (rt_entries (cancel_unsent i r)) j = hm_get (rt_entries r) j"
  by (simp add: cancel_unsent_def hm_get_remove)

lemma entries_validate: "rt_entries (fst (tracker_validate frame r)) = rt_entries r"
  by (simp add: tracker_validate_def split: option.split)

lemma entries_reserve: "rt_entries (fst (reserve_untracked_id i r)) = rt_entries r"
  by (simp add: reserve_untracked_id_def)

lemma entries_trim: "rt_entries (trim_completed r) = rt_entries r"
proof (induction r rule: trim_completed.induct)
  case (1 r)
  then show ?case
    by (cases "rt_completed_order r") (simp_all add: trim_completed.simps [of r])
qed

lemma entries_complete:
  "hm_get (rt_entries (fst (tracker_complete i r))) j = None \<or>
   hm_get (rt_entries (fst (tracker_complete i r))) j = hm_get (rt_entries r) j"
  by (simp add: tracker_complete_def Let_def hm_get_remove entries_trim split: option.split)

lemma in_flight_inv_steps:
  assumes "in_flight_inv r"
  shows "in_flight_inv (cancel_unsent i r)" "in_flight_inv (fst (tracker_validate frame r))"
    "in_flight_inv (fst (reserve_untracked_id i r))" "in_flight_inv (fst (tracker_complete i r))"
  by (rule in_flight_inv_mono [OF assms], simp add: entries_cancel entries_validate entries_reserve entries_complete)+

lemma in_flight_inv_new: "in_flight_inv tracker_new"
  by (simp add: in_flight_inv_def unique_in_flight_def in_flight_key_def tracker_new_def)

text \<open>The queries of the tracker see exactly the requests in flight.\<close>

lemma list_ex_entries:
  assumes "tracker_inv r"
  shows "list_ex (\<lambda>e. key (if_expected (snd e)) = Some k) (rt_entries r) \<longleftrightarrow> (\<exists>i. in_flight_key key r i = Some k)"
proof -
  have "hm_wf (rt_entries r)" using assms by (simp add: tracker_invs)
  then have "(\<exists>i. in_flight_key key r i = Some k) \<longleftrightarrow>
      (\<exists>i entry. (i, entry) \<in> set (rt_entries r) \<and> key (if_expected entry) = Some k)"
    by (simp add: in_flight_key_def Option.bind_eq_Some_conv hm_get_mem)
  then show ?thesis by (simp add: list_ex_iff Bex_def)
qed

lemma has_mutation_iff: "tracker_inv r \<Longrightarrow> has_mutation op r \<longleftrightarrow> (\<exists>i. in_flight_key mutation_operation_id r i = Some op)"
  unfolding has_mutation_def by (rule list_ex_entries)

lemma has_conflict_iff: "tracker_inv r \<Longrightarrow> has_conflict_resolution op r \<longleftrightarrow> (\<exists>i. in_flight_key conflict_operation_id r i = Some op)"
  unfolding has_conflict_resolution_def by (rule list_ex_entries)

lemma has_ack_iff: "tracker_inv r \<Longrightarrow> has_ack_in_flight r \<longleftrightarrow> (\<exists>i. in_flight_key ack_key r i = Some ())"
  unfolding has_ack_in_flight_def list_ex_entries [symmetric]
  by (simp add: ack_key_def)

lemma has_download_iff: "tracker_inv r \<Longrightarrow> has_download h sz r \<longleftrightarrow> (\<exists>i. in_flight_key download_key r i = Some (h, sz))"
  unfolding has_download_def list_ex_entries [symmetric]
  by (intro list_ex_cong) (auto simp: download_key_def split: option.splits prod.splits)

section \<open>Building blocks keep the invariant\<close>

lemma wp_fresh_uuid [wp_simps]: "wp (fresh_uuid env) Q E s = Q (env_fresh env (s_drawn s)) (s\<lparr>s_drawn := Suc (s_drawn s)\<rparr>)"
  by (simp add: wp_def fresh_uuid_def)

lemma wp_fresh_request_id [wp_simps]:
  "wp (fresh_request_id env) Q E s = Q (RequestId (env_fresh env (s_drawn s))) (s\<lparr>s_drawn := Suc (s_drawn s)\<rparr>)"
  by (simp add: fresh_request_id_def wp_simps)

lemma session_inv_frame [simp]:
  "session_inv env (s\<lparr>s_phase := a\<rparr>) = session_inv env s" "session_inv env (s\<lparr>s_engine := b\<rparr>) = session_inv env s"
  "session_inv env (s\<lparr>s_deferred_events_ready := c\<rparr>) = session_inv env s"
  "session_inv env (s\<lparr>s_deferred_until_ack_revision := d\<rparr>) = session_inv env s"
  "session_inv env (s\<lparr>s_refresh_requested := e\<rparr>) = session_inv env s"
  "session_inv env (s\<lparr>s_subscribe_deadline := f\<rparr>) = session_inv env s"
  "session_inv env (s\<lparr>s_last_inbound_at := g\<rparr>) = session_inv env s"
  "session_inv env (s\<lparr>s_status := h\<rparr>) = session_inv env s" "session_inv env (s\<lparr>s_sent := k\<rparr>) = session_inv env s"
  "session_inv env (s\<lparr>s_drawn := l\<rparr>) = session_inv env s" "session_inv env (s\<lparr>s_now := m\<rparr>) = session_inv env s"
  "session_inv env (s\<lparr>s_budget := n\<rparr>) = session_inv env s"
  by (simp_all add: session_inv_def)

definition same_core :: "'e session \<Rightarrow> 'e session \<Rightarrow> bool" where
  "same_core s s' \<longleftrightarrow> s_pending_downloads s' = s_pending_downloads s \<and> s_requests s' = s_requests s \<and>
     s_pending_outbound s' = s_pending_outbound s \<and> s_deferred_events s' = s_deferred_events s \<and> s_limits s' = s_limits s"

lemma session_inv_cong:
  "session_inv env (s\<lparr>s_transfers := t\<rparr>) \<Longrightarrow> s_transfers s' = t \<Longrightarrow> same_core s s' \<Longrightarrow> session_inv env s'"
  by (simp add: session_inv_def same_core_def)

interpretation session_frame: frame_predicate "session_inv env" for env
  by unfold_locales simp_all

lemmas [keeps_intros] = session_frame.kept_frame

lemma keeps_enqueue [keeps_intros]:
  "keeps env (enqueue_commands cs)" "keeps env (enqueue_replayable_download_commands cs)"
  "keeps env (enqueue_front c)" "keeps env (defer_live_message m)"
  by (auto simp: kept_def wp_simps enqueue_commands_def enqueue_replayable_download_commands_def
      enqueue_front_def defer_live_message_def session_inv_def Let_def)

lemma keeps_requests:
  assumes "\<And>r. tracker_inv r \<Longrightarrow> in_flight_inv r \<Longrightarrow> tracker_inv (fst (f r)) \<and> in_flight_inv (fst (f r))"
  shows "keeps env (on_requests f)"
proof (rule keepsI)
  fix s assume "session_inv env s"
  moreover from this have "tracker_inv (fst (f (s_requests s)))" "in_flight_inv (fst (f (s_requests s)))"
    using assms by (simp_all add: session_inv_def)
  ultimately show "wp (on_requests f) (\<lambda>_. session_inv env) (session_inv env) s"
    by (cases "f (s_requests s)") (simp add: wp_simps session_inv_def split: result.split)
qed

lemma keeps_tracker_steps [keeps_intros]:
  "keeps env (on_requests (tracker_validate frame))" "keeps env (on_requests (tracker_complete i))"
  "keeps env (on_requests (reserve_untracked_id i))"
  by (intro keeps_requests conjI tracker_inv_validate tracker_inv_complete tracker_inv_reserve in_flight_inv_steps; assumption)+

lemma keeps_complete_response [keeps_intros]: "keeps env (complete_response i)"
  unfolding complete_response_def by (intro keeps_intros)

lemma keeps_refresh [keeps_intros]: "keeps env (refresh_stream_completion env)"
  unfolding refresh_stream_completion_def Let_def by (intro keeps_intros) simp_all

text \<open>A tracked send needs a request that is not in flight yet; it does not touch the transfers.\<close>

definition same_tables :: "'e session \<Rightarrow> 'e session \<Rightarrow> bool" where
  "same_tables s s' \<longleftrightarrow> s_transfers s' = s_transfers s \<and> s_pending_downloads s' = s_pending_downloads s \<and>
     s_pending_outbound s' = s_pending_outbound s \<and> s_limits s' = s_limits s"

lemma wp_send_text:
  "wp (send_text env d) Q E s \<longleftrightarrow>
     (if utf8_valid d \<and> env_socket_ok env (length (s_sent s)) then Q () (s\<lparr>s_sent := s_sent s @ [SentText d]\<rparr>) else E s)"
  by (simp add: wp_def send_text_def socket_send_def raise_def)

lemma wp_reserve_bytes:
  "wp (reserve_bytes n) Q E s \<longleftrightarrow>
     (if n > bytes_remaining (s_budget s) then Q False s
      else Q True (s\<lparr>s_budget := (s_budget s)\<lparr>bytes_remaining := bytes_remaining (s_budget s) - n\<rparr>\<rparr>))"
  by (simp add: wp_def reserve_bytes_def Let_def)

lemma wp_send_tracked_text:
  assumes "session_inv env s" "expected_free expected (s_requests s)"
  shows "wp (send_tracked_text env i expected frame) (\<lambda>_ s'. session_inv env s' \<and> same_tables s s') (session_inv env) s"
proof -
  obtain r' res where t: "track i expected (s_now s) (s_requests s) = (r', res)" by fastforce
  have inv: "tracker_inv r'" "in_flight_inv r'"
    using assms tracker_inv_track [of "s_requests s" i expected "s_now s"]
      in_flight_inv_track [of "s_requests s" expected i "s_now s"] by (simp_all add: session_inv_def t)
  then have cancelled: "tracker_inv (cancel_unsent i r')" "in_flight_inv (cancel_unsent i r')"
    by (simp_all add: tracker_inv_cancel in_flight_inv_steps)
  have keep: "session_inv env (s\<lparr>s_requests := r\<rparr>)" if "tracker_inv r" "in_flight_inv r" for r
    using assms(1) that by (simp add: session_inv_def)
  note keep [OF inv] keep [OF cancelled]
  then show ?thesis
    using assms(1)
    by (auto simp: send_tracked_text_def wp_simps wp_send_text wp_reserve_bytes t same_tables_def session_inv_def split: result.split)
qed

lemma keeps_send_tracked [keeps_intros]:
  "(\<And>s. session_inv env s \<Longrightarrow> expected_free expected (s_requests s)) \<Longrightarrow> keeps env (send_tracked_text env i expected frame)"
  by (rule keepsI, rule wp_mono, rule wp_send_tracked_text) auto

lemma expected_free_blob [simp]:
  "expected_free ExpectHello r" "expected_free (ExpectBlobBeginUpload b) r" "expected_free (ExpectBlobEndUpload e) r"
  "expected_free (ExpectBlobEndDownload e) r"
  by (simp_all add: expected_free_def key_free_def ack_key_def download_key_def)

section \<open>Transfers\<close>

definition table_step :: "(u8 list \<Rightarrow> u8 list) \<Rightarrow> TransferTable \<Rightarrow> TransferTable \<Rightarrow> bool" where
  "table_step blake3 t t' \<longleftrightarrow> table_inv blake3 t' \<and> active_count t' \<le> active_count t \<and> max_active t' = max_active t"

lemma session_inv_table_step:
  "session_inv env s \<Longrightarrow> table_step (env_blake3 env) (s_transfers s) t \<Longrightarrow> session_inv env (s\<lparr>s_transfers := t\<rparr>)"
  by (simp add: session_inv_def table_step_def)

lemma session_inv_table: "session_inv env s \<Longrightarrow> table_inv (env_blake3 env) (s_transfers s)"
  by (simp add: session_inv_def)

lemma keeps_on_transfers:
  assumes "\<And>t. table_inv (env_blake3 env) t \<Longrightarrow> table_step (env_blake3 env) t (fst (f t))"
  shows "keeps env (on_transfers f)"
proof (rule keepsI)
  fix s assume s: "session_inv env s"
  with assms have "session_inv env (s\<lparr>s_transfers := fst (f (s_transfers s))\<rparr>)"
    by (blast intro: session_inv_table_step session_inv_table)
  then show "wp (on_transfers f) (\<lambda>_. session_inv env) (session_inv env) s"
    by (cases "f (s_transfers s)") (simp add: wp_simps split: result.split)
qed

lemma table_step_refl: "table_inv b t \<Longrightarrow> table_step b t t"
  by (simp add: table_step_def)

lemma table_step_drop: "table_inv b t \<Longrightarrow> table_step b t (t\<lparr>active := hm_remove i (active t)\<rparr>)"
  by (simp add: table_step_def table_inv_drop active_count_def hm_length_remove_le table_inv_wf)

lemma table_step_replace:
  assumes "table_inv b t" "hm_get (active t) i = Some tr" "active_id tr' = i" "transfer_ok b tr'"
  shows "table_step b t (t\<lparr>active := hm_insert i tr' (active t)\<rparr>)"
  using assms table_inv_insert [of b t i tr'] table_inv_lookup [OF assms(1,2)]
  by (simp add: table_step_def active_count_def hm_length_insert table_inv_wf)

lemma table_step_pending:
  assumes "table_inv b t" "pending_inv (t\<lparr>pending_uploads := p\<rparr>)" shows "table_step b t (t\<lparr>pending_uploads := p\<rparr>)"
  using assms by (simp add: table_step_def active_count_def table_inv_def active_inv_def receipts_inv_def)

lemma pending_lookup:
  assumes "table_inv b t" "hm_get (pending_uploads t) op = Some p"
  shows "pu_intent p = Some intent \<Longrightarrow> ui_operation_id intent = op" "pu_need p = Some need \<Longrightarrow> nu_operation_id need = op"
proof -
  have "(op, p) \<in> set (pending_uploads t)" "pending_inv t"
    using assms by (simp_all add: table_inv_def pending_inv_def hm_get_mem)
  then show "pu_intent p = Some intent \<Longrightarrow> ui_operation_id intent = op" "pu_need p = Some need \<Longrightarrow> nu_operation_id need = op"
    by (auto simp: pending_inv_def)
qed

lemma pending_inv_insert:
  assumes "table_inv b t" "\<And>intent. pu_intent p = Some intent \<Longrightarrow> ui_operation_id intent = op"
    "\<And>need. pu_need p = Some need \<Longrightarrow> nu_operation_id need = op"
  shows "pending_inv (t\<lparr>pending_uploads := hm_insert op p (pending_uploads t)\<rparr>)"
proof -
  have "pending_inv t" using assms(1) by (simp add: table_inv_def)
  with assms(2,3) show ?thesis
    by (simp add: pending_inv_def) (rule ball_hm_insert, simp_all)
qed

lemma table_step_intent: "table_inv b t \<Longrightarrow> table_step b t (add_upload_intent intent retry t)"
  unfolding add_upload_intent_def Let_def
  by (intro table_step_pending pending_inv_insert)
     (auto split: option.splits dest: pending_lookup)

lemma table_step_need: "table_inv b t \<Longrightarrow> table_step b t (fst (add_server_need need t))"
proof (cases "case hm_get (pending_uploads t) (nu_operation_id need) of None \<Rightarrow> False | Some existing \<Rightarrow> need_conflicts need existing")
  case False
  assume "table_inv b t"
  with False show ?thesis
    unfolding add_server_need_def Let_def if_not_P [OF False] fst_conv
    by (intro table_step_pending pending_inv_insert) (auto split: option.splits dest: pending_lookup)
qed (simp add: add_server_need_def table_step_refl)

lemma table_step_retry: "table_inv b t \<Longrightarrow> table_step b t (fst (take_pending_retry op t))"
  unfolding take_pending_retry_def fst_conv
  by (rule table_step_pending) (auto simp: table_inv_def pending_inv_def set_hm_remove)

lemma table_step_progress: "table_inv b t \<Longrightarrow> table_step b t (fst (mark_progress i now t))"
  using table_inv_lookup [of b t i]
  by (auto simp: mark_progress_def table_step_refl transfer_ok_def upload_ok_def download_ok_def active_id_def
      intro!: table_step_replace split: option.split ActiveTransfer.split)

lemma table_step_begin_accepted: "table_inv b t \<Longrightarrow> table_step b t (fst (mark_upload_begin_accepted now i t))"
  using table_inv_lookup [of b t i]
  by (auto simp: mark_upload_begin_accepted_def table_step_refl transfer_ok_def upload_ok_def active_id_def
      intro!: table_step_replace split: option.split ActiveTransfer.split)

lemma keeps_table_ops [keeps_intros]:
  "keeps env (on_transfers (add_server_need need))" "keeps env (on_transfers (mark_progress i now))"
  "keeps env (on_transfers (mark_upload_begin_accepted now i))"
  by (rule keeps_on_transfers; simp add: table_step_need table_step_progress table_step_begin_accepted)+

lemma keeps_taking: 
  assumes "\<And>t. table_inv (env_blake3 env) t \<Longrightarrow> table_step (env_blake3 env) t (fst (f t))" shows "keeps env (taking f)"
  unfolding taking_def using assms by (intro keeps_on_transfers) (simp add: case_prod_beta)

lemma keeps_taking_ops [keeps_intros]:
  "keeps env (taking (table_remove i))" "keeps env (taking (take_pending_retry op))"
  by (rule keeps_taking; simp add: table_remove_def table_step_drop table_step_retry)+

lemma keeps_mark_progress [keeps_intros]: "keeps env (mark_transfer_progress i)"
  unfolding mark_transfer_progress_def by (intro keeps_intros)

lemma keeps_with_transfers:
  assumes "\<And>t. table_inv (env_blake3 env) t \<Longrightarrow> table_step (env_blake3 env) t (f t)" shows "keeps env (with_transfers f)"
  using assms by (auto simp: kept_def wp_simps intro: session_inv_table_step session_inv_table)

lemma keeps_with_transfers_ops [keeps_intros]:
  "keeps env (with_transfers (add_upload_intent intent retry))" "keeps env (with_transfers (record_download_end e))"
   apply (rule keeps_with_transfers, simp add: table_step_intent)
  by (rule keeps_with_transfers, simp add: table_step_def table_inv_record record_keeps_active active_count_def)

text \<open>
  An upload that is taken out of the table while it advances: there is room to put it back.
\<close>

definition has_room :: "'e session \<Rightarrow> bool" where
  "has_room s \<longleftrightarrow> active_count (s_transfers s) + length (s_pending_downloads s) < MAX_SESSION_TRANSFERS"

definition carrying :: "'e session_env \<Rightarrow> UploadTransfer \<Rightarrow> 'e session \<Rightarrow> bool" where
  "carrying env u s \<longleftrightarrow> session_inv env s \<and> has_room s \<and> upload_ok (env_blake3 env) u \<and>
     ut_transfer_id u \<in> set (per_connection_ids (s_transfers s))"

lemma carrying_same_tables: "carrying env u s \<Longrightarrow> session_inv env s' \<Longrightarrow> same_tables s s' \<Longrightarrow> carrying env u s'"
  by (simp add: carrying_def same_tables_def has_room_def)

lemma carrying_inv: "carrying env u s \<Longrightarrow> session_inv env s"
  by (simp add: carrying_def)

lemma session_inv_insert:
  assumes "session_inv env s" "has_room s" "active_id tr \<in> set (per_connection_ids (s_transfers s))"
    "transfer_ok (env_blake3 env) tr"
  shows "session_inv env (s\<lparr>s_transfers := (s_transfers s)\<lparr>active := hm_insert (active_id tr) tr (active (s_transfers s))\<rparr>\<rparr>)"
proof -
  let ?t = "s_transfers s"
  have inv: "table_inv (env_blake3 env) ?t" and max: "max_active ?t = MAX_SESSION_TRANSFERS"
    using assms(1) by (simp_all add: session_inv_def)
  have "table_inv (env_blake3 env) (?t\<lparr>active := hm_insert (active_id tr) tr (active ?t)\<rparr>)"
    using assms inv max by (intro table_inv_insert) (auto simp: has_room_def active_count_def)
  moreover have "length (hm_insert (active_id tr) tr (active ?t)) \<le> Suc (length (active ?t))"
    using table_inv_wf [OF inv] by (simp add: hm_length_insert)
  ultimately show ?thesis
    using assms by (simp add: session_inv_def has_room_def active_count_def)
qed

lemma put_upload_inv: "carrying env u s \<Longrightarrow> session_inv env (s\<lparr>s_transfers := put_upload u (s_transfers s)\<rparr>)"
  using session_inv_insert [of env s "ActiveUpload u"]
  by (simp add: carrying_def put_upload_def active_id_def transfer_ok_def)

lemma take_upload:
  assumes "session_inv env s" "env_ok env" "take_upload_in_phase (env_order env) phase (s_transfers s) = (t, found)"
  shows "session_inv env (s\<lparr>s_transfers := t\<rparr>)"
    and "found = Some u \<Longrightarrow> carrying env u (s\<lparr>s_transfers := t\<rparr>) \<and> ut_phase u = phase"
proof -
  let ?t = "s_transfers s" and ?p = "\<lambda>(_, tr). case tr of ActiveUpload u \<Rightarrow> ut_phase u = phase | _ \<Rightarrow> False"
  have inv: "table_inv (env_blake3 env) ?t" by (rule session_inv_table [OF assms(1)])
  have "t = ?t \<and> found = None \<or>
      (\<exists>i u. hm_get (active ?t) i = Some (ActiveUpload u) \<and> ut_phase u = phase \<and> found = Some u \<and>
         t = ?t\<lparr>active := hm_remove i (active ?t)\<rparr>)"
  proof (cases "find ?p (env_order env (active ?t))")
    case (Some e)
    obtain i tr where e: "e = (i, tr)" by fastforce
    have "e \<in> set (active ?t)" and p: "?p e"
      using Some assms(2) by (auto simp: find_Some_iff env_ok_def) (metis nth_mem)
    then have "hm_get (active ?t) i = Some tr" using e table_inv_wf [OF inv] by (simp add: hm_get_mem)
    with Some e p assms(3) show ?thesis
      by (cases tr) (auto simp: take_upload_in_phase_def)
  qed (use assms(3) in \<open>simp add: take_upload_in_phase_def\<close>)
  then consider "t = ?t" "found = None" | i u where "hm_get (active ?t) i = Some (ActiveUpload u)" "ut_phase u = phase"
      "found = Some u" "t = ?t\<lparr>active := hm_remove i (active ?t)\<rparr>" by blast
  then have "session_inv env (s\<lparr>s_transfers := t\<rparr>) \<and>
      (found = Some u \<longrightarrow> carrying env u (s\<lparr>s_transfers := t\<rparr>) \<and> ut_phase u = phase)"
  proof cases
    case 1
    with assms(1) show ?thesis by simp
  next
    case (2 i v)
    note l = table_inv_lookup [OF inv 2(1)]
    have "length (hm_remove i (active ?t)) < length (active ?t)"
      using table_inv_wf [OF inv] 2(1) by (cases "active ?t") (auto simp: hm_length_remove)
    then have "has_room (s\<lparr>s_transfers := t\<rparr>)"
      using assms(1) 2(4) by (simp add: session_inv_def has_room_def active_count_def)
    moreover have "session_inv env (s\<lparr>s_transfers := t\<rparr>)"
      unfolding 2(4) by (intro session_inv_table_step table_step_drop assms inv)
    ultimately show ?thesis
      using l 2 by (auto simp: carrying_def transfer_ok_def active_id_def)
  qed
  then show "session_inv env (s\<lparr>s_transfers := t\<rparr>)"
    and "found = Some u \<Longrightarrow> carrying env u (s\<lparr>s_transfers := t\<rparr>) \<and> ut_phase u = phase" by blast+
qed

section \<open>Advancing an upload\<close>

lemma encode_owned_length:
  assumes "length (blake3 p) = 32" "encode_binary_frame_owned blake3 d fin t i off p = Ok f"
  shows "length f = BLOB_HEADER_LEN + length p"
proof -
  have "validate_payload_len (length p) = Ok ()" "transfer_uuid t \<noteq> 0"
    using assms(2) by (auto simp: encode_binary_frame_owned_def result_simps)
  with assms encode_binary_frame_owned_eq [of blake3 p t d fin i off] show ?thesis
    by (auto simp: BLOB_HEADER_LEN_def)
qed

lemma wp_verify_uploaded:
  "wp (verify_uploaded env u) Q E s \<longleftrightarrow>
     (if ut_file u = [] \<and> hashed_content (env_blake3 env) (ut_hasher u) = Ok (ut_content_hash u) then Q () s else E s)"
  by (auto simp: verify_uploaded_def wp_simps split: result.split)

text \<open>The upload after a chunk is sent.\<close>

definition chunk_sent :: "UploadTransfer \<Rightarrow> UploadTransfer" where
  "chunk_sent u =
     (let n = next_payload_len (ut_size u) (ut_next_offset u);
          off = ut_next_offset u + word_of_nat n in
      u\<lparr>ut_file := drop n (ut_file u), ut_hasher := ut_hasher u @ take n (ut_file u), ut_next_offset := off,
        ut_next_chunk_index := ut_next_chunk_index u + 1,
        ut_phase := (if off = ut_size u then ReadyForEnd else ut_phase u)\<rparr>)"

lemma upload_ok_chunk_sent:
  assumes "upload_ok blake3 u" "ut_phase u = Streaming" "ut_next_offset u \<noteq> ut_size u"
    and "next_payload_len (ut_size u) (ut_next_offset u) \<le> length (ut_file u)"
    and "ut_next_offset (chunk_sent u) = ut_size u \<Longrightarrow>
      hashed_content blake3 (ut_hasher (chunk_sent u)) = Ok (ut_content_hash u)"
  shows "upload_ok blake3 (chunk_sent u)"
proof -
  let ?n = "next_payload_len (ut_size u) (ut_next_offset u)"
  have prog: "chunk_progress (ut_size u) (ut_next_chunk_index u) (ut_next_offset u)"
    and len: "length (ut_hasher u) = unat (ut_next_offset u)"
    using assms(1) by (simp_all add: upload_ok_def)
  note step = chunk_progress_step [OF prog assms(3) refl]
  have "length (ut_hasher (chunk_sent u)) = unat (ut_next_offset u) + ?n"
    using len assms(4) by (simp add: chunk_sent_def Let_def)
  then show ?thesis
    using step(1,2) assms(2,5) by (auto simp: upload_ok_def chunk_sent_def Let_def)
qed

lemma carrying_update:
  "carrying env u s \<Longrightarrow> upload_ok (env_blake3 env) v \<Longrightarrow> ut_transfer_id v = ut_transfer_id u \<Longrightarrow> carrying env v s"
  by (simp add: carrying_def)

lemma wp_mark_progress_inv:
  "session_inv env s \<Longrightarrow> wp (mark_transfer_progress i) (\<lambda>_. session_inv env) (session_inv env) s"
  by (rule keepsD [OF keeps_mark_progress])

lemma wp_send_binary:
  "wp (send_binary env d) Q E s \<longleftrightarrow>
     (if env_socket_ok env (length (s_sent s)) then Q () (s\<lparr>s_sent := s_sent s @ [SentBinary d]\<rparr>) else E s)"
  by (simp add: wp_def send_binary_def socket_send_def)

lemma carrying_frame [simp]:
  "carrying env u (s\<lparr>s_budget := b\<rparr>) = carrying env u s" "carrying env u (s\<lparr>s_sent := c\<rparr>) = carrying env u s"
  "carrying env u (s\<lparr>s_drawn := d\<rparr>) = carrying env u s"
  by (simp_all add: carrying_def has_room_def)

lemma wp_stream_chunk_sent:
  fixes u :: UploadTransfer
  defines "n \<equiv> next_payload_len (ut_size u) (ut_next_offset u)"
  defines "p \<equiv> take n (ut_file u)" and "final \<equiv> ut_next_offset u + word_of_nat n = ut_size u"
  assumes "can_reserve_bytes (BLOB_HEADER_LEN + n) s" "n \<le> length (ut_file u)"
    and "final \<longrightarrow> drop n (ut_file u) = [] \<and> hashed_content (env_blake3 env) (ut_hasher u @ p) = Ok (ut_content_hash u)"
    and "encode_binary_frame_owned (env_blake3 env) Upload final (ut_transfer_id u) (ut_next_chunk_index u) (ut_next_offset u) p = Ok f"
    and "length f = BLOB_HEADER_LEN + n"
  shows "wp (stream_chunk env u) Q E s \<longleftrightarrow>
    (if env_socket_ok env (length (s_sent s)) then
       wp (mark_transfer_progress (ut_transfer_id u)) Q E
         (s\<lparr>s_budget := (s_budget s)\<lparr>bytes_remaining := bytes_remaining (s_budget s) - length f\<rparr>,
            s_sent := s_sent s @ [SentBinary f], s_transfers := put_upload (chunk_sent u) (s_transfers s)\<rparr>)
     else E (s\<lparr>s_budget := (s_budget s)\<lparr>bytes_remaining := bytes_remaining (s_budget s) - length f\<rparr>\<rparr>))"
proof -
  let ?v = "u\<lparr>ut_file := drop n (ut_file u), ut_hasher := ut_hasher u @ p,
     ut_next_offset := ut_next_offset u + word_of_nat n, ut_next_chunk_index := ut_next_chunk_index u + 1\<rparr>"
  note folds = n_def [symmetric] p_def [symmetric] final_def [symmetric]
  have sent: "chunk_sent u = (if final then ?v\<lparr>ut_phase := ReadyForEnd\<rparr> else ?v)"
    unfolding chunk_sent_def Let_def folds by simp
  show ?thesis
    using assms(4-8) unfolding sent
    by (cases final) (simp_all add: stream_chunk_def Let_def wp_simps wp_verify_uploaded folds wp_reserve_bytes
        wp_send_binary can_reserve_bytes_def)
qed

lemma wp_stream_chunk:
  assumes "carrying env u s" "ut_phase u = Streaming" "env_ok env" "ut_next_offset u \<noteq> ut_size u"
  shows "wp (stream_chunk env u) (\<lambda>_. session_inv env) (session_inv env) s"
proof -
  define n where "n = next_payload_len (ut_size u) (ut_next_offset u)"
  define p where "p = take n (ut_file u)"
  define final where "final = (ut_next_offset u + word_of_nat n = ut_size u)"
  have inv: "session_inv env s" by (rule carrying_inv [OF assms(1)])
  have put_back: "session_inv env (s\<lparr>s_transfers := put_upload u (s_transfers s)\<rparr>)" by (rule put_upload_inv [OF assms(1)])
  note folds = n_def [symmetric] p_def [symmetric] final_def [symmetric]
  show ?thesis
  proof (cases "can_reserve_bytes (BLOB_HEADER_LEN + n) s \<and> n \<le> length (ut_file u) \<and>
      (final \<longrightarrow> drop n (ut_file u) = [] \<and> hashed_content (env_blake3 env) (ut_hasher u @ p) = Ok (ut_content_hash u))")
    case False
    then show ?thesis
      by (auto simp: stream_chunk_def Let_def wp_simps wp_verify_uploaded inv put_back not_less folds)
  next
    case True
    show ?thesis
    proof (cases "encode_binary_frame_owned (env_blake3 env) Upload final (ut_transfer_id u)
        (ut_next_chunk_index u) (ut_next_offset u) p")
      case (Err e)
      with True show ?thesis
        by (simp add: stream_chunk_def Let_def wp_simps wp_verify_uploaded inv folds)
    next
      case (Ok f)
      then have len: "length f = BLOB_HEADER_LEN + n"
        using encode_owned_length [OF _ Ok] assms(3) True by (simp add: env_ok_def p_def min_absorb2)
      let ?v = "u\<lparr>ut_file := drop n (ut_file u), ut_hasher := ut_hasher u @ p,
         ut_next_offset := ut_next_offset u + word_of_nat n, ut_next_chunk_index := ut_next_chunk_index u + 1\<rparr>"
      have sent: "chunk_sent u = (if final then ?v\<lparr>ut_phase := ReadyForEnd\<rparr> else ?v)"
        unfolding chunk_sent_def Let_def folds by simp
      have ok: "upload_ok (env_blake3 env) (chunk_sent u)"
        using assms True by (intro upload_ok_chunk_sent) (auto simp: carrying_def chunk_sent_def Let_def folds)
      have "carrying env (chunk_sent u) (s\<lparr>s_budget := b, s_sent := c\<rparr>)" for b c
        using carrying_update [OF assms(1) ok] by (simp add: sent)
      from put_upload_inv [OF this] have put:
        "session_inv env (s\<lparr>s_budget := b, s_sent := c, s_transfers := put_upload (chunk_sent u) (s_transfers s)\<rparr>)" for b c
        by simp
      have "wp (stream_chunk env u) (\<lambda>_. session_inv env) (session_inv env) s \<longleftrightarrow>
        (if env_socket_ok env (length (s_sent s)) then
           wp (mark_transfer_progress (ut_transfer_id u)) (\<lambda>_. session_inv env) (session_inv env)
             (s\<lparr>s_budget := (s_budget s)\<lparr>bytes_remaining := bytes_remaining (s_budget s) - length f\<rparr>,
                s_sent := s_sent s @ [SentBinary f], s_transfers := put_upload (chunk_sent u) (s_transfers s)\<rparr>)
         else session_inv env s)"
        using wp_stream_chunk_sent [of u s env f "\<lambda>_. session_inv env" "session_inv env"] True Ok len
        unfolding folds by simp
      then show ?thesis
        using inv wp_mark_progress_inv [OF put] by simp
    qed
  qed
qed

lemma wp_advance_streaming:
  assumes "carrying env u s" "ut_phase u = Streaming" "env_ok env"
  shows "wp (advance_streaming env u) (\<lambda>_. session_inv env) (session_inv env) s"
proof (cases "ut_next_offset u = ut_size u")
  case True
  have "session_inv env (s\<lparr>s_transfers := put_upload (u\<lparr>ut_phase := ReadyForEnd\<rparr>) (s_transfers s)\<rparr>)"
    if "hashed_content (env_blake3 env) (ut_hasher u) = Ok (ut_content_hash u)"
    by (rule put_upload_inv, rule carrying_update [OF assms(1)])
      (use assms True that in \<open>simp_all add: carrying_def upload_ok_def\<close>)
  with True assms(1) show ?thesis
    by (simp add: advance_streaming_def wp_simps wp_verify_uploaded carrying_inv)
qed (use wp_stream_chunk [OF assms] in \<open>simp add: advance_streaming_def\<close>)

lemma wp_end_upload:
  assumes "carrying env u s" "ut_phase u = ReadyForEnd"
  shows "wp (end_upload env u) (\<lambda>_. session_inv env) (session_inv env) s"
proof -
  have put: "session_inv env (s'\<lparr>s_transfers := put_upload v (s_transfers s')\<rparr>)"
    if "session_inv env s'" "same_tables s s'" "v = u \<or> v = u\<lparr>ut_phase := AwaitingEndResponse\<rparr>" for s' v
    by (rule put_upload_inv, rule carrying_update [OF carrying_same_tables [OF assms(1) that(1,2)]])
      (use assms that(3) in \<open>auto simp: carrying_def upload_ok_def\<close>)
  have send: "wp (send_tracked_text env i (ExpectBlobEndUpload e) f)
      (\<lambda>_ s'. session_inv env s' \<and> same_tables s s') (session_inv env) (s\<lparr>s_drawn := d\<rparr>)" for i e f d
    by (rule wp_mono, rule wp_send_tracked_text) (use assms in \<open>auto simp: carrying_inv same_tables_def\<close>)
  show ?thesis
    using assms
    by (auto simp: end_upload_def wp_simps carrying_inv split: result.split
        intro!: wp_mono [OF send] wp_mark_progress_inv put)
qed

lemma keeps_advance_upload [keeps_intros]:
  assumes "env_ok env" shows "keeps env (advance_upload env)"
proof (rule keepsI)
  fix s assume s: "session_inv env s"
  obtain t ready where r: "take_upload_ready_for_end (env_order env) (s_transfers s) = (t, ready)" by fastforce
  note ready = take_upload [OF s assms r [unfolded take_upload_ready_for_end_def]]
  show "wp (advance_upload env) (\<lambda>_. session_inv env) (session_inv env) s"
  proof (cases ready)
    case (Some u)
    with ready(2) have "carrying env u (s\<lparr>s_transfers := t\<rparr>)" "ut_phase u = ReadyForEnd" by auto
    with Some r show ?thesis by (simp add: advance_upload_def wp_simps wp_end_upload)
  next
    case None
    obtain t' found where f: "take_streaming_upload (env_order env) t = (t', found)" by fastforce
    have "take_upload_in_phase (env_order env) Streaming (s_transfers (s\<lparr>s_transfers := t\<rparr>)) = (t', found)"
      using f by (simp add: take_streaming_upload_def)
    note streaming = take_upload [OF ready(1) assms this]
    from None r f streaming(1) show ?thesis
      by (auto simp: advance_upload_def wp_simps split: option.split
          intro!: wp_advance_streaming assms streaming(2) [THEN conjunct1, simplified] streaming(2) [THEN conjunct2])
  qed
qed

section \<open>Starting transfers\<close>

lemma keeps_announce_upload: "keeps env (announce_upload env r w i h sz f)"
  unfolding announce_upload_def by (intro keeps_intros) simp

lemma wp_upload_blob:
  assumes "session_inv env s" "has_room s"
  shows "wp (upload_blob env w op h sz) (\<lambda>_. session_inv env) (session_inv env) s"
proof -
  have started: "session_inv env (s'\<lparr>s_transfers := add_upload (upload_new i w op h sz content now) (s_transfers s')\<rparr>)"
    if "session_inv env s'" "has_room s'" "i \<in> set (per_connection_ids (s_transfers s'))" "sz \<le> MAX_BLOB_BYTES"
    for i content now s'
    using session_inv_insert [of env s' "ActiveUpload (upload_new i w op h sz content now)"] that
    by (simp add: add_upload_def active_id_def transfer_ok_def upload_ok_def upload_new_def chunk_progress_start)
  have reserved: "session_inv env (s\<lparr>s_transfers := t\<rparr>) \<and> has_room (s\<lparr>s_transfers := t\<rparr>) \<and>
      (\<forall>i. r = Ok i \<longrightarrow> i \<in> set (per_connection_ids t))"
    if "reserve_slot u (s_transfers s) = (t, r)" for u t r
  proof -
    obtain t1 r1 where r1: "reserve_transfer (TransferId u) (s_transfers s) = (t1, r1)" by fastforce
    with that have "t1 = t" "r = Ok i \<Longrightarrow> r1 = Ok () \<and> i = TransferId u" for i
      by (auto simp: reserve_slot_def split: result.splits)
    with table_inv_reserve [OF session_inv_table [OF assms(1)] r1] assms r1 show ?thesis
      by (auto simp: session_inv_def has_room_def active_count_def reserve_transfer_def split: if_splits)
  qed
  have res: "session_inv env s'"
    if "reserve_slot u (s_transfers s) = (t, r)" "s_transfers s' = t" "same_core s s'" for u t r s'
    using session_inv_cong [OF _ that(2,3)] reserved [OF that(1)] by blast
  have ins: "session_inv env s'"
    if "reserve_slot u (s_transfers s) = (t, Ok i)" "sz \<le> MAX_BLOB_BYTES"
      "s_transfers s' = add_upload (upload_new i w op h sz content now) t" "same_core s s'" for u t i content now s'
  proof (rule session_inv_cong [OF _ that(3,4)])
    show "session_inv env (s\<lparr>s_transfers := add_upload (upload_new i w op h sz content now) t\<rparr>)"
      using started [of "s\<lparr>s_transfers := t\<rparr>" i content now] reserved [OF that(1)] that(2) by simp
  qed
  show ?thesis
    using assms
    by (auto simp: upload_blob_def wp_simps not_less split: result.split
        intro!: keepsD [OF keeps_announce_upload])
      (erule ins, simp, simp, simp add: same_core_def | erule res, simp, simp add: same_core_def)+
qed

section \<open>Commands and the drain\<close>

lemma expected_free_guards:
  assumes "tracker_inv r"
  shows "\<not> has_mutation op r \<Longrightarrow> expected_free (ExpectMutation w c op) r"
    and "\<not> has_conflict_resolution (rq_operation_id q) r \<Longrightarrow> expected_free (ExpectConflictResolved q) r"
    and "\<not> has_ack_in_flight r \<Longrightarrow> expected_free (ExpectAck a) r"
    and "\<not> has_download h sz r \<Longrightarrow> expected_free (ExpectBlobNeedDownload w op' h sz) r"
  using assms
  by (simp_all add: expected_free_def key_free_def ack_key_def download_key_def has_mutation_iff has_conflict_iff
      has_ack_iff has_download_iff)

lemma session_inv_tracker: "session_inv env s \<Longrightarrow> tracker_inv (s_requests s)"
  by (simp add: session_inv_def)

lemma wp_send_request_or_defer:
  assumes "session_inv env s" "expected_free expected (s_requests s)"
  shows "wp (send_request_or_defer env action body expected command) (\<lambda>_. session_inv env) (session_inv env) s"
proof -
  have "wp (send_tracked_text env i expected f) (\<lambda>_. session_inv env) (session_inv env) (s\<lparr>s_drawn := d\<rparr>)" for i f d
    by (rule wp_mono, rule wp_send_tracked_text) (use assms in auto)
  with assms(1) show ?thesis
    by (simp add: send_request_or_defer_def wp_simps split: result.split)
qed

lemma keeps_send_mutation: "keeps env (send_mutation env m)"
  by (rule keepsI) (simp add: send_mutation_def wp_simps wp_send_request_or_defer expected_free_guards session_inv_tracker)

lemma keeps_send_resolution: "keeps env (send_resolution env q)"
  by (rule keepsI)
    (simp add: send_resolution_def wp_simps wp_send_request_or_defer expected_free_guards session_inv_tracker split: result.split)

lemma keeps_send_ack: "keeps env (send_ack env a)"
  by (rule keepsI)
    (auto simp: send_ack_def wp_simps Let_def session_inv_tracker split: result.split
      intro!: wp_send_request_or_defer expected_free_guards)

lemma keeps_send_download: "keeps env (send_download env w op h sz)"
proof (rule keepsI)
  fix s assume s: "session_inv env s"
  show "wp (send_download env w op h sz) (\<lambda>_. session_inv env) (session_inv env) s"
  proof (cases "download_known h sz s \<or> transfer_slots_full s")
    case True
    with s show ?thesis by (simp add: send_download_def wp_simps)
  next
    case False
    then have free: "expected_free (ExpectBlobNeedDownload w None h sz) (s_requests s)"
      by (intro expected_free_guards session_inv_tracker [OF s]) (simp add: download_known_def)
    have send: "wp (send_tracked_text env i (ExpectBlobNeedDownload w None h sz) f)
        (\<lambda>_ s'. session_inv env s' \<and> same_tables s s') (session_inv env) (s\<lparr>s_drawn := d\<rparr>)" for i f d
      by (rule wp_mono, rule wp_send_tracked_text) (use s free in \<open>auto simp: same_tables_def\<close>)
    have added: "session_inv env (s'\<lparr>s_pending_downloads := s_pending_downloads s' @ [p]\<rparr>)"
      if "session_inv env s'" "same_tables s s'" for s' p
      using that False by (simp add: session_inv_def same_tables_def transfer_slots_full_def)
    from False s show ?thesis
      by (auto simp: send_download_def Let_def wp_simps split: result.split intro!: wp_mono [OF send] added)
  qed
qed

lemma keeps_send_upload: "keeps env (send_upload env w op h sz)"
proof (rule keepsI)
  fix s assume "session_inv env s"
  then have s: "session_inv env (s\<lparr>s_transfers := add_upload_intent intent retry (s_transfers s)\<rparr>)" for intent retry
    by (intro session_inv_table_step table_step_intent session_inv_table)
  then show "wp (send_upload env w op h sz) (\<lambda>_. session_inv env) (session_inv env) s"
    by (auto simp: send_upload_def Let_def wp_simps transfer_slots_full_def not_le
        intro!: wp_mono [OF wp_upload_blob] simp: has_room_def)
qed

lemma keeps_send_command [keeps_intros]: "keeps env (send_command env c)"
  by (cases c) (simp_all add: keeps_send_mutation keeps_send_resolution keeps_send_ack keeps_send_download keeps_send_upload)

text \<open>
  A command that is popped and deferred goes back to the front: there is room for it, since nothing
  is queued while it is sent.
\<close>

definition queue_is :: "SyncCommand list \<Rightarrow> SessionLimits \<Rightarrow> 'e session \<Rightarrow> bool" where
  "queue_is q l s \<longleftrightarrow> s_pending_outbound s = q \<and> s_limits s = l"

interpretation queue_frame: frame_predicate "queue_is q l" for q l
  by unfold_locales (simp_all add: queue_is_def)

lemma queue_tables:
  "kept (queue_is q l) (on_transfers f)" "kept (queue_is q l) (on_requests g)" "kept (queue_is q l) (with_transfers h)"
  "kept (queue_is q l) (taking k)"
  unfolding taking_def
  by (auto simp: kept_def wp_simps queue_is_def split: prod.split result.split)

lemmas queue_intros = keeps_intros queue_frame.kept_frame queue_tables

lemma queue_send_tracked: "kept (queue_is q l) (send_tracked_text env i e f)"
  unfolding send_tracked_text_def by (intro queue_intros) (simp_all add: queue_is_def)

lemma queue_request_or_defer: "kept (queue_is q l) (send_request_or_defer env a b e c)"
  unfolding send_request_or_defer_def by (intro queue_intros queue_send_tracked)

lemma queue_upload_blob: "kept (queue_is q l) (upload_blob env w op h sz)"
  unfolding upload_blob_def announce_upload_def mark_transfer_progress_def
  by (intro queue_intros queue_send_tracked)

lemma queue_send_download: "kept (queue_is q l) (send_download env w op h sz)"
  unfolding send_download_def Let_def
  by (intro queue_intros queue_send_tracked) (simp add: queue_is_def)

lemma send_command_queue: "kept (queue_is q l) (send_command env c)"
proof (cases c)
  case (DownloadBlob w op h sz)
  then show ?thesis by (simp add: queue_send_download)
next
  case (UploadBlob w op h sz)
  then show ?thesis
    unfolding UploadBlob send_command.simps send_upload_def Let_def by (intro queue_intros queue_upload_blob)
next
  case (CmdMutation m)
  show ?thesis
    unfolding CmdMutation send_command.simps send_mutation_def by (intro queue_intros queue_request_or_defer)
next
  case (ResolveConflict r)
  show ?thesis
    unfolding ResolveConflict send_command.simps send_resolution_def by (intro queue_intros queue_request_or_defer)
next
  case (SendAck a)
  show ?thesis
    unfolding SendAck send_command.simps send_ack_def Let_def by (intro queue_intros queue_request_or_defer)
qed

lemma wp_conj: "wp m Q E s \<Longrightarrow> wp m Q' E' s \<Longrightarrow> wp m (\<lambda>v s. Q v s \<and> Q' v s) (\<lambda>s. E s \<and> E' s) s"
  by (auto simp: wp_def split: prod.splits result.splits)

lemma wp_send_command:
  assumes "session_inv env s"
  shows "wp (send_command env c) (\<lambda>_ s'. session_inv env s' \<and> queue_is (s_pending_outbound s) (s_limits s) s') (session_inv env) s"
  by (rule wp_mono [OF wp_conj [OF keepsD [OF keeps_send_command assms] keepsD [OF send_command_queue]]])
    (auto simp: queue_is_def)

lemma keeps_send_next: "keeps env continue \<Longrightarrow> keeps env (send_next env continue)"
proof (rule keepsI)
  fix s assume k: "keeps env continue" and s: "session_inv env s"
  show "wp (send_next env continue) (\<lambda>_. session_inv env) (session_inv env) s"
  proof (cases "s_pending_outbound s")
    case (Cons c rest)
    with s have popped: "session_inv env (s\<lparr>s_pending_outbound := rest\<rparr>)" by (simp add: session_inv_def)
    have "session_inv env (s'\<lparr>s_pending_outbound := c' # s_pending_outbound s'\<rparr>)"
      if "session_inv env s'" "queue_is rest (s_limits s) s'" for c' s'
      using that s Cons by (simp add: session_inv_def queue_is_def)
    with Cons show ?thesis
      by (auto simp: send_next_def wp_simps intro!: wp_mono [OF wp_send_command [OF popped]] keepsD [OF k]
          split: CommandSendResult.split)
  qed (use s in \<open>simp add: send_next_def wp_simps\<close>)
qed

lemma keeps_drain_queue_items: "keeps env (drain_queue_items env n)"
  by (induction n) (simp_all add: keeps_ret keeps_bindm keeps_send_next session_frame.kept_budget)

lemma keeps_drain_queue [keeps_intros]: "keeps env (drain_pending_queue env)"
  unfolding drain_pending_queue_def by (intro keeps_intros keeps_drain_queue_items)

lemma keeps_list [keeps_intros]:
  "(xs = [] \<Longrightarrow> kept I m) \<Longrightarrow> (\<And>y ys. xs = y # ys \<Longrightarrow> kept I (f y ys)) \<Longrightarrow> kept I (case xs of [] \<Rightarrow> m | y # ys \<Rightarrow> f y ys)"
  by (cases xs) simp_all

lemma keeps_outcome [keeps_intros]:
  "kept I m \<Longrightarrow> (\<And>c. kept I (f c)) \<Longrightarrow> kept I (case outcome of Consumed \<Rightarrow> m | Deferred c \<Rightarrow> f c)"
  by (cases outcome) simp_all

lemma keeps_deliver [keeps_intros]: "keeps env (deliver_deferred env m)"
  by (cases m) (simp_all add: session_frame.kept_call)

lemma keeps_deliver_next: "keeps env continue \<Longrightarrow> keeps env (deliver_next env continue)"
proof (rule keepsI)
  fix s assume k: "keeps env continue" and s: "session_inv env s"
  have rest: "keeps env (bindm (deliver_deferred env m) (\<lambda>commands.
         bindm (enqueue_replayable_download_commands commands) (\<lambda>_. continue)))" for m
    by (intro keeps_intros k)
  have "session_inv env (s\<lparr>s_deferred_events := r\<rparr>)" if "s_deferred_events s = m # r" for m r
    using s that by (simp add: session_inv_def)
  then show "wp (deliver_next env continue) (\<lambda>_. session_inv env) (session_inv env) s"
    using s keepsD [OF rest] by (simp add: deliver_next_def wp_simps split: list.split)
qed

lemma keeps_drain_deferred: "keeps env (drain_deferred_items env n)"
proof (induction n)
  case (Suc n)
  then show ?case unfolding drain_deferred_items.simps by (intro keeps_intros keeps_deliver_next)
qed (simp add: keeps_ret)

lemma keeps_send_subscribe [keeps_intros]: "keeps env (send_subscribe env)"
  unfolding send_subscribe_def by (intro keeps_intros) simp

lemma keeps_drain_ack: "keeps env (drain_ack env)"
  unfolding drain_ack_def by (intro keeps_intros)

lemma keeps_drain_fetch: "keeps env (drain_fetch env)"
  unfolding drain_fetch_def by (intro keeps_intros)

lemma wp_set_download_phase:
  assumes "session_inv env s" "table_get i (s_transfers s) = Some (ActiveDownload d)" "dt_next_offset d = dt_size d"
  shows "wp (set_download_phase i phase) (\<lambda>_. session_inv env) (session_inv env) s"
proof -
  have get: "hm_get (active (s_transfers s)) i = Some (ActiveDownload d)" using assms(2) by (simp add: table_get_def)
  have "session_inv env (s\<lparr>s_transfers := (s_transfers s)
      \<lparr>active := hm_insert i (ActiveDownload (d\<lparr>dt_phase := phase\<rparr>)) (active (s_transfers s))\<rparr>\<rparr>)"
    using table_inv_lookup [OF session_inv_table [OF assms(1)] get] assms(3)
    by (intro session_inv_table_step [OF assms(1)] table_step_replace [OF session_inv_table [OF assms(1)] get])
      (simp_all add: active_id_def transfer_ok_def download_ok_def)
  with assms(1,2) show ?thesis by (simp add: set_download_phase_def wp_simps)
qed

lemma download_ready:
  assumes "session_inv env s" "env_ok env" "download_ready_for_end (env_order env) (s_transfers s) = Some i"
  obtains d where "table_get i (s_transfers s) = Some (ActiveDownload d)" "dt_next_offset d = dt_size d"
proof -
  let ?t = "s_transfers s"
  obtain tr where mem: "(i, tr) \<in> set (active ?t)" and d: "case tr of ActiveDownload d \<Rightarrow> dt_phase d = DownloadReadyForEnd | _ \<Rightarrow> False"
    using assms(2,3) by (auto simp: download_ready_for_end_def find_Some_iff env_ok_def) (metis nth_mem)
  note inv = session_inv_table [OF assms(1)]
  from mem table_inv_wf [OF inv] have get: "hm_get (active ?t) i = Some tr" by (simp add: hm_get_mem)
  obtain d where "tr = ActiveDownload d" "dt_phase d = DownloadReadyForEnd" using d by (cases tr) auto
  with table_inv_lookup(3) [OF inv get] get that show ?thesis
    by (auto simp: table_get_def transfer_ok_def download_ok_def)
qed

lemma keeps_download_end:
  assumes "env_ok env" shows "keeps env (advance_download_end env)"
proof (rule keepsI)
  fix s assume s: "session_inv env s"
  show "wp (advance_download_end env) (\<lambda>_. session_inv env) (session_inv env) s"
  proof (cases "download_ready_for_end (env_order env) (s_transfers s)")
    case None
    with s show ?thesis by (simp add: advance_download_end_def wp_simps)
  next
    case (Some i)
    from download_ready [OF s assms Some] obtain d where
      d: "table_get i (s_transfers s) = Some (ActiveDownload d)" "dt_next_offset d = dt_size d" .
    have send: "wp (send_tracked_text env r (ExpectBlobEndDownload e) f)
        (\<lambda>_ s'. session_inv env s' \<and> same_tables s s') (session_inv env) (s\<lparr>s_drawn := n\<rparr>)" for r e f n
      by (rule wp_mono, rule wp_send_tracked_text) (use s in \<open>auto simp: same_tables_def\<close>)
    have phase: "wp (set_download_phase i p) (\<lambda>_. session_inv env) (session_inv env) s'"
      if "session_inv env s'" "same_tables s s'" for p s'
      using that d by (intro wp_set_download_phase) (auto simp: same_tables_def)
    from Some s d show ?thesis
      by (auto simp: advance_download_end_def wp_simps Let_def split: result.split
          intro!: wp_mono [OF send] wp_mono [OF phase] wp_mark_progress_inv)
  qed
qed

lemma keeps_drain_outbound: "env_ok env \<Longrightarrow> keeps env (drain_outbound env)"
  unfolding drain_outbound_def with_item_def
  by (intro keeps_intros keeps_drain_ack keeps_drain_fetch keeps_drain_deferred keeps_download_end) simp_all

section \<open>The handshake\<close>

lemma keeps_track_hello: "keeps env (on_requests (track i ExpectHello now))"
  by (intro keeps_requests conjI tracker_inv_track in_flight_inv_track) simp_all

lemma session_inv_cancel: "session_inv env s \<Longrightarrow> session_inv env (s\<lparr>s_requests := cancel_unsent i (s_requests s)\<rparr>)"
  by (simp add: session_inv_def tracker_inv_cancel in_flight_inv_steps)

lemma keeps_hello_request: "keeps env (send_hello_request env)"
  unfolding send_hello_request_def by (intro keeps_intros keeps_track_hello session_inv_cancel)

lemma keeps_envelope [keeps_intros]:
  "(\<And>i b. kept I (f i b)) \<Longrightarrow> (\<And>i e. kept I (g i e)) \<Longrightarrow> (\<And>i b. kept I (h i b)) \<Longrightarrow>
     kept I (case x of Success i b \<Rightarrow> f i b | Failure i e \<Rightarrow> g i e | Request i b \<Rightarrow> h i b)"
  by (cases x) simp_all

lemma keeps_body [keeps_intros]:
  "(\<And>x1. kept I (f1 x1)) \<Longrightarrow> (\<And>x1. kept I (f2 x1)) \<Longrightarrow>
   (\<And>x1. kept I (f3 x1)) \<Longrightarrow> (\<And>x1. kept I (f4 x1)) \<Longrightarrow>
   (\<And>x1. kept I (f5 x1)) \<Longrightarrow> (\<And>x1. kept I (f6 x1)) \<Longrightarrow>
   (\<And>x1. kept I (f7 x1)) \<Longrightarrow> (\<And>x1. kept I (f8 x1)) \<Longrightarrow>
   (\<And>x1. kept I (f9 x1)) \<Longrightarrow> (\<And>x1. kept I (f10 x1)) \<Longrightarrow>
   (\<And>x1. kept I (f11 x1)) \<Longrightarrow> (\<And>x1. kept I (f12 x1)) \<Longrightarrow>
   (\<And>x1. kept I (f13 x1)) \<Longrightarrow> (\<And>x1. kept I (f14 x1)) \<Longrightarrow>
   (\<And>x1. kept I (f15 x1)) \<Longrightarrow> (\<And>x1. kept I (f16 x1)) \<Longrightarrow>
   (\<And>x1. kept I (f17 x1)) \<Longrightarrow> (\<And>x1. kept I (f18 x1)) \<Longrightarrow>
   (\<And>x1. kept I (f19 x1)) \<Longrightarrow>
     kept I (case x of BHelloRequest x1 \<Rightarrow> f1 x1 | BHelloResponse x1 \<Rightarrow> f2 x1 |
       BSubscribeRequest x1 \<Rightarrow> f3 x1 | BSnapshotBegin x1 \<Rightarrow> f4 x1 |
       BSnapshotEntry x1 \<Rightarrow> f5 x1 | BSnapshotEnd x1 \<Rightarrow> f6 x1 |
       BMutation x1 \<Rightarrow> f7 x1 | BMutationAccepted x1 \<Rightarrow> f8 x1 |
       BMutationRejected x1 \<Rightarrow> f9 x1 | BEvent x1 \<Rightarrow> f10 x1 | BAck x1 \<Rightarrow> f11 x1 |
       BBlobNeedDownloadRequest x1 \<Rightarrow> f12 x1 | BBlobNeedDownloadResponse x1 \<Rightarrow> f13 x1 |
       BBlobNeedUploadPush x1 \<Rightarrow> f14 x1 | BBlobBegin x1 \<Rightarrow> f15 x1 |
       BBlobEnd x1 \<Rightarrow> f16 x1 | BConflictCreated x1 \<Rightarrow> f17 x1 |
       BConflictResolvedRequest x1 \<Rightarrow> f18 x1 | BConflictResolved x1 \<Rightarrow> f19 x1)"
  by (cases x) simp_all

lemma keeps_action [keeps_intros]:
  "kept I f1 \<Longrightarrow> kept I f2 \<Longrightarrow> kept I f3 \<Longrightarrow> kept I f4 \<Longrightarrow>
   kept I f5 \<Longrightarrow> kept I f6 \<Longrightarrow> kept I f7 \<Longrightarrow> kept I f8 \<Longrightarrow>
   kept I f9 \<Longrightarrow> kept I f10 \<Longrightarrow> kept I f11 \<Longrightarrow>
   kept I f12 \<Longrightarrow> kept I f13 \<Longrightarrow> kept I f14 \<Longrightarrow> kept I f15 \<Longrightarrow>
     kept I (case x of AHello \<Rightarrow> f1 | ASubscribe \<Rightarrow> f2 | ASnapshotBegin \<Rightarrow> f3 |
       ASnapshotEntry \<Rightarrow> f4 | ASnapshotEnd \<Rightarrow> f5 | AMutation \<Rightarrow> f6 |
       AMutationAccepted \<Rightarrow> f7 | AMutationRejected \<Rightarrow> f8 | AEvent \<Rightarrow> f9 |
       AAck \<Rightarrow> f10 | ABlobNeed \<Rightarrow> f11 | ABlobBegin \<Rightarrow> f12 |
       ABlobEnd \<Rightarrow> f13 | AConflictCreated \<Rightarrow> f14 | AConflictResolved \<Rightarrow> f15)"
  by (cases x) simp_all

lemma keeps_expected [keeps_intros]:
  "kept I f1 \<Longrightarrow> (\<And>x1 x2 x3. kept I (f2 x1 x2 x3)) \<Longrightarrow>
   (\<And>x1. kept I (f3 x1)) \<Longrightarrow> (\<And>x1 x2 x3 x4. kept I (f4 x1 x2 x3 x4)) \<Longrightarrow>
   (\<And>x1. kept I (f5 x1)) \<Longrightarrow> (\<And>x1. kept I (f6 x1)) \<Longrightarrow>
   (\<And>x1. kept I (f7 x1)) \<Longrightarrow> (\<And>x1. kept I (f8 x1)) \<Longrightarrow>
     kept I (case x of ExpectHello \<Rightarrow> f1 | ExpectMutation x1 x2 x3 \<Rightarrow> f2 x1 x2 x3 |
       ExpectAck x1 \<Rightarrow> f3 x1 | ExpectBlobNeedDownload x1 x2 x3 x4 \<Rightarrow> f4 x1 x2 x3 x4 |
       ExpectBlobBeginUpload x1 \<Rightarrow> f5 x1 | ExpectBlobEndUpload x1 \<Rightarrow> f6 x1 |
       ExpectBlobEndDownload x1 \<Rightarrow> f7 x1 | ExpectConflictResolved x1 \<Rightarrow> f8 x1)"
  by (cases x) simp_all

lemma keeps_hello_text: "keeps env (handle_hello_text env data)"
  unfolding handle_hello_text_def by (intro keeps_intros) simp_all

lemma keeps_await_hello: "keeps env (await_hello env items)"
proof (induction env items rule: await_hello.induct)
  case (2 env now item rest)
  show ?case
  proof (cases item)
    case (Ok m)
    have "keeps env (bindm (modify (\<lambda>s. s\<lparr>s_now := now\<rparr>)) (\<lambda>_. handle_hello_text env d))"
      "keeps env (await_hello env rest) \<Longrightarrow> keeps env (bindm (modify (\<lambda>s. s\<lparr>s_now := now, s_last_inbound_at := now\<rparr>)) (\<lambda>_.
          bindm (send_pong env d) (\<lambda>_. await_hello env rest)))" for d
      by (intro keeps_intros keeps_hello_text; simp)+
    with 2 Ok show ?thesis by (cases m) (simp_all add: keeps_raise)
  qed (use 2 in simp)
qed (simp add: keeps_raise)

end
