(* ===== verification/Transport_Example.thy ===== *)
theory Transport_Example
  imports Transport_Inbound
begin

text \<open>
  A concrete connection, evaluated by the simplifier: the handshake, the announcement of one upload,
  its answer and its only chunk. It shows that the model runs, and it is the input of witnesses.
\<close>

section \<open>The environment and the server\<close>

text \<open>A session environment to evaluate on: an engine without content, and a socket that works.\<close>

definition quiet_engine :: "unit engine_ops" where
  "quiet_engine =
     \<lparr>eng_prepare_connection_attempt = (\<lambda>e. (Ok 0, e)), eng_abort_blob_imports = (\<lambda>e. (Ok (), e)),
      eng_cursor = (\<lambda>e. (Ok \<lparr>wc_workspace_id = WorkspaceId 1, wc_client_id = ClientId 2, wc_last_ack_revision = ZERO,
        wc_last_applied_revision = ZERO, wc_pending_ack_revision = None, wc_pending_segment_ack_revision = None\<rparr>, e)),
      eng_active_stream_mode = (\<lambda>e. (Ok None, e)), eng_completed_stream_ack_revision = (\<lambda>e. (Ok None, e)),
      eng_list_conflicts = (\<lambda>e. (Ok [], e)), eng_pending_commands = (\<lambda>n e. (Ok [], e)),
      eng_snapshot_begin = (\<lambda>m e. (Ok (), e)), eng_snapshot_entry = (\<lambda>m e. (Ok [], e)),
      eng_snapshot_end = (\<lambda>m e. (Ok [], e)), eng_workspace_event = (\<lambda>m e. (Ok [], e)),
      eng_mutation_accepted = (\<lambda>m e. (Ok [], e)), eng_mutation_rejected = (\<lambda>m e. (Ok [], e)),
      eng_conflict_created = (\<lambda>m e. (Ok [], e)), eng_conflict_resolved = (\<lambda>m e. (Ok [], e)),
      eng_conflict_resolution_accepted = (\<lambda>m e. (Ok (), e)), eng_conflict_resolution_rejected = (\<lambda>op c e. (Ok [], e)),
      eng_ack_confirmed = (\<lambda>m e. (Ok (), e)), eng_open_blob = (\<lambda>h e. (Ok (Some 2, [7, 9]), e)),
      eng_blob_uploaded = (\<lambda>op e. (Ok (), e)), eng_begin_blob_import = (\<lambda>i h sz e. (Ok (), e)),
      eng_write_blob_chunk = (\<lambda>i d e. (Ok (), e)), eng_seal_blob_import = (\<lambda>i e. (Ok (), e)),
      eng_commit_blob_import = (\<lambda>i e. (Ok [], e))\<rparr>"

definition quiet_env :: "unit session_env" where
  "quiet_env =
     \<lparr>env_engine = quiet_engine, env_lib = sample_lib, env_uuid = raw_uuid_lib,
      env_blake3 = (\<lambda>q. replicate 32 (of_nat (length q))), env_fresh = (\<lambda>n. word_of_nat (Suc n)),
      env_socket_ok = (\<lambda>_. True), env_order = id, env_request_order = id\<rparr>"

text \<open>
  A server to evaluate on, which answers with three frames: the answer to Hello, the need of a blob of
  two bytes, and the answer to the announcement of its upload. The byte after the bar selects the frame.
\<close>

definition demo_hash :: WorkspaceContentHash where
  "demo_hash = WorkspaceContentHash (''blake3:'' @ concat (replicate 32 ''02''))"

definition demo_body :: "u8 \<Rightarrow> MessageBody" where
  "demo_body k =
     (if k = 1 then BHelloResponse \<lparr>hr_protocol_version = ''2'', hr_server_version = ''1'',
        hr_max_control_frame_bytes = 65536, hr_max_binary_chunk_bytes = 1048576, hr_max_blob_bytes = 5368709120,
        hr_max_transfers_per_connection = 4, hr_heartbeat_seconds = 25\<rparr>
      else if k = 2 then BBlobNeedUploadPush \<lparr>nu_workspace_id = WorkspaceId 1, nu_direction = Upload,
        nu_operation_id = OperationId 5, nu_content_hash = demo_hash, nu_size = 2\<rparr>
      else BBlobBegin \<lparr>bb_workspace_id = WorkspaceId 1, bb_transfer_id = TransferId 3, bb_direction = Upload,
        bb_content_hash = demo_hash, bb_size = 2, bb_chunk_size = BLOB_CHUNK_BYTES, bb_chunk_count = 1\<rparr>)"

definition demo_lib :: envelope_lib where
  "demo_lib =
     \<lparr>json_text = (\<lambda>_. Some (JObject [])), body_from_json = (\<lambda>k raw. Some (demo_body (hd raw))),
      body_to_json = (\<lambda>b. Some [0]),
      envelope_from_json = (\<lambda>v. Some \<lparr>we_request_id = (if v = [1] then Present (RequestId 1) else
         if v = [3] then Present (RequestId 4) else Missing), we_status = Present True, we_data = Present v,
         we_error = Missing\<rparr>),
      envelope_to_json = (\<lambda>e. Some [0]), raw_value = (\<lambda>_. True)\<rparr>"

definition demo_env :: "unit session_env" where
  "demo_env = quiet_env\<lparr>env_lib := demo_lib, env_engine := quiet_engine\<lparr>eng_pending_commands :=
     (\<lambda>n e. (Ok [UploadBlob (WorkspaceId 1) (OperationId 5) demo_hash 2], e))\<rparr>\<rparr>"

definition demo_frame :: "string \<Rightarrow> u8 \<Rightarrow> InboundMessage" where
  "demo_frame action k = InText (as_bytes action @ [SEPARATOR, k])"

definition demo_run :: "SessionResult option \<times> unit session" where
  "demo_run = run demo_env [(1, Ok (demo_frame ''WorkspaceHello'' 1))]
     [(2, InboundItem (Some (Ok (demo_frame ''WorkspaceBlobNeed'' 2)))), (3, DrainTick),
      (4, InboundItem (Some (Ok (demo_frame ''WorkspaceBlobBegin'' 3)))), (5, DrainTick)]
     (session_new () (WorkspaceId 1) (ClientId 2) ''1'' default_limits True 0)"

definition demo_chunk :: "u8 list" where
  "demo_chunk = frame_header Upload True (TransferId 3) 0 0 2 (replicate 16 2) @ [7, 9]"

section \<open>Its frames\<close>

lemma demo_parse:
  "parse_text_frame demo_lib (as_bytes (action_as_str a) @ [SEPARATOR, k]) =
     Ok (a, the (envelope_from_json demo_lib [k]))"
proof -
  have "length (action_as_str a) < 100" by (cases a) simp_all
  moreover have "action_from_str (action_as_str a) = Ok a" by (simp add: action_from_str_Ok_iff)
  ultimately show ?thesis
    using valid_action_tokens [of a] token_bytes [OF valid_action_tokens [of a]]
    by (simp add: parse_text_frame_def Let_def takeWhile_separator MAX_CONTROL_FRAME_BYTES_def
        strict_from_slice_def check_duplicates_def demo_lib_def)
qed

lemma demo_hello: "decode_server_text_frame demo_lib (as_bytes ''WorkspaceHello'' @ [SEPARATOR, 1]) =
    Ok \<lparr>df_action = AHello, df_flow = ServerResponse, df_envelope = Success (Some (RequestId 1)) (demo_body 1)\<rparr>"
  and demo_need: "decode_server_text_frame demo_lib (as_bytes ''WorkspaceBlobNeed'' @ [SEPARATOR, 2]) =
    Ok \<lparr>df_action = ABlobNeed, df_flow = ServerPush, df_envelope = Success None (demo_body 2)\<rparr>"
  and demo_begin: "decode_server_text_frame demo_lib (as_bytes ''WorkspaceBlobBegin'' @ [SEPARATOR, 3]) =
    Ok \<lparr>df_action = ABlobBegin, df_flow = ServerResponse, df_envelope = Success (Some (RequestId 4)) (demo_body 3)\<rparr>"
  using demo_parse [of AHello 1] demo_parse [of ABlobNeed 2] demo_parse [of ABlobBegin 3]
  by (simp_all add: decode_server_text_frame_def server_flow_def decode_parsed_frame_def decode_response_def
      decode_push_def decode_data_def ACTION_FLOW_SPECS_def flow_spec_def strict_from_slice_def check_duplicates_def
      demo_lib_def)

lemma demo_encode:
  "body_allowed a ClientRequest body \<Longrightarrow>
   encode_request demo_lib a i body = Ok (as_bytes (action_as_str a) @ [SEPARATOR, 0])"
  by (cases a) (simp_all add: encode_request_def check_body_Ok_iff [THEN iffD2] raw_body_def encode_body_def encode_wire_def Let_def
      MAX_CONTROL_FRAME_BYTES_def demo_lib_def as_bytes_def utf8_valid_ascii)

lemma demo_utf8: "utf8_valid (as_bytes (action_as_str a) @ [SEPARATOR, 0])"
proof -
  have "\<forall>c\<in>set (action_as_str a). is_ascii_alphanumeric c"
    using valid_action_tokens [of a]
    by (auto simp: valid_action_token_def list_all_iff is_ascii_alphanumeric_def split: list.splits)
  then show ?thesis
    by (auto intro!: utf8_valid_ascii alphanumeric_byte(1) simp: as_bytes_def SEPARATOR_def)
qed

section \<open>The run\<close>

lemma demo_fields:
  "env_lib demo_env = demo_lib" "env_order demo_env = id" "env_blake3 demo_env = (\<lambda>q. replicate 32 (of_nat (length q)))"
  "env_fresh demo_env n = word_of_nat (Suc n)" "env_socket_ok demo_env n"
  "eng_prepare_connection_attempt (env_engine demo_env) = (\<lambda>e. (Ok 0, e))"
  "eng_cursor (env_engine demo_env) = eng_cursor quiet_engine"
  "eng_open_blob (env_engine demo_env) = (\<lambda>h e. (Ok (Some 2, [7, 9]), e))"
  "eng_pending_commands (env_engine demo_env) = (\<lambda>n e. (Ok [UploadBlob (WorkspaceId 1) (OperationId 5) demo_hash 2], e))"
  by (simp_all add: demo_env_def quiet_env_def quiet_engine_def)

lemmas monad_defs = bindm_def gets_def ret_def raise_def modify_def require_def lift_result_def on_requests_def on_transfers_def
  on_error_def refuse_if_def with_transfers_def taking_def call_def

lemmas demo_frames = demo_hello demo_need demo_begin demo_frame_def demo_body_def demo_encode
  demo_utf8 [of AHello, simplified] demo_utf8 [of ASubscribe, simplified] demo_utf8 [of ABlobBegin, simplified]
  body_allowed_def ACTION_FLOW_SPECS_def flow_spec_def

lemmas demo_eval = monad_defs fresh_request_id_def fresh_uuid_def send_text_def socket_send_def
  demo_frames demo_fields publish_runtime_status_def connection_phase_def
  hm_insert_def hm_get_def hm_remove_def tracker_new_def track_def trim_completed.simps
  tracker_validate_def tracker_complete_def reserve_untracked_id_def matches_success_def
  BLOB_CHUNK_BYTES_def MAX_BLOB_BYTES_def MAX_IN_FLIGHT_REQUESTS_def MAX_REQUEST_IDS_PER_CONNECTION_def
  MAX_COMPLETED_REQUEST_RECEIPTS_def


lemmas demo_transfer_eval = table_new_def add_server_need_def need_upload_validate_def validate_blob_size_def
  add_upload_intent_def has_matching_upload_def has_active_upload_def active_count_def transfer_slots_full_def
  reserve_slot_def reserve_transfer_def add_upload_def upload_new_def mark_upload_begin_accepted_def
  mark_transfer_progress_def mark_progress_def take_upload_in_phase_def take_streaming_upload_def
  take_upload_ready_for_end_def put_upload_def table_get_def download_ready_for_end_def
  encode_blob_begin_upload_def next_payload_len_def

lemmas demo_session_eval = session_new_def default_limits_def OUTBOUND_QUEUE_CAPACITY_def INBOUND_QUEUE_CAPACITY_def
  MAX_CONTROL_FRAME_BYTES_def BLOB_HEADER_LEN_def MAX_SESSION_TRANSFERS_def
  loop_turn_def finish_def handle_text_frame_def handle_body_def handle_need_upload_def handle_blob_begin_def
  drain_outbound_def needs_reconnect_for_id_limit_def refresh_stream_completion_def budget_new_def with_item_def
  claim_item_def advance_download_end_def advance_upload_def drain_ack_def drain_pending_queue_def drain_queue_items.simps
  drain_fetch_def enqueue_commands_def send_next_def send_upload_def upload_blob_def announce_upload_def
  send_tracked_text_def reserve_bytes_def can_reserve_bytes_def available_slots_def complete_response_def
  advance_streaming_def stream_chunk_def verify_uploaded_def send_binary_def


lemma drain_items_numeral:
  "drain_queue_items env (numeral k) = bindm claim_item (\<lambda>_. send_next env (drain_queue_items env (pred_numeral k)))"
  "drain_deferred_items env (numeral k) =
     bindm (gets s_deferred_events_ready) (\<lambda>ready.
     if \<not> ready then ret ()
     else bindm claim_item (\<lambda>_. deliver_next env (drain_deferred_items env (pred_numeral k))))"
  by (simp_all add: numeral_eq_Suc)

lemma demo_hashed: "hashed_content (\<lambda>q. replicate 32 (word_of_nat (length q))) [7, 9] = Ok demo_hash"
proof -
  have "to_hex (replicate 32 (word_of_nat (length [7, 9 :: u8]))) = concat (replicate 32 ''02'')" by code_simp
  moreover have "content_hash_parse (''blake3:'' @ concat (replicate 32 ''02'')) = Ok demo_hash" by code_simp
  ultimately show ?thesis by (simp add: hashed_content_def)
qed

lemma demo_chunk_encoded:
  "encode_binary_frame_owned (\<lambda>q. replicate 32 (word_of_nat (length q))) Upload True (TransferId 3) 0 0 [7, 9] = Ok demo_chunk"
  using encode_binary_frame_owned_eq [of "\<lambda>q. replicate 32 (word_of_nat (length q))" "[7, 9]" "TransferId 3" Upload True 0 0]
  by (simp add: validate_payload_len_def demo_chunk_def BLOB_CHUNK_BYTES_def)

lemma length_demo_chunk: "length demo_chunk = 66"
  by (simp add: demo_chunk_def)


lemmas demo_run_eval = demo_run_def run_def run_inner_def send_hello_def send_hello_request_def handle_hello_text_def
  hello_response_validate_def send_subscribe_def demo_eval demo_session_eval demo_transfer_eval quiet_engine_def
  Let_def halves_match_def MAX_ACTIVE_TRANSFERS_def drain_items_numeral is_completed_def blob_begin_validate_def
  blob_chunk_count_def MAX_TRANSFER_IDS_PER_CONNECTION_def demo_hashed demo_chunk_encoded length_demo_chunk

lemma demo_run_result:
  "fst demo_run = None"
  "active (s_transfers (snd demo_run)) =
     [(TransferId 3, ActiveUpload
        \<lparr>ut_transfer_id = TransferId 3, ut_workspace_id = WorkspaceId 1, ut_operation_id = OperationId 5,
         ut_content_hash = demo_hash, ut_size = 2, ut_phase = ReadyForEnd, ut_next_chunk_index = 1,
         ut_next_offset = 2, ut_file = [], ut_hasher = [7, 9], ut_started_at = 3, ut_last_progress_at = 5\<rparr>)]"
  "s_sent (snd demo_run) =
     [SentText (as_bytes ''WorkspaceHello'' @ [SEPARATOR, 0]), SentText (as_bytes ''WorkspaceSubscribe'' @ [SEPARATOR, 0]),
      SentText (as_bytes ''WorkspaceBlobBegin'' @ [SEPARATOR, 0]), SentBinary demo_chunk]"
  by (simp_all add: demo_run_eval)

end
