(* ===== verification/Transport_Safety.thy ===== *)
theory Transport_Safety
  imports Transport_Invariant Transport_Example
begin

text \<open>
  Preservation of the session invariant by the inbound handlers and by the event loop, and what it
  means for whole runs: \<open>session_bounded\<close> bounds everything a session holds, whatever the server sends and
  whatever the engine answers.
\<close>

section \<open>Chunks of a download\<close>

lemma accept_chunk_progress:
  assumes "chunk_progress (dt_size d) (dt_next_chunk_index d) (dt_next_offset d)"
    and "accept_chunk header n d = Ok (next_index, next_offset)" "unat (bh_payload_len header) = n"
  shows "n = next_payload_len (dt_size d) (dt_next_offset d)" "dt_next_offset d \<noteq> dt_size d"
    and "next_index = dt_next_chunk_index d + 1" "next_offset = dt_next_offset d + word_of_nat n"
    and "chunk_progress (dt_size d) next_index next_offset" "dt_phase d = Receiving"
    and "bh_offset header = dt_next_offset d" "bh_chunk_index header = dt_next_chunk_index d"
proof -
  have "unat (bh_payload_len header) < 2 ^ LENGTH(32)" by (rule unsigned_less)
  then have n64: "unat (word_of_nat n :: u64) = n"
    using assms(3) by (simp add: unat_of_nat)
  have add: "checked_add (dt_next_offset d) (word_of_nat n) = Some next_offset"
    using assms(2) by (auto simp: accept_chunk_def result_simps Let_def)
  then have off: "unat next_offset = unat (dt_next_offset d) + n" by (simp add: checked_add_Some_iff n64)
  have noff: "next_offset = dt_next_offset d + word_of_nat n"
    using add by (auto simp: checked_add_def split: if_splits)
  have le: "next_offset \<le> dt_size d" and idx: "next_index = dt_next_chunk_index d + 1"
    and seq: "bh_payload_len header \<noteq> 0" "bh_payload_len header \<le> BLOB_CHUNK_BYTES"
      "next_offset = dt_size d \<or> bh_payload_len header = BLOB_CHUNK_BYTES"
    and pos: "bh_offset header = dt_next_offset d" "bh_chunk_index header = dt_next_chunk_index d" "dt_phase d = Receiving"
    using assms(2) by (auto simp: accept_chunk_def result_simps Let_def validate_sequence_def checked_add_def not_less split: if_splits)
  have n: "0 < n" "n \<le> 1048576" "next_offset = dt_size d \<or> n = 1048576"
    using seq assms(3) by (auto simp: word_le_nat_alt unat_chunk_bytes unat_gt_0)
  have "unat next_offset \<le> unat (dt_size d)" using le by (simp add: word_le_nat_alt)
  with off n show eq: "n = next_payload_len (dt_size d) (dt_next_offset d)" and ne: "dt_next_offset d \<noteq> dt_size d"
    by (auto simp: next_payload_len_nat word_le_nat_alt)
  show "chunk_progress (dt_size d) next_index next_offset"
    using chunk_progress_step(1) [OF assms(1) ne eq] by (simp add: idx noff)
qed (use assms(2) in \<open>auto simp: accept_chunk_def result_simps Let_def validate_sequence_def checked_add_def split: if_splits\<close>)

lemma keeps_binary_frame:
  assumes "env_ok env" shows "keeps env (handle_binary_frame env data)"
proof (rule keepsI)
  fix s assume s: "session_inv env s"
  note inv = session_inv_table [OF s]
  have advance: "wp (advance_download i ni no) (\<lambda>_. session_inv env) (session_inv env) (s\<lparr>s_engine := e\<rparr>)"
    if d: "table_get i (s_transfers s) = Some (ActiveDownload d)" "chunk_progress (dt_size d) ni no" "dt_phase d = Receiving"
    for i d ni no e
  proof -
    have get: "hm_get (active (s_transfers s)) i = Some (ActiveDownload d)" using d(1) by (simp add: table_get_def)
    have "table_step (env_blake3 env) (s_transfers s) ((s_transfers s)\<lparr>active := hm_insert i
        (ActiveDownload (d\<lparr>dt_next_chunk_index := ni, dt_next_offset := no\<rparr>)) (active (s_transfers s))\<rparr>)"
      using table_inv_lookup [OF inv get] d
      by (intro table_step_replace [OF inv get]) (simp_all add: active_id_def transfer_ok_def download_ok_def)
    with s have "session_inv env ((s\<lparr>s_engine := e\<rparr>)\<lparr>s_transfers := (s_transfers s)\<lparr>active := hm_insert i
        (ActiveDownload (d\<lparr>dt_next_chunk_index := ni, dt_next_offset := no\<rparr>)) (active (s_transfers s))\<rparr>\<rparr>)"
      by (intro session_inv_table_step) simp_all
    with s d show ?thesis by (simp add: advance_download_def wp_simps)
  qed
  have "wp (case transfer of
       Some (ActiveDownload d) \<Rightarrow>
         bindm (lift_result (accept_chunk header (length payload) d)) (\<lambda>(next_index, next_offset).
         bindm (call (eng_write_blob_chunk (env_engine env) (bh_transfer_id header) (drop BLOB_HEADER_LEN data))) (\<lambda>_.
         bindm (advance_download (bh_transfer_id header) next_index next_offset) (\<lambda>_.
         mark_transfer_progress (bh_transfer_id header))))
     | _ \<Rightarrow> raise protocol_error) (\<lambda>_. session_inv env) (session_inv env) s"
    if dec: "decode_binary_frame (env_uuid env) (env_blake3 env) data = Ok (header, payload)"
      and transfer: "transfer = table_get (bh_transfer_id header) (s_transfers s)" for header payload transfer
  proof (cases "\<exists>d. transfer = Some (ActiveDownload d)")
    case True
    then obtain d where d: "transfer = Some (ActiveDownload d)" by blast
    have prog: "chunk_progress (dt_size d) (dt_next_chunk_index d) (dt_next_offset d)"
      using table_inv_lookup(3) [OF inv, of "bh_transfer_id header" "ActiveDownload d"] d transfer
      by (simp add: table_get_def transfer_ok_def download_ok_def)
    have "header_wf (env_blake3 env) header payload"
      using decode_accepted(2) dec assms by (auto simp: env_ok_def)
    then have len: "unat (bh_payload_len header) = length payload"
      using payload_len_iff [of "bh_payload_len header" payload] by (auto simp: header_wf_def)
    show ?thesis
      using d transfer s
      by (auto simp: wp_simps split: result.split
          dest: accept_chunk_progress [OF prog _ len]
          intro!: wp_mono [OF advance [of _ d]] wp_mark_progress_inv)
  next
    case False
    with s show ?thesis by (auto simp: wp_simps split: option.split ActiveTransfer.split)
  qed
  with s show "wp (handle_binary_frame env data) (\<lambda>_. session_inv env) (session_inv env) s"
    by (auto simp: handle_binary_frame_def wp_simps split: result.split)
qed

section \<open>Other handlers\<close>

lemma keeps_handle_failure [keeps_intros]: "keeps env (handle_failure env i e)"
  unfolding handle_failure_def by (intro keeps_intros) simp

lemma keeps_snapshot_begin [keeps_intros]: "keeps env (handle_snapshot_begin env m)"
  unfolding handle_snapshot_begin_def by (intro keeps_intros) simp_all

lemma keeps_snapshot_end [keeps_intros]: "keeps env (handle_snapshot_end env m)"
  unfolding handle_snapshot_end_def Let_def by (intro keeps_intros) simp_all

lemma keeps_event [keeps_intros]: "keeps env (handle_event env m)"
  unfolding handle_event_def by (intro keeps_intros)

lemma keeps_conflict_created [keeps_intros]: "keeps env (handle_conflict_created env m)"
  unfolding handle_conflict_created_def by (intro keeps_intros)

lemma keeps_conflict_resolved [keeps_intros]: "keeps env (handle_conflict_resolved env i m)"
  unfolding handle_conflict_resolved_def by (intro keeps_intros)

lemma keeps_ack [keeps_intros]: "keeps env (handle_ack env i m)"
  unfolding handle_ack_def by (intro keeps_intros) simp

lemma keeps_need_upload [keeps_intros]: "keeps env (handle_need_upload m)"
  unfolding handle_need_upload_def by (intro keeps_intros)

lemma length_update_first: "update_first p f xs = Some ys \<Longrightarrow> length ys = length xs"
  by (induction xs arbitrary: ys) (auto split: if_splits)

lemma length_take_first: "take_first p xs = Some (y, ys) \<Longrightarrow> length xs = Suc (length ys) \<and> p y"
  by (induction xs arbitrary: ys) (auto split: if_splits)

lemma keeps_need_download [keeps_intros]: "keeps env (handle_need_download_response i m)"
proof (rule keepsI)
  fix s assume s: "session_inv env s"
  have "session_inv env (s\<lparr>s_pending_downloads := ps\<rparr>)" if "update_first p f (s_pending_downloads s) = Some ps" for p f ps
    using s length_update_first [OF that] by (simp add: session_inv_def)
  then show "wp (handle_need_download_response i m) (\<lambda>_. session_inv env) (session_inv env) s"
    using s by (auto simp: handle_need_download_response_def wp_simps split: result.split option.split
        intro!: keepsD [OF keeps_complete_response])
qed

lemma begin_download_inv:
  assumes "session_inv env s" "take_first p (s_pending_downloads s) = Some (pending, rest)"
    and "reserve_transfer i (s_transfers s) = (t, r)"
  shows "session_inv env (s\<lparr>s_pending_downloads := rest, s_transfers := t\<rparr>)"
    and "r = Ok () \<Longrightarrow> sz \<le> MAX_BLOB_BYTES \<Longrightarrow>
      session_inv env (s\<lparr>s_pending_downloads := rest, s_transfers := add_download (download_new_with_progress i w op h sz a b) t\<rparr>)"
proof -
  note inv = session_inv_table [OF assms(1)]
  note res = table_inv_reserve [OF inv assms(3)]
  have len: "length (s_pending_downloads s) = Suc (length rest)" using length_take_first [OF assms(2)] by simp
  have max: "max_active t = max_active (s_transfers s)" using assms(3) by (auto simp: reserve_transfer_def split: if_splits)
  show one: "session_inv env (s\<lparr>s_pending_downloads := rest, s_transfers := t\<rparr>)"
    using assms(1) res(1,2) len max by (simp add: session_inv_def active_count_def)
  let ?d = "download_new_with_progress i w op h sz a b" let ?t = "record_download_begin (dt_begin ?d) t"
  assume r: "r = Ok ()" and sz: "sz \<le> MAX_BLOB_BYTES"
  note keep = record_keeps_active(1-3) [OF res(1), where b = "dt_begin ?d"]
  have "session_inv env (s\<lparr>s_pending_downloads := rest, s_transfers := ?t\<rparr>)"
    using one table_inv_record(1) [OF res(1)] keep by (simp add: session_inv_def active_count_def)
  moreover have "has_room (s\<lparr>s_pending_downloads := rest, s_transfers := ?t\<rparr>)"
    using assms(1) res(2) len keep by (simp add: session_inv_def has_room_def active_count_def)
  ultimately show "session_inv env (s\<lparr>s_pending_downloads := rest, s_transfers := add_download ?d t\<rparr>)"
    using session_inv_insert [of env "s\<lparr>s_pending_downloads := rest, s_transfers := ?t\<rparr>" "ActiveDownload ?d"] res(3) [OF r] keep sz
    by (simp add: add_download_def Let_def active_id_def transfer_ok_def download_ok_def download_new_with_progress_def
        chunk_progress_start)
qed

lemma keeps_begin_download:
  assumes "bb_size m \<le> MAX_BLOB_BYTES" shows "keeps env (begin_download env m)"
proof (rule keepsI)
  fix s assume s: "session_inv env s"
  have popped: "session_inv env s'" if "take_first p (s_pending_downloads s) = Some (x, rest)"
      "reserve_transfer i (s_transfers s) = (t, r)" "s_transfers s' = t"
      "same_core (s\<lparr>s_pending_downloads := rest\<rparr>) s'" for p x rest i t r s'
    by (rule session_inv_cong [OF _ that(3,4)]) (use begin_download_inv(1) [OF s that(1,2)] in simp)
  have started: "session_inv env s'" if "take_first p (s_pending_downloads s) = Some (x, rest)"
      "reserve_transfer i (s_transfers s) = (t, Ok ())"
      "s_transfers s' = add_download (download_new_with_progress i w op h (bb_size m) a b) t"
      "same_core (s\<lparr>s_pending_downloads := rest\<rparr>) s'" for p x rest i t w op h a b s'
    by (rule session_inv_cong [OF _ that(3,4)]) (use begin_download_inv(2) [OF s that(1,2) refl assms] in simp)
  show "wp (begin_download env m) (\<lambda>_. session_inv env) (session_inv env) s"
    using s
    by (auto simp: begin_download_def wp_simps split: result.split option.split prod.split)
      (erule started, assumption, simp, simp add: same_core_def | erule popped, assumption, simp, simp add: same_core_def)+
qed

lemma blob_begin_size: "blob_begin_validate m = Ok () \<Longrightarrow> bb_size m \<le> MAX_BLOB_BYTES"
  by (auto simp: blob_begin_validate_def result_simps validate_blob_size_def split: if_splits)

lemma keeps_blob_begin [keeps_intros]: "keeps env (handle_blob_begin env i m)"
proof (cases "blob_begin_validate m")
  case (Ok u)
  then have "bb_size m \<le> MAX_BLOB_BYTES" by (simp add: blob_begin_size)
  then show ?thesis
    unfolding handle_blob_begin_def by (intro keeps_intros keeps_begin_download)
next
  case (Err e)
  then have "handle_blob_begin env i m = raise protocol_error"
    by (simp add: handle_blob_begin_def fun_eq_iff bindm_def require_def lift_result_def raise_def)
  then show ?thesis by (simp add: keeps_raise)
qed

lemma keeps_finish_upload [keeps_intros]: "keeps env (finish_upload env i m)"
  unfolding finish_upload_def by (intro keeps_intros)

lemma keeps_commit_download [keeps_intros]: "keeps env (commit_download env i)"
  unfolding commit_download_def by (intro keeps_intros)

lemma keeps_seal_download [keeps_intros]: "keeps env (seal_download env m)"
proof (rule keepsI)
  fix s assume s: "session_inv env s"
  have phase: "wp (set_download_phase i ph) (\<lambda>_. session_inv env) (session_inv env) (s\<lparr>s_engine := e\<rparr>)"
    if "table_get i (s_transfers s) = Some (ActiveDownload d)" "dt_next_offset d = dt_size d" for i d ph e
    using s that by (intro wp_set_download_phase) auto
  show "wp (seal_download env m) (\<lambda>_. session_inv env) (session_inv env) s"
    using s
    by (auto simp: seal_download_def wp_simps split: result.split option.split ActiveTransfer.split
        intro!: wp_mono [OF phase] keepsD [OF keeps_with_transfers_ops(2), unfolded wp_simps])
qed

lemma keeps_blob_end [keeps_intros]: "keeps env (handle_blob_end env i m)"
  unfolding handle_blob_end_def by (intro keeps_intros)

lemma keeps_handle_body [keeps_intros]: "keeps env (handle_body env i a b)"
  unfolding handle_body_def by (intro keeps_intros)

lemma keeps_text_frame: "keeps env (handle_text_frame env data)"
  unfolding handle_text_frame_def handle_request_envelope_def by (intro keeps_intros)

section \<open>Runs\<close>

lemma finish_inv: "keeps env m \<Longrightarrow> session_inv env s \<Longrightarrow> session_inv env (snd (finish m s))"
  using keeps_snd [of "session_inv env" m s] keeps_snd [OF session_frame.kept_publish]
  by (auto simp: finish_def split: prod.split result.split)

lemma keeps_network_failure: "keeps env m \<Longrightarrow> keeps env (network_failure m)"
  by (auto simp: kept_def wp_def network_failure_def split: prod.splits result.splits)

lemma loop_turn_inv:
  assumes "env_ok env" "session_inv env s" shows "session_inv env (snd (loop_turn env event s))"
proof (cases event)
  case (InboundItem item)
  have s: "session_inv env (s\<lparr>s_last_inbound_at := s_now s\<rparr>)" using assms(2) by simp
  note handlers = keeps_network_failure [OF session_frame.kept_send(4)] keeps_text_frame keeps_binary_frame [OF assms(1)] keeps_ret
  from InboundItem show ?thesis
    using s handlers [THEN finish_inv, OF s]
    by (simp add: loop_turn_def Let_def split: option.split result.split InboundMessage.split)
qed (use assms keeps_snd [OF session_frame.kept_publish] in
    \<open>auto simp: loop_turn_def intro!: finish_inv keeps_drain_outbound keeps_network_failure session_frame.kept_send
       split: option.split\<close>)

lemma session_loop_inv:
  "env_ok env \<Longrightarrow> session_inv env s \<Longrightarrow> session_inv env (snd (session_loop env events s))"
proof (induction env events s rule: session_loop.induct)
  case (2 env now event rest s)
  then show ?case
    using loop_turn_inv [OF 2(2), of "s\<lparr>s_now := now\<rparr>" event]
    by (auto split: prod.split option.split)
qed simp

lemma run_inv:
  assumes "env_ok env" "session_inv env s" shows "session_inv env (snd (run env hello events s))"
proof -
  have "keeps env (send_hello env items)" for items
    unfolding send_hello_def by (intro keeps_intros keeps_hello_request keeps_await_hello)
  then have inner: "session_inv env (snd (run_inner env hello events s'))" if "session_inv env s'" for s'
    using that assms(1) keeps_snd [of "session_inv env" "send_hello env hello" s']
      keeps_snd [OF keeps_send_subscribe, of env "snd (send_hello env hello s')"]
    by (auto simp: run_inner_def intro!: session_loop_inv split: prod.split result.split)
  obtain r1 s1 where c1: "call (eng_prepare_connection_attempt (env_engine env)) s = (r1, s1)" by fastforce
  obtain r2 s2 where c2: "run_inner env hello events s1 = (r2, s2)" by fastforce
  obtain r3 s3 where c3: "call (eng_abort_blob_imports (env_engine env)) s2 = (r3, s3)" by fastforce
  have s1: "session_inv env s1" using keeps_snd [OF session_frame.kept_call assms(2)] c1 by (metis snd_conv)
  have s2: "session_inv env s2" using inner [OF s1] c2 by simp
  have s3: "session_inv env s3" using keeps_snd [OF session_frame.kept_call s2] c3 by (metis snd_conv)
  show ?thesis
    using s1 s2 s3 by (simp add: run_def c1 c2 c3 split: result.split option.split)
qed

lemma session_inv_new: "session_inv env (session_new e w c v limits observed now)"
  by (simp add: session_inv_def session_new_def table_inv_new tracker_inv_new in_flight_inv_new active_count_def)
    (simp add: table_new_def MAX_SESSION_TRANSFERS_def MAX_ACTIVE_TRANSFERS_def)

lemma card_hm_keys: "hm_wf m \<Longrightarrow> card (set (hm_keys m)) = length m"
  by (metis distinct_card hm_keys_def hm_wf_def length_map)

lemma receipts_bounded:
  assumes "table_inv blake3 t"
  shows "length (download_begin_receipts t) + length (download_end_receipts t) \<le> MAX_COMPLETED_TRANSFER_RECEIPTS"
proof -
  have wf: "hm_wf (download_begin_receipts t)" "hm_wf (download_end_receipts t)"
    and order: "length (receipt_order t) \<le> MAX_COMPLETED_TRANSFER_RECEIPTS"
    using assms by (auto simp: table_inv_def receipts_inv_def)
  let ?b = "(\<lambda>i. (i, True)) ` set (hm_keys (download_begin_receipts t))"
  let ?e = "(\<lambda>i. (i, False)) ` set (hm_keys (download_end_receipts t))"
  have "card ?b = length (download_begin_receipts t)" "card ?e = length (download_end_receipts t)"
    using wf by (simp_all add: card_image inj_on_def card_hm_keys)
  moreover have "?b \<inter> ?e = {}" by auto
  moreover have "?b \<union> ?e \<subseteq> set (receipt_order t)"
    using assms by (auto simp: table_inv_def receipts_inv_def hm_keys_def)
  ultimately have "length (download_begin_receipts t) + length (download_end_receipts t) \<le> card (set (receipt_order t))"
    by (metis card_Un_disjoint card_mono finite_UnI finite_imageI finite_set)
  with order card_length [of "receipt_order t"] show ?thesis by linarith
qed

text \<open>
  C19: Whatever a server sends, in whatever order and at whatever times, and whatever the engine
  answers: a session never has more than two transfers active or requested, never reuses a transfer
  identifier and uses at most 1024, has at most 64 requests in flight and 4096 request identifiers,
  keeps at most 256 receipts of each kind, and its two queues stay within the configured capacities.
\<close>

theorem session_bounded:
  assumes "env_ok env" "s = snd (run env hello events (session_new e w c v limits observed now))"
  shows "length (active (s_transfers s)) + length (s_pending_downloads s) \<le> 2 \<and>
    distinct (per_connection_ids (s_transfers s)) \<and> length (per_connection_ids (s_transfers s)) \<le> 1024 \<and>
    length (download_begin_receipts (s_transfers s)) + length (download_end_receipts (s_transfers s)) \<le> 256 \<and>
    length (rt_entries (s_requests s)) \<le> 64 \<and> card (rt_ids (s_requests s)) \<le> 4096 \<and>
    length (rt_completed (s_requests s)) \<le> 256 \<and>
    length (s_pending_outbound s) \<le> sl_pending_outbound_capacity (s_limits s) \<and>
    length (s_deferred_events s) \<le> sl_deferred_event_capacity (s_limits s)"
proof -
  have inv: "session_inv env s" unfolding assms(2) by (rule run_inv [OF assms(1) session_inv_new])
  then have "table_inv (env_blake3 env) (s_transfers s)" "tracker_inv (s_requests s)" by (simp_all add: session_inv_def)
  with inv receipts_bounded [of "env_blake3 env" "s_transfers s"] show ?thesis
    by (simp add: session_inv_def active_count_def table_inv_def active_inv_def tracker_inv_def entries_inv_def
        length_completed MAX_SESSION_TRANSFERS_def MAX_TRANSFER_IDS_PER_CONNECTION_def
        MAX_COMPLETED_TRANSFER_RECEIPTS_def MAX_IN_FLIGHT_REQUESTS_def MAX_REQUEST_IDS_PER_CONNECTION_def
        MAX_COMPLETED_REQUEST_RECEIPTS_def)
qed

lemma quiet_env_ok: "env_ok quiet_env"
  by (simp add: env_ok_def quiet_env_def raw_uuid_law)

lemma demo_env_ok: "env_ok demo_env"
  using quiet_env_ok by (simp add: env_ok_def demo_env_def)

theorem session_bounded_witness:
  "length (active (s_transfers (snd demo_run))) = 1 \<and> length (s_pending_downloads (snd demo_run)) \<le> 1 \<and>
   length (per_connection_ids (s_transfers (snd demo_run))) \<le> 1024"
  using session_bounded [OF demo_env_ok demo_run_def [THEN arg_cong, of snd]]
  by (simp add: demo_run_result)

lemma unique_inj:
  "unique_in_flight key r \<Longrightarrow> inj_on (in_flight_key key r) (dom (in_flight_key key r))"
  unfolding inj_on_def unique_in_flight_def by (metis domD)

text \<open>
  C20: At any time of any session, two different requests in flight are never for the same mutation,
  the same conflict resolution or the same download, and at most one acknowledgement is in flight.
\<close>

theorem no_duplicate_requests:
  assumes "env_ok env" "r = s_requests (snd (run env hello events (session_new e w c v limits observed now)))"
  shows "inj_on (in_flight_key mutation_operation_id r) (dom (in_flight_key mutation_operation_id r)) \<and>
    inj_on (in_flight_key conflict_operation_id r) (dom (in_flight_key conflict_operation_id r)) \<and>
    inj_on (in_flight_key download_key r) (dom (in_flight_key download_key r)) \<and>
    card (dom (in_flight_key expected_ack_revision r)) \<le> 1"
proof -
  have "session_inv env (snd (run env hello events (session_new e w c v limits observed now)))"
    by (rule run_inv [OF assms(1) session_inv_new])
  then have inv: "in_flight_inv r" by (simp add: session_inv_def assms(2))
  have ack: "in_flight_key ack_key r i = map_option (\<lambda>_. ()) (in_flight_key expected_ack_revision r i)" for i
    by (simp add: in_flight_key_def ack_key_def map_option_bind comp_def)
  have "i = j" if "i \<in> dom (in_flight_key expected_ack_revision r)" "j \<in> dom (in_flight_key expected_ack_revision r)" for i j
    using that inv by (auto simp: in_flight_inv_def unique_in_flight_def ack)
  then have "dom (in_flight_key expected_ack_revision r) = {} \<or> (\<exists>i. dom (in_flight_key expected_ack_revision r) = {i})"
    by blast
  then have "card (dom (in_flight_key expected_ack_revision r)) \<le> 1" by auto
  with inv show ?thesis by (simp add: in_flight_inv_def unique_inj)
qed

theorem no_duplicate_requests_witness:
  "card (dom (in_flight_key expected_ack_revision (s_requests (snd demo_run)))) \<le> 1"
  using no_duplicate_requests [OF demo_env_ok refl] unfolding demo_run_def by blast

end
