(* ===== verification/Transport_Stream.thy ===== *)
theory Transport_Stream
  imports Transport_Safety
begin

text \<open>
  What a transfer carries. A content is cut into chunks of a mebibyte, and the frames of a content are
  one specification for both directions: the drain sends exactly these frames for an upload, one per
  turn, and a download accepts exactly these frames, in this order, and hands their payloads to the
  engine. So a content that one client uploads is the content that another client writes.
\<close>

section \<open>The frames of a content\<close>

definition CHUNK :: nat where "CHUNK = 1048576"

definition content_chunk :: "u8 list \<Rightarrow> nat \<Rightarrow> u8 list" where
  "content_chunk content k = take CHUNK (drop (k * CHUNK) content)"

definition content_frame ::
    "(u8 list \<Rightarrow> u8 list) \<Rightarrow> WorkspaceBlobDirection \<Rightarrow> TransferId \<Rightarrow> u8 list \<Rightarrow> nat \<Rightarrow> u8 list" where
  "content_frame blake3 direction t content k =
     (let payload = content_chunk content k in
      frame_header direction (length content \<le> Suc k * CHUNK) t (word_of_nat k) (word_of_nat (k * CHUNK))
        (word_of_nat (length payload)) (take 16 (blake3 payload)) @ payload)"

definition content_chunks :: "u8 list \<Rightarrow> nat" where
  "content_chunks content = (length content + (CHUNK - 1)) div CHUNK"

lemma CHUNK_pos [simp]: "0 < CHUNK"
  by (simp add: CHUNK_def)

lemma content_chunks_iff: "k < content_chunks content \<longleftrightarrow> k * CHUNK < length content"
proof -
  have "k < content_chunks content \<longleftrightarrow> Suc k * CHUNK \<le> length content + (CHUNK - 1)"
    by (simp only: content_chunks_def Suc_le_eq [symmetric] less_eq_div_iff_mult_less_eq [OF CHUNK_pos])
  then show ?thesis using CHUNK_pos by (simp add: less_eq_Suc_le) linarith
qed

lemma concat_chunks: "concat (map (content_chunk content) [0..<k]) = take (k * CHUNK) content"
  by (induction k) (simp_all add: content_chunk_def take_add [symmetric] add.commute)

lemma concat_content_chunks: "concat (map (content_chunk content) [0..<content_chunks content]) = content"
proof -
  have "length content \<le> content_chunks content * CHUNK"
    using content_chunks_iff [of "content_chunks content" content] by simp
  then show ?thesis by (simp add: concat_chunks)
qed

lemma length_content_chunk: "length (content_chunk content k) = min CHUNK (length content - k * CHUNK)"
  by (simp add: content_chunk_def min.commute)

text \<open>Numbers below the largest blob keep their value as 64-bit words.\<close>

lemma unat_u64_of_nat: "n \<le> 5370000000 \<Longrightarrow> unat (word_of_nat n :: u64) = n"
  by (simp add: unat_of_nat)

section \<open>Uploads\<close>

text \<open>The upload has sent the first \<open>k\<close> chunks of the content.\<close>

definition upload_at :: "u8 list \<Rightarrow> nat \<Rightarrow> UploadTransfer \<Rightarrow> bool" where
  "upload_at content k u \<longleftrightarrow>
     ut_size u = word_of_nat (length content) \<and> ut_file u = drop (k * CHUNK) content \<and>
     ut_hasher u = take (k * CHUNK) content \<and> ut_next_chunk_index u = word_of_nat k \<and>
     ut_next_offset u = word_of_nat (min (k * CHUNK) (length content)) \<and>
     ut_phase u = (if k \<noteq> 0 \<and> length content \<le> k * CHUNK then ReadyForEnd else Streaming)"

text \<open>A socket and a budget that let an upload go on.\<close>

definition upload_possible :: "'e session_env \<Rightarrow> u8 list \<Rightarrow> UploadTransfer \<Rightarrow> 'e session \<Rightarrow> bool" where
  "upload_possible env content u s \<longleftrightarrow>
     env_ok env \<and> (\<forall>i. env_socket_ok env i) \<and> length content \<le> 5368709120 \<and> transfer_uuid (ut_transfer_id u) \<noteq> 0 \<and>
     sl_drain_byte_budget (s_limits s) \<ge> 1048640 \<and> sl_drain_item_budget (s_limits s) \<ge> 2"

text \<open>The session after a turn that sent the given frames and left the upload with \<open>k\<close> chunks sent.\<close>

definition upload_turn :: "u8 list \<Rightarrow> UploadTransfer \<Rightarrow> 'e session \<Rightarrow> u8 list list \<Rightarrow> nat \<Rightarrow> 'e session \<Rightarrow> bool" where
  "upload_turn content u s frames k s' \<longleftrightarrow>
     s_sent s' = s_sent s @ map SentBinary frames \<and> s_limits s' = s_limits s \<and> s_requests s' = s_requests s \<and>
     s_drawn s' = s_drawn s \<and> s_now s' = s_now s \<and>
     (\<exists>v. active (s_transfers s') = [(ut_transfer_id u, ActiveUpload v)] \<and> upload_at content k v \<and>
        ut_transfer_id v = ut_transfer_id u \<and> ut_content_hash v = ut_content_hash u \<and> ut_workspace_id v = ut_workspace_id u)"

lemma stream_chunk_sends:
  assumes "upload_possible env content u s" "upload_at content k u" "k * CHUNK < length content"
    and "active (s_transfers s) = []" "bytes_remaining (s_budget s) \<ge> 1048640"
    and hash: "length content \<le> Suc k * CHUNK \<Longrightarrow> hashed_content (env_blake3 env) content = Ok (ut_content_hash u)"
  shows "wp (stream_chunk env u)
    (\<lambda>_. upload_turn content u s [content_frame (env_blake3 env) Upload (ut_transfer_id u) content k] (Suc k))
    (\<lambda>_. False) s"
proof -
  let ?p = "content_chunk content k" and ?b = "env_blake3 env"
  let ?final = "length content \<le> Suc k * CHUNK"
  have env: "length (?b ?p) = 32" "\<And>i. env_socket_ok env i" and len: "length content \<le> 5368709120"
    and uuid: "transfer_uuid (ut_transfer_id u) \<noteq> 0"
    using assms(1) by (auto simp: upload_possible_def env_ok_def)
  have at: "ut_size u = word_of_nat (length content)" "ut_file u = drop (k * CHUNK) content"
    "ut_hasher u = take (k * CHUNK) content" "ut_next_chunk_index u = word_of_nat k"
    "ut_next_offset u = word_of_nat (k * CHUNK)" "ut_phase u = Streaming"
    using assms(2,3) by (auto simp: upload_at_def)
  have sz: "unat (ut_size u) = length content" and off: "unat (ut_next_offset u) = k * CHUNK"
    using len assms(3) by (simp_all add: at unat_u64_of_nat del: of_nat_mult)
  have n: "next_payload_len (ut_size u) (ut_next_offset u) = length ?p"
    using assms(3) by (simp add: next_payload_len_nat word_le_nat_alt sz off length_content_chunk CHUNK_def min.commute)
  have p: "?p \<noteq> []" "length ?p \<le> 1048576" "take (length ?p) (ut_file u) = ?p"
    "drop (length ?p) (ut_file u) = drop (Suc k * CHUNK) content"
    using assms(3) by (auto simp: content_chunk_def at CHUNK_def min_def)
  have hasher: "ut_hasher u @ ?p = take (Suc k * CHUNK) content"
    by (simp add: at content_chunk_def take_add [symmetric] add.commute)
  have next_off: "ut_next_offset u + word_of_nat (length ?p) = word_of_nat (min (Suc k * CHUNK) (length content))"
    unfolding at of_nat_add [symmetric] length_content_chunk using assms(3) by (intro arg_cong [of _ _ word_of_nat]) auto
  have final: "word_of_nat (min (Suc k * CHUNK) (length content)) = ut_size u \<longleftrightarrow> ?final"
    using len by (auto simp: at min_def word_unat_eq_iff unat_u64_of_nat)
  have frame: "encode_binary_frame_owned ?b Upload ?final (ut_transfer_id u) (ut_next_chunk_index u) (ut_next_offset u) ?p =
      Ok (content_frame ?b Upload (ut_transfer_id u) content k)"
    using encode_binary_frame_owned_eq [of ?b ?p, OF env(1) uuid] p
    by (simp add: content_frame_def Let_def at validate_payload_len_def BLOB_CHUNK_BYTES_def not_less)
  note frame_len = encode_owned_length [of ?b ?p, OF env(1) frame]
  have hashed: "hashed_content ?b (ut_hasher u @ ?p) = Ok (ut_content_hash u)" "drop (length ?p) (ut_file u) = []" if ?final
    using that hash [OF that] p(4) hasher by simp_all
  have sent: "chunk_sent u = (u\<lparr>ut_file := drop (Suc k * CHUNK) content, ut_hasher := take (Suc k * CHUNK) content,
      ut_next_offset := word_of_nat (min (Suc k * CHUNK) (length content)), ut_next_chunk_index := word_of_nat (Suc k),
      ut_phase := (if ?final then ReadyForEnd else Streaming)\<rparr>)"
    unfolding chunk_sent_def Let_def n next_off final p(3,4) hasher by (simp add: at)
  have "wp (stream_chunk env u) Q E s = wp (mark_transfer_progress (ut_transfer_id u)) Q E
     (s\<lparr>s_budget := (s_budget s)\<lparr>bytes_remaining := bytes_remaining (s_budget s) - length (content_frame ?b Upload (ut_transfer_id u) content k)\<rparr>,
        s_sent := s_sent s @ [SentBinary (content_frame ?b Upload (ut_transfer_id u) content k)],
        s_transfers := put_upload (chunk_sent u) (s_transfers s)\<rparr>)" for Q E
    by (subst wp_stream_chunk_sent [of u s env "content_frame ?b Upload (ut_transfer_id u) content k", unfolded n next_off final p(3)])
      (use assms(5) p hashed frame frame_len env in \<open>simp_all add: can_reserve_bytes_def BLOB_HEADER_LEN_def at(2) length_content_chunk\<close>)
  then show ?thesis
    using assms(4) at(1) unfolding sent
    by (simp add: mark_transfer_progress_def wp_simps put_upload_def hm_insert_def hm_remove_def mark_progress_def hm_get_def
        upload_turn_def upload_at_def del: of_nat_Suc)
qed

lemma single_find:
  assumes "env_ok env" shows "find p (env_order env [x]) = (if p x then Some x else None)"
proof -
  have "set (env_order env [x]) = {x}" using assms by (simp add: env_ok_def)
  then obtain ys where "env_order env [x] = x # ys" "set ys \<subseteq> {x}"
    by (cases "env_order env [x]") (auto simp: insert_eq_iff)
  then show ?thesis by (auto simp: find_None_iff)
qed

lemma upload_turn_transfers [simp]:
  "upload_turn content u (s\<lparr>s_transfers := t\<rparr>) = upload_turn content u s"
  "upload_turn content u (s\<lparr>s_budget := b\<rparr>) = upload_turn content u s"
  by (simp_all add: fun_eq_iff upload_turn_def)

lemma advance_upload_sends:
  assumes "upload_possible env content u s" "upload_at content k u" "k * CHUNK < length content"
    and "active (s_transfers s) = [(ut_transfer_id u, ActiveUpload u)]" "bytes_remaining (s_budget s) \<ge> 1048640"
    and hash: "length content \<le> Suc k * CHUNK \<Longrightarrow> hashed_content (env_blake3 env) content = Ok (ut_content_hash u)"
  shows "wp (advance_upload env)
    (\<lambda>_. upload_turn content u s [content_frame (env_blake3 env) Upload (ut_transfer_id u) content k] (Suc k))
    (\<lambda>_. False) s"
proof -
  let ?s = "s\<lparr>s_transfers := (s_transfers s)\<lparr>active := []\<rparr>\<rparr>"
  have env: "env_ok env" and len: "length content \<le> 5368709120" using assms(1) by (auto simp: upload_possible_def)
  have phase: "ut_phase u = Streaming" and off: "ut_next_offset u \<noteq> ut_size u"
    using assms(2,3) len by (auto simp: upload_at_def word_unat_eq_iff unat_u64_of_nat simp del: of_nat_mult)
  have "wp (stream_chunk env u)
      (\<lambda>_. upload_turn content u s [content_frame (env_blake3 env) Upload (ut_transfer_id u) content k] (Suc k)) (\<lambda>_. False) ?s"
    using stream_chunk_sends [of env content u ?s k] assms by (simp add: upload_possible_def)
  then show ?thesis
    using assms(4) phase off
    by (simp add: advance_upload_def wp_simps take_upload_ready_for_end_def take_streaming_upload_def
        take_upload_in_phase_def single_find [OF env] hm_remove_def hm_get_def advance_streaming_def)
qed

text \<open>The turns that drain ticks give to uploads, each with the budget of a new drain.\<close>

fun upload_turns :: "'e session_env \<Rightarrow> nat \<Rightarrow> 'e session \<Rightarrow> 'e session" where
  "upload_turns env 0 s = s"
| "upload_turns env (Suc n) s =
     upload_turns env n (snd (advance_upload env (s\<lparr>s_budget := budget_new (s_limits s)\<rparr>)))"

lemma upload_turns_snoc:
  "upload_turns env (Suc n) s =
     (let s' = upload_turns env n s in snd (advance_upload env (s'\<lparr>s_budget := budget_new (s_limits s')\<rparr>)))"
  by (induction n arbitrary: s) (simp_all add: Let_def)

lemma upload_turns_send:
  assumes "upload_possible env content u s" "upload_at content 0 u"
    and "active (s_transfers s) = [(ut_transfer_id u, ActiveUpload u)]" "k \<le> content_chunks content"
    and hash: "0 < k \<Longrightarrow> length content \<le> k * CHUNK \<Longrightarrow> hashed_content (env_blake3 env) content = Ok (ut_content_hash u)"
  shows "upload_turn content u s
    (map (content_frame (env_blake3 env) Upload (ut_transfer_id u) content) [0..<k]) k (upload_turns env k s)"
  using assms(4,5)
proof (induction k)
  case 0
  then show ?case using assms(2,3) by (simp add: upload_turn_def)
next
  case (Suc k)
  let ?s = "upload_turns env k s"
  let ?t = "?s\<lparr>s_budget := budget_new (s_limits ?s)\<rparr>"
  have unfinished: "k * CHUNK < length content" using Suc.prems(1) by (simp add: content_chunks_iff [symmetric])
  then have turn: "upload_turn content u s (map (content_frame (env_blake3 env) Upload (ut_transfer_id u) content) [0..<k]) k ?s"
    using Suc by simp
  then obtain v where v: "active (s_transfers ?s) = [(ut_transfer_id u, ActiveUpload v)]" "upload_at content k v"
    "ut_transfer_id v = ut_transfer_id u" "ut_content_hash v = ut_content_hash u" "s_limits ?s = s_limits s"
    "ut_workspace_id v = ut_workspace_id u"
    by (auto simp: upload_turn_def)
  note unfinished
  moreover have "upload_possible env content v ?t"
    using assms(1) v by (simp add: upload_possible_def)
  moreover have "hashed_content (env_blake3 env) content = Ok (ut_content_hash v)" if "length content \<le> Suc k * CHUNK"
    using Suc.prems(2) that v by simp
  moreover have "bytes_remaining (s_budget ?t) \<ge> 1048640"
    using assms(1) v by (simp add: upload_possible_def budget_new_def)
  ultimately have "wp (advance_upload env)
      (\<lambda>_. upload_turn content v ?t [content_frame (env_blake3 env) Upload (ut_transfer_id u) content k] (Suc k)) (\<lambda>_. False) ?t"
    using advance_upload_sends [of env content v ?t k] v by simp
  then have "upload_turn content v ?s [content_frame (env_blake3 env) Upload (ut_transfer_id u) content k] (Suc k)
      (upload_turns env (Suc k) s)"
    by (auto simp: wp_def upload_turns_snoc Let_def simp del: upload_turns.simps split: prod.splits result.splits)
  with turn v show ?case by (simp add: upload_turn_def del: upload_turns.simps)
qed

text \<open>All frames of the content are sent, and the end is next.\<close>

definition upload_ready :: "'e session_env \<Rightarrow> u8 list \<Rightarrow> UploadTransfer \<Rightarrow> 'e session \<Rightarrow> 'e session \<Rightarrow> bool" where
  "upload_ready env content u s s' \<longleftrightarrow>
     s_sent s' = s_sent s @
       map (\<lambda>k. SentBinary (content_frame (env_blake3 env) Upload (ut_transfer_id u) content k)) [0..<content_chunks content] \<and>
     s_limits s' = s_limits s \<and> s_requests s' = s_requests s \<and> s_drawn s' = s_drawn s \<and> s_now s' = s_now s \<and>
     (\<exists>v. active (s_transfers s') = [(ut_transfer_id u, ActiveUpload v)] \<and> ut_phase v = ReadyForEnd \<and> ut_hasher v = content \<and>
        ut_transfer_id v = ut_transfer_id u \<and> ut_content_hash v = ut_content_hash u \<and> ut_workspace_id v = ut_workspace_id u \<and>
        ut_size v = ut_size u)"

lemma upload_empty:
  assumes "upload_possible env [] u s" "upload_at [] 0 u"
    and "active (s_transfers s) = [(ut_transfer_id u, ActiveUpload u)]"
    and hash: "hashed_content (env_blake3 env) [] = Ok (ut_content_hash u)"
  shows "upload_ready env [] u s (upload_turns env 1 s)"
proof -
  have env: "env_ok env" and u: "ut_phase u = Streaming" "ut_next_offset u = ut_size u" "ut_file u = []" "ut_hasher u = []"
    using assms(1,2) by (auto simp: upload_possible_def upload_at_def)
  have "wp (advance_upload env) (\<lambda>_. upload_ready env [] u s) (\<lambda>_. False) (s\<lparr>s_budget := budget_new (s_limits s)\<rparr>)"
    using assms(3) u hash
    by (simp add: advance_upload_def wp_simps take_upload_ready_for_end_def take_streaming_upload_def
        take_upload_in_phase_def single_find [OF env] hm_remove_def hm_get_def advance_streaming_def wp_verify_uploaded
        put_upload_def hm_insert_def upload_ready_def content_chunks_def CHUNK_def)
  then show ?thesis by (auto simp: wp_def split: prod.splits result.splits)
qed

lemma upload_turns_ready:
  assumes "upload_possible env content u s" "upload_at content 0 u"
    and "active (s_transfers s) = [(ut_transfer_id u, ActiveUpload u)]"
    and hash: "hashed_content (env_blake3 env) content = Ok (ut_content_hash u)"
  shows "upload_ready env content u s (upload_turns env (max 1 (content_chunks content)) s)"
proof (cases "content = []")
  case True
  then show ?thesis using upload_empty [of env u s] assms by (simp add: content_chunks_def CHUNK_def)
next
  case False
  then have pos: "0 < content_chunks content" by (simp add: content_chunks_iff)
  have le: "length content \<le> content_chunks content * CHUNK"
    using content_chunks_iff [of "content_chunks content" content] by simp
  have "ut_size u = word_of_nat (length content)" using assms(2) by (simp add: upload_at_def)
  then show ?thesis
    using upload_turns_send [OF assms(1-3) order.refl hash] pos le
    by (auto simp: upload_turn_def upload_at_def upload_ready_def max_def comp_def not_le Suc_le_eq)
qed

text \<open>The request for the end can be encoded, tracked and sent.\<close>

definition end_request :: "'e session_env \<Rightarrow> 'e session \<Rightarrow> RequestId" where
  "end_request env s = RequestId (env_fresh env (s_drawn s))"

definition end_message :: "UploadTransfer \<Rightarrow> WorkspaceBlobEndMessage" where
  "end_message u = \<lparr>bn_workspace_id = ut_workspace_id u, bn_transfer_id = ut_transfer_id u, bn_direction = Upload,
     bn_content_hash = ut_content_hash u, bn_size = ut_size u, bn_chunk_count = chunk_count (ut_size u)\<rparr>"

definition end_possible :: "'e session_env \<Rightarrow> UploadTransfer \<Rightarrow> u8 list \<Rightarrow> 'e session \<Rightarrow> bool" where
  "end_possible env u frame s \<longleftrightarrow>
     encode_request (env_lib env) ABlobEnd (end_request env s) (BBlobEnd (end_message u)) = Ok frame \<and> utf8_valid frame \<and>
     length frame \<le> sl_drain_byte_budget (s_limits s) \<and> length (rt_entries (s_requests s)) < MAX_IN_FLIGHT_REQUESTS \<and>
     card (rt_ids (s_requests s)) < MAX_REQUEST_IDS_PER_CONNECTION \<and> end_request env s \<notin> rt_ids (s_requests s)"

definition upload_ended :: "'e session_env \<Rightarrow> UploadTransfer \<Rightarrow> u8 list \<Rightarrow> 'e session \<Rightarrow> 'e session \<Rightarrow> bool" where
  "upload_ended env u frame s s' \<longleftrightarrow>
     s_sent s' = s_sent s @ [SentText frame] \<and>
     map_option if_expected (hm_get (rt_entries (s_requests s')) (end_request env s)) = Some (ExpectBlobEndUpload (end_message u)) \<and>
     (\<exists>v. active (s_transfers s') = [(ut_transfer_id u, ActiveUpload v)] \<and> ut_phase v = AwaitingEndResponse)"

lemma end_turn:
  assumes "env_ok env" "\<forall>i. env_socket_ok env i" "active (s_transfers s) = [(ut_transfer_id u, ActiveUpload v)]"
    and "ut_phase v = ReadyForEnd" "ut_transfer_id v = ut_transfer_id u" "ut_content_hash v = ut_content_hash u"
    "ut_workspace_id v = ut_workspace_id u" "ut_size v = ut_size u"
    and "end_possible env u frame s" "bytes_remaining (s_budget s) = sl_drain_byte_budget (s_limits s)"
  shows "wp (advance_upload env) (\<lambda>_. upload_ended env u frame s) (\<lambda>_. False) s"
proof -
  let ?s = "s\<lparr>s_transfers := (s_transfers s)\<lparr>active := []\<rparr>\<rparr>"
  have "wp (end_upload env v) (\<lambda>_. upload_ended env u frame s) (\<lambda>_. False) ?s"
    using assms
    by (simp add: end_upload_def wp_simps encode_blob_end_upload_def end_possible_def end_request_def end_message_def
        send_tracked_text_def wp_reserve_bytes wp_send_text track_def available_slots_def mark_transfer_progress_def mark_progress_def
        put_upload_def hm_insert_def hm_remove_def hm_get_def upload_ended_def)
  then show ?thesis
    using assms(3,4)
    by (simp add: advance_upload_def wp_simps take_upload_ready_for_end_def take_upload_in_phase_def single_find [OF assms(1)]
        hm_remove_def hm_get_def)
qed

text \<open>A content that does not have the announced hash.\<close>

lemma wrong_hash_turn:
  assumes "upload_possible env content u s" "upload_at content k u" "k * CHUNK \<le> length content" "length content \<le> Suc k * CHUNK"
    and "content = [] \<longleftrightarrow> k * CHUNK = length content"
    and "active (s_transfers s) = [(ut_transfer_id u, ActiveUpload u)]" "bytes_remaining (s_budget s) \<ge> 1048640"
    and "hashed_content (env_blake3 env) content = Ok h" "h \<noteq> ut_content_hash u"
  shows "advance_upload env s = (Err filesystem_error, s\<lparr>s_transfers := (s_transfers s)\<lparr>active := []\<rparr>\<rparr>)"
proof -
  have env: "env_ok env" and len: "length content \<le> 5368709120" using assms(1) by (auto simp: upload_possible_def)
  have at: "ut_size u = word_of_nat (length content)" "ut_file u = drop (k * CHUNK) content" "ut_hasher u = take (k * CHUNK) content"
    "ut_next_offset u = word_of_nat (k * CHUNK)" "ut_phase u = Streaming"
    using assms(2-5) by (auto simp: upload_at_def min_def CHUNK_def)
  have sz: "unat (ut_size u) = length content" and off: "unat (ut_next_offset u) = k * CHUNK"
    using len assms(3) by (simp_all add: at unat_u64_of_nat del: of_nat_mult)
  have empty: "ut_next_offset u = ut_size u \<longleftrightarrow> content = []" using sz off assms(5) by (auto simp: word_unat_eq_iff)
  have n: "next_payload_len (ut_size u) (ut_next_offset u) = length content - k * CHUNK"
    using assms(3,4) by (simp add: next_payload_len_nat word_le_nat_alt sz off CHUNK_def min_def)
  have last: "ut_next_offset u + word_of_nat (length content - k * CHUNK) = ut_size u"
    unfolding at of_nat_add [symmetric] using assms(3) by simp
  have file_rest: "take (length content - k * CHUNK) (ut_file u) = ut_file u" "drop (length content - k * CHUNK) (ut_file u) = []"
    "length (ut_file u) = length content - k * CHUNK" and whole: "ut_hasher u @ ut_file u = content"
    by (simp_all add: at)
  have verify: "verify_uploaded env v = (\<lambda>s. (Err filesystem_error, s))"
    if "ut_file v = []" "ut_hasher v = content" "ut_content_hash v = ut_content_hash u" for v
    using that assms(8,9) by (simp add: verify_uploaded_def monad_defs fun_eq_iff)
  have "advance_streaming env u s' = (Err filesystem_error, s')" if "bytes_remaining (s_budget s') \<ge> 1048640" for s'
  proof (cases "content = []")
    case True
    then show ?thesis using verify [of u] whole empty by (simp add: advance_streaming_def monad_defs)
  next
    case False
    have "can_reserve_bytes (BLOB_HEADER_LEN + (length content - k * CHUNK)) s'"
      using that assms(4) by (simp add: can_reserve_bytes_def BLOB_HEADER_LEN_def CHUNK_def)
    with False show ?thesis
      using empty by (simp add: advance_streaming_def stream_chunk_def n Let_def file_rest whole last verify monad_defs)
  qed
  then show ?thesis
    using assms(6,7) at(5)
    by (simp add: advance_upload_def take_upload_ready_for_end_def take_streaming_upload_def take_upload_in_phase_def
        single_find [OF env] hm_remove_def hm_get_def monad_defs)
qed

lemma upload_right_hash:
  assumes possible: "upload_possible env content u s" "upload_at content 0 u"
      "active (s_transfers s) = [(ut_transfer_id u, ActiveUpload u)]"
    and ending: "end_possible env u frame s" and h: "hashed_content (env_blake3 env) content = Ok (ut_content_hash u)"
    and frames: "frames = map (\<lambda>k. SentBinary (content_frame (env_blake3 env) Upload (ut_transfer_id u) content k))"
    and turns: "n = max 1 (content_chunks content)"
  shows "s_sent (upload_turns env n s) = s_sent s @ frames [0..<content_chunks content] \<and>
    (\<exists>v. active (s_transfers (upload_turns env n s)) = [(ut_transfer_id u, ActiveUpload v)] \<and>
       ut_phase v = ReadyForEnd \<and> ut_hasher v = content) \<and>
    s_sent (upload_turns env (Suc n) s) = s_sent s @ frames [0..<content_chunks content] @ [SentText frame] \<and>
    (\<exists>v. active (s_transfers (upload_turns env (Suc n) s)) = [(ut_transfer_id u, ActiveUpload v)] \<and> ut_phase v = AwaitingEndResponse) \<and>
    map_option if_expected (hm_get (rt_entries (s_requests (upload_turns env (Suc n) s))) (end_request env s)) =
      Some (ExpectBlobEndUpload (end_message u))"
proof -
  let ?s = "upload_turns env n s"
  have env: "env_ok env" "\<forall>i. env_socket_ok env i" using possible(1) by (simp_all add: upload_possible_def)
  have ready: "upload_ready env content u s ?s" using upload_turns_ready [OF possible] h turns by simp
  then obtain v where v: "active (s_transfers ?s) = [(ut_transfer_id u, ActiveUpload v)]" "ut_phase v = ReadyForEnd" "ut_hasher v = content"
      "ut_transfer_id v = ut_transfer_id u" "ut_content_hash v = ut_content_hash u" "ut_workspace_id v = ut_workspace_id u" "ut_size v = ut_size u"
    and same: "s_limits ?s = s_limits s" "s_requests ?s = s_requests s" "s_drawn ?s = s_drawn s"
    and sent: "s_sent ?s = s_sent s @ frames [0..<content_chunks content]"
    by (auto simp: upload_ready_def frames)
  have "wp (advance_upload env) (\<lambda>_. upload_ended env u frame (?s\<lparr>s_budget := budget_new (s_limits ?s)\<rparr>)) (\<lambda>_. False)
      (?s\<lparr>s_budget := budget_new (s_limits ?s)\<rparr>)"
    by (rule end_turn [OF env, where v = v]) (use v same ending in \<open>simp_all add: budget_new_def end_possible_def end_request_def\<close>)
  then have "upload_ended env u frame (?s\<lparr>s_budget := budget_new (s_limits ?s)\<rparr>) (upload_turns env (Suc n) s)"
    by (auto simp: wp_def upload_turns_snoc Let_def simp del: upload_turns.simps split: prod.splits result.splits)
  then show ?thesis using sent v same by (simp add: upload_ended_def end_request_def del: upload_turns.simps)
qed

lemma upload_wrong_hash:
  assumes possible: "upload_possible env content u s" "upload_at content 0 u"
      "active (s_transfers s) = [(ut_transfer_id u, ActiveUpload u)]"
    and hashed: "hashed_content (env_blake3 env) content = Ok h" and h: "h \<noteq> ut_content_hash u"
    and frames: "frames = map (\<lambda>k. SentBinary (content_frame (env_blake3 env) Upload (ut_transfer_id u) content k))"
    and turns: "n = max 1 (content_chunks content)"
  shows "s_sent (upload_turns env (n - 1) s) = s_sent s @ frames [0..<content_chunks content - 1] \<and>
    (\<exists>s'. advance_upload env ((upload_turns env (n - 1) s)\<lparr>s_budget := budget_new (s_limits s)\<rparr>) = (Err filesystem_error, s') \<and>
       s_sent s' = s_sent (upload_turns env (n - 1) s) \<and> active (s_transfers s') = [])"
proof -
  let ?c = "content_chunks content"
  have budget: "sl_drain_byte_budget (s_limits s) \<ge> 1048640" using possible(1) by (simp add: upload_possible_def)
  define k where "k = ?c - 1"
  let ?s = "upload_turns env k s"
  have n: "n - 1 = k" "k \<le> ?c" using turns by (auto simp: k_def max_def)
  have before: "0 < k \<Longrightarrow> k * CHUNK < length content" using content_chunks_iff [of k content] by (simp add: k_def)
  have chunks: "length content \<le> ?c * CHUNK" using content_chunks_iff [of ?c content] by simp
  have k: "k * CHUNK \<le> length content" "length content \<le> Suc k * CHUNK" "content = [] \<longleftrightarrow> k * CHUNK = length content"
    using before chunks by (cases "k = 0"; cases "?c"; auto simp: k_def)+
  obtain v where v: "active (s_transfers ?s) = [(ut_transfer_id u, ActiveUpload v)]" "upload_at content k v"
      "ut_transfer_id v = ut_transfer_id u" "ut_content_hash v = ut_content_hash u" "s_limits ?s = s_limits s"
    and sent: "s_sent ?s = s_sent s @ frames [0..<k]"
    using upload_turns_send [OF possible n(2)] before by (force simp: upload_turn_def frames comp_def)
  have "advance_upload env (?s\<lparr>s_budget := budget_new (s_limits s)\<rparr>) =
      (Err filesystem_error, ?s\<lparr>s_budget := budget_new (s_limits s), s_transfers := (s_transfers ?s)\<lparr>active := []\<rparr>\<rparr>)"
    using wrong_hash_turn [of env content v "?s\<lparr>s_budget := budget_new (s_limits s)\<rparr>" k h] possible(1) v k hashed h budget
    by (simp add: upload_possible_def budget_new_def)
  then show ?thesis unfolding n(1) k_def [symmetric] using sent by simp
qed

text \<open>
  C22: An upload makes progress, sends its content and is ended. The conditions: the upload is the only active transfer, the
  server has accepted its announcement, the socket works, the file has the announced size, at most 5 GiB, a drain has
  the budget for one full chunk, and the request for the end can be encoded and has a slot, a fresh identifier and
  the budget. If the content has the announced hash, every turn of the drain sends the next frame; after as many
  turns as the content has chunks (one, if it is empty) exactly the frames of the content are sent, in order, and the
  next turn sends the request for the end, which is tracked with the announced hash, size and chunk count, and the upload
  awaits its response. If the content has another hash, the frames before the last are sent, and the turn of the last chunk
  fails with a file system error: neither the last frame nor the end is sent, and the upload is dropped. The payloads of the
  frames are the content.
\<close>

theorem upload_streams_content:
  assumes possible: "upload_possible env content u s" "upload_at content 0 u"
      "active (s_transfers s) = [(ut_transfer_id u, ActiveUpload u)]"
    and ending: "end_possible env u frame s" and hashed: "hashed_content (env_blake3 env) content = Ok h"
    and frames: "frames = map (\<lambda>k. SentBinary (content_frame (env_blake3 env) Upload (ut_transfer_id u) content k))"
    and turns: "n = max 1 (content_chunks content)"
  shows "(h = ut_content_hash u \<longrightarrow>
      s_sent (upload_turns env n s) = s_sent s @ frames [0..<content_chunks content] \<and>
      (\<exists>v. active (s_transfers (upload_turns env n s)) = [(ut_transfer_id u, ActiveUpload v)] \<and>
         ut_phase v = ReadyForEnd \<and> ut_hasher v = content) \<and>
      s_sent (upload_turns env (Suc n) s) = s_sent s @ frames [0..<content_chunks content] @ [SentText frame] \<and>
      (\<exists>v. active (s_transfers (upload_turns env (Suc n) s)) = [(ut_transfer_id u, ActiveUpload v)] \<and> ut_phase v = AwaitingEndResponse) \<and>
      map_option if_expected (hm_get (rt_entries (s_requests (upload_turns env (Suc n) s))) (end_request env s)) =
        Some (ExpectBlobEndUpload (end_message u))) \<and>
    (h \<noteq> ut_content_hash u \<longrightarrow>
      s_sent (upload_turns env (n - 1) s) = s_sent s @ frames [0..<content_chunks content - 1] \<and>
      (\<exists>s'. advance_upload env ((upload_turns env (n - 1) s)\<lparr>s_budget := budget_new (s_limits s)\<rparr>) = (Err filesystem_error, s') \<and>
         s_sent s' = s_sent (upload_turns env (n - 1) s) \<and> active (s_transfers s') = [])) \<and>
    concat (map (content_chunk content) [0..<content_chunks content]) = content"
  (is "(_ \<longrightarrow> ?right) \<and> (_ \<longrightarrow> ?wrong) \<and> _")
proof (intro conjI [OF impI conjI [OF impI]])
  assume h: "h = ut_content_hash u"
  show ?right using upload_right_hash [OF possible ending _ frames turns] hashed unfolding h by blast
next
  assume "h \<noteq> ut_content_hash u"
  then show ?wrong by (rule upload_wrong_hash [OF possible hashed _ frames turns])
qed (rule concat_content_chunks)

text \<open>The session of the example once the announcement of its upload is accepted.\<close>

definition demo_upload :: UploadTransfer where
  "demo_upload = (upload_new (TransferId 3) (WorkspaceId 1) (OperationId 5) demo_hash 2 [7, 9] 0)\<lparr>ut_phase := Streaming\<rparr>"

definition demo_uploading :: "unit session" where
  "demo_uploading =
     (let s = session_new () (WorkspaceId 1) (ClientId 2) ''1'' default_limits True 0 in
      s\<lparr>s_transfers := (s_transfers s)\<lparr>active := [(TransferId 3, ActiveUpload demo_upload)]\<rparr>\<rparr>)"

theorem upload_streams_content_witness:
  "s_sent (upload_turns demo_env 2 demo_uploading) =
     [SentBinary demo_chunk, SentText (as_bytes ''WorkspaceBlobEnd'' @ [SEPARATOR, 0])]"
proof -
  have chunks: "content_chunks [7, 9 :: u8] = 1" by (simp add: content_chunks_def CHUNK_def)
  have frame: "content_frame (env_blake3 demo_env) Upload (TransferId 3) [7, 9] 0 = demo_chunk"
    by (simp add: content_frame_def content_chunk_def demo_chunk_def Let_def CHUNK_def demo_env_def quiet_env_def)
  have possible: "upload_possible demo_env [7, 9] demo_upload demo_uploading"
    by (simp add: upload_possible_def demo_env_ok demo_fields demo_upload_def upload_new_def
        demo_uploading_def session_new_def default_limits_def OUTBOUND_QUEUE_CAPACITY_def Let_def
        BLOB_HEADER_LEN_def BLOB_CHUNK_BYTES_def)
  have at: "upload_at [7, 9] 0 demo_upload" by (simp add: upload_at_def demo_upload_def upload_new_def)
  have allowed: "body_allowed ABlobEnd ClientRequest (BBlobEnd (end_message demo_upload))" by code_simp
  have ending: "end_possible demo_env demo_upload (as_bytes ''WorkspaceBlobEnd'' @ [SEPARATOR, 0]) demo_uploading"
    using demo_encode [OF allowed] demo_utf8 [of ABlobEnd]
    by (simp add: end_possible_def demo_fields demo_uploading_def session_new_def default_limits_def OUTBOUND_QUEUE_CAPACITY_def
        Let_def BLOB_HEADER_LEN_def BLOB_CHUNK_BYTES_def tracker_new_def MAX_IN_FLIGHT_REQUESTS_def
        MAX_REQUEST_IDS_PER_CONNECTION_def MAX_CONTROL_FRAME_BYTES_def length_as_bytes del: utf8_valid.simps)
  have active: "active (s_transfers demo_uploading) = [(ut_transfer_id demo_upload, ActiveUpload demo_upload)]"
    by (simp add: demo_uploading_def demo_upload_def upload_new_def Let_def)
  from upload_streams_content [OF possible at active ending, of demo_hash, OF _ refl refl]
  show ?thesis
    using chunks frame demo_hashed
    by (simp add: demo_fields demo_upload_def upload_new_def demo_uploading_def session_new_def Let_def numeral_2_eq_2
        del: upload_turns.simps)
qed

section \<open>Downloads\<close>

text \<open>The download has received the first \<open>k\<close> chunks of a content of \<open>n\<close> bytes.\<close>

definition download_at :: "nat \<Rightarrow> nat \<Rightarrow> DownloadTransfer \<Rightarrow> bool" where
  "download_at n k d \<longleftrightarrow>
     dt_size d = word_of_nat n \<and> dt_next_chunk_index d = word_of_nat k \<and>
     dt_next_offset d = word_of_nat (min (k * CHUNK) n) \<and>
     bb_chunk_count (dt_begin d) = word_of_nat ((n + (CHUNK - 1)) div CHUNK) \<and> dt_phase d = Receiving"

text \<open>The frame of chunk \<open>k\<close>, by its payload.\<close>

definition chunk_frame :: "(u8 list \<Rightarrow> u8 list) \<Rightarrow> WorkspaceBlobDirection \<Rightarrow> TransferId \<Rightarrow> nat \<Rightarrow> nat \<Rightarrow> u8 list \<Rightarrow> u8 list" where
  "chunk_frame blake3 direction t n k payload =
     frame_header direction (n \<le> Suc k * CHUNK) t (word_of_nat k) (word_of_nat (k * CHUNK))
       (word_of_nat (length payload)) (take 16 (blake3 payload)) @ payload"

lemma content_frame_chunk:
  "content_frame blake3 dir t content k = chunk_frame blake3 dir t (length content) k (content_chunk content k)"
  by (simp add: content_frame_def chunk_frame_def Let_def)

lemma chunk_number:
  assumes "k * CHUNK < n"
  shows "Suc k \<le> (n + (CHUNK - 1)) div CHUNK" "Suc k = (n + (CHUNK - 1)) div CHUNK \<longleftrightarrow> n \<le> Suc k * CHUNK"
  using content_chunks_iff [of k "replicate n (0 :: u8)"] content_chunks_iff [of "Suc k" "replicate n (0 :: u8)"] assms
  by (auto simp: content_chunks_def)

lemma accept_chunk_steps:
  assumes "download_at n k d" "n \<le> 5368709120" "length p \<le> 1048576" "k * CHUNK < n"
  shows "accept_chunk h (length p) d =
    fail_if (k * CHUNK + length p > n) protocol_error
   (and_then (map_err (\<lambda>_. protocol_error)
      (validate_sequence h (word_of_nat k) (word_of_nat (k * CHUNK)) (k * CHUNK + length p = n))) (\<lambda>_.
    fail_if (k * CHUNK + length p = n \<and> \<not> n \<le> Suc k * CHUNK) protocol_error
   (Ok (word_of_nat (Suc k), word_of_nat (k * CHUNK + length p)))))"
proof -
  have d: "dt_size d = word_of_nat n" "dt_next_chunk_index d = word_of_nat k" "dt_next_offset d = word_of_nat (k * CHUNK)"
    "bb_chunk_count (dt_begin d) = word_of_nat ((n + (CHUNK - 1)) div CHUNK)" "dt_phase d = Receiving"
    using assms(1,4) by (simp_all add: download_at_def min_def)
  have k: "Suc k \<le> (n + (CHUNK - 1)) div CHUNK" "(n + (CHUNK - 1)) div CHUNK \<le> 5370000000" "Suc k \<le> 5370000000"
    using chunk_number(1) [OF assms(4)] assms(2) div_le_dividend [of "n + (CHUNK - 1)" CHUNK]
    by (simp_all add: CHUNK_def)
  have add: "checked_add (word_of_nat (k * CHUNK)) (word_of_nat (length p) :: u64) = Some (word_of_nat (k * CHUNK + length p))"
    "checked_add (word_of_nat k) (1 :: u64) = Some (word_of_nat (Suc k))"
    unfolding checked_add_Some_iff using assms k by (simp_all add: unat_u64_of_nat del: of_nat_mult of_nat_add of_nat_Suc)
  have cmp: "(word_of_nat (k * CHUNK + length p) :: u64) > word_of_nat n \<longleftrightarrow> k * CHUNK + length p > n"
    "(word_of_nat (k * CHUNK + length p) :: u64) = word_of_nat n \<longleftrightarrow> k * CHUNK + length p = n"
    "(word_of_nat (Suc k) :: u64) > word_of_nat ((n + (CHUNK - 1)) div CHUNK) \<longleftrightarrow> False"
    "(word_of_nat (Suc k) :: u64) = word_of_nat ((n + (CHUNK - 1)) div CHUNK) \<longleftrightarrow> n \<le> Suc k * CHUNK"
    unfolding word_less_nat_alt word_unat_eq_iff chunk_number(2) [OF assms(4), symmetric]
    using assms k by (simp_all add: unat_u64_of_nat del: of_nat_mult of_nat_add of_nat_Suc)
  show ?thesis
    by (simp only: accept_chunk_def d add cmp ok_or_simps fail_if_simps and_then.simps Let_def simp_thms)
qed

lemma accept_chunk_at:
  assumes "download_at n k d" "n \<le> 5368709120" "p \<noteq> []" "length p \<le> 1048576" "bh_payload_len h = word_of_nat (length p)"
  shows "accept_chunk h (length p) d = Ok (i, off) \<longleftrightarrow>
    k * CHUNK < n \<and> length p = min CHUNK (n - k * CHUNK) \<and> bh_chunk_index h = word_of_nat k \<and>
    bh_offset h = word_of_nat (k * CHUNK) \<and> bh_final_chunk h = (n \<le> Suc k * CHUNK) \<and>
    i = word_of_nat (Suc k) \<and> off = word_of_nat (min (Suc k * CHUNK) n)"
proof (cases "k * CHUNK < n")
  case True
  have "unat (word_of_nat (length p) :: u32) = length p" using assms(4) by (simp add: unat_of_nat)
  then have len: "(word_of_nat (length p) :: u32) \<noteq> 0" "(word_of_nat (length p) :: u32) = BLOB_CHUNK_BYTES \<longleftrightarrow> length p = CHUNK"
    "\<not> (word_of_nat (length p) :: u32) > BLOB_CHUNK_BYTES"
    using assms(3,4) by (auto simp: word_unat_eq_iff word_less_nat_alt BLOB_CHUNK_BYTES_def CHUNK_def)
  have "length p \<le> CHUNK" using assms(4) by (simp add: CHUNK_def)
  then show ?thesis
    using True len
    by (auto simp: accept_chunk_steps [OF assms(1,2,4) True] validate_sequence_def assms(5) result_simps min_def
        add.commute [of "k * CHUNK" CHUNK] simp del: of_nat_mult of_nat_add of_nat_Suc)
next
  case False
  then have d: "dt_size d = word_of_nat n" "dt_next_offset d = word_of_nat n"
    using assms(1) by (simp_all add: download_at_def)
  have "checked_add (word_of_nat n) (word_of_nat (length p) :: u64) = Some (word_of_nat (n + length p))"
    unfolding checked_add_Some_iff using assms by (simp add: unat_u64_of_nat del: of_nat_add)
  moreover have "(word_of_nat (n + length p) :: u64) > word_of_nat n"
    unfolding word_less_nat_alt using assms by (simp add: unat_u64_of_nat del: of_nat_add)
  ultimately show ?thesis
    using False by (simp add: accept_chunk_def d result_simps del: of_nat_add)
qed

definition chunk_header :: "(u8 list \<Rightarrow> u8 list) \<Rightarrow> TransferId \<Rightarrow> nat \<Rightarrow> nat \<Rightarrow> u8 list \<Rightarrow> WorkspaceBlobHeader" where
  "chunk_header blake3 t n k p =
     \<lparr>bh_direction = Download, bh_final_chunk = (n \<le> Suc k * CHUNK), bh_transfer_id = t, bh_chunk_index = word_of_nat k,
      bh_offset = word_of_nat (k * CHUNK), bh_payload_len = word_of_nat (length p), bh_chunk_digest = take 16 (blake3 p)\<rparr>"

lemma decode_chunk_frame:
  assumes "uuid_law lib" "length (blake3 p) = 32" "transfer_uuid t \<noteq> 0" "p \<noteq> []" "length p \<le> 1048576"
  shows "decode_binary_frame lib blake3 (chunk_frame blake3 Download t n k p) = Ok (chunk_header blake3 t n k p, p)"
  using decode_encoded [OF assms(1), of "chunk_header blake3 t n k p" blake3 p] assms(2-5)
  by (simp add: header_wf_def header_bytes_def chunk_header_def chunk_frame_def)

definition chunk_received :: "nat \<Rightarrow> nat \<Rightarrow> nat \<Rightarrow> DownloadTransfer \<Rightarrow> DownloadTransfer" where
  "chunk_received n k now d =
     d\<lparr>dt_next_chunk_index := word_of_nat (Suc k), dt_next_offset := word_of_nat (min (Suc k * CHUNK) n),
       dt_last_progress_at := now\<rparr>"

lemma download_at_received: "download_at n k d \<Longrightarrow> download_at n (Suc k) (chunk_received n k now d)"
  by (simp add: download_at_def chunk_received_def)

text \<open>An engine that accepts every chunk, and what it is after the chunk.\<close>

definition writes :: "'e session_env \<Rightarrow> bool" where
  "writes env \<longleftrightarrow> (\<forall>i p e. fst (eng_write_blob_chunk (env_engine env) i p e) = Ok ())"

definition write_chunk :: "'e session_env \<Rightarrow> TransferId \<Rightarrow> 'e \<Rightarrow> u8 list \<Rightarrow> 'e" where
  "write_chunk env t e p = snd (eng_write_blob_chunk (env_engine env) t p e)"

definition after_chunk :: "'e session_env \<Rightarrow> TransferId \<Rightarrow> nat \<Rightarrow> nat \<Rightarrow> DownloadTransfer \<Rightarrow> u8 list \<Rightarrow> 'e session \<Rightarrow> 'e session" where
  "after_chunk env t n k d p s =
     s\<lparr>s_engine := write_chunk env t (s_engine s) p,
       s_transfers := (s_transfers s)\<lparr>active := [(t, ActiveDownload (chunk_received n k (s_now s) d))]\<rparr>\<rparr>"

lemma wp_call_write:
  "writes env \<Longrightarrow> wp (call (eng_write_blob_chunk (env_engine env) t p)) Q E s =
     Q () (s\<lparr>s_engine := write_chunk env t (s_engine s) p\<rparr>)"
  by (cases "eng_write_blob_chunk (env_engine env) t p (s_engine s)")
    (auto simp: wp_def call_def write_chunk_def writes_def dest!: spec [of _ t] spec [of _ p] spec [of _ "s_engine s"])

lemma handle_decoded_chunk:
  assumes "env_ok env" "writes env" "active (s_transfers s) = [(t, ActiveDownload d)]" "download_at n k d" "n \<le> 5368709120"
    and dec: "decode_binary_frame (env_uuid env) (env_blake3 env) f = Ok (h, p)"
  shows "wp (handle_binary_frame env f) Q (\<lambda>_. False) s \<longleftrightarrow>
    k * CHUNK < n \<and> length p = min CHUNK (n - k * CHUNK) \<and> h = chunk_header (env_blake3 env) t n k p \<and>
    Q () (after_chunk env t n k d p s)"
proof -
  have env: "uuid_law (env_uuid env)" "length (env_blake3 env p) = 32" using assms(1) by (auto simp: env_ok_def)
  note acc = decode_accepted [OF env(1) dec]
  then have p: "drop 64 f = p" "p \<noteq> []" "length p \<le> 1048576" "bh_payload_len h = word_of_nat (length p)"
    "bh_chunk_digest h = take 16 (env_blake3 env p)"
    using env(2) by (auto simp: header_bytes_def header_wf_def)
  have hdr: "h = chunk_header (env_blake3 env) t n k p \<longleftrightarrow> bh_direction h = Download \<and> bh_transfer_id h = t \<and>
      bh_chunk_index h = word_of_nat k \<and> bh_offset h = word_of_nat (k * CHUNK) \<and> bh_final_chunk h = (n \<le> Suc k * CHUNK)"
    using p by (cases h) (auto simp: chunk_header_def)
  have lookup: "table_get i (s_transfers s) = (if i = t then Some (ActiveDownload d) else None)" for i
    using assms(3) by (simp add: table_get_def hm_get_def)
  show ?thesis
  proof (cases "accept_chunk h (length p) d")
    case (Err e)
    then have "\<not> (k * CHUNK < n \<and> length p = min CHUNK (n - k * CHUNK) \<and> h = chunk_header (env_blake3 env) t n k p)"
      using accept_chunk_at [OF assms(4,5) p(2-4)] unfolding hdr by auto
    with Err show ?thesis by (auto simp: handle_binary_frame_def dec wp_simps lookup)
  next
    case (Ok r)
    obtain i off where r: "r = (i, off)" by (cases r)
    from Ok r have acc: "accept_chunk h (length p) d = Ok (i, off)" by simp
    note at = acc [unfolded accept_chunk_at [OF assms(4,5) p(2-4)]]
    show ?thesis
      using at assms(3) p(1) acc
      by (auto simp: handle_binary_frame_def dec wp_simps lookup hdr wp_call_write [OF assms(2)] BLOB_HEADER_LEN_def
          advance_download_def mark_transfer_progress_def mark_progress_def hm_insert_def hm_remove_def hm_get_def
          table_get_def after_chunk_def chunk_received_def simp del: wp_call of_nat_Suc of_nat_mult of_nat_add)
  qed
qed

lemma handle_chunk:
  assumes "env_ok env" "writes env" "active (s_transfers s) = [(t, ActiveDownload d)]" "download_at n k d" "n \<le> 5368709120"
    and "transfer_uuid t \<noteq> 0"
  shows "handle_binary_frame env f s = (Ok (), s') \<longleftrightarrow>
    k * CHUNK < n \<and> (\<exists>p. length p = min CHUNK (n - k * CHUNK) \<and> f = chunk_frame (env_blake3 env) Download t n k p \<and>
      s' = after_chunk env t n k d p s)"
proof -
  have env: "uuid_law (env_uuid env)" "\<And>p. length (env_blake3 env p) = 32" using assms(1) by (auto simp: env_ok_def)
  have wp: "handle_binary_frame env f s = (Ok (), s') \<longleftrightarrow> wp (handle_binary_frame env f) (\<lambda>_ x. x = s') (\<lambda>_. False) s"
    by (auto simp: wp_def split: prod.split result.split)
  have decoded: "decode_binary_frame (env_uuid env) (env_blake3 env) f = Ok (chunk_header (env_blake3 env) t n k p, p)"
    if "k * CHUNK < n" "length p = min CHUNK (n - k * CHUNK)" "f = chunk_frame (env_blake3 env) Download t n k p" for p
    unfolding that(3) by (rule decode_chunk_frame) (use that env assms(6) in \<open>auto simp: CHUNK_def\<close>)
  show ?thesis
  proof (cases "decode_binary_frame (env_uuid env) (env_blake3 env) f")
    case (Err e)
    then have "\<not> wp (handle_binary_frame env f) (\<lambda>_ x. x = s') (\<lambda>_. False) s"
      by (simp add: handle_binary_frame_def wp_simps)
    with Err decoded show ?thesis unfolding wp by force
  next
    case (Ok r)
    obtain h p where r: "r = (h, p)" by (cases r)
    have f: "f = chunk_frame (env_blake3 env) Download t n k p" if "h = chunk_header (env_blake3 env) t n k p"
      using decode_accepted(1) [OF env(1) Ok [unfolded r]] that
      by (simp add: header_bytes_def chunk_header_def chunk_frame_def)
    show ?thesis
      unfolding wp handle_decoded_chunk [OF assms(1-5) Ok [unfolded r]]
      using f decoded Ok r by auto
  qed
qed

text \<open>The frames that arrive for a download, handled one after the other.\<close>

fun receive :: "'e session_env \<Rightarrow> u8 list list \<Rightarrow> ('e, unit) fallible" where
  "receive env [] = ret ()"
| "receive env (f # fs) = bindm (handle_binary_frame env f) (\<lambda>_. receive env fs)"

lemma receive_Cons: "receive env (f # fs) s = (Ok (), s') \<longleftrightarrow>
    (\<exists>s1. handle_binary_frame env f s = (Ok (), s1) \<and> receive env fs s1 = (Ok (), s'))"
  by (auto simp: bindm_def split: prod.splits result.splits)

text \<open>The session has a single download, which has all bytes of its content.\<close>

definition download_complete :: "TransferId \<Rightarrow> 'e session \<Rightarrow> bool" where
  "download_complete t s \<longleftrightarrow>
     (\<exists>d. active (s_transfers s) = [(t, ActiveDownload d)] \<and> dt_phase d = Receiving \<and> dt_next_offset d = dt_size d \<and>
        dt_next_chunk_index d = bb_chunk_count (dt_begin d))"

lemma download_complete_iff:
  assumes "active (s_transfers s) = [(t, ActiveDownload d)]" "download_at n k d" "n \<le> 5368709120" "k \<le> (n + (CHUNK - 1)) div CHUNK"
  shows "download_complete t s \<longleftrightarrow> k = (n + (CHUNK - 1)) div CHUNK"
proof -
  have k: "k \<le> 5370000000" "(n + (CHUNK - 1)) div CHUNK \<le> 5370000000"
    using assms(3,4) div_le_dividend [of "n + (CHUNK - 1)" CHUNK] by (simp_all add: CHUNK_def)
  have n: "n \<le> (n + (CHUNK - 1)) div CHUNK * CHUNK"
    using content_chunks_iff [of "(n + (CHUNK - 1)) div CHUNK" "replicate n (0 :: u8)"] by (simp add: content_chunks_def)
  show ?thesis
    using assms(1,2) k n
    by (auto simp: download_complete_def download_at_def word_unat_eq_iff unat_u64_of_nat min_def
        simp del: of_nat_mult)
qed

lemma after_chunk_simps [simp]:
  "active (s_transfers (after_chunk env t n k d p s)) = [(t, ActiveDownload (chunk_received n k (s_now s) d))]"
  "s_engine (after_chunk env t n k d p s) = write_chunk env t (s_engine s) p"
  by (simp_all add: after_chunk_def)

lemma receive_sound:
  assumes "env_ok env" "writes env" "n \<le> 5368709120" "transfer_uuid t \<noteq> 0"
    and "active (s_transfers s) = [(t, ActiveDownload d)]" "download_at n k d"
    and "k \<le> (n + (CHUNK - 1)) div CHUNK" "length pre = min (k * CHUNK) n"
    and "receive env fs s = (Ok (), s')" "download_complete t s'"
  shows "\<exists>content. length content = n \<and> take (k * CHUNK) content = pre \<and>
    fs = map (content_frame (env_blake3 env) Download t content) [k..<content_chunks content] \<and>
    s_engine s' = foldl (write_chunk env t) (s_engine s) (map (content_chunk content) [k..<content_chunks content])"
  using assms(5-)
proof (induction fs arbitrary: s d k pre)
  case Nil
  then have "s' = s" by (simp add: ret_def)
  then have k: "k = (n + (CHUNK - 1)) div CHUNK"
    using download_complete_iff [OF Nil.prems(1,2) assms(3) Nil.prems(3)] Nil.prems(6) by simp
  have "n \<le> k * CHUNK"
    using content_chunks_iff [of k "replicate n (0 :: u8)"] k by (simp add: content_chunks_def)
  then show ?case using k \<open>s' = s\<close> Nil.prems(4) by (intro exI [of _ pre]) (simp add: content_chunks_def)
next
  case (Cons f fs)
  from Cons.prems(5) obtain s1 where s1: "handle_binary_frame env f s = (Ok (), s1)" "receive env fs s1 = (Ok (), s')"
    unfolding receive_Cons by blast
  then obtain p where k: "k * CHUNK < n" and p: "length p = min CHUNK (n - k * CHUNK)"
    "f = chunk_frame (env_blake3 env) Download t n k p" "s1 = after_chunk env t n k d p s"
    using handle_chunk [OF assms(1,2) Cons.prems(1,2) assms(3,4)] by blast
  have "length (pre @ p) = min (Suc k * CHUNK) n" using Cons.prems(4) p(1) k by simp
  from Cons.IH [OF _ download_at_received [OF Cons.prems(2)] chunk_number(1) [OF k] this s1(2) Cons.prems(6), of "s_now s"]
  obtain content where c: "length content = n" "take (Suc k * CHUNK) content = pre @ p"
    "fs = map (content_frame (env_blake3 env) Download t content) [Suc k..<content_chunks content]"
    "s_engine s' = foldl (write_chunk env t) (s_engine s1) (map (content_chunk content) [Suc k..<content_chunks content])"
    using p(3) by auto
  have pre: "take (k * CHUNK) content = pre"
  proof -
    have "take (k * CHUNK) content = take (k * CHUNK) (take (Suc k * CHUNK) content)" by (simp add: min_def)
    also have "\<dots> = pre" unfolding c(2) using Cons.prems(4) k by (simp add: min_def)
    finally show ?thesis .
  qed
  have chunk: "content_chunk content k = p"
    using c(2) pre by (simp add: content_chunk_def add.commute [of CHUNK] take_add)
  have "k < content_chunks content" using k c(1) by (simp add: content_chunks_iff)
  then have "[k..<content_chunks content] = k # [Suc k..<content_chunks content]" by (rule upt_conv_Cons)
  then show ?case
    using c p pre chunk by (intro exI [of _ content]) (simp add: content_frame_chunk)
qed

lemma receive_accepts:
  assumes "env_ok env" "writes env" "length content \<le> 5368709120" "transfer_uuid t \<noteq> 0"
    and "active (s_transfers s) = [(t, ActiveDownload d)]" "download_at (length content) k d" "k \<le> content_chunks content"
  shows "\<exists>s'. receive env (map (content_frame (env_blake3 env) Download t content) [k..<content_chunks content]) s = (Ok (), s') \<and>
    download_complete t s' \<and>
    s_engine s' = foldl (write_chunk env t) (s_engine s) (map (content_chunk content) [k..<content_chunks content])"
  using assms(5-)
proof (induction "content_chunks content - k" arbitrary: s d k)
  case 0
  then show ?case
    using download_complete_iff [OF 0(2,3) assms(3)] by (simp add: ret_def content_chunks_def)
next
  case (Suc m)
  then have k: "k < content_chunks content" by simp
  then have lt: "k * CHUNK < length content" by (simp add: content_chunks_iff)
  let ?p = "content_chunk content k"
  let ?s = "after_chunk env t (length content) k d ?p s"
  have step: "handle_binary_frame env (content_frame (env_blake3 env) Download t content k) s = (Ok (), ?s)"
    using handle_chunk [OF assms(1,2) Suc.prems(1,2) assms(3,4)] lt
    by (simp add: content_frame_chunk) (use length_content_chunk in blast)
  have "[k..<content_chunks content] = k # [Suc k..<content_chunks content]" using k by (rule upt_conv_Cons)
  moreover obtain s' where "receive env (map (content_frame (env_blake3 env) Download t content) [Suc k..<content_chunks content]) ?s = (Ok (), s')"
    "download_complete t s'"
    "s_engine s' = foldl (write_chunk env t) (s_engine ?s) (map (content_chunk content) [Suc k..<content_chunks content])"
    using Suc.hyps(1) [of "Suc k" ?s, OF _ _ download_at_received [OF Suc.prems(2), of "s_now s"]] Suc.hyps(2) k
    by (simp add: diff_Suc) (metis diff_Suc diff_Suc_1 old.nat.simps(5))
  ultimately show ?case using step by (simp add: bindm_def)
qed

text \<open>
  C23: A download receives exactly a content: a session with one download that has begun accepts a
  sequence of binary frames up to its completion if and only if they are the frames of a content of the
  announced size, each chunk once, in order, full but for the last, with the right index, offset, final
  flag and digest; and then the engine was given the payloads of these frames, in order, which together
  are the content. So what an upload sends, a download accepts. The engine accepts what it is given.
\<close>

theorem download_receives_content:
  assumes "env_ok env" "writes env" "sz \<le> MAX_BLOB_BYTES" "transfer_uuid t \<noteq> 0"
    and "active (s_transfers s) = [(t, ActiveDownload (download_new t w op h sz now))]"
  shows "(\<exists>s'. receive env fs s = (Ok (), s') \<and> download_complete t s' \<and> s_engine s' = e') \<longleftrightarrow>
    (\<exists>content. length content = unat sz \<and>
       fs = map (content_frame (env_blake3 env) Download t content) [0..<content_chunks content] \<and>
       concat (map (content_chunk content) [0..<content_chunks content]) = content \<and>
       e' = foldl (write_chunk env t) (s_engine s) (map (content_chunk content) [0..<content_chunks content]))"
proof -
  let ?d = "download_new t w op h sz now"
  have sz: "unat sz \<le> 5368709120" using assms(3) by (simp add: word_le_nat_alt unat_max_blob)
  have "blob_chunk_count sz = word_of_nat ((unat sz + (CHUNK - 1)) div CHUNK)"
    by (simp add: CHUNK_def flip: unat_blob_chunk_count)
  then have at: "download_at (unat sz) 0 ?d"
    by (simp add: download_at_def download_new_def download_new_with_progress_def)
  show ?thesis
    using receive_sound [OF assms(1,2) sz assms(4,5) at, of "[]" fs] receive_accepts [OF assms(1,2) _ assms(4,5), of _ 0] at sz
    by (auto simp: concat_content_chunks)
qed

definition demo_downloading :: "unit session" where
  "demo_downloading =
     (let s = session_new () (WorkspaceId 1) (ClientId 2) ''1'' default_limits True 0 in
      s\<lparr>s_transfers := (s_transfers s)\<lparr>active :=
        [(TransferId 3, ActiveDownload (download_new (TransferId 3) (WorkspaceId 1) None demo_hash 2 0))]\<rparr>\<rparr>)"

theorem download_receives_content_witness:
  "\<exists>s'. receive demo_env [content_frame (env_blake3 demo_env) Download (TransferId 3) [7, 9] 0] demo_downloading = (Ok (), s') \<and>
     download_complete (TransferId 3) s' \<and> s_engine s' = ()"
proof -
  have "writes demo_env" by (simp add: writes_def demo_env_def quiet_env_def quiet_engine_def)
  moreover have "active (s_transfers demo_downloading) =
      [(TransferId 3, ActiveDownload (download_new (TransferId 3) (WorkspaceId 1) None demo_hash 2 0))]"
    by (simp add: demo_downloading_def Let_def)
  moreover have "(2 :: u64) \<le> MAX_BLOB_BYTES" by (simp add: MAX_BLOB_BYTES_def)
  ultimately show ?thesis
    using download_receives_content [OF demo_env_ok, of 2 "TransferId 3" demo_downloading "WorkspaceId 1" None demo_hash 0
        "[content_frame (env_blake3 demo_env) Download (TransferId 3) [7, 9] 0]" "()"]
    by (simp add: exI [of _ "[7, 9]"] content_chunks_def CHUNK_def concat_content_chunks content_chunk_def)
qed

end
