(* ===== verification/Transport_Uploads.thy ===== *)
theory Transport_Uploads
  imports Transport_Stream
begin

text \<open>
  What a session has sent of its uploads. The binary frames on the socket are compared with the uploads in the table: at
  any time of any run, the frames sent under the identifier of an active upload are the frames of the bytes
  that went into its running hash. Only \<open>stream_chunk\<close> sends binary frames; every other method is \<open>quiet\<close>: it sends
  none, and it neither advances an upload nor starts one under an identifier that was used before.
\<close>

section \<open>Frames on the socket\<close>

fun binary_frames :: "Outbound list \<Rightarrow> u8 list list" where
  "binary_frames [] = []"
| "binary_frames (SentBinary f # sent) = f # binary_frames sent"
| "binary_frames (_ # sent) = binary_frames sent"

lemma binary_frames_append [simp]: "binary_frames (xs @ ys) = binary_frames xs @ binary_frames ys"
  by (induction xs rule: binary_frames.induct) simp_all

text \<open>The frames that a receiver attributes to a transfer.\<close>

definition frame_transfer :: "'e session_env \<Rightarrow> u8 list \<Rightarrow> TransferId option" where
  "frame_transfer env f =
     (case decode_binary_frame (env_uuid env) (env_blake3 env) f of
        Ok (h, _) \<Rightarrow> if bh_direction h = Upload then Some (bh_transfer_id h) else None
      | Err _ \<Rightarrow> None)"

definition frames_for :: "'e session_env \<Rightarrow> TransferId \<Rightarrow> Outbound list \<Rightarrow> u8 list list" where
  "frames_for env t sent = filter (\<lambda>f. frame_transfer env f = Some t) (binary_frames sent)"

text \<open>The frames of the bytes that an upload has read and hashed so far.\<close>

definition upload_frames :: "(u8 list \<Rightarrow> u8 list) \<Rightarrow> UploadTransfer \<Rightarrow> u8 list list" where
  "upload_frames blake3 u =
     map (\<lambda>k. chunk_frame blake3 Upload (ut_transfer_id u) (unat (ut_size u)) k (content_chunk (ut_hasher u) k))
       [0..<unat (ut_next_chunk_index u)]"

definition linked :: "'e session_env \<Rightarrow> 'e session \<Rightarrow> bool" where
  "linked env s \<longleftrightarrow>
     (\<forall>f\<in>set (binary_frames (s_sent s)). \<exists>t\<in>set (per_connection_ids (s_transfers s)). frame_transfer env f = Some t) \<and>
     (\<forall>i u. hm_get (active (s_transfers s)) i = Some (ActiveUpload u) \<longrightarrow>
        frames_for env i (s_sent s) = upload_frames (env_blake3 env) u)"

section \<open>Quiet methods\<close>

definition progress :: "UploadTransfer \<Rightarrow> TransferId \<times> u64 \<times> u64 \<times> u8 list" where
  "progress u = (ut_transfer_id u, ut_size u, ut_next_chunk_index u, ut_hasher u)"

lemma upload_frames_progress: "progress u = progress v \<Longrightarrow> upload_frames blake3 u = upload_frames blake3 v"
  by (simp add: upload_frames_def progress_def)

definition table_quiet :: "TransferTable \<Rightarrow> TransferTable \<Rightarrow> bool" where
  "table_quiet t0 t \<longleftrightarrow> set (per_connection_ids t0) \<subseteq> set (per_connection_ids t) \<and>
     (\<forall>i u. hm_get (active t) i = Some (ActiveUpload u) \<longrightarrow>
        (\<exists>v. hm_get (active t0) i = Some (ActiveUpload v) \<and> progress u = progress v) \<or>
        i \<notin> set (per_connection_ids t0) \<and> ut_next_chunk_index u = 0)"

definition quiet :: "'e session \<Rightarrow> 'e session \<Rightarrow> bool" where
  "quiet s0 s \<longleftrightarrow> binary_frames (s_sent s) = binary_frames (s_sent s0) \<and> table_quiet (s_transfers s0) (s_transfers s)"

lemma table_quiet_refl: "table_quiet t t"
  by (simp add: table_quiet_def)

lemma quiet_refl: "quiet s s"
  by (simp add: quiet_def table_quiet_refl)

lemma quiet_linked:
  assumes "linked env s0" "quiet s0 s"
  shows "linked env s"
  unfolding linked_def
proof (intro conjI allI impI ballI)
  fix f assume "f \<in> set (binary_frames (s_sent s))"
  then show "\<exists>t\<in>set (per_connection_ids (s_transfers s)). frame_transfer env f = Some t"
    using assms by (fastforce simp: linked_def quiet_def table_quiet_def)
next
  fix i u assume u: "hm_get (active (s_transfers s)) i = Some (ActiveUpload u)"
  have same: "frames_for env i (s_sent s) = frames_for env i (s_sent s0)"
    using assms(2) by (simp add: frames_for_def quiet_def)
  from u assms(2) consider v where "hm_get (active (s_transfers s0)) i = Some (ActiveUpload v)" "progress u = progress v"
    | "i \<notin> set (per_connection_ids (s_transfers s0))" "ut_next_chunk_index u = 0"
    unfolding quiet_def table_quiet_def by blast
  then show "frames_for env i (s_sent s) = upload_frames (env_blake3 env) u"
  proof cases
    case 1
    with assms(1) show ?thesis
      unfolding same linked_def by (simp add: upload_frames_progress [OF 1(2)])
  next
    case 2
    then have "frames_for env i (s_sent s0) = []"
      using assms(1) by (force simp: frames_for_def linked_def filter_empty_conv)
    with 2(2) show ?thesis by (simp add: same upload_frames_def)
  qed
qed

named_theorems quiet_intros \<open>methods that send no chunk\<close>

lemma quiet_parts [quiet_intros]:
  "kept (quiet s0) (call f)" "kept (quiet s0) (on_requests g)" "kept (quiet s0) publish_runtime_status"
  "kept (quiet s0) (fresh_uuid env)" "kept (quiet s0) (fresh_request_id env)" "kept (quiet s0) (reserve_bytes n)"
  by (auto simp: kept_def wp_simps quiet_def publish_runtime_status_def wp_reserve_bytes
      split: prod.split result.split option.split)

lemma quiet_claim [quiet_intros]: "kept (quiet s0) claim_item"
  by (simp add: kept_def quiet_def claim_item_def wp_def Let_def)

lemma quiet_send [quiet_intros]:
  "kept (quiet s0) (send_text env d)" "kept (quiet s0) (send_ping env d)" "kept (quiet s0) (send_pong env d)"
  by (auto simp: kept_def wp_def send_text_def send_ping_def send_pong_def socket_send_def raise_def quiet_def)

lemma quiet_on_transfers:
  assumes "\<And>t. table_quiet (s_transfers s0) t \<Longrightarrow> table_quiet (s_transfers s0) (fst (f t))"
  shows "kept (quiet s0) (on_transfers f)"
proof (rule keepsI)
  fix s assume "quiet s0 s"
  then show "wp (on_transfers f) (\<lambda>_. quiet s0) (quiet s0) s"
    using assms [of "s_transfers s"]
    by (cases "f (s_transfers s)") (simp add: wp_simps quiet_def split: result.split)
qed

lemma quiet_with_transfers:
  "(\<And>t. table_quiet (s_transfers s0) t \<Longrightarrow> table_quiet (s_transfers s0) (f t)) \<Longrightarrow> kept (quiet s0) (with_transfers f)"
  by (simp add: kept_def wp_simps quiet_def)

text \<open>Table operations.\<close>

lemma table_quiet_step:
  assumes "table_quiet t0 t" "set (per_connection_ids t) \<subseteq> set (per_connection_ids t')"
    and "\<And>i u. hm_get (active t') i = Some (ActiveUpload u) \<Longrightarrow>
      \<exists>v. hm_get (active t) i = Some (ActiveUpload v) \<and> progress u = progress v"
  shows "table_quiet t0 t'"
  unfolding table_quiet_def
proof (intro conjI allI impI)
  show "set (per_connection_ids t0) \<subseteq> set (per_connection_ids t')" using assms(1,2) by (auto simp: table_quiet_def)
next
  fix i u assume "hm_get (active t') i = Some (ActiveUpload u)"
  then obtain v where v: "hm_get (active t) i = Some (ActiveUpload v)" "progress u = progress v" using assms(3) by blast
  then have "(\<exists>w. hm_get (active t0) i = Some (ActiveUpload w) \<and> progress v = progress w) \<or>
      i \<notin> set (per_connection_ids t0) \<and> ut_next_chunk_index v = 0"
    using assms(1) unfolding table_quiet_def by blast
  with v(2) show "(\<exists>w. hm_get (active t0) i = Some (ActiveUpload w) \<and> progress u = progress w) \<or>
      i \<notin> set (per_connection_ids t0) \<and> ut_next_chunk_index u = 0"
    by (auto simp: progress_def)
qed

lemma trim_keeps:
  "active (trim_receipts t) = active t \<and> per_connection_ids (trim_receipts t) = per_connection_ids t"
proof (induction t rule: trim_receipts.induct)
  case (1 t)
  then show ?case
    by (subst (1 2) trim_receipts.simps) (auto split: list.split)
qed

lemma record_keeps:
  "active (record_download_begin b t) = active t" "active (record_download_end e t) = active t"
  "per_connection_ids (record_download_begin b t) = per_connection_ids t"
  "per_connection_ids (record_download_end e t) = per_connection_ids t"
  by (simp_all add: record_download_begin_def record_download_end_def trim_keeps)

lemmas quiet_table = quiet_on_transfers table_quiet_step

lemma quiet_tables [quiet_intros]:
  "kept (quiet s0) (on_transfers (mark_progress i now))" "kept (quiet s0) (on_transfers (add_server_need need))"
  "kept (quiet s0) (on_transfers (mark_upload_begin_accepted now i))"
  "kept (quiet s0) (on_transfers (reserve_transfer i))"
  "kept (quiet s0) (with_transfers (add_upload_intent intent retry))"
  "kept (quiet s0) (with_transfers (record_download_end e))" "kept (quiet s0) (with_transfers (add_download d))"
  by (rule quiet_on_transfers quiet_with_transfers, erule table_quiet_step;
      auto simp: mark_progress_def add_server_need_def mark_upload_begin_accepted_def reserve_transfer_def add_upload_intent_def
        add_download_def Let_def record_keeps hm_get_insert progress_def split: option.splits ActiveTransfer.splits if_splits)+

lemma quiet_taking [quiet_intros]:
  "kept (quiet s0) (taking (table_remove i))" "kept (quiet s0) (taking (take_pending_retry op))"
  unfolding taking_def
  by (rule quiet_on_transfers, erule table_quiet_step;
      auto simp: table_remove_def take_pending_retry_def hm_get_remove split: if_splits)+

lemma quiet_downloads [quiet_intros]:
  "kept (quiet s0) (set_download_phase i phase)" "kept (quiet s0) (advance_download i idx off)"
  unfolding set_download_phase_def advance_download_def
  by (rule quiet_on_transfers, erule table_quiet_step;
      auto simp: table_get_def hm_get_insert split: option.splits ActiveTransfer.splits if_splits)+

lemma quiet_progress [quiet_intros]: "kept (quiet s0) (mark_transfer_progress i)"
  unfolding mark_transfer_progress_def by (intro keeps_intros quiet_intros)

lemma quiet_tracked [quiet_intros]: "kept (quiet s0) (send_tracked_text env i e f)"
  unfolding send_tracked_text_def by (intro keeps_intros quiet_intros) (simp_all add: quiet_def)

lemma quiet_queues [quiet_intros]:
  "kept (quiet s0) (enqueue_commands cs)" "kept (quiet s0) (enqueue_replayable_download_commands cs)"
  "kept (quiet s0) (enqueue_front c)" "kept (quiet s0) (defer_live_message m)"
  unfolding enqueue_commands_def enqueue_replayable_download_commands_def enqueue_front_def defer_live_message_def
  by (intro keeps_intros quiet_intros; simp add: quiet_def Let_def)+

lemma quiet_complete [quiet_intros]: "kept (quiet s0) (complete_response i)"
  unfolding complete_response_def by (intro keeps_intros quiet_intros)

lemma quiet_refresh [quiet_intros]: "kept (quiet s0) (refresh_stream_completion env)"
  unfolding refresh_stream_completion_def Let_def by (intro keeps_intros quiet_intros) (simp_all add: quiet_def)

text \<open>A new upload has an identifier that was not used before.\<close>

lemma quiet_announce: "kept (quiet s0) (announce_upload env r w i h sz f)"
  unfolding announce_upload_def by (intro keeps_intros quiet_intros)

lemma table_quiet_add:
  "table_quiet t0 t \<Longrightarrow> ut_transfer_id u \<notin> set (per_connection_ids t0) \<Longrightarrow> ut_next_chunk_index u = 0 \<Longrightarrow>
     table_quiet t0 (add_upload u t)"
  by (auto simp: table_quiet_def add_upload_def hm_get_insert)

lemma table_quiet_reserve:
  assumes "table_quiet t0 t" "reserve_slot x t = (t', r)"
  shows "table_quiet t0 t'" "r = Ok i \<Longrightarrow> i \<notin> set (per_connection_ids t0)"
proof -
  show "table_quiet t0 t'"
    by (rule table_quiet_step [OF assms(1)])
      (use assms(2) in \<open>auto simp: reserve_slot_def reserve_transfer_def split: if_splits\<close>)
  have "set (per_connection_ids t0) \<subseteq> set (per_connection_ids t)" using assms(1) by (simp add: table_quiet_def)
  then show "i \<notin> set (per_connection_ids t0)" if "r = Ok i"
    using that assms(2) by (auto simp: reserve_slot_def reserve_transfer_def split: if_splits)
qed

lemma quiet_upload_blob [quiet_intros]: "kept (quiet s0) (upload_blob env w op h sz)"
proof (rule keepsI)
  fix s assume s: "quiet s0 s"
  have moved: "quiet s0 (s\<lparr>s_engine := e, s_drawn := d, s_transfers := t\<rparr>)" if "table_quiet (s_transfers s0) t" for e d t
    using s that by (simp add: quiet_def)
  have added: "quiet s0 (s\<lparr>s_engine := e, s_drawn := d, s_transfers := add_upload (upload_new i w op h sz content now) t\<rparr>)"
    if "reserve_slot x (s_transfers s) = (t, Ok i)" for x e d t i content now
    using s table_quiet_reserve [OF _ that] by (intro moved table_quiet_add) (auto simp: quiet_def upload_new_def)
  show "wp (upload_blob env w op h sz) (\<lambda>_. quiet s0) (quiet s0) s"
    using s moved added table_quiet_reserve(1) [of "s_transfers s0" "s_transfers s"]
    by (auto simp: upload_blob_def wp_simps quiet_def split: result.split prod.split option.split
        intro!: keepsD [OF quiet_announce])
qed

text \<open>The commands, the drain without its upload turn, and the handlers.\<close>

lemma quiet_request_or_defer [quiet_intros]: "kept (quiet s0) (send_request_or_defer env a b e c)"
  unfolding send_request_or_defer_def by (intro keeps_intros quiet_intros)

lemma quiet_send_command [quiet_intros]: "kept (quiet s0) (send_command env c)"
  by (cases c)
    (simp_all only: send_command.simps send_mutation_def send_resolution_def send_ack_def send_download_def send_upload_def Let_def,
      (intro keeps_intros quiet_intros; simp add: quiet_def)+)

lemma quiet_send_next: "kept (quiet s0) continue \<Longrightarrow> kept (quiet s0) (send_next env continue)"
  unfolding send_next_def by (intro keeps_intros quiet_intros) (simp_all add: quiet_def)

lemma quiet_queue_items: "kept (quiet s0) (drain_queue_items env n)"
  by (induction n) (simp_all add: keeps_ret keeps_bindm quiet_send_next quiet_claim)

lemma quiet_drain_queue [quiet_intros]: "kept (quiet s0) (drain_pending_queue env)"
  unfolding drain_pending_queue_def by (intro keeps_intros quiet_queue_items)

lemma quiet_deliver [quiet_intros]: "kept (quiet s0) (deliver_deferred env m)"
  by (cases m) (simp_all add: quiet_parts)

lemma quiet_deliver_next: "kept (quiet s0) continue \<Longrightarrow> kept (quiet s0) (deliver_next env continue)"
  unfolding deliver_next_def by (intro keeps_intros quiet_intros) (simp_all add: quiet_def)

lemma quiet_drain_deferred: "kept (quiet s0) (drain_deferred_items env n)"
proof (induction n)
  case (Suc n)
  then show ?case unfolding drain_deferred_items.simps by (intro keeps_intros quiet_intros quiet_deliver_next)
qed (simp add: keeps_ret)

lemma quiet_subscribe [quiet_intros]: "kept (quiet s0) (send_subscribe env)"
  unfolding send_subscribe_def by (intro keeps_intros quiet_intros) (simp add: quiet_def)

lemma quiet_drain_ack: "kept (quiet s0) (drain_ack env)"
  unfolding drain_ack_def by (intro keeps_intros quiet_intros)

lemma quiet_drain_fetch: "kept (quiet s0) (drain_fetch env)"
  unfolding drain_fetch_def by (intro keeps_intros quiet_intros)

lemma quiet_download_end: "kept (quiet s0) (advance_download_end env)"
  unfolding advance_download_end_def Let_def by (intro keeps_intros quiet_intros)

lemma quiet_handlers [quiet_intros]:
  "kept (quiet s0) (handle_failure env i e)" "kept (quiet s0) (handle_snapshot_begin env b)"
  "kept (quiet s0) (handle_snapshot_end env n)" "kept (quiet s0) (handle_event env v)"
  "kept (quiet s0) (handle_conflict_created env c)" "kept (quiet s0) (handle_conflict_resolved env i r)"
  "kept (quiet s0) (handle_ack env i a)" "kept (quiet s0) (handle_need_upload u)"
  unfolding handle_failure_def handle_snapshot_begin_def handle_snapshot_end_def handle_event_def handle_conflict_created_def
    handle_conflict_resolved_def handle_ack_def handle_need_upload_def Let_def
  by (intro keeps_intros quiet_intros; simp add: quiet_def)+

lemma quiet_blob_handlers [quiet_intros]:
  "kept (quiet s0) (handle_need_download_response i d)" "kept (quiet s0) (begin_download env b)"
  "kept (quiet s0) (finish_upload env i n)" "kept (quiet s0) (commit_download env i)" "kept (quiet s0) (seal_download env n)"
  unfolding handle_need_download_response_def begin_download_def finish_upload_def commit_download_def seal_download_def
  by (intro keeps_intros quiet_intros; simp add: quiet_def)+

lemma quiet_text_frame: "kept (quiet s0) (handle_text_frame env d)"
  unfolding handle_text_frame_def handle_request_envelope_def handle_body_def handle_blob_begin_def handle_blob_end_def
  by (intro keeps_intros quiet_intros)

lemma quiet_binary_frame: "kept (quiet s0) (handle_binary_frame env d)"
  unfolding handle_binary_frame_def by (intro keeps_intros quiet_intros)

section \<open>The turn of an upload\<close>

lemma take_upload_origin:
  assumes "table_inv b t0" "env_ok env" "take_upload_in_phase (env_order env) phase t0 = (t, found)"
  shows "table_quiet t0 t"
    and "found = Some u \<Longrightarrow> hm_get (active t0) (ut_transfer_id u) = Some (ActiveUpload u) \<and> hm_get (active t) (ut_transfer_id u) = None"
proof -
  let ?p = "\<lambda>(_, tr). case tr of ActiveUpload u \<Rightarrow> ut_phase u = phase | _ \<Rightarrow> False"
  have "table_quiet t0 t \<and>
      (found = Some u \<longrightarrow> hm_get (active t0) (ut_transfer_id u) = Some (ActiveUpload u) \<and> hm_get (active t) (ut_transfer_id u) = None)"
  proof (cases "find ?p (env_order env (active t0))")
    case (Some e)
    obtain i tr where e: "e = (i, tr)" by fastforce
    have "e \<in> set (active t0)" and p: "?p e"
      using Some assms(2) by (auto simp: find_Some_iff env_ok_def) (metis nth_mem)
    then have get: "hm_get (active t0) i = Some tr" using e table_inv_wf [OF assms(1)] by (simp add: hm_get_mem)
    obtain v where v: "tr = ActiveUpload v" using p e by (cases tr) auto
    have "t = t0\<lparr>active := hm_remove i (active t0)\<rparr>" "found = Some v"
      using Some e assms(3) get v by (auto simp: take_upload_in_phase_def)
    moreover have "ut_transfer_id v = i" using table_inv_lookup [OF assms(1) get] v by (simp add: active_id_def)
    ultimately show ?thesis using get v by (auto simp: table_quiet_def hm_get_remove split: if_splits)
  qed (use assms(3) in \<open>simp add: take_upload_in_phase_def table_quiet_refl\<close>)
  then show "table_quiet t0 t" "found = Some u \<Longrightarrow>
      hm_get (active t0) (ut_transfer_id u) = Some (ActiveUpload u) \<and> hm_get (active t) (ut_transfer_id u) = None" by blast+
qed

lemma sent_frame:
  assumes env: "env_ok env" and ok: "upload_ok (env_blake3 env) u" and more: "ut_next_offset u \<noteq> ut_size u"
    and n: "n = next_payload_len (ut_size u) (ut_next_offset u)" "n \<le> length (ut_file u)"
    and f: "encode_binary_frame_owned (env_blake3 env) Upload (ut_next_offset u + word_of_nat n = ut_size u) (ut_transfer_id u)
      (ut_next_chunk_index u) (ut_next_offset u) (take n (ut_file u)) = Ok f"
  shows "upload_frames (env_blake3 env) (chunk_sent u) = upload_frames (env_blake3 env) u @ [f]"
    and "frame_transfer env f = Some (ut_transfer_id u)"
proof -
  let ?b = "env_blake3 env" and ?k = "unat (ut_next_chunk_index u)" and ?p = "take n (ut_file u)"
  have prog: "chunk_progress (ut_size u) (ut_next_chunk_index u) (ut_next_offset u)"
    and hashed: "length (ut_hasher u) = unat (ut_next_offset u)" using ok by (simp_all add: upload_ok_def)
  note step = chunk_progress_step [OF prog more n(1)]
  have off: "unat (ut_next_offset u) = ?k * CHUNK" and le: "unat (ut_next_offset u) \<le> unat (ut_size u)"
    using prog more by (auto simp: chunk_progress_nat CHUNK_def)
  have len: "n = min (unat (ut_size u) - unat (ut_next_offset u)) CHUNK"
    unfolding n(1) using le by (simp add: next_payload_len_nat word_le_nat_alt CHUNK_def)
  have p: "length ?p = n" "?p \<noteq> []" "length ?p \<le> 1048576" using n(2) step(4,5) by auto
  have final: "ut_next_offset u + word_of_nat n = ut_size u \<longleftrightarrow> unat (ut_size u) \<le> Suc ?k * CHUNK"
    using step(2) off le len by (auto simp: word_unat_eq_iff)
  have uuid: "transfer_uuid (ut_transfer_id u) \<noteq> 0" and env32: "length (?b ?p) = 32" and lib: "uuid_law (env_uuid env)"
    using f env by (auto simp: encode_binary_frame_owned_def result_simps env_ok_def)
  have word: "word_of_nat ?k = ut_next_chunk_index u" "word_of_nat (?k * CHUNK) = ut_next_offset u"
    by (simp_all add: off [symmetric])
  have frame: "f = chunk_frame ?b Upload (ut_transfer_id u) (unat (ut_size u)) ?k ?p"
    using f encode_binary_frame_owned_eq [of ?b ?p, OF env32 uuid] p
    by (simp add: chunk_frame_def final word validate_payload_len_def BLOB_CHUNK_BYTES_def not_less del: of_nat_mult)
  have last: "content_chunk (ut_hasher u @ ?p) ?k = ?p"
    using p len by (simp add: content_chunk_def hashed off)
  have before: "content_chunk (ut_hasher u @ ?p) j = content_chunk (ut_hasher u) j" if "j < ?k" for j
  proof -
    have "Suc j * CHUNK \<le> length (ut_hasher u)" unfolding hashed off using that by (intro mult_le_mono1) simp
    then show ?thesis by (simp add: content_chunk_def)
  qed
  have "upload_frames ?b (chunk_sent u) =
      map (\<lambda>j. chunk_frame ?b Upload (ut_transfer_id u) (unat (ut_size u)) j (content_chunk (ut_hasher u @ ?p) j)) [0..<Suc ?k]"
    using step(3) by (simp add: upload_frames_def chunk_sent_def Let_def n(1))
  also have "\<dots> = upload_frames ?b u @ [f]" by (simp add: upload_frames_def frame last before)
  finally show "upload_frames ?b (chunk_sent u) = upload_frames ?b u @ [f]" .
  let ?h = "(chunk_header ?b (ut_transfer_id u) (unat (ut_size u)) ?k ?p)\<lparr>bh_direction := Upload\<rparr>"
  have "decode_binary_frame (env_uuid env) ?b f = Ok (?h, ?p)"
    using decode_encoded [OF lib, of ?h ?b ?p] uuid p env32
    by (simp add: header_wf_def header_bytes_def chunk_header_def chunk_frame_def frame)
  then show "frame_transfer env f = Some (ut_transfer_id u)" by (simp add: frame_transfer_def chunk_header_def)
qed

text \<open>An upload that was taken out of the table, and what the socket has of it.\<close>

definition towing :: "'e session_env \<Rightarrow> UploadTransfer \<Rightarrow> 'e session \<Rightarrow> bool" where
  "towing env u s \<longleftrightarrow> linked env s \<and> frames_for env (ut_transfer_id u) (s_sent s) = upload_frames (env_blake3 env) u"

lemma linked_put: "towing env u s \<Longrightarrow> linked env (s\<lparr>s_transfers := put_upload u (s_transfers s)\<rparr>)"
  by (auto simp: towing_def linked_def put_upload_def hm_get_insert)

lemma towing_quiet: "towing env u s \<Longrightarrow> quiet s s' \<Longrightarrow> towing env u s'"
  using quiet_linked [of env s s'] by (simp add: towing_def frames_for_def quiet_def)

lemma towing_progress: "towing env u s \<Longrightarrow> progress v = progress u \<Longrightarrow> towing env v s"
  using upload_frames_progress [of v u "env_blake3 env"] by (auto simp: towing_def progress_def)

lemma towing_frame [simp]:
  "towing env u (s\<lparr>s_budget := b\<rparr>) = towing env u s" "towing env u (s\<lparr>s_drawn := d\<rparr>) = towing env u s"
  by (simp_all add: towing_def linked_def)

lemma linked_frame [simp]: "linked env (s\<lparr>s_budget := b\<rparr>) = linked env s"
  by (simp add: linked_def)

lemma towing_sent:
  assumes "towing env u s" "hm_get (active (s_transfers s)) (ut_transfer_id u) = None"
    and "ut_transfer_id u \<in> set (per_connection_ids (s_transfers s))" "ut_transfer_id v = ut_transfer_id u"
    and "upload_frames (env_blake3 env) v = upload_frames (env_blake3 env) u @ [f]" "frame_transfer env f = Some (ut_transfer_id u)"
  shows "towing env v (s\<lparr>s_sent := s_sent s @ [SentBinary f]\<rparr>)"
  using assms by (auto simp: towing_def linked_def frames_for_def)

lemma wp_progress_linked: "linked env s \<Longrightarrow> wp (mark_transfer_progress i) (\<lambda>_. linked env) (linked env) s"
  by (rule wp_mono [OF keepsD [OF quiet_progress quiet_refl]]) (auto intro: quiet_linked)

lemma stream_chunk_linked:
  assumes carried: "carrying env u s" "towing env u s" "hm_get (active (s_transfers s)) (ut_transfer_id u) = None"
    and env: "env_ok env" and more: "ut_next_offset u \<noteq> ut_size u"
  shows "wp (stream_chunk env u) (\<lambda>_. linked env) (linked env) s"
proof -
  define n where "n = next_payload_len (ut_size u) (ut_next_offset u)"
  define p where "p = take n (ut_file u)"
  define final where "final = (ut_next_offset u + word_of_nat n = ut_size u)"
  note folds = n_def [symmetric] p_def [symmetric] final_def [symmetric]
  have s: "linked env s" "linked env (s\<lparr>s_transfers := put_upload u (s_transfers s)\<rparr>)"
    using linked_put [OF carried(2)] carried(2) by (simp_all add: towing_def)
  show ?thesis
  proof (cases "can_reserve_bytes (BLOB_HEADER_LEN + n) s \<and> n \<le> length (ut_file u) \<and>
      (final \<longrightarrow> drop n (ut_file u) = [] \<and> hashed_content (env_blake3 env) (ut_hasher u @ p) = Ok (ut_content_hash u))")
    case False
    then show ?thesis
      by (auto simp: stream_chunk_def Let_def wp_simps wp_verify_uploaded s not_less folds)
  next
    case True
    show ?thesis
    proof (cases "encode_binary_frame_owned (env_blake3 env) Upload final (ut_transfer_id u)
        (ut_next_chunk_index u) (ut_next_offset u) p")
      case (Err e)
      with True show ?thesis
        by (simp add: stream_chunk_def Let_def wp_simps wp_verify_uploaded s folds)
    next
      case (Ok f)
      then have len: "length f = BLOB_HEADER_LEN + n"
        using encode_owned_length [OF _ Ok] env True by (simp add: env_ok_def p_def min_absorb2)
      have ok: "upload_ok (env_blake3 env) u" "ut_transfer_id u \<in> set (per_connection_ids (s_transfers s))"
        using carried(1) by (simp_all add: carrying_def)
      note sent = sent_frame [OF env ok(1) more n_def _ Ok [unfolded p_def final_def]]
      have "towing env (chunk_sent u) (s\<lparr>s_sent := s_sent s @ [SentBinary f]\<rparr>)"
        using True sent by (intro towing_sent [OF carried(2,3) ok(2)]) (simp_all add: chunk_sent_def Let_def)
      then have "towing env (chunk_sent u) (s\<lparr>s_budget := b, s_sent := s_sent s @ [SentBinary f]\<rparr>)" for b
        by (simp add: towing_def linked_def)
      from linked_put [OF this] have put: "linked env (s\<lparr>s_budget := b, s_sent := s_sent s @ [SentBinary f],
          s_transfers := put_upload (chunk_sent u) (s_transfers s)\<rparr>)" for b
        by simp
      have "wp (stream_chunk env u) (\<lambda>_. linked env) (linked env) s \<longleftrightarrow>
        (if env_socket_ok env (length (s_sent s)) then
           wp (mark_transfer_progress (ut_transfer_id u)) (\<lambda>_. linked env) (linked env)
             (s\<lparr>s_budget := (s_budget s)\<lparr>bytes_remaining := bytes_remaining (s_budget s) - length f\<rparr>,
                s_sent := s_sent s @ [SentBinary f], s_transfers := put_upload (chunk_sent u) (s_transfers s)\<rparr>)
         else linked env s)"
        using wp_stream_chunk_sent [of u s env f "\<lambda>_. linked env" "linked env"] True Ok len
        unfolding folds by simp
      then show ?thesis using s(1) wp_progress_linked [OF put] by simp
    qed
  qed
qed

lemma end_upload_linked:
  assumes "towing env u s" shows "wp (end_upload env u) (\<lambda>_. linked env) (linked env) s"
proof -
  have put: "linked env (s'\<lparr>s_transfers := put_upload v (s_transfers s')\<rparr>)"
    if "quiet (s\<lparr>s_drawn := d\<rparr>) s'" "progress v = progress u" for s' v d
  proof -
    have "towing env v (s\<lparr>s_drawn := d\<rparr>)" using towing_progress [OF assms that(2)] by simp
    then show ?thesis by (rule linked_put [OF towing_quiet [OF _ that(1)]])
  qed
  have drawn: "linked env (s\<lparr>s_drawn := d\<rparr>)" for d using assms by (simp add: towing_def linked_def)
  have send: "wp (send_tracked_text env i e f) (\<lambda>_. quiet (s\<lparr>s_drawn := d\<rparr>)) (linked env) (s\<lparr>s_drawn := d\<rparr>)" for i e f d
    by (rule wp_mono [OF keepsD [OF quiet_tracked quiet_refl]]) (auto intro: quiet_linked [OF drawn])
  show ?thesis
    using drawn
    by (auto simp: end_upload_def wp_simps progress_def split: result.split
        intro!: wp_mono [OF send] wp_progress_linked put)
qed

lemma advance_upload_linked:
  assumes inv: "session_inv env s" and linked: "linked env s" and env: "env_ok env"
  shows "wp (advance_upload env) (\<lambda>_. linked env) (linked env) s"
proof -
  have taken: "linked env (s'\<lparr>s_transfers := t\<rparr>) \<and> session_inv env (s'\<lparr>s_transfers := t\<rparr>) \<and>
      (\<forall>u. found = Some u \<longrightarrow> carrying env u (s'\<lparr>s_transfers := t\<rparr>) \<and> towing env u (s'\<lparr>s_transfers := t\<rparr>) \<and>
        hm_get (active t) (ut_transfer_id u) = None)"
    if s': "session_inv env s'" "linked env s'" and take: "take_upload_in_phase (env_order env) phase (s_transfers s') = (t, found)"
    for phase t found s'
  proof -
    note origin = take_upload_origin [OF session_inv_table [OF s'(1)] env take]
    have "linked env (s'\<lparr>s_transfers := t\<rparr>)"
      by (rule quiet_linked [OF s'(2)]) (simp add: quiet_def origin(1))
    then show ?thesis
      using take_upload [OF s'(1) env take] origin(2) s'(2) by (auto simp: towing_def linked_def)
  qed
  have streaming: "wp (advance_streaming env u) (\<lambda>_. linked env) (linked env) s'"
    if "carrying env u s'" "towing env u s'" "hm_get (active (s_transfers s')) (ut_transfer_id u) = None" for u s'
    using stream_chunk_linked [OF that env] that(2) linked_put [OF towing_progress [OF that(2), of "u\<lparr>ut_phase := ReadyForEnd\<rparr>"]]
    by (auto simp: advance_streaming_def wp_simps wp_verify_uploaded progress_def towing_def)
  obtain t ready where r: "take_upload_in_phase (env_order env) ReadyForEnd (s_transfers s) = (t, ready)" by fastforce
  note first = taken [OF inv linked r]
  obtain t' found where f: "take_upload_in_phase (env_order env) Streaming t = (t', found)" by fastforce
  then have second: "take_upload_in_phase (env_order env) Streaming (s_transfers (s\<lparr>s_transfers := t\<rparr>)) = (t', found)" by simp
  note second' = taken [OF first [THEN conjunct2, THEN conjunct1] first [THEN conjunct1] second]
  show ?thesis
    using first second' r f
    by (auto simp: advance_upload_def wp_simps take_upload_ready_for_end_def take_streaming_upload_def split: option.split
        intro!: end_upload_linked streaming)
qed

section \<open>Runs\<close>

definition upload_inv :: "'e session_env \<Rightarrow> 'e session \<Rightarrow> bool" where
  "upload_inv env s \<longleftrightarrow> session_inv env s \<and> linked env s"

lemma upload_inv_frame [simp]:
  "upload_inv env (s\<lparr>s_now := n\<rparr>) = upload_inv env s" "upload_inv env (s\<lparr>s_last_inbound_at := a\<rparr>) = upload_inv env s"
  "upload_inv env (s\<lparr>s_budget := b\<rparr>) = upload_inv env s" "upload_inv env (s\<lparr>s_refresh_requested := r\<rparr>) = upload_inv env s"
  by (simp_all add: upload_inv_def linked_def)

lemma kept_quiet:
  assumes "keeps env m" "\<And>s0. kept (quiet s0) m" shows "kept (upload_inv env) m"
proof (rule keepsI)
  fix s assume s: "upload_inv env s"
  show "wp m (\<lambda>_. upload_inv env) (upload_inv env) s"
    by (rule wp_mono [OF wp_conj [OF keepsD [OF assms(1)] keepsD [OF assms(2) quiet_refl]]])
      (use s in \<open>auto simp: upload_inv_def intro: quiet_linked\<close>)
qed

lemma kept_advance_upload: "env_ok env \<Longrightarrow> kept (upload_inv env) (advance_upload env)"
  by (rule keepsI, rule wp_mono [OF wp_conj [OF keepsD [OF keeps_advance_upload] advance_upload_linked]])
    (auto simp: upload_inv_def)

lemma kept_drain_outbound:
  assumes env: "env_ok env" shows "kept (upload_inv env) (drain_outbound env)"
proof -
  note quiet_turns = kept_quiet [OF keeps_send_subscribe quiet_subscribe] kept_quiet [OF keeps_refresh quiet_refresh]
    kept_quiet [OF session_frame.kept_budget(1) quiet_claim] kept_quiet [OF keeps_download_end [OF env] quiet_download_end]
    kept_quiet [OF keeps_drain_ack quiet_drain_ack] kept_quiet [OF keeps_drain_deferred quiet_drain_deferred]
    kept_quiet [OF keeps_drain_queue quiet_drain_queue] kept_quiet [OF keeps_drain_fetch quiet_drain_fetch]
  show ?thesis
    unfolding drain_outbound_def with_item_def
    by (intro keeps_intros kept_advance_upload env quiet_turns) simp_all
qed

lemma kept_publish_inv: "kept (upload_inv env) publish_runtime_status"
  by (rule kept_quiet [OF session_frame.kept_publish quiet_parts(3)])

lemma kept_finish: "kept (upload_inv env) m \<Longrightarrow> upload_inv env s \<Longrightarrow> upload_inv env (snd (finish m s))"
  using keeps_snd [of "upload_inv env" m s] keeps_snd [OF kept_publish_inv]
  by (auto simp: finish_def split: prod.split result.split)

lemma kept_network_failure: "kept (upload_inv env) m \<Longrightarrow> kept (upload_inv env) (network_failure m)"
  by (auto simp: kept_def wp_def network_failure_def split: prod.splits result.splits)

lemma loop_turn_linked:
  assumes env: "env_ok env" and s: "upload_inv env s" shows "upload_inv env (snd (loop_turn env event s))"
proof (cases event)
  case (InboundItem item)
  have s': "upload_inv env (s\<lparr>s_last_inbound_at := s_now s\<rparr>)" using s by simp
  note handlers = kept_network_failure [OF kept_quiet [OF session_frame.kept_send(4) quiet_send(3)]]
    kept_quiet [OF keeps_text_frame quiet_text_frame] kept_quiet [OF keeps_binary_frame [OF env] quiet_binary_frame] keeps_ret
  from InboundItem show ?thesis
    using s' handlers [THEN kept_finish, OF s']
    by (simp add: loop_turn_def Let_def split: option.split result.split InboundMessage.split)
qed (use s keeps_snd [OF kept_publish_inv] in
    \<open>auto simp: loop_turn_def intro!: kept_finish kept_drain_outbound env
       kept_network_failure kept_quiet [OF session_frame.kept_send(3) quiet_send(2)] split: option.split\<close>)

lemma session_loop_linked:
  "env_ok env \<Longrightarrow> upload_inv env s \<Longrightarrow> upload_inv env (snd (session_loop env events s))"
proof (induction env events s rule: session_loop.induct)
  case (2 env now event rest s)
  then show ?case
    using loop_turn_linked [OF 2(2), of "s\<lparr>s_now := now\<rparr>" event]
    by (auto split: prod.split option.split)
qed simp

lemma quiet_hello: "kept (quiet s0) (handle_hello_text env d)" "kept (quiet s0) (send_hello_request env)"
  unfolding handle_hello_text_def send_hello_request_def by (intro keeps_intros quiet_intros; simp add: quiet_def)+

lemma quiet_await_hello: "kept (quiet s0) (await_hello env items)"
proof (induction env items rule: await_hello.induct)
  case (2 env now item rest)
  have "kept (quiet s0) (bindm (modify (\<lambda>s. s\<lparr>s_now := now\<rparr>)) (\<lambda>_. handle_hello_text env d))"
    "kept (quiet s0) (await_hello env rest) \<Longrightarrow> kept (quiet s0) (bindm (modify (\<lambda>s. s\<lparr>s_now := now, s_last_inbound_at := now\<rparr>)) (\<lambda>_.
        bindm (send_pong env d) (\<lambda>_. await_hello env rest)))" for d
    by (intro keeps_intros quiet_intros quiet_hello; simp add: quiet_def)+
  with 2 show ?case by (simp add: keeps_raise split: result.split InboundMessage.split)
qed (simp add: keeps_raise)

lemma run_linked:
  assumes env: "env_ok env" and s: "upload_inv env s" shows "upload_inv env (snd (run env hello events s))"
proof -
  have hello: "kept (upload_inv env) (send_hello env items)" for items
    unfolding send_hello_def
    by (intro keeps_intros kept_quiet [OF keeps_hello_request quiet_hello(2)] kept_quiet [OF keeps_await_hello quiet_await_hello])
  note subscribe = kept_quiet [OF keeps_send_subscribe quiet_subscribe]
  have inner: "upload_inv env (snd (run_inner env hello events s'))" if "upload_inv env s'" for s'
    using keeps_snd [OF hello that, of hello] keeps_snd [OF subscribe, of env "snd (send_hello env hello s')"] session_loop_linked [OF env]
    by (auto simp: run_inner_def split: prod.split result.split)
  note calls = kept_quiet [OF session_frame.kept_call quiet_parts(1)]
  show ?thesis
    using keeps_snd [OF calls s, of "eng_prepare_connection_attempt (env_engine env)"] inner
      keeps_snd [OF calls, of env _ "eng_abort_blob_imports (env_engine env)"]
    by (fastforce simp: run_def split: prod.split result.split option.split)
qed

lemma upload_inv_new: "upload_inv env (session_new e w c v limits observed now)"
proof -
  have "linked env (session_new e w c v limits observed now)" by (simp add: linked_def session_new_def table_new_def)
  with session_inv_new show ?thesis by (simp add: upload_inv_def)
qed



end
