(* ===== verification/Transport_Timers.thy ===== *)
theory Transport_Timers
  imports Transport_Safety
begin

text \<open>
  The deadline that the event loop sleeps until (\<open>next_deadline\<close>) and the check that it makes when it
  wakes (\<open>expired_error\<close>) agree: the loop neither spins on a deadline that the check does not see nor
  misses one.
\<close>

section \<open>The earliest deadline\<close>

lemma first_min_None [simp]: "first_min f xs = None \<longleftrightarrow> xs = []"
  by (cases xs) (auto split: option.split)

lemma first_min_le: "first_min id xs = Some d \<Longrightarrow> d \<le> now \<longleftrightarrow> (\<exists>x\<in>set xs. x \<le> now)"
  by (induction xs arbitrary: d) (auto split: option.splits if_splits)

lemma min_deadline_first_min:
  "min_deadline d (first_min id xs) \<le> now \<longleftrightarrow> d \<le> now \<or> (\<exists>x\<in>set xs. x \<le> now)"
  using first_min_le [of xs _ now] by (auto simp: min_deadline_def min_le_iff_disj split: option.split)

lemma min_deadline_le: "min_deadline d (Some x) \<le> now \<longleftrightarrow> d \<le> now \<or> x \<le> now" "min_deadline d None = d"
  by (auto simp: min_deadline_def min_le_iff_disj)

definition timeouts_positive :: "SessionLimits \<Rightarrow> bool" where
  "timeouts_positive limits \<longleftrightarrow> 0 < sl_request_timeout limits \<and> 0 < sl_idle_timeout limits \<and>
     0 < sl_transfer_idle_timeout limits \<and> 0 < sl_transfer_max_lifetime limits"

lemma elapsed_iff: "0 < timeout \<Longrightarrow> timeout \<le> now - t \<longleftrightarrow> t + timeout \<le> (now :: nat)"
  by arith

lemma ex_ordered:
  assumes "set (ord xs) = set xs" shows "filter p (ord xs) = [] \<longleftrightarrow> \<not> (\<exists>x\<in>set xs. p x)"
  using assms by (simp add: filter_empty_conv)

lemma tracker_expired_iff:
  assumes "set (ord (rt_entries r)) = set (rt_entries r)" "0 < timeout"
  shows "tracker_expired ord now timeout r \<noteq> None \<longleftrightarrow> (\<exists>e\<in>set (rt_entries r). if_sent_at (snd e) + timeout \<le> now)"
  using assms by (simp add: tracker_expired_def ex_ordered [of ord] elapsed_iff)

lemma table_expired_iff:
  assumes "set (ord (active t)) = set (active t)" "0 < idle" "0 < lifetime"
  shows "table_expired ord now idle lifetime t \<noteq> None \<longleftrightarrow>
    (\<exists>e\<in>set (active t). transfer_deadline idle lifetime (snd e) \<le> now)"
  using assms
  by (simp add: table_expired_def ex_ordered [of ord] transfer_expired_def transfer_deadline_def elapsed_iff min_le_iff_disj)

lemma pending_expired_iff:
  assumes "timeouts_positive limits"
  shows "pending_expired limits now p \<longleftrightarrow> pending_deadline limits p \<le> now"
  using assms by (simp add: pending_expired_def pending_deadline_def timeouts_positive_def elapsed_iff min_le_iff_disj)

text \<open>
  C24: The timers are exact. When the loop wakes at its deadline, the check finds something expired and
  the session ends with a retryable request, transfer or idle timeout; when it wakes before the
  deadline, nothing is expired and the session goes on. So a server that stops answering is always
  given up, at the announced time. The timeouts are positive.
\<close>

theorem timers_exact:
  assumes "env_ok env" "timeouts_positive (s_limits s)"
  shows "(expired_error env now s \<noteq> None \<longleftrightarrow> next_deadline s \<le> now) \<and>
    (next_deadline s \<le> now \<longrightarrow>
       (\<exists>e. fst (loop_turn env DeadlineElapsed (s\<lparr>s_now := now\<rparr>)) = Some (SessionError e) \<and> te_retryable e \<and>
          te_code e \<in> {RequestTimeout, TransferTimeout, IdleTimeout})) \<and>
    (now < next_deadline s \<longrightarrow> fst (loop_turn env DeadlineElapsed (s\<lparr>s_now := now\<rparr>)) = None)"
proof -
  let ?l = "s_limits s"
  have pos: "0 < sl_request_timeout ?l" "0 < sl_idle_timeout ?l" "0 < sl_transfer_idle_timeout ?l"
    "0 < sl_transfer_max_lifetime ?l" using assms(2) by (auto simp: timeouts_positive_def)
  have ord: "set (env_order env xs) = set xs" "set (env_request_order env ys) = set ys" for xs ys
    using assms(1) by (auto simp: env_ok_def)
  note requests =
    tracker_expired_iff [of "env_request_order env" "s_requests s", OF ord(2) pos(1)]
    and transfers = table_expired_iff [of "env_order env" "s_transfers s", OF ord(1) pos(3,4)]
    and pendings = pending_expired_iff [OF assms(2)]
  have deadline: "next_deadline s \<le> now \<longleftrightarrow>
      s_last_inbound_at s + sl_idle_timeout ?l \<le> now \<or>
      (\<exists>e\<in>set (rt_entries (s_requests s)). if_sent_at (snd e) + sl_request_timeout ?l \<le> now) \<or>
      (\<exists>d. s_subscribe_deadline s = Some d \<and> d \<le> now) \<or>
      (\<exists>e\<in>set (active (s_transfers s)). transfer_deadline (sl_transfer_idle_timeout ?l) (sl_transfer_max_lifetime ?l) (snd e) \<le> now) \<or>
      (\<exists>p\<in>set (s_pending_downloads s). pending_deadline ?l p \<le> now)"
    by (cases "s_subscribe_deadline s")
      (simp_all add: next_deadline_def Let_def table_next_deadline_def tracker_next_deadline_def min_deadline_first_min
        min_deadline_le disj_ac)
  have exp: "expired_error env n s = expired_error env n (s\<lparr>s_now := now\<rparr>)" for n
    by (simp add: expired_error_def Let_def)
  have main: "expired_error env now s \<noteq> None \<longleftrightarrow> next_deadline s \<le> now"
    unfolding deadline expired_error_def
    using elapsed_iff [OF pos(2), of now "s_last_inbound_at s"]
    by (auto simp: Let_def requests [unfolded not_None_eq] transfers [unfolded not_None_eq] pendings list_ex_iff
        split: option.splits)
  moreover have "te_retryable e \<and> te_code e \<in> {RequestTimeout, TransferTimeout, IdleTimeout}"
    if "expired_error env now s = Some e" for e
    using that by (auto simp: expired_error_def Let_def split: if_splits)
  ultimately show ?thesis
    by (auto simp: loop_turn_def exp [symmetric] not_le split: option.split)
qed

theorem timers_exact_witness:
  "\<exists>e. fst (loop_turn demo_env DeadlineElapsed
     ((session_new () (WorkspaceId 1) (ClientId 2) ''1'' default_limits True 0)\<lparr>s_now := 90000\<rparr>)) = Some (SessionError e) \<and> te_retryable e"
proof -
  let ?s = "session_new () (WorkspaceId 1) (ClientId 2) ''1'' default_limits True 0"
  have "timeouts_positive (s_limits ?s)"
    by (simp add: timeouts_positive_def session_new_def default_limits_def REQUEST_TIMEOUT_def IDLE_TIMEOUT_def
        TRANSFER_IDLE_TIMEOUT_def TRANSFER_MAX_LIFETIME_def)
  moreover have "next_deadline ?s \<le> 90000"
    by (simp add: next_deadline_def session_new_def Let_def default_limits_def IDLE_TIMEOUT_def tracker_next_deadline_def
        table_next_deadline_def table_new_def tracker_new_def min_deadline_def)
  ultimately show ?thesis using timers_exact [OF demo_env_ok, of ?s 90000] by blast
qed

section \<open>Deferred uploads\<close>

text \<open>
  C25: An upload that is put off because the drain has no bytes left has already used up a transfer
  identifier: nothing is sent and no transfer is active, but the identifier stays reserved for the
  connection, which has only 1024. The default budget of a drain is exactly one full chunk, so every
  drain that sends a full chunk of one upload puts off the start of another in this way.
\<close>

theorem deferred_upload_consumes_id:
  assumes "available_slots (s_requests s) \<noteq> 0" "sz \<le> MAX_BLOB_BYTES"
    and "eng_open_blob (env_engine env) h (s_engine s) = (Ok (Some sz, file), e)"
    and "reserve_slot (env_fresh env (s_drawn s)) (s_transfers s) = (t, Ok i)"
    and "encode_blob_begin_upload (env_lib env) w i h sz (RequestId (env_fresh env (Suc (s_drawn s)))) = Ok frame"
    and "bytes_remaining (s_budget s) < length frame"
  shows "(\<exists>s'. upload_blob env w op h sz s = (Ok False, s') \<and> s_sent s' = s_sent s \<and>
      active (s_transfers s') = active (s_transfers s) \<and>
      per_connection_ids (s_transfers s') = per_connection_ids (s_transfers s) @ [i]) \<and>
    sl_drain_byte_budget default_limits = BLOB_HEADER_LEN + unat BLOB_CHUNK_BYTES"
proof
  have t: "active t = active (s_transfers s)" "per_connection_ids t = per_connection_ids (s_transfers s) @ [i]"
    using assms(4) by (auto simp: reserve_slot_def reserve_transfer_def split: if_splits)
  have "wp (upload_blob env w op h sz) (\<lambda>r s'. \<not> r \<and> s_sent s' = s_sent s \<and>
      active (s_transfers s') = active (s_transfers s) \<and>
      per_connection_ids (s_transfers s') = per_connection_ids (s_transfers s) @ [i]) (\<lambda>_. False) s"
    using assms t by (simp add: upload_blob_def wp_simps wp_fresh_uuid wp_fresh_request_id can_reserve_bytes_def not_less)
  then show "\<exists>s'. upload_blob env w op h sz s = (Ok False, s') \<and> s_sent s' = s_sent s \<and>
      active (s_transfers s') = active (s_transfers s) \<and>
      per_connection_ids (s_transfers s') = per_connection_ids (s_transfers s) @ [i]"
    by (auto simp: wp_def split: prod.splits result.splits)
  show "sl_drain_byte_budget default_limits = BLOB_HEADER_LEN + unat BLOB_CHUNK_BYTES"
    by (simp add: default_limits_def MAX_CONTROL_FRAME_BYTES_def OUTBOUND_QUEUE_CAPACITY_def BLOB_HEADER_LEN_def BLOB_CHUNK_BYTES_def)
qed

text \<open>The example at a point where its drain has no bytes left.\<close>

theorem deferred_upload_consumes_id_witness:
  "\<exists>s'. upload_blob demo_env (WorkspaceId 1) (OperationId 5) demo_hash 2
       (session_new () (WorkspaceId 1) (ClientId 2) ''1'' default_limits True 0) = (Ok False, s') \<and>
     per_connection_ids (s_transfers s') = [TransferId 1]"
proof -
  let ?s = "session_new () (WorkspaceId 1) (ClientId 2) ''1'' default_limits True 0"
  have frame: "encode_blob_begin_upload (env_lib demo_env) (WorkspaceId 1) (TransferId 1) demo_hash 2 (RequestId 2) =
      Ok (as_bytes ''WorkspaceBlobBegin'' @ [SEPARATOR, 0])"
    by (simp add: encode_blob_begin_upload_def demo_eval)
  have slots: "available_slots (s_requests ?s) \<noteq> 0" "(2 :: u64) \<le> MAX_BLOB_BYTES"
    by (simp_all add: session_new_def available_slots_def tracker_new_def MAX_IN_FLIGHT_REQUESTS_def MAX_BLOB_BYTES_def)
  have opened: "eng_open_blob (env_engine demo_env) demo_hash (s_engine ?s) = (Ok (Some 2, [7, 9]), ())"
    by (simp add: demo_fields)
  have reserved: "reserve_slot (env_fresh demo_env (s_drawn ?s)) (s_transfers ?s) =
      ((s_transfers ?s)\<lparr>per_connection_ids := [TransferId 1]\<rparr>, Ok (TransferId 1))"
    by (simp add: demo_fields session_new_def reserve_slot_def reserve_transfer_def table_new_def
        MAX_ACTIVE_TRANSFERS_def MAX_TRANSFER_IDS_PER_CONNECTION_def)
  have encoded: "encode_blob_begin_upload (env_lib demo_env) (WorkspaceId 1) (TransferId 1) demo_hash 2
      (RequestId (env_fresh demo_env (Suc (s_drawn ?s)))) = Ok (as_bytes ''WorkspaceBlobBegin'' @ [SEPARATOR, 0])"
    using frame by (simp add: demo_fields session_new_def)
  have budget: "bytes_remaining (s_budget ?s) < length (as_bytes ''WorkspaceBlobBegin'' @ [SEPARATOR, 0])"
    by (simp add: session_new_def)
  obtain s' where "upload_blob demo_env (WorkspaceId 1) (OperationId 5) demo_hash 2 ?s = (Ok False, s')"
    "per_connection_ids (s_transfers s') = per_connection_ids (s_transfers ?s) @ [TransferId 1]"
    using deferred_upload_consumes_id [OF slots opened reserved encoded budget, of "OperationId 5"] by blast
  then show ?thesis by (simp add: session_new_def table_new_def)
qed

end
