(* ===== verification/Sync_Tables.thy ===== *)
theory Sync_Tables
  imports Sync_Model Fs_Coalesce
begin

text \<open>
  The local database of the synchronisation core: the tables of \<open>migrations/*.sql\<close>, the records of
  \<open>fns-sync-core/src/model.rs\<close> that their rows hold, and the row readers of \<open>store.rs\<close> that check a
  stored row before it is used. A table is the list of its rows; the SQL statements of the code are
  the list functions of the section on statements. A text column that is written from a validated
  identifier, path, revision or stage is kept as that value, since its text is parsed back to it; JSON
  bodies and digests are bytes and every reader decodes and checks them. The crates \<open>serde_json\<close>,
  \<open>blake3\<close>, \<open>uuid\<close> and \<open>unicode-normalization\<close> are the fields of \<open>store_lib\<close>. The timestamps of the
  cursor row are never read and are left out.
\<close>

named_theorems table_simps \<open>rows after a statement\<close>

section \<open>Libraries\<close>

record 'a serde =
  to_vec :: "'a \<Rightarrow> u8 list option"
  from_slice :: "u8 list \<Rightarrow> 'a option"

record store_lib =
  lib_uuid :: uuid_lib
  lib_nfc :: "string \<Rightarrow> string"
  lib_blake3 :: "u8 list \<Rightarrow> u8 list"
  lib_mutation :: "WorkspaceMutation serde"
  lib_resolution :: "WorkspaceConflictResolvedRequest serde"
  lib_path_state :: "WorkspacePathState serde"
  lib_snapshot_entry :: "WorkspaceSnapshotEntryMessage serde"
  lib_event :: "WorkspaceEventMessage serde"
  lib_resolved :: "WorkspaceConflictResolvedMessage serde"
  lib_created :: "WorkspaceConflictCreatedMessage serde"
  lib_accepted :: "WorkspaceMutationAcceptedMessage serde"
  lib_fingerprint :: "FileFingerprint serde"

definition canonical_json :: "'a serde \<Rightarrow> 'a \<Rightarrow> (u8 list, SyncError) result" where
  "canonical_json codec value = ok_or (to_vec codec value) (InvalidConfiguration ''serialization_failed'')"

definition body_digest :: "store_lib \<Rightarrow> u8 list \<Rightarrow> u8 list" where
  "body_digest lib body = lib_blake3 lib body"

definition digest :: "store_lib \<Rightarrow> 'a serde \<Rightarrow> 'a \<Rightarrow> (u8 list, SyncError) result" where
  "digest lib codec value = and_then (canonical_json codec value) (\<lambda>body. Ok (body_digest lib body))"

section \<open>Records\<close>

record PathStateRecord =
  pt_workspace_id :: WorkspaceId
  pt_path :: WorkspacePath
  pt_state_json :: "u8 list"
  pt_state_digest :: "u8 list"
  pt_state :: WorkspacePathState

datatype OutboxBody = BodyMutation WorkspaceMutation | BodyResolution WorkspaceConflictResolvedRequest

datatype ApplyId = ApplyId uuid

record ApplyJournalRecord =
  aj_apply_id :: ApplyId
  aj_workspace_id :: WorkspaceId
  aj_stream_id :: StreamId
  aj_item_kind :: ApplyItemKind
  aj_item_key :: string
  aj_apply_namespace :: ApplyNamespace
  aj_operation_body_digest :: "u8 list"
  aj_operation_json :: "u8 list"
  aj_filesystem_operation_json :: "u8 list"
  aj_commit_json :: "u8 list"
  aj_preimage_json :: "u8 list"
  aj_postimage_json :: "u8 list"
  aj_filesystem_receipt_json :: "u8 list option"
  aj_stage :: ApplyStage

datatype AppliedOperationReceiptKind = Legacy | MutationResult | ConflictResolution

fun receipt_kind_as_str :: "AppliedOperationReceiptKind \<Rightarrow> string" where
  "receipt_kind_as_str Legacy = ''legacy''"
| "receipt_kind_as_str MutationResult = ''mutation_result''"
| "receipt_kind_as_str ConflictResolution = ''conflict_resolution''"

definition receipt_kind_parse :: "string \<Rightarrow> AppliedOperationReceiptKind option" where
  "receipt_kind_parse s =
     (if s = ''legacy'' then Some Legacy else if s = ''mutation_result'' then Some MutationResult
      else if s = ''conflict_resolution'' then Some ConflictResolution else None)"

interpretation receipt_kind_names: wire_enum receipt_kind_as_str receipt_kind_parse
proof
  show "receipt_kind_parse (receipt_kind_as_str v) = Some v" for v
    by (cases v) (simp_all add: receipt_kind_parse_def)
  show "receipt_kind_as_str v = s" if "receipt_kind_parse s = Some v" for s v
    using that by (auto simp: receipt_kind_parse_def split: if_splits)
qed

record AppliedOperationRecord =
  ao_origin_client_id :: ClientId
  ao_operation_id :: OperationId
  ao_revision :: WorkspaceRevision
  ao_body_digest :: "u8 list"
  ao_receipt_kind :: AppliedOperationReceiptKind
  ao_mutation_json :: "u8 list option"

record ConflictRecord =
  cf_conflict_id :: ConflictId
  cf_workspace_id :: WorkspaceId
  cf_conflict_revision :: WorkspaceConflictRevision
  cf_created_json :: "u8 list"
  cf_status :: ConflictStatus
  cf_candidate_hash :: "string option"
  cf_resolution_json :: "u8 list option"
  cf_resolution_digest :: "u8 list option"

section \<open>Tables\<close>

text \<open>Rows that differ from the record they are read as have a type of their own.\<close>

record PathStateRow =
  pr_workspace_id :: WorkspaceId
  pr_path :: WorkspacePath
  pr_state_json :: "u8 list"
  pr_state_digest :: "u8 list"

record ProvisionalRow =
  pv_origin_client_id :: ClientId
  pv_operation_id :: OperationId
  pv_workspace_id :: WorkspaceId
  pv_revision :: WorkspaceRevision
  pv_accepted_json :: "u8 list"
  pv_accepted_digest :: "u8 list"

record HashCacheRow =
  hc_workspace_id :: WorkspaceId
  hc_path :: WorkspacePath
  hc_fingerprint_json :: "u8 list"
  hc_content_hash :: string

record database =
  db_workspace_cursor :: "WorkspaceCursor list"
  db_path_states :: "PathStateRow list"
  db_outbox :: "OutboxRecord list"
  db_local_intents :: "LocalIntentRecord list"
  db_stream_state :: "StreamStateRecord list"
  db_stream_entries :: "StreamEntryRecord list"
  db_stream_revision_items :: "StreamRevisionItemRecord list"
  db_stream_conflicts :: "StreamConflictRecord list"
  db_apply_journal :: "ApplyJournalRecord list"
  db_applied_operations :: "AppliedOperationRecord list"
  db_provisional :: "ProvisionalRow list"
  db_conflicts :: "ConflictRecord list"
  db_hash_cache :: "HashCacheRow list"

record SqliteState =
  st_conn :: database
  st_workspace_id :: WorkspaceId
  st_client_id :: ClientId

text \<open>Primary keys.\<close>

definition path_state_key :: "PathStateRow \<Rightarrow> WorkspaceId \<times> WorkspacePath" where
  "path_state_key r = (pr_workspace_id r, pr_path r)"

definition outbox_key :: "OutboxRecord \<Rightarrow> ClientId \<times> OperationId" where
  "outbox_key r = (ob_client_id r, ob_operation_id r)"

definition intent_key :: "LocalIntentRecord \<Rightarrow> WorkspaceId \<times> WorkspacePath" where
  "intent_key r = (li_workspace_id r, li_path r)"

definition entry_key :: "StreamEntryRecord \<Rightarrow> WorkspaceId \<times> StreamId \<times> u32" where
  "entry_key r = (sr_workspace_id r, sr_stream_id r, sr_entry_index r)"

definition item_row_key :: "StreamRevisionItemRecord \<Rightarrow> WorkspaceId \<times> StreamId \<times> WorkspaceRevision" where
  "item_row_key r = (si_workspace_id r, si_stream_id r, si_revision r)"

definition stream_conflict_key :: "StreamConflictRecord \<Rightarrow> WorkspaceId \<times> StreamId \<times> ConflictId" where
  "stream_conflict_key r = (sc_workspace_id r, sc_stream_id r, sc_conflict_id r)"

definition applied_key :: "AppliedOperationRecord \<Rightarrow> ClientId \<times> OperationId" where
  "applied_key r = (ao_origin_client_id r, ao_operation_id r)"

definition provisional_key :: "ProvisionalRow \<Rightarrow> ClientId \<times> OperationId" where
  "provisional_key r = (pv_origin_client_id r, pv_operation_id r)"

definition hash_cache_key :: "HashCacheRow \<Rightarrow> WorkspaceId \<times> WorkspacePath" where
  "hash_cache_key r = (hc_workspace_id r, hc_path r)"

text \<open>The second constraints \<open>UNIQUE\<close>: \<open>NULL\<close> event indices do not clash.\<close>

definition item_clash :: "StreamRevisionItemRecord \<Rightarrow> StreamRevisionItemRecord \<Rightarrow> bool" where
  "item_clash a b \<longleftrightarrow>
     item_row_key a = item_row_key b \<or>
     si_workspace_id a = si_workspace_id b \<and> si_stream_id a = si_stream_id b \<and>
     si_event_index a \<noteq> None \<and> si_event_index a = si_event_index b"

definition journal_clash :: "ApplyJournalRecord \<Rightarrow> ApplyJournalRecord \<Rightarrow> bool" where
  "journal_clash a b \<longleftrightarrow>
     aj_apply_id a = aj_apply_id b \<or>
     aj_workspace_id a = aj_workspace_id b \<and> aj_stream_id a = aj_stream_id b \<and>
     aj_item_kind a = aj_item_kind b \<and> aj_item_key a = aj_item_key b"

section \<open>Statements\<close>

text \<open>
  \<open>UPDATE \<dots> WHERE\<close>, \<open>DELETE \<dots> WHERE\<close>, \<open>INSERT\<close> (which fails when a constraint is violated),
  \<open>INSERT \<dots> ON CONFLICT DO UPDATE\<close> on a key, and \<open>SELECT\<close> through a row reader that may refuse a row.
\<close>

definition sql_update :: "('r \<Rightarrow> bool) \<Rightarrow> ('r \<Rightarrow> 'r) \<Rightarrow> 'r list \<Rightarrow> 'r list" where
  "sql_update p f rows = map (\<lambda>r. if p r then f r else r) rows"

definition sql_delete :: "('r \<Rightarrow> bool) \<Rightarrow> 'r list \<Rightarrow> 'r list" where
  "sql_delete p rows = filter (\<lambda>r. \<not> p r) rows"

definition sql_insert :: "('r \<Rightarrow> 'r \<Rightarrow> bool) \<Rightarrow> 'r \<Rightarrow> 'r list \<Rightarrow> ('r list, SyncError) result" where
  "sql_insert clash r rows = (if list_ex (clash r) rows then Err StorageUnavailable else Ok (rows @ [r]))"

definition sql_upsert :: "('r \<Rightarrow> 'k) \<Rightarrow> 'r \<Rightarrow> 'r list \<Rightarrow> 'r list" where
  "sql_upsert key r rows =
     (if list_ex (\<lambda>x. key x = key r) rows then map (\<lambda>x. if key x = key r then r else x) rows
      else rows @ [r])"

definition query_optional :: "('r \<Rightarrow> 'a option) \<Rightarrow> SyncError \<Rightarrow> 'r option \<Rightarrow> ('a option, SyncError) result" where
  "query_optional reader e row =
     (case row of None \<Rightarrow> Ok None | Some r \<Rightarrow> and_then (ok_or (reader r) e) (\<lambda>x. Ok (Some x)))"

fun query_map :: "('r \<Rightarrow> 'a option) \<Rightarrow> SyncError \<Rightarrow> 'r list \<Rightarrow> ('a list, SyncError) result" where
  "query_map reader e [] = Ok []"
| "query_map reader e (r # rows) =
     and_then (ok_or (reader r) e) (\<lambda>x. and_then (query_map reader e rows) (\<lambda>xs. Ok (x # xs)))"

text \<open>
  A transaction works on the database and commits at its end; an error drops its work, so the
  functions on a \<^typ>\<open>database\<close> return the new database only with a value.
\<close>

type_synonym 'a tx = "database \<Rightarrow> ('a \<times> database, SyncError) result"

definition transaction :: "'a tx \<Rightarrow> SqliteState \<Rightarrow> ('a, SyncError) result \<times> SqliteState" where
  "transaction operation st =
     (case operation (st_conn st) of
        Ok (value, db) \<Rightarrow> (Ok value, st\<lparr>st_conn := db\<rparr>)
      | Err e \<Rightarrow> (Err e, st))"

section \<open>Row readers\<close>

definition digest_ok :: "store_lib \<Rightarrow> u8 list \<Rightarrow> u8 list \<Rightarrow> bool" where
  "digest_ok lib stored body \<longleftrightarrow> length stored = 32 \<and> stored = body_digest lib body"

definition row_to_path_state :: "store_lib \<Rightarrow> PathStateRow \<Rightarrow> PathStateRecord option" where
  "row_to_path_state lib r =
     (case from_slice (lib_path_state lib) (pr_state_json r) of
        None \<Rightarrow> None
      | Some state \<Rightarrow>
          if is_ok (path_state_validate state) \<and> ps_path state = pr_path r \<and>
             digest_ok lib (pr_state_digest r) (pr_state_json r)
          then Some \<lparr>pt_workspace_id = pr_workspace_id r, pt_path = pr_path r, pt_state_json = pr_state_json r,
                     pt_state_digest = pr_state_digest r, pt_state = state\<rparr>
          else None)"

definition row_to_outbox :: "store_lib \<Rightarrow> OutboxRecord \<Rightarrow> OutboxRecord option" where
  "row_to_outbox lib r =
     (if \<not> digest_ok lib (ob_body_digest r) (ob_body_json r) then None
      else case from_slice (lib_mutation lib) (ob_body_json r) of
        Some m \<Rightarrow>
          if is_ok (mutation_validate m) \<and> wm_workspace_id m = ob_workspace_id r \<and>
             wm_client_id m = ob_client_id r \<and> wm_operation_id m = ob_operation_id r
          then Some r else None
      | None \<Rightarrow>
          (case from_slice (lib_resolution lib) (ob_body_json r) of
             Some q \<Rightarrow>
               if is_ok (conflict_resolved_request_validate q) \<and> rq_workspace_id q = ob_workspace_id r \<and>
                  rq_client_id q = ob_client_id r \<and> rq_operation_id q = ob_operation_id r
               then Some r else None
           | None \<Rightarrow> None))"

definition decoded_body :: "store_lib \<Rightarrow> OutboxRecord \<Rightarrow> OutboxBody option" where
  "decoded_body lib r =
     (case from_slice (lib_mutation lib) (ob_body_json r) of
        Some m \<Rightarrow> Some (BodyMutation m)
      | None \<Rightarrow> map_option BodyResolution (from_slice (lib_resolution lib) (ob_body_json r)))"

definition row_to_local_intent :: "LocalIntentRecord \<Rightarrow> LocalIntentRecord option" where
  "row_to_local_intent r = Some r"

definition row_to_stream_state :: "StreamStateRecord \<Rightarrow> StreamStateRecord option" where
  "row_to_stream_state r =
     (if ss_final_revision r < ss_from_revision r \<or>
         ss_mode r = Snapshot \<and> ss_expected_event_count r \<noteq> 0 \<or>
         ss_mode r = Incremental \<and> ss_expected_entry_count r \<noteq> 0 \<or>
         ss_next_event_index r > ss_expected_event_count r
      then None else Some r)"

definition row_to_stream_entry :: "store_lib \<Rightarrow> StreamEntryRecord \<Rightarrow> StreamEntryRecord option" where
  "row_to_stream_entry lib r =
     (case from_slice (lib_snapshot_entry lib) (sr_body_json r) of
        None \<Rightarrow> None
      | Some entry \<Rightarrow>
          if is_ok (snapshot_entry_validate entry) \<and> se_workspace_id entry = sr_workspace_id r \<and>
             se_stream_id entry = sr_stream_id r \<and> se_index entry = sr_entry_index r \<and>
             digest_ok lib (sr_body_digest r) (sr_body_json r)
          then Some r else None)"

definition row_to_stream_revision_item ::
    "store_lib \<Rightarrow> StreamRevisionItemRecord \<Rightarrow> StreamRevisionItemRecord option" where
  "row_to_stream_revision_item lib r =
     (let body_ok = (case si_item_kind r of
        StreamRevisionItemKind.Event \<Rightarrow>
          (case from_slice (lib_event lib) (si_body_json r) of
             None \<Rightarrow> False
           | Some event \<Rightarrow>
               is_ok (event_validate event) \<and> ev_workspace_id event = si_workspace_id r \<and>
               ev_stream_id event = si_stream_id r \<and> ev_revision event = si_revision r \<and>
               si_event_index r = Some (ev_index event))
      | StreamRevisionItemKind.ConflictResolved \<Rightarrow>
          (case from_slice (lib_resolved lib) (si_body_json r) of
             None \<Rightarrow> False
           | Some message \<Rightarrow>
               is_ok (conflict_resolved_validate message) \<and> cr_workspace_id message = si_workspace_id r \<and>
               cr_revision message = si_revision r \<and> si_event_index r = None))
      in if body_ok \<and> digest_ok lib (si_body_digest r) (si_body_json r) then Some r else None)"

definition created_ok ::
    "store_lib \<Rightarrow> u8 list \<Rightarrow> WorkspaceId \<Rightarrow> ConflictId \<Rightarrow> WorkspaceConflictRevision \<Rightarrow> bool" where
  "created_ok lib created_json ws conflict_id conflict_revision \<longleftrightarrow>
     (case from_slice (lib_created lib) created_json of
        None \<Rightarrow> False
      | Some created \<Rightarrow>
          is_ok (conflict_created_validate created) \<and> cc_workspace_id created = ws \<and>
          cc_conflict_id created = conflict_id \<and> cc_conflict_revision created = conflict_revision)"

definition row_to_stream_conflict :: "store_lib \<Rightarrow> StreamConflictRecord \<Rightarrow> StreamConflictRecord option" where
  "row_to_stream_conflict lib r =
     (if created_ok lib (sc_created_json r) (sc_workspace_id r) (sc_conflict_id r) (sc_conflict_revision r)
      then Some r else None)"

definition row_to_apply_journal :: "ApplyJournalRecord \<Rightarrow> ApplyJournalRecord option" where
  "row_to_apply_journal r = (if length (aj_operation_body_digest r) = 32 then Some r else None)"

definition row_to_applied_operation :: "AppliedOperationRecord \<Rightarrow> AppliedOperationRecord option" where
  "row_to_applied_operation r =
     (if (ao_receipt_kind r = MutationResult) \<noteq> (ao_mutation_json r \<noteq> None) \<or> length (ao_body_digest r) \<noteq> 32
      then None else Some r)"

definition row_to_provisional_mutation_acceptance ::
    "store_lib \<Rightarrow> ProvisionalRow \<Rightarrow> WorkspaceMutationAcceptedMessage option" where
  "row_to_provisional_mutation_acceptance lib r =
     (case from_slice (lib_accepted lib) (pv_accepted_json r) of
        None \<Rightarrow> None
      | Some accepted \<Rightarrow>
          if is_ok (mutation_accepted_validate accepted) \<and>
             ma_client_id accepted = pv_origin_client_id r \<and> ma_operation_id accepted = pv_operation_id r \<and>
             ma_workspace_id accepted = pv_workspace_id r \<and> ma_revision accepted = pv_revision r \<and>
             to_vec (lib_accepted lib) accepted = Some (pv_accepted_json r) \<and>
             digest_ok lib (pv_accepted_digest r) (pv_accepted_json r)
          then Some accepted else None)"

definition row_to_conflict :: "store_lib \<Rightarrow> ConflictRecord \<Rightarrow> ConflictRecord option" where
  "row_to_conflict lib r =
     (if created_ok lib (cf_created_json r) (cf_workspace_id r) (cf_conflict_id r) (cf_conflict_revision r) \<and>
         (case cf_candidate_hash r of None \<Rightarrow> True | Some h \<Rightarrow> is_ok (content_hash_parse h)) \<and>
         (case cf_resolution_digest r of
            None \<Rightarrow> True
          | Some d \<Rightarrow> length d = 32 \<and>
              (case cf_resolution_json r of None \<Rightarrow> False | Some json \<Rightarrow> body_digest lib json = d))
      then Some r else None)"

section \<open>Statements and keys\<close>

text \<open>
  The contract of the libraries: what is printed as JSON is parsed back, the text of a resolution is not
  the text of a mutation (their fields differ and unknown fields are refused), and a digest has 32 bytes.
\<close>

definition codec_law :: "'a serde \<Rightarrow> bool" where
  "codec_law codec \<longleftrightarrow> (\<forall>v b. to_vec codec v = Some b \<longrightarrow> from_slice codec b = Some v)"

definition store_law :: "store_lib \<Rightarrow> bool" where
  "store_law lib \<longleftrightarrow>
     codec_law (lib_mutation lib) \<and> codec_law (lib_resolution lib) \<and> codec_law (lib_path_state lib) \<and>
     codec_law (lib_snapshot_entry lib) \<and> codec_law (lib_event lib) \<and> codec_law (lib_resolved lib) \<and>
     codec_law (lib_created lib) \<and> codec_law (lib_accepted lib) \<and> codec_law (lib_fingerprint lib) \<and>
     (\<forall>q b. to_vec (lib_resolution lib) q = Some b \<longrightarrow> from_slice (lib_mutation lib) b = None) \<and>
     (\<forall>b. length (lib_blake3 lib b) = 32) \<and> uuid_law (lib_uuid lib)"

lemma codec_lawD: "codec_law codec \<Longrightarrow> to_vec codec v = Some b \<Longrightarrow> from_slice codec b = Some v"
  by (simp add: codec_law_def)

lemma canonical_json_Ok_iff [result_simps]: "canonical_json codec v = Ok b \<longleftrightarrow> to_vec codec v = Some b"
  by (simp add: canonical_json_def result_simps)

lemma digest_ok_body_digest: "store_law lib \<Longrightarrow> digest_ok lib (body_digest lib b) b"
  by (simp add: store_law_def digest_ok_def body_digest_def)

lemma digest_ok_eq: "digest_ok lib d b \<Longrightarrow> d = body_digest lib b"
  by (simp add: digest_ok_def)

lemma query_optional_Ok_iff [result_simps]:
  "query_optional reader e row = Ok v \<longleftrightarrow>
     (row = None \<and> v = None) \<or> (\<exists>r x. row = Some r \<and> reader r = Some x \<and> v = Some x)"
  by (auto simp: query_optional_def result_simps split: option.splits)

lemma query_map_Ok_iff: "query_map reader e rows = Ok xs \<longleftrightarrow> map reader rows = map Some xs"
proof (induction rows arbitrary: xs)
  case (Cons r rows)
  show ?case by (cases xs) (auto simp: result_simps Cons.IH)
qed auto

lemma query_map_self: "\<forall>r\<in>set rows. reader r = Some r \<Longrightarrow> query_map reader e rows = Ok rows"
  by (simp add: query_map_Ok_iff)

lemma query_map_total: "\<forall>r\<in>set rows. reader r \<noteq> None \<Longrightarrow> query_map reader e rows = Ok (map (the \<circ> reader) rows)"
  by (auto simp: query_map_Ok_iff)

lemma set_sql_update [table_simps]: "set (sql_update p f rows) = (\<lambda>r. if p r then f r else r) ` set rows"
  by (simp add: sql_update_def)

lemma set_sql_delete [table_simps]: "set (sql_delete p rows) = {r \<in> set rows. \<not> p r}"
  by (auto simp: sql_delete_def)

lemma sql_insert_Ok_iff [result_simps]:
  "sql_insert clash r rows = Ok rows' \<longleftrightarrow> rows' = rows @ [r] \<and> (\<forall>x\<in>set rows. \<not> clash r x)"
  by (auto simp: sql_insert_def list_ex_iff)

lemma set_sql_upsert:
  "set (sql_upsert key r rows) = insert r {x \<in> set rows. key x \<noteq> key r}"
  by (auto simp: sql_upsert_def list_ex_iff)

definition keyed :: "('r \<Rightarrow> 'k) \<Rightarrow> 'r list \<Rightarrow> bool" where
  "keyed key rows \<longleftrightarrow> distinct (map key rows)"

lemma keyed_Nil [simp]: "keyed key []"
  by (simp add: keyed_def)

lemma keyed_append1: "keyed key (rows @ [r]) \<longleftrightarrow> keyed key rows \<and> (\<forall>x\<in>set rows. key r \<noteq> key x)"
  by (auto simp: keyed_def image_iff)

lemma keyed_sql_update:
  "(\<And>r. p r \<Longrightarrow> key (f r) = key r) \<Longrightarrow> keyed key (sql_update p f rows) \<longleftrightarrow> keyed key rows"
proof -
  assume "\<And>r. p r \<Longrightarrow> key (f r) = key r"
  then have "map key (sql_update p f rows) = map key rows"
    by (simp add: sql_update_def)
  then show ?thesis by (simp only: keyed_def)
qed

lemma keyed_sql_delete: "keyed key rows \<Longrightarrow> keyed key (sql_delete p rows)"
  by (simp add: keyed_def sql_delete_def distinct_map_filter)

lemma keyed_sql_upsert: "keyed key rows \<Longrightarrow> keyed key (sql_upsert key r rows)"
proof (cases "list_ex (\<lambda>x. key x = key r) rows")
  case True
  moreover have "map key (map (\<lambda>x. if key x = key r then r else x) rows) = map key rows" by simp
  moreover assume "keyed key rows"
  ultimately show ?thesis by (simp only: keyed_def sql_upsert_def if_True)
qed (auto simp: keyed_def sql_upsert_def list_ex_iff)

lemma keyed_unique: "keyed key rows \<Longrightarrow> a \<in> set rows \<Longrightarrow> b \<in> set rows \<Longrightarrow> key a = key b \<Longrightarrow> a = b"
  by (auto simp: keyed_def distinct_map dest: inj_onD)

lemma find_SomeD: "find p rows = Some r \<Longrightarrow> r \<in> set rows \<and> p r"
  by (auto simp: find_Some_iff)

lemma find_keyed:
  assumes "keyed key rows"
  shows "find (\<lambda>r. key r = k) rows = Some r \<longleftrightarrow> r \<in> set rows \<and> key r = k"
proof
  assume "r \<in> set rows \<and> key r = k"
  moreover from this obtain x where "find (\<lambda>r. key r = k) rows = Some x"
    by (cases "find (\<lambda>r. key r = k) rows") (auto simp: find_None_iff)
  ultimately show "find (\<lambda>r. key r = k) rows = Some r"
    using keyed_unique [OF assms] find_SomeD by fastforce
qed (auto simp: find_Some_iff)
lemma find_NoneD: "find p rows = None \<Longrightarrow> r \<in> set rows \<Longrightarrow> \<not> p r"
  by (auto simp: find_None_iff)

lemma find_append1:
  "find p (rows @ [r]) = (case find p rows of Some x \<Rightarrow> Some x | None \<Rightarrow> if p r then Some r else None)"
  by (induction rows) simp_all

lemma find_sql_update: "(\<And>r. p r \<Longrightarrow> p (f r)) \<Longrightarrow> find p (sql_update p f rows) = map_option f (find p rows)"
  by (induction rows) (auto simp: sql_update_def)

lemma filter_sql_update:
  "(\<And>r. q (if p r then f r else r) \<longleftrightarrow> q r) \<Longrightarrow> filter q (sql_update p f rows) = sql_update p f (filter q rows)"
  by (induction rows) (auto simp: sql_update_def)

lemma map_sql_update: "(\<And>r. p r \<Longrightarrow> g (f r) = g r) \<Longrightarrow> map g (sql_update p f rows) = map g rows"
  by (simp add: sql_update_def)

lemma length_sql_update [simp]: "length (sql_update p f rows) = length rows"
  by (simp add: sql_update_def)

lemma filter_sql_delete_same [simp]: "filter p (sql_delete p rows) = []"
  by (simp add: sql_delete_def filter_empty_conv)

lemma find_sql_delete_same [simp]: "find p (sql_delete p rows) = None"
  by (simp add: sql_delete_def find_None_iff)

lemma keyed_hit:
  assumes "keyed key rows" "r \<in> set rows" "\<And>x. x \<in> set rows \<Longrightarrow> hit x \<longleftrightarrow> key x = key r"
  shows "length (filter hit rows) = 1" "key (f r) = key r \<Longrightarrow> sql_update hit f rows = sql_upsert key (f r) rows"
proof -
  have same: "x = r" if "x \<in> set rows" "hit x" for x
    using that assms keyed_unique by metis
  have "set (filter hit rows) = {r}" using same assms(2,3) by auto
  moreover have "distinct rows" using assms(1) by (simp add: keyed_def distinct_map)
  ultimately show "length (filter hit rows) = 1"
    using distinct_card [of "filter hit rows"] by simp
  show "sql_update hit f rows = sql_upsert key (f r) rows" if "key (f r) = key r"
    using assms(2,3) same that by (auto simp: sql_update_def sql_upsert_def list_ex_iff)
qed

lemma find_sql_upsert:
  "find (\<lambda>r. key r = k) (sql_upsert key x rows) = (if key x = k then Some x else find (\<lambda>r. key r = k) rows)"
proof -
  have other: "find (\<lambda>r. key r = k) (map (\<lambda>r. if key r = key x then x else r) rows) = find (\<lambda>r. key r = k) rows"
    if "key x \<noteq> k" using that by (induction rows) auto
  have same: "find (\<lambda>r. key r = k) (map (\<lambda>r. if key r = key x then x else r) rows) = Some x"
    if "key x = k" "list_ex (\<lambda>r. key r = key x) rows" using that by (induction rows) auto
  have none: "find (\<lambda>r. key r = key x) rows = None" if "\<not> list_ex (\<lambda>r. key r = key x) rows"
    using that by (simp add: find_None_iff list_ex_iff)
  show ?thesis using other same none by (auto simp: sql_upsert_def find_append1 split: option.splits)
qed

lemma find_sql_delete:
  "find (\<lambda>r. key r = k) (sql_delete (\<lambda>r. key r = k') rows) = (if k = k' then None else find (\<lambda>r. key r = k) rows)"
  by (induction rows) (auto simp: sql_delete_def find_None_iff)

text \<open>\<open>ORDER BY\<close> is stable: a row that is not before any other comes last.\<close>

lemma insort_key_append1: "f a \<le> f x \<Longrightarrow> insort_key f a (ys @ [x]) = insort_key f a ys @ [x]"
  by (induction ys) auto

lemma sort_key_append1: "\<forall>a\<in>set xs. f a \<le> f x \<Longrightarrow> sort_key f (xs @ [x]) = sort_key f xs @ [x]"
  by (induction xs) (simp_all add: insort_key_append1)

lemma transaction_cases:
  "transaction operation st = (r, st') \<longleftrightarrow>
     (\<exists>v db. operation (st_conn st) = Ok (v, db) \<and> r = Ok v \<and> st' = st\<lparr>st_conn := db\<rparr>) \<or>
     (\<exists>e. operation (st_conn st) = Err e \<and> r = Err e \<and> st' = st)"
  by (auto simp: transaction_def split: result.splits)

lemma transaction_ids [simp]:
  "st_workspace_id (snd (transaction operation st)) = st_workspace_id st"
  "st_client_id (snd (transaction operation st)) = st_client_id st"
  by (simp_all add: transaction_def split: result.splits)

lemma transaction_Ok:
  "operation (st_conn st) = Ok (v, db) \<Longrightarrow> transaction operation st = (Ok v, st\<lparr>st_conn := db\<rparr>)"
  by (simp add: transaction_def)

end
