(* ===== verification/Sync_Outbox.thy ===== *)
theory Sync_Outbox
  imports Sync_Tables
begin

text \<open>
  The first tables of \<open>fns-sync-core/src/store.rs\<close>: path states, the outbox, local intents and the
  hash cache. The outbox is a queue ordered by creation time and operation identifier: a queued
  operation is dispatched once, and everything outstanding can be replayed after a restart.
\<close>

section \<open>Path states\<close>

definition parse_path_arg :: "store_lib \<Rightarrow> string \<Rightarrow> (WorkspacePath, SyncError) result" where
  "parse_path_arg lib path = map_err (\<lambda>_. InvalidConfiguration ''invalid_path'') (path_parse (lib_nfc lib) path)"

definition path_state :: "store_lib \<Rightarrow> string \<Rightarrow> SqliteState \<Rightarrow> (PathStateRecord option, SyncError) result" where
  "path_state lib path st =
     and_then (parse_path_arg lib path) (\<lambda>path.
     query_optional (row_to_path_state lib) (CorruptState ''path_states'' ''state_json'')
       (find (\<lambda>r. path_state_key r = (st_workspace_id st, path)) (db_path_states (st_conn st))))"

definition path_states :: "store_lib \<Rightarrow> SqliteState \<Rightarrow> (PathStateRecord list, SyncError) result" where
  "path_states lib st =
     query_map (row_to_path_state lib) StorageUnavailable
       (sort_key pr_path (filter (\<lambda>r. pr_workspace_id r = st_workspace_id st) (db_path_states (st_conn st))))"

definition put_path_state_tx :: "store_lib \<Rightarrow> WorkspaceId \<Rightarrow> WorkspacePathState \<Rightarrow> unit tx" where
  "put_path_state_tx lib ws state db =
     and_then (map_err (\<lambda>_. ProtocolInvariant ''invalid_path_state'') (path_state_validate state)) (\<lambda>_.
     and_then (canonical_json (lib_path_state lib) state) (\<lambda>body_json.
     Ok ((), db\<lparr>db_path_states := sql_upsert path_state_key
       \<lparr>pr_workspace_id = ws, pr_path = ps_path state, pr_state_json = body_json,
        pr_state_digest = body_digest lib body_json\<rparr> (db_path_states db)\<rparr>)))"

definition put_path_state :: "store_lib \<Rightarrow> WorkspacePathState \<Rightarrow> SqliteState \<Rightarrow> (unit, SyncError) result \<times> SqliteState" where
  "put_path_state lib state st = transaction (put_path_state_tx lib (st_workspace_id st) state) st"

definition remove_path_state_tx :: "WorkspaceId \<Rightarrow> WorkspacePath \<Rightarrow> unit tx" where
  "remove_path_state_tx ws path db =
     Ok ((), db\<lparr>db_path_states := sql_delete (\<lambda>r. path_state_key r = (ws, path)) (db_path_states db)\<rparr>)"

definition remove_path_state :: "WorkspacePath \<Rightarrow> SqliteState \<Rightarrow> (unit, SyncError) result \<times> SqliteState" where
  "remove_path_state path st = transaction (remove_path_state_tx (st_workspace_id st) path) st"

section \<open>Outbox\<close>

fun operation_text :: "store_lib \<Rightarrow> OperationId \<Rightarrow> string" where
  "operation_text lib (OperationId u) = uuid_to_string (lib_uuid lib) u"

text \<open>\<open>ORDER BY created_at_ms, operation_id\<close>.\<close>

definition outbox_order :: "store_lib \<Rightarrow> OutboxRecord \<Rightarrow> int \<times> string" where
  "outbox_order lib r = (sint (ob_created_at_ms r), operation_text lib (ob_operation_id r))"

definition outbox_row :: "ClientId \<Rightarrow> OperationId \<Rightarrow> database \<Rightarrow> OutboxRecord option" where
  "outbox_row client op db = find (\<lambda>r. outbox_key r = (client, op)) (db_outbox db)"

definition enqueue_outbox_tx ::
    "store_lib \<Rightarrow> ClientId \<Rightarrow> OperationId \<Rightarrow> WorkspaceId \<Rightarrow> u8 list \<Rightarrow> i64 \<Rightarrow> OutboxRecord tx" where
  "enqueue_outbox_tx lib client op ws body_json created_at_ms db =
     (let body_digest = body_digest lib body_json in
      and_then (query_optional (row_to_outbox lib) StorageUnavailable (outbox_row client op db)) (\<lambda>existing.
      case existing of
        Some existing \<Rightarrow>
          if ob_workspace_id existing \<noteq> ws \<or> ob_body_digest existing \<noteq> body_digest then
            fail_if (ob_stage existing \<noteq> Queued) OperationChanged
           (let write = (\<lambda>r. r\<lparr>ob_workspace_id := ws, ob_body_json := body_json, ob_body_digest := body_digest,
                                ob_created_at_ms := created_at_ms\<rparr>)
            in Ok (write existing,
                   db\<lparr>db_outbox := sql_update (\<lambda>r. outbox_key r = (client, op) \<and> ob_stage r = Queued) write
                        (db_outbox db)\<rparr>))
          else Ok (existing, db)
      | None \<Rightarrow>
          (let record = \<lparr>ob_client_id = client, ob_operation_id = op, ob_workspace_id = ws,
                         ob_body_json = body_json, ob_body_digest = body_digest, ob_stage = Queued,
                         ob_created_at_ms = created_at_ms\<rparr>
           in and_then (sql_insert (\<lambda>a b. outbox_key a = outbox_key b) record (db_outbox db)) (\<lambda>rows.
              Ok (record, db\<lparr>db_outbox := rows\<rparr>)))))"

definition enqueue_mutation_at ::
    "store_lib \<Rightarrow> WorkspaceId \<Rightarrow> ClientId \<Rightarrow> WorkspaceMutation \<Rightarrow> i64 \<Rightarrow> OutboxRecord tx" where
  "enqueue_mutation_at lib ws client m created_at_ms db =
     and_then (map_err (\<lambda>_. ProtocolInvariant ''invalid_mutation'') (mutation_validate m)) (\<lambda>_.
     fail_if (wm_workspace_id m \<noteq> ws \<or> wm_client_id m \<noteq> client) (ProtocolInvariant ''outbox_identity_mismatch'')
    (and_then (canonical_json (lib_mutation lib) m) (\<lambda>body_json.
     enqueue_outbox_tx lib client (wm_operation_id m) (wm_workspace_id m) body_json created_at_ms db)))"

definition enqueue_conflict_resolution_at ::
    "store_lib \<Rightarrow> WorkspaceId \<Rightarrow> ClientId \<Rightarrow> WorkspaceConflictResolvedRequest \<Rightarrow> i64 \<Rightarrow> OutboxRecord tx" where
  "enqueue_conflict_resolution_at lib ws client q now db =
     and_then (map_err (\<lambda>_. ProtocolInvariant ''invalid_conflict_resolution'')
       (conflict_resolved_request_validate q)) (\<lambda>_.
     fail_if (rq_workspace_id q \<noteq> ws \<or> rq_client_id q \<noteq> client) (ProtocolInvariant ''outbox_identity_mismatch'')
    (and_then (canonical_json (lib_resolution lib) q) (\<lambda>body_json.
     enqueue_outbox_tx lib client (rq_operation_id q) (rq_workspace_id q) body_json now db)))"

definition enqueue_mutation ::
    "store_lib \<Rightarrow> i64 \<Rightarrow> WorkspaceMutation \<Rightarrow> SqliteState \<Rightarrow> (OutboxRecord, SyncError) result \<times> SqliteState" where
  "enqueue_mutation lib now m st =
     transaction (enqueue_mutation_at lib (st_workspace_id st) (st_client_id st) m now) st"

definition enqueue_conflict_resolution ::
    "store_lib \<Rightarrow> i64 \<Rightarrow> WorkspaceConflictResolvedRequest \<Rightarrow> SqliteState \<Rightarrow>
     (OutboxRecord, SyncError) result \<times> SqliteState" where
  "enqueue_conflict_resolution lib now q st =
     transaction (enqueue_conflict_resolution_at lib (st_workspace_id st) (st_client_id st) q now) st"

definition outbox :: "store_lib \<Rightarrow> SqliteState \<Rightarrow> (OutboxRecord list, SyncError) result" where
  "outbox lib st =
     query_map (row_to_outbox lib) StorageUnavailable
       (sort_key (outbox_order lib) (filter (\<lambda>r. ob_client_id r = st_client_id st) (db_outbox (st_conn st))))"

definition outbox_entry ::
    "store_lib \<Rightarrow> OperationId \<Rightarrow> SqliteState \<Rightarrow> (OutboxRecord option, SyncError) result" where
  "outbox_entry lib op st =
     query_optional (row_to_outbox lib) StorageUnavailable (outbox_row (st_client_id st) op (st_conn st))"

definition settled :: "StreamItemStatus \<Rightarrow> bool" where
  "settled status \<longleftrightarrow> status \<in> {Applied, Preserved}"

definition pending_work_count :: "SqliteState \<Rightarrow> nat" where
  "pending_work_count st =
     (let db = st_conn st; ws = st_workspace_id st in
      length (filter (\<lambda>r. ob_client_id r = st_client_id st \<and> ob_stage r \<noteq> BlockedConflict) (db_outbox db)) +
      length (filter (\<lambda>r. li_workspace_id r = ws) (db_local_intents db)) +
      length (filter (\<lambda>r. ss_workspace_id r = ws) (db_stream_state db)) +
      length (filter (\<lambda>r. sr_workspace_id r = ws \<and> \<not> settled (sr_status r)) (db_stream_entries db)) +
      length (filter (\<lambda>r. si_workspace_id r = ws \<and> \<not> settled (si_status r)) (db_stream_revision_items db)) +
      length (filter (\<lambda>r. aj_workspace_id r = ws) (db_apply_journal db)) +
      length (filter (\<lambda>r. wc_workspace_id r = ws \<and> wc_pending_ack_revision r \<noteq> None) (db_workspace_cursor db)))"

text \<open>\<open>UPDATE outbox SET stage = 'dispatched' WHERE \<dots> AND stage = 'queued'\<close>.\<close>

definition mark_queued_dispatched :: "ClientId \<Rightarrow> OperationId \<Rightarrow> OutboxRecord list \<Rightarrow> OutboxRecord list" where
  "mark_queued_dispatched client op rows =
     sql_update (\<lambda>r. outbox_key r = (client, op) \<and> ob_stage r = Queued) (\<lambda>r. r\<lparr>ob_stage := Dispatched\<rparr>) rows"

definition mark_dispatched_tx :: "ClientId \<Rightarrow> OperationId \<Rightarrow> unit tx" where
  "mark_dispatched_tx client op db = Ok ((), db\<lparr>db_outbox := mark_queued_dispatched client op (db_outbox db)\<rparr>)"

definition mark_dispatched :: "OperationId \<Rightarrow> SqliteState \<Rightarrow> (unit, SyncError) result \<times> SqliteState" where
  "mark_dispatched op st = transaction (mark_dispatched_tx (st_client_id st) op) st"

definition outbox_select :: "store_lib \<Rightarrow> ClientId \<Rightarrow> OutboxStage set \<Rightarrow> database \<Rightarrow> OutboxRecord list" where
  "outbox_select lib client stages db =
     sort_key (outbox_order lib) (filter (\<lambda>r. ob_client_id r = client \<and> ob_stage r \<in> stages) (db_outbox db))"

definition dispatch_next_tx :: "store_lib \<Rightarrow> ClientId \<Rightarrow> OutboxRecord option tx" where
  "dispatch_next_tx lib client db =
     and_then (query_optional (row_to_outbox lib) StorageUnavailable
       (case outbox_select lib client {Queued} db of [] \<Rightarrow> None | r # _ \<Rightarrow> Some r)) (\<lambda>selected.
     case selected of
       None \<Rightarrow> Ok (None, db)
     | Some selected \<Rightarrow>
         Ok (Some (selected\<lparr>ob_stage := Dispatched\<rparr>),
             db\<lparr>db_outbox := mark_queued_dispatched client (ob_operation_id selected) (db_outbox db)\<rparr>))"

definition dispatch_next :: "store_lib \<Rightarrow> SqliteState \<Rightarrow> (OutboxRecord option, SyncError) result \<times> SqliteState" where
  "dispatch_next lib st = transaction (dispatch_next_tx lib (st_client_id st)) st"

fun pending_outbox :: "store_lib \<Rightarrow> nat \<Rightarrow> SqliteState \<Rightarrow> (OutboxRecord list, SyncError) result \<times> SqliteState" where
  "pending_outbox lib 0 st = (Ok [], st)"
| "pending_outbox lib (Suc limit) st =
     (case dispatch_next lib st of
        (Err e, st) \<Rightarrow> (Err e, st)
      | (Ok None, st) \<Rightarrow> (Ok [], st)
      | (Ok (Some record), st) \<Rightarrow>
          (case pending_outbox lib limit st of (r, st) \<Rightarrow> (and_then r (\<lambda>records. Ok (record # records)), st)))"

definition replay_row :: "store_lib \<Rightarrow> OutboxRecord \<Rightarrow> OutboxRecord option" where
  "replay_row lib r =
     (case row_to_outbox lib r of
        None \<Rightarrow> None
      | Some record \<Rightarrow> if decoded_body lib record = None then None else Some record)"

text \<open>The cursor is read until \<open>limit\<close> rows were taken.\<close>

definition pending_outbox_replay_tx :: "store_lib \<Rightarrow> ClientId \<Rightarrow> nat \<Rightarrow> OutboxRecord list tx" where
  "pending_outbox_replay_tx lib client limit db =
     and_then (query_map (replay_row lib) (CorruptState ''outbox'' ''body_json'')
       (take limit (outbox_select lib client {Queued, Dispatched} db))) (\<lambda>records.
     Ok (map (\<lambda>r. if ob_stage r = Queued then r\<lparr>ob_stage := Dispatched\<rparr> else r) records,
         db\<lparr>db_outbox :=
           fold (\<lambda>r rows. if ob_stage r = Queued then mark_queued_dispatched client (ob_operation_id r) rows else rows)
             records (db_outbox db)\<rparr>))"

definition pending_outbox_replay ::
    "store_lib \<Rightarrow> nat \<Rightarrow> SqliteState \<Rightarrow> (OutboxRecord list, SyncError) result \<times> SqliteState" where
  "pending_outbox_replay lib limit st =
     (if limit = 0 then (Ok [], st) else transaction (pending_outbox_replay_tx lib (st_client_id st) limit) st)"

fun outbox_stage_transition_allowed :: "OutboxStage \<Rightarrow> OutboxStage \<Rightarrow> bool" where
  "outbox_stage_transition_allowed Queued to = True"
| "outbox_stage_transition_allowed Dispatched to = (to \<noteq> Queued)"
| "outbox_stage_transition_allowed AwaitingBlob to = (to \<noteq> Queued)"
| "outbox_stage_transition_allowed BlockedConflict to = (to \<noteq> Queued)"

definition set_outbox_stage_tx :: "store_lib \<Rightarrow> ClientId \<Rightarrow> OperationId \<Rightarrow> OutboxStage \<Rightarrow> unit tx" where
  "set_outbox_stage_tx lib client op stage db =
     and_then (query_optional (row_to_outbox lib) StorageUnavailable (outbox_row client op db)) (\<lambda>existing.
     and_then (ok_or existing (ProtocolInvariant ''outbox_not_found'')) (\<lambda>current.
     fail_if (\<not> outbox_stage_transition_allowed (ob_stage current) stage)
       (ProtocolInvariant ''outbox_stage_regression'')
    (Ok ((), db\<lparr>db_outbox := sql_update (\<lambda>r. outbox_key r = (client, op)) (\<lambda>r. r\<lparr>ob_stage := stage\<rparr>)
                  (db_outbox db)\<rparr>))))"

definition set_outbox_stage ::
    "store_lib \<Rightarrow> OperationId \<Rightarrow> OutboxStage \<Rightarrow> SqliteState \<Rightarrow> (unit, SyncError) result \<times> SqliteState" where
  "set_outbox_stage lib op stage st = transaction (set_outbox_stage_tx lib (st_client_id st) op stage) st"

definition replay_awaiting_blob_tx :: "ClientId \<Rightarrow> nat tx" where
  "replay_awaiting_blob_tx client db =
     (let waiting = (\<lambda>r. ob_client_id r = client \<and> ob_stage r = AwaitingBlob) in
      Ok (length (filter waiting (db_outbox db)),
          db\<lparr>db_outbox := sql_update waiting (\<lambda>r. r\<lparr>ob_stage := Dispatched\<rparr>) (db_outbox db)\<rparr>))"

definition replay_awaiting_blob_mutations :: "SqliteState \<Rightarrow> (nat, SyncError) result \<times> SqliteState" where
  "replay_awaiting_blob_mutations st = transaction (replay_awaiting_blob_tx (st_client_id st)) st"

definition remove_outbox_tx :: "ClientId \<Rightarrow> OperationId \<Rightarrow> unit tx" where
  "remove_outbox_tx client op db =
     Ok ((), db\<lparr>db_outbox := sql_delete (\<lambda>r. outbox_key r = (client, op)) (db_outbox db)\<rparr>)"

definition remove_outbox :: "OperationId \<Rightarrow> SqliteState \<Rightarrow> (unit, SyncError) result \<times> SqliteState" where
  "remove_outbox op st = transaction (remove_outbox_tx (st_client_id st) op) st"

section \<open>Local intents\<close>

definition local_intent :: "store_lib \<Rightarrow> string \<Rightarrow> SqliteState \<Rightarrow> (LocalIntentRecord option, SyncError) result" where
  "local_intent lib path st =
     and_then (parse_path_arg lib path) (\<lambda>path.
     query_optional row_to_local_intent StorageUnavailable
       (find (\<lambda>r. intent_key r = (st_workspace_id st, path)) (db_local_intents (st_conn st))))"

definition local_intents :: "SqliteState \<Rightarrow> (LocalIntentRecord list, SyncError) result" where
  "local_intents st =
     query_map row_to_local_intent StorageUnavailable
       (sort_key li_path (filter (\<lambda>r. li_workspace_id r = st_workspace_id st) (db_local_intents (st_conn st))))"

definition put_local_intent_tx :: "WorkspaceId \<Rightarrow> WorkspacePath \<Rightarrow> u8 list \<Rightarrow> i64 \<Rightarrow> unit tx" where
  "put_local_intent_tx ws path intent_json updated_at_ms db =
     Ok ((), db\<lparr>db_local_intents := sql_upsert intent_key
       \<lparr>li_workspace_id = ws, li_path = path, li_intent_json = intent_json, li_updated_at_ms = updated_at_ms\<rparr>
       (db_local_intents db)\<rparr>)"

definition put_local_intent ::
    "WorkspacePath \<Rightarrow> u8 list \<Rightarrow> i64 \<Rightarrow> SqliteState \<Rightarrow> (unit, SyncError) result \<times> SqliteState" where
  "put_local_intent path intent_json updated_at_ms st =
     transaction (put_local_intent_tx (st_workspace_id st) path intent_json updated_at_ms) st"

definition remove_local_intent_tx :: "WorkspaceId \<Rightarrow> WorkspacePath \<Rightarrow> unit tx" where
  "remove_local_intent_tx ws path db =
     Ok ((), db\<lparr>db_local_intents := sql_delete (\<lambda>r. intent_key r = (ws, path)) (db_local_intents db)\<rparr>)"

definition remove_local_intent :: "WorkspacePath \<Rightarrow> SqliteState \<Rightarrow> (unit, SyncError) result \<times> SqliteState" where
  "remove_local_intent path st = transaction (remove_local_intent_tx (st_workspace_id st) path) st"

section \<open>Hash cache\<close>

datatype HashCacheError = HashCacheIo | HashCacheInvalid

definition cache_lookup ::
    "store_lib \<Rightarrow> WorkspacePath \<Rightarrow> FileFingerprint \<Rightarrow> SqliteState \<Rightarrow>
     (WorkspaceContentHash option, HashCacheError) result" where
  "cache_lookup lib path fingerprint st =
     (case find (\<lambda>r. hash_cache_key r = (st_workspace_id st, path)) (db_hash_cache (st_conn st)) of
        None \<Rightarrow> Ok None
      | Some r \<Rightarrow>
          and_then (ok_or (from_slice (lib_fingerprint lib) (hc_fingerprint_json r)) HashCacheInvalid) (\<lambda>stored.
          if stored \<noteq> fingerprint then Ok None
          else and_then (map_err (\<lambda>_. HashCacheInvalid) (content_hash_parse (hc_content_hash r)))
                 (\<lambda>hash. Ok (Some hash))))"

definition cache_store ::
    "store_lib \<Rightarrow> WorkspacePath \<Rightarrow> FileFingerprint \<Rightarrow> WorkspaceContentHash \<Rightarrow> SqliteState \<Rightarrow>
     (unit, HashCacheError) result \<times> SqliteState" where
  "cache_store lib path fingerprint hash st =
     (case and_then (ok_or (to_vec (lib_fingerprint lib) fingerprint) HashCacheInvalid) (\<lambda>json.
           and_then (map_err (\<lambda>_. HashCacheInvalid) (content_hash_parse (hash_str hash))) (\<lambda>_. Ok json)) of
        Err e \<Rightarrow> (Err e, st)
      | Ok json \<Rightarrow>
          (Ok (), st\<lparr>st_conn := (st_conn st)\<lparr>db_hash_cache := sql_upsert hash_cache_key
             \<lparr>hc_workspace_id = st_workspace_id st, hc_path = path, hc_fingerprint_json = json,
              hc_content_hash = hash_str hash\<rparr> (db_hash_cache (st_conn st))\<rparr>\<rparr>))"

definition cache_invalidate :: "WorkspacePath \<Rightarrow> SqliteState \<Rightarrow> (unit, HashCacheError) result \<times> SqliteState" where
  "cache_invalidate path st =
     (Ok (), st\<lparr>st_conn := (st_conn st)\<lparr>db_hash_cache :=
        sql_delete (\<lambda>r. hash_cache_key r = (st_workspace_id st, path)) (db_hash_cache (st_conn st))\<rparr>\<rparr>)"

end
