(* ===== verification/Sync_Example.thy ===== *)
theory Sync_Example
  imports Sync_Tables
begin

text \<open>
  Concrete inputs for the synchronisation store: libraries that satisfy \<open>store_law\<close>, with a small table
  of JSON texts per message type, and a fresh database of one workspace.
\<close>

definition table_codec :: "('a \<times> u8 list) list \<Rightarrow> 'a serde" where
  "table_codec ps = \<lparr>to_vec = map_of ps, from_slice = map_of (map prod.swap ps)\<rparr>"

lemma table_codec_law: "distinct (map snd ps) \<Longrightarrow> codec_law (table_codec ps)"
  by (auto simp: codec_law_def table_codec_def dest!: map_of_SomeD intro!: map_of_is_SomeI)
    (auto simp: comp_def prod.swap_def)

definition demo_ws :: WorkspaceId where "demo_ws = WorkspaceId 1"
definition demo_client :: ClientId where "demo_client = ClientId 2"

definition demo_metadata :: WorkspaceFileMetadata where
  "demo_metadata = \<lparr>md_size = 0, md_modified_at_ms = 0, md_executable = False\<rparr>"

definition demo_dir :: "string \<Rightarrow> u64 \<Rightarrow> WorkspacePathState" where
  "demo_dir path revision =
     \<lparr>ps_path = WorkspacePath path, ps_path_revision = WorkspaceRevision revision, ps_kind = Directory,
      ps_content_hash = Null, ps_metadata = demo_metadata, ps_tombstone = False\<rparr>"

definition demo_mkdir :: "uuid \<Rightarrow> string \<Rightarrow> WorkspaceMutation" where
  "demo_mkdir op path =
     \<lparr>wm_workspace_id = demo_ws, wm_client_id = demo_client, wm_operation_id = OperationId op,
      wm_path = WorkspacePath path, wm_base_path_revision = ZERO, wm_kind = Mkdir, wm_content_hash = Null,
      wm_metadata = demo_metadata, wm_new_path = None, wm_target_base_path_revision = None\<rparr>"

definition demo_entry :: "u32 \<Rightarrow> string \<Rightarrow> WorkspaceSnapshotEntryMessage" where
  "demo_entry index path =
     \<lparr>se_workspace_id = demo_ws, se_stream_id = StreamId 3, se_index = index, se_entry = demo_dir path 1\<rparr>"

definition demo_event :: "u32 \<Rightarrow> u64 \<Rightarrow> WorkspaceEventMessage" where
  "demo_event index revision =
     \<lparr>ev_workspace_id = demo_ws, ev_stream_id = StreamId 3, ev_index = index,
      ev_revision = WorkspaceRevision revision, ev_operation_id = OperationId 11, ev_origin_client_id = demo_client,
      ev_mutation = demo_mkdir 11 ''a'', ev_path_state = demo_dir ''a'' revision, ev_old_path_state = None,
      ev_new_path_state = None\<rparr>"

definition demo_side :: "string \<Rightarrow> WorkspaceConflictSide" where
  "demo_side path =
     \<lparr>cs_path = Value (WorkspacePath path), cs_path_revision = WorkspaceRevision 1, cs_content_hash = Null,
      cs_metadata = demo_metadata, cs_tombstone = False\<rparr>"

definition demo_created :: "u64 \<Rightarrow> WorkspaceConflictCreatedMessage" where
  "demo_created revision =
     \<lparr>cc_workspace_id = demo_ws, cc_conflict_id = ConflictId 4,
      cc_conflict_revision = WorkspaceConflictRevision revision, cc_path = WorkspacePath ''a'',
      cc_kind = WorkspaceConflictKind.Rename, cc_ancestor = demo_side ''a'', cc_current = demo_side ''b'',
      cc_incoming = demo_side ''c'', cc_created_by_operation_id = OperationId 11\<rparr>"

definition demo_store :: store_lib where
  "demo_store =
     \<lparr>lib_uuid = raw_uuid_lib, lib_nfc = (\<lambda>s. s), lib_blake3 = (\<lambda>b. replicate 32 0),
      lib_mutation = table_codec [(demo_mkdir 11 ''a'', [1]), (demo_mkdir 12 ''b'', [2])],
      lib_resolution = table_codec [], lib_path_state = table_codec [(demo_dir ''a'' 1, [3])],
      lib_snapshot_entry = table_codec [(demo_entry 0 ''a'', [4]), (demo_entry 1 ''b'', [5])],
      lib_event = table_codec [(demo_event 0 2, [6]), (demo_event 1 10, [7])],
      lib_resolved = table_codec [], lib_created = table_codec [(demo_created 1, [8]), (demo_created 2, [9])],
      lib_accepted = table_codec [], lib_fingerprint = table_codec []\<rparr>"

lemma demo_store_law: "store_law demo_store"
  by (simp add: store_law_def demo_store_def table_codec_law raw_uuid_law) (simp add: table_codec_def)

definition empty_database :: database where
  "empty_database =
     \<lparr>db_workspace_cursor = [], db_path_states = [], db_outbox = [], db_local_intents = [], db_stream_state = [],
      db_stream_entries = [], db_stream_revision_items = [], db_stream_conflicts = [], db_apply_journal = [],
      db_applied_operations = [], db_provisional = [], db_conflicts = [], db_hash_cache = []\<rparr>"

definition demo_state :: SqliteState where
  "demo_state =
     \<lparr>st_conn = empty_database\<lparr>db_workspace_cursor :=
        [\<lparr>wc_workspace_id = demo_ws, wc_client_id = demo_client, wc_last_ack_revision = ZERO,
          wc_last_applied_revision = ZERO, wc_pending_ack_revision = None,
          wc_pending_segment_ack_revision = None\<rparr>]\<rparr>,
      st_workspace_id = demo_ws, st_client_id = demo_client\<rparr>"

lemmas demo_values =
  demo_ws_def demo_client_def demo_metadata_def demo_dir_def demo_mkdir_def demo_entry_def demo_event_def
  demo_side_def demo_created_def

lemmas demo_lib_simps = demo_store_def table_codec_def body_digest_def

end
