(* ===== verification/Sync_Queue.thy ===== *)
theory Sync_Queue
  imports Sync_Outbox Sync_Example
begin

text \<open>
  What the outbox of \<open>Sync_Outbox\<close> promises. Its rows stay readable under every operation; queued
  operations leave it in the order of their time stamp and identifier, each once (the locale \<open>ordered_queue\<close>,
  interpreted for the transactions of the code); what was dispatched once keeps its body until it is removed, and is
  selected again, unchanged, by every replay.
\<close>

section \<open>Steps and readable rows\<close>

text \<open>
  The transactions that write the outbox. \<open>outbox_step\<close> has those that keep every row; rows leave it by
  \<open>remove_outbox_tx\<close> (and by the replacement of conflicts).
\<close>

inductive outbox_step :: "store_lib \<Rightarrow> WorkspaceId \<Rightarrow> ClientId \<Rightarrow> database \<Rightarrow> database \<Rightarrow> bool"
  for lib ws client where
  step_enqueue: "enqueue_mutation_at lib ws client m now db = Ok (r, db') \<Longrightarrow> outbox_step lib ws client db db'"
| step_resolve: "enqueue_conflict_resolution_at lib ws client q now db = Ok (r, db') \<Longrightarrow> outbox_step lib ws client db db'"
| step_mark: "mark_dispatched_tx client op db = Ok (u, db') \<Longrightarrow> outbox_step lib ws client db db'"
| step_dispatch: "dispatch_next_tx lib client db = Ok (s, db') \<Longrightarrow> outbox_step lib ws client db db'"
| step_replay: "pending_outbox_replay_tx lib client limit db = Ok (rs, db') \<Longrightarrow> outbox_step lib ws client db db'"
| step_stage: "set_outbox_stage_tx lib client op stage db = Ok (u, db') \<Longrightarrow> outbox_step lib ws client db db'"
| step_awaiting: "replay_awaiting_blob_tx client db = Ok (n, db') \<Longrightarrow> outbox_step lib ws client db db'"

definition outbox_inv :: "store_lib \<Rightarrow> database \<Rightarrow> bool" where
  "outbox_inv lib db \<longleftrightarrow>
     keyed outbox_key (db_outbox db) \<and> (\<forall>r\<in>set (db_outbox db). row_to_outbox lib r = Some r)"

text \<open>Readers look at the body and the identity of a row, not at its stage or time.\<close>

lemma row_to_outbox_Some: "row_to_outbox lib r = Some x \<Longrightarrow> x = r"
  by (auto simp: row_to_outbox_def split: if_splits option.splits)

lemma row_to_outbox_stage [simp]:
  "row_to_outbox lib (r\<lparr>ob_stage := stage\<rparr>) = map_option (\<lambda>r. r\<lparr>ob_stage := stage\<rparr>) (row_to_outbox lib r)"
  by (auto simp: row_to_outbox_def split: option.splits)

lemma row_to_outbox_mutation:
  assumes "store_law lib" "to_vec (lib_mutation lib) m = Some body" "mutation_validate m = Ok ()"
  shows "row_to_outbox lib
    \<lparr>ob_client_id = wm_client_id m, ob_operation_id = wm_operation_id m, ob_workspace_id = wm_workspace_id m,
     ob_body_json = body, ob_body_digest = body_digest lib body, ob_stage = stage, ob_created_at_ms = t\<rparr> \<noteq> None"
  using assms digest_ok_body_digest [OF assms(1), of body]
  by (simp add: row_to_outbox_def store_law_def codec_law_def)

lemma row_to_outbox_resolution:
  assumes "store_law lib" "to_vec (lib_resolution lib) q = Some body" "conflict_resolved_request_validate q = Ok ()"
  shows "row_to_outbox lib
    \<lparr>ob_client_id = rq_client_id q, ob_operation_id = rq_operation_id q, ob_workspace_id = rq_workspace_id q,
     ob_body_json = body, ob_body_digest = body_digest lib body, ob_stage = stage, ob_created_at_ms = t\<rparr> \<noteq> None"
  using assms digest_ok_body_digest [OF assms(1), of body]
  by (simp add: row_to_outbox_def store_law_def codec_law_def)

lemma outbox_row_Some:
  "outbox_inv lib db \<Longrightarrow> outbox_row client op db = Some r \<longleftrightarrow> r \<in> set (db_outbox db) \<and> outbox_key r = (client, op)"
  by (simp add: outbox_inv_def outbox_row_def find_keyed)

lemma outbox_row_None:
  "outbox_row client op db = None \<longleftrightarrow> (\<forall>r\<in>set (db_outbox db). outbox_key r \<noteq> (client, op))"
  by (auto simp: outbox_row_def find_None_iff)

lemma outbox_inv_update:
  assumes "outbox_inv lib db"
    and "\<And>r. r \<in> set (db_outbox db) \<Longrightarrow> p r \<Longrightarrow> outbox_key (f r) = outbox_key r \<and> row_to_outbox lib (f r) = Some (f r)"
  shows "outbox_inv lib (db\<lparr>db_outbox := sql_update p f (db_outbox db)\<rparr>)"
proof -
  have "map outbox_key (sql_update p f (db_outbox db)) = map outbox_key (db_outbox db)"
    using assms(2) by (simp add: sql_update_def)
  with assms show ?thesis
    by (auto simp: outbox_inv_def keyed_def table_simps)
qed

lemma outbox_inv_stage:
  "outbox_inv lib db \<Longrightarrow> outbox_inv lib (db\<lparr>db_outbox := sql_update p (\<lambda>r. r\<lparr>ob_stage := stage\<rparr>) (db_outbox db)\<rparr>)"
  by (rule outbox_inv_update) (auto simp: outbox_inv_def outbox_key_def)

lemma outbox_inv_mark:
  "outbox_inv lib db \<Longrightarrow> outbox_inv lib (db\<lparr>db_outbox := mark_queued_dispatched client op (db_outbox db)\<rparr>)"
  by (simp add: mark_queued_dispatched_def outbox_inv_stage)

lemma outbox_inv_enqueue:
  assumes inv: "outbox_inv lib db" and enq: "enqueue_outbox_tx lib client op ws body t db = Ok (r, db')"
    and ok: "\<And>stage t. row_to_outbox lib
      \<lparr>ob_client_id = client, ob_operation_id = op, ob_workspace_id = ws, ob_body_json = body,
       ob_body_digest = body_digest lib body, ob_stage = stage, ob_created_at_ms = t\<rparr> \<noteq> None"
  shows "outbox_inv lib db'"
proof (cases "outbox_row client op db")
  case None
  let ?r = "\<lparr>ob_client_id = client, ob_operation_id = op, ob_workspace_id = ws, ob_body_json = body,
       ob_body_digest = body_digest lib body, ob_stage = Queued, ob_created_at_ms = t\<rparr>"
  have "row_to_outbox lib ?r = Some ?r"
    using ok [of Queued t] row_to_outbox_Some by (metis option.exhaust)
  with None inv enq show ?thesis
    by (auto simp: enqueue_outbox_tx_def outbox_inv_def result_simps keyed_append1 query_optional_def Let_def)
next
  case (Some x)
  let ?w = "\<lambda>r. r\<lparr>ob_workspace_id := ws, ob_body_json := body, ob_body_digest := body_digest lib body,
                   ob_created_at_ms := t\<rparr>"
  have row: "row_to_outbox lib x = Some x" "outbox_key x = (client, op)"
    using Some inv outbox_row_Some [OF inv] by (auto simp: outbox_inv_def)
  have readable: "row_to_outbox lib (?w r) = Some (?w r)" if "outbox_key r = (client, op)" for r
  proof -
    have "?w r = \<lparr>ob_client_id = client, ob_operation_id = op, ob_workspace_id = ws, ob_body_json = body,
       ob_body_digest = body_digest lib body, ob_stage = ob_stage r, ob_created_at_ms = t\<rparr>"
      using that by (cases r) (simp add: outbox_key_def)
    then show ?thesis using ok [of "ob_stage r" t] row_to_outbox_Some by (metis option.exhaust)
  qed
  have "db' = db \<or> db' = db\<lparr>db_outbox := sql_update (\<lambda>r. outbox_key r = (client, op) \<and> ob_stage r = Queued) ?w (db_outbox db)\<rparr>"
    using enq Some row by (auto simp: enqueue_outbox_tx_def query_optional_def Let_def result_simps split: if_splits)
  then show ?thesis
  proof
    assume "db' = db\<lparr>db_outbox := sql_update (\<lambda>r. outbox_key r = (client, op) \<and> ob_stage r = Queued) ?w (db_outbox db)\<rparr>"
    with inv readable show ?thesis by (simp only:) (rule outbox_inv_update, auto simp: outbox_key_def)
  qed (simp add: inv)
qed

lemma outbox_inv_replay:
  "outbox_inv lib db \<Longrightarrow>
   outbox_inv lib (db\<lparr>db_outbox :=
     fold (\<lambda>r rows. if ob_stage r = Queued then mark_queued_dispatched client (ob_operation_id r) rows else rows)
       records (db_outbox db)\<rparr>)"
proof (induction records arbitrary: db)
  case (Cons r records)
  show ?case
  proof (cases "ob_stage r = Queued")
    case True
    then show ?thesis
      using Cons.IH [OF outbox_inv_mark [OF Cons.prems, of client "ob_operation_id r"]] by simp
  qed (use Cons in simp)
qed simp

lemma outbox_inv_step:
  assumes law: "store_law lib" and inv: "outbox_inv lib db" and step: "outbox_step lib ws client db db'"
  shows "outbox_inv lib db'"
  using step
proof cases
  case (step_enqueue m now r)
  then have m: "mutation_validate m = Ok ()" "wm_workspace_id m = ws" "wm_client_id m = client"
    by (auto simp: enqueue_mutation_at_def result_simps)
  obtain body where "to_vec (lib_mutation lib) m = Some body"
    and "enqueue_outbox_tx lib client (wm_operation_id m) ws body now db = Ok (r, db')"
    using step_enqueue m by (auto simp: enqueue_mutation_at_def result_simps)
  with m show ?thesis
    using outbox_inv_enqueue [OF inv] row_to_outbox_mutation [OF law _ m(1)] by blast
next
  case (step_resolve q now r)
  then have q: "conflict_resolved_request_validate q = Ok ()" "rq_workspace_id q = ws" "rq_client_id q = client"
    by (auto simp: enqueue_conflict_resolution_at_def result_simps)
  obtain body where "to_vec (lib_resolution lib) q = Some body"
    and "enqueue_outbox_tx lib client (rq_operation_id q) ws body now db = Ok (r, db')"
    using step_resolve q by (auto simp: enqueue_conflict_resolution_at_def result_simps)
  with q show ?thesis
    using outbox_inv_enqueue [OF inv] row_to_outbox_resolution [OF law _ q(1)] by blast
qed (use inv in \<open>auto simp: mark_dispatched_tx_def dispatch_next_tx_def pending_outbox_replay_tx_def
       set_outbox_stage_tx_def replay_awaiting_blob_tx_def result_simps Let_def outbox_inv_mark outbox_inv_stage
       outbox_inv_replay split: option.splits\<close>)

lemma outbox_inv_remove: "outbox_inv lib db \<Longrightarrow> outbox_inv lib (db\<lparr>db_outbox := sql_delete p (db_outbox db)\<rparr>)"
  by (auto simp: outbox_inv_def table_simps keyed_sql_delete)

section \<open>Dispatch in order\<close>

text \<open>
  The interface of a priority queue with a bounded drain: a new item goes to its \<open>place\<close>, behind the items whose
  key is not larger than its own and before all others; \<open>drain\<close> is the loop over \<open>deq\<close> that stops at the limit or when
  nothing is left. The client's lemmas are proved once from the laws of \<open>enq\<close> and \<open>deq\<close>.
\<close>

fun place :: "('a \<Rightarrow> 'k::linorder) \<Rightarrow> 'a \<Rightarrow> 'a list \<Rightarrow> 'a list" where
  "place key x [] = [x]"
| "place key x (y # ys) = (if key y \<le> key x then y # place key x ys else x # y # ys)"

lemma place_last: "\<forall>y\<in>set ys. key y \<le> key x \<Longrightarrow> place key x ys = ys @ [x]"
  by (induction ys) auto

lemma insort_place: "insort_key key x (place key r ys) = place key r (insort_key key x ys)"
  by (induction ys) auto

lemma sort_key_place: "sort_key key (xs @ [r]) = place key r (sort_key key xs)"
  by (induction xs) (simp_all add: insort_place)

locale ordered_queue =
  fixes enq :: "'m \<Rightarrow> 's \<Rightarrow> 's"
    and deq :: "'s \<Rightarrow> ('b option, 'e) result \<times> 's"
    and drain :: "nat \<Rightarrow> 's \<Rightarrow> ('b list, 'e) result \<times> 's"
    and out :: "'a \<Rightarrow> 'b"
    and items :: "'s \<Rightarrow> 'a list"
    and key :: "'a \<Rightarrow> 'k::linorder"
    and accepts :: "'m \<Rightarrow> 's \<Rightarrow> bool"
    and item :: "'m \<Rightarrow> 's \<Rightarrow> 'a"
    and inv :: "'s \<Rightarrow> bool"
  assumes enq_items: "inv s \<Longrightarrow> accepts m s \<Longrightarrow> inv (enq m s) \<and> items (enq m s) = place key (item m s) (items s)"
    and deq_Nil: "inv s \<Longrightarrow> items s = [] \<Longrightarrow> deq s = (Ok None, s)"
    and deq_Cons: "inv s \<Longrightarrow> items s = a # as \<Longrightarrow> \<exists>s'. deq s = (Ok (Some (out a)), s') \<and> items s' = as \<and> inv s'"
    and drain_0: "drain 0 s = (Ok [], s)"
    and drain_Suc: "drain (Suc n) s =
      (case deq s of
         (Err e, s) \<Rightarrow> (Err e, s)
       | (Ok None, s) \<Rightarrow> (Ok [], s)
       | (Ok (Some a), s) \<Rightarrow> (case drain n s of (r, s) \<Rightarrow> (and_then r (\<lambda>as. Ok (a # as)), s)))"
begin

lemma drain_takes:
  "inv s \<Longrightarrow> \<exists>s'. drain n s = (Ok (map out (take n (items s))), s') \<and> items s' = drop n (items s) \<and> inv s'"
proof (induction n arbitrary: s)
  case (Suc n)
  show ?case
  proof (cases "items s")
    case Nil
    then show ?thesis using Suc.prems deq_Nil by (simp add: drain_Suc)
  next
    case (Cons a as)
    then obtain s' where "deq s = (Ok (Some (out a)), s')" "items s' = as" "inv s'"
      using Suc.prems deq_Cons by blast
    then show ?thesis using Suc.IH [of s'] Cons by (auto simp: drain_Suc)
  qed
qed (simp add: drain_0)

lemma drain_after_enq:
  "inv s \<Longrightarrow> accepts m s \<Longrightarrow>
   \<exists>s'. drain n (enq m s) = (Ok (map out (take n (place key (item m s) (items s)))), s')"
  using enq_items [of s m] drain_takes [of "enq m s" n] by auto

end

abbreviation dispatched :: "OutboxRecord \<Rightarrow> OutboxRecord" where
  "dispatched r \<equiv> r\<lparr>ob_stage := Dispatched\<rparr>"

definition queued :: "store_lib \<Rightarrow> SqliteState \<Rightarrow> OutboxRecord list" where
  "queued lib st = outbox_select lib (st_client_id st) {Queued} (st_conn st)"

lemma outbox_select_update:
  assumes "\<And>r. outbox_order lib (g r) = outbox_order lib r"
    and "\<And>r. r \<in> set (db_outbox db) \<Longrightarrow> (ob_client_id (g r) = client \<and> ob_stage (g r) \<in> stages) \<longleftrightarrow>
      (ob_client_id r = client \<and> ob_stage r \<in> stages)"
  shows "outbox_select lib client stages (db\<lparr>db_outbox := map g (db_outbox db)\<rparr>) =
    map g (outbox_select lib client stages db)"
proof -
  have insort: "insort_key (outbox_order lib) (g x) (map g xs) = map g (insort_key (outbox_order lib) x xs)" for x xs
    by (induction xs) (simp_all add: assms(1))
  have sort: "sort_key (outbox_order lib) (map g xs) = map g (sort_key (outbox_order lib) xs)" for xs
    by (induction xs) (simp_all add: insort)
  have "filter (\<lambda>r. ob_client_id r = client \<and> ob_stage r \<in> stages) (map g (db_outbox db)) =
    map g (filter (\<lambda>r. ob_client_id r = client \<and> ob_stage r \<in> stages) (db_outbox db))"
    using assms(2) by (auto simp: filter_map comp_def intro!: arg_cong [where f = "map g"] filter_cong)
  then show ?thesis by (simp add: outbox_select_def sort)
qed

lemma set_outbox_select:
  "set (outbox_select lib client stages db) =
   {r \<in> set (db_outbox db). ob_client_id r = client \<and> ob_stage r \<in> stages}"
  by (auto simp: outbox_select_def)

lemma distinct_outbox_select: "outbox_inv lib db \<Longrightarrow> distinct (outbox_select lib client stages db)"
  by (auto simp: outbox_select_def outbox_inv_def keyed_def distinct_map intro: distinct_filter)

lemma outbox_select_drop:
  assumes "\<forall>r\<in>set (db_outbox db). (ob_client_id (g r) = client \<and> ob_stage (g r) \<in> stages) \<longrightarrow> g r = r"
  shows "outbox_select lib client stages (db\<lparr>db_outbox := map g (db_outbox db)\<rparr>) =
    filter (\<lambda>r. g r = r) (outbox_select lib client stages db)"
proof -
  have "filter (\<lambda>r. ob_client_id r = client \<and> ob_stage r \<in> stages) (map g rows) =
    filter (\<lambda>r. g r = r) (filter (\<lambda>r. ob_client_id r = client \<and> ob_stage r \<in> stages) rows)"
    if "\<forall>r\<in>set rows. (ob_client_id (g r) = client \<and> ob_stage (g r) \<in> stages) \<longrightarrow> g r = r" for rows
    using that by (induction rows) auto
  with assms show ?thesis by (simp add: outbox_select_def filter_sort)
qed

lemma mark_queued_dispatched_row:
  assumes "outbox_inv lib db" "a \<in> set (db_outbox db)" "ob_client_id a = client" "ob_stage a = Queued"
  shows "mark_queued_dispatched client (ob_operation_id a) (db_outbox db) =
    map (\<lambda>r. if r = a then dispatched r else r) (db_outbox db)"
  using assms keyed_unique [of outbox_key "db_outbox db" _ a]
  by (auto simp: mark_queued_dispatched_def sql_update_def outbox_inv_def outbox_key_def)

text \<open>One dispatch: nothing when nothing is queued, else the first queued row, which is marked.\<close>

lemma dispatch_next_Nil: "queued lib st = [] \<Longrightarrow> dispatch_next lib st = (Ok None, st)"
  by (simp add: dispatch_next_def queued_def dispatch_next_tx_def query_optional_def transaction_def)

lemma dispatch_next_Cons:
  assumes inv: "outbox_inv lib (st_conn st)" and q: "queued lib st = a # as"
  defines "st' \<equiv> st\<lparr>st_conn := (st_conn st)\<lparr>db_outbox :=
    map (\<lambda>r. if r = a then dispatched r else r) (db_outbox (st_conn st))\<rparr>\<rparr>"
  shows "dispatch_next lib st = (Ok (Some (dispatched a)), st')" "queued lib st' = as" "outbox_inv lib (st_conn st')"
proof -
  have a: "a \<in> set (db_outbox (st_conn st))" "ob_client_id a = st_client_id st" "ob_stage a = Queued"
    using q set_outbox_select [of lib "st_client_id st" "{Queued}" "st_conn st"] by (auto simp: queued_def)
  have read: "row_to_outbox lib a = Some a" using inv a by (simp add: outbox_inv_def)
  show "dispatch_next lib st = (Ok (Some (dispatched a)), st')"
    using q mark_queued_dispatched_row [OF inv a] read
    by (simp add: dispatch_next_def queued_def dispatch_next_tx_def query_optional_def transaction_def st'_def)
  have "distinct (a # as)" using q distinct_outbox_select [OF inv] by (metis queued_def)
  then have "filter (\<lambda>r. (if r = a then dispatched r else r) = r) (a # as) = as"
    using a(3) by (auto simp: filter_id_conv dest: arg_cong [where f = ob_stage])
  moreover have "queued lib st' = filter (\<lambda>r. (if r = a then dispatched r else r) = r) (queued lib st)"
    unfolding queued_def st'_def by (subst outbox_select_drop [symmetric]) simp_all
  ultimately show "queued lib st' = as" using q by simp
  show "outbox_inv lib (st_conn st')"
    using outbox_inv_mark [OF inv, of "st_client_id st" "ob_operation_id a"]
    by (simp add: st'_def mark_queued_dispatched_row [OF inv a])
qed

text \<open>A new valid mutation of this client is enqueued whatever its time stamp is; it comes to its place in the order.\<close>

definition enqueues :: "store_lib \<Rightarrow> WorkspaceMutation \<times> i64 \<Rightarrow> SqliteState \<Rightarrow> bool" where
  "enqueues lib mt st \<longleftrightarrow> (case mt of (m, now) \<Rightarrow>
     mutation_validate m = Ok () \<and> wm_workspace_id m = st_workspace_id st \<and> wm_client_id m = st_client_id st \<and>
     to_vec (lib_mutation lib) m \<noteq> None \<and> outbox_row (st_client_id st) (wm_operation_id m) (st_conn st) = None)"

definition enqueued_record :: "store_lib \<Rightarrow> WorkspaceMutation \<times> i64 \<Rightarrow> OutboxRecord" where
  "enqueued_record lib mt = (case mt of (m, now) \<Rightarrow>
     \<lparr>ob_client_id = wm_client_id m, ob_operation_id = wm_operation_id m, ob_workspace_id = wm_workspace_id m,
      ob_body_json = the (to_vec (lib_mutation lib) m),
      ob_body_digest = body_digest lib (the (to_vec (lib_mutation lib) m)), ob_stage = Queued,
      ob_created_at_ms = now\<rparr>)"

lemma enqueue_mutation_fresh:
  assumes law: "store_law lib" and inv: "outbox_inv lib (st_conn st)" and ok: "enqueues lib (m, now) st"
  defines "r \<equiv> enqueued_record lib (m, now)"
  defines "st' \<equiv> st\<lparr>st_conn := (st_conn st)\<lparr>db_outbox := db_outbox (st_conn st) @ [r]\<rparr>\<rparr>"
  shows "enqueue_mutation lib now m st = (Ok r, st')" "queued lib st' = place (outbox_order lib) r (queued lib st)"
    "outbox_inv lib (st_conn st')"
proof -
  from ok obtain body where m: "mutation_validate m = Ok ()" "wm_workspace_id m = st_workspace_id st"
    "wm_client_id m = st_client_id st" "to_vec (lib_mutation lib) m = Some body"
    and fresh: "\<forall>x\<in>set (db_outbox (st_conn st)). outbox_key x \<noteq> (st_client_id st, wm_operation_id m)"
    by (auto simp: enqueues_def outbox_row_None)
  have fields: "ob_client_id r = st_client_id st" "ob_stage r = Queued" "outbox_key r = (st_client_id st, wm_operation_id m)"
    using m by (simp_all add: r_def enqueued_record_def outbox_key_def)
  have tx: "enqueue_mutation_at lib (st_workspace_id st) (st_client_id st) m now (st_conn st) = Ok (r, st_conn st')"
    using m ok fresh fields(3)
    by (auto simp: enqueue_mutation_at_def enqueue_outbox_tx_def enqueues_def query_optional_def canonical_json_def
        sql_insert_def list_ex_iff r_def enqueued_record_def st'_def Let_def)
  then show "enqueue_mutation lib now m st = (Ok r, st')"
    by (simp add: enqueue_mutation_def transaction_def st'_def)
  show "queued lib st' = place (outbox_order lib) r (queued lib st)"
    using fields by (simp add: queued_def outbox_select_def st'_def sort_key_place)
  show "outbox_inv lib (st_conn st')"
    using outbox_inv_step [OF law inv step_enqueue [OF tx]] .
qed

interpretation outbox_queue: ordered_queue
  "\<lambda>(m, now) st. snd (enqueue_mutation lib now m st)" "dispatch_next lib" "pending_outbox lib" dispatched
  "queued lib" "outbox_order lib" "enqueues lib" "\<lambda>mt st. enqueued_record lib mt"
  "\<lambda>st. store_law lib \<and> outbox_inv lib (st_conn st)" for lib
proof (unfold_locales, goal_cases)
  case (1 st mt)
  obtain m now where "mt = (m, now)" by fastforce
  with 1 show ?case using enqueue_mutation_fresh [of lib st m now] by simp
next
  case (3 st a as)
  then show ?case using dispatch_next_Cons [of lib st a as] by blast
qed (simp_all add: dispatch_next_Nil)

lemma pending_outbox_rows:
  "outbox_inv lib (st_conn st) \<Longrightarrow>
   db_outbox (st_conn (snd (pending_outbox lib n st))) =
   map (\<lambda>r. if r \<in> set (take n (queued lib st)) then dispatched r else r) (db_outbox (st_conn st))"
proof (induction n arbitrary: st)
  case (Suc n)
  show ?case
  proof (cases "queued lib st")
    case Nil
    then show ?thesis by (simp add: dispatch_next_Nil)
  next
    case (Cons a as)
    note next' = dispatch_next_Cons [OF Suc.prems Cons]
    have "\<forall>r\<in>set as. ob_stage r = Queued"
      using Cons set_outbox_select [of lib "st_client_id st" "{Queued}" "st_conn st"] by (auto simp: queued_def)
    then have "dispatched r \<notin> set (take n as)" for r
      by (auto dest!: in_set_takeD)
    with Cons Suc.IH [OF next'(3)] show ?thesis
      by (auto simp: next'(1,2) split: prod.splits)
  qed
qed simp

text \<open>
  C26: The outbox is a priority queue ordered by the time stamp of an operation and, for equal time stamps, the text of
  its identifier. The queued operations are the rows of this client in that stage, each once, in that order. Draining with a
  limit returns the first of them, as dispatched, and exactly these rows change, by their stage, so that the remaining
  operations are still queued in order and no operation is dispatched twice. A new valid mutation
  is enqueued whatever its time stamp is, behind the operations that are not after it and before all others, and the next drain
  hands it out at that place: since the order is by wall clock and random identifier, it overtakes operations queued
  earlier when the clock went back, or within the same millisecond. It comes last, so that the queue is first-in first-out, if
  no queued operation is after it.
\<close>

theorem outbox_dispatch_ordered:
  assumes "store_law lib" "outbox_inv lib (st_conn st)"
  shows "set (queued lib st) = {r \<in> set (db_outbox (st_conn st)). ob_client_id r = st_client_id st \<and> ob_stage r = Queued} \<and>
    distinct (queued lib st) \<and>
    sorted (map (\<lambda>r. (sint (ob_created_at_ms r), operation_text lib (ob_operation_id r))) (queued lib st)) \<and>
    (\<exists>st'. pending_outbox lib n st = (Ok (map dispatched (take n (queued lib st))), st') \<and>
      queued lib st' = drop n (queued lib st) \<and>
      db_outbox (st_conn st') =
        map (\<lambda>r. if r \<in> set (take n (queued lib st)) then dispatched r else r) (db_outbox (st_conn st))) \<and>
    (\<forall>m now. enqueues lib (m, now) st \<longrightarrow>
      (\<exists>st' st''. enqueue_mutation lib now m st = (Ok (enqueued_record lib (m, now)), st') \<and>
        queued lib st' = place (outbox_order lib) (enqueued_record lib (m, now)) (queued lib st) \<and>
        pending_outbox lib n st' =
          (Ok (map dispatched (take n (place (outbox_order lib) (enqueued_record lib (m, now)) (queued lib st)))), st'') \<and>
        ((\<forall>q\<in>set (queued lib st). outbox_order lib q \<le> outbox_order lib (enqueued_record lib (m, now))) \<longrightarrow>
          queued lib st' = queued lib st @ [enqueued_record lib (m, now)])))"
proof (intro conjI allI impI)
  show "set (queued lib st) = {r \<in> set (db_outbox (st_conn st)). ob_client_id r = st_client_id st \<and> ob_stage r = Queued}"
    by (simp add: queued_def set_outbox_select)
  show "distinct (queued lib st)" using assms by (simp add: queued_def distinct_outbox_select)
  show "sorted (map (\<lambda>r. (sint (ob_created_at_ms r), operation_text lib (ob_operation_id r))) (queued lib st))"
    unfolding outbox_order_def [symmetric] by (simp add: queued_def outbox_select_def)
  show "\<exists>st'. pending_outbox lib n st = (Ok (map dispatched (take n (queued lib st))), st') \<and>
      queued lib st' = drop n (queued lib st) \<and>
      db_outbox (st_conn st') =
        map (\<lambda>r. if r \<in> set (take n (queued lib st)) then dispatched r else r) (db_outbox (st_conn st))"
    using outbox_queue.drain_takes [of lib st n] pending_outbox_rows [of lib st n] assms by fastforce
  fix m now
  assume ok: "enqueues lib (m, now) st"
  obtain st' where st': "enqueue_mutation lib now m st = (Ok (enqueued_record lib (m, now)), st')"
      "queued lib st' = place (outbox_order lib) (enqueued_record lib (m, now)) (queued lib st)"
    using enqueue_mutation_fresh [OF assms ok] by blast
  moreover obtain st'' where "pending_outbox lib n st' =
      (Ok (map dispatched (take n (place (outbox_order lib) (enqueued_record lib (m, now)) (queued lib st)))), st'')"
    using outbox_queue.drain_after_enq [of lib st "(m, now)" n] assms ok st'(1) by auto
  ultimately show "\<exists>st' st''. enqueue_mutation lib now m st = (Ok (enqueued_record lib (m, now)), st') \<and>
        queued lib st' = place (outbox_order lib) (enqueued_record lib (m, now)) (queued lib st) \<and>
        pending_outbox lib n st' =
          (Ok (map dispatched (take n (place (outbox_order lib) (enqueued_record lib (m, now)) (queued lib st)))), st'') \<and>
        ((\<forall>q\<in>set (queued lib st). outbox_order lib q \<le> outbox_order lib (enqueued_record lib (m, now))) \<longrightarrow>
          queued lib st' = queued lib st @ [enqueued_record lib (m, now)])"
    using place_last by metis
qed

definition demo_queue :: SqliteState where
  "demo_queue = demo_state\<lparr>st_conn := (st_conn demo_state)\<lparr>db_outbox :=
     [enqueued_record demo_store (demo_mkdir 11 ''a'', 5), enqueued_record demo_store (demo_mkdir 12 ''b'', 6)]\<rparr>\<rparr>"

definition demo_ahead :: SqliteState where
  "demo_ahead = demo_state\<lparr>st_conn := (st_conn demo_state)\<lparr>db_outbox := [enqueued_record demo_store (demo_mkdir 12 ''b'', 6)]\<rparr>\<rparr>"

lemma demo_enqueues: "enqueues demo_store (demo_mkdir 11 ''a'', 5) demo_ahead"
  by (simp add: enqueues_def demo_ahead_def demo_state_def empty_database_def outbox_row_def outbox_key_def
      enqueued_record_def demo_values demo_lib_simps mutation_validate_def mutation_validate_paths_def
      mutation_validate_content_def metadata_validate_Ok_iff metadata_wf_def)

lemma demo_outbox_inv: "outbox_inv demo_store (st_conn demo_state)" "outbox_inv demo_store (st_conn demo_queue)"
  "outbox_inv demo_store (st_conn demo_ahead)"
  by (simp_all add: outbox_inv_def demo_state_def demo_queue_def demo_ahead_def empty_database_def keyed_def outbox_key_def
      enqueued_record_def row_to_outbox_def digest_ok_def demo_values demo_lib_simps mutation_validate_def
      mutation_validate_paths_def mutation_validate_content_def metadata_validate_Ok_iff metadata_wf_def is_ok_iff)

lemma demo_queued:
  "queued demo_store demo_queue =
     [enqueued_record demo_store (demo_mkdir 11 ''a'', 5), enqueued_record demo_store (demo_mkdir 12 ''b'', 6)]"
  "queued demo_store demo_ahead = [enqueued_record demo_store (demo_mkdir 12 ''b'', 6)]"
  by (simp_all add: queued_def outbox_select_def demo_queue_def demo_ahead_def demo_state_def empty_database_def
      enqueued_record_def outbox_order_def demo_values)

theorem outbox_dispatch_ordered_witness:
  "store_law demo_store \<and> outbox_inv demo_store (st_conn demo_queue) \<and>
   (\<exists>st'. pending_outbox demo_store 1 demo_queue =
       (Ok [dispatched (enqueued_record demo_store (demo_mkdir 11 ''a'', 5))], st') \<and>
     queued demo_store st' = [enqueued_record demo_store (demo_mkdir 12 ''b'', 6)]) \<and>
   (\<exists>st'. enqueue_mutation demo_store 5 (demo_mkdir 11 ''a'') demo_ahead =
       (Ok (enqueued_record demo_store (demo_mkdir 11 ''a'', 5)), st') \<and>
     queued demo_store st' =
       [enqueued_record demo_store (demo_mkdir 11 ''a'', 5), enqueued_record demo_store (demo_mkdir 12 ''b'', 6)])"
proof (intro conjI demo_store_law demo_outbox_inv)
  show "\<exists>st'. pending_outbox demo_store 1 demo_queue =
       (Ok [dispatched (enqueued_record demo_store (demo_mkdir 11 ''a'', 5))], st') \<and>
     queued demo_store st' = [enqueued_record demo_store (demo_mkdir 12 ''b'', 6)]"
    using outbox_dispatch_ordered [OF demo_store_law demo_outbox_inv(2), of 1]
    by (auto simp: demo_queued simp del: pending_outbox.simps)
  have "place (outbox_order demo_store) (enqueued_record demo_store (demo_mkdir 11 ''a'', 5)) (queued demo_store demo_ahead) =
      [enqueued_record demo_store (demo_mkdir 11 ''a'', 5), enqueued_record demo_store (demo_mkdir 12 ''b'', 6)]"
    by (simp add: demo_queued outbox_order_def enqueued_record_def)
  then show "\<exists>st'. enqueue_mutation demo_store 5 (demo_mkdir 11 ''a'') demo_ahead =
       (Ok (enqueued_record demo_store (demo_mkdir 11 ''a'', 5)), st') \<and>
     queued demo_store st' =
       [enqueued_record demo_store (demo_mkdir 11 ''a'', 5), enqueued_record demo_store (demo_mkdir 12 ''b'', 6)]"
    using outbox_dispatch_ordered [OF demo_store_law demo_outbox_inv(3), of 0] demo_enqueues
    by (elim conjE allE [of _ "demo_mkdir 11 ''a''"] allE [of _ 5]) auto
qed

section \<open>Replay\<close>

definition outstanding :: "store_lib \<Rightarrow> SqliteState \<Rightarrow> OutboxRecord list" where
  "outstanding lib st = outbox_select lib (st_client_id st) {Queued, Dispatched} (st_conn st)"

definition mark_all :: "ClientId \<Rightarrow> OutboxRecord list \<Rightarrow> OutboxRecord \<Rightarrow> OutboxRecord" where
  "mark_all client records r =
     (if ob_stage r = Queued \<and> (\<exists>q\<in>set records. ob_stage q = Queued \<and> outbox_key r = (client, ob_operation_id q))
      then dispatched r else r)"

lemma fold_mark_queued_dispatched:
  "fold (\<lambda>r rows. if ob_stage r = Queued then mark_queued_dispatched client (ob_operation_id r) rows else rows)
     records rows = map (mark_all client records) rows"
proof (induction records arbitrary: rows)
  case Nil
  then show ?case by (simp add: mark_all_def map_idI)
next
  case (Cons q records)
  have "mark_all client records
      (if outbox_key r = (client, ob_operation_id q) \<and> ob_stage r = Queued then dispatched r else r) =
      mark_all client (q # records) r" if "ob_stage q = Queued" for r
    using that by (simp add: mark_all_def)
  moreover have "mark_all client records r = mark_all client (q # records) r" if "ob_stage q \<noteq> Queued" for r
    using that by (simp add: mark_all_def)
  ultimately show ?case
    by (cases "ob_stage q = Queued")
      (simp_all add: Cons.IH mark_queued_dispatched_def sql_update_def comp_def)
qed

lemma mark_all_own: "r \<in> set records \<Longrightarrow> ob_client_id r = client \<Longrightarrow> ob_stage r \<in> {Queued, Dispatched} \<Longrightarrow>
  mark_all client records r = dispatched r"
  by (auto simp: mark_all_def outbox_key_def intro!: OutboxRecord.equality)

lemma mark_all_done: "\<forall>q\<in>set records. ob_stage q \<noteq> Queued \<Longrightarrow> mark_all client records = (\<lambda>r. r)"
  by (auto simp: mark_all_def)

lemma readable_decodes: "row_to_outbox lib r = Some r \<Longrightarrow> replay_row lib r = Some r"
  by (auto simp: replay_row_def decoded_body_def row_to_outbox_def split: option.splits if_splits)

lemma pending_outbox_replay_tx_eq:
  fixes client :: ClientId and n :: nat
  assumes "outbox_inv lib db"
  defines "rs \<equiv> take n (outbox_select lib client {Queued, Dispatched} db)"
  shows "pending_outbox_replay_tx lib client n db =
    Ok (map dispatched rs, db\<lparr>db_outbox := map (mark_all client rs) (db_outbox db)\<rparr>)"
proof -
  have rs: "r \<in> set (db_outbox db)" "ob_client_id r = client" "ob_stage r \<in> {Queued, Dispatched}" if "r \<in> set rs" for r
    using that set_outbox_select [of lib client "{Queued, Dispatched}" db] by (auto simp: rs_def dest: in_set_takeD)
  then have "query_map (replay_row lib) (CorruptState ''outbox'' ''body_json'') rs = Ok rs"
    using assms(1) by (intro query_map_self) (auto simp: outbox_inv_def readable_decodes)
  moreover have "map (\<lambda>r. if ob_stage r = Queued then dispatched r else r) rs = map dispatched rs"
    using rs(3) by (fastforce intro!: OutboxRecord.equality)
  ultimately show ?thesis
    by (simp add: pending_outbox_replay_tx_def rs_def [symmetric] fold_mark_queued_dispatched)
qed

lemma pending_outbox_replay_again:
  assumes inv: "outbox_inv lib db" and first: "pending_outbox_replay_tx lib client n db = Ok (rs, db')"
  shows "pending_outbox_replay_tx lib client n db' = Ok (rs, db')"
proof -
  let ?sel = "outbox_select lib client {Queued, Dispatched} db"
  let ?g = "mark_all client (take n ?sel)"
  have rs: "rs = map dispatched (take n ?sel)" and db': "db' = db\<lparr>db_outbox := map ?g (db_outbox db)\<rparr>"
    using first pending_outbox_replay_tx_eq [OF inv, of client n] by auto
  have "outbox_inv lib db'"
    using outbox_inv_replay [OF inv, of client "take n ?sel"] by (simp add: db' fold_mark_queued_dispatched)
  moreover have "outbox_select lib client {Queued, Dispatched} db' = map ?g ?sel"
    unfolding db' by (rule outbox_select_update) (auto simp: mark_all_def outbox_order_def)
  moreover have "map ?g (take n ?sel) = rs"
    unfolding rs using set_outbox_select [of lib client "{Queued, Dispatched}" db]
    by (auto intro!: mark_all_own dest: in_set_takeD)
  moreover have "\<forall>q\<in>set rs. ob_stage q \<noteq> Queued" by (auto simp: rs)
  moreover have "map dispatched rs = rs" by (auto simp: rs)
  ultimately show ?thesis
    by (simp add: pending_outbox_replay_tx_eq take_map mark_all_done)
qed

text \<open>A row that has left the queue keeps everything but its stage, and never returns to the queue.\<close>

definition committed_to :: "OutboxRecord \<Rightarrow> database \<Rightarrow> bool" where
  "committed_to r db \<longleftrightarrow> (\<exists>stage. stage \<noteq> Queued \<and> r\<lparr>ob_stage := stage\<rparr> \<in> set (db_outbox db))"

lemma committed_update:
  assumes "committed_to r db"
    and "\<And>x. ob_stage x \<noteq> Queued \<Longrightarrow> p x \<Longrightarrow> x \<in> set (db_outbox db) \<Longrightarrow> \<exists>stage. stage \<noteq> Queued \<and> f x = x\<lparr>ob_stage := stage\<rparr>"
  shows "committed_to r (db\<lparr>db_outbox := sql_update p f (db_outbox db)\<rparr>)"
proof -
  from assms(1) obtain stage where x: "stage \<noteq> Queued" "r\<lparr>ob_stage := stage\<rparr> \<in> set (db_outbox db)"
    by (auto simp: committed_to_def)
  show ?thesis
  proof (cases "p (r\<lparr>ob_stage := stage\<rparr>)")
    case True
    then obtain stage' where "stage' \<noteq> Queued" "f (r\<lparr>ob_stage := stage\<rparr>) = r\<lparr>ob_stage := stage'\<rparr>"
      using assms(2) [OF _ True x(2)] x(1) by auto
    with True x show ?thesis by (force simp: committed_to_def table_simps)
  qed (use x in \<open>force simp: committed_to_def table_simps\<close>)
qed

lemma committed_enqueue:
  "committed_to r db \<Longrightarrow> enqueue_outbox_tx lib client op ws body t db = Ok (x, db') \<Longrightarrow> committed_to r db'"
  by (auto simp: enqueue_outbox_tx_def Let_def result_simps intro!: committed_update split: option.splits if_splits)
    (auto simp: committed_to_def)

lemma committed_step:
  assumes inv: "outbox_inv lib db" and c: "committed_to r db" and step: "outbox_step lib ws client db db'"
  shows "committed_to r db'"
  using step
proof cases
  case (step_replay limit rs)
  then show ?thesis
    using c by (auto simp: pending_outbox_replay_tx_def result_simps fold_mark_queued_dispatched committed_to_def
        mark_all_def image_iff)
next
  case (step_stage op stage u)
  then obtain x where x: "outbox_row client op db = Some x" "outbox_stage_transition_allowed (ob_stage x) stage"
    and db': "db' = db\<lparr>db_outbox := sql_update (\<lambda>r. outbox_key r = (client, op)) (\<lambda>r. r\<lparr>ob_stage := stage\<rparr>) (db_outbox db)\<rparr>"
    by (auto simp: set_outbox_stage_tx_def result_simps dest: row_to_outbox_Some)
  have only: "y = x" if "outbox_key y = (client, op)" "y \<in> set (db_outbox db)" for y
    using that x(1) inv outbox_row_Some [OF inv] keyed_unique [of outbox_key "db_outbox db" y x]
    by (auto simp: outbox_inv_def)
  show ?thesis unfolding db'
  proof (rule committed_update [OF c])
    fix y assume y: "ob_stage y \<noteq> Queued" "outbox_key y = (client, op)" "y \<in> set (db_outbox db)"
    then have "y = x" using only by blast
    with x(2) y(1) have "stage \<noteq> Queued" by (cases "ob_stage x") auto
    then show "\<exists>s. s \<noteq> Queued \<and> y\<lparr>ob_stage := stage\<rparr> = y\<lparr>ob_stage := s\<rparr>" by blast
  qed
qed (use c in \<open>auto simp: enqueue_mutation_at_def enqueue_conflict_resolution_at_def mark_dispatched_tx_def
       dispatch_next_tx_def replay_awaiting_blob_tx_def mark_queued_dispatched_def result_simps Let_def
       intro!: committed_update dest: committed_enqueue [OF c] split: option.splits\<close>)

text \<open>
  C27: Replay is stable across restarts. A replay returns the first outstanding operations, queued or
  dispatched, in order and all as dispatched; asking again returns the same records and changes nothing.
  Whatever is enqueued, dispatched, replayed or staged afterwards, an operation that has left the queue
  keeps its body, digest, workspace and creation time, and is never queued again.
\<close>

theorem outbox_replay_stable:
  assumes "store_law lib" "outbox_inv lib (st_conn st)"
  shows "(\<exists>st'. pending_outbox_replay lib n st = (Ok (map dispatched (take n (outstanding lib st))), st') \<and>
      pending_outbox_replay lib n st' = (Ok (map dispatched (take n (outstanding lib st))), st')) \<and>
    (\<forall>ws client db r. (outbox_step lib ws client)\<^sup>*\<^sup>* (st_conn st) db \<longrightarrow>
      r \<in> set (db_outbox (st_conn st)) \<longrightarrow> ob_stage r \<noteq> Queued \<longrightarrow>
      (\<exists>stage. stage \<noteq> Queued \<and> r\<lparr>ob_stage := stage\<rparr> \<in> set (db_outbox db)))"
proof (intro conjI allI impI)
  let ?rs = "map dispatched (take n (outstanding lib st))"
  obtain db where first: "pending_outbox_replay_tx lib (st_client_id st) n (st_conn st) = Ok (?rs, db)"
    using pending_outbox_replay_tx_eq [OF assms(2)] by (simp add: outstanding_def)
  note again = pending_outbox_replay_again [OF assms(2) first]
  show "\<exists>st'. pending_outbox_replay lib n st = (Ok ?rs, st') \<and> pending_outbox_replay lib n st' = (Ok ?rs, st')"
  proof (cases "n = 0")
    case False
    with first again show ?thesis
      by (intro exI [of _ "st\<lparr>st_conn := db\<rparr>"]) (simp add: pending_outbox_replay_def transaction_def)
  qed (simp add: pending_outbox_replay_def)
next
  fix ws client db r
  assume steps: "(outbox_step lib ws client)\<^sup>*\<^sup>* (st_conn st) db"
    and r: "r \<in> set (db_outbox (st_conn st))" "ob_stage r \<noteq> Queued"
  from steps have "outbox_inv lib db \<and> committed_to r db"
  proof induction
    case base
    with r assms show ?case by (auto simp: committed_to_def intro!: exI [of _ "ob_stage r"])
  qed (use assms outbox_inv_step committed_step in blast)
  then show "\<exists>stage. stage \<noteq> Queued \<and> r\<lparr>ob_stage := stage\<rparr> \<in> set (db_outbox db)"
    by (simp add: committed_to_def)
qed

theorem outbox_replay_stable_witness:
  "\<exists>st'. pending_outbox_replay demo_store 1 demo_queue =
       (Ok [dispatched (enqueued_record demo_store (demo_mkdir 11 ''a'', 5))], st') \<and>
     pending_outbox_replay demo_store 1 st' =
       (Ok [dispatched (enqueued_record demo_store (demo_mkdir 11 ''a'', 5))], st')"
proof -
  have "outstanding demo_store demo_queue =
     [enqueued_record demo_store (demo_mkdir 11 ''a'', 5), enqueued_record demo_store (demo_mkdir 12 ''b'', 6)]"
    by (simp add: outstanding_def outbox_select_def demo_queue_def demo_state_def empty_database_def enqueued_record_def
        outbox_order_def demo_values)
  then show ?thesis
    using outbox_replay_stable [OF demo_store_law demo_outbox_inv(2), of 1] by auto
qed

end
