(* ===== verification/Sync_Stream.thy ===== *)
theory Sync_Stream
  imports Sync_Outbox
begin

text \<open>
  The stream tables of \<open>fns-sync-core/src/store.rs\<close>: the header of the active snapshot or incremental
  stream, its entries, revision items and conflicts as they are received, and the pages in which the
  engine applies them.
\<close>

section \<open>Stream state\<close>

definition stream_state_row :: "WorkspaceId \<Rightarrow> database \<Rightarrow> StreamStateRecord option" where
  "stream_state_row ws db = find (\<lambda>r. ss_workspace_id r = ws) (db_stream_state db)"

definition active_stream_state :: "WorkspaceId \<Rightarrow> database \<Rightarrow> (StreamStateRecord option, SyncError) result" where
  "active_stream_state ws db = query_optional row_to_stream_state StorageUnavailable (stream_state_row ws db)"

definition stream_state :: "SqliteState \<Rightarrow> (StreamStateRecord option, SyncError) result" where
  "stream_state st = active_stream_state (st_workspace_id st) (st_conn st)"

text \<open>The active stream, or the error that there is none.\<close>

definition require_stream :: "WorkspaceId \<Rightarrow> database \<Rightarrow> (StreamStateRecord, SyncError) result" where
  "require_stream ws db =
     and_then (active_stream_state ws db) (\<lambda>s. ok_or s (StreamInvariant ''no_active_stream''))"

definition stream_begin_matches :: "StreamStateRecord \<Rightarrow> WorkspaceSnapshotBeginMessage \<Rightarrow> bool" where
  "stream_begin_matches existing begn \<longleftrightarrow>
     ss_workspace_id existing = sb_workspace_id begn \<and> ss_stream_id existing = sb_stream_id begn \<and>
     ss_mode existing = sb_mode begn \<and> ss_from_revision existing = sb_from_revision begn \<and>
     ss_final_revision existing = sb_final_revision begn \<and>
     ss_expected_entry_count existing = sb_entry_count begn \<and>
     ss_expected_event_count existing = sb_event_count begn \<and>
     ss_expected_conflict_count existing = sb_conflict_count begn"

definition stream_state_from_begin :: "WorkspaceSnapshotBeginMessage \<Rightarrow> StreamStateRecord" where
  "stream_state_from_begin begn =
     \<lparr>ss_workspace_id = sb_workspace_id begn, ss_stream_id = sb_stream_id begn, ss_mode = sb_mode begn,
      ss_from_revision = sb_from_revision begn, ss_final_revision = sb_final_revision begn,
      ss_expected_entry_count = sb_entry_count begn, ss_expected_event_count = sb_event_count begn,
      ss_expected_conflict_count = sb_conflict_count begn, ss_next_event_index = 0, ss_end_received = False\<rparr>"

definition clear_stream_tx :: "WorkspaceId \<Rightarrow> unit tx" where
  "clear_stream_tx ws db =
     Ok ((), db\<lparr>db_stream_entries := sql_delete (\<lambda>r. sr_workspace_id r = ws) (db_stream_entries db),
                db_stream_revision_items := sql_delete (\<lambda>r. si_workspace_id r = ws) (db_stream_revision_items db),
                db_stream_conflicts := sql_delete (\<lambda>r. sc_workspace_id r = ws) (db_stream_conflicts db),
                db_stream_state := sql_delete (\<lambda>r. ss_workspace_id r = ws) (db_stream_state db)\<rparr>)"

definition clear_stream :: "SqliteState \<Rightarrow> (unit, SyncError) result \<times> SqliteState" where
  "clear_stream st = transaction (clear_stream_tx (st_workspace_id st)) st"

definition begin_stream_tx :: "WorkspaceId \<Rightarrow> WorkspaceSnapshotBeginMessage \<Rightarrow> StreamStateRecord tx" where
  "begin_stream_tx ws begn db =
     and_then (map_err (\<lambda>_. StreamInvariant ''invalid_begin'') (snapshot_begin_validate begn)) (\<lambda>_.
     fail_if (sb_workspace_id begn \<noteq> ws) (ProtocolInvariant ''stream_workspace_mismatch'')
    (let insert = (\<lambda>db.
           and_then (sql_insert (\<lambda>a b. ss_workspace_id a = ss_workspace_id b) (stream_state_from_begin begn)
             (db_stream_state db)) (\<lambda>rows.
           Ok (stream_state_from_begin begn, db\<lparr>db_stream_state := rows\<rparr>))) in
     and_then (active_stream_state ws db) (\<lambda>existing.
     case existing of
       None \<Rightarrow> insert db
     | Some existing \<Rightarrow>
         if ss_stream_id existing = sb_stream_id begn then
           fail_if (\<not> stream_begin_matches existing begn) (StreamInvariant ''stream_begin_changed'')
             (Ok (existing, db))
         else
           and_then (ok_or (find (\<lambda>r. wc_workspace_id r = ws) (db_workspace_cursor db)) StorageUnavailable) (\<lambda>cursor.
           fail_if (sb_from_revision begn \<noteq> wc_last_ack_revision cursor) (StreamInvariant ''stream_begin_not_at_ack'')
          (fail_if (list_ex (\<lambda>r. aj_workspace_id r = ws) (db_apply_journal db))
             (StreamInvariant ''stream_apply_in_progress'')
          (and_then (clear_stream_tx ws db) (\<lambda>(_, db). insert db)))))))"

definition begin_stream ::
    "WorkspaceSnapshotBeginMessage \<Rightarrow> SqliteState \<Rightarrow> (StreamStateRecord, SyncError) result \<times> SqliteState" where
  "begin_stream begn st = transaction (begin_stream_tx (st_workspace_id st) begn) st"

definition put_stream_state_tx :: "WorkspaceId \<Rightarrow> StreamStateRecord \<Rightarrow> unit tx" where
  "put_stream_state_tx ws state db =
     fail_if
       (ss_final_revision state < ss_from_revision state \<or>
        ss_mode state = Snapshot \<and> ss_expected_event_count state \<noteq> 0 \<or>
        ss_mode state = Incremental \<and> ss_expected_entry_count state \<noteq> 0 \<or>
        ss_next_event_index state > ss_expected_event_count state)
       (StreamInvariant ''invalid_stream_state'')
    (and_then (require_stream ws db) (\<lambda>existing.
     fail_if (ss_stream_id existing \<noteq> ss_stream_id state) (StreamInvariant ''active_stream_mismatch'')
    (fail_if
       (ss_mode existing \<noteq> ss_mode state \<or> ss_from_revision existing \<noteq> ss_from_revision state \<or>
        ss_final_revision existing \<noteq> ss_final_revision state \<or>
        ss_expected_entry_count existing \<noteq> ss_expected_entry_count state \<or>
        ss_expected_event_count existing \<noteq> ss_expected_event_count state \<or>
        ss_expected_conflict_count existing \<noteq> ss_expected_conflict_count state)
       (StreamInvariant ''stream_header_changed'')
    (fail_if
       (ss_next_event_index state < ss_next_event_index existing \<or>
        ss_next_event_index state > ss_expected_event_count state \<or>
        ss_end_received existing \<and> \<not> ss_end_received state)
       (StreamInvariant ''stream_progress_regression'')
    (Ok ((), db\<lparr>db_stream_state := sql_update (\<lambda>r. ss_workspace_id r = ws)
       (\<lambda>r. r\<lparr>ss_next_event_index := ss_next_event_index state, ss_end_received := ss_end_received state\<rparr>)
       (db_stream_state db)\<rparr>))))))"

definition put_stream_state ::
    "StreamStateRecord \<Rightarrow> SqliteState \<Rightarrow> (unit, SyncError) result \<times> SqliteState" where
  "put_stream_state state st =
     (if ss_workspace_id state \<noteq> st_workspace_id st
      then (Err (ProtocolInvariant ''stream_workspace_mismatch''), st)
      else transaction (put_stream_state_tx (st_workspace_id st) state) st)"

definition set_stream_end_received_tx :: "WorkspaceId \<Rightarrow> bool \<Rightarrow> unit tx" where
  "set_stream_end_received_tx ws received db =
     and_then (require_stream ws db) (\<lambda>existing.
     fail_if (ss_end_received existing \<and> \<not> received) (StreamInvariant ''stream_end_regression'')
    (Ok ((), db\<lparr>db_stream_state := sql_update (\<lambda>r. ss_workspace_id r = ws)
       (\<lambda>r. r\<lparr>ss_end_received := received\<rparr>) (db_stream_state db)\<rparr>)))"

definition set_stream_end_received :: "bool \<Rightarrow> SqliteState \<Rightarrow> (unit, SyncError) result \<times> SqliteState" where
  "set_stream_end_received received st = transaction (set_stream_end_received_tx (st_workspace_id st) received) st"

definition set_next_event_index :: "WorkspaceId \<Rightarrow> u32 \<Rightarrow> database \<Rightarrow> database" where
  "set_next_event_index ws next_index db =
     db\<lparr>db_stream_state := sql_update (\<lambda>r. ss_workspace_id r = ws)
       (\<lambda>r. r\<lparr>ss_next_event_index := next_index\<rparr>) (db_stream_state db)\<rparr>"

definition advance_stream_index_tx :: "WorkspaceId \<Rightarrow> u32 \<Rightarrow> unit tx" where
  "advance_stream_index_tx ws next_index db =
     and_then (require_stream ws db) (\<lambda>existing.
     fail_if (next_index < ss_next_event_index existing \<or> next_index > ss_expected_event_count existing)
       (StreamInvariant ''stream_index_regression'')
    (Ok ((), set_next_event_index ws next_index db)))"

definition advance_stream_index :: "u32 \<Rightarrow> SqliteState \<Rightarrow> (unit, SyncError) result \<times> SqliteState" where
  "advance_stream_index next_index st = transaction (advance_stream_index_tx (st_workspace_id st) next_index) st"

section \<open>Entries\<close>

fun stream_status_transition_allowed :: "StreamItemStatus \<Rightarrow> StreamItemStatus \<Rightarrow> bool" where
  "stream_status_transition_allowed StreamItemStatus.Received to = True"
| "stream_status_transition_allowed WaitingBlob to = (to \<in> {WaitingBlob, Ready, Applied, Preserved})"
| "stream_status_transition_allowed Ready to = (to \<in> {Ready, Applied, Preserved})"
| "stream_status_transition_allowed Applied to = (to = Applied)"
| "stream_status_transition_allowed Preserved to = (to = Preserved)"

definition entries_of :: "WorkspaceId \<Rightarrow> StreamId \<Rightarrow> database \<Rightarrow> StreamEntryRecord list" where
  "entries_of ws stream_id db =
     filter (\<lambda>r. sr_workspace_id r = ws \<and> sr_stream_id r = stream_id) (db_stream_entries db)"

text \<open>\<open>SELECT COUNT(*)\<close> converted to \<open>u32\<close>.\<close>

definition count_u32 :: "string \<Rightarrow> string \<Rightarrow> nat \<Rightarrow> (u32, SyncError) result" where
  "count_u32 table column n =
     (if n < 2 ^ 32 then Ok (word_of_nat n) else Err (CorruptState table column))"

definition put_stream_entry_tx ::
    "store_lib \<Rightarrow> WorkspaceId \<Rightarrow> WorkspaceSnapshotEntryMessage \<Rightarrow> StreamItemStatus \<Rightarrow> StreamEntryRecord tx" where
  "put_stream_entry_tx lib ws entry status db =
     and_then (map_err (\<lambda>_. StreamInvariant ''invalid_stream_entry'') (snapshot_entry_validate entry)) (\<lambda>_.
     fail_if (se_workspace_id entry \<noteq> ws) (ProtocolInvariant ''stream_workspace_mismatch'')
    (and_then (canonical_json (lib_snapshot_entry lib) entry) (\<lambda>body_json.
     and_then (require_stream ws db) (\<lambda>active.
     fail_if (ss_stream_id active \<noteq> se_stream_id entry) (StreamInvariant ''active_stream_mismatch'')
    (fail_if (ss_mode active \<noteq> Snapshot) (StreamInvariant ''entry_not_allowed_in_incremental'')
    (let record = \<lparr>sr_workspace_id = ws, sr_stream_id = se_stream_id entry, sr_entry_index = se_index entry,
                   sr_body_json = body_json, sr_body_digest = body_digest lib body_json, sr_status = status\<rparr>;
         same = (\<lambda>r. entry_key r = entry_key record)
     in
     and_then (query_optional (row_to_stream_entry lib) StorageUnavailable (find same (db_stream_entries db)))
       (\<lambda>existing.
     case existing of
       Some existing \<Rightarrow>
         fail_if (sr_body_digest existing \<noteq> sr_body_digest record) OperationChanged
        (if settled (sr_status existing) then Ok (existing, db)
         else
           fail_if (\<not> stream_status_transition_allowed (sr_status existing) status)
             (StreamInvariant ''stream_status_regression'')
          (Ok (record, db\<lparr>db_stream_entries :=
             sql_update same (\<lambda>r. r\<lparr>sr_status := status\<rparr>) (db_stream_entries db)\<rparr>)))
     | None \<Rightarrow>
         and_then (count_u32 ''stream_entries'' ''entry_index'' (length (entries_of ws (se_stream_id entry) db)))
           (\<lambda>expected_index.
         fail_if (se_index entry \<noteq> expected_index \<or> se_index entry \<ge> ss_expected_entry_count active)
           (StreamInvariant ''stream_entry_order'')
        (and_then (query_optional (row_to_stream_entry lib) StorageUnavailable
             (case rev (sort_key sr_entry_index (entries_of ws (se_stream_id entry) db)) of
                [] \<Rightarrow> None | r # _ \<Rightarrow> Some r)) (\<lambda>previous.
         and_then
           (case previous of
              None \<Rightarrow> Ok ()
            | Some previous \<Rightarrow>
                and_then (ok_or (from_slice (lib_snapshot_entry lib) (sr_body_json previous))
                  (CorruptState ''stream_entries'' ''body_json'')) (\<lambda>previous_entry.
                fail_if (ps_path (se_entry previous_entry) \<ge> ps_path (se_entry entry))
                  (StreamInvariant ''stream_entry_path_order'') (Ok ()))) (\<lambda>_.
         and_then (sql_insert (\<lambda>a b. entry_key a = entry_key b) record (db_stream_entries db)) (\<lambda>rows.
         Ok (record, db\<lparr>db_stream_entries := rows\<rparr>)))))))))))))"

definition put_stream_entry ::
    "store_lib \<Rightarrow> WorkspaceSnapshotEntryMessage \<Rightarrow> StreamItemStatus \<Rightarrow> SqliteState \<Rightarrow>
     (StreamEntryRecord, SyncError) result \<times> SqliteState" where
  "put_stream_entry lib entry status st = transaction (put_stream_entry_tx lib (st_workspace_id st) entry status) st"

definition stream_entry ::
    "store_lib \<Rightarrow> StreamId \<Rightarrow> u32 \<Rightarrow> SqliteState \<Rightarrow> (StreamEntryRecord option, SyncError) result" where
  "stream_entry lib stream_id index st =
     query_optional (row_to_stream_entry lib) StorageUnavailable
       (find (\<lambda>r. entry_key r = (st_workspace_id st, stream_id, index)) (db_stream_entries (st_conn st)))"

definition stream_entries ::
    "store_lib \<Rightarrow> StreamId \<Rightarrow> SqliteState \<Rightarrow> (StreamEntryRecord list, SyncError) result" where
  "stream_entries lib stream_id st =
     query_map (row_to_stream_entry lib) StorageUnavailable
       (sort_key sr_entry_index (entries_of (st_workspace_id st) stream_id (st_conn st)))"

section \<open>Pages\<close>

record 'a BoundedPage =
  pg_items :: "'a list"
  pg_deferred_by_byte_budget :: bool

text \<open>
  The loop over the rows of a page, with the number of bytes taken so far; \<open>usize\<close> has 64 bits. A row
  is read only after its size was found to fit.
\<close>

fun page_loop ::
    "('r \<Rightarrow> nat) \<Rightarrow> ('r \<Rightarrow> 'a option) \<Rightarrow> SyncError \<Rightarrow> nat \<Rightarrow> bool \<Rightarrow> nat \<Rightarrow> 'a list \<Rightarrow> 'r list \<Rightarrow>
     ('a BoundedPage, SyncError) result" where
  "page_loop size_of reader e max_bytes oversized taken items [] =
     Ok \<lparr>pg_items = items, pg_deferred_by_byte_budget = False\<rparr>"
| "page_loop size_of reader e max_bytes oversized taken items (r # rows) =
     (let next_bytes = (if taken + size_of r < 2 ^ 64 then Some (taken + size_of r) else None);
          exceeds = (case next_bytes of Some next \<Rightarrow> next > max_bytes | None \<Rightarrow> True)
      in
      if exceeds \<and> (items \<noteq> [] \<or> \<not> oversized)
      then Ok \<lparr>pg_items = items, pg_deferred_by_byte_budget = True\<rparr>
      else
        and_then (ok_or (reader r) e) (\<lambda>item.
        and_then (ok_or next_bytes (ResourceLimit ''stream_page_bytes'')) (\<lambda>taken.
        if taken > max_bytes
        then Ok \<lparr>pg_items = items @ [item], pg_deferred_by_byte_budget = False\<rparr>
        else page_loop size_of reader e max_bytes oversized taken (items @ [item]) rows)))"

definition bounded_page ::
    "('r \<Rightarrow> nat) \<Rightarrow> ('r \<Rightarrow> 'a option) \<Rightarrow> SyncError \<Rightarrow> nat \<Rightarrow> nat \<Rightarrow> bool \<Rightarrow> 'r list \<Rightarrow> ('a BoundedPage, SyncError) result" where
  "bounded_page size_of reader e max_items max_bytes oversized rows =
     (if max_items = 0 then Ok \<lparr>pg_items = [], pg_deferred_by_byte_budget = False\<rparr>
      else
        fail_if (max_items \<ge> 2 ^ 63) (InvalidConfiguration ''page_item_limit_too_large'')
          (page_loop size_of reader e max_bytes oversized 0 [] (take max_items rows)))"

definition pending_stream_entries_page ::
    "store_lib \<Rightarrow> StreamId \<Rightarrow> nat \<Rightarrow> nat \<Rightarrow> bool \<Rightarrow> SqliteState \<Rightarrow> (StreamEntryRecord BoundedPage, SyncError) result" where
  "pending_stream_entries_page lib stream_id max_items max_bytes oversized st =
     bounded_page (\<lambda>r. length (sr_body_json r)) (row_to_stream_entry lib)
       (CorruptState ''stream_entries'' ''body_json'') max_items max_bytes oversized
       (sort_key sr_entry_index
         (filter (\<lambda>r. \<not> settled (sr_status r)) (entries_of (st_workspace_id st) stream_id (st_conn st))))"

section \<open>Revision items\<close>

definition items_of :: "WorkspaceId \<Rightarrow> StreamId \<Rightarrow> database \<Rightarrow> StreamRevisionItemRecord list" where
  "items_of ws stream_id db =
     filter (\<lambda>r. si_workspace_id r = ws \<and> si_stream_id r = stream_id) (db_stream_revision_items db)"

definition canonicalize_revision_item ::
    "store_lib \<Rightarrow> WorkspaceId \<Rightarrow> StreamId \<Rightarrow> WorkspaceRevision \<Rightarrow> StreamRevisionItemKind \<Rightarrow> u32 option \<Rightarrow>
     u8 list \<Rightarrow> (u8 list \<times> u8 list \<times> u32 option, SyncError) result" where
  "canonicalize_revision_item lib ws stream_id revision item_kind event_index body_json =
     (case item_kind of
        StreamRevisionItemKind.Event \<Rightarrow>
          and_then (ok_or (from_slice (lib_event lib) body_json) (ProtocolInvariant ''invalid_stream_event'')) (\<lambda>event.
          and_then (map_err (\<lambda>_. StreamInvariant ''invalid_stream_event'') (event_validate event)) (\<lambda>_.
          fail_if
            (ev_workspace_id event \<noteq> ws \<or> ev_stream_id event \<noteq> stream_id \<or> ev_revision event \<noteq> revision \<or>
             event_index \<noteq> Some (ev_index event))
            (ProtocolInvariant ''stream_item_identity_mismatch'')
         (and_then (canonical_json (lib_event lib) event) (\<lambda>canonical.
          Ok (canonical, body_digest lib canonical, Some (ev_index event))))))
      | StreamRevisionItemKind.ConflictResolved \<Rightarrow>
          and_then (ok_or (from_slice (lib_resolved lib) body_json)
            (ProtocolInvariant ''invalid_stream_conflict_resolution'')) (\<lambda>message.
          and_then (map_err (\<lambda>_. StreamInvariant ''invalid_stream_conflict_resolution'')
            (conflict_resolved_validate message)) (\<lambda>_.
          fail_if (cr_workspace_id message \<noteq> ws \<or> cr_revision message \<noteq> revision)
            (ProtocolInvariant ''stream_item_identity_mismatch'')
         (and_then (canonical_json (lib_resolved lib) message) (\<lambda>canonical.
          Ok (canonical, body_digest lib canonical, None))))))"

text \<open>The loop that finds the largest revision stored so far.\<close>

definition latest_revision :: "StreamRevisionItemRecord list \<Rightarrow> WorkspaceRevision option" where
  "latest_revision rows =
     fold (\<lambda>r previous. case previous of
             None \<Rightarrow> Some (si_revision r)
           | Some p \<Rightarrow> if si_revision r > p then Some (si_revision r) else Some p) rows None"

definition claim_event_index ::
    "WorkspaceId \<Rightarrow> StreamRevisionItemKind \<Rightarrow> u32 option \<Rightarrow> StreamStateRecord \<Rightarrow> database \<Rightarrow> (database, SyncError) result" where
  "claim_event_index ws item_kind event_index active db =
     (case item_kind of
        StreamRevisionItemKind.Event \<Rightarrow>
          and_then (ok_or event_index (StreamInvariant ''event_index_required'')) (\<lambda>index.
          fail_if (index \<noteq> ss_next_event_index active \<or> index \<ge> ss_expected_event_count active)
            (StreamInvariant ''event_index_order'')
         (Ok (set_next_event_index ws (index + 1) db)))
      | StreamRevisionItemKind.ConflictResolved \<Rightarrow>
          fail_if (event_index \<noteq> None) (StreamInvariant ''conflict_resolved_index_forbidden'') (Ok db))"

definition put_stream_revision_item_tx ::
    "store_lib \<Rightarrow> WorkspaceId \<Rightarrow> StreamId \<Rightarrow> WorkspaceRevision \<Rightarrow> StreamRevisionItemKind \<Rightarrow> u32 option \<Rightarrow>
     u8 list \<Rightarrow> u8 list \<Rightarrow> StreamItemStatus \<Rightarrow> StreamRevisionItemRecord tx" where
  "put_stream_revision_item_tx lib ws stream_id revision item_kind event_index body_json stored_digest status db =
     fail_if (stored_digest \<noteq> body_digest lib body_json) (ProtocolInvariant ''stream_body_digest_mismatch'')
    (and_then (canonicalize_revision_item lib ws stream_id revision item_kind event_index body_json)
       (\<lambda>(body_json, body_digest, event_index).
     and_then (require_stream ws db) (\<lambda>active.
     fail_if (ss_stream_id active \<noteq> stream_id) (StreamInvariant ''active_stream_mismatch'')
    (fail_if (ss_mode active \<noteq> Incremental) (StreamInvariant ''revision_item_not_allowed_in_snapshot'')
    (let record = \<lparr>si_workspace_id = ws, si_stream_id = stream_id, si_revision = revision,
                   si_item_kind = item_kind, si_body_json = body_json, si_body_digest = body_digest,
                   si_event_index = event_index, si_status = status\<rparr>;
         same = (\<lambda>r. item_row_key r = item_row_key record)
     in
     and_then (query_optional (row_to_stream_revision_item lib) StorageUnavailable
       (find same (db_stream_revision_items db))) (\<lambda>existing.
     case existing of
       Some existing \<Rightarrow>
         fail_if (si_event_index existing \<noteq> event_index) (StreamInvariant ''stream_revision_order'')
        (fail_if (si_body_digest existing \<noteq> body_digest \<or> si_item_kind existing \<noteq> item_kind) OperationChanged
        (if settled (si_status existing) then Ok (existing, db)
         else
           fail_if (\<not> stream_status_transition_allowed (si_status existing) status)
             (StreamInvariant ''stream_status_regression'')
          (Ok (record, db\<lparr>db_stream_revision_items :=
             sql_update same (\<lambda>r. r\<lparr>si_status := status\<rparr>) (db_stream_revision_items db)\<rparr>))))
     | None \<Rightarrow>
         and_then (count_u32 ''stream_revision_items'' ''revision'' (length (items_of ws stream_id db))) (\<lambda>item_count.
         fail_if (item_count \<ge> ss_expected_event_count active) (StreamInvariant ''stream_event_count_exceeded'')
        (fail_if (revision \<le> ss_from_revision active \<or> revision > ss_final_revision active)
           (StreamInvariant ''stream_revision_out_of_range'')
        (fail_if (case latest_revision (items_of ws stream_id db) of None \<Rightarrow> False | Some p \<Rightarrow> revision \<le> p)
           (StreamInvariant ''stream_revision_order'')
        (and_then (claim_event_index ws item_kind event_index active db) (\<lambda>db.
         and_then (sql_insert item_clash record (db_stream_revision_items db)) (\<lambda>rows.
         Ok (record, db\<lparr>db_stream_revision_items := rows\<rparr>)))))))))))))"

definition put_stream_revision_item ::
    "store_lib \<Rightarrow> StreamId \<Rightarrow> WorkspaceRevision \<Rightarrow> StreamRevisionItemKind \<Rightarrow> u32 option \<Rightarrow> u8 list \<Rightarrow> u8 list \<Rightarrow>
     StreamItemStatus \<Rightarrow> SqliteState \<Rightarrow> (StreamRevisionItemRecord, SyncError) result \<times> SqliteState" where
  "put_stream_revision_item lib stream_id revision item_kind event_index body_json stored_digest status st =
     transaction (put_stream_revision_item_tx lib (st_workspace_id st) stream_id revision item_kind event_index
       body_json stored_digest status) st"

text \<open>\<open>StateTransaction::put_stream_event\<close> and \<open>put_stream_conflict_resolved\<close>.\<close>

definition put_stream_event_tx ::
    "store_lib \<Rightarrow> WorkspaceId \<Rightarrow> WorkspaceEventMessage \<Rightarrow> StreamItemStatus \<Rightarrow> StreamRevisionItemRecord tx" where
  "put_stream_event_tx lib ws event status db =
     and_then (canonical_json (lib_event lib) event) (\<lambda>body_json.
     put_stream_revision_item_tx lib ws (ev_stream_id event) (ev_revision event) StreamRevisionItemKind.Event
       (Some (ev_index event)) body_json (body_digest lib body_json) status db)"

definition put_stream_conflict_resolved_tx ::
    "store_lib \<Rightarrow> WorkspaceId \<Rightarrow> WorkspaceConflictResolvedMessage \<Rightarrow> StreamItemStatus \<Rightarrow> StreamRevisionItemRecord tx" where
  "put_stream_conflict_resolved_tx lib ws message status db =
     and_then (require_stream ws db) (\<lambda>active.
     and_then (canonical_json (lib_resolved lib) message) (\<lambda>body_json.
     put_stream_revision_item_tx lib ws (ss_stream_id active) (cr_revision message)
       StreamRevisionItemKind.ConflictResolved None body_json (body_digest lib body_json) status db))"

text \<open>The methods of the same names on \<open>SqliteState\<close> check the message first.\<close>

definition put_stream_event ::
    "store_lib \<Rightarrow> WorkspaceEventMessage \<Rightarrow> StreamItemStatus \<Rightarrow> SqliteState \<Rightarrow>
     (StreamRevisionItemRecord, SyncError) result \<times> SqliteState" where
  "put_stream_event lib event status st =
     transaction (\<lambda>db.
       and_then (map_err (\<lambda>_. StreamInvariant ''invalid_stream_event'') (event_validate event)) (\<lambda>_.
       fail_if (ev_workspace_id event \<noteq> st_workspace_id st) (ProtocolInvariant ''stream_workspace_mismatch'')
         (put_stream_event_tx lib (st_workspace_id st) event status db))) st"

definition put_stream_conflict_resolved ::
    "store_lib \<Rightarrow> WorkspaceConflictResolvedMessage \<Rightarrow> u32 option \<Rightarrow> StreamItemStatus \<Rightarrow> SqliteState \<Rightarrow>
     (StreamRevisionItemRecord, SyncError) result \<times> SqliteState" where
  "put_stream_conflict_resolved lib message event_index status st =
     transaction (\<lambda>db.
       and_then (map_err (\<lambda>_. StreamInvariant ''invalid_stream_conflict_resolution'')
         (conflict_resolved_validate message)) (\<lambda>_.
       fail_if (cr_workspace_id message \<noteq> st_workspace_id st) (ProtocolInvariant ''stream_workspace_mismatch'')
      (and_then (canonical_json (lib_resolved lib) message) (\<lambda>body_json.
       and_then (require_stream (st_workspace_id st) db) (\<lambda>active.
       put_stream_revision_item_tx lib (st_workspace_id st) (ss_stream_id active) (cr_revision message)
         StreamRevisionItemKind.ConflictResolved event_index body_json (body_digest lib body_json) status db))))) st"

definition stream_revision_item ::
    "store_lib \<Rightarrow> StreamId \<Rightarrow> WorkspaceRevision \<Rightarrow> SqliteState \<Rightarrow>
     (StreamRevisionItemRecord option, SyncError) result" where
  "stream_revision_item lib stream_id revision st =
     query_optional (row_to_stream_revision_item lib) StorageUnavailable
       (find (\<lambda>r. item_row_key r = (st_workspace_id st, stream_id, revision)) (db_stream_revision_items (st_conn st)))"

definition stream_revision_items ::
    "store_lib \<Rightarrow> StreamId \<Rightarrow> SqliteState \<Rightarrow> (StreamRevisionItemRecord list, SyncError) result" where
  "stream_revision_items lib stream_id st =
     and_then (query_map (row_to_stream_revision_item lib) StorageUnavailable
       (items_of (st_workspace_id st) stream_id (st_conn st))) (\<lambda>items. Ok (sort_key si_revision items))"

text \<open>\<open>ORDER BY length(revision), revision\<close> compares the decimal texts.\<close>

definition revision_text_order :: "StreamRevisionItemRecord \<Rightarrow> nat \<times> string" where
  "revision_text_order r = (length (revision_print (si_revision r)), revision_print (si_revision r))"

definition pending_stream_revision_items_page ::
    "store_lib \<Rightarrow> StreamId \<Rightarrow> nat \<Rightarrow> nat \<Rightarrow> bool \<Rightarrow> SqliteState \<Rightarrow>
     (StreamRevisionItemRecord BoundedPage, SyncError) result" where
  "pending_stream_revision_items_page lib stream_id max_items max_bytes oversized st =
     bounded_page (\<lambda>r. length (si_body_json r)) (row_to_stream_revision_item lib)
       (CorruptState ''stream_revision_items'' ''body_json'') max_items max_bytes oversized
       (sort_key revision_text_order
         (filter (\<lambda>r. \<not> settled (si_status r)) (items_of (st_workspace_id st) stream_id (st_conn st))))"

section \<open>Stream conflicts and summaries\<close>

fun stream_conflict_status_transition_allowed :: "StreamConflictStatus \<Rightarrow> StreamConflictStatus \<Rightarrow> bool" where
  "stream_conflict_status_transition_allowed StreamConflictStatus.Received to = True"
| "stream_conflict_status_transition_allowed Replaced to = (to = Replaced)"
| "stream_conflict_status_transition_allowed Pruned to = (to = Pruned)"

definition stream_conflicts_of :: "WorkspaceId \<Rightarrow> StreamId \<Rightarrow> database \<Rightarrow> StreamConflictRecord list" where
  "stream_conflicts_of ws stream_id db =
     filter (\<lambda>r. sc_workspace_id r = ws \<and> sc_stream_id r = stream_id) (db_stream_conflicts db)"

definition put_stream_conflict_tx ::
    "store_lib \<Rightarrow> WorkspaceId \<Rightarrow> WorkspaceConflictCreatedMessage \<Rightarrow> StreamId \<Rightarrow> StreamConflictStatus \<Rightarrow>
     StreamConflictRecord tx" where
  "put_stream_conflict_tx lib ws message stream_id status db =
     and_then (map_err (\<lambda>_. StreamInvariant ''invalid_stream_conflict'') (conflict_created_validate message)) (\<lambda>_.
     fail_if (cc_workspace_id message \<noteq> ws) (ProtocolInvariant ''stream_workspace_mismatch'')
    (and_then (canonical_json (lib_created lib) message) (\<lambda>created_json.
     and_then (require_stream ws db) (\<lambda>active.
     fail_if (ss_stream_id active \<noteq> stream_id) (StreamInvariant ''active_stream_mismatch'')
    (let record = \<lparr>sc_workspace_id = ws, sc_stream_id = stream_id, sc_conflict_id = cc_conflict_id message,
                   sc_conflict_revision = cc_conflict_revision message, sc_created_json = created_json,
                   sc_status = status\<rparr>;
         same = (\<lambda>r. stream_conflict_key r = stream_conflict_key record)
     in
     and_then (query_optional (row_to_stream_conflict lib) StorageUnavailable (find same (db_stream_conflicts db)))
       (\<lambda>existing.
     case existing of
       Some existing \<Rightarrow>
         fail_if (sc_created_json existing \<noteq> created_json) OperationChanged
        (if sc_status existing \<in> {Replaced, Pruned} then Ok (existing, db)
         else
           fail_if (\<not> stream_conflict_status_transition_allowed (sc_status existing) status)
             (StreamInvariant ''stream_conflict_status_regression'')
          (Ok (record, db\<lparr>db_stream_conflicts :=
             sql_update same (\<lambda>r. r\<lparr>sc_status := status\<rparr>) (db_stream_conflicts db)\<rparr>)))
     | None \<Rightarrow>
         and_then (count_u32 ''stream_conflicts'' ''conflict_id'' (length (stream_conflicts_of ws stream_id db)))
           (\<lambda>count.
         fail_if (count \<ge> ss_expected_conflict_count active) (StreamInvariant ''stream_conflict_count_exceeded'')
        (and_then (sql_insert (\<lambda>a b. stream_conflict_key a = stream_conflict_key b) record (db_stream_conflicts db))
           (\<lambda>rows. Ok (record, db\<lparr>db_stream_conflicts := rows\<rparr>))))))))))"

definition put_stream_conflict ::
    "store_lib \<Rightarrow> WorkspaceConflictCreatedMessage \<Rightarrow> StreamConflictStatus \<Rightarrow> StreamId \<Rightarrow> SqliteState \<Rightarrow>
     (StreamConflictRecord, SyncError) result \<times> SqliteState" where
  "put_stream_conflict lib message status stream_id st =
     transaction (put_stream_conflict_tx lib (st_workspace_id st) message stream_id status) st"

fun conflict_text :: "store_lib \<Rightarrow> ConflictId \<Rightarrow> string" where
  "conflict_text lib (ConflictId u) = uuid_to_string (lib_uuid lib) u"

definition stream_conflicts ::
    "store_lib \<Rightarrow> StreamId \<Rightarrow> SqliteState \<Rightarrow> (StreamConflictRecord list, SyncError) result" where
  "stream_conflicts lib stream_id st =
     query_map (row_to_stream_conflict lib) StorageUnavailable
       (sort_key (\<lambda>r. conflict_text lib (sc_conflict_id r))
         (stream_conflicts_of (st_workspace_id st) stream_id (st_conn st)))"

definition stream_conflicts_bounded ::
    "store_lib \<Rightarrow> StreamId \<Rightarrow> u32 \<Rightarrow> SqliteState \<Rightarrow> (StreamConflictRecord list, SyncError) result" where
  "stream_conflicts_bounded lib stream_id limit st =
     and_then (query_map (row_to_stream_conflict lib) StorageUnavailable
       (take (unat limit + 1) (sort_key (\<lambda>r. conflict_text lib (sc_conflict_id r))
         (stream_conflicts_of (st_workspace_id st) stream_id (st_conn st))))) (\<lambda>records.
     fail_if (length records > unat limit) (CorruptState ''stream_conflicts'' ''conflict_id'') (Ok records))"

record StreamTableSummary =
  sm_entry_count :: nat
  sm_pending_entry_count :: nat
  sm_revision_count :: nat
  sm_pending_revision_count :: nat
  sm_conflict_count :: nat

definition stream_table_summary :: "StreamId \<Rightarrow> SqliteState \<Rightarrow> StreamTableSummary" where
  "stream_table_summary stream_id st =
     (let entries = entries_of (st_workspace_id st) stream_id (st_conn st);
          items = items_of (st_workspace_id st) stream_id (st_conn st)
      in \<lparr>sm_entry_count = length entries,
          sm_pending_entry_count = length (filter (\<lambda>r. \<not> settled (sr_status r)) entries),
          sm_revision_count = length items,
          sm_pending_revision_count = length (filter (\<lambda>r. \<not> settled (si_status r)) items),
          sm_conflict_count = length (stream_conflicts_of (st_workspace_id st) stream_id (st_conn st))\<rparr>)"

definition has_apply_journals :: "SqliteState \<Rightarrow> bool" where
  "has_apply_journals st = list_ex (\<lambda>r. aj_workspace_id r = st_workspace_id st) (db_apply_journal (st_conn st))"

end
