(* ===== verification/Sync_Received.thy ===== *)
theory Sync_Received
  imports Sync_Stream Sync_Example
begin

text \<open>
  What the stream tables of \<open>Sync_Stream\<close> hold after any sequence of operations: at most one active
  stream, whose received rows are a gapless prefix of what the server announced. The second part shows
  what the pages hand to the engine.
\<close>

section \<open>Steps\<close>

inductive stream_step :: "store_lib \<Rightarrow> WorkspaceId \<Rightarrow> database \<Rightarrow> database \<Rightarrow> bool" for lib ws where
  step_begin: "begin_stream_tx ws begn db = Ok (s, db') \<Longrightarrow> stream_step lib ws db db'"
| step_clear: "clear_stream_tx ws db = Ok (u, db') \<Longrightarrow> stream_step lib ws db db'"
| step_state: "put_stream_state_tx ws state db = Ok (u, db') \<Longrightarrow> stream_step lib ws db db'"
| step_end: "set_stream_end_received_tx ws received db = Ok (u, db') \<Longrightarrow> stream_step lib ws db db'"
| step_advance: "advance_stream_index_tx ws index db = Ok (u, db') \<Longrightarrow> stream_step lib ws db db'"
| step_entry: "put_stream_entry_tx lib ws entry status db = Ok (r, db') \<Longrightarrow> stream_step lib ws db db'"
| step_item: "put_stream_revision_item_tx lib ws sid revision kind index body dig status db = Ok (i, db') \<Longrightarrow>
    stream_step lib ws db db'"
| step_conflict: "put_stream_conflict_tx lib ws message sid cstatus db = Ok (c, db') \<Longrightarrow> stream_step lib ws db db'"

abbreviation ws_entries :: "WorkspaceId \<Rightarrow> database \<Rightarrow> StreamEntryRecord list" where
  "ws_entries ws db \<equiv> filter (\<lambda>r. sr_workspace_id r = ws) (db_stream_entries db)"

abbreviation ws_items :: "WorkspaceId \<Rightarrow> database \<Rightarrow> StreamRevisionItemRecord list" where
  "ws_items ws db \<equiv> filter (\<lambda>r. si_workspace_id r = ws) (db_stream_revision_items db)"

abbreviation ws_conflicts :: "WorkspaceId \<Rightarrow> database \<Rightarrow> StreamConflictRecord list" where
  "ws_conflicts ws db \<equiv> filter (\<lambda>r. sc_workspace_id r = ws) (db_stream_conflicts db)"

definition entry_path :: "store_lib \<Rightarrow> StreamEntryRecord \<Rightarrow> WorkspacePath" where
  "entry_path lib r = ps_path (se_entry (the (from_slice (lib_snapshot_entry lib) (sr_body_json r))))"

abbreviation event_items :: "StreamRevisionItemRecord list \<Rightarrow> StreamRevisionItemRecord list" where
  "event_items \<equiv> filter (\<lambda>r. si_item_kind r = StreamRevisionItemKind.Event)"

text \<open>
  The rows of a stream with header \<open>s\<close>, in the order they arrived: entries (only of a snapshot) are
  numbered from zero without gaps, with increasing paths; revision items (only of an incremental stream)
  have increasing revisions within the announced range, and their events increasing indices below the
  next one; nothing exceeds the announced counts.
\<close>

definition entries_ok :: "store_lib \<Rightarrow> StreamStateRecord \<Rightarrow> StreamEntryRecord list \<Rightarrow> bool" where
  "entries_ok lib s E \<longleftrightarrow>
     (\<forall>r\<in>set E. sr_stream_id r = ss_stream_id s) \<and> (E \<noteq> [] \<longrightarrow> ss_mode s = Snapshot) \<and>
     map (\<lambda>r. unat (sr_entry_index r)) E = [0..<length E] \<and> length E \<le> unat (ss_expected_entry_count s) \<and>
     sorted_wrt (<) (map (entry_path lib) E)"

definition items_ok :: "StreamStateRecord \<Rightarrow> StreamRevisionItemRecord list \<Rightarrow> bool" where
  "items_ok s I \<longleftrightarrow>
     (\<forall>r\<in>set I. si_stream_id r = ss_stream_id s \<and> ss_from_revision s < si_revision r \<and>
        si_revision r \<le> ss_final_revision s) \<and> (I \<noteq> [] \<longrightarrow> ss_mode s = Incremental) \<and>
     sorted_wrt (<) (map si_revision I) \<and> length I \<le> unat (ss_expected_event_count s) \<and>
     sorted_wrt (<) (map (\<lambda>r. the (si_event_index r)) (event_items I)) \<and>
     (\<forall>r\<in>set (event_items I). the (si_event_index r) < ss_next_event_index s)"

definition conflicts_ok :: "StreamStateRecord \<Rightarrow> StreamConflictRecord list \<Rightarrow> bool" where
  "conflicts_ok s C \<longleftrightarrow>
     (\<forall>r\<in>set C. sc_stream_id r = ss_stream_id s) \<and> length C \<le> unat (ss_expected_conflict_count s)"

definition stream_inv :: "store_lib \<Rightarrow> WorkspaceId \<Rightarrow> database \<Rightarrow> bool" where
  "stream_inv lib ws db \<longleftrightarrow>
     keyed ss_workspace_id (db_stream_state db) \<and>
     (\<forall>s\<in>set (db_stream_state db). row_to_stream_state s = Some s) \<and>
     (\<forall>r\<in>set (db_stream_entries db). row_to_stream_entry lib r = Some r) \<and>
     (\<forall>r\<in>set (db_stream_revision_items db). row_to_stream_revision_item lib r = Some r) \<and>
     (\<forall>r\<in>set (db_stream_conflicts db). row_to_stream_conflict lib r = Some r) \<and>
     (case stream_state_row ws db of
        None \<Rightarrow> ws_entries ws db = [] \<and> ws_items ws db = [] \<and> ws_conflicts ws db = []
      | Some s \<Rightarrow> entries_ok lib s (ws_entries ws db) \<and> items_ok s (ws_items ws db) \<and>
          conflicts_ok s (ws_conflicts ws db))"

lemmas stream_inv_simps = stream_inv_def stream_state_row_def

section \<open>Stream headers\<close>

lemma row_to_stream_state_Some: "row_to_stream_state r = Some x \<Longrightarrow> x = r"
  by (auto simp: row_to_stream_state_def split: if_splits)

lemma active_stream_row:
  "active_stream_state ws db = Ok s \<Longrightarrow> stream_state_row ws db = s"
  by (auto simp: active_stream_state_def result_simps dest: row_to_stream_state_Some)

lemma require_stream_row:
  "require_stream ws db = Ok s \<Longrightarrow> stream_state_row ws db = Some s \<and> row_to_stream_state s = Some s"
  by (auto simp: require_stream_def active_stream_state_def result_simps dest: row_to_stream_state_Some)

text \<open>Progress that an update of the header may make.\<close>

definition header_progress :: "StreamStateRecord \<Rightarrow> StreamStateRecord \<Rightarrow> bool" where
  "header_progress s s' \<longleftrightarrow>
     (\<exists>index received. s' = s\<lparr>ss_next_event_index := index, ss_end_received := received\<rparr> \<and>
        ss_next_event_index s \<le> index \<and> index \<le> ss_expected_event_count s)"

lemma header_progress_ok:
  assumes "header_progress s s'"
  shows "entries_ok lib s E \<Longrightarrow> entries_ok lib s' E" "items_ok s I \<Longrightarrow> items_ok s' I"
    "conflicts_ok s C \<Longrightarrow> conflicts_ok s' C" "row_to_stream_state s = Some s \<Longrightarrow> row_to_stream_state s' = Some s'"
  using assms
  by (auto simp: header_progress_def entries_ok_def items_ok_def conflicts_ok_def row_to_stream_state_def
      split: if_splits)

lemma stream_inv_header:
  assumes inv: "stream_inv lib ws db" and s: "stream_state_row ws db = Some s"
    and progress: "header_progress s (f s)" and keep: "\<And>r. ss_workspace_id (f r) = ss_workspace_id r"
  shows "stream_inv lib ws (db\<lparr>db_stream_state := sql_update (\<lambda>r. ss_workspace_id r = ws) f (db_stream_state db)\<rparr>)"
proof -
  have row: "s \<in> set (db_stream_state db)" "ss_workspace_id s = ws"
    using find_SomeD [OF s [unfolded stream_state_row_def]] by auto
  have only: "r = s" if "r \<in> set (db_stream_state db)" "ss_workspace_id r = ws" for r
    using that row keyed_unique [of ss_workspace_id "db_stream_state db" r s] inv
    by (simp add: stream_inv_def)
  have "stream_state_row ws (db\<lparr>db_stream_state := sql_update (\<lambda>r. ss_workspace_id r = ws) f (db_stream_state db)\<rparr>) =
    Some (f s)"
    using s by (simp add: stream_state_row_def find_sql_update keep)
  moreover have "row_to_stream_state (f s) = Some (f s)"
    using inv row header_progress_ok(4) [OF progress] by (simp add: stream_inv_def)
  ultimately show ?thesis
    using inv s only header_progress_ok(1-3) [OF progress] keep
    by (auto simp: stream_inv_def table_simps keyed_sql_update)
qed

lemma stream_state_from_begin_ws: "ss_workspace_id (stream_state_from_begin begn) = sb_workspace_id begn"
  by (simp add: stream_state_from_begin_def)

lemma stream_inv_begin:
  assumes inv: "stream_inv lib ws db" and step: "begin_stream_tx ws begn db = Ok (s, db')"
  shows "stream_inv lib ws db'"
proof -
  have fresh: "stream_inv lib ws (d\<lparr>db_stream_state := db_stream_state d @ [stream_state_from_begin begn]\<rparr>)"
    if "stream_inv lib ws d" "\<forall>x\<in>set (db_stream_state d). sb_workspace_id begn \<noteq> ss_workspace_id x"
      "sb_workspace_id begn = ws" "snapshot_begin_validate begn = Ok ()" for d
  proof -
    have none: "stream_state_row ws d = None" using that by (auto simp: stream_state_row_def find_None_iff)
    then have "stream_state_row ws (d\<lparr>db_stream_state := db_stream_state d @ [stream_state_from_begin begn]\<rparr>) =
      Some (stream_state_from_begin begn)"
      using that(3) by (auto simp: stream_state_row_def find_append1 stream_state_from_begin_def)
    with that none show ?thesis
      by (auto simp: stream_inv_def keyed_append1 stream_state_from_begin_def row_to_stream_state_def
          entries_ok_def items_ok_def conflicts_ok_def snapshot_begin_validate_def result_simps split: if_splits)
  qed
  have cleared: "stream_inv lib ws d'" if "clear_stream_tx ws db = Ok (u, d')" for u d'
    using that inv by (auto simp: clear_stream_tx_def stream_inv_simps table_simps keyed_sql_delete)
  have ok: "snapshot_begin_validate begn = Ok ()" "sb_workspace_id begn = ws"
    using step by (auto simp: begin_stream_tx_def result_simps)
  have "db' = db \<or> (\<exists>d. stream_inv lib ws d \<and> (\<forall>x\<in>set (db_stream_state d). sb_workspace_id begn \<noteq> ss_workspace_id x) \<and>
      db' = d\<lparr>db_stream_state := db_stream_state d @ [stream_state_from_begin begn]\<rparr>)"
  proof -
    obtain existing where act: "active_stream_state ws db = Ok existing"
      using step by (auto simp: begin_stream_tx_def Let_def result_simps)
    show ?thesis
    proof (cases existing)
      case None
      with act step inv show ?thesis
        by (auto simp: begin_stream_tx_def Let_def result_simps stream_state_from_begin_ws)
    next
      case (Some x)
      with act step cleared show ?thesis
        by (cases "ss_stream_id x = sb_stream_id begn")
          (auto simp: begin_stream_tx_def Let_def result_simps stream_state_from_begin_ws)
    qed
  qed
  then show ?thesis using inv fresh ok by auto
qed

lemma sql_update_Nil_iff: "sql_update p f rows = [] \<longleftrightarrow> rows = []"
  by (simp add: sql_update_def)

section \<open>Entries\<close>

lemma row_to_stream_entry_Some: "row_to_stream_entry lib r = Some x \<Longrightarrow> x = r"
  by (auto simp: row_to_stream_entry_def split: if_splits option.splits)

lemma row_to_stream_entry_status [simp]:
  "row_to_stream_entry lib (r\<lparr>sr_status := status\<rparr>) = map_option (\<lambda>r. r\<lparr>sr_status := status\<rparr>) (row_to_stream_entry lib r)"
  by (auto simp: row_to_stream_entry_def split: option.splits)

lemma count_u32_Ok_iff [result_simps]: "count_u32 table column n = Ok k \<longleftrightarrow> n < 2 ^ 32 \<and> k = word_of_nat n"
  by (auto simp: count_u32_def)

lemma put_stream_entry_cases:
  assumes "put_stream_entry_tx lib ws entry status db = Ok (r, db')"
  obtains (kept) "db' = db"
  | (staged) p where "db' = db\<lparr>db_stream_entries := sql_update p (\<lambda>r. r\<lparr>sr_status := status\<rparr>) (db_stream_entries db)\<rparr>"
  | (received) s body where
      "snapshot_entry_validate entry = Ok ()" "se_workspace_id entry = ws"
      "to_vec (lib_snapshot_entry lib) entry = Some body"
      "stream_state_row ws db = Some s" "ss_stream_id s = se_stream_id entry" "ss_mode s = Snapshot"
      "length (entries_of ws (se_stream_id entry) db) < 2 ^ 32"
      "se_index entry = word_of_nat (length (entries_of ws (se_stream_id entry) db))"
      "se_index entry < ss_expected_entry_count s"
      "\<forall>x rest. rev (sort_key sr_entry_index (entries_of ws (se_stream_id entry) db)) = x # rest \<longrightarrow>
         entry_path lib x < ps_path (se_entry entry)"
      "db' = db\<lparr>db_stream_entries := db_stream_entries db @
         [\<lparr>sr_workspace_id = ws, sr_stream_id = se_stream_id entry, sr_entry_index = se_index entry,
           sr_body_json = body, sr_body_digest = body_digest lib body, sr_status = status\<rparr>]\<rparr>"
proof -
  let ?own = "entries_of ws (se_stream_id entry) db"
  from assms obtain body s existing where
    a: "snapshot_entry_validate entry = Ok ()" "se_workspace_id entry = ws"
      "to_vec (lib_snapshot_entry lib) entry = Some body" "require_stream ws db = Ok s"
      "ss_stream_id s = se_stream_id entry" "ss_mode s = Snapshot"
    and ex: "query_optional (row_to_stream_entry lib) StorageUnavailable
      (find (\<lambda>r. entry_key r = (ws, se_stream_id entry, se_index entry)) (db_stream_entries db)) = Ok existing"
    unfolding put_stream_entry_tx_def Let_def by (clarsimp simp: result_simps entry_key_def)
  show thesis
  proof (cases existing)
    case (Some x)
    with assms ex a have "db' = db \<or> (\<exists>p. db' = db\<lparr>db_stream_entries :=
        sql_update p (\<lambda>r. r\<lparr>sr_status := status\<rparr>) (db_stream_entries db)\<rparr>)"
      by (cases "settled (sr_status x)")
        (simp_all add: put_stream_entry_tx_def Let_def canonical_json_def entry_key_def fail_if_def split: if_splits, blast)
    then show thesis using kept staged by blast
  next
    case None
    with assms ex a have count: "length ?own < 2 ^ 32" "se_index entry = word_of_nat (length ?own)"
        "se_index entry < ss_expected_entry_count s"
      and prev: "\<exists>previous. query_optional (row_to_stream_entry lib) StorageUnavailable
           (case rev (sort_key sr_entry_index ?own) of [] \<Rightarrow> None | r # _ \<Rightarrow> Some r) = Ok previous \<and>
         (case previous of None \<Rightarrow> True | Some x \<Rightarrow> \<exists>e. from_slice (lib_snapshot_entry lib) (sr_body_json x) = Some e \<and>
            ps_path (se_entry e) < ps_path (se_entry entry))"
      and db': "db' = db\<lparr>db_stream_entries := db_stream_entries db @
         [\<lparr>sr_workspace_id = ws, sr_stream_id = se_stream_id entry, sr_entry_index = se_index entry,
           sr_body_json = body, sr_body_digest = body_digest lib body, sr_status = status\<rparr>]\<rparr>"
      by (auto simp: put_stream_entry_tx_def Let_def canonical_json_def entry_key_def result_simps not_le
          split: option.splits)
    have "entry_path lib x < ps_path (se_entry entry)" if "rev (sort_key sr_entry_index ?own) = x # rest" for x rest
      using prev that by (auto simp: entry_path_def result_simps dest!: row_to_stream_entry_Some)
    with count db' a(1-3,5,6) require_stream_row [OF a(4)] show thesis by (intro received) auto
  qed
qed

lemma entries_of_active:
  "entries_ok lib s (ws_entries ws db) \<Longrightarrow> entries_of ws (ss_stream_id s) db = ws_entries ws db"
  by (auto simp: entries_of_def entries_ok_def intro!: filter_cong)

lemma entries_sorted: "entries_ok lib s E \<Longrightarrow> sorted (map sr_entry_index E)"
proof -
  assume "entries_ok lib s E"
  then have "sorted (map (\<lambda>r. unat (sr_entry_index r)) E)" by (simp add: entries_ok_def)
  then show ?thesis by (simp add: sorted_map word_le_nat_alt)
qed

lemma entries_ok_append:
  assumes ok: "entries_ok lib s E" and r: "sr_stream_id r = ss_stream_id s" "ss_mode s = Snapshot"
    and index: "length E < 2 ^ 32" "sr_entry_index r = word_of_nat (length E)" "sr_entry_index r < ss_expected_entry_count s"
    and path: "E \<noteq> [] \<Longrightarrow> entry_path lib (last E) < entry_path lib r"
  shows "entries_ok lib s (E @ [r])"
proof -
  have n: "unat (sr_entry_index r) = length E"
    using index(1,2) by (simp add: unat_of_nat take_bit_nat_eq_self)
  have "sorted_wrt (<) (map (entry_path lib) E)" using ok by (simp add: entries_ok_def)
  then have "\<forall>x\<in>set E. entry_path lib x < entry_path lib r"
    using path by (cases E rule: rev_cases) (auto simp: sorted_wrt_append intro: less_trans)
  with ok r n index(3) show ?thesis
    by (auto simp: entries_ok_def sorted_wrt_append word_less_nat_alt)
qed

lemma stream_inv_entry:
  assumes law: "store_law lib" and inv: "stream_inv lib ws db"
    and step: "put_stream_entry_tx lib ws entry status db = Ok (r, db')"
  shows "stream_inv lib ws db'"
  using step
proof (cases rule: put_stream_entry_cases)
  case (staged p)
  have "entries_ok lib s (sql_update p (\<lambda>r. r\<lparr>sr_status := status\<rparr>) E)" if "entries_ok lib s E" for s E
  proof -
    have "map g (sql_update p (\<lambda>r. r\<lparr>sr_status := status\<rparr>) E) = map g E"
      if "\<And>r. g (r\<lparr>sr_status := status\<rparr>) = g r" for g :: "StreamEntryRecord \<Rightarrow> 'b"
      by (rule map_sql_update) (rule that)
    from this [of "\<lambda>r. unat (sr_entry_index r)"] this [of "entry_path lib"] that show ?thesis
      by (auto simp: entries_ok_def entry_path_def sql_update_Nil_iff set_sql_update)
  qed
  moreover have "ws_entries ws db' = sql_update p (\<lambda>r. r\<lparr>sr_status := status\<rparr>) (ws_entries ws db)"
    by (simp add: staged filter_sql_update)
  ultimately show ?thesis
    using inv by (auto simp: stream_inv_simps staged table_simps sql_update_Nil_iff split: option.splits)
next
  case (received s body)
  let ?r = "\<lparr>sr_workspace_id = ws, sr_stream_id = se_stream_id entry, sr_entry_index = se_index entry,
    sr_body_json = body, sr_body_digest = body_digest lib body, sr_status = status\<rparr>"
  have ok: "entries_ok lib s (ws_entries ws db)" using inv received(4) by (simp add: stream_inv_def)
  have parsed: "from_slice (lib_snapshot_entry lib) body = Some entry"
    using law received(3) by (simp add: store_law_def codec_law_def)
  have readable: "row_to_stream_entry lib ?r = Some ?r"
    using received(1,2) parsed digest_ok_body_digest [OF law] by (simp add: row_to_stream_entry_def)
  have own: "entries_of ws (se_stream_id entry) db = ws_entries ws db"
    using entries_of_active [OF ok] received(5) by simp
  have "entries_ok lib s (ws_entries ws db @ [?r])"
  proof (rule entries_ok_append [OF ok])
    show "entry_path lib (last (ws_entries ws db)) < entry_path lib ?r" if "ws_entries ws db \<noteq> []"
      using that received(10) parsed unfolding own sort_key_id_if_sorted [OF entries_sorted [OF ok]]
      by (cases "ws_entries ws db" rule: rev_cases) (auto simp: entry_path_def)
  qed (use received in \<open>simp_all add: own\<close>)
  with inv received(4) readable show ?thesis
    by (auto simp: stream_inv_simps received(11))
qed (simp add: inv)

section \<open>Revision items\<close>

lemma row_to_stream_revision_item_Some: "row_to_stream_revision_item lib r = Some x \<Longrightarrow> x = r"
  by (simp add: row_to_stream_revision_item_def Let_def split: if_splits)

lemma row_to_stream_revision_item_status [simp]:
  "row_to_stream_revision_item lib (r\<lparr>si_status := status\<rparr>) =
   map_option (\<lambda>r. r\<lparr>si_status := status\<rparr>) (row_to_stream_revision_item lib r)"
  by (cases "si_item_kind r") (auto simp: row_to_stream_revision_item_def split: option.splits)

lemma canonicalize_readable:
  assumes "store_law lib" "canonicalize_revision_item lib ws sid revision kind index body = Ok (b, d, i)"
  shows "row_to_stream_revision_item lib
    \<lparr>si_workspace_id = ws, si_stream_id = sid, si_revision = revision, si_item_kind = kind, si_body_json = b,
     si_body_digest = d, si_event_index = i, si_status = status\<rparr> =
    Some \<lparr>si_workspace_id = ws, si_stream_id = sid, si_revision = revision, si_item_kind = kind, si_body_json = b,
     si_body_digest = d, si_event_index = i, si_status = status\<rparr>"
  using assms digest_ok_body_digest [OF assms(1), of b]
  by (cases kind)
    (auto simp: canonicalize_revision_item_def row_to_stream_revision_item_def result_simps store_law_def codec_law_def)

lemma put_stream_revision_item_cases:
  assumes "put_stream_revision_item_tx lib ws sid revision kind index body dig status db = Ok (r, db')"
  obtains (kept) "db' = db"
  | (staged) p where "db' = db\<lparr>db_stream_revision_items :=
      sql_update p (\<lambda>r. r\<lparr>si_status := status\<rparr>) (db_stream_revision_items db)\<rparr>"
  | (received) s b d i db1 where
      "canonicalize_revision_item lib ws sid revision kind index body = Ok (b, d, i)"
      "stream_state_row ws db = Some s" "ss_stream_id s = sid" "ss_mode s = Incremental"
      "length (items_of ws sid db) < unat (ss_expected_event_count s)"
      "ss_from_revision s < revision" "revision \<le> ss_final_revision s"
      "\<forall>p. latest_revision (items_of ws sid db) = Some p \<longrightarrow> p < revision"
      "claim_event_index ws kind i s db = Ok db1"
      "db' = db1\<lparr>db_stream_revision_items := db_stream_revision_items db1 @
         [\<lparr>si_workspace_id = ws, si_stream_id = sid, si_revision = revision, si_item_kind = kind, si_body_json = b,
           si_body_digest = d, si_event_index = i, si_status = status\<rparr>]\<rparr>"
proof -
  from assms obtain b d i s existing where
    a: "dig = body_digest lib body" "canonicalize_revision_item lib ws sid revision kind index body = Ok (b, d, i)"
      "require_stream ws db = Ok s" "ss_stream_id s = sid" "ss_mode s = Incremental"
    and ex: "query_optional (row_to_stream_revision_item lib) StorageUnavailable
      (find (\<lambda>r. item_row_key r = (ws, sid, revision)) (db_stream_revision_items db)) = Ok existing"
    unfolding put_stream_revision_item_tx_def Let_def by (clarsimp simp: result_simps item_row_key_def)
  show thesis
  proof (cases existing)
    case (Some x)
    with assms ex a have "db' = db \<or> (\<exists>p. db' = db\<lparr>db_stream_revision_items :=
        sql_update p (\<lambda>r. r\<lparr>si_status := status\<rparr>) (db_stream_revision_items db)\<rparr>)"
      by (cases "settled (si_status x)")
        (simp_all add: put_stream_revision_item_tx_def Let_def item_row_key_def fail_if_def split: if_splits, blast)
    then show thesis using kept staged by blast
  next
    case None
    with assms ex a obtain db1 where count: "length (items_of ws sid db) < 2 ^ 32"
        "\<not> word_of_nat (length (items_of ws sid db)) \<ge> ss_expected_event_count s"
      and rev: "ss_from_revision s < revision" "revision \<le> ss_final_revision s"
        "\<forall>p. latest_revision (items_of ws sid db) = Some p \<longrightarrow> p < revision"
      and claim: "claim_event_index ws kind i s db = Ok db1"
      and db': "db' = db1\<lparr>db_stream_revision_items := db_stream_revision_items db1 @
         [\<lparr>si_workspace_id = ws, si_stream_id = sid, si_revision = revision, si_item_kind = kind, si_body_json = b,
           si_body_digest = d, si_event_index = i, si_status = status\<rparr>]\<rparr>"
      by (clarsimp simp: put_stream_revision_item_tx_def Let_def item_row_key_def result_simps not_le
          split: option.splits)
    have "length (items_of ws sid db) < unat (ss_expected_event_count s)"
      using count by (simp add: not_le word_less_nat_alt unat_of_nat take_bit_nat_eq_self)
    with rev claim db' a(2,4,5) require_stream_row [OF a(3)] show thesis by (intro received) auto
  qed
qed

lemma word_succ_room:
  fixes a b :: "'a::len word"
  assumes "a < b"
  shows "a < a + 1" "a + 1 \<le> b"
proof -
  have lt: "unat a < unat b" "unat b < 2 ^ LENGTH('a)" using assms by (simp_all add: word_less_nat_alt)
  then have "Suc (unat a) < 2 ^ LENGTH('a)" by linarith
  then have "unat (a + 1) = unat a + 1" by (simp add: unat_word_ariths)
  with lt show "a < a + 1" "a + 1 \<le> b" by (simp_all add: word_less_nat_alt word_le_nat_alt)
qed

lemma latest_revision_bound:
  assumes "r \<in> set rows"
  obtains p where "latest_revision rows = Some p" "si_revision r \<le> p"
proof -
  let ?f = "\<lambda>r previous. case previous of None \<Rightarrow> Some (si_revision r)
    | Some p \<Rightarrow> if si_revision r > p then Some (si_revision r) else Some p"
  have up: "\<exists>p. fold ?f rows (Some q) = Some p \<and> q \<le> p \<and> (\<forall>r\<in>set rows. si_revision r \<le> p)" for rows q
  proof (induction rows arbitrary: q)
    case (Cons x rows)
    show ?case
    proof (cases "si_revision x > q")
      case True
      then show ?thesis using Cons.IH [of "si_revision x"] by (auto intro: less_imp_le order_trans)
    next
      case False
      then show ?thesis using Cons.IH [of q] by (auto simp: not_less intro: order_trans)
    qed
  qed simp
  from assms obtain x rest where "rows = x # rest" by (cases rows) auto
  then show thesis
    using up [of rest "si_revision x"] assms that by (auto simp: latest_revision_def)
qed

lemma items_of_active: "items_ok s (ws_items ws db) \<Longrightarrow> items_of ws (ss_stream_id s) db = ws_items ws db"
  by (auto simp: items_of_def items_ok_def intro!: filter_cong)

lemma items_ok_append:
  assumes ok: "items_ok s I" and r: "si_stream_id r = ss_stream_id s" "ss_mode s = Incremental"
    and len: "length I < unat (ss_expected_event_count s)"
    and rev: "ss_from_revision s < si_revision r" "si_revision r \<le> ss_final_revision s"
      "\<forall>x\<in>set I. si_revision x < si_revision r"
    and event: "si_item_kind r = StreamRevisionItemKind.Event \<Longrightarrow>
      si_event_index r = Some (ss_next_event_index s) \<and> ss_next_event_index s < index"
    and index: "ss_next_event_index s \<le> index"
  shows "items_ok (s\<lparr>ss_next_event_index := index\<rparr>) (I @ [r])"
  using assms by (auto simp: items_ok_def sorted_wrt_append intro: less_le_trans)

lemma stream_inv_item:
  assumes law: "store_law lib" and inv: "stream_inv lib ws db"
    and step: "put_stream_revision_item_tx lib ws sid revision kind index body dig status db = Ok (r, db')"
  shows "stream_inv lib ws db'"
  using step
proof (cases rule: put_stream_revision_item_cases)
  case (staged p)
  have "items_ok s (sql_update p (\<lambda>r. r\<lparr>si_status := status\<rparr>) I)" if "items_ok s I" for s I
  proof -
    have same: "map g (sql_update p (\<lambda>r. r\<lparr>si_status := status\<rparr>) I) = map g I"
      if "\<And>r. g (r\<lparr>si_status := status\<rparr>) = g r" for g :: "StreamRevisionItemRecord \<Rightarrow> 'b" and I
      by (rule map_sql_update) (rule that)
    have "event_items (sql_update p (\<lambda>r. r\<lparr>si_status := status\<rparr>) I) =
      sql_update p (\<lambda>r. r\<lparr>si_status := status\<rparr>) (event_items I)"
      by (rule filter_sql_update) simp
    with same [of si_revision I] same [of "\<lambda>r. the (si_event_index r)" "event_items I"] that show ?thesis
      by (auto simp: items_ok_def sql_update_Nil_iff set_sql_update)
  qed
  moreover have "ws_items ws db' = sql_update p (\<lambda>r. r\<lparr>si_status := status\<rparr>) (ws_items ws db)"
    by (simp add: staged filter_sql_update)
  ultimately show ?thesis
    using inv by (auto simp: stream_inv_simps staged table_simps sql_update_Nil_iff split: option.splits)
next
  case (received s b d i db1)
  let ?r = "\<lparr>si_workspace_id = ws, si_stream_id = sid, si_revision = revision, si_item_kind = kind, si_body_json = b,
     si_body_digest = d, si_event_index = i, si_status = status\<rparr>"
  have ok: "items_ok s (ws_items ws db)" using inv received(2) by (simp add: stream_inv_def)
  have own: "items_of ws sid db = ws_items ws db" using items_of_active [OF ok] received(3) by simp
  have later: "\<forall>x\<in>set (ws_items ws db). si_revision x < si_revision ?r"
  proof
    fix x assume "x \<in> set (ws_items ws db)"
    then obtain p where "latest_revision (ws_items ws db) = Some p" "si_revision x \<le> p"
      by (rule latest_revision_bound)
    with received(8) show "si_revision x < si_revision ?r" unfolding own by auto
  qed
  define index' where "index' = (if kind = StreamRevisionItemKind.Event then ss_next_event_index s + 1 else ss_next_event_index s)"
  have room: "ss_next_event_index s < index' \<and> index' \<le> ss_expected_event_count s \<and> i = Some (ss_next_event_index s)"
    if "kind = StreamRevisionItemKind.Event"
    using received(9) that
    by (auto simp: claim_event_index_def index'_def result_simps not_le word_succ_room)
  have items: "items_ok (s\<lparr>ss_next_event_index := index'\<rparr>) (ws_items ws db @ [?r])"
    using room received by (intro items_ok_append [OF ok _ _ _ _ _ later]) (auto simp: own index'_def)
  have "stream_inv lib ws db1 \<and> stream_state_row ws db1 = Some (s\<lparr>ss_next_event_index := index'\<rparr>) \<and>
    db_stream_revision_items db1 = db_stream_revision_items db"
  proof (cases kind)
    case Event
    then have db1: "db1 = db\<lparr>db_stream_state := sql_update (\<lambda>r. ss_workspace_id r = ws)
      (\<lambda>r. r\<lparr>ss_next_event_index := index'\<rparr>) (db_stream_state db)\<rparr>"
      using received(9) by (auto simp: claim_event_index_def index'_def result_simps set_next_event_index_def)
    have "header_progress s (s\<lparr>ss_next_event_index := index'\<rparr>)"
      unfolding header_progress_def using room [OF Event]
      by (intro exI [of _ index'] exI [of _ "ss_end_received s"]) auto
    then have "stream_inv lib ws db1" unfolding db1 by (intro stream_inv_header [OF inv received(2)]) simp_all
    then show ?thesis using received(2) by (simp add: db1 stream_state_row_def find_sql_update)
  next
    case ConflictResolved
    then show ?thesis using inv received(2,9) by (auto simp: claim_event_index_def index'_def result_simps)
  qed
  with items canonicalize_readable [OF law received(1), of status] show ?thesis
    by (auto simp: stream_inv_simps received(10))
qed (simp add: inv)

section \<open>Conflicts\<close>

lemma row_to_stream_conflict_Some: "row_to_stream_conflict lib r = Some x \<Longrightarrow> x = r"
  by (auto simp: row_to_stream_conflict_def split: if_splits)

lemma row_to_stream_conflict_status [simp]:
  "row_to_stream_conflict lib (r\<lparr>sc_status := status\<rparr>) =
   map_option (\<lambda>r. r\<lparr>sc_status := status\<rparr>) (row_to_stream_conflict lib r)"
  by (simp add: row_to_stream_conflict_def)

lemma created_ok_message:
  assumes "store_law lib" "conflict_created_validate m = Ok ()" "to_vec (lib_created lib) m = Some json"
  shows "created_ok lib json (cc_workspace_id m) (cc_conflict_id m) (cc_conflict_revision m)"
  using assms by (simp add: created_ok_def store_law_def codec_law_def)

lemma stream_inv_conflict:
  assumes law: "store_law lib" and inv: "stream_inv lib ws db"
    and step: "put_stream_conflict_tx lib ws m sid status db = Ok (c, db')"
  shows "stream_inv lib ws db'"
proof -
  from step obtain json s existing where
    a: "conflict_created_validate m = Ok ()" "cc_workspace_id m = ws" "to_vec (lib_created lib) m = Some json"
      "require_stream ws db = Ok s" "ss_stream_id s = sid"
    and ex: "query_optional (row_to_stream_conflict lib) StorageUnavailable
      (find (\<lambda>r. stream_conflict_key r = (ws, sid, cc_conflict_id m)) (db_stream_conflicts db)) = Ok existing"
    unfolding put_stream_conflict_tx_def Let_def by (clarsimp simp: result_simps stream_conflict_key_def)
  have s: "stream_state_row ws db = Some s" using require_stream_row [OF a(4)] ..
  have ok: "conflicts_ok s (ws_conflicts ws db)" using inv s by (simp add: stream_inv_def)
  then have own: "stream_conflicts_of ws sid db = ws_conflicts ws db"
    using a(5) by (auto simp: stream_conflicts_of_def conflicts_ok_def intro!: filter_cong)
  show ?thesis
  proof (cases existing)
    case (Some x)
    with step ex a have "db' = db \<or> (\<exists>p. db' = db\<lparr>db_stream_conflicts :=
        sql_update p (\<lambda>r. r\<lparr>sc_status := status\<rparr>) (db_stream_conflicts db)\<rparr>)"
      by (cases "sc_status x \<in> {Replaced, Pruned}")
        (simp_all add: put_stream_conflict_tx_def Let_def canonical_json_def stream_conflict_key_def fail_if_def
          split: if_splits, blast+)
    then show ?thesis
    proof (elim disjE exE)
      fix p assume db': "db' = db\<lparr>db_stream_conflicts :=
        sql_update p (\<lambda>r. r\<lparr>sc_status := status\<rparr>) (db_stream_conflicts db)\<rparr>"
      then have "ws_conflicts ws db' = sql_update p (\<lambda>r. r\<lparr>sc_status := status\<rparr>) (ws_conflicts ws db)"
        by (simp add: filter_sql_update)
      with inv s ok show ?thesis
        by (auto simp: stream_inv_simps db' table_simps conflicts_ok_def)
    qed (simp add: inv)
  next
    case None
    let ?r = "\<lparr>sc_workspace_id = ws, sc_stream_id = sid, sc_conflict_id = cc_conflict_id m,
      sc_conflict_revision = cc_conflict_revision m, sc_created_json = json, sc_status = status\<rparr>"
    from None step ex a have "length (ws_conflicts ws db) < 2 ^ 32"
        "word_of_nat (length (ws_conflicts ws db)) < ss_expected_conflict_count s"
      and db': "db' = db\<lparr>db_stream_conflicts := db_stream_conflicts db @ [?r]\<rparr>"
      by (auto simp: put_stream_conflict_tx_def Let_def stream_conflict_key_def result_simps not_le own
          split: option.splits)
    then have "length (ws_conflicts ws db) < unat (ss_expected_conflict_count s)"
      by (simp add: word_less_nat_alt unat_of_nat take_bit_nat_eq_self)
    moreover have "row_to_stream_conflict lib ?r = Some ?r"
      using created_ok_message [OF law a(1,3)] a(2) by (simp add: row_to_stream_conflict_def)
    ultimately show ?thesis
      using inv s ok a(5) by (auto simp: stream_inv_simps db' conflicts_ok_def)
  qed
qed

section \<open>The received prefix\<close>

lemma stream_inv_step:
  assumes "store_law lib" "stream_inv lib ws db" "stream_step lib ws db db'"
  shows "stream_inv lib ws db'"
  using assms(3)
proof cases
  case (step_clear u)
  with assms(2) show ?thesis
    by (auto simp: clear_stream_tx_def stream_inv_simps table_simps keyed_sql_delete)
next
  case (step_state state u)
  then obtain s where "require_stream ws db = Ok s" "ss_next_event_index s \<le> ss_next_event_index state"
    "ss_next_event_index state \<le> ss_expected_event_count s"
    and db': "db' = db\<lparr>db_stream_state := sql_update (\<lambda>r. ss_workspace_id r = ws)
       (\<lambda>r. r\<lparr>ss_next_event_index := ss_next_event_index state, ss_end_received := ss_end_received state\<rparr>)
       (db_stream_state db)\<rparr>"
    by (clarsimp simp: put_stream_state_tx_def result_simps not_less)
  then show ?thesis
    unfolding db' using assms(2) require_stream_row
    by (intro stream_inv_header) (auto simp: header_progress_def)
next
  case (step_end received u)
  then obtain s where s: "require_stream ws db = Ok s"
    and db': "db' = db\<lparr>db_stream_state := sql_update (\<lambda>r. ss_workspace_id r = ws)
       (\<lambda>r. r\<lparr>ss_end_received := received\<rparr>) (db_stream_state db)\<rparr>"
    by (clarsimp simp: set_stream_end_received_tx_def result_simps)
  have "ss_next_event_index s \<le> ss_expected_event_count s"
    using require_stream_row [OF s] by (simp add: row_to_stream_state_def not_less split: if_splits)
  then have "header_progress s (s\<lparr>ss_end_received := received\<rparr>)"
    unfolding header_progress_def by (intro exI [of _ "ss_next_event_index s"] exI [of _ received]) simp
  then show ?thesis
    unfolding db' using assms(2) require_stream_row [OF s] by (intro stream_inv_header) auto
next
  case (step_advance index u)
  then obtain s where s: "require_stream ws db = Ok s" "ss_next_event_index s \<le> index" "index \<le> ss_expected_event_count s"
    and db': "db' = db\<lparr>db_stream_state := sql_update (\<lambda>r. ss_workspace_id r = ws)
       (\<lambda>r. r\<lparr>ss_next_event_index := index\<rparr>) (db_stream_state db)\<rparr>"
    by (clarsimp simp: advance_stream_index_tx_def set_next_event_index_def result_simps not_less)
  then have "header_progress s (s\<lparr>ss_next_event_index := index\<rparr>)"
    by (auto simp: header_progress_def intro!: exI [of _ "ss_end_received s"])
  then show ?thesis
    unfolding db' using assms(2) require_stream_row [OF s(1)] by (intro stream_inv_header) auto
qed (blast intro: stream_inv_begin [OF assms(2)] stream_inv_entry [OF assms(1,2)] stream_inv_item [OF assms(1,2)]
      stream_inv_conflict [OF assms(1,2)])+

lemma sort_key_revision: "items_ok s I \<Longrightarrow> sort_key si_revision I = I"
  by (rule sort_key_id_if_sorted) (auto simp: items_ok_def intro: strict_sorted_imp_sorted)

text \<open>
  C28: However the operations on a stream are interleaved, starting from a database without one, what can
  be read of the active stream is a prefix of what the server announced: the entries of a snapshot are
  numbered without a gap and have increasing paths, the revision items of an incremental stream have
  increasing revisions within the announced range and increasing event indices below the next expected
  one, none of the two kinds occurs in a stream of the other, and no count exceeds the announced one.
\<close>

theorem stream_received_prefix:
  assumes law: "store_law lib"
    and init: "db_stream_state db = []" "db_stream_entries db = []" "db_stream_revision_items db = []"
      "db_stream_conflicts db = []"
    and steps: "(stream_step lib (st_workspace_id st))\<^sup>*\<^sup>* db (st_conn st)"
    and active: "stream_state st = Ok (Some s)"
  shows "\<exists>E I C. stream_entries lib (ss_stream_id s) st = Ok E \<and> stream_revision_items lib (ss_stream_id s) st = Ok I \<and>
    stream_conflicts lib (ss_stream_id s) st = Ok C \<and>
    map (\<lambda>r. unat (sr_entry_index r)) E = [0..<length E] \<and> sorted_wrt (<) (map (entry_path lib) E) \<and>
    sorted_wrt (<) (map si_revision I) \<and>
    sorted_wrt (<) (map (\<lambda>r. the (si_event_index r)) (event_items I)) \<and>
    (\<forall>r\<in>set I. ss_from_revision s < si_revision r \<and> si_revision r \<le> ss_final_revision s) \<and>
    (\<forall>r\<in>set (event_items I). the (si_event_index r) < ss_next_event_index s) \<and>
    length E \<le> unat (ss_expected_entry_count s) \<and> length I \<le> unat (ss_expected_event_count s) \<and>
    length C \<le> unat (ss_expected_conflict_count s) \<and> (E = [] \<or> I = [])"
proof -
  let ?ws = "st_workspace_id st" and ?db = "st_conn st"
  have "stream_inv lib ?ws db" using init by (simp add: stream_inv_simps)
  with steps have inv: "stream_inv lib ?ws ?db"
    by (induction rule: rtranclp_induct) (auto intro: stream_inv_step [OF law])
  have row: "stream_state_row ?ws ?db = Some s" using active active_stream_row by (simp add: stream_state_def)
  with inv have ok: "entries_ok lib s (ws_entries ?ws ?db)" "items_ok s (ws_items ?ws ?db)"
    "conflicts_ok s (ws_conflicts ?ws ?db)" by (simp_all add: stream_inv_def)
  have conf: "stream_conflicts_of ?ws (ss_stream_id s) ?db = ws_conflicts ?ws ?db"
    using ok(3) by (auto simp: stream_conflicts_of_def conflicts_ok_def intro!: filter_cong)
  have "stream_entries lib (ss_stream_id s) st = Ok (ws_entries ?ws ?db)"
    using inv by (auto simp: stream_entries_def entries_of_active [OF ok(1)] sort_key_id_if_sorted [OF entries_sorted [OF ok(1)]]
        stream_inv_def intro!: query_map_self)
  moreover have "query_map (row_to_stream_revision_item lib) StorageUnavailable (ws_items ?ws ?db) = Ok (ws_items ?ws ?db)"
    using inv by (intro query_map_self) (simp add: stream_inv_def)
  then have "stream_revision_items lib (ss_stream_id s) st = Ok (ws_items ?ws ?db)"
    by (simp add: stream_revision_items_def items_of_active [OF ok(2)] sort_key_revision [OF ok(2)])
  moreover have "stream_conflicts lib (ss_stream_id s) st =
      Ok (sort_key (\<lambda>r. conflict_text lib (sc_conflict_id r)) (ws_conflicts ?ws ?db))"
    using inv by (auto simp: stream_conflicts_def conf stream_inv_def intro!: query_map_self)
  ultimately show ?thesis
    using ok by (intro exI conjI) (auto simp: entries_ok_def items_ok_def conflicts_ok_def)
qed

definition demo_stream_begin :: WorkspaceSnapshotBeginMessage where
  "demo_stream_begin = \<lparr>sb_workspace_id = demo_ws, sb_stream_id = StreamId 3, sb_mode = Incremental, sb_from_revision = ZERO,
     sb_final_revision = WorkspaceRevision 10, sb_entry_count = 0, sb_event_count = 2, sb_conflict_count = 0\<rparr>"

definition demo_item :: StreamRevisionItemRecord where
  "demo_item = \<lparr>si_workspace_id = demo_ws, si_stream_id = StreamId 3, si_revision = WorkspaceRevision 2,
     si_item_kind = StreamRevisionItemKind.Event, si_body_json = [6], si_body_digest = replicate 32 0,
     si_event_index = Some 0, si_status = Ready\<rparr>"

definition demo_streaming :: SqliteState where
  "demo_streaming = demo_state\<lparr>st_conn := (st_conn demo_state)\<lparr>
     db_stream_state := [(stream_state_from_begin demo_stream_begin)\<lparr>ss_next_event_index := 1\<rparr>],
     db_stream_revision_items := [demo_item]\<rparr>\<rparr>"

lemmas demo_stream_simps =
  demo_stream_begin_def demo_item_def demo_streaming_def demo_state_def empty_database_def demo_values demo_lib_simps
  stream_state_from_begin_def stream_state_row_def active_stream_state_def require_stream_def query_optional_def
  row_to_stream_state_def less_WorkspaceRevision_def less_eq_WorkspaceRevision_def ZERO_def

lemma demo_streaming_steps:
  "(stream_step demo_store (st_workspace_id demo_streaming))\<^sup>*\<^sup>* (st_conn demo_state) (st_conn demo_streaming)"
proof -
  let ?db = "(st_conn demo_state)\<lparr>db_stream_state := [stream_state_from_begin demo_stream_begin]\<rparr>"
  have "begin_stream_tx demo_ws demo_stream_begin (st_conn demo_state) = Ok (stream_state_from_begin demo_stream_begin, ?db)"
    by (simp add: begin_stream_tx_def sql_insert_def snapshot_begin_validate_def demo_stream_simps)
  moreover have "event_validate (demo_event 0 2) = Ok ()"
    by (simp add: event_validate_def event_validate_states_def demo_values mutation_validate_def
        mutation_validate_paths_def mutation_validate_content_def path_state_validate_def metadata_validate_Ok_iff
        metadata_wf_def result_simps)
  then have "put_stream_event_tx demo_store demo_ws (demo_event 0 2) Ready ?db = Ok (demo_item, st_conn demo_streaming)"
    by (simp add: put_stream_event_tx_def put_stream_revision_item_tx_def canonicalize_revision_item_def canonical_json_def
        items_of_def count_u32_def latest_revision_def claim_event_index_def set_next_event_index_def sql_update_def
        sql_insert_def item_row_key_def Let_def demo_stream_simps)
  then have "stream_step demo_store demo_ws ?db (st_conn demo_streaming)"
    by (auto simp: put_stream_event_tx_def result_simps intro: stream_step.step_item)
  ultimately have "(stream_step demo_store demo_ws)\<^sup>*\<^sup>* (st_conn demo_state) (st_conn demo_streaming)"
    by (blast intro: rtranclp.rtrancl_into_rtrancl stream_step.step_begin)
  then show ?thesis by (simp add: demo_streaming_def demo_state_def)
qed

theorem stream_received_prefix_witness:
  "stream_state demo_streaming = Ok (Some ((stream_state_from_begin demo_stream_begin)\<lparr>ss_next_event_index := 1\<rparr>)) \<and>
   (\<exists>I. stream_revision_items demo_store (StreamId 3) demo_streaming = Ok I \<and> sorted_wrt (<) (map si_revision I) \<and>
      length I \<le> 2)"
proof
  show active: "stream_state demo_streaming = Ok (Some ((stream_state_from_begin demo_stream_begin)\<lparr>ss_next_event_index := 1\<rparr>))"
    by (simp add: stream_state_def demo_stream_simps)
  show "\<exists>I. stream_revision_items demo_store (StreamId 3) demo_streaming = Ok I \<and> sorted_wrt (<) (map si_revision I) \<and>
      length I \<le> 2"
    using stream_received_prefix [OF demo_store_law _ _ _ _ demo_streaming_steps active]
    by (auto simp: demo_state_def empty_database_def stream_state_from_begin_def demo_stream_begin_def)
qed

section \<open>Pages\<close>

text \<open>
  What a page holds of the rows that wait: the first ones, at most \<open>max_items\<close>, with at most \<open>max_bytes\<close>
  bytes unless the first row alone is larger and allowed; a page is put off by the byte budget exactly when
  the next row does not fit.
\<close>

definition page_of :: "('r \<Rightarrow> nat) \<Rightarrow> nat \<Rightarrow> nat \<Rightarrow> bool \<Rightarrow> 'r list \<Rightarrow> 'r BoundedPage \<Rightarrow> bool" where
  "page_of size_of max_items max_bytes oversized rows page \<longleftrightarrow>
     (\<exists>k \<le> min max_items (length rows).
        pg_items page = take k rows \<and>
        (sum_list (map size_of (take k rows)) \<le> max_bytes \<or> (oversized \<and> k = 1)) \<and>
        (if pg_deferred_by_byte_budget page
         then k < min max_items (length rows) \<and> max_bytes < sum_list (map size_of (take (Suc k) rows)) \<and>
           (0 < k \<or> \<not> oversized)
         else k = min max_items (length rows) \<or> (oversized \<and> k = 1 \<and> max_bytes < size_of (hd rows))))"

lemma page_loop_spec:
  assumes "\<forall>r\<in>set (xs @ rows). reader r = Some r \<and> size_of r < 2 ^ 64"
    and "sum_list (map size_of xs) \<le> max_bytes" "max_bytes < 2 ^ 64"
  shows "\<exists>page. page_loop size_of reader e max_bytes oversized (sum_list (map size_of xs)) xs rows = Ok page \<and>
    page_of size_of (length (xs @ rows)) max_bytes oversized (xs @ rows) page"
  using assms
proof (induction rows arbitrary: xs)
  case Nil
  then show ?case by (auto simp: page_of_def)
next
  case (Cons r rows)
  let ?n = "sum_list (map size_of xs) + size_of r"
  have read: "reader r = Some r" using Cons.prems(1) by simp
  show ?case
  proof (cases "?n \<le> max_bytes")
    case True
    then have "?n < 2 ^ 64" using Cons.prems(3) by linarith
    with True read Cons.IH [of "xs @ [r]"] Cons.prems show ?thesis by simp
  next
    case big: False
    show ?thesis
    proof (cases "xs = [] \<and> oversized")
      case True
      with big read Cons.prems show ?thesis
        by (auto simp: page_of_def intro!: exI [of _ 1])
    next
      case False
      with big Cons.prems have "page_loop size_of reader e max_bytes oversized (sum_list (map size_of xs)) xs (r # rows) =
        Ok \<lparr>pg_items = xs, pg_deferred_by_byte_budget = True\<rparr>"
        by (auto simp: Let_def)
      moreover have "page_of size_of (length (xs @ r # rows)) max_bytes oversized (xs @ r # rows)
        \<lparr>pg_items = xs, pg_deferred_by_byte_budget = True\<rparr>"
        using big False Cons.prems(2) by (auto simp: page_of_def intro!: exI [of _ "length xs"])
      ultimately show ?thesis by blast
    qed
  qed
qed

lemma bounded_page_spec:
  assumes "\<forall>r\<in>set rows. reader r = Some r \<and> size_of r < 2 ^ 64" "max_items < 2 ^ 63" "max_bytes < 2 ^ 64"
  shows "\<exists>page. bounded_page size_of reader e max_items max_bytes oversized rows = Ok page \<and>
    page_of size_of max_items max_bytes oversized rows page"
proof (cases "max_items = 0")
  case False
  obtain page where page: "page_loop size_of reader e max_bytes oversized 0 [] (take max_items rows) = Ok page"
      "page_of size_of (length (take max_items rows)) max_bytes oversized (take max_items rows) page"
    using page_loop_spec [of "[]" "take max_items rows" reader size_of max_bytes e oversized] assms
    by (auto dest: in_set_takeD)
  then have "page_of size_of max_items max_bytes oversized rows page"
  proof -
    let ?n = "min max_items (length rows)"
    have n: "length (take max_items rows) = ?n" "min ?n ?n = ?n" by simp_all
    have hd: "hd (take max_items rows) = hd rows" using False by (cases rows; cases max_items) simp_all
    have tk: "take j (take max_items rows) = take j rows" if "j \<le> ?n" for j using that by (simp add: min_absorb1)
    obtain k where k: "k \<le> ?n" "pg_items page = take k (take max_items rows)"
      "sum_list (map size_of (take k (take max_items rows))) \<le> max_bytes \<or> oversized \<and> k = 1"
      "if pg_deferred_by_byte_budget page
       then k < ?n \<and> max_bytes < sum_list (map size_of (take (Suc k) (take max_items rows))) \<and> (0 < k \<or> \<not> oversized)
       else k = ?n \<or> oversized \<and> k = 1 \<and> max_bytes < size_of (hd (take max_items rows))"
      using page(2) unfolding page_of_def n by blast
    show ?thesis
      unfolding page_of_def using k(1) k(2-4) [unfolded tk [OF k(1)] hd] tk [of "Suc k"]
      by (intro exI [of _ k]) (auto simp: min_def Suc_le_eq split: if_splits)
  qed
  with page(1) False assms(2) show ?thesis by (simp add: bounded_page_def fail_if_def)
qed (simp add: bounded_page_def page_of_def)

text \<open>The order of canonical decimal texts by length and then by text is the numeric order.\<close>

lemma list_less_append1:
  fixes xs ys :: "'a::linorder list"
  shows "length xs = length ys \<Longrightarrow> xs @ [c] < ys @ [d] \<longleftrightarrow> xs < ys \<or> (xs = ys \<and> c < d)"
  by (induction xs ys rule: list_induct2) auto

lemma digit_char_less: "a < b \<Longrightarrow> b < 10 \<Longrightarrow> digit_char a < digit_char b"
  by (simp add: less_char_def digit_char_def)

lemma show_nat_order: "m < n \<Longrightarrow> (length (show_nat m), show_nat m) < (length (show_nat n), show_nat n)"
proof (induction n arbitrary: m rule: show_nat.induct)
  case (1 n)
  have pos: "0 < length (show_nat k)" for k by simp
  show ?case
  proof (cases "n < 10")
    case True
    with 1(2) show ?thesis
      by (subst (1 2 3 4) show_nat.simps) (simp add: less_prod_def' digit_char_less)
  next
    case n: False
    show ?thesis
    proof (cases "m < 10")
      case True
      with n pos [of "n div 10"] show ?thesis
        by (subst (1 2 3 4) show_nat.simps) (simp add: less_prod_def')
    next
      case m: False
      have sm: "show_nat m = show_nat (m div 10) @ [digit_char (m mod 10)]"
        and sn: "show_nat n = show_nat (n div 10) @ [digit_char (n mod 10)]"
        using m n by (simp_all add: show_nat.simps [of m] show_nat.simps [of n])
      show ?thesis
      proof (cases "m div 10 < n div 10")
        case True
        from 1(1) [OF n True] show ?thesis by (auto simp: sm sn less_prod_def' list_less_append1)
      next
        case False
        then have "m div 10 = n div 10" using 1(2) by (simp add: div_le_mono le_antisym less_imp_le_nat not_less)
        moreover from this have "m mod 10 < n mod 10" using 1(2) by (metis add_less_cancel_left mult_div_mod_eq)
        ultimately show ?thesis by (simp add: sm sn less_prod_def' list_less_append1 digit_char_less)
      qed
    qed
  qed
qed

lemma revision_text_order_le: "revision_text_order a \<le> revision_text_order b \<longleftrightarrow> si_revision a \<le> si_revision b"
proof -
  let ?k = "\<lambda>r. unat (revision_get (si_revision r))"
  have key: "revision_text_order r = (length (show_nat (?k r)), show_nat (?k r))" for r
    by (simp add: revision_text_order_def revision_print_def show_u64_def)
  have "si_revision a \<le> si_revision b \<longleftrightarrow> ?k a \<le> ?k b"
    by (simp add: less_eq_WorkspaceRevision_def word_le_nat_alt)
  moreover have "revision_text_order a \<le> revision_text_order b \<longleftrightarrow> ?k a \<le> ?k b"
    unfolding key using show_nat_order [of "?k a" "?k b"] show_nat_order [of "?k b" "?k a"]
    by (cases "?k a" "?k b" rule: linorder_cases) auto
  ultimately show ?thesis by simp
qed

lemma sort_key_revision_text: "sort_key revision_text_order rows = sort_key si_revision rows"
proof -
  have "insort_key revision_text_order r rows = insort_key si_revision r rows" for r rows
    by (induction rows) (simp_all add: revision_text_order_le)
  then show ?thesis by (induction rows) simp_all
qed



end
