(* ===== verification/Sync_Journal.thy ===== *)
theory Sync_Journal
  imports Sync_Stream
begin

text \<open>
  The remaining tables of \<open>fns-sync-core/src/store.rs\<close> and \<open>state.rs\<close>: the cursor with the
  acknowledged and applied revisions, the apply journal that coordinates the file system with the
  database across a crash, the receipts of applied operations, and the conflicts with their
  replacement by the authoritative ones of a stream.
\<close>

section \<open>Cursor\<close>

definition cursor_row :: "WorkspaceId \<Rightarrow> database \<Rightarrow> WorkspaceCursor option" where
  "cursor_row ws db = find (\<lambda>r. wc_workspace_id r = ws) (db_workspace_cursor db)"

definition ensure_identity :: "WorkspaceId \<Rightarrow> ClientId \<Rightarrow> unit tx" where
  "ensure_identity ws client db =
     fail_if (case db_workspace_cursor db of
                [] \<Rightarrow> False
              | r # _ \<Rightarrow> wc_workspace_id r \<noteq> ws \<or> wc_client_id r \<noteq> client)
       (InvalidConfiguration ''identity_mismatch'')
    (let rows = (if list_ex (\<lambda>r. wc_workspace_id r = ws) (db_workspace_cursor db) then db_workspace_cursor db
                 else db_workspace_cursor db @
                   [\<lparr>wc_workspace_id = ws, wc_client_id = client, wc_last_ack_revision = ZERO,
                     wc_last_applied_revision = ZERO, wc_pending_ack_revision = None,
                     wc_pending_segment_ack_revision = None\<rparr>]);
         db = db\<lparr>db_workspace_cursor := rows\<rparr>
     in
     and_then (ok_or (cursor_row ws db) (CorruptState ''workspace_cursor'' ''workspace_id'')) (\<lambda>r.
     fail_if (wc_client_id r \<noteq> client) (InvalidConfiguration ''identity_mismatch'') (Ok ((), db))))"

definition cursor :: "SqliteState \<Rightarrow> (WorkspaceCursor, SyncError) result" where
  "cursor st =
     ok_or (cursor_row (st_workspace_id st) (st_conn st)) (CorruptState ''workspace_cursor'' ''workspace_id'')"

definition update_cursor :: "WorkspaceId \<Rightarrow> (WorkspaceCursor \<Rightarrow> WorkspaceCursor) \<Rightarrow> database \<Rightarrow> database" where
  "update_cursor ws f db = db\<lparr>db_workspace_cursor := sql_update (\<lambda>r. wc_workspace_id r = ws) f (db_workspace_cursor db)\<rparr>"

definition set_pending_ack_tx :: "WorkspaceId \<Rightarrow> WorkspaceRevision \<Rightarrow> unit tx" where
  "set_pending_ack_tx ws revision db =
     and_then (ok_or (cursor_row ws db) StorageUnavailable) (\<lambda>r.
     fail_if (case wc_pending_ack_revision r of None \<Rightarrow> False | Some current \<Rightarrow> revision < current)
       (StreamInvariant ''pending_ack_regression'')
    (Ok ((), update_cursor ws (\<lambda>r. r\<lparr>wc_pending_ack_revision := Some revision\<rparr>) db)))"

definition clear_pending_ack_tx :: "WorkspaceId \<Rightarrow> unit tx" where
  "clear_pending_ack_tx ws db = Ok ((), update_cursor ws (\<lambda>r. r\<lparr>wc_pending_ack_revision := None\<rparr>) db)"

definition set_pending_segment_ack_tx :: "WorkspaceId \<Rightarrow> WorkspaceRevision \<Rightarrow> unit tx" where
  "set_pending_segment_ack_tx ws revision db =
     Ok ((), update_cursor ws (\<lambda>r. r\<lparr>wc_pending_segment_ack_revision := Some revision\<rparr>) db)"

definition clear_pending_segment_ack_tx :: "WorkspaceId \<Rightarrow> unit tx" where
  "clear_pending_segment_ack_tx ws db =
     Ok ((), update_cursor ws (\<lambda>r. r\<lparr>wc_pending_segment_ack_revision := None\<rparr>) db)"

definition set_last_ack_revision_tx :: "WorkspaceId \<Rightarrow> WorkspaceRevision \<Rightarrow> unit tx" where
  "set_last_ack_revision_tx ws revision db =
     and_then (ok_or (cursor_row ws db) StorageUnavailable) (\<lambda>r.
     fail_if (revision < wc_last_ack_revision r) (StreamInvariant ''last_ack_regression'')
    (Ok ((), update_cursor ws (\<lambda>r. r\<lparr>wc_last_ack_revision := revision\<rparr>) db)))"

definition set_last_applied_revision_tx :: "WorkspaceId \<Rightarrow> WorkspaceRevision \<Rightarrow> unit tx" where
  "set_last_applied_revision_tx ws revision db =
     and_then (ok_or (cursor_row ws db) StorageUnavailable) (\<lambda>r.
     fail_if (revision < wc_last_applied_revision r) (StreamInvariant ''last_applied_regression'')
    (Ok ((), update_cursor ws (\<lambda>r. r\<lparr>wc_last_applied_revision := revision\<rparr>) db)))"

text \<open>The methods on \<open>SqliteState\<close> read the cursor first, with another error for a missing row.\<close>

definition with_cursor :: "unit tx \<Rightarrow> SqliteState \<Rightarrow> (unit, SyncError) result \<times> SqliteState" where
  "with_cursor operation st =
     (case cursor st of Err e \<Rightarrow> (Err e, st) | Ok _ \<Rightarrow> transaction operation st)"

definition set_pending_ack :: "WorkspaceRevision \<Rightarrow> SqliteState \<Rightarrow> (unit, SyncError) result \<times> SqliteState" where
  "set_pending_ack revision st = with_cursor (set_pending_ack_tx (st_workspace_id st) revision) st"

definition set_last_ack_revision :: "WorkspaceRevision \<Rightarrow> SqliteState \<Rightarrow> (unit, SyncError) result \<times> SqliteState" where
  "set_last_ack_revision revision st = with_cursor (set_last_ack_revision_tx (st_workspace_id st) revision) st"

definition set_last_applied_revision :: "WorkspaceRevision \<Rightarrow> SqliteState \<Rightarrow> (unit, SyncError) result \<times> SqliteState" where
  "set_last_applied_revision revision st = with_cursor (set_last_applied_revision_tx (st_workspace_id st) revision) st"

section \<open>Apply journal\<close>

fun apply_stage_transition_allowed :: "ApplyStage \<Rightarrow> ApplyStage \<Rightarrow> bool" where
  "apply_stage_transition_allowed Prepared to = (to \<in> {Prepared, FilesystemStarted})"
| "apply_stage_transition_allowed FilesystemStarted to = (to = FilesystemStarted)"
| "apply_stage_transition_allowed FilesystemApplied to = (to \<in> {FilesystemApplied, DatabaseCommitted})"
| "apply_stage_transition_allowed DatabaseCommitted to = (to \<in> {DatabaseCommitted, Finalized})"
| "apply_stage_transition_allowed Finalized to = (to = Finalized)"

definition journal_row :: "WorkspaceId \<Rightarrow> ApplyId \<Rightarrow> database \<Rightarrow> ApplyJournalRecord option" where
  "journal_row ws apply_id db =
     find (\<lambda>r. aj_apply_id r = apply_id \<and> aj_workspace_id r = ws) (db_apply_journal db)"

definition update_journal ::
    "WorkspaceId \<Rightarrow> ApplyId \<Rightarrow> (ApplyJournalRecord \<Rightarrow> ApplyJournalRecord) \<Rightarrow> database \<Rightarrow> database" where
  "update_journal ws apply_id f db =
     db\<lparr>db_apply_journal := sql_update (\<lambda>r. aj_apply_id r = apply_id \<and> aj_workspace_id r = ws) f (db_apply_journal db)\<rparr>"

definition put_apply_journal_tx :: "WorkspaceId \<Rightarrow> ApplyJournalRecord \<Rightarrow> unit tx" where
  "put_apply_journal_tx ws record db =
     fail_if (aj_workspace_id record \<noteq> ws) (ProtocolInvariant ''apply_workspace_mismatch'')
    (fail_if (case find (\<lambda>r. aj_apply_id r = aj_apply_id record) (db_apply_journal db) of
                None \<Rightarrow> False | Some r \<Rightarrow> aj_workspace_id r \<noteq> ws) OperationChanged
    (and_then (query_optional row_to_apply_journal StorageUnavailable (journal_row ws (aj_apply_id record) db))
       (\<lambda>existing.
     case existing of
       Some existing \<Rightarrow>
         fail_if
           (aj_workspace_id existing \<noteq> aj_workspace_id record \<or> aj_stream_id existing \<noteq> aj_stream_id record \<or>
            aj_item_kind existing \<noteq> aj_item_kind record \<or>
            aj_apply_namespace existing \<noteq> aj_apply_namespace record \<or>
            aj_operation_body_digest existing \<noteq> aj_operation_body_digest record \<or>
            aj_operation_json existing \<noteq> aj_operation_json record \<or>
            aj_filesystem_operation_json existing \<noteq> aj_filesystem_operation_json record \<or>
            aj_commit_json existing \<noteq> aj_commit_json record \<or>
            aj_preimage_json existing \<noteq> aj_preimage_json record \<or>
            aj_postimage_json existing \<noteq> aj_postimage_json record \<or>
            aj_filesystem_receipt_json existing \<noteq> aj_filesystem_receipt_json record \<or>
            aj_item_key existing \<noteq> aj_item_key record)
           OperationChanged
        (fail_if (\<not> apply_stage_transition_allowed (aj_stage existing) (aj_stage record))
           (ProtocolInvariant ''apply_stage_regression'')
        (Ok ((), update_journal ws (aj_apply_id record) (\<lambda>r. r\<lparr>aj_stage := aj_stage record\<rparr>) db)))
     | None \<Rightarrow>
         fail_if (list_ex (\<lambda>r. aj_workspace_id r = aj_workspace_id record \<and> aj_stream_id r = aj_stream_id record \<and>
                              aj_item_kind r = aj_item_kind record \<and> aj_item_key r = aj_item_key record)
                    (db_apply_journal db)) OperationChanged
        (and_then (sql_insert journal_clash record (db_apply_journal db)) (\<lambda>rows.
         Ok ((), db\<lparr>db_apply_journal := rows\<rparr>))))))"

definition put_apply_journal :: "ApplyJournalRecord \<Rightarrow> SqliteState \<Rightarrow> (unit, SyncError) result \<times> SqliteState" where
  "put_apply_journal record st = transaction (put_apply_journal_tx (st_workspace_id st) record) st"

definition apply_journal :: "ApplyId \<Rightarrow> SqliteState \<Rightarrow> (ApplyJournalRecord option, SyncError) result" where
  "apply_journal apply_id st =
     query_optional row_to_apply_journal StorageUnavailable (journal_row (st_workspace_id st) apply_id (st_conn st))"

fun apply_id_text :: "store_lib \<Rightarrow> ApplyId \<Rightarrow> string" where
  "apply_id_text lib (ApplyId u) = uuid_to_string (lib_uuid lib) u"

definition apply_journals :: "store_lib \<Rightarrow> SqliteState \<Rightarrow> (ApplyJournalRecord list, SyncError) result" where
  "apply_journals lib st =
     query_map row_to_apply_journal StorageUnavailable
       (sort_key (\<lambda>r. apply_id_text lib (aj_apply_id r))
         (filter (\<lambda>r. aj_workspace_id r = st_workspace_id st) (db_apply_journal (st_conn st))))"

definition set_apply_filesystem_applied_tx :: "WorkspaceId \<Rightarrow> ApplyId \<Rightarrow> u8 list \<Rightarrow> unit tx" where
  "set_apply_filesystem_applied_tx ws apply_id receipt_json db =
     and_then (ok_or (journal_row ws apply_id db) (ProtocolInvariant ''apply_journal_not_found'')) (\<lambda>current.
     if aj_stage current = FilesystemApplied then
       (if aj_filesystem_receipt_json current = Some receipt_json then Ok ((), db) else Err OperationChanged)
     else
       fail_if (aj_stage current \<noteq> FilesystemStarted) (ProtocolInvariant ''apply_stage_regression'')
      (Ok ((), db\<lparr>db_apply_journal := sql_update
         (\<lambda>r. aj_apply_id r = apply_id \<and> aj_workspace_id r = ws \<and> aj_stage r = FilesystemStarted)
         (\<lambda>r. r\<lparr>aj_filesystem_receipt_json := Some receipt_json, aj_stage := FilesystemApplied\<rparr>)
         (db_apply_journal db)\<rparr>)))"

definition set_apply_filesystem_applied ::
    "ApplyId \<Rightarrow> u8 list \<Rightarrow> SqliteState \<Rightarrow> (unit, SyncError) result \<times> SqliteState" where
  "set_apply_filesystem_applied apply_id receipt_json st =
     transaction (set_apply_filesystem_applied_tx (st_workspace_id st) apply_id receipt_json) st"

text \<open>The row found is the row updated, so the final check on the number of changed rows never fails.\<close>

definition set_apply_stage_tx :: "WorkspaceId \<Rightarrow> ApplyId \<Rightarrow> ApplyStage \<Rightarrow> unit tx" where
  "set_apply_stage_tx ws apply_id stage db =
     and_then (ok_or (journal_row ws apply_id db) (ProtocolInvariant ''apply_journal_not_found'')) (\<lambda>current.
     fail_if (stage \<in> {DatabaseCommitted, Finalized} \<and> aj_filesystem_receipt_json current = None)
       (ProtocolInvariant ''apply_receipt_missing'')
    (fail_if (\<not> apply_stage_transition_allowed (aj_stage current) stage) (ProtocolInvariant ''apply_stage_regression'')
    (Ok ((), update_journal ws apply_id (\<lambda>r. r\<lparr>aj_stage := stage\<rparr>) db))))"

definition set_apply_stage :: "ApplyId \<Rightarrow> ApplyStage \<Rightarrow> SqliteState \<Rightarrow> (unit, SyncError) result \<times> SqliteState" where
  "set_apply_stage apply_id stage st = transaction (set_apply_stage_tx (st_workspace_id st) apply_id stage) st"

definition remove_apply_journal_tx :: "WorkspaceId \<Rightarrow> ApplyId \<Rightarrow> unit tx" where
  "remove_apply_journal_tx ws apply_id db =
     Ok ((), db\<lparr>db_apply_journal :=
       sql_delete (\<lambda>r. aj_apply_id r = apply_id \<and> aj_workspace_id r = ws) (db_apply_journal db)\<rparr>)"

definition remove_apply_journal :: "ApplyId \<Rightarrow> SqliteState \<Rightarrow> (unit, SyncError) result \<times> SqliteState" where
  "remove_apply_journal apply_id st = transaction (remove_apply_journal_tx (st_workspace_id st) apply_id) st"

section \<open>Receipts of applied operations\<close>

record AppliedOperationWrite =
  aw_origin_client_id :: ClientId
  aw_operation_id :: OperationId
  aw_revision :: WorkspaceRevision
  aw_body_digest :: "u8 list"
  aw_receipt_kind :: AppliedOperationReceiptKind
  aw_mutation_json :: "u8 list option"
  aw_legacy_body_digest :: "u8 list option"

definition validate_applied_operation_write ::
    "store_lib \<Rightarrow> ClientId \<Rightarrow> OperationId \<Rightarrow> AppliedOperationReceiptKind \<Rightarrow> u8 list option \<Rightarrow> (unit, SyncError) result" where
  "validate_applied_operation_write lib client op receipt_kind mutation_json =
     (case receipt_kind of
        Legacy \<Rightarrow> Err (InvalidConfiguration ''legacy_receipt_write_forbidden'')
      | ConflictResolution \<Rightarrow>
          fail_if (mutation_json \<noteq> None) (InvalidConfiguration ''conflict_receipt_has_mutation'') (Ok ())
      | MutationResult \<Rightarrow>
          and_then (ok_or mutation_json (InvalidConfiguration ''mutation_receipt_missing_mutation'')) (\<lambda>json.
          and_then (ok_or (from_slice (lib_mutation lib) json)
            (InvalidConfiguration ''mutation_receipt_invalid_mutation'')) (\<lambda>m.
          and_then (map_err (\<lambda>_. InvalidConfiguration ''mutation_receipt_invalid_mutation'') (mutation_validate m)) (\<lambda>_.
          fail_if (wm_client_id m \<noteq> client \<or> wm_operation_id m \<noteq> op)
            (InvalidConfiguration ''mutation_receipt_identity_mismatch'')
         (and_then (canonical_json (lib_mutation lib) m) (\<lambda>canonical.
          fail_if (canonical \<noteq> json) (InvalidConfiguration ''mutation_receipt_not_canonical'') (Ok ())))))))"

definition applied_row :: "ClientId \<Rightarrow> OperationId \<Rightarrow> database \<Rightarrow> AppliedOperationRecord option" where
  "applied_row client op db = find (\<lambda>r. applied_key r = (client, op)) (db_applied_operations db)"

definition record_applied_operation_tx :: "store_lib \<Rightarrow> AppliedOperationWrite \<Rightarrow> unit tx" where
  "record_applied_operation_tx lib w db =
     and_then (validate_applied_operation_write lib (aw_origin_client_id w) (aw_operation_id w) (aw_receipt_kind w)
       (aw_mutation_json w)) (\<lambda>_.
     and_then (query_optional row_to_applied_operation StorageUnavailable
       (applied_row (aw_origin_client_id w) (aw_operation_id w) db)) (\<lambda>existing.
     case existing of
       Some existing \<Rightarrow>
         if ao_revision existing = aw_revision w \<and> ao_body_digest existing = aw_body_digest w \<and>
            ao_receipt_kind existing = aw_receipt_kind w \<and> ao_mutation_json existing = aw_mutation_json w
         then Ok ((), db)
         else if ao_receipt_kind existing = Legacy \<and> ao_revision existing = aw_revision w \<and>
                 aw_legacy_body_digest w = Some (ao_body_digest existing)
         then
           (let hit = (\<lambda>r. applied_key r = (aw_origin_client_id w, aw_operation_id w) \<and>
                           ao_revision r = aw_revision w \<and> ao_receipt_kind r = Legacy \<and>
                           ao_body_digest r = ao_body_digest existing)
            in fail_if (length (filter hit (db_applied_operations db)) \<noteq> 1) OperationChanged
              (Ok ((), db\<lparr>db_applied_operations := sql_update hit
                 (\<lambda>r. r\<lparr>ao_body_digest := aw_body_digest w, ao_receipt_kind := aw_receipt_kind w,
                        ao_mutation_json := aw_mutation_json w\<rparr>) (db_applied_operations db)\<rparr>)))
         else Err OperationChanged
     | None \<Rightarrow>
         and_then (sql_insert (\<lambda>a b. applied_key a = applied_key b)
           \<lparr>ao_origin_client_id = aw_origin_client_id w, ao_operation_id = aw_operation_id w,
            ao_revision = aw_revision w, ao_body_digest = aw_body_digest w,
            ao_receipt_kind = aw_receipt_kind w, ao_mutation_json = aw_mutation_json w\<rparr>
           (db_applied_operations db)) (\<lambda>rows.
         Ok ((), db\<lparr>db_applied_operations := rows\<rparr>))))"

definition record_applied_operation ::
    "store_lib \<Rightarrow> AppliedOperationWrite \<Rightarrow> SqliteState \<Rightarrow> (unit, SyncError) result \<times> SqliteState" where
  "record_applied_operation lib w st =
     transaction (record_applied_operation_tx lib (w\<lparr>aw_legacy_body_digest := None\<rparr>)) st"

definition applied_operation ::
    "ClientId \<Rightarrow> OperationId \<Rightarrow> SqliteState \<Rightarrow> (AppliedOperationRecord option, SyncError) result" where
  "applied_operation client op st =
     query_optional row_to_applied_operation (CorruptState ''applied_operations'' ''receipt'')
       (applied_row client op (st_conn st))"

fun client_text :: "store_lib \<Rightarrow> ClientId \<Rightarrow> string" where
  "client_text lib (ClientId u) = uuid_to_string (lib_uuid lib) u"

definition applied_order :: "store_lib \<Rightarrow> AppliedOperationRecord \<Rightarrow> string \<times> string" where
  "applied_order lib r = (client_text lib (ao_origin_client_id r), operation_text lib (ao_operation_id r))"

definition applied_operations :: "store_lib \<Rightarrow> SqliteState \<Rightarrow> (AppliedOperationRecord list, SyncError) result" where
  "applied_operations lib st =
     query_map row_to_applied_operation (CorruptState ''applied_operations'' ''receipt'')
       (sort_key (applied_order lib) (db_applied_operations (st_conn st)))"

definition mutation_receipts_at_revision ::
    "store_lib \<Rightarrow> WorkspaceRevision \<Rightarrow> SqliteState \<Rightarrow> (AppliedOperationRecord list, SyncError) result" where
  "mutation_receipts_at_revision lib revision st =
     query_map row_to_applied_operation (CorruptState ''applied_operations'' ''receipt'')
       (take 2 (sort_key (applied_order lib)
         (filter (\<lambda>r. ao_revision r = revision \<and> ao_receipt_kind r = MutationResult)
           (db_applied_operations (st_conn st)))))"

definition remove_provisional_mutation_acceptance_tx :: "ClientId \<Rightarrow> OperationId \<Rightarrow> unit tx" where
  "remove_provisional_mutation_acceptance_tx client op db =
     Ok ((), db\<lparr>db_provisional := sql_delete (\<lambda>r. provisional_key r = (client, op)) (db_provisional db)\<rparr>)"

definition record_provisional_mutation_acceptance_tx ::
    "store_lib \<Rightarrow> WorkspaceMutationAcceptedMessage \<Rightarrow> unit tx" where
  "record_provisional_mutation_acceptance_tx lib accepted db =
     and_then (query_optional row_to_applied_operation (CorruptState ''applied_operations'' ''receipt'')
       (applied_row (ma_client_id accepted) (ma_operation_id accepted) db)) (\<lambda>receipt.
     and_then (ok_or receipt (ProtocolInvariant ''provisional_receipt_missing'')) (\<lambda>receipt.
     fail_if (ao_receipt_kind receipt \<noteq> Legacy \<or> ao_revision receipt \<noteq> ma_revision accepted) OperationChanged
    (and_then (canonical_json (lib_accepted lib) accepted) (\<lambda>accepted_json.
     case find (\<lambda>r. provisional_key r = (ma_client_id accepted, ma_operation_id accepted)) (db_provisional db) of
       Some existing \<Rightarrow> if pv_accepted_json existing = accepted_json then Ok ((), db) else Err OperationChanged
     | None \<Rightarrow>
         and_then (sql_insert (\<lambda>a b. provisional_key a = provisional_key b)
           \<lparr>pv_origin_client_id = ma_client_id accepted, pv_operation_id = ma_operation_id accepted,
            pv_workspace_id = ma_workspace_id accepted, pv_revision = ma_revision accepted,
            pv_accepted_json = accepted_json, pv_accepted_digest = body_digest lib accepted_json\<rparr>
           (db_provisional db)) (\<lambda>rows.
         Ok ((), db\<lparr>db_provisional := rows\<rparr>))))))"

definition provisional_mutation_acceptance ::
    "store_lib \<Rightarrow> ClientId \<Rightarrow> OperationId \<Rightarrow> SqliteState \<Rightarrow> (WorkspaceMutationAcceptedMessage option, SyncError) result" where
  "provisional_mutation_acceptance lib client op st =
     query_optional (row_to_provisional_mutation_acceptance lib)
       (CorruptState ''provisional_mutation_acceptances'' ''accepted_json'')
       (find (\<lambda>r. provisional_key r = (client, op)) (db_provisional (st_conn st)))"

definition provisional_mutation_acceptances ::
    "store_lib \<Rightarrow> WorkspaceRevision \<Rightarrow> SqliteState \<Rightarrow> (WorkspaceMutationAcceptedMessage list, SyncError) result" where
  "provisional_mutation_acceptances lib revision st =
     query_map (row_to_provisional_mutation_acceptance lib)
       (CorruptState ''provisional_mutation_acceptances'' ''accepted_json'')
       (take 2 (sort_key (\<lambda>r. (client_text lib (pv_origin_client_id r), operation_text lib (pv_operation_id r)))
         (filter (\<lambda>r. pv_revision r = revision) (db_provisional (st_conn st)))))"

text \<open>\<open>StateTransaction::record_mutation_applied_operation\<close> and \<open>record_conflict_applied_operation\<close>.\<close>

definition record_mutation_applied_operation ::
    "store_lib \<Rightarrow> ClientId \<Rightarrow> OperationId \<Rightarrow> WorkspaceRevision \<Rightarrow> u8 list \<Rightarrow> WorkspaceMutation \<Rightarrow> u8 list option \<Rightarrow> unit tx" where
  "record_mutation_applied_operation lib client op revision result_digest m legacy db =
     and_then (canonical_json (lib_mutation lib) m) (\<lambda>mutation_json.
     and_then (record_applied_operation_tx lib
       \<lparr>aw_origin_client_id = client, aw_operation_id = op, aw_revision = revision, aw_body_digest = result_digest,
        aw_receipt_kind = MutationResult, aw_mutation_json = Some mutation_json, aw_legacy_body_digest = legacy\<rparr> db)
       (\<lambda>(_, db). remove_provisional_mutation_acceptance_tx client op db))"

definition record_conflict_applied_operation ::
    "store_lib \<Rightarrow> ClientId \<Rightarrow> OperationId \<Rightarrow> WorkspaceRevision \<Rightarrow> u8 list \<Rightarrow> u8 list option \<Rightarrow> unit tx" where
  "record_conflict_applied_operation lib client op revision result_digest legacy =
     record_applied_operation_tx lib
       \<lparr>aw_origin_client_id = client, aw_operation_id = op, aw_revision = revision, aw_body_digest = result_digest,
        aw_receipt_kind = ConflictResolution, aw_mutation_json = None, aw_legacy_body_digest = legacy\<rparr>"

section \<open>Conflicts\<close>

definition put_conflict_tx :: "store_lib \<Rightarrow> WorkspaceId \<Rightarrow> ConflictRecord \<Rightarrow> unit tx" where
  "put_conflict_tx lib ws c db =
     fail_if (cf_workspace_id c \<noteq> ws) (ProtocolInvariant ''conflict_workspace_mismatch'')
    (and_then (ok_or (from_slice (lib_created lib) (cf_created_json c)) (CorruptState ''conflicts'' ''created_json''))
       (\<lambda>created.
     and_then (map_err (\<lambda>_. ProtocolInvariant ''invalid_conflict'') (conflict_created_validate created)) (\<lambda>_.
     fail_if
       (cc_workspace_id created \<noteq> cf_workspace_id c \<or> cc_conflict_id created \<noteq> cf_conflict_id c \<or>
        cc_conflict_revision created \<noteq> cf_conflict_revision c)
       (ProtocolInvariant ''conflict_identity_mismatch'')
    (fail_if (case cf_candidate_hash c of None \<Rightarrow> False | Some h \<Rightarrow> \<not> is_ok (content_hash_parse h))
       (CorruptState ''conflicts'' ''candidate_hash'')
    (and_then
       (case cf_resolution_digest c of
          None \<Rightarrow> Ok ()
        | Some d \<Rightarrow>
            (case cf_resolution_json c of
               Some json \<Rightarrow> fail_if (d \<noteq> body_digest lib json) OperationChanged (Ok ())
             | None \<Rightarrow> Err (CorruptState ''conflicts'' ''resolution_digest''))) (\<lambda>_.
     Ok ((), db\<lparr>db_conflicts := sql_upsert cf_conflict_id c (db_conflicts db)\<rparr>)))))))"

definition put_conflict :: "store_lib \<Rightarrow> ConflictRecord \<Rightarrow> SqliteState \<Rightarrow> (unit, SyncError) result \<times> SqliteState" where
  "put_conflict lib c st = transaction (put_conflict_tx lib (st_workspace_id st) c) st"

definition record_conflict ::
    "store_lib \<Rightarrow> WorkspaceConflictCreatedMessage \<Rightarrow> ConflictStatus \<Rightarrow> SqliteState \<Rightarrow>
     (ConflictRecord, SyncError) result \<times> SqliteState" where
  "record_conflict lib message status st =
     transaction (\<lambda>db.
       and_then (map_err (\<lambda>_. ProtocolInvariant ''invalid_conflict'') (conflict_created_validate message)) (\<lambda>_.
       fail_if (cc_workspace_id message \<noteq> st_workspace_id st) (ProtocolInvariant ''conflict_workspace_mismatch'')
      (and_then (canonical_json (lib_created lib) message) (\<lambda>created_json.
       let record = \<lparr>cf_conflict_id = cc_conflict_id message, cf_workspace_id = cc_workspace_id message,
                     cf_conflict_revision = cc_conflict_revision message, cf_created_json = created_json,
                     cf_status = status, cf_candidate_hash = None, cf_resolution_json = None,
                     cf_resolution_digest = None\<rparr>
       in and_then (put_conflict_tx lib (st_workspace_id st) record db) (\<lambda>(_, db). Ok (record, db)))))) st"

definition conflict :: "store_lib \<Rightarrow> ConflictId \<Rightarrow> SqliteState \<Rightarrow> (ConflictRecord option, SyncError) result" where
  "conflict lib conflict_id st =
     query_optional (row_to_conflict lib) (CorruptState ''conflicts'' ''row'')
       (find (\<lambda>r. cf_conflict_id r = conflict_id) (db_conflicts (st_conn st)))"

definition conflicts :: "store_lib \<Rightarrow> SqliteState \<Rightarrow> (ConflictRecord list, SyncError) result" where
  "conflicts lib st =
     query_map (row_to_conflict lib) (CorruptState ''conflicts'' ''row'')
       (sort_key (\<lambda>r. conflict_text lib (cf_conflict_id r))
         (filter (\<lambda>r. cf_workspace_id r = st_workspace_id st) (db_conflicts (st_conn st))))"

definition set_conflict_status_tx :: "WorkspaceId \<Rightarrow> ConflictId \<Rightarrow> ConflictStatus \<Rightarrow> unit tx" where
  "set_conflict_status_tx ws conflict_id status db =
     Ok ((), db\<lparr>db_conflicts := sql_update (\<lambda>r. cf_conflict_id r = conflict_id \<and> cf_workspace_id r = ws)
       (\<lambda>r. r\<lparr>cf_status := status\<rparr>) (db_conflicts db)\<rparr>)"

definition set_conflict_status ::
    "ConflictId \<Rightarrow> ConflictStatus \<Rightarrow> SqliteState \<Rightarrow> (unit, SyncError) result \<times> SqliteState" where
  "set_conflict_status conflict_id status st =
     transaction (set_conflict_status_tx (st_workspace_id st) conflict_id status) st"

definition remove_conflict_tx :: "WorkspaceId \<Rightarrow> ConflictId \<Rightarrow> unit tx" where
  "remove_conflict_tx ws conflict_id db =
     Ok ((), db\<lparr>db_conflicts :=
       sql_delete (\<lambda>r. cf_conflict_id r = conflict_id \<and> cf_workspace_id r = ws) (db_conflicts db)\<rparr>)"

text \<open>
  The six statements of \<open>replace_authoritative_conflicts_tx\<close>. A conflict is stale when the staged one
  has another revision or the stored one has to be refreshed.
\<close>

definition staged_for :: "StreamConflictRecord list \<Rightarrow> ConflictRecord \<Rightarrow> StreamConflictRecord option" where
  "staged_for staged c = find (\<lambda>s. sc_conflict_id s = cf_conflict_id c) staged"

definition stale :: "StreamConflictRecord \<Rightarrow> ConflictRecord \<Rightarrow> bool" where
  "stale s c \<longleftrightarrow> cf_conflict_revision c \<noteq> sc_conflict_revision s \<or> cf_status c = RefreshRequired"

definition changed_same_generation :: "WorkspaceId \<Rightarrow> StreamConflictRecord list \<Rightarrow> ConflictRecord list \<Rightarrow> bool" where
  "changed_same_generation ws staged rows \<longleftrightarrow>
     list_ex (\<lambda>c. cf_workspace_id c = ws \<and>
       list_ex (\<lambda>s. sc_conflict_id s = cf_conflict_id c \<and> cf_conflict_revision c = sc_conflict_revision s \<and>
                    cf_created_json c \<noteq> sc_created_json s) staged) rows"

definition drop_stale_resolutions ::
    "WorkspaceId \<Rightarrow> StreamConflictRecord list \<Rightarrow> ConflictRecord list \<Rightarrow> OutboxRecord list \<Rightarrow> OutboxRecord list" where
  "drop_stale_resolutions ws staged rows waiting =
     sql_delete (\<lambda>o'. ob_workspace_id o' = ws \<and>
       list_ex (\<lambda>c. cf_workspace_id c = ws \<and>
         list_ex (\<lambda>s. sc_conflict_id s = cf_conflict_id c \<and> stale s c) staged \<and>
         cf_resolution_json c = Some (ob_body_json o') \<and> cf_resolution_digest c = Some (ob_body_digest o')) rows) waiting"

definition refresh_conflict :: "WorkspaceId \<Rightarrow> StreamConflictRecord list \<Rightarrow> ConflictRecord \<Rightarrow> ConflictRecord" where
  "refresh_conflict ws staged c =
     (case staged_for staged c of
        None \<Rightarrow> c
      | Some s \<Rightarrow>
          if cf_workspace_id c \<noteq> ws then c
          else c\<lparr>cf_conflict_revision := sc_conflict_revision s, cf_created_json := sc_created_json s,
                 cf_status := (if stale s c \<or> cf_resolution_json c = None then Manual else Resolving),
                 cf_candidate_hash := (if stale s c then None else cf_candidate_hash c),
                 cf_resolution_json := (if stale s c then None else cf_resolution_json c),
                 cf_resolution_digest := (if stale s c then None else cf_resolution_digest c)\<rparr>)"

definition unstaged :: "WorkspaceId \<Rightarrow> StreamConflictRecord list \<Rightarrow> ConflictRecord \<Rightarrow> bool" where
  "unstaged ws staged c \<longleftrightarrow> cf_workspace_id c = ws \<and> staged_for staged c = None"

definition staged_conflict :: "StreamConflictRecord \<Rightarrow> ConflictRecord" where
  "staged_conflict s =
     \<lparr>cf_conflict_id = sc_conflict_id s, cf_workspace_id = sc_workspace_id s,
      cf_conflict_revision = sc_conflict_revision s, cf_created_json = sc_created_json s, cf_status = Manual,
      cf_candidate_hash = None, cf_resolution_json = None, cf_resolution_digest = None\<rparr>"

fun insert_conflicts :: "StreamConflictRecord list \<Rightarrow> ConflictRecord list \<Rightarrow> (ConflictRecord list, SyncError) result" where
  "insert_conflicts [] rows = Ok rows"
| "insert_conflicts (s # staged) rows =
     and_then (sql_insert (\<lambda>a b. cf_conflict_id a = cf_conflict_id b) (staged_conflict s) rows)
       (insert_conflicts staged)"

definition replace_authoritative_conflicts_tx :: "WorkspaceId \<Rightarrow> StreamId \<Rightarrow> unit tx" where
  "replace_authoritative_conflicts_tx ws stream_id db =
     (let staged = stream_conflicts_of ws stream_id db in
      fail_if (changed_same_generation ws staged (db_conflicts db)) OperationChanged
     (let outbox = drop_stale_resolutions ws staged (db_conflicts db) (db_outbox db);
          refreshed = map (refresh_conflict ws staged) (db_conflicts db);
          marked = sql_update (\<lambda>c. unstaged ws staged c \<and> cf_resolution_json c \<noteq> None)
                     (\<lambda>c. c\<lparr>cf_status := RefreshRequired\<rparr>) refreshed;
          pruned = sql_delete (\<lambda>c. unstaged ws staged c \<and> cf_resolution_json c = None) marked;
          new = filter (\<lambda>s. \<not> list_ex (\<lambda>c. cf_workspace_id c = ws \<and> cf_conflict_id c = sc_conflict_id s) pruned) staged
      in and_then (insert_conflicts new pruned) (\<lambda>rows.
         Ok ((), db\<lparr>db_outbox := outbox, db_conflicts := rows\<rparr>))))"

definition replace_authoritative_conflicts ::
    "StreamId \<Rightarrow> SqliteState \<Rightarrow> (unit, SyncError) result \<times> SqliteState" where
  "replace_authoritative_conflicts stream_id st =
     transaction (replace_authoritative_conflicts_tx (st_workspace_id st) stream_id) st"

end
