(* ===== verification/Sync_Durable.thy ===== *)
theory Sync_Durable
  imports Sync_Journal Sync_Example
begin

text \<open>
  What the store promises across a crash: the apply journal only moves forward and never loses the
  receipt of a file system change, and a receipt of an operation is written once. The cursor operations
  never move the cursor back; its whole life, with the repair of a legacy gap, is in \<open>Engine_Cursor\<close>.
\<close>

section \<open>Stages that only move forward\<close>

locale stage_machine =
  fixes next_stage :: "'s \<Rightarrow> 's \<Rightarrow> bool" and rank :: "'s \<Rightarrow> nat"
  assumes stay: "next_stage a a"
    and forward: "next_stage a b \<Longrightarrow> a \<noteq> b \<Longrightarrow> rank a < rank b"
begin

lemma rank_mono: "next_stage a b \<Longrightarrow> rank a \<le> rank b"
  using forward by (cases "a = b") (auto simp: less_imp_le)

lemma chain_rank: "next_stage\<^sup>*\<^sup>* a b \<Longrightarrow> a = b \<or> rank a < rank b"
proof (induction rule: rtranclp_induct)
  case (step b c)
  then show ?case using forward [of b c] by (cases "b = c") auto
qed simp

lemma no_return: "next_stage\<^sup>*\<^sup>* a b \<Longrightarrow> next_stage\<^sup>*\<^sup>* b a \<Longrightarrow> a = b"
  using chain_rank [of a b] chain_rank [of b a] by auto

end

text \<open>
  A journal entry also moves from \<open>FilesystemStarted\<close> to \<open>FilesystemApplied\<close>, but only together with
  its receipt (\<open>set_apply_filesystem_applied\<close>).
\<close>

definition apply_stage_next :: "ApplyStage \<Rightarrow> ApplyStage \<Rightarrow> bool" where
  "apply_stage_next a b \<longleftrightarrow> apply_stage_transition_allowed a b \<or> a = FilesystemStarted \<and> b = FilesystemApplied"

fun apply_rank :: "ApplyStage \<Rightarrow> nat" where
  "apply_rank Prepared = 0"
| "apply_rank FilesystemStarted = 1"
| "apply_rank FilesystemApplied = 2"
| "apply_rank DatabaseCommitted = 3"
| "apply_rank Finalized = 4"

interpretation apply_stages: stage_machine apply_stage_next apply_rank
proof
  show "apply_stage_next a a" for a by (cases a) (simp_all add: apply_stage_next_def)
  show "apply_stage_next a b \<Longrightarrow> a \<noteq> b \<Longrightarrow> apply_rank a < apply_rank b" for a b
    by (cases a) (auto simp: apply_stage_next_def)
qed

fun status_rank :: "StreamItemStatus \<Rightarrow> nat" where
  "status_rank StreamItemStatus.Received = 0"
| "status_rank WaitingBlob = 1"
| "status_rank Ready = 2"
| "status_rank Applied = 3"
| "status_rank Preserved = 3"

interpretation stream_statuses: stage_machine stream_status_transition_allowed status_rank
proof
  show "stream_status_transition_allowed a a" for a by (cases a) simp_all
  show "stream_status_transition_allowed a b \<Longrightarrow> a \<noteq> b \<Longrightarrow> status_rank a < status_rank b" for a b
    by (cases a; cases b) auto
qed

section \<open>Apply journal\<close>

text \<open>
  The receipt of the file system change is there exactly from the stage \<open>FilesystemApplied\<close> on. The
  engine writes new entries as \<open>Prepared\<close> without a receipt (\<open>journal_record_consistent\<close> in \<open>Engine_Cursor\<close>);
  the store itself does not check this when a row is inserted, so it is a condition of the step.
\<close>

definition receipt_consistent :: "ApplyJournalRecord \<Rightarrow> bool" where
  "receipt_consistent r \<longleftrightarrow>
     (aj_filesystem_receipt_json r \<noteq> None \<longleftrightarrow> aj_stage r \<in> {FilesystemApplied, DatabaseCommitted, Finalized})"

inductive journal_step :: "WorkspaceId \<Rightarrow> database \<Rightarrow> database \<Rightarrow> bool" for ws where
  step_put: "put_apply_journal_tx ws record db = Ok (u, db') \<Longrightarrow> receipt_consistent record \<Longrightarrow> journal_step ws db db'"
| step_applied: "set_apply_filesystem_applied_tx ws apply_id receipt db = Ok (u, db') \<Longrightarrow> journal_step ws db db'"
| step_stage: "set_apply_stage_tx ws apply_id stage db = Ok (u, db') \<Longrightarrow> journal_step ws db db'"

definition journal_inv :: "database \<Rightarrow> bool" where
  "journal_inv db \<longleftrightarrow>
     keyed aj_apply_id (db_apply_journal db) \<and>
     keyed (\<lambda>r. (aj_workspace_id r, aj_stream_id r, aj_item_kind r, aj_item_key r)) (db_apply_journal db) \<and>
     (\<forall>r\<in>set (db_apply_journal db). receipt_consistent r)"

text \<open>\<open>journal_later r r'\<close>: \<open>r'\<close> is \<open>r\<close> at a later moment; the other fields never change.\<close>

definition journal_body :: "ApplyJournalRecord \<Rightarrow> ApplyJournalRecord" where
  "journal_body r = r\<lparr>aj_stage := Prepared, aj_filesystem_receipt_json := None\<rparr>"

definition journal_later :: "ApplyJournalRecord \<Rightarrow> ApplyJournalRecord \<Rightarrow> bool" where
  "journal_later r r' \<longleftrightarrow>
     apply_stage_next\<^sup>*\<^sup>* (aj_stage r) (aj_stage r') \<and>
     (aj_filesystem_receipt_json r \<noteq> None \<longrightarrow> aj_filesystem_receipt_json r' = aj_filesystem_receipt_json r) \<and>
     journal_body r' = journal_body r"

lemma journal_later_refl [simp]: "journal_later r r"
  by (simp add: journal_later_def)

lemma journal_later_trans: "journal_later a b \<Longrightarrow> journal_later b c \<Longrightarrow> journal_later a c"
  by (auto simp: journal_later_def)

lemma journal_later_key:
  assumes "journal_later r r'"
  shows "aj_apply_id r' = aj_apply_id r" "aj_workspace_id r' = aj_workspace_id r"
    "aj_stream_id r' = aj_stream_id r" "aj_item_kind r' = aj_item_kind r" "aj_item_key r' = aj_item_key r"
  using assms by (cases r; cases r'; simp add: journal_later_def journal_body_def)+

text \<open>Every step either rewrites rows to later versions of themselves or adds a row that clashes with none.\<close>

definition journal_updated :: "database \<Rightarrow> database \<Rightarrow> bool" where
  "journal_updated db db' \<longleftrightarrow>
     (\<exists>p f. db_apply_journal db' = sql_update p f (db_apply_journal db) \<and>
       (\<forall>r\<in>set (db_apply_journal db). p r \<longrightarrow> journal_later r (f r) \<and> receipt_consistent (f r)))"

definition journal_extended :: "database \<Rightarrow> database \<Rightarrow> bool" where
  "journal_extended db db' \<longleftrightarrow>
     (\<exists>record. db_apply_journal db' = db_apply_journal db @ [record] \<and> receipt_consistent record \<and>
       (\<forall>x\<in>set (db_apply_journal db). \<not> journal_clash record x))"

lemma journal_updated_refl: "journal_updated db db"
  unfolding journal_updated_def by (intro exI [of _ "\<lambda>_. False"]) (simp add: sql_update_def)

lemma journal_row_unique:
  assumes "journal_inv db" "journal_row ws apply_id db = Some current"
    and "r \<in> set (db_apply_journal db)" "aj_apply_id r = apply_id"
  shows "r = current"
proof -
  have "current \<in> set (db_apply_journal db) \<and> aj_apply_id current = apply_id"
    using find_SomeD [OF assms(2) [unfolded journal_row_def]] by simp
  with assms show ?thesis by (intro keyed_unique [of aj_apply_id "db_apply_journal db"]) (simp_all add: journal_inv_def)
qed

lemma update_journal_updated:
  assumes inv: "journal_inv db" and row: "journal_row ws apply_id db = Some current"
    and later: "journal_later current (f current)" "receipt_consistent (f current)"
  shows "journal_updated db (update_journal ws apply_id f db)"
proof -
  have "journal_later r (f r) \<and> receipt_consistent (f r)"
    if "r \<in> set (db_apply_journal db)" "aj_apply_id r = apply_id" for r
    using later by (simp add: journal_row_unique [OF inv row that])
  then show ?thesis
    unfolding journal_updated_def update_journal_def
    by (intro exI [of _ "\<lambda>r. aj_apply_id r = apply_id \<and> aj_workspace_id r = ws"] exI [of _ f]) simp
qed

lemma stage_later:
  "apply_stage_transition_allowed (aj_stage r) stage \<Longrightarrow> journal_later r (r\<lparr>aj_stage := stage\<rparr>)"
  by (auto simp: journal_later_def journal_body_def apply_stage_next_def)

lemma stage_consistent:
  assumes "receipt_consistent r" "apply_stage_transition_allowed (aj_stage r) stage"
  shows "receipt_consistent (r\<lparr>aj_stage := stage\<rparr>)"
  using assms by (cases "aj_stage r") (auto simp: receipt_consistent_def)

lemma journal_row_consistent: "journal_inv db \<Longrightarrow> journal_row ws apply_id db = Some r \<Longrightarrow> receipt_consistent r"
  by (auto simp: journal_inv_def journal_row_def dest: find_SomeD)

lemma put_journal_rows:
  assumes inv: "journal_inv db" and cons: "receipt_consistent record"
    and put: "put_apply_journal_tx ws record db = Ok (u, db')"
  shows "journal_updated db db' \<or> journal_extended db db'"
proof (cases "journal_row ws (aj_apply_id record) db")
  case None
  with put cons show ?thesis
    by (auto simp: put_apply_journal_tx_def journal_extended_def query_optional_def result_simps)
next
  case (Some current)
  with put have "apply_stage_transition_allowed (aj_stage current) (aj_stage record)"
    "db' = update_journal ws (aj_apply_id record) (\<lambda>r. r\<lparr>aj_stage := aj_stage record\<rparr>) db"
    by (auto simp: put_apply_journal_tx_def query_optional_def row_to_apply_journal_def result_simps split: if_splits)
  with Some show ?thesis
    using update_journal_updated [OF inv Some, of "\<lambda>r. r\<lparr>aj_stage := aj_stage record\<rparr>"]
    by (simp add: stage_later stage_consistent journal_row_consistent [OF inv Some])
qed

lemma applied_journal_rows:
  assumes inv: "journal_inv db"
    and set: "set_apply_filesystem_applied_tx ws apply_id receipt db = Ok (u, db')"
  shows "journal_updated db db'"
proof -
  let ?f = "\<lambda>r. r\<lparr>aj_filesystem_receipt_json := Some receipt, aj_stage := FilesystemApplied\<rparr>"
  obtain current where row: "journal_row ws apply_id db = Some current"
    using set by (auto simp: set_apply_filesystem_applied_tx_def result_simps)
  show ?thesis
  proof (cases "aj_stage current = FilesystemApplied")
    case True
    with set row show ?thesis
      by (auto simp: set_apply_filesystem_applied_tx_def result_simps journal_updated_refl split: if_splits)
  next
    case False
    with set row have stage: "aj_stage current = FilesystemStarted"
      and db': "db' = db\<lparr>db_apply_journal := sql_update
         (\<lambda>r. aj_apply_id r = apply_id \<and> aj_workspace_id r = ws \<and> aj_stage r = FilesystemStarted) ?f
         (db_apply_journal db)\<rparr>"
      by (auto simp: set_apply_filesystem_applied_tx_def result_simps split: if_splits)
    have "journal_later current (?f current)"
      using stage journal_row_consistent [OF inv row]
      by (auto simp: journal_later_def journal_body_def apply_stage_next_def receipt_consistent_def)
    moreover have "receipt_consistent (?f current)" by (simp add: receipt_consistent_def)
    ultimately show ?thesis
      unfolding journal_updated_def db' using journal_row_unique [OF inv row]
      by (intro exI [of _ "\<lambda>r. aj_apply_id r = apply_id \<and> aj_workspace_id r = ws \<and> aj_stage r = FilesystemStarted"]
          exI [of _ ?f]) auto
  qed
qed

lemma stage_journal_rows:
  assumes inv: "journal_inv db" and set: "set_apply_stage_tx ws apply_id stage db = Ok (u, db')"
  shows "journal_updated db db'"
proof -
  obtain current where row: "journal_row ws apply_id db = Some current"
    and allowed: "apply_stage_transition_allowed (aj_stage current) stage"
    and db': "db' = update_journal ws apply_id (\<lambda>r. r\<lparr>aj_stage := stage\<rparr>) db"
    using set by (auto simp: set_apply_stage_tx_def result_simps)
  show ?thesis unfolding db'
    using allowed journal_row_consistent [OF inv row]
    by (intro update_journal_updated [OF inv row]) (simp_all add: stage_later stage_consistent)
qed

lemma journal_step_rows:
  assumes "journal_step ws db db'" "journal_inv db"
  shows "journal_updated db db' \<or> journal_extended db db'"
  using assms by cases (blast dest: put_journal_rows applied_journal_rows stage_journal_rows)+

lemma journal_inv_step:
  assumes "journal_step ws db db'" "journal_inv db"
  shows "journal_inv db'"
  using journal_step_rows [OF assms]
proof
  assume "journal_updated db db'"
  then obtain p f where rows: "db_apply_journal db' = sql_update p f (db_apply_journal db)"
    and later: "\<forall>r\<in>set (db_apply_journal db). p r \<longrightarrow> journal_later r (f r) \<and> receipt_consistent (f r)"
    by (auto simp: journal_updated_def)
  have key: "keyed g (db_apply_journal db') = keyed g (db_apply_journal db)"
    if "\<And>r r'. journal_later r r' \<Longrightarrow> g r' = g r" for g :: "ApplyJournalRecord \<Rightarrow> 'k"
  proof -
    have "map g (db_apply_journal db') = map g (db_apply_journal db)"
      using later that by (auto simp: rows sql_update_def)
    then show ?thesis by (simp only: keyed_def)
  qed
  have "keyed aj_apply_id (db_apply_journal db')"
    "keyed (\<lambda>r. (aj_workspace_id r, aj_stream_id r, aj_item_kind r, aj_item_key r)) (db_apply_journal db')"
    using assms(2) by (simp_all add: key journal_later_key journal_inv_def)
  with assms(2) later show ?thesis by (auto simp: journal_inv_def rows table_simps)
next
  assume "journal_extended db db'"
  with assms(2) show ?thesis
    by (auto simp: journal_inv_def journal_extended_def keyed_append1 journal_clash_def)
qed

lemma journal_later_step:
  assumes "journal_step ws db db'" "journal_inv db" "r \<in> set (db_apply_journal db)"
  shows "\<exists>r'\<in>set (db_apply_journal db'). journal_later r r'"
  using journal_step_rows [OF assms(1,2)]
proof
  assume "journal_updated db db'"
  then obtain p f where rows: "db_apply_journal db' = sql_update p f (db_apply_journal db)"
    and later: "p r \<longrightarrow> journal_later r (f r)"
    using assms(3) by (auto simp: journal_updated_def)
  then have "journal_later r (if p r then f r else r)" by simp
  with assms(3) show ?thesis unfolding rows set_sql_update by blast
next
  assume "journal_extended db db'"
  with assms(3) show ?thesis by (auto simp: journal_extended_def intro: bexI [of _ r])
qed

text \<open>
  C30: The apply journal is safe across a crash. Whatever entries were written and whatever stages were set
  from an empty journal on, no two entries share an apply identifier or an item, and an entry has the
  receipt of its file system change exactly from the stage \<open>FilesystemApplied\<close> on. An entry is never lost
  by these steps: its operation, images and digest stay what they were, a receipt that was written stays,
  and its stage only moves forward, so that an entry whose change is on disk is never prepared or started
  again.
\<close>

theorem journal_crash_safe:
  assumes init: "db_apply_journal db = []"
    and first: "(journal_step ws)\<^sup>*\<^sup>* db db'" and second: "(journal_step ws)\<^sup>*\<^sup>* db' db''"
  shows "keyed aj_apply_id (db_apply_journal db') \<and>
    keyed (\<lambda>r. (aj_workspace_id r, aj_stream_id r, aj_item_kind r, aj_item_key r)) (db_apply_journal db') \<and>
    (\<forall>r\<in>set (db_apply_journal db').
      (aj_filesystem_receipt_json r \<noteq> None \<longleftrightarrow> aj_stage r \<in> {FilesystemApplied, DatabaseCommitted, Finalized}) \<and>
      (\<exists>r'\<in>set (db_apply_journal db''). journal_body r' = journal_body r \<and>
        (aj_stage r' = aj_stage r \<or> apply_rank (aj_stage r) < apply_rank (aj_stage r')) \<and>
        (aj_filesystem_receipt_json r \<noteq> None \<longrightarrow> aj_filesystem_receipt_json r' = aj_filesystem_receipt_json r)))"
proof -
  have "journal_inv db" using init by (simp add: journal_inv_def)
  with first have inv: "journal_inv db'" by (induction rule: rtranclp_induct) (auto intro: journal_inv_step)
  have later: "\<exists>r'\<in>set (db_apply_journal db''). journal_later r r'" if "r \<in> set (db_apply_journal db')" for r
    using second that
  proof (induction rule: rtranclp_induct)
    case (step a b)
    from step.hyps(1) inv have "journal_inv a"
      by (induction rule: rtranclp_induct) (auto intro: journal_inv_step)
    with step show ?case by (meson journal_later_step journal_later_trans)
  qed (auto intro: bexI [of _ r])
  have "aj_stage r' = aj_stage r \<or> apply_rank (aj_stage r) < apply_rank (aj_stage r')" if "journal_later r r'" for r r'
    using apply_stages.chain_rank [of "aj_stage r" "aj_stage r'"] that by (auto simp: journal_later_def)
  with inv later show ?thesis
    unfolding journal_inv_def receipt_consistent_def by (meson journal_later_def)
qed

definition demo_journal :: ApplyJournalRecord where
  "demo_journal = \<lparr>aj_apply_id = ApplyId 7, aj_workspace_id = demo_ws, aj_stream_id = StreamId 3,
     aj_item_kind = ApplyItemKind.Event, aj_item_key = ''2'', aj_apply_namespace = StreamEvent,
     aj_operation_body_digest = replicate 32 0, aj_operation_json = [1], aj_filesystem_operation_json = [2],
     aj_commit_json = [3], aj_preimage_json = [4], aj_postimage_json = [5], aj_filesystem_receipt_json = None,
     aj_stage = Prepared\<rparr>"

definition demo_journal_db :: "ApplyJournalRecord \<Rightarrow> database" where
  "demo_journal_db r = empty_database\<lparr>db_apply_journal := [r]\<rparr>"

lemma demo_journal_steps:
  "journal_step demo_ws empty_database (demo_journal_db demo_journal)"
  "journal_step demo_ws (demo_journal_db demo_journal) (demo_journal_db (demo_journal\<lparr>aj_stage := FilesystemStarted\<rparr>))"
proof -
  have "put_apply_journal_tx demo_ws demo_journal empty_database = Ok ((), demo_journal_db demo_journal)"
    by (simp add: put_apply_journal_tx_def empty_database_def demo_journal_def demo_journal_db_def journal_row_def
        query_optional_def sql_insert_def)
  then show "journal_step demo_ws empty_database (demo_journal_db demo_journal)"
    by (rule journal_step.step_put) (simp add: receipt_consistent_def demo_journal_def)
  have "set_apply_stage_tx demo_ws (ApplyId 7) FilesystemStarted (demo_journal_db demo_journal) =
      Ok ((), demo_journal_db (demo_journal\<lparr>aj_stage := FilesystemStarted\<rparr>))"
    by (simp add: set_apply_stage_tx_def demo_journal_db_def empty_database_def demo_journal_def journal_row_def
        update_journal_def sql_update_def)
  then show "journal_step demo_ws (demo_journal_db demo_journal) (demo_journal_db (demo_journal\<lparr>aj_stage := FilesystemStarted\<rparr>))"
    by (rule journal_step.step_stage)
qed

theorem journal_crash_safe_witness:
  "db_apply_journal empty_database = [] \<and> (journal_step demo_ws)\<^sup>*\<^sup>* empty_database (demo_journal_db demo_journal) \<and>
   (\<exists>r'\<in>set (db_apply_journal (demo_journal_db (demo_journal\<lparr>aj_stage := FilesystemStarted\<rparr>))).
      journal_body r' = journal_body demo_journal \<and> apply_rank (aj_stage demo_journal) \<le> apply_rank (aj_stage r'))"
proof -
  have init: "db_apply_journal empty_database = []" by (simp add: empty_database_def)
  have first: "(journal_step demo_ws)\<^sup>*\<^sup>* empty_database (demo_journal_db demo_journal)"
    and second: "(journal_step demo_ws)\<^sup>*\<^sup>* (demo_journal_db demo_journal)
       (demo_journal_db (demo_journal\<lparr>aj_stage := FilesystemStarted\<rparr>))"
    using demo_journal_steps by blast+
  have "demo_journal \<in> set (db_apply_journal (demo_journal_db demo_journal))" by (simp add: demo_journal_db_def)
  with journal_crash_safe [OF init first second] init first show ?thesis by fastforce
qed

section \<open>Receipts\<close>

definition receipt_of :: "AppliedOperationWrite \<Rightarrow> AppliedOperationRecord" where
  "receipt_of w = \<lparr>ao_origin_client_id = aw_origin_client_id w, ao_operation_id = aw_operation_id w,
     ao_revision = aw_revision w, ao_body_digest = aw_body_digest w, ao_receipt_kind = aw_receipt_kind w,
     ao_mutation_json = aw_mutation_json w\<rparr>"

definition write_key :: "AppliedOperationWrite \<Rightarrow> ClientId \<times> OperationId" where
  "write_key w = (aw_origin_client_id w, aw_operation_id w)"

definition write_valid :: "store_lib \<Rightarrow> AppliedOperationWrite \<Rightarrow> bool" where
  "write_valid lib w \<longleftrightarrow>
     is_ok (validate_applied_operation_write lib (aw_origin_client_id w) (aw_operation_id w) (aw_receipt_kind w)
       (aw_mutation_json w)) \<and> length (aw_body_digest w) = 32"

lemma receipt_of_readable: "write_valid lib w \<Longrightarrow> row_to_applied_operation (receipt_of w) = Some (receipt_of w)"
  by (auto simp: write_valid_def validate_applied_operation_write_def row_to_applied_operation_def receipt_of_def
      is_ok_iff result_simps split: AppliedOperationReceiptKind.splits)

text \<open>What a valid write does, by the row that is there.\<close>

definition receipt_outcome :: "AppliedOperationWrite \<Rightarrow> AppliedOperationRecord option \<Rightarrow> (bool, SyncError) result" where
  "receipt_outcome w row =
     (case row of
        None \<Rightarrow> Ok True
      | Some r \<Rightarrow>
          if r = receipt_of w then Ok False
          else if ao_receipt_kind r = Legacy \<and> ao_revision r = aw_revision w \<and>
                  aw_legacy_body_digest w = Some (ao_body_digest r) then Ok True
          else Err OperationChanged)"

definition receipts_wf :: "database \<Rightarrow> bool" where
  "receipts_wf db \<longleftrightarrow> keyed applied_key (db_applied_operations db) \<and>
     (\<forall>r\<in>set (db_applied_operations db). row_to_applied_operation r = Some r)"

lemma receipt_of_eq:
  "applied_key r = write_key w \<Longrightarrow>
    r = receipt_of w \<longleftrightarrow> ao_revision r = aw_revision w \<and> ao_body_digest r = aw_body_digest w \<and>
      ao_receipt_kind r = aw_receipt_kind w \<and> ao_mutation_json r = aw_mutation_json w"
  by (cases r) (auto simp: receipt_of_def applied_key_def write_key_def)

lemma record_applied_operation_tx_eq:
  assumes wf: "receipts_wf db" and w: "write_valid lib w"
  shows "record_applied_operation_tx lib w db =
    (case receipt_outcome w (find (\<lambda>r. applied_key r = write_key w) (db_applied_operations db)) of
       Err e \<Rightarrow> Err e
     | Ok changed \<Rightarrow>
         Ok ((), if changed
           then db\<lparr>db_applied_operations := sql_upsert applied_key (receipt_of w) (db_applied_operations db)\<rparr> else db))"
proof (cases "find (\<lambda>r. applied_key r = write_key w) (db_applied_operations db)")
  case None
  then have "\<forall>r\<in>set (db_applied_operations db). applied_key r \<noteq> applied_key (receipt_of w)"
    by (auto simp: find_None_iff receipt_of_def applied_key_def write_key_def)
  with None w show ?thesis
    by (auto simp: record_applied_operation_tx_def write_valid_def is_ok_iff applied_row_def write_key_def
        query_optional_def receipt_outcome_def sql_insert_def sql_upsert_def list_ex_iff receipt_of_def)
next
  case (Some r)
  then have r: "r \<in> set (db_applied_operations db)" "applied_key r = write_key w" by (auto dest: find_SomeD)
  let ?hit = "\<lambda>x. applied_key x = write_key w \<and> ao_revision x = aw_revision w \<and> ao_receipt_kind x = Legacy \<and>
    ao_body_digest x = ao_body_digest r"
  let ?f = "\<lambda>r. r\<lparr>ao_body_digest := aw_body_digest w, ao_receipt_kind := aw_receipt_kind w, ao_mutation_json := aw_mutation_json w\<rparr>"
  have upgrade: "length (filter ?hit (db_applied_operations db)) = 1"
      "sql_update ?hit ?f (db_applied_operations db) = sql_upsert applied_key (receipt_of w) (db_applied_operations db)"
    if "ao_receipt_kind r = Legacy" "ao_revision r = aw_revision w"
  proof -
    have hit: "?hit x \<longleftrightarrow> applied_key x = applied_key r" if "x \<in> set (db_applied_operations db)" for x
      using that r \<open>ao_receipt_kind r = Legacy\<close> \<open>ao_revision r = aw_revision w\<close> wf keyed_unique
      unfolding receipts_wf_def by metis
    have f: "?f r = receipt_of w"
      using r(2) that by (cases r) (simp add: receipt_of_def applied_key_def write_key_def)
    have keyed: "keyed applied_key (db_applied_operations db)" using wf by (simp add: receipts_wf_def)
    have key: "applied_key (?f r) = applied_key r" by (simp add: applied_key_def)
    show "length (filter ?hit (db_applied_operations db)) = 1"
      by (rule keyed_hit(1) [OF keyed r(1) hit])
    show "sql_update ?hit ?f (db_applied_operations db) = sql_upsert applied_key (receipt_of w) (db_applied_operations db)"
      using keyed_hit(2) [where f = ?f and hit = ?hit, OF keyed r(1) hit key] unfolding f .
  qed
  have read: "row_to_applied_operation r = Some r" using wf r by (simp add: receipts_wf_def)
  have valid: "validate_applied_operation_write lib (aw_origin_client_id w) (aw_operation_id w) (aw_receipt_kind w)
      (aw_mutation_json w) = Ok ()"
    using w by (simp add: write_valid_def is_ok_iff)
  have row: "applied_row (aw_origin_client_id w) (aw_operation_id w) db = Some r"
    using Some by (simp add: applied_row_def write_key_def)
  consider (same) "r = receipt_of w"
    | (legacy) "r \<noteq> receipt_of w" "ao_receipt_kind r = Legacy" "ao_revision r = aw_revision w"
        "aw_legacy_body_digest w = Some (ao_body_digest r)"
    | (other) "r \<noteq> receipt_of w" "\<not> (ao_receipt_kind r = Legacy \<and> ao_revision r = aw_revision w \<and>
        aw_legacy_body_digest w = Some (ao_body_digest r))"
    by blast
  then show ?thesis
  proof cases
    case same
    with Some read valid row show ?thesis
      by (simp add: record_applied_operation_tx_def query_optional_def receipt_outcome_def receipt_of_def)
  next
    case legacy
    have "record_applied_operation_tx lib w db = Ok ((), db\<lparr>db_applied_operations := sql_update ?hit ?f (db_applied_operations db)\<rparr>)"
      using read valid row legacy receipt_of_eq [OF r(2)] upgrade(1) [OF legacy(2,3)]
      unfolding record_applied_operation_tx_def query_optional_def write_key_def by (auto simp: Let_def)
    with Some legacy upgrade(2) [OF legacy(2,3)] show ?thesis by (simp add: receipt_outcome_def)
  next
    case other
    with Some read valid row receipt_of_eq [OF r(2)] show ?thesis
      by (auto simp: record_applied_operation_tx_def query_optional_def receipt_outcome_def)
  qed
qed

lemma receipts_wf_upsert:
  assumes "receipts_wf db" "write_valid lib w"
  shows "receipts_wf (db\<lparr>db_applied_operations := sql_upsert applied_key (receipt_of w) (db_applied_operations db)\<rparr>)"
  using assms by (auto simp: receipts_wf_def keyed_sql_upsert set_sql_upsert receipt_of_readable)

lemma applied_key_receipt_of [simp]: "applied_key (receipt_of w) = write_key w"
  by (simp add: applied_key_def receipt_of_def write_key_def)

text \<open>
  C31: A receipt is written once. On a well-formed table, a valid write either changes nothing else and
  leaves exactly its receipt to be read back, or is refused with \<open>OperationChanged\<close>, and it is refused
  exactly when another receipt is there that is not a legacy one of the same revision with the digest
  that the writer expects. Repeating a write succeeds and changes nothing; afterwards every write for
  the same operation with other content is refused.
\<close>

theorem receipts_written_once:
  assumes wf: "receipts_wf (st_conn st)" and w: "write_valid lib w"
  shows "(record_applied_operation_tx lib w (st_conn st) = Err OperationChanged \<and>
      (\<exists>r. applied_operation (aw_origin_client_id w) (aw_operation_id w) st = Ok (Some r) \<and> r \<noteq> receipt_of w \<and>
        \<not> (ao_receipt_kind r = Legacy \<and> ao_revision r = aw_revision w \<and>
           aw_legacy_body_digest w = Some (ao_body_digest r)))) \<or>
    (\<exists>db. record_applied_operation_tx lib w (st_conn st) = Ok ((), db) \<and> receipts_wf db \<and>
      (\<forall>r. applied_operation (aw_origin_client_id w) (aw_operation_id w) st = Ok (Some r) \<longrightarrow>
        r = receipt_of w \<and> db = st_conn st \<or> ao_receipt_kind r = Legacy \<and> ao_revision r = aw_revision w \<and>
           aw_legacy_body_digest w = Some (ao_body_digest r)) \<and>
      applied_operation (aw_origin_client_id w) (aw_operation_id w) (st\<lparr>st_conn := db\<rparr>) = Ok (Some (receipt_of w)) \<and>
      (\<forall>client op. (client, op) \<noteq> write_key w \<longrightarrow>
        applied_operation client op (st\<lparr>st_conn := db\<rparr>) = applied_operation client op st) \<and>
      db\<lparr>db_applied_operations := []\<rparr> = (st_conn st)\<lparr>db_applied_operations := []\<rparr> \<and>
      (\<forall>w'. write_valid lib w' \<and> write_key w' = write_key w \<longrightarrow>
        record_applied_operation_tx lib w' db =
          (if receipt_of w' = receipt_of w then Ok ((), db) else Err OperationChanged)))"
proof -
  have lookup: "applied_operation client op (st\<lparr>st_conn := db\<rparr>) =
      Ok (find (\<lambda>r. applied_key r = (client, op)) (db_applied_operations db))" if "receipts_wf db" for client op db
    using that by (auto simp: applied_operation_def applied_row_def query_optional_def receipts_wf_def
        split: option.splits dest!: find_SomeD)
  have lookup0: "applied_operation client op st = Ok (find (\<lambda>r. applied_key r = (client, op)) (db_applied_operations (st_conn st)))"
    for client op using lookup [OF wf] by simp
  have again: "record_applied_operation_tx lib w' db = (if receipt_of w' = receipt_of w then Ok ((), db) else Err OperationChanged)"
    if "receipts_wf db" "find (\<lambda>r. applied_key r = write_key w) (db_applied_operations db) = Some (receipt_of w)"
      "write_valid lib w'" "write_key w' = write_key w" for w' db
  proof -
    have "ao_receipt_kind (receipt_of w) \<noteq> Legacy"
      using w by (auto simp: receipt_of_def write_valid_def validate_applied_operation_write_def)
    then show ?thesis using that by (auto simp: record_applied_operation_tx_eq receipt_outcome_def)
  qed
  let ?row = "find (\<lambda>r. applied_key r = write_key w) (db_applied_operations (st_conn st))"
  note eq = record_applied_operation_tx_eq [OF wf w]
  show ?thesis
  proof (cases "receipt_outcome w ?row")
    case (Err e)
    then show ?thesis
      by (auto simp: eq lookup0 receipt_outcome_def write_key_def split: option.splits if_splits)
  next
    case (Ok changed)
    let ?db = "if changed then (st_conn st)\<lparr>db_applied_operations :=
      sql_upsert applied_key (receipt_of w) (db_applied_operations (st_conn st))\<rparr> else st_conn st"
    have wf': "receipts_wf ?db" using wf w by (simp add: receipts_wf_upsert)
    have found: "find (\<lambda>r. applied_key r = k) (db_applied_operations ?db) =
        (if k = write_key w then Some (receipt_of w) else find (\<lambda>r. applied_key r = k) (db_applied_operations (st_conn st)))" for k
      using Ok by (auto simp: find_sql_upsert receipt_outcome_def split: option.splits if_splits)
    have "record_applied_operation_tx lib w (st_conn st) = Ok ((), ?db)" by (simp add: eq Ok)
    moreover have "?db\<lparr>db_applied_operations := []\<rparr> = (st_conn st)\<lparr>db_applied_operations := []\<rparr>" by simp
    moreover have "r = receipt_of w \<and> ?db = st_conn st \<or> ao_receipt_kind r = Legacy \<and> ao_revision r = aw_revision w \<and>
        aw_legacy_body_digest w = Some (ao_body_digest r)" if "?row = Some r" for r
      using Ok that by (auto simp: receipt_outcome_def split: if_splits)
    ultimately obtain db where db: "record_applied_operation_tx lib w (st_conn st) = Ok ((), db)" "receipts_wf db"
        "\<And>k. find (\<lambda>r. applied_key r = k) (db_applied_operations db) =
          (if k = write_key w then Some (receipt_of w) else find (\<lambda>r. applied_key r = k) (db_applied_operations (st_conn st)))"
        "db\<lparr>db_applied_operations := []\<rparr> = (st_conn st)\<lparr>db_applied_operations := []\<rparr>"
        "\<And>r. ?row = Some r \<Longrightarrow> r = receipt_of w \<and> db = st_conn st \<or> ao_receipt_kind r = Legacy \<and>
          ao_revision r = aw_revision w \<and> aw_legacy_body_digest w = Some (ao_body_digest r)"
      using wf' found by blast
    then show ?thesis
      by (intro disjI2 exI [of _ db]) (auto simp: lookup lookup0 again write_key_def [symmetric])
  qed
qed

definition demo_write :: AppliedOperationWrite where
  "demo_write = \<lparr>aw_origin_client_id = demo_client, aw_operation_id = OperationId 11, aw_revision = WorkspaceRevision 2,
     aw_body_digest = replicate 32 0, aw_receipt_kind = ConflictResolution, aw_mutation_json = None,
     aw_legacy_body_digest = None\<rparr>"

theorem receipts_written_once_witness:
  "receipts_wf (st_conn demo_state) \<and> write_valid demo_store demo_write \<and>
   (\<exists>db. record_applied_operation_tx demo_store demo_write (st_conn demo_state) = Ok ((), db) \<and>
      applied_operation demo_client (OperationId 11) (demo_state\<lparr>st_conn := db\<rparr>) = Ok (Some (receipt_of demo_write)))"
proof -
  have wf: "receipts_wf (st_conn demo_state)" by (simp add: receipts_wf_def demo_state_def empty_database_def)
  have w: "write_valid demo_store demo_write"
    by (simp add: write_valid_def demo_write_def validate_applied_operation_write_def is_ok_iff)
  have "applied_operation demo_client (OperationId 11) demo_state = Ok None"
    by (simp add: applied_operation_def applied_row_def demo_state_def empty_database_def query_optional_def)
  moreover have "aw_origin_client_id demo_write = demo_client" "aw_operation_id demo_write = OperationId 11"
    by (simp_all add: demo_write_def)
  ultimately show ?thesis using receipts_written_once [OF wf w] wf w by auto
qed

section \<open>Cursor\<close>

inductive cursor_step :: "WorkspaceId \<Rightarrow> ClientId \<Rightarrow> database \<Rightarrow> database \<Rightarrow> bool" for ws client where
  step_open: "ensure_identity ws client db = Ok (u, db') \<Longrightarrow> cursor_step ws client db db'"
| step_set_ack: "set_pending_ack_tx ws revision db = Ok (u, db') \<Longrightarrow> cursor_step ws client db db'"
| step_clear_ack: "clear_pending_ack_tx ws db = Ok (u, db') \<Longrightarrow> cursor_step ws client db db'"
| step_set_segment: "set_pending_segment_ack_tx ws revision db = Ok (u, db') \<Longrightarrow> cursor_step ws client db db'"
| step_clear_segment: "clear_pending_segment_ack_tx ws db = Ok (u, db') \<Longrightarrow> cursor_step ws client db db'"
| step_acked: "set_last_ack_revision_tx ws revision db = Ok (u, db') \<Longrightarrow> cursor_step ws client db db'"
| step_cursor_applied: "set_last_applied_revision_tx ws revision db = Ok (u, db') \<Longrightarrow> cursor_step ws client db db'"

definition cursor_later :: "WorkspaceCursor \<Rightarrow> WorkspaceCursor \<Rightarrow> bool" where
  "cursor_later c c' \<longleftrightarrow>
     wc_workspace_id c' = wc_workspace_id c \<and> wc_client_id c' = wc_client_id c \<and>
     wc_last_ack_revision c \<le> wc_last_ack_revision c' \<and> wc_last_applied_revision c \<le> wc_last_applied_revision c'"

lemma cursor_row_single: "db_workspace_cursor db = [c] \<Longrightarrow> wc_workspace_id c = ws \<Longrightarrow> cursor_row ws db = Some c"
  by (simp add: cursor_row_def)

lemma cursor_step_later:
  assumes "cursor_step ws client db db'" "db_workspace_cursor db = [c]" "wc_workspace_id c = ws" "wc_client_id c = client"
  shows "\<exists>c'. db_workspace_cursor db' = [c'] \<and> cursor_later c c'"
  using assms(1)
  by (cases rule: cursor_step.cases)
    (use assms(2-4) in \<open>auto simp: ensure_identity_def set_pending_ack_tx_def clear_pending_ack_tx_def
      set_pending_segment_ack_tx_def clear_pending_segment_ack_tx_def set_last_ack_revision_tx_def
      set_last_applied_revision_tx_def update_cursor_def cursor_row_single cursor_later_def sql_update_def
      result_simps Let_def not_less\<close>)

lemma cursor_steps_later:
  assumes "(cursor_step ws client)\<^sup>*\<^sup>* db db'" "db_workspace_cursor db = [c]" "wc_workspace_id c = ws" "wc_client_id c = client"
  shows "\<exists>c'. db_workspace_cursor db' = [c'] \<and> cursor_later c c'"
  using assms(1)
proof (induction rule: rtranclp_induct)
  case base
  with assms show ?case by (simp add: cursor_later_def)
next
  case (step a b)
  then obtain c' where c': "db_workspace_cursor a = [c']" "cursor_later c c'" by blast
  with cursor_step_later [OF step.hyps(2) c'(1)] assms(3,4) obtain c'' where
    "db_workspace_cursor b = [c'']" "cursor_later c' c''" by (auto simp: cursor_later_def)
  with c'(2) show ?case by (auto simp: cursor_later_def)
qed

end
