(* ===== verification/Sync_Conflicts.thy ===== *)
theory Sync_Conflicts
  imports Sync_Journal Sync_Example
begin

text \<open>
  The exchange of the stored conflicts for the authoritative ones of a snapshot
  (\<open>replace_authoritative_conflicts\<close>): what is kept of a conflict that the snapshot still has, what
  becomes of one that it no longer has, and that the exchange can be repeated.
\<close>

lemma set_map_filter: "set (List.map_filter g rows) = {y. \<exists>x\<in>set rows. g x = Some y}"
  by (induction rows) (auto simp: List.map_filter_simps split: option.splits)

lemma find_map_filter:
  assumes "keyed key rows" "\<And>r r'. g r = Some r' \<Longrightarrow> key r' = key r"
  shows "find (\<lambda>r. key r = k) (List.map_filter g rows) = Option.bind (find (\<lambda>r. key r = k) rows) g"
  using assms(1)
proof (induction rows)
  case (Cons r rows)
  have "find (\<lambda>r. key r = key x) rows = None" if "key x = key r" for x
    using Cons.prems that unfolding keyed_def find_None_iff by (metis distinct.simps(2) image_eqI list.simps(9) set_map)
  with Cons assms(2) show ?case
    by (auto simp: List.map_filter_simps keyed_def split: option.splits)
qed (simp add: List.map_filter_simps)

lemma keyed_map_filter:
  assumes "keyed key rows" "\<And>r r'. g r = Some r' \<Longrightarrow> key r' = key r"
  shows "keyed key (List.map_filter g rows)"
  using assms(1)
proof (induction rows)
  case (Cons r rows)
  have "key ` set (List.map_filter g rows) \<subseteq> key ` set rows"
    using assms(2) by (force simp: set_map_filter)
  with Cons assms(2) show ?case
    by (auto simp: List.map_filter_simps keyed_def split: option.splits)
qed (simp add: List.map_filter_simps)

lemma insert_conflicts_Ok:
  assumes "keyed sc_conflict_id staged" "\<forall>s\<in>set staged. \<forall>c\<in>set rows. cf_conflict_id c \<noteq> sc_conflict_id s"
  shows "insert_conflicts staged rows = Ok (rows @ map staged_conflict staged)"
  using assms
proof (induction staged arbitrary: rows)
  case (Cons s staged)
  then show ?case
    by (auto simp: sql_insert_def list_ex_iff staged_conflict_def keyed_def image_iff)
qed simp

text \<open>What becomes of a stored conflict of the workspace: refreshed, marked, or dropped.\<close>

definition exchanged :: "WorkspaceId \<Rightarrow> StreamConflictRecord list \<Rightarrow> ConflictRecord \<Rightarrow> ConflictRecord option" where
  "exchanged ws staged c =
     (if unstaged ws staged c
      then if cf_resolution_json c = None then None else Some (c\<lparr>cf_status := RefreshRequired\<rparr>)
      else Some (refresh_conflict ws staged c))"

lemma exchanged_id: "exchanged ws staged c = Some c' \<Longrightarrow> cf_conflict_id c' = cf_conflict_id c \<and> cf_workspace_id c' = cf_workspace_id c"
  by (auto simp: exchanged_def refresh_conflict_def split: if_splits option.splits)

lemma unstaged_refresh [simp]: "unstaged ws staged (refresh_conflict ws staged c) = unstaged ws staged c"
  by (simp add: unstaged_def staged_for_def refresh_conflict_def split: option.splits)

lemma unstaged_refresh_id: "unstaged ws staged c \<Longrightarrow> refresh_conflict ws staged c = c"
  by (simp add: unstaged_def refresh_conflict_def)

lemma pruned_eq:
  "sql_delete (\<lambda>c. unstaged ws staged c \<and> cf_resolution_json c = None)
     (sql_update (\<lambda>c. unstaged ws staged c \<and> cf_resolution_json c \<noteq> None) (\<lambda>c. c\<lparr>cf_status := RefreshRequired\<rparr>)
       (map (refresh_conflict ws staged) rows)) = List.map_filter (exchanged ws staged) rows"
proof (induction rows)
  case (Cons c rows)
  have "unstaged ws staged (c\<lparr>cf_status := RefreshRequired\<rparr>) = unstaged ws staged c"
    by (simp add: unstaged_def staged_for_def)
  with Cons show ?case
    by (auto simp: sql_delete_def sql_update_def List.map_filter_simps exchanged_def unstaged_refresh_id)
qed (simp add: sql_delete_def sql_update_def List.map_filter_simps)

definition missing :: "WorkspaceId \<Rightarrow> ConflictRecord list \<Rightarrow> StreamConflictRecord list \<Rightarrow> StreamConflictRecord list" where
  "missing ws rows staged = filter (\<lambda>s. \<not> list_ex (\<lambda>c. cf_workspace_id c = ws \<and> cf_conflict_id c = sc_conflict_id s) rows) staged"

lemma exchanged_staged:
  assumes "s \<in> set staged" "sc_conflict_id s = cf_conflict_id c"
  shows "exchanged ws staged c \<noteq> None"
  using assms by (auto simp: exchanged_def unstaged_def staged_for_def find_None_iff)

lemma missing_pruned: "missing ws (List.map_filter (exchanged ws staged) rows) staged = missing ws rows staged"
proof -
  have "(\<exists>c\<in>set (List.map_filter (exchanged ws staged) rows). cf_workspace_id c = ws \<and> cf_conflict_id c = sc_conflict_id s) \<longleftrightarrow>
      (\<exists>c\<in>set rows. cf_workspace_id c = ws \<and> cf_conflict_id c = sc_conflict_id s)" if "s \<in> set staged" for s
  proof
    assume "\<exists>c\<in>set rows. cf_workspace_id c = ws \<and> cf_conflict_id c = sc_conflict_id s"
    then obtain c where c: "c \<in> set rows" "cf_workspace_id c = ws" "cf_conflict_id c = sc_conflict_id s" by blast
    with exchanged_staged [OF that] obtain c' where c': "exchanged ws staged c = Some c'" by fastforce
    from exchanged_id [OF this] c have "cf_workspace_id c' = ws \<and> cf_conflict_id c' = sc_conflict_id s" by simp
    with c(1) c' show "\<exists>c\<in>set (List.map_filter (exchanged ws staged) rows). cf_workspace_id c = ws \<and> cf_conflict_id c = sc_conflict_id s"
      by (force simp: set_map_filter)
  qed (fastforce simp: set_map_filter dest: exchanged_id)
  then show ?thesis by (auto simp: missing_def list_ex_iff intro!: filter_cong)
qed

text \<open>The whole exchange, with the six statements as one pass over the rows.\<close>

definition foreign :: "WorkspaceId \<Rightarrow> StreamConflictRecord list \<Rightarrow> ConflictRecord list \<Rightarrow> bool" where
  "foreign ws staged rows \<longleftrightarrow> (\<exists>c\<in>set rows. cf_workspace_id c \<noteq> ws \<and> (\<exists>s\<in>set staged. sc_conflict_id s = cf_conflict_id c))"

lemma missing_fresh:
  assumes "\<not> foreign ws staged rows" "c \<in> set (List.map_filter (exchanged ws staged) rows)" "s \<in> set (missing ws rows staged)"
  shows "cf_conflict_id c \<noteq> sc_conflict_id s"
proof -
  obtain c0 where "c0 \<in> set rows" "cf_conflict_id c = cf_conflict_id c0"
    using assms(2) by (fastforce simp: set_map_filter dest: exchanged_id)
  with assms(1,3) show ?thesis by (simp add: missing_def foreign_def list_ex_iff) metis
qed

lemma replace_eq:
  assumes staged: "staged = stream_conflicts_of ws sid db" "keyed sc_conflict_id staged"
    and same: "\<not> changed_same_generation ws staged (db_conflicts db)"
    and foreign: "\<not> foreign ws staged (db_conflicts db)"
  shows "replace_authoritative_conflicts_tx ws sid db = Ok ((), db\<lparr>
    db_outbox := drop_stale_resolutions ws staged (db_conflicts db) (db_outbox db),
    db_conflicts := List.map_filter (exchanged ws staged) (db_conflicts db) @
      map staged_conflict (missing ws (db_conflicts db) staged)\<rparr>)"
proof -
  let ?rows = "List.map_filter (exchanged ws staged) (db_conflicts db)" and ?new = "missing ws (db_conflicts db) staged"
  have "\<forall>s\<in>set ?new. \<forall>c\<in>set ?rows. cf_conflict_id c \<noteq> sc_conflict_id s"
    using missing_fresh [OF foreign] by blast
  moreover have "keyed sc_conflict_id ?new" using staged(2) by (simp add: missing_def keyed_def distinct_map_filter)
  ultimately have "insert_conflicts ?new ?rows = Ok (?rows @ map staged_conflict ?new)"
    by (intro insert_conflicts_Ok) auto
  moreover have "filter (\<lambda>s. \<not> list_ex (\<lambda>c. cf_workspace_id c = ws \<and> cf_conflict_id c = sc_conflict_id s) ?rows) staged = ?new"
    using missing_pruned [of ws staged "db_conflicts db"] by (simp add: missing_def)
  ultimately show ?thesis
    using same unfolding replace_authoritative_conflicts_tx_def staged(1) [symmetric] Let_def pruned_eq by simp
qed

text \<open>Rows that an exchange leaves as they are.\<close>

definition in_step :: "WorkspaceId \<Rightarrow> StreamConflictRecord list \<Rightarrow> ConflictRecord \<Rightarrow> bool" where
  "in_step ws staged c \<longleftrightarrow> cf_workspace_id c = ws \<longrightarrow>
     (case staged_for staged c of
        None \<Rightarrow> cf_status c = RefreshRequired \<and> cf_resolution_json c \<noteq> None
      | Some s \<Rightarrow> cf_conflict_revision c = sc_conflict_revision s \<and> cf_created_json c = sc_created_json s \<and>
          cf_status c = (if cf_resolution_json c = None then Manual else Resolving))"

lemma exchanged_in_step: "exchanged ws staged c = Some c' \<Longrightarrow> in_step ws staged c'"
  by (auto simp: exchanged_def in_step_def refresh_conflict_def staged_for_def unstaged_def stale_def
      split: if_splits option.splits)

lemma in_step_exchanged: "in_step ws staged c \<Longrightarrow> exchanged ws staged c = Some c"
  by (cases c) (auto simp: exchanged_def in_step_def refresh_conflict_def staged_for_def unstaged_def stale_def
      split: if_splits option.splits)

lemma in_step_same:
  assumes "\<forall>c\<in>set rows. in_step ws staged c" "keyed sc_conflict_id staged"
  shows "\<not> changed_same_generation ws staged rows" "drop_stale_resolutions ws staged rows waiting = waiting"
proof -
  have found: "staged_for staged c = Some s" if "s \<in> set staged" "sc_conflict_id s = cf_conflict_id c" for s c
    using that find_keyed [OF assms(2), of "cf_conflict_id c" s] by (simp add: staged_for_def)
  have step: "cf_conflict_revision c = sc_conflict_revision s \<and> cf_created_json c = sc_created_json s \<and> \<not> stale s c"
    if "s \<in> set staged" "sc_conflict_id s = cf_conflict_id c" "c \<in> set rows" "cf_workspace_id c = ws" for s c
    using assms(1) that(3,4) found [OF that(1,2)] by (auto simp: in_step_def stale_def split: if_splits)
  show "\<not> changed_same_generation ws staged rows"
    using step by (auto simp: changed_same_generation_def list_ex_iff)
  show "drop_stale_resolutions ws staged rows waiting = waiting"
    using step by (auto simp: drop_stale_resolutions_def sql_delete_def list_ex_iff intro!: filter_True)
qed

lemma keyed_staged:
  assumes "keyed stream_conflict_key (db_stream_conflicts db)"
  shows "keyed sc_conflict_id (stream_conflicts_of ws sid db)"
proof -
  have "keyed stream_conflict_key (stream_conflicts_of ws sid db)"
    using assms by (simp add: stream_conflicts_of_def keyed_def distinct_map_filter)
  moreover have "map stream_conflict_key (stream_conflicts_of ws sid db) =
      map (\<lambda>k. (ws, sid, k)) (map sc_conflict_id (stream_conflicts_of ws sid db))"
    by (auto simp: stream_conflicts_of_def stream_conflict_key_def)
  ultimately show ?thesis unfolding keyed_def by (metis distinct_map)
qed

definition conflict_row :: "ConflictId \<Rightarrow> database \<Rightarrow> ConflictRecord option" where
  "conflict_row k db = find (\<lambda>c. cf_conflict_id c = k) (db_conflicts db)"

lemma map_filter_self: "\<forall>r\<in>set rows. g r = Some r \<Longrightarrow> List.map_filter g rows = rows"
  by (induction rows) (simp_all add: List.map_filter_simps)

lemma find_append: "find p (xs @ ys) = (case find p xs of None \<Rightarrow> find p ys | Some x \<Rightarrow> Some x)"
  by (induction xs) simp_all

lemma find_missing:
  "find (\<lambda>s. sc_conflict_id s = k) (missing ws rows staged) =
    (if list_ex (\<lambda>c. cf_workspace_id c = ws \<and> cf_conflict_id c = k) rows then None
     else find (\<lambda>s. sc_conflict_id s = k) staged)"
  by (induction staged) (auto simp: missing_def find_None_iff)

lemma find_staged_conflict:
  "find (\<lambda>c. cf_conflict_id c = k) (map staged_conflict staged) = map_option staged_conflict (find (\<lambda>s. sc_conflict_id s = k) staged)"
  by (induction staged) (simp_all add: staged_conflict_def)

lemma exchanged_eq:
  assumes "staged_for staged c = Some s" "cf_workspace_id c = ws" "sc_workspace_id s = ws"
    and "cf_conflict_revision c = sc_conflict_revision s \<Longrightarrow> cf_created_json c = sc_created_json s"
  shows "exchanged ws staged c =
    (if cf_conflict_revision c = sc_conflict_revision s \<and> cf_status c \<noteq> RefreshRequired
     then Some (c\<lparr>cf_status := if cf_resolution_json c = None then Manual else Resolving\<rparr>)
     else Some (staged_conflict s))"
proof -
  have "sc_conflict_id s = cf_conflict_id c" using assms(1) by (auto simp: staged_for_def dest: find_SomeD)
  with assms show ?thesis
    by (cases c) (auto simp: exchanged_def unstaged_def refresh_conflict_def stale_def staged_conflict_def)
qed

text \<open>The row of one conflict after the exchange.\<close>

lemma find_exchanged:
  assumes keys: "keyed cf_conflict_id rows" and ws: "\<forall>s\<in>set staged. sc_workspace_id s = ws"
    and own: "\<not> foreign ws staged rows" and same: "\<not> changed_same_generation ws staged rows"
  shows "find (\<lambda>c. cf_conflict_id c = k) (List.map_filter (exchanged ws staged) rows @
      map staged_conflict (missing ws rows staged)) =
    (case (find (\<lambda>c. cf_conflict_id c = k) rows, find (\<lambda>s. sc_conflict_id s = k) staged) of
       (None, None) \<Rightarrow> None
     | (None, Some s) \<Rightarrow> Some (staged_conflict s)
     | (Some c, None) \<Rightarrow>
         if cf_workspace_id c \<noteq> ws then Some c
         else if cf_resolution_json c = None then None else Some (c\<lparr>cf_status := RefreshRequired\<rparr>)
     | (Some c, Some s) \<Rightarrow>
         if cf_conflict_revision c = sc_conflict_revision s \<and> cf_status c \<noteq> RefreshRequired
         then Some (c\<lparr>cf_status := if cf_resolution_json c = None then Manual else Resolving\<rparr>)
         else Some (staged_conflict s))"
proof (cases "find (\<lambda>c. cf_conflict_id c = k) rows")
  case None
  then have "\<not> list_ex (\<lambda>c. cf_workspace_id c = ws \<and> cf_conflict_id c = k) rows"
    by (auto simp: find_None_iff list_ex_iff)
  with None show ?thesis
    using exchanged_id by (auto simp: find_append find_missing find_staged_conflict find_map_filter [OF keys] split: option.splits)
next
  case (Some c)
  then have c: "c \<in> set rows" "cf_conflict_id c = k" by (auto dest: find_SomeD)
  have first: "find (\<lambda>c. cf_conflict_id c = k) (List.map_filter (exchanged ws staged) rows) = exchanged ws staged c"
    using Some exchanged_id by (subst find_map_filter [OF keys]) auto
  show ?thesis
  proof (cases "find (\<lambda>s. sc_conflict_id s = k) staged")
    case none: None
    then have "staged_for staged c = None" by (simp add: staged_for_def c(2))
    with Some none first show ?thesis
      by (auto simp: find_append find_missing find_staged_conflict exchanged_def unstaged_def refresh_conflict_def)
  next
    case staged: (Some s)
    then have s: "s \<in> set staged" "sc_conflict_id s = cf_conflict_id c" "staged_for staged c = Some s"
      by (auto simp: staged_for_def c(2) dest: find_SomeD)
    then have cw: "cf_workspace_id c = ws" using own c(1) by (auto simp: foreign_def)
    have sw: "sc_workspace_id s = ws" using ws s by blast
    have created: "cf_created_json c = sc_created_json s" if "cf_conflict_revision c = sc_conflict_revision s"
      using that same c(1) s cw by (auto simp: changed_same_generation_def list_ex_iff)
    from Some staged first exchanged_eq [OF s(3) cw sw created] show ?thesis by (simp add: find_append)
  qed
qed

lemma keyed_exchanged:
  assumes "keyed cf_conflict_id rows" "keyed sc_conflict_id staged" "\<not> foreign ws staged rows"
  shows "keyed cf_conflict_id (List.map_filter (exchanged ws staged) rows @ map staged_conflict (missing ws rows staged))"
proof -
  have "keyed cf_conflict_id (List.map_filter (exchanged ws staged) rows)"
    using keyed_map_filter [OF assms(1)] exchanged_id by blast
  moreover have "map cf_conflict_id (map staged_conflict (missing ws rows staged)) = map sc_conflict_id (missing ws rows staged)"
    by (simp add: staged_conflict_def)
  moreover have "keyed sc_conflict_id (missing ws rows staged)"
    using assms(2) by (simp add: missing_def keyed_def distinct_map_filter)
  ultimately show ?thesis
    unfolding keyed_def map_append distinct_append using missing_fresh [OF assms(3)] by (auto simp: staged_conflict_def comp_def)
qed

text \<open>A repeated exchange.\<close>

lemma replace_in_step:
  assumes staged: "staged = stream_conflicts_of ws sid db" "keyed sc_conflict_id staged"
    and step: "\<forall>c\<in>set (db_conflicts db). in_step ws staged c"
    and all: "\<forall>s\<in>set staged. \<exists>c\<in>set (db_conflicts db). cf_workspace_id c = ws \<and> cf_conflict_id c = sc_conflict_id s"
    and own: "\<not> foreign ws staged (db_conflicts db)"
  shows "replace_authoritative_conflicts_tx ws sid db = Ok ((), db)"
proof -
  have "missing ws (db_conflicts db) staged = []" using all by (auto simp: missing_def list_ex_iff filter_empty_conv)
  moreover have "List.map_filter (exchanged ws staged) (db_conflicts db) = db_conflicts db"
    using step in_step_exchanged by (blast intro: map_filter_self)
  ultimately show ?thesis
    using replace_eq [OF staged in_step_same(1) [OF step staged(2)] own] in_step_same(2) [OF step staged(2)] by simp
qed

lemma replace_again:
  assumes staged: "staged = stream_conflicts_of ws sid db" "keyed sc_conflict_id staged"
    and own: "\<not> foreign ws staged (db_conflicts db)"
    and db'_def: "db' = db\<lparr>db_outbox := waiting, db_conflicts := List.map_filter (exchanged ws staged) (db_conflicts db) @
        map staged_conflict (missing ws (db_conflicts db) staged)\<rparr>"
  shows "replace_authoritative_conflicts_tx ws sid db' = Ok ((), db')"
proof (rule replace_in_step)
  show "staged = stream_conflicts_of ws sid db'" using staged(1) by (simp add: db'_def stream_conflicts_of_def)
  have ws: "sc_workspace_id s = ws" if "s \<in> set staged" for s using that staged(1) by (simp add: stream_conflicts_of_def)
  have found: "staged_for staged (staged_conflict s) = Some s" if "s \<in> set staged" for s
    using that find_keyed [OF staged(2), of "sc_conflict_id s" s] by (simp add: staged_for_def staged_conflict_def)
  show "\<forall>c\<in>set (db_conflicts db'). in_step ws staged c"
  proof
    fix c assume "c \<in> set (db_conflicts db')"
    then consider (old) c0 where "exchanged ws staged c0 = Some c" | (new) s where "s \<in> set staged" "c = staged_conflict s"
      by (auto simp: db'_def set_map_filter missing_def)
    then show "in_step ws staged c"
    proof cases
      case new
      then show ?thesis using found by (simp add: in_step_def) (simp add: staged_conflict_def)
    qed (rule exchanged_in_step)
  qed
  show "\<forall>s\<in>set staged. \<exists>c\<in>set (db_conflicts db'). cf_workspace_id c = ws \<and> cf_conflict_id c = sc_conflict_id s"
  proof
    fix s assume s: "s \<in> set staged"
    show "\<exists>c\<in>set (db_conflicts db'). cf_workspace_id c = ws \<and> cf_conflict_id c = sc_conflict_id s"
    proof (cases "s \<in> set (missing ws (List.map_filter (exchanged ws staged) (db_conflicts db)) staged)")
      case True
      then show ?thesis using ws [OF s] by (auto simp: db'_def missing_pruned staged_conflict_def intro!: bexI [of _ "staged_conflict s"])
    next
      case False
      with s show ?thesis by (auto simp: db'_def missing_def list_ex_iff)
    qed
  qed
  show "\<not> foreign ws staged (db_conflicts db')"
    using own ws by (fastforce simp: db'_def foreign_def set_map_filter missing_def staged_conflict_def dest: exchanged_id)
qed (rule staged(2))

text \<open>
  C32: The conflicts of a snapshot replace the stored ones exactly. When the stored rows of the workspace do
  not contradict the staged ones, the exchange succeeds; otherwise it is refused and changes nothing.
  Afterwards a conflict that is new in the snapshot is stored as a manual one. A stored conflict that the
  snapshot has in the same revision keeps its resolution and its candidate, unless it had to be
  refreshed; in another revision it starts again as a manual one. A stored conflict that the snapshot
  no longer has is dropped, or marked for a refresh when it has a resolution. The waiting resolutions of
  the conflicts that start again leave the outbox, and no other operation does. Conflicts of other
  workspaces are not touched, and a second exchange changes nothing.
\<close>

theorem replace_conflicts_exact:
  assumes staged: "staged = stream_conflicts_of ws sid db"
    and keys: "keyed cf_conflict_id (db_conflicts db)" "keyed stream_conflict_key (db_stream_conflicts db)"
    and own: "\<forall>c\<in>set (db_conflicts db). \<forall>s\<in>set staged. sc_conflict_id s = cf_conflict_id c \<longrightarrow> cf_workspace_id c = ws"
  shows "if \<exists>c\<in>set (db_conflicts db). \<exists>s\<in>set staged. sc_conflict_id s = cf_conflict_id c \<and>
        cf_conflict_revision c = sc_conflict_revision s \<and> cf_created_json c \<noteq> sc_created_json s
    then replace_authoritative_conflicts_tx ws sid db = Err OperationChanged
    else \<exists>db'. replace_authoritative_conflicts_tx ws sid db = Ok ((), db') \<and>
      (\<forall>k. conflict_row k db' =
        (case (conflict_row k db, find (\<lambda>s. sc_conflict_id s = k) staged) of
           (None, None) \<Rightarrow> None
         | (None, Some s) \<Rightarrow> Some (staged_conflict s)
         | (Some c, None) \<Rightarrow>
             if cf_workspace_id c \<noteq> ws then Some c
             else if cf_resolution_json c = None then None else Some (c\<lparr>cf_status := RefreshRequired\<rparr>)
         | (Some c, Some s) \<Rightarrow>
             if cf_conflict_revision c = sc_conflict_revision s \<and> cf_status c \<noteq> RefreshRequired
             then Some (c\<lparr>cf_status := if cf_resolution_json c = None then Manual else Resolving\<rparr>)
             else Some (staged_conflict s))) \<and>
      db_outbox db' = filter (\<lambda>w. \<not> (ob_workspace_id w = ws \<and>
        (\<exists>c\<in>set (db_conflicts db). \<exists>s\<in>set staged. sc_conflict_id s = cf_conflict_id c \<and>
          (cf_conflict_revision c \<noteq> sc_conflict_revision s \<or> cf_status c = RefreshRequired) \<and>
          cf_resolution_json c = Some (ob_body_json w) \<and> cf_resolution_digest c = Some (ob_body_digest w)))) (db_outbox db) \<and>
      keyed cf_conflict_id (db_conflicts db') \<and> replace_authoritative_conflicts_tx ws sid db' = Ok ((), db')"
proof -
  have key: "keyed sc_conflict_id staged" unfolding staged by (rule keyed_staged [OF keys(2)])
  have changed: "changed_same_generation ws staged (db_conflicts db) \<longleftrightarrow>
    (\<exists>c\<in>set (db_conflicts db). \<exists>s\<in>set staged. sc_conflict_id s = cf_conflict_id c \<and>
        cf_conflict_revision c = sc_conflict_revision s \<and> cf_created_json c \<noteq> sc_created_json s)"
    using own by (auto simp: changed_same_generation_def list_ex_iff)
  show ?thesis
  proof (cases "changed_same_generation ws staged (db_conflicts db)")
    case True
    then show ?thesis
      unfolding if_P [OF True [unfolded changed]] by (simp add: replace_authoritative_conflicts_tx_def staged [symmetric])
  next
    case same: False
    have own': "\<not> foreign ws staged (db_conflicts db)" using own by (auto simp: foreign_def)
    have ws: "\<forall>s\<in>set staged. sc_workspace_id s = ws" by (simp add: staged stream_conflicts_of_def)
    note eq = replace_eq [OF staged key same own']
    let ?db = "db\<lparr>db_outbox := drop_stale_resolutions ws staged (db_conflicts db) (db_outbox db),
      db_conflicts := List.map_filter (exchanged ws staged) (db_conflicts db) @
        map staged_conflict (missing ws (db_conflicts db) staged)\<rparr>"
    show ?thesis unfolding if_not_P [OF same [unfolded changed]]
    proof (intro exI [of _ ?db] conjI eq allI)
      fix k
      show "conflict_row k ?db = (case (conflict_row k db, find (\<lambda>s. sc_conflict_id s = k) staged) of
           (None, None) \<Rightarrow> None
         | (None, Some s) \<Rightarrow> Some (staged_conflict s)
         | (Some c, None) \<Rightarrow>
             if cf_workspace_id c \<noteq> ws then Some c
             else if cf_resolution_json c = None then None else Some (c\<lparr>cf_status := RefreshRequired\<rparr>)
         | (Some c, Some s) \<Rightarrow>
             if cf_conflict_revision c = sc_conflict_revision s \<and> cf_status c \<noteq> RefreshRequired
             then Some (c\<lparr>cf_status := if cf_resolution_json c = None then Manual else Resolving\<rparr>)
             else Some (staged_conflict s))"
        using find_exchanged [OF keys(1) ws own' same] by (simp add: conflict_row_def)
      show "db_outbox ?db = filter (\<lambda>w. \<not> (ob_workspace_id w = ws \<and>
        (\<exists>c\<in>set (db_conflicts db). \<exists>s\<in>set staged. sc_conflict_id s = cf_conflict_id c \<and>
          (cf_conflict_revision c \<noteq> sc_conflict_revision s \<or> cf_status c = RefreshRequired) \<and>
          cf_resolution_json c = Some (ob_body_json w) \<and> cf_resolution_digest c = Some (ob_body_digest w)))) (db_outbox db)"
        using own by (auto simp: drop_stale_resolutions_def sql_delete_def list_ex_iff stale_def intro!: filter_cong)
      show "keyed cf_conflict_id (db_conflicts ?db)"
        using keyed_exchanged [OF keys(1) key own'] by simp
      show "replace_authoritative_conflicts_tx ws sid ?db = Ok ((), ?db)"
        by (rule replace_again [OF staged key own' refl])
    qed
  qed
qed

definition demo_stored_conflict :: ConflictRecord where
  "demo_stored_conflict = \<lparr>cf_conflict_id = ConflictId 4, cf_workspace_id = demo_ws,
     cf_conflict_revision = WorkspaceConflictRevision 1, cf_created_json = [8], cf_status = Resolving,
     cf_candidate_hash = None, cf_resolution_json = Some [1], cf_resolution_digest = Some (replicate 32 0)\<rparr>"

definition demo_staged_conflict :: StreamConflictRecord where
  "demo_staged_conflict = \<lparr>sc_workspace_id = demo_ws, sc_stream_id = StreamId 3, sc_conflict_id = ConflictId 4,
     sc_conflict_revision = WorkspaceConflictRevision 2, sc_created_json = [9], sc_status = StreamConflictStatus.Received\<rparr>"

definition demo_conflict_db :: database where
  "demo_conflict_db = empty_database\<lparr>db_conflicts := [demo_stored_conflict], db_stream_conflicts := [demo_staged_conflict]\<rparr>"

theorem replace_conflicts_exact_witness:
  "stream_conflicts_of demo_ws (StreamId 3) demo_conflict_db = [demo_staged_conflict] \<and>
   (\<exists>db'. replace_authoritative_conflicts_tx demo_ws (StreamId 3) demo_conflict_db = Ok ((), db') \<and>
      conflict_row (ConflictId 4) db' = Some (staged_conflict demo_staged_conflict) \<and>
      replace_authoritative_conflicts_tx demo_ws (StreamId 3) db' = Ok ((), db'))"
proof -
  have rows: "db_conflicts demo_conflict_db = [demo_stored_conflict]" "db_stream_conflicts demo_conflict_db = [demo_staged_conflict]"
    by (simp_all add: demo_conflict_db_def empty_database_def)
  have staged: "[demo_staged_conflict] = stream_conflicts_of demo_ws (StreamId 3) demo_conflict_db"
    by (simp add: stream_conflicts_of_def rows demo_staged_conflict_def)
  have ids: "cf_conflict_id demo_stored_conflict = ConflictId 4" "sc_conflict_id demo_staged_conflict = ConflictId 4"
    "cf_conflict_revision demo_stored_conflict \<noteq> sc_conflict_revision demo_staged_conflict"
    "cf_workspace_id demo_stored_conflict = demo_ws"
    by (simp_all add: demo_stored_conflict_def demo_staged_conflict_def)
  have "keyed cf_conflict_id (db_conflicts demo_conflict_db)" "keyed stream_conflict_key (db_stream_conflicts demo_conflict_db)"
    "\<forall>c\<in>set (db_conflicts demo_conflict_db). \<forall>s\<in>set [demo_staged_conflict]. sc_conflict_id s = cf_conflict_id c \<longrightarrow> cf_workspace_id c = demo_ws"
    by (simp_all add: rows keyed_def ids)
  note exact = replace_conflicts_exact [OF staged this]
  have "conflict_row (ConflictId 4) demo_conflict_db = Some demo_stored_conflict" by (simp add: conflict_row_def rows ids)
  with exact staged [symmetric] show ?thesis by (auto simp: rows ids dest!: spec [of _ "ConflictId 4"])
qed

end
