(* ===== verification/Sync_Paths.thy ===== *)
theory Sync_Paths
  imports Sync_Outbox Sync_Example
begin

text \<open>
  The tables that are keyed by the path: path states, local intents and the hash cache. Each implements a
  finite map from paths, and the reads see exactly the last writes.
\<close>

section \<open>Tables keyed by workspace and path\<close>

locale path_table =
  fixes rows :: "database \<Rightarrow> 'r list" and key :: "'r \<Rightarrow> WorkspaceId \<times> WorkspacePath"
    and put :: "'r \<Rightarrow> database \<Rightarrow> database" and remove :: "WorkspaceId \<times> WorkspacePath \<Rightarrow> database \<Rightarrow> database"
  assumes rows_put: "rows (put r db) = sql_upsert key r (rows db)"
    and rows_remove: "rows (remove k db) = sql_delete (\<lambda>r. key r = k) (rows db)"
begin

lemma keyed_put: "keyed key (rows db) \<Longrightarrow> keyed key (rows (put r db))"
  by (simp add: rows_put keyed_sql_upsert)

lemma keyed_remove: "keyed key (rows db) \<Longrightarrow> keyed key (rows (remove k db))"
  by (simp add: rows_remove keyed_sql_delete)

lemma lookup_put: "find (\<lambda>x. key x = k) (rows (put r db)) = (if key r = k then Some r else find (\<lambda>x. key x = k) (rows db))"
  by (simp add: rows_put find_sql_upsert)

lemma lookup_remove: "find (\<lambda>x. key x = k) (rows (remove k' db)) = (if k = k' then None else find (\<lambda>x. key x = k) (rows db))"
  by (simp add: rows_remove find_sql_delete)

lemma all_put: "\<forall>x\<in>set (rows db). P x \<Longrightarrow> P r \<Longrightarrow> \<forall>x\<in>set (rows (put r db)). P x"
  by (auto simp: rows_put set_sql_upsert)

lemma all_remove: "\<forall>x\<in>set (rows db). P x \<Longrightarrow> \<forall>x\<in>set (rows (remove k db)). P x"
  by (auto simp: rows_remove table_simps)

text \<open>A listing in the order of the paths has every row of the workspace once.\<close>

lemma listing_sorted:
  assumes "keyed key (rows db)"
  shows "sorted_wrt (<) (map (snd \<circ> key) (sort_key (snd \<circ> key) (filter (\<lambda>x. fst (key x) = ws) (rows db))))"
proof -
  let ?l = "sort_key (snd \<circ> key) (filter (\<lambda>x. fst (key x) = ws) (rows db))"
  have "inj_on key (set (rows db))" "distinct (rows db)" using assms by (simp_all add: keyed_def distinct_map)
  then have "inj_on (snd \<circ> key) (set ?l)" "distinct ?l" by (auto simp: inj_on_def prod_eq_iff)
  then have "distinct (map (snd \<circ> key) ?l)" by (simp add: distinct_map)
  moreover have "sorted (map (snd \<circ> key) ?l)" by simp
  ultimately show ?thesis by (simp only: strict_sorted_iff)
qed

end

interpretation path_state_table: path_table db_path_states path_state_key
  "\<lambda>r db. db\<lparr>db_path_states := sql_upsert path_state_key r (db_path_states db)\<rparr>"
  "\<lambda>k db. db\<lparr>db_path_states := sql_delete (\<lambda>r. path_state_key r = k) (db_path_states db)\<rparr>"
  by unfold_locales simp_all

interpretation intent_table: path_table db_local_intents intent_key
  "\<lambda>r db. db\<lparr>db_local_intents := sql_upsert intent_key r (db_local_intents db)\<rparr>"
  "\<lambda>k db. db\<lparr>db_local_intents := sql_delete (\<lambda>r. intent_key r = k) (db_local_intents db)\<rparr>"
  by unfold_locales simp_all

interpretation hash_cache_table: path_table db_hash_cache hash_cache_key
  "\<lambda>r db. db\<lparr>db_hash_cache := sql_upsert hash_cache_key r (db_hash_cache db)\<rparr>"
  "\<lambda>k db. db\<lparr>db_hash_cache := sql_delete (\<lambda>r. hash_cache_key r = k) (db_hash_cache db)\<rparr>"
  by unfold_locales simp_all

section \<open>Path states\<close>

datatype path_write = PutState WorkspacePathState | RemoveState WorkspacePath

fun run_write :: "store_lib \<Rightarrow> path_write \<Rightarrow> SqliteState \<Rightarrow> SqliteState" where
  "run_write lib (PutState s) st = snd (put_path_state lib s st)"
| "run_write lib (RemoveState p) st = snd (remove_path_state p st)"

text \<open>The specification: a map from paths to states, which refuses states that are invalid or have no JSON text.\<close>

definition accepts_state :: "store_lib \<Rightarrow> WorkspacePathState \<Rightarrow> bool" where
  "accepts_state lib s \<longleftrightarrow> path_state_validate s = Ok () \<and> to_vec (lib_path_state lib) s \<noteq> None"

fun write_effect :: "store_lib \<Rightarrow> path_write \<Rightarrow> (WorkspacePath \<rightharpoonup> WorkspacePathState) \<Rightarrow> (WorkspacePath \<rightharpoonup> WorkspacePathState)" where
  "write_effect lib (PutState s) m = (if accepts_state lib s then m(ps_path s \<mapsto> s) else m)"
| "write_effect lib (RemoveState p) m = m(p := None)"

definition path_inv :: "store_lib \<Rightarrow> database \<Rightarrow> bool" where
  "path_inv lib db \<longleftrightarrow> keyed path_state_key (db_path_states db) \<and>
     (\<forall>r\<in>set (db_path_states db). row_to_path_state lib r \<noteq> None)"

definition state_map :: "store_lib \<Rightarrow> SqliteState \<Rightarrow> (WorkspacePath \<rightharpoonup> WorkspacePathState)" where
  "state_map lib st p =
     Option.bind (find (\<lambda>r. path_state_key r = (st_workspace_id st, p)) (db_path_states (st_conn st)))
       (\<lambda>r. map_option pt_state (row_to_path_state lib r))"

definition state_row :: "store_lib \<Rightarrow> WorkspaceId \<Rightarrow> WorkspacePathState \<Rightarrow> u8 list \<Rightarrow> PathStateRow" where
  "state_row lib ws s json =
     \<lparr>pr_workspace_id = ws, pr_path = ps_path s, pr_state_json = json, pr_state_digest = body_digest lib json\<rparr>"

lemma state_row_readable:
  assumes "store_law lib" "path_state_validate s = Ok ()" "to_vec (lib_path_state lib) s = Some json"
  shows "\<exists>x. row_to_path_state lib (state_row lib ws s json) = Some x \<and> pt_state x = s"
proof -
  have "from_slice (lib_path_state lib) json = Some s"
    using assms by (auto simp: store_law_def intro: codec_lawD)
  with assms show ?thesis
    by (simp add: row_to_path_state_def state_row_def is_ok_iff digest_ok_body_digest)
qed

lemma run_write_refines:
  assumes law: "store_law lib" and inv: "path_inv lib (st_conn st)"
  shows "path_inv lib (st_conn (run_write lib op st)) \<and> state_map lib (run_write lib op st) = write_effect lib op (state_map lib st) \<and>
    st_workspace_id (run_write lib op st) = st_workspace_id st"
proof (cases op)
  case (PutState s)
  let ?ws = "st_workspace_id st"
  show ?thesis
  proof (cases "accepts_state lib s")
    case True
    then obtain json where json: "path_state_validate s = Ok ()" "to_vec (lib_path_state lib) s = Some json"
      by (auto simp: accepts_state_def)
    let ?db = "(st_conn st)\<lparr>db_path_states := sql_upsert path_state_key (state_row lib ?ws s json) (db_path_states (st_conn st))\<rparr>"
    have run: "run_write lib op st = st\<lparr>st_conn := ?db\<rparr>"
      using json by (simp add: PutState put_path_state_def put_path_state_tx_def transaction_def canonical_json_def state_row_def)
    obtain x where x: "row_to_path_state lib (state_row lib ?ws s json) = Some x" "pt_state x = s"
      using state_row_readable [OF law json] by blast
    have "path_inv lib ?db"
      using inv x(1) path_state_table.keyed_put
        path_state_table.all_put [of "st_conn st" "\<lambda>r. row_to_path_state lib r \<noteq> None" "state_row lib ?ws s json"]
      unfolding path_inv_def by simp
    moreover have "path_state_key (state_row lib ?ws s json) = (?ws, ps_path s)" by (simp add: path_state_key_def state_row_def)
    then have "state_map lib (st\<lparr>st_conn := ?db\<rparr>) = (state_map lib st)(ps_path s \<mapsto> s)"
      using x by (auto simp: state_map_def path_state_table.lookup_put [simplified] fun_eq_iff)
    ultimately show ?thesis using True unfolding run by (simp add: PutState)
  next
    case False
    then have "run_write lib op st = st"
      by (auto simp: PutState put_path_state_def put_path_state_tx_def transaction_def accepts_state_def result_simps
          split: result.splits)
    with False inv show ?thesis by (simp add: PutState)
  qed
next
  case (RemoveState p)
  let ?db = "(st_conn st)\<lparr>db_path_states := sql_delete (\<lambda>r. path_state_key r = (st_workspace_id st, p)) (db_path_states (st_conn st))\<rparr>"
  have run: "run_write lib op st = st\<lparr>st_conn := ?db\<rparr>"
    by (simp add: RemoveState remove_path_state_def remove_path_state_tx_def transaction_def)
  have "path_inv lib ?db"
    using inv path_state_table.keyed_remove path_state_table.all_remove [of "st_conn st" "\<lambda>r. row_to_path_state lib r \<noteq> None"]
    unfolding path_inv_def by simp
  moreover have "state_map lib (st\<lparr>st_conn := ?db\<rparr>) = (state_map lib st)(p := None)"
    by (auto simp: state_map_def path_state_table.lookup_remove [simplified] fun_eq_iff)
  ultimately show ?thesis unfolding run by (simp add: RemoveState)
qed

lemma run_writes_refine:
  assumes law: "store_law lib" and inv: "path_inv lib (st_conn st)"
  shows "path_inv lib (st_conn (fold (run_write lib) ops st)) \<and>
    state_map lib (fold (run_write lib) ops st) = fold (write_effect lib) ops (state_map lib st) \<and>
    st_workspace_id (fold (run_write lib) ops st) = st_workspace_id st"
  using inv
proof (induction ops arbitrary: st)
  case (Cons op ops)
  from Cons.IH [OF conjunct1 [OF run_write_refines [OF law Cons.prems, of op]]] run_write_refines [OF law Cons.prems, of op]
  show ?case by simp
qed simp

lemma path_state_read:
  assumes "path_inv lib (st_conn st)" "path_parse (lib_nfc lib) text = Ok p"
  shows "\<exists>r. path_state lib text st = Ok r \<and> map_option pt_state r = state_map lib st p"
proof (cases "find (\<lambda>r. path_state_key r = (st_workspace_id st, p)) (db_path_states (st_conn st))")
  case (Some r)
  then obtain x where "row_to_path_state lib r = Some x"
    using assms(1) by (fastforce simp: path_inv_def dest: find_SomeD)
  with Some assms(2) show ?thesis by (simp add: path_state_def parse_path_arg_def query_optional_def state_map_def)
qed (use assms in \<open>simp add: path_state_def parse_path_arg_def query_optional_def state_map_def\<close>)

lemma path_states_read:
  assumes inv: "path_inv lib (st_conn st)"
  shows "\<exists>rs. path_states lib st = Ok rs \<and> sorted_wrt (<) (map pt_path rs) \<and>
    (\<forall>p s. state_map lib st p = Some s \<longleftrightarrow> (\<exists>r\<in>set rs. pt_path r = p \<and> pt_state r = s))"
proof -
  let ?l = "sort_key pr_path (filter (\<lambda>r. pr_workspace_id r = st_workspace_id st) (db_path_states (st_conn st)))"
  have keyed: "keyed path_state_key (db_path_states (st_conn st))" using inv by (simp add: path_inv_def)
  have read: "\<forall>r\<in>set ?l. row_to_path_state lib r \<noteq> None" using inv by (simp add: path_inv_def)
  have path: "pt_path (the (row_to_path_state lib r)) = pr_path r" if "r \<in> set ?l" for r
    using read that by (auto simp: row_to_path_state_def split: option.splits if_splits)
  have "map pt_path (map (the \<circ> row_to_path_state lib) ?l) = map pr_path ?l" using path by simp
  moreover have "sorted_wrt (<) (map pr_path ?l)"
    using path_state_table.listing_sorted [OF keyed, of "st_workspace_id st"] by (simp add: path_state_key_def comp_def)
  moreover have "state_map lib st p = Some s \<longleftrightarrow> (\<exists>r\<in>set (map (the \<circ> row_to_path_state lib) ?l). pt_path r = p \<and> pt_state r = s)"
    (is "_ \<longleftrightarrow> ?listed") for p s
  proof
    assume "state_map lib st p = Some s"
    then obtain r x where r: "find (\<lambda>r. path_state_key r = (st_workspace_id st, p)) (db_path_states (st_conn st)) = Some r"
      "row_to_path_state lib r = Some x" "pt_state x = s" by (auto simp: state_map_def bind_eq_Some_conv)
    then have "r \<in> set ?l" "pr_path r = p" by (auto simp: path_state_key_def dest!: find_SomeD)
    with r path [of r] show ?listed by (force intro: bexI [of _ x])
  next
    assume ?listed
    then obtain r where r: "r \<in> set ?l" "pr_path r = p" "pt_state (the (row_to_path_state lib r)) = s" using path by auto
    then have "find (\<lambda>r. path_state_key r = (st_workspace_id st, p)) (db_path_states (st_conn st)) = Some r"
      using find_keyed [OF keyed] by (auto simp: path_state_key_def)
    with r read show "state_map lib st p = Some s" by (auto simp: state_map_def)
  qed
  ultimately show ?thesis
    using query_map_total [OF read] by (intro exI [of _ "map (the \<circ> row_to_path_state lib) ?l"]) (simp add: path_states_def del: map_map)
qed

text \<open>
  C33: The path states implement a map from paths to states. After any sequence of writes and removals a
  look-up by a valid path reads exactly what the map has, a look-up by an invalid path is refused, and
  the listing has every stored path once, in the order of the paths. No read reports a corrupt row.
\<close>

theorem path_states_refine_map:
  assumes law: "store_law lib" and inv: "path_inv lib (st_conn st)"
  shows "let st' = fold (run_write lib) ops st; m = fold (write_effect lib) ops (state_map lib st) in
    (\<forall>text p. path_parse (lib_nfc lib) text = Ok p \<longrightarrow> (\<exists>r. path_state lib text st' = Ok r \<and> map_option pt_state r = m p)) \<and>
    (\<forall>text e. path_parse (lib_nfc lib) text = Err e \<longrightarrow>
      path_state lib text st' = Err (InvalidConfiguration ''invalid_path'')) \<and>
    (\<exists>rs. path_states lib st' = Ok rs \<and> sorted_wrt (<) (map pt_path rs) \<and>
      (\<forall>p s. m p = Some s \<longleftrightarrow> (\<exists>r\<in>set rs. pt_path r = p \<and> pt_state r = s)))"
proof -
  let ?st = "fold (run_write lib) ops st"
  note run = run_writes_refine [OF law inv, of ops]
  then have inv': "path_inv lib (st_conn ?st)" by simp
  have m: "fold (write_effect lib) ops (state_map lib st) = state_map lib ?st" using run by simp
  show ?thesis
    unfolding Let_def m using path_state_read [OF inv'] path_states_read [OF inv']
    by (simp add: path_state_def [of lib _ ?st] parse_path_arg_def) 
qed

theorem path_states_refine_map_witness:
  "path_inv demo_store (st_conn demo_state) \<and> state_map demo_store demo_state = Map.empty \<and>
   (\<exists>r. path_state demo_store ''a'' (fold (run_write demo_store) [PutState (demo_dir ''a'' 1)] demo_state) = Ok r \<and>
      map_option pt_state r = Some (demo_dir ''a'' 1))"
proof -
  have inv: "path_inv demo_store (st_conn demo_state)" by (simp add: path_inv_def demo_state_def empty_database_def)
  have init: "state_map demo_store demo_state = Map.empty"
    by (simp add: state_map_def demo_state_def empty_database_def fun_eq_iff)
  have path: "path_parse (lib_nfc demo_store) ''a'' = Ok (WorkspacePath ''a'')"
    by (simp add: demo_store_def) code_simp
  have accepts: "accepts_state demo_store (demo_dir ''a'' 1)"
    by (simp add: accepts_state_def demo_store_def table_codec_def path_state_validate_def demo_dir_def demo_metadata_def
        metadata_validate_Ok_iff metadata_wf_def result_simps)
  have "fold (write_effect demo_store) [PutState (demo_dir ''a'' 1)] (state_map demo_store demo_state) (WorkspacePath ''a'') =
      Some (demo_dir ''a'' 1)"
    using accepts by (simp add: init) (simp add: demo_dir_def)
  with path path_states_refine_map [OF demo_store_law inv, of "[PutState (demo_dir ''a'' 1)]", unfolded Let_def]
  have "\<exists>r. path_state demo_store ''a'' (fold (run_write demo_store) [PutState (demo_dir ''a'' 1)] demo_state) = Ok r \<and>
      map_option pt_state r = Some (demo_dir ''a'' 1)" by metis
  with inv init show ?thesis by blast
qed

section \<open>Hash cache\<close>

datatype cache_write = StoreHash WorkspacePath FileFingerprint WorkspaceContentHash | InvalidateHash WorkspacePath

fun run_cache :: "store_lib \<Rightarrow> cache_write \<Rightarrow> SqliteState \<Rightarrow> SqliteState" where
  "run_cache lib (StoreHash p fp h) st = snd (cache_store lib p fp h st)"
| "run_cache lib (InvalidateHash p) st = snd (cache_invalidate p st)"

definition accepts_hash :: "store_lib \<Rightarrow> FileFingerprint \<Rightarrow> WorkspaceContentHash \<Rightarrow> bool" where
  "accepts_hash lib fp h \<longleftrightarrow> to_vec (lib_fingerprint lib) fp \<noteq> None \<and> content_hash_parse (hash_str h) = Ok h"

fun cache_effect :: "store_lib \<Rightarrow> cache_write \<Rightarrow> (WorkspacePath \<rightharpoonup> FileFingerprint \<times> WorkspaceContentHash) \<Rightarrow>
    (WorkspacePath \<rightharpoonup> FileFingerprint \<times> WorkspaceContentHash)" where
  "cache_effect lib (StoreHash p fp h) m = (if accepts_hash lib fp h then m(p \<mapsto> (fp, h)) else m)"
| "cache_effect lib (InvalidateHash p) m = m(p := None)"

text \<open>The table that a map describes: every row has the JSON text of its fingerprint and a valid hash.\<close>

definition cache_row :: "WorkspaceId \<Rightarrow> WorkspacePath \<Rightarrow> database \<Rightarrow> HashCacheRow option" where
  "cache_row ws p db = find (\<lambda>r. hash_cache_key r = (ws, p)) (db_hash_cache db)"

fun cache_entry :: "store_lib \<Rightarrow> HashCacheRow option \<Rightarrow> (FileFingerprint \<times> WorkspaceContentHash) option \<Rightarrow> bool" where
  "cache_entry lib (Some r) (Some (fp, h)) \<longleftrightarrow>
     from_slice (lib_fingerprint lib) (hc_fingerprint_json r) = Some fp \<and> content_hash_parse (hc_content_hash r) = Ok h"
| "cache_entry lib r e \<longleftrightarrow> r = None \<and> e = None"

definition cache_abs :: "store_lib \<Rightarrow> SqliteState \<Rightarrow> (WorkspacePath \<rightharpoonup> FileFingerprint \<times> WorkspaceContentHash) \<Rightarrow> bool" where
  "cache_abs lib st m \<longleftrightarrow> (\<forall>p. cache_entry lib (cache_row (st_workspace_id st) p (st_conn st)) (m p))"

lemma cache_row_put [simp]:
  "cache_row ws q (db\<lparr>db_hash_cache := sql_upsert hash_cache_key r (db_hash_cache db)\<rparr>) =
    (if hash_cache_key r = (ws, q) then Some r else cache_row ws q db)"
  by (simp add: cache_row_def hash_cache_table.lookup_put [simplified])

lemma cache_row_remove [simp]:
  "cache_row ws q (db\<lparr>db_hash_cache := sql_delete (\<lambda>r. hash_cache_key r = k) (db_hash_cache db)\<rparr>) =
    (if (ws, q) = k then None else cache_row ws q db)"
  by (simp add: cache_row_def hash_cache_table.lookup_remove [simplified])

lemma run_cache_refines:
  assumes law: "store_law lib" and abs: "cache_abs lib st m"
  shows "cache_abs lib (run_cache lib op st) (cache_effect lib op m)"
proof (cases op)
  case (StoreHash p fp h)
  show ?thesis
  proof (cases "accepts_hash lib fp h")
    case True
    then obtain json where json: "to_vec (lib_fingerprint lib) fp = Some json" "content_hash_parse (hash_str h) = Ok h"
      by (auto simp: accepts_hash_def)
    then have "from_slice (lib_fingerprint lib) json = Some fp" using law by (auto simp: store_law_def intro: codec_lawD)
    moreover have "hash_cache_key \<lparr>hc_workspace_id = st_workspace_id st, hc_path = p, hc_fingerprint_json = json,
        hc_content_hash = hash_str h\<rparr> = (st_workspace_id st, p)" by (simp add: hash_cache_key_def)
    ultimately show ?thesis
      using json abs True by (simp add: StoreHash cache_store_def cache_abs_def)
  next
    case False
    then have "run_cache lib op st = st"
      by (auto simp: StoreHash cache_store_def accepts_hash_def content_hash_text.parse_Ok_iff result_simps
          dest: WorkspaceContentHash.expand split: result.splits)
    with False abs show ?thesis by (simp add: StoreHash)
  qed
next
  case (InvalidateHash p)
  with abs show ?thesis
    by (auto simp: cache_invalidate_def cache_abs_def)
qed

text \<open>
  C34: The hash cache never answers for a file that has changed. After any sequence of stores and
  invalidations, a look-up answers with a hash exactly when the last accepted store for the path was made
  under the same fingerprint and has not been invalidated since, and then with the hash that was stored;
  it never reports an invalid row.
\<close>

theorem hash_cache_exact:
  assumes law: "store_law lib" and empty: "db_hash_cache (st_conn st) = []"
  shows "cache_lookup lib p fp (fold (run_cache lib) ops st) =
    Ok (case fold (cache_effect lib) ops Map.empty p of
          Some (fp', h) \<Rightarrow> if fp' = fp then Some h else None | None \<Rightarrow> None)"
proof -
  have "cache_abs lib (fold (run_cache lib) ops st) (fold (cache_effect lib) ops m)" if "cache_abs lib st m" for m st
    using that run_cache_refines [OF law] by (induction ops arbitrary: st m) auto
  moreover have "cache_abs lib st Map.empty" using empty by (simp add: cache_abs_def cache_row_def)
  ultimately have "cache_abs lib (fold (run_cache lib) ops st) (fold (cache_effect lib) ops Map.empty)" by blast
  then have entry: "cache_entry lib (cache_row (st_workspace_id (fold (run_cache lib) ops st)) p (st_conn (fold (run_cache lib) ops st)))
      (fold (cache_effect lib) ops Map.empty p)" by (simp add: cache_abs_def)
  show ?thesis
    unfolding cache_lookup_def cache_row_def [symmetric]
    using entry by (auto elim: cache_entry.elims split: option.splits)
qed

definition demo_cache_store :: store_lib where
  "demo_cache_store = demo_store\<lparr>lib_fingerprint := table_codec [(synthetic_suppression_fingerprint, [10])]\<rparr>"

lemma demo_cache_store_law: "store_law demo_cache_store"
  by (simp add: store_law_def demo_cache_store_def demo_store_def table_codec_law raw_uuid_law) (simp add: table_codec_def)

definition demo_hash :: WorkspaceContentHash where
  "demo_hash = WorkspaceContentHash (''blake3:'' @ replicate 64 (CHR ''0''))"

theorem hash_cache_exact_witness:
  "db_hash_cache (st_conn demo_state) = [] \<and>
   cache_lookup demo_cache_store (WorkspacePath ''a'') synthetic_suppression_fingerprint
     (fold (run_cache demo_cache_store)
       [StoreHash (WorkspacePath ''a'') synthetic_suppression_fingerprint demo_hash, InvalidateHash (WorkspacePath ''b'')]
       demo_state) = Ok (Some demo_hash)"
proof -
  have "content_hash_parse (hash_str demo_hash) = Ok demo_hash" by code_simp
  then have "accepts_hash demo_cache_store synthetic_suppression_fingerprint demo_hash"
    by (simp add: accepts_hash_def demo_cache_store_def table_codec_def)
  moreover have empty: "db_hash_cache (st_conn demo_state) = []" by (simp add: demo_state_def empty_database_def)
  ultimately show ?thesis
    using hash_cache_exact [OF demo_cache_store_law empty, of "WorkspacePath ''a''" synthetic_suppression_fingerprint
        "[StoreHash (WorkspacePath ''a'') synthetic_suppression_fingerprint demo_hash, InvalidateHash (WorkspacePath ''b'')]"]
    by simp
qed

end
