(* ===== verification/Engine_Paths.thy ===== *)
theory Engine_Paths
  imports Sync_Reconcile
begin

text \<open>
  The pure helpers of \<open>fns-sync-core/src/engine.rs\<close> on paths, desired operations and messages: when two
  paths intersect, which deferred operations belong together, how two wishes for one path are merged,
  and when a message of the server is the answer to what the client asked.
\<close>

section \<open>Paths\<close>

definition path_is_descendant :: "WorkspacePath \<Rightarrow> WorkspacePath \<Rightarrow> bool" where
  "path_is_descendant path ancestor =
     (case strip_prefix (path_str path) (path_str ancestor) of
        None \<Rightarrow> False | Some rest \<Rightarrow> starts_with rest ''/'')"

definition paths_intersect :: "WorkspacePath \<Rightarrow> WorkspacePath \<Rightarrow> bool" where
  "paths_intersect left right =
     (left = right \<or> path_is_descendant left right \<or> path_is_descendant right left)"

definition path_is_in_scopes :: "WorkspacePath \<Rightarrow> WorkspacePath list \<Rightarrow> bool" where
  "path_is_in_scopes path scopes = list_ex (\<lambda>scope. path = scope \<or> path_is_descendant path scope) scopes"

definition descendant_suffix :: "WorkspacePath \<Rightarrow> WorkspacePath \<Rightarrow> string option" where
  "descendant_suffix path root =
     (case strip_prefix (path_str path) (path_str root) of None \<Rightarrow> None | Some rest \<Rightarrow> strip_prefix rest ''/'')"

fun unique_loop :: "WorkspacePath list \<Rightarrow> WorkspacePath list \<Rightarrow> WorkspacePath list" where
  "unique_loop unique [] = unique"
| "unique_loop unique (path # paths) =
     unique_loop (if path \<in> set unique then unique else unique @ [path]) paths"

definition unique_paths :: "WorkspacePath list \<Rightarrow> WorkspacePath list" where
  "unique_paths paths = unique_loop [] paths"

definition paths_for_desired_operations :: "WorkspacePath list \<Rightarrow> DesiredOperation list \<Rightarrow> WorkspacePath list" where
  "paths_for_desired_operations touched desired = unique_paths (touched @ concat (map desired_paths desired))"

definition mutation_paths :: "WorkspaceMutation \<Rightarrow> WorkspacePath list" where
  "mutation_paths m = wm_path m # (case wm_new_path m of None \<Rightarrow> [] | Some new_path \<Rightarrow> [new_path])"

section \<open>Deferred operations that belong together\<close>

definition touches :: "WorkspacePath list \<Rightarrow> DesiredOperation \<Rightarrow> bool" where
  "touches closure desired = list_ex (\<lambda>path. list_ex (paths_intersect path) closure) (desired_paths desired)"

text \<open>One pass of the loop over the deferred operations, with the flag that a path was added.\<close>

fun closure_push :: "WorkspacePath list \<Rightarrow> WorkspacePath list \<times> bool \<Rightarrow> WorkspacePath list \<times> bool" where
  "closure_push [] acc = acc"
| "closure_push (path # paths) (closure, changed) =
     closure_push paths (if path \<in> set closure then (closure, changed) else (closure @ [path], True))"

fun closure_pass :: "(WorkspacePath \<times> DesiredOperation) list \<Rightarrow> WorkspacePath list \<times> bool \<Rightarrow> WorkspacePath list \<times> bool" where
  "closure_pass [] acc = acc"
| "closure_pass ((record_path, desired) # existing) (closure, changed) =
     closure_pass existing
       (if touches closure desired then closure_push (desired_paths desired) (closure, changed) else (closure, changed))"

partial_function (option) closure_loop ::
    "(WorkspacePath \<times> DesiredOperation) list \<Rightarrow> WorkspacePath list \<Rightarrow> WorkspacePath list option" where
  "closure_loop existing closure =
     (case closure_pass existing (closure, False) of
        (closure', changed) \<Rightarrow> if changed then closure_loop existing closure' else Some closure')"

declare closure_loop.simps [code]

definition rename_intent_closure ::
    "WorkspacePath list \<Rightarrow> (WorkspacePath \<times> DesiredOperation) list \<Rightarrow> (WorkspacePath list \<times> WorkspacePath list) option" where
  "rename_intent_closure initial_paths existing =
     map_option (\<lambda>closure.
       let closure = remdups_adj (sort closure)
       in (closure, remdups_adj (sort (map fst (filter (\<lambda>(_, desired). touches closure desired) existing)))))
     (closure_loop existing initial_paths)"

fun desired_operation_covers_path :: "DesiredOperation \<Rightarrow> WorkspacePath \<Rightarrow> bool" where
  "desired_operation_covers_path (DesiredRename from to Directory content_hash metadata) path =
     (path = from \<or> path = to \<or> path_is_descendant path from \<or> path_is_descendant path to)"
| "desired_operation_covers_path desired path = (path \<in> set (desired_paths desired))"

fun desired_operation_key :: "DesiredOperation \<Rightarrow> string \<times> string \<times> u8" where
  "desired_operation_key (Upsert entry) = (path_str (de_path entry), [], 0)"
| "desired_operation_key (DesiredDelete path) = (path_str path, [], 1)"
| "desired_operation_key (DesiredRename from to kind content_hash metadata) = (path_str from, path_str to, 2)"

fun merge_deferred_desired :: "DesiredOperation \<Rightarrow> DesiredOperation \<Rightarrow> DesiredOperation" where
  "merge_deferred_desired (DesiredRename from to k h m) (Upsert entry) =
     (if de_path entry = to
      then DesiredRename from to (de_kind entry) (de_content_hash entry) (de_metadata entry) else Upsert entry)"
| "merge_deferred_desired (DesiredRename from to k h m) (DesiredRename from' to' kind content_hash metadata) =
     (if from' = to then DesiredRename from to' kind content_hash metadata
      else DesiredRename from' to' kind content_hash metadata)"
| "merge_deferred_desired (DesiredRename from to k h m) (DesiredDelete path) =
     (if path = to then DesiredDelete from else DesiredDelete path)"
| "merge_deferred_desired current incoming = incoming"

section \<open>Remote states\<close>

definition remote_matches_entry :: "WorkspacePathState \<Rightarrow> LocalDesiredEntry \<Rightarrow> bool" where
  "remote_matches_entry state entry =
     (ps_path state = de_path entry \<and> ps_kind state = de_kind entry \<and> ps_content_hash state = de_content_hash entry \<and>
      ps_metadata state = de_metadata entry \<and> ps_tombstone state = (de_kind entry = Tombstone))"

definition same_rename_identity :: "WorkspacePathState \<Rightarrow> LocalDesiredEntry \<Rightarrow> bool" where
  "same_rename_identity state entry =
     (ps_kind state = de_kind entry \<and> ps_content_hash state = de_content_hash entry \<and>
      md_size (ps_metadata state) = md_size (de_metadata entry) \<and>
      md_executable (ps_metadata state) = md_executable (de_metadata entry))"

fun desired_matches_remote :: "DesiredOperation \<Rightarrow> (WorkspacePath \<rightharpoonup> WorkspacePathState) \<Rightarrow> bool" where
  "desired_matches_remote (Upsert entry) states =
     (case states (de_path entry) of None \<Rightarrow> False | Some state \<Rightarrow> remote_matches_entry state entry)"
| "desired_matches_remote (DesiredDelete path) states =
     (case states path of None \<Rightarrow> True
      | Some state \<Rightarrow> ps_kind state = Tombstone \<and> ps_tombstone state \<and> is_null (ps_content_hash state))"
| "desired_matches_remote (DesiredRename from to kind content_hash metadata) states =
     ((case states from of None \<Rightarrow> False | Some state \<Rightarrow> ps_kind state = Tombstone \<and> ps_tombstone state) \<and>
      (case states to of None \<Rightarrow> False
       | Some state \<Rightarrow> ps_kind state = kind \<and> ps_content_hash state = content_hash \<and> ps_metadata state = metadata \<and>
           ps_tombstone state = (kind = Tombstone)))"

definition replacement_desired_against_states ::
    "DesiredOperation \<Rightarrow> (WorkspacePath \<rightharpoonup> WorkspacePathState) \<Rightarrow> DesiredOperation" where
  "replacement_desired_against_states desired states =
     (case desired of
        DesiredRename from to kind content_hash metadata \<Rightarrow>
          if desired_matches_remote desired states \<or>
             (case states from of None \<Rightarrow> False | Some state \<Rightarrow> ps_kind state \<noteq> Tombstone \<and> \<not> ps_tombstone state)
          then desired
          else Upsert \<lparr>de_path = to, de_kind = kind, de_content_hash = content_hash, de_metadata = metadata\<rparr>
      | _ \<Rightarrow> desired)"

section \<open>Directory subtrees\<close>

text \<open>
  A \<open>BTreeMap\<close> is walked in the order of its keys: the association list of the map in that order. The
  hasher is fed piece by piece, so the digest is that of the concatenation; \<open>blake3\<close> is a parameter.
\<close>

record DirectorySubtreeSummary =
  dss_digest :: "u8 list"
  dss_entry_count :: nat

definition le_bytes :: "nat \<Rightarrow> nat \<Rightarrow> u8 list" where
  "le_bytes n x = rev (be_bytes n x)"

definition string_bytes :: "string \<Rightarrow> u8 list" where
  "string_bytes s = map of_char s"

definition update_length_prefixed :: "u8 list \<Rightarrow> u8 list" where
  "update_length_prefixed bytes = le_bytes 8 (length bytes) @ bytes"

definition subtree_kind :: "WorkspaceEntryKind \<Rightarrow> u8" where
  "subtree_kind kind = (case kind of File \<Rightarrow> 1 | Directory \<Rightarrow> 2 | Symlink \<Rightarrow> 3 | Tombstone \<Rightarrow> 4)"

definition update_directory_subtree_summary ::
    "string \<Rightarrow> WorkspaceEntryKind \<Rightarrow> WorkspaceContentHash RequiredNullable \<Rightarrow> u64 \<Rightarrow> bool \<Rightarrow> u8 list" where
  "update_directory_subtree_summary relative kind content_hash byte_size executable =
     update_length_prefixed (string_bytes relative) @ [subtree_kind kind] @
     (case content_hash of Null \<Rightarrow> [0] | Value hash \<Rightarrow> 1 # update_length_prefixed (string_bytes (hash_str hash))) @
     le_bytes 8 (unat byte_size) @ [if executable then 1 else 0]"

definition live_states :: "(WorkspacePath \<times> WorkspacePathState) list \<Rightarrow> (WorkspacePath \<times> WorkspacePathState) list" where
  "live_states remote = filter (\<lambda>(_, state). ps_kind state \<noteq> Tombstone \<and> \<not> ps_tombstone state) remote"

definition below :: "WorkspacePath \<Rightarrow> (WorkspacePath \<times> 'e) list \<Rightarrow> (string \<times> 'e) list" where
  "below root entries =
     List.map_filter (\<lambda>(path, e). map_option (\<lambda>relative. (relative, e)) (descendant_suffix path root)) entries"

definition SUBTREE_PREFIX :: "u8 list" where
  "SUBTREE_PREFIX = string_bytes ''fns-directory-subtree-summary-v1'' @ [0]"

definition remote_directory_subtree_identity ::
    "(u8 list \<Rightarrow> u8 list) \<Rightarrow> WorkspacePath \<Rightarrow> (WorkspacePath \<times> WorkspacePathState) list \<Rightarrow> DirectorySubtreeSummary" where
  "remote_directory_subtree_identity blake3 root remote =
     (let entries = below root (live_states remote)
      in \<lparr>dss_digest = blake3 (SUBTREE_PREFIX @ concat (map (\<lambda>(relative, state).
            update_directory_subtree_summary relative (ps_kind state) (ps_content_hash state)
              (md_size (ps_metadata state)) (md_executable (ps_metadata state))) entries)),
          dss_entry_count = length entries\<rparr>)"

definition current_directory_subtree_identity ::
    "(u8 list \<Rightarrow> u8 list) \<Rightarrow> WorkspacePath \<Rightarrow> (WorkspacePath \<times> LocalDesiredEntry) list \<Rightarrow> DirectorySubtreeSummary" where
  "current_directory_subtree_identity blake3 root current =
     (let entries = below root current
      in \<lparr>dss_digest = blake3 (SUBTREE_PREFIX @ concat (map (\<lambda>(relative, e).
            update_directory_subtree_summary relative (de_kind e) (de_content_hash e)
              (md_size (de_metadata e)) (md_executable (de_metadata e))) entries)),
          dss_entry_count = length entries\<rparr>)"

fun match_entries :: "(string \<times> WorkspacePathState) list \<Rightarrow> (string \<times> LocalDesiredEntry) list \<Rightarrow> bool" where
  "match_entries [] [] = True"
| "match_entries ((old_relative, old) # olds) ((new_relative, new) # news) =
     (if old_relative = new_relative \<and> ps_kind old = de_kind new \<and> ps_content_hash old = de_content_hash new \<and>
         md_size (ps_metadata old) = md_size (de_metadata new) \<and>
         md_executable (ps_metadata old) = md_executable (de_metadata new)
      then match_entries olds news else False)"
| "match_entries _ _ = False"

definition directory_subtrees_exact_match ::
    "WorkspacePath \<Rightarrow> WorkspacePath \<Rightarrow> (WorkspacePath \<times> WorkspacePathState) list \<Rightarrow>
     (WorkspacePath \<times> LocalDesiredEntry) list \<Rightarrow> bool" where
  "directory_subtrees_exact_match old_root new_root remote current =
     match_entries (below old_root (live_states remote)) (below new_root current)"

section \<open>Messages and requests\<close>

definition acceptance_from_event :: "WorkspaceEventMessage \<Rightarrow> WorkspaceMutationAcceptedMessage" where
  "acceptance_from_event event =
     \<lparr>ma_workspace_id = ev_workspace_id event, ma_client_id = ev_origin_client_id event,
      ma_operation_id = ev_operation_id event, ma_revision = ev_revision event, ma_path_state = ev_path_state event,
      ma_old_path_state = ev_old_path_state event, ma_new_path_state = ev_new_path_state event\<rparr>"

definition same_acceptance_result :: "WorkspaceMutationAcceptedMessage \<Rightarrow> WorkspaceMutationAcceptedMessage \<Rightarrow> bool" where
  "same_acceptance_result left right =
     (ma_revision left = ma_revision right \<and> ma_path_state left = ma_path_state right \<and>
      ma_old_path_state left = ma_old_path_state right \<and> ma_new_path_state left = ma_new_path_state right)"

text \<open>The states of a validated rename are present; the \<open>expect\<close> of the code is the \<open>None\<close> here.\<close>

definition event_post_states :: "WorkspaceEventMessage \<Rightarrow> WorkspacePathState list option" where
  "event_post_states event =
     (if wm_kind (ev_mutation event) = WorkspaceMutationKind.Rename
      then (case (ev_old_path_state event, ev_new_path_state event) of
              (Some old, Some new) \<Rightarrow> Some [old, new] | _ \<Rightarrow> None)
      else Some [ev_path_state event])"

definition resolution_identity_matches_request ::
    "WorkspaceConflictResolvedMessage \<Rightarrow> WorkspaceConflictResolvedRequest \<Rightarrow> bool" where
  "resolution_identity_matches_request message request =
     (cr_workspace_id message = rq_workspace_id request \<and> cr_conflict_id message = rq_conflict_id request \<and>
      cr_conflict_revision message = rq_conflict_revision request \<and>
      cr_operation_id message = rq_operation_id request \<and> cr_resolved_by_client_id message = rq_client_id request \<and>
      cr_choice message = rq_choice request \<and> ps_path (cr_path_state message) = rq_path request)"

definition rename_current_resolved_as_authoritative_tombstone ::
    "WorkspaceConflictResolvedMessage \<Rightarrow> WorkspaceConflictResolvedRequest \<Rightarrow> WorkspaceConflictCreatedMessage option \<Rightarrow> bool" where
  "rename_current_resolved_as_authoritative_tombstone message request created =
     (case created of
        None \<Rightarrow> False
      | Some created \<Rightarrow>
          cc_workspace_id created = rq_workspace_id request \<and> cc_conflict_id created = rq_conflict_id request \<and>
          cc_conflict_revision created = rq_conflict_revision request \<and> cc_kind created = WorkspaceConflictKind.Rename \<and>
          rq_choice request = Current \<and> cc_path created = rq_path request \<and>
          cs_path (cc_current created) = Value (rq_path request) \<and>
          ps_kind (cr_path_state message) = Tombstone \<and> is_null (ps_content_hash (cr_path_state message)) \<and>
          ps_metadata (cr_path_state message) = zero_metadata \<and> ps_tombstone (cr_path_state message))"

definition resolved_matches_request ::
    "WorkspaceConflictResolvedMessage \<Rightarrow> WorkspaceConflictResolvedRequest \<Rightarrow> WorkspaceConflictCreatedMessage option \<Rightarrow> bool" where
  "resolved_matches_request message request created =
     (if \<not> resolution_identity_matches_request message request then False
      else
        let state = cr_path_state message;
            deletes = (rq_choice request = WorkspaceConflictChoice.Delete);
            expected_kind = (if deletes then Tombstone
                             else if is_null (rq_content_hash request) then Directory else File);
            exact_body = (ps_kind state = expected_kind \<and> ps_content_hash state = rq_content_hash request \<and>
                          ps_metadata state = rq_metadata request \<and> ps_tombstone state = deletes)
        in exact_body \<or> rename_current_resolved_as_authoritative_tombstone message request created)"

definition mutation_matches_conflict_origin :: "WorkspaceMutation \<Rightarrow> WorkspaceConflictCreatedMessage \<Rightarrow> bool" where
  "mutation_matches_conflict_origin m created =
     (if wm_workspace_id m \<noteq> cc_workspace_id created \<or> wm_operation_id m \<noteq> cc_created_by_operation_id created \<or>
         wm_path m \<noteq> cc_path created \<or> wm_base_path_revision m \<noteq> cs_path_revision (cc_ancestor created)
      then False
      else
        let side = (\<lambda>path revision tombstone.
              \<lparr>cs_path = path, cs_path_revision = revision, cs_content_hash = wm_content_hash m,
               cs_metadata = wm_metadata m, cs_tombstone = tombstone\<rparr> = cc_incoming created);
            renames = (cc_kind created = WorkspaceConflictKind.Rename)
        in case wm_kind m of
             UpsertFile \<Rightarrow> \<not> renames \<and> side (Value (wm_path m)) (wm_base_path_revision m) False
           | WorkspaceMutationKind.Delete \<Rightarrow> \<not> renames \<and> side Null (wm_base_path_revision m) True
           | WorkspaceMutationKind.Rename \<Rightarrow> renames \<and>
               (case wm_new_path m of
                  None \<Rightarrow> False
                | Some new_path \<Rightarrow>
                    side (Value new_path)
                      (case wm_target_base_path_revision m of None \<Rightarrow> wm_base_path_revision m | Some r \<Rightarrow> r) False)
           | _ \<Rightarrow> False)"

definition validate_acceptance_shape ::
    "WorkspaceMutation \<Rightarrow> WorkspaceMutationAcceptedMessage \<Rightarrow> (unit, SyncError) result" where
  "validate_acceptance_shape m accepted =
     (if wm_kind m = WorkspaceMutationKind.Rename then
        (case (ma_old_path_state accepted, ma_new_path_state accepted, wm_new_path m) of
           (Some old, Some new, Some expected_new) \<Rightarrow>
             fail_if (ps_path old \<noteq> wm_path m \<or> ps_path new \<noteq> expected_new \<or> ma_path_state accepted \<noteq> new)
               (ProtocolInvariant ''rename_acceptance_path_mismatch'') (Ok ())
         | _ \<Rightarrow> Err (ProtocolInvariant ''rename_acceptance_pair_missing''))
      else
        fail_if (ma_old_path_state accepted \<noteq> None \<or> ma_new_path_state accepted \<noteq> None \<or>
                 ps_path (ma_path_state accepted) \<noteq> wm_path m)
          (ProtocolInvariant ''mutation_acceptance_path_mismatch'') (Ok ()))"

definition push_download ::
    "SyncCommand list \<Rightarrow> nat \<Rightarrow> WorkspaceId \<Rightarrow> OperationId option \<Rightarrow> WorkspaceContentHash \<Rightarrow> u64 \<Rightarrow> SyncCommand list" where
  "push_download commands limit workspace_id operation_id content_hash byte_size =
     (if length commands \<ge> limit \<or>
         list_ex (\<lambda>command. case command of DownloadBlob _ _ existing _ \<Rightarrow> existing = content_hash | _ \<Rightarrow> False) commands
      then commands
      else commands @ [DownloadBlob workspace_id operation_id content_hash byte_size])"

end
