(* ===== verification/Engine_Closure.thy ===== *)
theory Engine_Closure
  imports Engine_Paths
begin

text \<open>
  What the helpers of the engine on deferred operations compute: the operations that belong together are
  the least closed set, two wishes are merged to one with the effect of both when the second continues
  the first, and directory summaries are equal exactly for equal subtrees.
\<close>

section \<open>Paths by segments\<close>

lemma path_is_descendant_iff: "path_is_descendant p a \<longleftrightarrow> strict_prefix (path_segments a) (path_segments p)"
proof -
  have "path_is_descendant p a \<longleftrightarrow> starts_with (path_str p) (path_str a @ ''/'')"
    by (auto simp: path_is_descendant_def strip_prefix_def starts_with_iff split: option.splits)
  then show ?thesis by (simp add: starts_with_descendant)
qed

definition same_branch :: "WorkspacePath \<Rightarrow> WorkspacePath \<Rightarrow> bool" where
  "same_branch p q \<longleftrightarrow> prefix (path_segments p) (path_segments q) \<or> prefix (path_segments q) (path_segments p)"

lemma paths_intersect_iff: "paths_intersect p q \<longleftrightarrow> same_branch p q"
  by (auto simp: paths_intersect_def same_branch_def path_is_descendant_iff strict_prefix_def path_segments_inject)

lemma touches_iff: "touches closure d \<longleftrightarrow> (\<exists>p\<in>set (desired_paths d). \<exists>c\<in>set closure. same_branch p c)"
  by (auto simp: touches_def list_ex_iff paths_intersect_iff)

section \<open>Closure\<close>

text \<open>A set of paths that contains every path of an operation that meets it.\<close>

definition closed_under :: "(WorkspacePath \<times> DesiredOperation) list \<Rightarrow> WorkspacePath set \<Rightarrow> bool" where
  "closed_under existing S \<longleftrightarrow>
     (\<forall>(r, d)\<in>set existing. (\<exists>p\<in>set (desired_paths d). \<exists>c\<in>S. same_branch p c) \<longrightarrow> set (desired_paths d) \<subseteq> S)"

lemma closed_underD:
  assumes "closed_under existing S" "(r, d) \<in> set existing" "p \<in> set (desired_paths d)" "c \<in> S" "same_branch p c"
  shows "set (desired_paths d) \<subseteq> S"
  using assms by (fastforce simp: closed_under_def)

lemma closure_push_eq:
  "\<exists>new. closure_push paths (closure, changed) = (closure @ new, changed \<or> new \<noteq> []) \<and>
     set new = set paths - set closure"
proof (induction paths arbitrary: closure changed)
  case (Cons p paths)
  show ?case
  proof (cases "p \<in> set closure")
    case True
    then show ?thesis using Cons.IH [of closure changed] by auto
  next
    case False
    then show ?thesis using Cons.IH [of "closure @ [p]" True] by (auto intro: exI [of _ "p # new" for new])
  qed
qed simp

lemma closure_pass_eq:
  assumes "closed_under existing S" "set closure \<subseteq> S"
  shows "\<exists>new. closure_pass existing (closure, changed) = (closure @ new, changed \<or> new \<noteq> []) \<and>
     set new \<subseteq> (\<Union>(r, d)\<in>set existing. set (desired_paths d)) - set closure \<and> set (closure @ new) \<subseteq> S \<and>
     (new = [] \<longrightarrow> (\<forall>(r, d)\<in>set existing. touches closure d \<longrightarrow> set (desired_paths d) \<subseteq> set closure))"
  using assms
proof (induction existing arbitrary: closure changed)
  case (Cons e existing)
  obtain r d where e: "e = (r, d)" by (cases e)
  have closed: "closed_under existing S" using Cons.prems(1) by (simp add: closed_under_def)
  show ?case
  proof (cases "touches closure d")
    case False
    with Cons.IH [OF closed Cons.prems(2), of changed] show ?thesis by (auto simp: e)
  next
    case True
    obtain new where new: "closure_push (desired_paths d) (closure, changed) = (closure @ new, changed \<or> new \<noteq> [])"
      "set new = set (desired_paths d) - set closure" using closure_push_eq by blast
    from True obtain p c where "p \<in> set (desired_paths d)" "c \<in> set closure" "same_branch p c" by (auto simp: touches_iff)
    with closed_underD [OF Cons.prems(1), of r d p c] Cons.prems(2) have "set (desired_paths d) \<subseteq> S" by (auto simp: e)
    with new Cons.prems(2) have "set (closure @ new) \<subseteq> S" by auto
    from Cons.IH [OF closed this, of "changed \<or> new \<noteq> []"] obtain more where
      more: "closure_pass existing (closure @ new, changed \<or> new \<noteq> []) = ((closure @ new) @ more, (changed \<or> new \<noteq> []) \<or> more \<noteq> [])"
      "set more \<subseteq> (\<Union>(r, d)\<in>set existing. set (desired_paths d)) - set (closure @ new)" "set ((closure @ new) @ more) \<subseteq> S"
      "more = [] \<longrightarrow> (\<forall>(r, d)\<in>set existing. touches (closure @ new) d \<longrightarrow> set (desired_paths d) \<subseteq> set (closure @ new))"
      by blast
    have last: "\<forall>(r, d)\<in>set (e # existing). touches closure d \<longrightarrow> set (desired_paths d) \<subseteq> set closure" if "new @ more = []"
    proof -
      have "set (desired_paths d) \<subseteq> set closure" using that new(2) by auto
      then show ?thesis using that more(4) by (simp add: e)
    qed
    show ?thesis
    proof (intro exI [of _ "new @ more"] conjI impI last)
      show "closure_pass (e # existing) (closure, changed) = (closure @ new @ more, changed \<or> new @ more \<noteq> [])"
        using True new(1) more(1) by (auto simp: e)
      show "set (new @ more) \<subseteq> (\<Union>(r, d)\<in>set (e # existing). set (desired_paths d)) - set closure"
        using new(2) more(2) by (auto simp: e)
      show "set (closure @ new @ more) \<subseteq> S" using more(3) by simp
    qed
  qed
qed simp

lemma closed_UNIV: "closed_under existing UNIV"
  by (simp add: closed_under_def)

lemma closure_loop_least:
  "\<exists>closure'. closure_loop existing closure = Some closure' \<and> set closure \<subseteq> set closure' \<and>
     closed_under existing (set closure') \<and>
     (\<forall>S. set closure \<subseteq> S \<and> closed_under existing S \<longrightarrow> set closure' \<subseteq> S)"
proof (induction "card ((\<Union>(r, d)\<in>set existing. set (desired_paths d)) - set closure)" arbitrary: closure rule: less_induct)
  case less
  let ?all = "\<Union>(r, d)\<in>set existing. set (desired_paths d)"
  obtain new where new: "closure_pass existing (closure, False) = (closure @ new, new \<noteq> [])"
    "set new \<subseteq> ?all - set closure"
    "new = [] \<longrightarrow> (\<forall>(r, d)\<in>set existing. touches closure d \<longrightarrow> set (desired_paths d) \<subseteq> set closure)"
    using closure_pass_eq [OF closed_UNIV, of closure existing False] by auto
  have least: "set (closure @ new) \<subseteq> S" if "set closure \<subseteq> S" "closed_under existing S" for S
    using closure_pass_eq [OF that(2,1), of False] new(1) by auto
  show ?case
  proof (cases "new = []")
    case True
    with new(3) have "closed_under existing (set closure)" by (fastforce simp: closed_under_def touches_iff)
    with True new(1) show ?thesis by (subst closure_loop.simps) auto
  next
    case False
    then have "?all - set (closure @ new) \<subset> ?all - set closure" using new(2) by (cases new) auto
    then have "card (?all - set (closure @ new)) < card (?all - set closure)" by (intro psubset_card_mono) auto
    from less [OF this] obtain closure' where c: "closure_loop existing (closure @ new) = Some closure'"
      "set (closure @ new) \<subseteq> set closure'" "closed_under existing (set closure')"
      "\<forall>S. set (closure @ new) \<subseteq> S \<and> closed_under existing S \<longrightarrow> set closure' \<subseteq> S" by blast
    with False new(1) least show ?thesis by (subst closure_loop.simps) auto
  qed
qed

lemma sorted_remdups_adj: "sorted xs \<Longrightarrow> sorted_wrt (<) (remdups_adj xs)" for xs :: "'a::linorder list"
  by (induction xs rule: remdups_adj.induct) (auto simp: order.order_iff_strict)

lemma sorted_unique: "sorted_wrt (<) (remdups_adj (sort xs))" for xs :: "'a::linorder list"
  by (simp add: sorted_remdups_adj)

text \<open>
  C36: The search for the deferred operations that belong to a rename ends, whatever the operations are,
  with the least set of paths that contains the given ones and every path of an operation that has one
  path on the same branch as the set: equal, above or below it. The paths come out in order and once, and
  so do the records to remove, which are those of exactly the operations that meet the set; an operation
  that is kept touches nothing of it.
\<close>

theorem rename_intent_closure_least:
  "\<exists>closure removed. rename_intent_closure initial existing = Some (closure, removed) \<and>
     sorted_wrt (<) closure \<and> sorted_wrt (<) removed \<and>
     set initial \<subseteq> set closure \<and> closed_under existing (set closure) \<and>
     (\<forall>S. set initial \<subseteq> S \<and> closed_under existing S \<longrightarrow> set closure \<subseteq> S) \<and>
     set removed = {r. \<exists>d. (r, d) \<in> set existing \<and> set (desired_paths d) \<subseteq> set closure \<and>
       (\<exists>p\<in>set (desired_paths d). \<exists>c\<in>set closure. same_branch p c)} \<and>
     (\<forall>(r, d)\<in>set existing. r \<notin> set removed \<longrightarrow> (\<forall>p\<in>set (desired_paths d). \<forall>c\<in>set closure. \<not> same_branch p c))"
proof -
  obtain cl where cl: "closure_loop existing initial = Some cl" "set initial \<subseteq> set cl" "closed_under existing (set cl)"
    "\<forall>S. set initial \<subseteq> S \<and> closed_under existing S \<longrightarrow> set cl \<subseteq> S" using closure_loop_least by blast
  let ?closure = "remdups_adj (sort cl)"
  let ?removed = "remdups_adj (sort (map fst (filter (\<lambda>(_, d). touches ?closure d) existing)))"
  have eq: "rename_intent_closure initial existing = Some (?closure, ?removed)"
    by (simp add: rename_intent_closure_def cl(1) Let_def)
  have removed: "set ?removed = {r. \<exists>d. (r, d) \<in> set existing \<and> (\<exists>p\<in>set (desired_paths d). \<exists>c\<in>set cl. same_branch p c)}"
    by (force simp: touches_iff)
  have "set ?removed = {r. \<exists>d. (r, d) \<in> set existing \<and> set (desired_paths d) \<subseteq> set ?closure \<and>
       (\<exists>p\<in>set (desired_paths d). \<exists>c\<in>set ?closure. same_branch p c)}"
    unfolding removed using cl(3) by (fastforce simp: closed_under_def)
  then show ?thesis
    unfolding eq using cl(2-4) removed
    by (intro exI [of _ ?closure] exI [of _ ?removed] conjI refl sorted_unique) (auto simp: case_prod_beta)
qed

definition demo_file :: "string \<Rightarrow> string \<Rightarrow> DesiredOperation" where
  "demo_file from to = DesiredRename (WorkspacePath from) (WorkspacePath to) File Null zero_metadata"

theorem rename_intent_closure_least_witness:
  "rename_intent_closure [WorkspacePath ''a/x'']
     [(WorkspacePath ''b'', demo_file ''b'' ''c''), (WorkspacePath ''a'', demo_file ''a'' ''b'')] =
     Some ([WorkspacePath ''a'', WorkspacePath ''a/x'', WorkspacePath ''b'', WorkspacePath ''c''],
       [WorkspacePath ''a'', WorkspacePath ''b'']) \<and>
   (\<exists>closure removed. rename_intent_closure [WorkspacePath ''a/x'']
     [(WorkspacePath ''b'', demo_file ''b'' ''c''), (WorkspacePath ''a'', demo_file ''a'' ''b'')] = Some (closure, removed) \<and>
     closed_under [(WorkspacePath ''b'', demo_file ''b'' ''c''), (WorkspacePath ''a'', demo_file ''a'' ''b'')] (set closure))"
proof
  show "rename_intent_closure [WorkspacePath ''a/x'']
     [(WorkspacePath ''b'', demo_file ''b'' ''c''), (WorkspacePath ''a'', demo_file ''a'' ''b'')] =
     Some ([WorkspacePath ''a'', WorkspacePath ''a/x'', WorkspacePath ''b'', WorkspacePath ''c''],
       [WorkspacePath ''a'', WorkspacePath ''b''])"
    by code_simp
  show "\<exists>closure removed. rename_intent_closure [WorkspacePath ''a/x'']
     [(WorkspacePath ''b'', demo_file ''b'' ''c''), (WorkspacePath ''a'', demo_file ''a'' ''b'')] = Some (closure, removed) \<and>
     closed_under [(WorkspacePath ''b'', demo_file ''b'' ''c''), (WorkspacePath ''a'', demo_file ''a'' ''b'')] (set closure)"
    using rename_intent_closure_least [of "[WorkspacePath ''a/x'']"
        "[(WorkspacePath ''b'', demo_file ''b'' ''c''), (WorkspacePath ''a'', demo_file ''a'' ''b'')]"] by blast
qed

section \<open>Merged wishes\<close>

text \<open>What an operation wishes of the workspace at the paths it names.\<close>

type_synonym tree = "WorkspacePath \<rightharpoonup> WorkspaceEntryKind \<times> WorkspaceContentHash RequiredNullable \<times> WorkspaceFileMetadata"

fun desired_effect :: "DesiredOperation \<Rightarrow> tree \<Rightarrow> tree" where
  "desired_effect (Upsert e) t = t(de_path e \<mapsto> (de_kind e, de_content_hash e, de_metadata e))"
| "desired_effect (DesiredDelete p) t = t(p := None)"
| "desired_effect (DesiredRename from to k h m) t = (t(from := None))(to \<mapsto> (k, h, m))"

text \<open>The incoming operation goes on with what the deferred one left behind.\<close>

fun continues :: "tree \<Rightarrow> DesiredOperation \<Rightarrow> DesiredOperation \<Rightarrow> bool" where
  "continues t (DesiredRename from to k h m) (Upsert e) \<longleftrightarrow> de_path e = to"
| "continues t (DesiredRename from to k h m) (DesiredDelete p) \<longleftrightarrow> p = to \<and> t to = None"
| "continues t (DesiredRename from to k h m) (DesiredRename from' to' k' h' m') \<longleftrightarrow> from' = to \<and> t to = None"
| "continues t current incoming \<longleftrightarrow> hd (desired_paths current) \<in> set (desired_paths incoming)"

text \<open>
  C37: Two wishes for the same path are merged to one that has the effect of both in their order, when the
  later one continues the earlier one: any operation on the path of a deferred write or deletion, and an
  operation on the target of a deferred rename, provided nothing else was at that target. An operation
  on the source of a deferred rename does not continue it, and there the effect on the target is lost: a
  file that is moved away and written anew is merged to the write alone.
\<close>

theorem merge_deferred_effect:
  "(continues t current incoming \<longrightarrow>
      desired_effect (merge_deferred_desired current incoming) t = desired_effect incoming (desired_effect current t)) \<and>
   (from \<noteq> to \<longrightarrow> t to = None \<longrightarrow> de_path e = from \<longrightarrow>
      desired_effect (merge_deferred_desired (DesiredRename from to k h m) (Upsert e)) t to = None \<and>
      desired_effect (Upsert e) (desired_effect (DesiredRename from to k h m) t) to = Some (k, h, m))"
proof
  show "continues t current incoming \<longrightarrow>
      desired_effect (merge_deferred_desired current incoming) t = desired_effect incoming (desired_effect current t)"
    by (cases current; cases incoming) (auto simp: fun_eq_iff)
qed auto

theorem merge_deferred_effect_witness:
  "continues Map.empty (demo_file ''a'' ''b'') (demo_file ''b'' ''c'') \<and>
   desired_effect (merge_deferred_desired (demo_file ''a'' ''b'') (demo_file ''b'' ''c'')) Map.empty =
     desired_effect (demo_file ''b'' ''c'') (desired_effect (demo_file ''a'' ''b'') Map.empty)"
proof -
  have "continues Map.empty (demo_file ''a'' ''b'') (demo_file ''b'' ''c'')" by (simp add: demo_file_def)
  then show ?thesis using merge_deferred_effect [of Map.empty "demo_file ''a'' ''b''" "demo_file ''b'' ''c''"] by blast
qed

section \<open>Directory subtrees\<close>

lemma le_bytes_inject:
  assumes "m < 2 ^ 64" "n < 2 ^ 64" "le_bytes 8 m = le_bytes 8 n"
  shows "m = n"
proof -
  have "be_val (be_bytes 8 m) = be_val (be_bytes 8 n)" using assms(3) by (simp only: le_bytes_def rev_is_rev_conv)
  then have "m mod 2 ^ 64 = n mod 2 ^ 64" by (simp only: be_val_be_bytes) simp
  with assms(1,2) show ?thesis by simp
qed

lemma length_le_bytes [simp]: "length (le_bytes n x) = n"
  by (simp add: le_bytes_def)

lemma string_bytes_inject: "string_bytes s = string_bytes t \<longleftrightarrow> s = t"
proof -
  have word: "(of_char c :: u8) = word_of_nat (of_char c)" for c :: char
    by (simp only: of_nat_of_char)
  have "unat (of_char c :: u8) = of_char c" for c :: char
    unfolding word by (simp add: unat_of_nat take_bit_nat_eq_self)
  then have "(of_char c :: u8) = of_char d \<Longrightarrow> c = d" for c d :: char by (metis of_char_eq_iff)
  then have "inj (of_char :: char \<Rightarrow> u8)" by (blast intro: injI)
  then show ?thesis by (simp add: string_bytes_def inj_map_eq_map)
qed

lemma length_string_bytes [simp]: "length (string_bytes s) = length s"
  by (simp add: string_bytes_def)

lemma length_prefixed_inject:
  assumes "update_length_prefixed a @ xs = update_length_prefixed b @ ys" "length a < 2 ^ 64" "length b < 2 ^ 64"
  shows "a = b \<and> xs = ys"
proof -
  have len: "le_bytes 8 (length a) = le_bytes 8 (length b)" and rest: "a @ xs = b @ ys"
    using assms(1) by (simp_all add: update_length_prefixed_def)
  have "length a = length b" by (rule le_bytes_inject [OF assms(2,3) len])
  with rest show ?thesis by simp
qed

lemma subtree_kind_inject: "subtree_kind a = subtree_kind b \<longleftrightarrow> a = b"
  by (cases a; cases b) (simp_all add: subtree_kind_def)

text \<open>The texts that are hashed are shorter than \<open>2 ^ 64\<close> bytes.\<close>

fun short_hash :: "WorkspaceContentHash RequiredNullable \<Rightarrow> bool" where
  "short_hash Null = True"
| "short_hash (Value h) = (length (hash_str h) < 2 ^ 64)"

lemma summary_inject:
  assumes "update_directory_subtree_summary r k h n x @ xs = update_directory_subtree_summary r' k' h' n' x' @ ys"
    and "length r < 2 ^ 64" "length r' < 2 ^ 64" "short_hash h" "short_hash h'"
  shows "r = r' \<and> k = k' \<and> h = h' \<and> n = n' \<and> x = x' \<and> xs = ys"
proof -
  let ?h = "\<lambda>h. case h of Null \<Rightarrow> [0] | Value hash \<Rightarrow> 1 # update_length_prefixed (string_bytes (hash_str hash))"
  let ?t = "\<lambda>n x xs. le_bytes 8 (unat n) @ [if x then 1 else 0 :: u8] @ xs"
  have "update_length_prefixed (string_bytes r) @ [subtree_kind k] @ ?h h @ ?t n x xs =
      update_length_prefixed (string_bytes r') @ [subtree_kind k'] @ ?h h' @ ?t n' x' ys"
    using assms(1) by (simp add: update_directory_subtree_summary_def)
  from length_prefixed_inject [OF this] assms(2,3)
  have r: "r = r'" and k: "k = k'" and rest: "?h h @ ?t n x xs = ?h h' @ ?t n' x' ys"
    by (auto simp: string_bytes_inject subtree_kind_inject)
  have "h = h' \<and> ?t n x xs = ?t n' x' ys"
  proof (cases h)
    case Null
    with rest show ?thesis by (cases h') auto
  next
    case (Value a)
    with rest obtain b where b: "h' = Value b" by (cases h') auto
    have "update_length_prefixed (string_bytes (hash_str a)) @ ?t n x xs = update_length_prefixed (string_bytes (hash_str b)) @ ?t n' x' ys"
      using rest Value b by simp
    from length_prefixed_inject [OF this] assms(4,5) Value b show ?thesis
      by (auto simp: string_bytes_inject intro: WorkspaceContentHash.expand)
  qed
  then have h: "h = h'" and tail: "?t n x xs = ?t n' x' ys" by blast+
  have "le_bytes 8 (unat n) = le_bytes 8 (unat n')" and flag: "x = x'" "xs = ys"
    using tail by (auto split: if_splits)
  then have "unat n = unat n'" using unsigned_less [of n] unsigned_less [of n'] by (intro le_bytes_inject) simp_all
  with r k h flag show ?thesis by (simp add: word_unat_eq_iff)
qed

text \<open>The encoding of the entries below a directory determines them.\<close>

definition state_summary :: "string \<times> WorkspacePathState \<Rightarrow> u8 list" where
  "state_summary = (\<lambda>(relative, state). update_directory_subtree_summary relative (ps_kind state) (ps_content_hash state)
     (md_size (ps_metadata state)) (md_executable (ps_metadata state)))"

definition entry_summary :: "string \<times> LocalDesiredEntry \<Rightarrow> u8 list" where
  "entry_summary = (\<lambda>(relative, e). update_directory_subtree_summary relative (de_kind e) (de_content_hash e)
     (md_size (de_metadata e)) (md_executable (de_metadata e)))"

lemma match_entries_summaries:
  assumes "\<forall>(r, s)\<in>set olds. length r < 2 ^ 64 \<and> short_hash (ps_content_hash s)"
    and "\<forall>(r, e)\<in>set news. length r < 2 ^ 64 \<and> short_hash (de_content_hash e)"
  shows "match_entries olds news \<longleftrightarrow>
    length olds = length news \<and> concat (map state_summary olds) = concat (map entry_summary news)"
  using assms
proof (induction olds news rule: match_entries.induct)
  case (2 r s olds r' e news)
  let ?same = "r = r' \<and> ps_kind s = de_kind e \<and> ps_content_hash s = de_content_hash e \<and>
    md_size (ps_metadata s) = md_size (de_metadata e) \<and> md_executable (ps_metadata s) = md_executable (de_metadata e)"
  show ?case
  proof (cases ?same)
    case True
    then have "state_summary (r, s) = entry_summary (r', e)" by (simp add: state_summary_def entry_summary_def)
    with 2 True show ?thesis by simp
  next
    case False
    have "state_summary (r, s) @ xs \<noteq> entry_summary (r', e) @ ys" for xs ys
    proof
      assume "state_summary (r, s) @ xs = entry_summary (r', e) @ ys"
      from summary_inject [OF this [unfolded state_summary_def entry_summary_def prod.case]] 2(2,3) False
      show False by simp
    qed
    with False show ?thesis by auto
  qed
qed simp_all

text \<open>The texts that the two summaries hash.\<close>

definition remote_text :: "WorkspacePath \<Rightarrow> (WorkspacePath \<times> WorkspacePathState) list \<Rightarrow> u8 list" where
  "remote_text root remote = SUBTREE_PREFIX @ concat (map state_summary (below root (live_states remote)))"

definition current_text :: "WorkspacePath \<Rightarrow> (WorkspacePath \<times> LocalDesiredEntry) list \<Rightarrow> u8 list" where
  "current_text root current = SUBTREE_PREFIX @ concat (map entry_summary (below root current))"

text \<open>
  C38: For every hash function that does not map the hashed texts of two directory subtrees, if they differ,
  to the same digest, the subtrees have the same summary exactly when they are equal entry by entry: the same
  relative paths with the same kind, content hash, size and executable flag. The texts that are hashed, relative
  paths and content hashes, must be shorter than \<open>2 ^ 64\<close> bytes.
\<close>

theorem subtree_summary_exact:
  assumes "\<forall>(r, s)\<in>set (below old_root (live_states remote)). length r < 2 ^ 64 \<and> short_hash (ps_content_hash s)"
    and "\<forall>(r, e)\<in>set (below new_root current). length r < 2 ^ 64 \<and> short_hash (de_content_hash e)"
    and no_collision: "blake3 (remote_text old_root remote) = blake3 (current_text new_root current) \<longrightarrow>
      remote_text old_root remote = current_text new_root current"
  shows "remote_directory_subtree_identity blake3 old_root remote = current_directory_subtree_identity blake3 new_root current \<longleftrightarrow>
    directory_subtrees_exact_match old_root new_root remote current"
proof -
  have "remote_directory_subtree_identity blake3 old_root remote = current_directory_subtree_identity blake3 new_root current \<longleftrightarrow>
     length (below old_root (live_states remote)) = length (below new_root current) \<and>
     blake3 (remote_text old_root remote) = blake3 (current_text new_root current)"
    by (auto simp: remote_directory_subtree_identity_def current_directory_subtree_identity_def Let_def
        state_summary_def entry_summary_def remote_text_def current_text_def)
  moreover have "blake3 (remote_text old_root remote) = blake3 (current_text new_root current) \<longleftrightarrow>
     remote_text old_root remote = current_text new_root current" using no_collision by auto
  ultimately show ?thesis
    unfolding directory_subtrees_exact_match_def match_entries_summaries [OF assms(1,2)]
    by (simp add: remote_text_def current_text_def)
qed

definition demo_tree :: "(WorkspacePath \<times> LocalDesiredEntry) list" where
  "demo_tree = [(WorkspacePath ''new/f'', \<lparr>de_path = WorkspacePath ''new/f'', de_kind = File,
     de_content_hash = Value (WorkspaceContentHash ''h''), de_metadata = zero_metadata\<rparr>)]"

definition demo_remote :: "(WorkspacePath \<times> WorkspacePathState) list" where
  "demo_remote = [(WorkspacePath ''old/f'', \<lparr>ps_path = WorkspacePath ''old/f'', ps_path_revision = WorkspaceRevision 1,
     ps_kind = File, ps_content_hash = Value (WorkspaceContentHash ''h''), ps_metadata = zero_metadata, ps_tombstone = False\<rparr>)]"

theorem subtree_summary_exact_witness:
  "directory_subtrees_exact_match (WorkspacePath ''old'') (WorkspacePath ''new'') demo_remote demo_tree \<and>
   remote_directory_subtree_identity rev (WorkspacePath ''old'') demo_remote =
     current_directory_subtree_identity rev (WorkspacePath ''new'') demo_tree"
proof -
  have match: "directory_subtrees_exact_match (WorkspacePath ''old'') (WorkspacePath ''new'') demo_remote demo_tree"
    by code_simp
  have "\<forall>(r, s)\<in>set (below (WorkspacePath ''old'') (live_states demo_remote)). length r < 2 ^ 64 \<and> short_hash (ps_content_hash s)"
    and "\<forall>(r, e)\<in>set (below (WorkspacePath ''new'') demo_tree). length r < 2 ^ 64 \<and> short_hash (de_content_hash e)"
    by (simp_all add: below_def live_states_def demo_remote_def demo_tree_def descendant_suffix_def strip_prefix_def
        starts_with_def List.map_filter_simps)
  from subtree_summary_exact [OF this, of rev] match show ?thesis by simp
qed

end
