(* ===== verification/Engine_Local.thy ===== *)
theory Engine_Local
  imports Engine_Paths Sync_Journal
begin

text \<open>
  The part of \<open>SyncEngine\<close> (\<open>fns-sync-core/src/engine.rs\<close>) that turns local wishes into operations of the
  outbox and settles the answers of the server, over the store of \<open>Sync_Journal\<close> and the theories below it.
  The JSON codecs, the random identifiers and the clock are parameters; the \<open>n\<close>-th draw is their argument.
\<close>

section \<open>State\<close>

record AppliedOperationResult =
  ar_mutation :: WorkspaceMutation
  ar_path_state :: WorkspacePathState
  ar_old_path_state :: "WorkspacePathState option"
  ar_new_path_state :: "WorkspacePathState option"

record engine_lib =
  el_store :: store_lib
  el_intent :: "LocalIntent serde"
  el_result :: "AppliedOperationResult serde"
  el_new_v4 :: "nat \<Rightarrow> uuid"
  el_now_ms :: "nat \<Rightarrow> i64"

datatype PendingLiveMessage = LiveEvent WorkspaceEventMessage | LiveResolved WorkspaceConflictResolvedMessage

record PendingLiveItem =
  pl_message :: PendingLiveMessage
  pl_body_digest :: "u8 list"
  pl_serialized_bytes :: nat

datatype InboundWorkSource = SourceStream | SourceLive

record InboundWorkLimits =
  iw_max_items_per_call :: nat
  iw_max_serialized_bytes_per_call :: nat
  iw_max_pending_live_items :: nat
  iw_max_pending_live_serialized_bytes :: nat

definition default_inbound_work_limits :: InboundWorkLimits where
  "default_inbound_work_limits =
     \<lparr>iw_max_items_per_call = 64, iw_max_serialized_bytes_per_call = 256 * 1024, iw_max_pending_live_items = 256,
      iw_max_pending_live_serialized_bytes = 4 * 1024 * 1024\<rparr>"

definition inbound_work_limits_validate :: "InboundWorkLimits \<Rightarrow> (InboundWorkLimits, SyncError) result" where
  "inbound_work_limits_validate limits =
     fail_if (iw_max_items_per_call limits = 0 \<or> iw_max_serialized_bytes_per_call limits = 0 \<or>
              iw_max_pending_live_items limits = 0 \<or> iw_max_pending_live_serialized_bytes limits = 0)
       (InvalidConfiguration ''invalid_inbound_work_limits'') (Ok limits)"

record SyncEngine =
  en_state :: SqliteState
  en_operation_ids :: "OperationId list"
  en_timestamps :: "i64 list"
  en_inbound_work_limits :: InboundWorkLimits
  en_pending_live_events :: "PendingLiveItem list"
  en_pending_live_serialized_bytes :: nat
  en_next_inbound_source :: InboundWorkSource
  en_closed :: bool
  en_draws :: nat

type_synonym 'a engine = "SyncEngine \<Rightarrow> ('a, SyncError) result \<times> SyncEngine"

definition give :: "'a \<Rightarrow> 'a engine" where
  "give v en = (Ok v, en)"

definition lift_result :: "('a, SyncError) result \<Rightarrow> 'a engine" where
  "lift_result r en = (r, en)"

definition then_do :: "'a engine \<Rightarrow> ('a \<Rightarrow> 'b engine) \<Rightarrow> 'b engine" where
  "then_do f g en = (case f en of (Ok v, en') \<Rightarrow> g v en' | (Err e, en') \<Rightarrow> (Err e, en'))"

definition require :: "bool \<Rightarrow> SyncError \<Rightarrow> unit engine" where
  "require ok e = lift_result (if ok then Ok () else Err e)"

definition read_state :: "(SqliteState \<Rightarrow> ('a, SyncError) result) \<Rightarrow> 'a engine" where
  "read_state f en = (f (en_state en), en)"

definition write_state :: "(SqliteState \<Rightarrow> ('a, SyncError) result \<times> SqliteState) \<Rightarrow> 'a engine" where
  "write_state f en = (case f (en_state en) of (r, st) \<Rightarrow> (r, en\<lparr>en_state := st\<rparr>))"

text \<open>Sequences of statements in one transaction.\<close>

definition tx_then :: "'a tx \<Rightarrow> ('a \<Rightarrow> 'b tx) \<Rightarrow> 'b tx" where
  "tx_then f g db = and_then (f db) (\<lambda>(v, db). g v db)"

definition tx_done :: "unit tx" where
  "tx_done db = Ok ((), db)"

fun tx_each :: "('x \<Rightarrow> unit tx) \<Rightarrow> 'x list \<Rightarrow> unit tx" where
  "tx_each f [] = tx_done"
| "tx_each f (x # xs) = tx_then (f x) (\<lambda>_. tx_each f xs)"

definition tx_opt :: "('x \<Rightarrow> unit tx) \<Rightarrow> 'x option \<Rightarrow> unit tx" where
  "tx_opt f x = (case x of None \<Rightarrow> tx_done | Some x \<Rightarrow> f x)"

definition ensure_open :: "unit engine" where
  "ensure_open en = (if en_closed en then Err (ProtocolInvariant ''engine_closed'') else Ok (), en)"

definition validate_identity :: "WorkspaceId \<Rightarrow> ClientId \<Rightarrow> unit engine" where
  "validate_identity ws client en =
     (if ws \<noteq> st_workspace_id (en_state en) \<or> client \<noteq> st_client_id (en_state en)
      then Err (ProtocolInvariant ''mutation_result_identity_mismatch'') else Ok (), en)"

fun skip_used :: "store_lib \<Rightarrow> SqliteState \<Rightarrow> OperationId list \<Rightarrow> (OperationId option, SyncError) result \<times> OperationId list" where
  "skip_used lib st [] = (Ok None, [])"
| "skip_used lib st (op # ops) =
     (case outbox_entry lib op st of
        Err e \<Rightarrow> (Err e, ops)
      | Ok (Some _) \<Rightarrow> skip_used lib st ops
      | Ok None \<Rightarrow>
          (case applied_operation (st_client_id st) op st of
             Err e \<Rightarrow> (Err e, ops)
           | Ok (Some _) \<Rightarrow> skip_used lib st ops
           | Ok None \<Rightarrow> (Ok (Some op), ops)))"

definition next_operation_id :: "engine_lib \<Rightarrow> OperationId engine" where
  "next_operation_id lib en =
     (case skip_used (el_store lib) (en_state en) (en_operation_ids en) of
        (Err e, ops) \<Rightarrow> (Err e, en\<lparr>en_operation_ids := ops\<rparr>)
      | (Ok (Some op), ops) \<Rightarrow> (Ok op, en\<lparr>en_operation_ids := ops\<rparr>)
      | (Ok None, ops) \<Rightarrow>
          (Ok (OperationId (el_new_v4 lib (en_draws en))), en\<lparr>en_operation_ids := ops, en_draws := Suc (en_draws en)\<rparr>))"

definition next_timestamp :: "engine_lib \<Rightarrow> i64 engine" where
  "next_timestamp lib en =
     (case en_timestamps en of
        t # ts \<Rightarrow> (Ok t, en\<lparr>en_timestamps := ts\<rparr>)
      | [] \<Rightarrow> (Ok (el_now_ms lib (en_draws en)), en\<lparr>en_draws := Suc (en_draws en)\<rparr>))"

section \<open>Deferred operations\<close>

definition encode_intent :: "engine_lib \<Rightarrow> LocalIntent \<Rightarrow> (u8 list, SyncError) result" where
  "encode_intent lib intent = canonical_json (el_intent lib) intent"

definition decode_intent :: "engine_lib \<Rightarrow> u8 list \<Rightarrow> (LocalIntent, SyncError) result" where
  "decode_intent lib body = ok_or (from_slice (el_intent lib) body) (CorruptState ''local_intents'' ''intent_json'')"

definition path_state_map :: "engine_lib \<Rightarrow> SqliteState \<Rightarrow> (WorkspacePath \<rightharpoonup> WorkspacePathState, SyncError) result" where
  "path_state_map lib st =
     and_then (path_states (el_store lib) st) (\<lambda>records. Ok (map_of (rev (map (\<lambda>r. (pt_path r, pt_state r)) records))))"

fun decode_deferred :: "engine_lib \<Rightarrow> WorkspacePath list \<Rightarrow> LocalIntentRecord list \<Rightarrow> DesiredOperation list \<Rightarrow>
    (DesiredOperation list, SyncError) result" where
  "decode_deferred lib touched [] seen = Ok seen"
| "decode_deferred lib touched (r # records) seen =
     (if li_path r \<notin> set touched then decode_deferred lib touched records seen
      else and_then (decode_intent lib (li_intent_json r)) (\<lambda>intent.
        let desired = desired_from_intent intent
        in decode_deferred lib touched records (if desired \<in> set seen then seen else seen @ [desired])))"

definition deferred_operations :: "engine_lib \<Rightarrow> WorkspacePath list \<Rightarrow> SqliteState \<Rightarrow> (DesiredOperation list, SyncError) result" where
  "deferred_operations lib touched st =
     and_then (local_intents st) (\<lambda>records.
     and_then (decode_deferred lib touched records []) (\<lambda>operations.
     Ok (sort_key desired_operation_key operations)))"

fun merge_all :: "DesiredOperation list \<Rightarrow> DesiredOperation \<Rightarrow> DesiredOperation" where
  "merge_all [] merged = merged"
| "merge_all (current # existing) merged = merge_all existing (merge_deferred_desired current merged)"

definition compact_deferred :: "engine_lib \<Rightarrow> DesiredOperation \<Rightarrow> WorkspacePath list \<Rightarrow> SqliteState \<Rightarrow>
    ((DesiredOperation \<times> WorkspacePath list) option, SyncError) result" where
  "compact_deferred lib incoming touched st =
     and_then (deferred_operations lib touched st) (\<lambda>existing.
     Ok (if existing = [] then None
         else Some (merge_all existing incoming, unique_paths (concat (map desired_paths existing)))))"

text \<open>\<open>StateTransaction::put_local_intent\<close> parses the path again.\<close>

definition put_local_intent_at :: "store_lib \<Rightarrow> WorkspaceId \<Rightarrow> u8 list \<Rightarrow> i64 \<Rightarrow> WorkspacePath \<Rightarrow> unit tx" where
  "put_local_intent_at lib ws body timestamp path db =
     and_then (parse_path_arg lib (path_str path)) (\<lambda>path. put_local_intent_tx ws path body timestamp db)"

definition defer_desired :: "engine_lib \<Rightarrow> DesiredOperation \<Rightarrow> unit engine" where
  "defer_desired lib desired =
     (let paths = desired_paths desired in
      then_do (lift_result (encode_intent lib (intent_for_path desired (hd paths)))) (\<lambda>body.
      then_do (next_timestamp lib) (\<lambda>timestamp en.
      write_state (transaction (tx_each (put_local_intent_at (el_store lib) (st_workspace_id (en_state en)) body timestamp) paths)) en)))"

section \<open>Local wishes\<close>

definition outbox_mutation :: "engine_lib \<Rightarrow> OutboxRecord \<Rightarrow> WorkspaceMutation option" where
  "outbox_mutation lib r = from_slice (lib_mutation (el_store lib)) (ob_body_json r)"

fun find_touching :: "engine_lib \<Rightarrow> WorkspacePath list \<Rightarrow> OutboxRecord list \<Rightarrow> (OutboxRecord \<times> WorkspaceMutation) option" where
  "find_touching lib touched [] = None"
| "find_touching lib touched (r # records) =
     (case outbox_mutation lib r of
        Some m \<Rightarrow> if list_ex (\<lambda>path. path \<in> set touched) (mutation_paths m) then Some (r, m)
                  else find_touching lib touched records
      | None \<Rightarrow> find_touching lib touched records)"

definition enqueue_tx :: "engine_lib \<Rightarrow> SqliteState \<Rightarrow> WorkspaceMutation \<Rightarrow> i64 \<Rightarrow> unit tx" where
  "enqueue_tx lib st m timestamp =
     tx_then (enqueue_mutation_at (el_store lib) (st_workspace_id st) (st_client_id st) m timestamp) (\<lambda>_. tx_done)"

definition record_desired :: "engine_lib \<Rightarrow> DesiredOperation \<Rightarrow> unit engine" where
  "record_desired lib desired =
     then_do (read_state (path_state_map lib)) (\<lambda>states.
     let touched = desired_paths desired in
     then_do (read_state (outbox (el_store lib))) (\<lambda>records.
     case find_touching lib touched records of
       Some (record, m) \<Rightarrow>
         if mutation_matches_desired m desired then give ()
         else if ob_stage record = Queued then
           then_do (next_operation_id lib) (\<lambda>op.
           then_do (next_timestamp lib) (\<lambda>timestamp en.
             let st = en_state en;
                 replacement = mutation_for_desired desired (st_workspace_id st) (st_client_id st) op states
             in write_state (transaction
                  (tx_then (remove_outbox_tx (st_client_id st) (ob_operation_id record)) (\<lambda>_.
                   tx_then (enqueue_tx lib st replacement timestamp) (\<lambda>_.
                   tx_each (remove_local_intent_tx (st_workspace_id st)) (mutation_paths m))))) en))
         else
           then_do (lift_result (encode_intent lib (intent_for_path desired (hd touched)))) (\<lambda>body.
           then_do (next_timestamp lib) (\<lambda>timestamp en.
             write_state (transaction
               (tx_each (put_local_intent_at (el_store lib) (st_workspace_id (en_state en)) body timestamp) touched)) en))
     | None \<Rightarrow>
         then_do (read_state (compact_deferred lib desired touched)) (\<lambda>compacted.
         case compacted of
           Some (merged, existing_paths) \<Rightarrow>
             then_do (lift_result (encode_intent lib (intent_for_path merged (hd (desired_paths merged))))) (\<lambda>body.
             then_do (next_timestamp lib) (\<lambda>timestamp en.
               write_state (transaction
                 (tx_then (tx_each (remove_local_intent_tx (st_workspace_id (en_state en))) existing_paths) (\<lambda>_.
                  tx_each (put_local_intent_at (el_store lib) (st_workspace_id (en_state en)) body timestamp)
                    (desired_paths merged)))) en))
         | None \<Rightarrow>
             if desired_matches_remote desired states then
               (\<lambda>en. write_state (transaction (tx_each (remove_local_intent_tx (st_workspace_id (en_state en))) touched)) en)
             else
               then_do (next_operation_id lib) (\<lambda>op en0.
               let m = mutation_for_desired desired (st_workspace_id (en_state en0)) (st_client_id (en_state en0)) op states in
               then_do (require (is_ok (mutation_validate m)) (ProtocolInvariant ''invalid_local_mutation'')) (\<lambda>_.
               then_do (next_timestamp lib) (\<lambda>timestamp en.
                 write_state (transaction
                   (tx_then (enqueue_tx lib (en_state en) m timestamp) (\<lambda>_.
                    tx_each (remove_local_intent_tx (st_workspace_id (en_state en))) touched))) en)) en0))))"

section \<open>Deferred wishes become operations\<close>

definition decode_conflict_created :: "engine_lib \<Rightarrow> ConflictRecord \<Rightarrow> (WorkspaceConflictCreatedMessage, SyncError) result" where
  "decode_conflict_created lib c =
     (let codec = lib_created (el_store lib); corrupt = CorruptState ''conflicts'' ''created_json'' in
      and_then (ok_or (from_slice codec (cf_created_json c)) corrupt) (\<lambda>created.
      and_then (map_err (\<lambda>_. corrupt) (conflict_created_validate created)) (\<lambda>_.
      fail_if (cc_workspace_id created \<noteq> cf_workspace_id c \<or> cc_conflict_id created \<noteq> cf_conflict_id c \<or>
               cc_conflict_revision created \<noteq> cf_conflict_revision c) corrupt
     (and_then (canonical_json codec created) (\<lambda>json.
      fail_if (json \<noteq> cf_created_json c) corrupt (Ok created))))))"

fun conflict_paths :: "engine_lib \<Rightarrow> ConflictRecord list \<Rightarrow> (WorkspacePath list, SyncError) result" where
  "conflict_paths lib [] = Ok []"
| "conflict_paths lib (c # cs) =
     and_then (decode_conflict_created lib c) (\<lambda>created.
     and_then (conflict_paths lib cs) (\<lambda>paths.
     Ok (cc_path created #
         (case cs_path (cc_current created) of Null \<Rightarrow> [] | Value path \<Rightarrow> [path]) @
         (case cs_path (cc_incoming created) of Null \<Rightarrow> [] | Value path \<Rightarrow> [path]) @ paths)))"

definition has_outbox :: "engine_lib \<Rightarrow> WorkspacePath list \<Rightarrow> OutboxRecord list \<Rightarrow> bool" where
  "has_outbox lib touched records =
     list_ex (\<lambda>r. case outbox_mutation lib r of
        None \<Rightarrow> False | Some m \<Rightarrow> list_ex (\<lambda>path. path \<in> set touched) (mutation_paths m)) records"

text \<open>One round of the loop of \<open>materialize_local_intents\<close>; the path states were read before it.\<close>

definition materialize_one ::
    "engine_lib \<Rightarrow> WorkspacePath list \<Rightarrow> (WorkspacePath \<rightharpoonup> WorkspacePathState) \<Rightarrow> LocalIntentRecord \<Rightarrow> unit engine" where
  "materialize_one lib conflicted states record =
     then_do (lift_result (decode_intent lib (li_intent_json record))) (\<lambda>intent.
     let desired = desired_from_intent intent; touched = desired_paths desired in
     if list_ex (\<lambda>path. list_ex (paths_intersect path) conflicted) touched then give ()
     else if desired_matches_remote desired states then write_state (remove_local_intent (li_path record))
     else
       then_do (read_state (outbox (el_store lib))) (\<lambda>records.
       if has_outbox lib touched records then give ()
       else
         then_do (next_operation_id lib) (\<lambda>op.
         then_do (next_timestamp lib) (\<lambda>timestamp en.
           let st = en_state en; m = mutation_for_desired desired (st_workspace_id st) (st_client_id st) op states
           in write_state (transaction
                (tx_then (enqueue_tx lib st m timestamp) (\<lambda>_.
                 tx_each (remove_local_intent_tx (st_workspace_id st)) touched))) en))))"

fun materialize_each ::
    "engine_lib \<Rightarrow> WorkspacePath list \<Rightarrow> (WorkspacePath \<rightharpoonup> WorkspacePathState) \<Rightarrow> LocalIntentRecord list \<Rightarrow> unit engine" where
  "materialize_each lib conflicted states [] = give ()"
| "materialize_each lib conflicted states (r # records) =
     then_do (materialize_one lib conflicted states r) (\<lambda>_. materialize_each lib conflicted states records)"

definition materialize_local_intents :: "engine_lib \<Rightarrow> unit engine" where
  "materialize_local_intents lib =
     then_do (read_state local_intents) (\<lambda>intents.
     if intents = [] then give ()
     else
       then_do (read_state (conflicts (el_store lib))) (\<lambda>cs.
       then_do (lift_result (conflict_paths lib cs)) (\<lambda>conflicted.
       then_do (read_state (path_state_map lib)) (\<lambda>states.
       materialize_each lib conflicted states intents))))"

section \<open>Operations that meet, by path\<close>

fun decode_available :: "engine_lib \<Rightarrow> LocalIntentRecord list \<Rightarrow> DesiredOperation list \<Rightarrow> (DesiredOperation list, SyncError) result" where
  "decode_available lib [] available = Ok available"
| "decode_available lib (r # records) available =
     and_then (decode_intent lib (li_intent_json r)) (\<lambda>intent.
     let desired = desired_from_intent intent
     in decode_available lib records (if desired \<in> set available then available else available @ [desired]))"

fun intersect_pass :: "DesiredOperation list \<Rightarrow> WorkspacePath list \<times> DesiredOperation list \<times> bool \<Rightarrow>
    WorkspacePath list \<times> DesiredOperation list \<times> bool" where
  "intersect_pass [] acc = acc"
| "intersect_pass (d # available) (intersecting, operations, expanded) =
     intersect_pass available
       (if d \<in> set operations \<or> \<not> touches intersecting d then (intersecting, operations, expanded)
        else (intersecting @ desired_paths d, operations @ [d], True))"

partial_function (option) intersect_loop ::
    "DesiredOperation list \<Rightarrow> WorkspacePath list \<Rightarrow> DesiredOperation list \<Rightarrow> DesiredOperation list option" where
  "intersect_loop available intersecting operations =
     (case intersect_pass available (intersecting, operations, False) of
        (intersecting', operations', expanded) \<Rightarrow>
          if expanded then intersect_loop available intersecting' operations' else Some operations')"

declare intersect_loop.simps [code]

text \<open>\<open>None\<close> inside stands for a loop that does not end.\<close>

definition deferred_operations_intersecting ::
    "engine_lib \<Rightarrow> WorkspacePath list \<Rightarrow> SqliteState \<Rightarrow> (DesiredOperation list option, SyncError) result" where
  "deferred_operations_intersecting lib touched st =
     and_then (local_intents st) (\<lambda>records.
     and_then (decode_available lib records []) (\<lambda>available.
     Ok (map_option (sort_key desired_operation_key) (intersect_loop available touched []))))"

section \<open>Next mutations\<close>

fun next_mutations ::
    "engine_lib \<Rightarrow> DesiredOperation list \<Rightarrow> (WorkspacePath \<rightharpoonup> WorkspacePathState) \<Rightarrow> (WorkspaceMutation \<times> i64) list engine" where
  "next_mutations lib [] states = give []"
| "next_mutations lib (d # desired) states =
     (if desired_matches_remote d states then next_mutations lib desired states
      else
        then_do (next_operation_id lib) (\<lambda>op.
        then_do (next_timestamp lib) (\<lambda>timestamp en.
        then_do (next_mutations lib desired states) (\<lambda>rest.
          give ((mutation_for_desired d (st_workspace_id (en_state en)) (st_client_id (en_state en)) op states, timestamp) # rest)) en)))"

end
