(* ===== verification/Engine_Settle.thy ===== *)
theory Engine_Settle
  imports Engine_Local
begin

text \<open>
  The answers of the server to the operations of this client (\<open>fns-sync-core/src/engine.rs\<close>): accepted and
  rejected mutations, finished uploads, confirmed acknowledgements and the begin of a stream, with the
  comparison of a message against the receipts of what was applied before.
\<close>

section \<open>Digests and receipts\<close>

definition applied_operation_digest ::
    "engine_lib \<Rightarrow> WorkspaceMutation \<Rightarrow> WorkspacePathState \<Rightarrow> WorkspacePathState option \<Rightarrow> WorkspacePathState option \<Rightarrow>
     (u8 list, SyncError) result" where
  "applied_operation_digest lib m state old new =
     and_then (canonical_json (el_result lib)
       \<lparr>ar_mutation = m, ar_path_state = state, ar_old_path_state = old, ar_new_path_state = new\<rparr>) (\<lambda>json. Ok (body_digest (el_store lib) json))"

definition legacy_mutation_digest :: "engine_lib \<Rightarrow> WorkspaceMutation \<Rightarrow> (u8 list, SyncError) result" where
  "legacy_mutation_digest lib m =
     and_then (canonical_json (lib_mutation (el_store lib)) m) (\<lambda>json. Ok (body_digest (el_store lib) json))"

definition applied_event_digest :: "engine_lib \<Rightarrow> WorkspaceEventMessage \<Rightarrow> (u8 list, SyncError) result" where
  "applied_event_digest lib event =
     applied_operation_digest lib (ev_mutation event) (ev_path_state event) (ev_old_path_state event) (ev_new_path_state event)"

definition acceptance_digest ::
    "engine_lib \<Rightarrow> WorkspaceMutation \<Rightarrow> WorkspaceMutationAcceptedMessage \<Rightarrow> (u8 list, SyncError) result" where
  "acceptance_digest lib m accepted =
     applied_operation_digest lib m (ma_path_state accepted) (ma_old_path_state accepted) (ma_new_path_state accepted)"

datatype AppliedReceiptMatch = ReceiptMissing | ReceiptExact | ReceiptLegacy "u8 list"

datatype MutationAcceptanceMatch = AcceptanceMissing | AcceptanceExact | AcceptanceLegacyUnbound

definition mutation_from_receipt :: "engine_lib \<Rightarrow> AppliedOperationRecord \<Rightarrow> (WorkspaceMutation, SyncError) result" where
  "mutation_from_receipt lib receipt =
     (let codec = lib_mutation (el_store lib); corrupt = CorruptState ''applied_operations'' ''mutation_json'' in
      and_then (ok_or (ao_mutation_json receipt) corrupt) (\<lambda>json.
      and_then (ok_or (from_slice codec json) corrupt) (\<lambda>m.
      and_then (map_err (\<lambda>_. corrupt) (mutation_validate m)) (\<lambda>_.
      and_then (canonical_json codec m) (\<lambda>canonical.
      fail_if (canonical \<noteq> json \<or> wm_client_id m \<noteq> ao_origin_client_id receipt \<or>
               wm_operation_id m \<noteq> ao_operation_id receipt) corrupt (Ok m))))))"

fun replayed_receipts ::
    "engine_lib \<Rightarrow> WorkspaceMutationAcceptedMessage \<Rightarrow> AppliedOperationRecord list \<Rightarrow> ((ClientId \<times> OperationId) list, SyncError) result" where
  "replayed_receipts lib accepted [] = Ok []"
| "replayed_receipts lib accepted (receipt # receipts) =
     and_then (mutation_from_receipt lib receipt) (\<lambda>m.
     and_then
       (if is_ok (validate_acceptance_shape m accepted)
        then and_then (acceptance_digest lib m accepted) (\<lambda>d. Ok (ao_body_digest receipt = d)) else Ok False) (\<lambda>same.
     and_then (replayed_receipts lib accepted receipts) (\<lambda>ids.
     Ok ((if same then [(ao_origin_client_id receipt, ao_operation_id receipt)] else []) @ ids))))"

definition mutation_acceptance_match ::
    "engine_lib \<Rightarrow> WorkspaceMutationAcceptedMessage \<Rightarrow> SqliteState \<Rightarrow> (MutationAcceptanceMatch, SyncError) result" where
  "mutation_acceptance_match lib accepted st =
     and_then (applied_operation (ma_client_id accepted) (ma_operation_id accepted) st) (\<lambda>receipt.
     case receipt of
       Some receipt \<Rightarrow>
         fail_if (ao_revision receipt \<noteq> ma_revision accepted) OperationChanged
        (case ao_receipt_kind receipt of
           Legacy \<Rightarrow>
             and_then (provisional_mutation_acceptance (el_store lib) (ma_client_id accepted) (ma_operation_id accepted) st)
               (\<lambda>provisional.
             case provisional of
               Some provisional \<Rightarrow> if provisional = accepted then Ok AcceptanceExact else Err OperationChanged
             | None \<Rightarrow> Ok AcceptanceLegacyUnbound)
         | ConflictResolution \<Rightarrow> Err OperationChanged
         | MutationResult \<Rightarrow>
             and_then (mutation_from_receipt lib receipt) (\<lambda>m.
             fail_if (wm_workspace_id m \<noteq> ma_workspace_id accepted \<or> \<not> is_ok (validate_acceptance_shape m accepted))
               OperationChanged
            (and_then (acceptance_digest lib m accepted) (\<lambda>d.
             fail_if (ao_body_digest receipt \<noteq> d) OperationChanged (Ok AcceptanceExact)))))
     | None \<Rightarrow>
         and_then (mutation_receipts_at_revision (el_store lib) (ma_revision accepted) st) (\<lambda>receipts.
         and_then (replayed_receipts lib accepted receipts) (\<lambda>ids.
         and_then (provisional_mutation_acceptances (el_store lib) (ma_revision accepted) st) (\<lambda>provisionals.
         let changed = ids @ map (\<lambda>p. (ma_client_id p, ma_operation_id p))
               (filter (\<lambda>p. same_acceptance_result p accepted) provisionals)
         in fail_if (length (remdups changed) = 1) OperationChanged (Ok AcceptanceMissing)))))"

definition event_receipt_match ::
    "engine_lib \<Rightarrow> WorkspaceEventMessage \<Rightarrow> SqliteState \<Rightarrow> (AppliedReceiptMatch, SyncError) result" where
  "event_receipt_match lib event st =
     and_then (applied_operation (ev_origin_client_id event) (ev_operation_id event) st) (\<lambda>receipt.
     case receipt of
       None \<Rightarrow>
         and_then (provisional_mutation_acceptances (el_store lib) (ev_revision event) st) (\<lambda>provisionals.
         fail_if (length (filter (\<lambda>p. same_acceptance_result p (acceptance_from_event event)) provisionals) = 1)
           OperationChanged (Ok ReceiptMissing))
     | Some receipt \<Rightarrow>
         fail_if (ao_revision receipt \<noteq> ev_revision event) OperationChanged
        (case ao_receipt_kind receipt of
           Legacy \<Rightarrow>
             and_then (legacy_mutation_digest lib (ev_mutation event)) (\<lambda>legacy_digest.
             fail_if (ao_body_digest receipt \<noteq> legacy_digest) OperationChanged
            (and_then (provisional_mutation_acceptance (el_store lib) (ev_origin_client_id event) (ev_operation_id event) st)
               (\<lambda>provisional.
             fail_if (case provisional of None \<Rightarrow> False | Some p \<Rightarrow> p \<noteq> acceptance_from_event event) OperationChanged
            (Ok (ReceiptLegacy legacy_digest)))))
         | MutationResult \<Rightarrow>
             and_then (mutation_from_receipt lib receipt) (\<lambda>m.
             fail_if (m \<noteq> ev_mutation event) OperationChanged
            (and_then (applied_event_digest lib event) (\<lambda>d.
             fail_if (ao_body_digest receipt \<noteq> d) OperationChanged (Ok ReceiptExact))))
         | ConflictResolution \<Rightarrow> Err OperationChanged))"

definition conflict_resolution_receipt_match ::
    "WorkspaceConflictResolvedMessage \<Rightarrow> u8 list \<Rightarrow> SqliteState \<Rightarrow> (AppliedReceiptMatch, SyncError) result" where
  "conflict_resolution_receipt_match message d st =
     and_then (applied_operation (cr_resolved_by_client_id message) (cr_operation_id message) st) (\<lambda>receipt.
     case receipt of
       None \<Rightarrow> Ok ReceiptMissing
     | Some receipt \<Rightarrow>
         fail_if (ao_revision receipt \<noteq> cr_revision message \<or> ao_body_digest receipt \<noteq> d) OperationChanged
        (case ao_receipt_kind receipt of
           Legacy \<Rightarrow> Ok (ReceiptLegacy (ao_body_digest receipt))
         | ConflictResolution \<Rightarrow> Ok ReceiptExact
         | MutationResult \<Rightarrow> Err OperationChanged))"

section \<open>Accepted mutations\<close>

definition put_states_tx :: "engine_lib \<Rightarrow> WorkspaceId \<Rightarrow> WorkspaceMutationAcceptedMessage \<Rightarrow> unit tx" where
  "put_states_tx lib ws accepted =
     tx_then (tx_opt (put_path_state_tx (el_store lib) ws) (ma_old_path_state accepted)) (\<lambda>_.
     tx_then (tx_opt (put_path_state_tx (el_store lib) ws) (ma_new_path_state accepted)) (\<lambda>_.
     put_path_state_tx (el_store lib) ws (ma_path_state accepted)))"

definition states_after ::
    "WorkspaceMutationAcceptedMessage \<Rightarrow> (WorkspacePath \<rightharpoonup> WorkspacePathState) \<Rightarrow> (WorkspacePath \<rightharpoonup> WorkspacePathState)" where
  "states_after accepted states =
     (let insert_state = (\<lambda>s m. m(ps_path s \<mapsto> s));
          insert_opt = (\<lambda>s m. case s of None \<Rightarrow> m | Some s \<Rightarrow> insert_state s m)
      in insert_state (ma_path_state accepted)
           (insert_opt (ma_new_path_state accepted) (insert_opt (ma_old_path_state accepted) states)))"

definition settle_tx ::
    "engine_lib \<Rightarrow> SqliteState \<Rightarrow> WorkspaceMutationAcceptedMessage \<Rightarrow> WorkspaceMutation \<Rightarrow> u8 list \<Rightarrow> WorkspacePath list \<Rightarrow>
     (WorkspaceMutation \<times> i64) list \<Rightarrow> unit tx" where
  "settle_tx lib st accepted m operation_digest settled_paths next =
     tx_then (put_states_tx lib (st_workspace_id st) accepted) (\<lambda>_.
     tx_then (remove_outbox_tx (st_client_id st) (ma_operation_id accepted)) (\<lambda>_.
     tx_then (record_mutation_applied_operation (el_store lib) (st_client_id st) (ma_operation_id accepted)
       (ma_revision accepted) operation_digest m None) (\<lambda>_.
     tx_then (tx_each (remove_local_intent_tx (st_workspace_id st)) settled_paths) (\<lambda>_.
     tx_each (\<lambda>(m, timestamp). enqueue_tx lib st m timestamp) next))))"

definition accept_legacy ::
    "engine_lib \<Rightarrow> WorkspaceMutationAcceptedMessage \<Rightarrow> WorkspaceMutation \<Rightarrow> SyncCommand list engine" where
  "accept_legacy lib accepted m =
     then_do (read_state (applied_operation (ma_client_id accepted) (ma_operation_id accepted))) (\<lambda>receipt.
     then_do (lift_result (ok_or receipt (CorruptState ''applied_operations'' ''receipt''))) (\<lambda>receipt.
     then_do (lift_result (legacy_mutation_digest lib m)) (\<lambda>d.
     then_do (require (ao_body_digest receipt = d) OperationChanged) (\<lambda>_.
     then_do (write_state (transaction (record_provisional_mutation_acceptance_tx (el_store lib) accepted))) (\<lambda>_.
     give [])))))"

definition accept_missing ::
    "engine_lib \<Rightarrow> WorkspaceMutationAcceptedMessage \<Rightarrow> WorkspaceMutation \<Rightarrow> SyncCommand list engine" where
  "accept_missing lib accepted m =
     then_do (lift_result (acceptance_digest lib m accepted)) (\<lambda>operation_digest.
     let touched = mutation_paths m in
     then_do (read_state (deferred_operations lib touched)) (\<lambda>intents.
     then_do (read_state (path_state_map lib)) (\<lambda>states.
     then_do (next_mutations lib intents (states_after accepted states)) (\<lambda>next en.
     then_do (write_state (transaction
       (settle_tx lib (en_state en) accepted m operation_digest (paths_for_desired_operations touched intents) next)))
       (\<lambda>_. give []) en))))"

definition mutation_accepted :: "engine_lib \<Rightarrow> WorkspaceMutationAcceptedMessage \<Rightarrow> SyncCommand list engine" where
  "mutation_accepted lib accepted =
     then_do ensure_open (\<lambda>_.
     then_do (require (is_ok (mutation_accepted_validate accepted)) (ProtocolInvariant ''invalid_mutation_accepted'')) (\<lambda>_.
     then_do (read_state (mutation_acceptance_match lib accepted)) (\<lambda>receipt_match.
     then_do (validate_identity (ma_workspace_id accepted) (ma_client_id accepted)) (\<lambda>_.
     if receipt_match = AcceptanceExact then give []
     else
       then_do (read_state (outbox_entry (el_store lib) (ma_operation_id accepted))) (\<lambda>record.
       then_do (lift_result (ok_or record (ProtocolInvariant ''mutation_not_outstanding''))) (\<lambda>record.
       then_do (lift_result (ok_or (outbox_mutation lib record) (ProtocolInvariant ''outbox_not_mutation''))) (\<lambda>m.
       then_do (lift_result (validate_acceptance_shape m accepted)) (\<lambda>_.
       if receipt_match = AcceptanceLegacyUnbound then accept_legacy lib accepted m
       else accept_missing lib accepted m))))))))"

section \<open>Rejected mutations\<close>

text \<open>A rename of the outbox has a target; the \<open>expect\<close> of the code is the last error here.\<close>

definition reconcile_stale ::
    "engine_lib \<Rightarrow> WorkspaceMutation \<Rightarrow> WorkspacePathState RequiredNullable \<Rightarrow> SyncCommand list engine" where
  "reconcile_stale lib m current =
     then_do (require (case current of Null \<Rightarrow> True | Value state \<Rightarrow> ps_path state = wm_path m)
       (ProtocolInvariant ''stale_state_path_mismatch'')) (\<lambda>_.
     let touched = mutation_paths m in
     then_do (read_state (path_state_map lib)) (\<lambda>states.
     let states = (case current of Null \<Rightarrow> states(wm_path m := None) | Value state \<Rightarrow> states(ps_path state \<mapsto> state)) in
     then_do (read_state (deferred_operations lib touched)) (\<lambda>intents.
     then_do (if intents = [] then lift_result (and_then (ok_or (desired_from_mutation m None) (ProtocolInvariant ''panic'')) (\<lambda>d. Ok [d]))
              else give intents) (\<lambda>desired.
     then_do (next_mutations lib desired states) (\<lambda>next en.
     let st = en_state en; ws = st_workspace_id st in
     then_do (write_state (transaction
       (tx_then (case current of Null \<Rightarrow> remove_path_state_tx ws (wm_path m)
                 | Value state \<Rightarrow> put_path_state_tx (el_store lib) ws state) (\<lambda>_.
        tx_then (remove_outbox_tx (st_client_id st) (wm_operation_id m)) (\<lambda>_.
        tx_then (tx_each (remove_local_intent_tx ws) (paths_for_desired_operations touched desired)) (\<lambda>_.
        tx_each (\<lambda>(m, timestamp). enqueue_tx lib st m timestamp) next))))))
       (\<lambda>_. give []) en)))))"

definition mutation_rejected :: "engine_lib \<Rightarrow> WorkspaceMutationRejectedMessage \<Rightarrow> SyncCommand list engine" where
  "mutation_rejected lib rejected =
     then_do ensure_open (\<lambda>_.
     then_do (require (is_ok (mutation_rejected_validate rejected)) (ProtocolInvariant ''invalid_mutation_rejected'')) (\<lambda>_.
     then_do (validate_identity (mr_workspace_id rejected) (mr_client_id rejected)) (\<lambda>_.
     then_do (require (mr_reason rejected \<noteq> OperationReused) (ProtocolInvariant ''operation_reused'')) (\<lambda>_.
     then_do (read_state (outbox_entry (el_store lib) (mr_operation_id rejected))) (\<lambda>record.
     then_do (lift_result (ok_or record (ProtocolInvariant ''mutation_not_outstanding''))) (\<lambda>record.
     then_do (lift_result (ok_or (outbox_mutation lib record) (ProtocolInvariant ''outbox_not_mutation''))) (\<lambda>m.
     case mr_reason rejected of
       BlobRequired \<Rightarrow>
         then_do (lift_result (ok_or (into_option (mr_required_hash rejected)) (ProtocolInvariant ''blob_hash_missing''))) (\<lambda>required_hash.
         then_do (require (wm_content_hash m = Value required_hash) (ProtocolInvariant ''blob_hash_mismatch'')) (\<lambda>_.
         then_do (write_state (set_outbox_stage (el_store lib) (mr_operation_id rejected) AwaitingBlob)) (\<lambda>_. give [])))
     | ConflictCreated \<Rightarrow>
         then_do (write_state (set_outbox_stage (el_store lib) (mr_operation_id rejected) BlockedConflict)) (\<lambda>_. give [])
     | StaleBaseRevision \<Rightarrow> reconcile_stale lib m (mr_current_path_state rejected)
     | OperationReused \<Rightarrow> lift_result (Err (ProtocolInvariant ''panic'')))))))))"

datatype MutationResult = ResultAccepted WorkspaceMutationAcceptedMessage | ResultRejected WorkspaceMutationRejectedMessage

fun mutation_result :: "engine_lib \<Rightarrow> MutationResult \<Rightarrow> SyncCommand list engine" where
  "mutation_result lib (ResultAccepted message) = mutation_accepted lib message"
| "mutation_result lib (ResultRejected message) = mutation_rejected lib message"

section \<open>Uploads, acknowledgements, streams\<close>

definition blob_uploaded :: "engine_lib \<Rightarrow> OperationId \<Rightarrow> unit engine" where
  "blob_uploaded lib op =
     then_do ensure_open (\<lambda>_.
     then_do (read_state (outbox_entry (el_store lib) op)) (\<lambda>record.
     then_do (lift_result (ok_or record (ProtocolInvariant ''mutation_not_outstanding''))) (\<lambda>record.
     case ob_stage record of
       AwaitingBlob \<Rightarrow> write_state (set_outbox_stage (el_store lib) op Dispatched)
     | Dispatched \<Rightarrow> give ()
     | _ \<Rightarrow> lift_result (Err (ProtocolInvariant ''blob_upload_not_awaiting'')))))"

definition prepare_connection_attempt :: "nat engine" where
  "prepare_connection_attempt = then_do ensure_open (\<lambda>_. write_state replay_awaiting_blob_mutations)"

definition mark_live_event_applied :: "WorkspaceRevision \<Rightarrow> unit engine" where
  "mark_live_event_applied revision =
     then_do (read_state cursor) (\<lambda>c.
     if revision \<le> wc_last_ack_revision c then give ()
     else (\<lambda>en.
       let ws = st_workspace_id (en_state en) in
       write_state (transaction
         (tx_then (if revision > wc_last_applied_revision c then set_last_applied_revision_tx ws revision else tx_done) (\<lambda>_.
          if (case wc_pending_ack_revision c of None \<Rightarrow> True | Some waiting \<Rightarrow> revision > waiting)
          then set_pending_ack_tx ws revision else tx_done))) en))"

definition ack_confirmed :: "WorkspaceAckRequest \<Rightarrow> unit engine" where
  "ack_confirmed message =
     then_do ensure_open (\<lambda>_.
     then_do (require (is_ok (ack_request_validate message)) (ProtocolInvariant ''invalid_ack'')) (\<lambda>_.
     then_do (validate_identity (ack_workspace_id message) (ack_client_id message)) (\<lambda>_.
     then_do (read_state cursor) (\<lambda>c en.
     let ws = st_workspace_id (en_state en); revision = ack_revision message in
     (case wc_pending_ack_revision c of
        None \<Rightarrow>
          if revision = wc_last_ack_revision c then give ()
          else if wc_pending_segment_ack_revision c = Some revision \<and> revision > wc_last_ack_revision c \<and>
                  revision \<le> wc_last_applied_revision c
          then write_state (transaction
                 (tx_then (set_last_ack_revision_tx ws revision) (\<lambda>_. clear_pending_segment_ack_tx ws)))
          else lift_result (Err (ProtocolInvariant ''ack_not_pending''))
      | Some waiting \<Rightarrow>
          if revision \<le> wc_last_ack_revision c \<or> revision > waiting \<or> revision > wc_last_applied_revision c
          then lift_result (Err (ProtocolInvariant ''ack_mismatch''))
          else write_state (transaction
                 (tx_then (set_last_ack_revision_tx ws revision) (\<lambda>_.
                  if revision = waiting
                  then tx_then (clear_pending_ack_tx ws) (\<lambda>_.
                       tx_then (clear_pending_segment_ack_tx ws) (\<lambda>_. clear_stream_tx ws))
                  else tx_done)))) en))))"

definition snapshot_begin :: "WorkspaceSnapshotBeginMessage \<Rightarrow> unit engine" where
  "snapshot_begin message =
     then_do ensure_open (\<lambda>_.
     then_do (require (is_ok (snapshot_begin_validate message)) (StreamInvariant ''invalid_begin'')) (\<lambda>_ en.
     then_do (require (sb_workspace_id message = st_workspace_id (en_state en)) (ProtocolInvariant ''stream_workspace_mismatch'')) (\<lambda>_.
     then_do (read_state stream_state) (\<lambda>active.
     then_do (write_state (begin_stream message)) (\<lambda>_ en.
     (Ok (), if (case active of None \<Rightarrow> True | Some a \<Rightarrow> ss_stream_id a \<noteq> sb_stream_id message)
             then en\<lparr>en_pending_live_events := [], en_pending_live_serialized_bytes := 0,
                     en_next_inbound_source := SourceStream\<rparr>
             else en)))) en))"

section \<open>The loop ends\<close>

lemma intersect_pass_ops:
  "\<exists>paths new b. intersect_pass available (intersecting, operations, expanded) = (paths, operations @ new, b) \<and>
     set new \<subseteq> set available - set operations \<and> b = (expanded \<or> new \<noteq> [])"
proof (induction available arbitrary: intersecting operations expanded)
  case (Cons d available)
  show ?case
  proof (cases "d \<in> set operations \<or> \<not> touches intersecting d")
    case True
    then show ?thesis using Cons.IH [of intersecting operations expanded] by auto
  next
    case False
    obtain paths new b where "intersect_pass available (intersecting @ desired_paths d, operations @ [d], True) =
        (paths, (operations @ [d]) @ new, b)" "set new \<subseteq> set available - set (operations @ [d])" "b = (True \<or> new \<noteq> [])"
      using Cons.IH by blast
    then show ?thesis using False by (intro exI [of _ paths] exI [of _ "d # new"]) auto
  qed
qed simp

text \<open>The loop adds operations that are available and not yet there, so it ends.\<close>

lemma intersect_loop_ends: "\<exists>result. intersect_loop available intersecting operations = Some result"
proof (induction "card (set available - set operations)" arbitrary: intersecting operations rule: less_induct)
  case less
  obtain paths new b where pass: "intersect_pass available (intersecting, operations, False) = (paths, operations @ new, b)"
    and new: "set new \<subseteq> set available - set operations" "b = (new \<noteq> [])"
    using intersect_pass_ops [of available intersecting operations False] by auto
  show ?case
  proof (cases "new = []")
    case True
    then show ?thesis using pass new by (subst intersect_loop.simps) simp
  next
    case False
    have "set available - set (operations @ new) \<subset> set available - set operations"
      using new False by (cases new) auto
    then have "card (set available - set (operations @ new)) < card (set available - set operations)"
      by (rule psubset_card_mono [rotated]) simp
    from less [OF this] show ?thesis using pass new False by (subst intersect_loop.simps) simp
  qed
qed

end
