(* ===== verification/Engine_Deferred.thy ===== *)
theory Engine_Deferred
  imports Engine_Settle Sync_Example
begin

text \<open>
  Deferred wishes that cannot be carried out: a rename that is taken back while it is deferred is merged to
  a rename of a path to itself, which no outbox accepts.
\<close>

section \<open>The engine monad\<close>

lemma then_do_Ok [simp]: "f en = (Ok v, en') \<Longrightarrow> then_do f g en = g v en'"
  by (simp add: then_do_def)

lemma then_do_Err [simp]: "f en = (Err e, en') \<Longrightarrow> then_do f g en = (Err e, en')"
  by (simp add: then_do_def)

lemma then_do_Ok_iff:
  "then_do f g en = (Ok v, en') \<longleftrightarrow> (\<exists>w en1. f en = (Ok w, en1) \<and> g w en1 = (Ok v, en'))"
  by (auto simp: then_do_def split: prod.splits result.splits)

lemma tx_then_Ok_iff: "tx_then f g db = Ok (v, db') \<longleftrightarrow> (\<exists>w db1. f db = Ok (w, db1) \<and> g w db1 = Ok (v, db'))"
  by (auto simp: tx_then_def result_simps)

lemma lift_result_apply [simp]: "lift_result r en = (r, en)"
  by (simp add: lift_result_def)

lemma give_apply [simp]: "give v en = (Ok v, en)"
  by (simp add: give_def)

lemma read_state_apply [simp]: "read_state f en = (f (en_state en), en)"
  by (simp add: read_state_def)

lemma require_apply: "require ok e en = (if ok then Ok () else Err e, en)"
  by (simp add: require_def)

lemma next_timestamp_state: "\<exists>t en'. next_timestamp lib en = (Ok t, en') \<and> en_state en' = en_state en \<and> en_closed en' = en_closed en"
  by (auto simp: next_timestamp_def split: list.splits)

lemma next_operation_id_state: "next_operation_id lib en = (r, en') \<Longrightarrow> en_state en' = en_state en \<and> en_closed en' = en_closed en"
  by (auto simp: next_operation_id_def split: prod.splits result.splits option.splits)

section \<open>A rename that is taken back\<close>

lemma self_rename_invalid:
  "mutation_validate (mutation_for_desired (DesiredRename a a k h md) ws client op states) \<noteq> Ok ()"
  by (simp add: mutation_validate_Ok_iff mutation_wf_def mutation_for_desired_def)

lemma enqueue_invalid:
  assumes "mutation_validate m \<noteq> Ok ()"
  shows "enqueue_tx lib st m t db = Err (ProtocolInvariant ''invalid_mutation'')"
  using assms by (cases "mutation_validate m") (simp_all add: enqueue_tx_def tx_then_def enqueue_mutation_at_def)

lemma materialize_each_append:
  "materialize_each lib conflicted states (xs @ ys) =
     then_do (materialize_each lib conflicted states xs) (\<lambda>_. materialize_each lib conflicted states ys)"
  by (induction xs) (simp_all add: fun_eq_iff then_do_def give_def split: prod.split result.split)

text \<open>
  C39: A rename from \<open>a\<close> to \<open>b\<close> that is deferred and then taken back is merged to a rename from \<open>a\<close> to itself.
  Such a wish is never carried out. When the deferred wishes are taken up in order and those before it are
  done, it is passed over as long as the path is in conflict or has an operation in the outbox; otherwise
  turning it into a mutation fails with \<open>invalid_mutation\<close>, the store stays as the wishes before it left it, so
  that the wish itself remains, and the wishes after it are not taken up.
\<close>

theorem rename_back_blocks:
  assumes intent: "decode_intent lib (li_intent_json r) = Ok (IntentRename a a k h md)" and kind: "k \<noteq> Tombstone"
    and done_before: "materialize_each lib conflicted states before en = (Ok (), en1)"
    and waiting: "outbox (el_store lib) (en_state en1) = Ok records"
    and op: "next_operation_id lib en1 = (Ok op, en2)"
  shows "merge_deferred_desired (DesiredRename a b k' h' md') (DesiredRename b a k h md) = DesiredRename a a k h md \<and>
    (if list_ex (paths_intersect a) conflicted \<or> has_outbox lib [a, a] records
     then materialize_each lib conflicted states (before @ r # later) en = materialize_each lib conflicted states later en1
     else \<exists>en3. materialize_each lib conflicted states (before @ r # later) en =
            (Err (ProtocolInvariant ''invalid_mutation''), en3) \<and> en_state en3 = en_state en1)"
proof (intro conjI)
  have split: "materialize_each lib conflicted states (before @ r # later) en =
      then_do (materialize_one lib conflicted states r) (\<lambda>_. materialize_each lib conflicted states later) en1"
    using done_before by (simp add: materialize_each_append then_do_def)
  obtain t en3 where time: "next_timestamp lib en2 = (Ok t, en3)" and st: "en_state en3 = en_state en2"
    using next_timestamp_state by blast
  have st2: "en_state en2 = en_state en1" using next_operation_id_state [OF op] by simp
  have remote: "\<not> desired_matches_remote (DesiredRename a a k h md) states"
    using kind by (auto split: option.splits)
  show "if list_ex (paths_intersect a) conflicted \<or> has_outbox lib [a, a] records
     then materialize_each lib conflicted states (before @ r # later) en = materialize_each lib conflicted states later en1
     else \<exists>en3. materialize_each lib conflicted states (before @ r # later) en =
            (Err (ProtocolInvariant ''invalid_mutation''), en3) \<and> en_state en3 = en_state en1"
  proof (cases "list_ex (paths_intersect a) conflicted \<or> has_outbox lib [a, a] records")
    case True
    then have "materialize_one lib conflicted states r en1 = (Ok (), en1)"
      using intent waiting remote by (auto simp: materialize_one_def Let_def simp del: desired_matches_remote.simps)
    with True show ?thesis by (simp add: split then_do_def)
  next
    case False
    then have "materialize_one lib conflicted states r en1 = (Err (ProtocolInvariant ''invalid_mutation''), en3)"
      using intent waiting op time remote st st2
      by (simp add: materialize_one_def Let_def write_state_def transaction_def tx_then_def [of "enqueue_tx _ _ _ _"]
          enqueue_invalid [OF self_rename_invalid] del: desired_matches_remote.simps)
    with False show ?thesis using st st2 by (simp add: split then_do_def)
  qed
qed simp

lemma record_desired_compacted:
  assumes "path_state_map lib (en_state en) = Ok states" "outbox (el_store lib) (en_state en) = Ok records"
    and "find_touching lib (desired_paths d) records = None"
    and "compact_deferred lib d (desired_paths d) (en_state en) = Ok (Some (merged, existing_paths))"
    and "encode_intent lib (intent_for_path merged (hd (desired_paths merged))) = Ok body"
    and "next_timestamp lib en = (Ok t, en1)"
  shows "record_desired lib d en =
    write_state (transaction
      (tx_then (tx_each (remove_local_intent_tx (st_workspace_id (en_state en1))) existing_paths) (\<lambda>_.
       tx_each (put_local_intent_at (el_store lib) (st_workspace_id (en_state en1)) body t) (desired_paths merged)))) en1"
  using assms by (simp add: record_desired_def Let_def)

definition demo_move :: "string \<Rightarrow> string \<Rightarrow> LocalIntent" where
  "demo_move a b = IntentRename (WorkspacePath a) (WorkspacePath b) Directory Null zero_metadata"

definition demo_engine_lib :: engine_lib where
  "demo_engine_lib = \<lparr>el_store = demo_store,
     el_intent = table_codec [(demo_move ''a'' ''b'', [21]), (demo_move ''a'' ''a'', [22])],
     el_result = table_codec [(\<lparr>ar_mutation = demo_mkdir 11 ''a'', ar_path_state = demo_dir ''a'' 1,
       ar_old_path_state = None, ar_new_path_state = None\<rparr>, [31])],
     el_new_v4 = (\<lambda>n. word_of_nat (100 + n)), el_now_ms = (\<lambda>n. 1000)\<rparr>"

definition demo_intent_rows :: "u8 list \<Rightarrow> string list \<Rightarrow> LocalIntentRecord list" where
  "demo_intent_rows json = map (\<lambda>p. \<lparr>li_workspace_id = demo_ws, li_path = WorkspacePath p, li_intent_json = json,
     li_updated_at_ms = 1000\<rparr>)"

definition demo_engine :: "LocalIntentRecord list \<Rightarrow> SyncEngine" where
  "demo_engine rows = \<lparr>en_state = demo_state\<lparr>st_conn := (st_conn demo_state)\<lparr>db_local_intents := rows\<rparr>\<rparr>,
     en_operation_ids = [], en_timestamps = [1000],
     en_inbound_work_limits = default_inbound_work_limits, en_pending_live_events = [], en_pending_live_serialized_bytes = 0,
     en_next_inbound_source = SourceStream, en_closed = False, en_draws = 0\<rparr>"

lemma demo_engine_tables:
  "st_workspace_id (en_state (demo_engine rows)) = demo_ws" "st_client_id (en_state (demo_engine rows)) = demo_client"
  "db_outbox (st_conn (en_state (demo_engine rows))) = []" "db_path_states (st_conn (en_state (demo_engine rows))) = []"
  "db_conflicts (st_conn (en_state (demo_engine rows))) = []" "db_applied_operations (st_conn (en_state (demo_engine rows))) = []"
  "db_local_intents (st_conn (en_state (demo_engine rows))) = rows"
  by (simp_all add: demo_engine_def demo_state_def empty_database_def)

lemma demo_record_back:
  "record_desired demo_engine_lib (desired_from_intent (demo_move ''b'' ''a'')) (demo_engine (demo_intent_rows [21] [''a'', ''b''])) =
     (Ok (), (demo_engine (demo_intent_rows [22] [''a'']))\<lparr>en_timestamps := []\<rparr>)"
proof -
  let ?en = "demo_engine (demo_intent_rows [21] [''a'', ''b''])" and ?a = "WorkspacePath ''a''" and ?b = "WorkspacePath ''b''"
  let ?same = "DesiredRename ?a ?a Directory Null zero_metadata"
  have lib: "el_store demo_engine_lib = demo_store" by (simp add: demo_engine_lib_def)
  have start: "outbox demo_store (en_state ?en) = Ok []" "path_states demo_store (en_state ?en) = Ok []"
    by (simp_all add: demo_engine_tables outbox_def path_states_def)
  have compact: "compact_deferred demo_engine_lib (desired_from_intent (demo_move ''b'' ''a'')) [?b, ?a] (en_state ?en) =
      Ok (Some (?same, [?a, ?b]))"
    by (simp add: compact_deferred_def deferred_operations_def local_intents_def demo_engine_tables demo_intent_rows_def
        row_to_local_intent_def decode_intent_def demo_engine_lib_def table_codec_def demo_move_def unique_paths_def
        less_eq_WorkspacePath_def)
  have body: "encode_intent demo_engine_lib (intent_for_path ?same ?a) = Ok [22]"
    by (simp add: encode_intent_def demo_engine_lib_def table_codec_def demo_move_def canonical_json_def)
  have "path_parse (\<lambda>s. s) ''a'' = Ok ?a" by code_simp
  then have parse: "parse_path_arg demo_store ''a'' = Ok ?a" by (simp add: parse_path_arg_def demo_store_def)
  have time: "next_timestamp demo_engine_lib ?en = (Ok 1000, ?en\<lparr>en_timestamps := []\<rparr>)"
    by (simp add: next_timestamp_def demo_engine_def)
  have d: "desired_paths (desired_from_intent (demo_move ''b'' ''a'')) = [?b, ?a]" by (simp add: demo_move_def)
  have "record_desired demo_engine_lib (desired_from_intent (demo_move ''b'' ''a'')) ?en =
    write_state (transaction
      (tx_then (tx_each (remove_local_intent_tx demo_ws) [?a, ?b]) (\<lambda>_.
       tx_each (put_local_intent_at demo_store demo_ws [22] 1000) [?a, ?a]))) (?en\<lparr>en_timestamps := []\<rparr>)"
    using start compact body
    by (subst record_desired_compacted [where states = Map.empty and records = "[]" and merged = ?same and
          existing_paths = "[?a, ?b]" and body = "[22]", OF _ _ _ _ _ time])
      (simp_all add: d lib path_state_map_def demo_engine_tables)
  also have "\<dots> = (Ok (), (demo_engine (demo_intent_rows [22] [''a'']))\<lparr>en_timestamps := []\<rparr>)"
    using parse
    by (simp add: write_state_def transaction_def tx_then_def tx_done_def remove_local_intent_tx_def put_local_intent_at_def
        put_local_intent_tx_def demo_engine_def demo_state_def empty_database_def demo_intent_rows_def sql_delete_def
        sql_upsert_def intent_key_def)
  finally show ?thesis .
qed

theorem rename_back_blocks_witness:
  "record_desired demo_engine_lib (desired_from_intent (demo_move ''b'' ''a'')) (demo_engine (demo_intent_rows [21] [''a'', ''b''])) =
     (Ok (), (demo_engine (demo_intent_rows [22] [''a'']))\<lparr>en_timestamps := []\<rparr>) \<and>
   (\<exists>en2. materialize_local_intents demo_engine_lib (demo_engine (demo_intent_rows [22] [''a''])) =
       (Err (ProtocolInvariant ''invalid_mutation''), en2) \<and> en_state en2 = en_state (demo_engine (demo_intent_rows [22] [''a''])))"
proof (intro conjI demo_record_back)
  let ?en = "demo_engine (demo_intent_rows [22] [''a''])" and ?a = "WorkspacePath ''a''"
  obtain r where r: "demo_intent_rows [22] [''a''] = [r]" "decode_intent demo_engine_lib (li_intent_json r) =
      Ok (IntentRename ?a ?a Directory Null zero_metadata)"
    by (simp add: demo_intent_rows_def decode_intent_def demo_engine_lib_def table_codec_def demo_move_def)
  have start: "local_intents (en_state ?en) = Ok [r]" "conflicts demo_store (en_state ?en) = Ok []"
    "outbox demo_store (en_state ?en) = Ok []" "path_states demo_store (en_state ?en) = Ok []"
    using r(1) by (auto simp: demo_engine_tables outbox_def path_states_def conflicts_def local_intents_def
        demo_intent_rows_def row_to_local_intent_def)
  have lib: "el_store demo_engine_lib = demo_store" by (simp add: demo_engine_lib_def)
  have "next_operation_id demo_engine_lib ?en = (Ok (OperationId 100), ?en\<lparr>en_draws := 1\<rparr>)"
    by (simp add: next_operation_id_def demo_engine_def demo_engine_lib_def)
  from rename_back_blocks [where before = "[]" and later = "[]" and conflicted = "[]" and records = "[]" and states = Map.empty
      and en = ?en, OF r(2) _ _ _ this]
  obtain en2 where en2: "materialize_each demo_engine_lib [] Map.empty [r] ?en = (Err (ProtocolInvariant ''invalid_mutation''), en2)"
    "en_state en2 = en_state ?en"
    using start(3) by (auto simp: lib has_outbox_def give_def)
  then show "\<exists>en2. materialize_local_intents demo_engine_lib ?en = (Err (ProtocolInvariant ''invalid_mutation''), en2) \<and>
      en_state en2 = en_state ?en"
    using start by (simp add: materialize_local_intents_def lib path_state_map_def del: materialize_each.simps)
qed

end
