(* ===== verification/Engine_System.thy ===== *)
theory Engine_System
  imports Engine_Settle
begin

text \<open>
  What \<open>SyncEngine\<close> (\<open>fns-sync-core/src/engine.rs\<close>) sees of the file system and how it compares that with
  the states of the server: observed entries, the operation that brings a path to a state, and the local
  wishes that a divergence leaves behind. The file system and the content cache are parameters of the model: each
  call has a number, and the answer to a call is an arbitrary function of its number, so nothing is assumed about
  what other programs do to the files in between.
\<close>

section \<open>The file system\<close>

record ContentDescriptor =
  dc_content_hash :: WorkspaceContentHash
  dc_size :: u64
  dc_metadata :: WorkspaceFileMetadata
  dc_fingerprint :: FileFingerprint

record DirectorySnapshotEntry =
  dn_relative_path :: WorkspacePath
  dn_kind :: WorkspaceEntryKind
  dn_content_hash :: "WorkspaceContentHash option"
  dn_metadata :: WorkspaceFileMetadata
  dn_fingerprint :: FileFingerprint

record DirectorySnapshot =
  ds_digest :: WorkspaceContentHash
  ds_entries :: "DirectorySnapshotEntry list"

datatype ExpectedEntry =
    Missing
  | Present WorkspaceEntryKind "WorkspaceContentHash option" "DirectorySnapshot option" FileFingerprint

datatype FsOperation =
    FsUpsertFile WorkspacePath WorkspaceContentHash WorkspaceFileMetadata ExpectedEntry
  | FsMkdir WorkspacePath WorkspaceFileMetadata ExpectedEntry
  | FsUpsertSymlink WorkspacePath WorkspaceContentHash WorkspaceFileMetadata ExpectedEntry
  | FsDelete WorkspacePath ExpectedEntry
  | FsRename WorkspacePath WorkspacePath "WorkspaceContentHash option" WorkspaceFileMetadata ExpectedEntry ExpectedEntry

datatype RemoteApplyOperation =
    RemoteUpsert WorkspacePathState
  | RemoteDelete WorkspacePathState
  | RemoteRename WorkspacePathState WorkspacePathState

datatype ApplyCommitPlan =
    PlanSnapshotEntry WorkspaceSnapshotEntryMessage
  | PlanStreamEvent WorkspaceEventMessage bool
  | PlanLiveEvent WorkspaceEventMessage bool
  | PlanStreamConflictResolved WorkspaceConflictResolvedMessage
  | PlanLiveConflictResolved WorkspaceConflictResolvedMessage

fun plan_namespace :: "ApplyCommitPlan \<Rightarrow> ApplyNamespace" where
  "plan_namespace (PlanSnapshotEntry _) = SnapshotEntry"
| "plan_namespace (PlanStreamEvent _ _) = StreamEvent"
| "plan_namespace (PlanLiveEvent _ _) = ApplyNamespace.LiveEvent"
| "plan_namespace (PlanStreamConflictResolved _) = StreamConflictResolved"
| "plan_namespace (PlanLiveConflictResolved _) = LiveConflictResolved"

text \<open>
  A blob that cannot be opened is \<open>None\<close>, one whose reading fails is \<open>Some None\<close>. The result of a scan has the
  entries found and whether there were issues. \<open>sy_import\<close> stands for the two ways in which received content gets into
  the content cache. \<open>sy_stream_observed\<close> and \<open>sy_commit_temporary\<close> are
  \<open>ContentCache::stream_observed\<close> and \<open>commit_temporary\<close>.
\<close>

record system_lib =
  sy_engine :: engine_lib
  sy_operation :: "RemoteApplyOperation serde"
  sy_fs_operation :: "FsOperation serde"
  sy_plan :: "ApplyCommitPlan serde"
  sy_states :: "WorkspacePathState list serde"
  sy_receipt :: "ApplyReceipt serde"
  sy_to_hex :: "u8 list \<Rightarrow> string"
  sy_rules :: SyncRules
  sy_inspect :: "nat \<Rightarrow> WorkspacePath \<Rightarrow> (ObservedEntry option, FsError) result"
  sy_directory_snapshot :: "nat \<Rightarrow> WorkspacePath \<Rightarrow> (DirectorySnapshot, FsError) result"
  sy_scan :: "nat \<Rightarrow> (ObservedEntry list \<times> bool, FsError) result"
  sy_read_blob :: "nat \<Rightarrow> WorkspaceContentHash \<Rightarrow> u8 list option option"
  sy_blob_matches :: "nat \<Rightarrow> WorkspaceContentHash \<Rightarrow> u64 \<Rightarrow> (bool, FsError) result"
  sy_stream_observed :: "nat \<Rightarrow> WorkspacePath \<Rightarrow> ObservedEntry \<Rightarrow> (WorkspaceContentHash \<times> u64, FsError) result"
  sy_commit_temporary :: "nat \<Rightarrow> WorkspaceContentHash \<Rightarrow> u64 \<Rightarrow> (unit, FsError) result"
  sy_import :: "nat \<Rightarrow> WorkspaceContentHash \<Rightarrow> u64 \<Rightarrow> (unit, FsError) result"
  sy_apply :: "nat \<Rightarrow> ApplyId \<Rightarrow> FsOperation \<Rightarrow> (ApplyReceipt, FsError) result"
  sy_finalize :: "nat \<Rightarrow> ApplyReceipt \<Rightarrow> (unit, FsError) result"
  sy_abandon :: "nat \<Rightarrow> ApplyId \<Rightarrow> FsOperation \<Rightarrow> (unit, FsError) result"

abbreviation sy_store :: "system_lib \<Rightarrow> store_lib" where
  "sy_store lib \<equiv> el_store (sy_engine lib)"

definition ask :: "(nat \<Rightarrow> ('a, SyncError) result) \<Rightarrow> 'a engine" where
  "ask f en = (f (en_draws en), en\<lparr>en_draws := Suc (en_draws en)\<rparr>)"

definition ask_fs :: "(nat \<Rightarrow> ('a, FsError) result) \<Rightarrow> 'a engine" where
  "ask_fs f = ask (\<lambda>n. map_err Filesystem (f n))"

definition inspect :: "system_lib \<Rightarrow> WorkspacePath \<Rightarrow> ObservedEntry option engine" where
  "inspect lib path = ask_fs (\<lambda>n. sy_inspect lib n path)"

fun each_do :: "('x \<Rightarrow> unit engine) \<Rightarrow> 'x list \<Rightarrow> unit engine" where
  "each_do f [] = give ()"
| "each_do f (x # xs) = then_do (f x) (\<lambda>_. each_do f xs)"

fun collect_do :: "('x \<Rightarrow> 'y engine) \<Rightarrow> 'x list \<Rightarrow> 'y list engine" where
  "collect_do f [] = give []"
| "collect_do f (x # xs) = then_do (f x) (\<lambda>y. then_do (collect_do f xs) (\<lambda>ys. give (y # ys)))"

section \<open>Content\<close>

text \<open>The errors of the hash cache become I/O errors of the operation that failed.\<close>

definition cache_do ::
    "string \<Rightarrow> (SqliteState \<Rightarrow> (unit, HashCacheError) result \<times> SqliteState) \<Rightarrow> unit engine" where
  "cache_do operation f en =
     (case f (en_state en) of (r, st) \<Rightarrow> (map_err (\<lambda>_. Filesystem (Io operation)) r, en\<lparr>en_state := st\<rparr>))"

text \<open>The loop of two attempts: the file must not change while it is read.\<close>

fun stage_attempts :: "system_lib \<Rightarrow> WorkspacePath \<Rightarrow> nat \<Rightarrow> ContentDescriptor engine" where
  "stage_attempts lib path 0 = lift_result (Err (Filesystem (UnstableFile path)))"
| "stage_attempts lib path (Suc attempts) =
     then_do (inspect lib path) (\<lambda>before.
     then_do (lift_result (ok_or before (Filesystem (Io ''stage missing entry'')))) (\<lambda>before.
     then_do (ask_fs (\<lambda>n. sy_stream_observed lib n path before)) (\<lambda>(hash, byte_size).
     then_do (inspect lib path) (\<lambda>after.
     then_do (lift_result (ok_or after (Filesystem (Io ''stage missing entry'')))) (\<lambda>after.
     if oe_fingerprint before \<noteq> oe_fingerprint after then stage_attempts lib path attempts
     else
       then_do (ask_fs (\<lambda>n. sy_commit_temporary lib n hash byte_size)) (\<lambda>_.
       then_do (cache_do ''write hash cache'' (cache_store (sy_store lib) path (oe_fingerprint after) hash)) (\<lambda>_.
       give \<lparr>dc_content_hash = hash, dc_size = byte_size, dc_metadata = oe_metadata after,
             dc_fingerprint = oe_fingerprint after\<rparr>)))))))"

definition stage_workspace_entry :: "system_lib \<Rightarrow> WorkspacePath \<Rightarrow> ContentDescriptor engine" where
  "stage_workspace_entry lib path =
     then_do (inspect lib path) (\<lambda>observed.
     then_do (lift_result (ok_or observed (Filesystem (Io ''stage missing entry'')))) (\<lambda>observed.
     then_do (read_state (\<lambda>st. map_err (\<lambda>_. Filesystem (Io ''read hash cache''))
       (cache_lookup (sy_store lib) path (oe_fingerprint observed) st))) (\<lambda>cached.
     case cached of
       None \<Rightarrow> stage_attempts lib path 2
     | Some hash \<Rightarrow>
         then_do (ask_fs (\<lambda>n. sy_blob_matches lib n hash (md_size (oe_metadata observed)))) (\<lambda>found.
         if found then
           give \<lparr>dc_content_hash = hash, dc_size = md_size (oe_metadata observed), dc_metadata = oe_metadata observed,
                 dc_fingerprint = oe_fingerprint observed\<rparr>
         else
           then_do (cache_do ''invalidate hash cache'' (cache_invalidate path)) (\<lambda>_. stage_attempts lib path 2)))))"

definition content_available :: "system_lib \<Rightarrow> WorkspaceContentHash \<Rightarrow> u64 \<Rightarrow> bool engine" where
  "content_available lib hash byte_size =
     then_do (ask (\<lambda>n. Ok (sy_read_blob lib n hash))) (\<lambda>blob.
     case blob of
       None \<Rightarrow> give False
     | Some None \<Rightarrow> lift_result (Err (Filesystem (Io ''read content cache'')))
     | Some (Some bytes) \<Rightarrow>
         then_do (require (length bytes < 2 ^ 64) (ProtocolInvariant ''content_size_overflow'')) (\<lambda>_.
         then_do (lift_result (map_err (\<lambda>_. CorruptState ''content_cache'' ''content_hash'')
           (content_hash_parse (''blake3:'' @ sy_to_hex lib (lib_blake3 (sy_store lib) bytes))))) (\<lambda>actual.
         give (length bytes = unat byte_size \<and> actual = hash))))"

definition required_content :: "WorkspacePathState \<Rightarrow> (WorkspaceContentHash \<times> u64) option" where
  "required_content state =
     (case ps_kind state of
        File \<Rightarrow> map_option (\<lambda>hash. (hash, md_size (ps_metadata state))) (into_option (ps_content_hash state))
      | Symlink \<Rightarrow> map_option (\<lambda>hash. (hash, md_size (ps_metadata state))) (into_option (ps_content_hash state))
      | Directory \<Rightarrow> None
      | Tombstone \<Rightarrow> None)"

text \<open>Without the two states of a rename the code panics, which is the error here.\<close>

definition post_states_of :: "WorkspaceEventMessage \<Rightarrow> (WorkspacePathState list, SyncError) result" where
  "post_states_of event = ok_or (event_post_states event) (ProtocolInvariant ''panic'')"

fun find_content :: "WorkspacePathState list \<Rightarrow> (WorkspaceContentHash \<times> u64) option" where
  "find_content [] = None"
| "find_content (state # states) =
     (case required_content state of Some content \<Rightarrow> Some content | None \<Rightarrow> find_content states)"

definition required_event_content ::
    "WorkspaceEventMessage \<Rightarrow> ((WorkspaceContentHash \<times> u64) option, SyncError) result" where
  "required_event_content event = and_then (post_states_of event) (\<lambda>states. Ok (find_content states))"

definition status_for_state :: "system_lib \<Rightarrow> WorkspacePathState \<Rightarrow> StreamItemStatus engine" where
  "status_for_state lib state =
     (case required_content state of
        None \<Rightarrow> give Ready
      | Some (hash, byte_size) \<Rightarrow>
          then_do (content_available lib hash byte_size) (\<lambda>available. give (if available then Ready else WaitingBlob)))"

section \<open>Observed entries\<close>

definition desired_entry_from_observed :: "system_lib \<Rightarrow> ObservedEntry \<Rightarrow> LocalDesiredEntry engine" where
  "desired_entry_from_observed lib observed =
     (if oe_kind observed = Directory then
        give \<lparr>de_path = oe_path observed, de_kind = oe_kind observed, de_content_hash = Null, de_metadata = zero_metadata\<rparr>
      else
        then_do (cache_do ''invalidate hash cache'' (cache_invalidate (oe_path observed))) (\<lambda>_.
        then_do (stage_workspace_entry lib (oe_path observed)) (\<lambda>descriptor.
        give \<lparr>de_path = oe_path observed, de_kind = oe_kind observed,
              de_content_hash = Value (dc_content_hash descriptor), de_metadata = dc_metadata descriptor\<rparr>)))"

definition observed_content_hash :: "system_lib \<Rightarrow> ObservedEntry \<Rightarrow> WorkspaceContentHash option engine" where
  "observed_content_hash lib observed =
     (if oe_kind observed = Directory then give None
      else then_do (desired_entry_from_observed lib observed) (\<lambda>entry. give (into_option (de_content_hash entry))))"

definition expected_from_observed :: "system_lib \<Rightarrow> ObservedEntry option \<Rightarrow> ExpectedEntry engine" where
  "expected_from_observed lib observed =
     (case observed of
        None \<Rightarrow> give Missing
      | Some observed \<Rightarrow>
          then_do (observed_content_hash lib observed) (\<lambda>hash.
          then_do (if oe_kind observed = Directory
                   then then_do (ask_fs (\<lambda>n. sy_directory_snapshot lib n (oe_path observed))) (\<lambda>s. give (Some s))
                   else give None) (\<lambda>snapshot.
          give (Present (oe_kind observed) hash snapshot (oe_fingerprint observed)))))"

definition observed_matches_post :: "system_lib \<Rightarrow> WorkspacePathState \<Rightarrow> ObservedEntry option \<Rightarrow> bool engine" where
  "observed_matches_post lib state observed =
     (case observed of
        None \<Rightarrow> give (ps_kind state = Tombstone)
      | Some observed \<Rightarrow>
          if oe_kind observed \<noteq> ps_kind state \<or> ps_kind state = Tombstone then give False
          else
            then_do (observed_content_hash lib observed) (\<lambda>hash.
            give (into_option (ps_content_hash state) = hash \<and>
                  (ps_kind state = Directory \<or> md_size (oe_metadata observed) = md_size (ps_metadata state)))))"

definition baseline_matches_observed ::
    "system_lib \<Rightarrow> WorkspacePathState option \<Rightarrow> ObservedEntry option \<Rightarrow> bool engine" where
  "baseline_matches_observed lib baseline observed =
     (case baseline of
        None \<Rightarrow> give (observed = None)
      | Some baseline \<Rightarrow>
          if ps_kind baseline = Tombstone \<or> ps_tombstone baseline then give (observed = None)
          else
            case observed of
              None \<Rightarrow> give False
            | Some observed \<Rightarrow>
                if oe_kind observed \<noteq> ps_kind baseline \<or> oe_metadata observed \<noteq> ps_metadata baseline then give False
                else
                  then_do (observed_content_hash lib observed) (\<lambda>hash.
                  give (into_option (ps_content_hash baseline) = hash)))"

definition event_paths :: "WorkspaceEventMessage \<Rightarrow> WorkspacePath list" where
  "event_paths event =
     wm_path (ev_mutation event) # (case wm_new_path (ev_mutation event) of None \<Rightarrow> [] | Some path \<Rightarrow> [path])"

definition stored_state :: "system_lib \<Rightarrow> WorkspacePath \<Rightarrow> WorkspacePathState option engine" where
  "stored_state lib path =
     then_do (read_state (path_state (sy_store lib) (path_str path))) (\<lambda>record. give (map_option pt_state record))"

definition path_states_for_event ::
    "system_lib \<Rightarrow> WorkspaceEventMessage \<Rightarrow> (WorkspacePath \<times> WorkspacePathState option) list engine" where
  "path_states_for_event lib event =
     collect_do (\<lambda>path. then_do (stored_state lib path) (\<lambda>state. give (path, state))) (event_paths event)"

definition observed_for_event ::
    "system_lib \<Rightarrow> WorkspaceEventMessage \<Rightarrow> (WorkspacePath \<times> ObservedEntry option) list engine" where
  "observed_for_event lib event =
     collect_do (\<lambda>path. then_do (inspect lib path) (\<lambda>observed. give (path, observed))) (event_paths event)"

text \<open>The first entry observed for a path.\<close>

definition observed_at :: "(WorkspacePath \<times> ObservedEntry option) list \<Rightarrow> WorkspacePath \<Rightarrow> ObservedEntry option" where
  "observed_at observed path = (case find (\<lambda>(p, _). p = path) observed of None \<Rightarrow> None | Some (_, entry) \<Rightarrow> entry)"

fun event_post_matches ::
    "system_lib \<Rightarrow> WorkspacePathState list \<Rightarrow> (WorkspacePath \<times> ObservedEntry option) list \<Rightarrow> bool engine" where
  "event_post_matches lib [] observed = give True"
| "event_post_matches lib (state # states) observed =
     then_do (observed_matches_post lib state (observed_at observed (ps_path state))) (\<lambda>same.
     if same then event_post_matches lib states observed else give False)"

fun event_baseline_matches ::
    "system_lib \<Rightarrow> (WorkspacePath \<times> WorkspacePathState option) list \<Rightarrow>
     (WorkspacePath \<times> ObservedEntry option) list \<Rightarrow> bool engine" where
  "event_baseline_matches lib [] observed = give True"
| "event_baseline_matches lib ((path, state) # previous) observed =
     then_do (baseline_matches_observed lib state (observed_at observed path)) (\<lambda>same.
     if same then event_baseline_matches lib previous observed else give False)"

definition event_is_diverged :: "system_lib \<Rightarrow> WorkspaceEventMessage \<Rightarrow> bool engine" where
  "event_is_diverged lib event =
     then_do (path_states_for_event lib event) (\<lambda>previous.
     then_do (observed_for_event lib event) (\<lambda>observed.
     then_do (lift_result (post_states_of event)) (\<lambda>states.
     then_do (event_post_matches lib states observed) (\<lambda>same.
     if same then give False
     else then_do (event_baseline_matches lib previous observed) (\<lambda>same. give (\<not> same))))))"

section \<open>Operations on the file system\<close>

definition operation_for_state ::
    "system_lib \<Rightarrow> WorkspacePathState \<Rightarrow> ObservedEntry option \<Rightarrow> FsOperation option engine" where
  "operation_for_state lib post observed =
     then_do (expected_from_observed lib observed) (\<lambda>expected.
     case ps_kind post of
       File \<Rightarrow>
         then_do (lift_result (ok_or (into_option (ps_content_hash post)) (ProtocolInvariant ''file_content_hash_missing'')))
           (\<lambda>hash. give (Some (FsUpsertFile (ps_path post) hash (ps_metadata post) expected)))
     | Directory \<Rightarrow> give (Some (FsMkdir (ps_path post) (ps_metadata post) expected))
     | Symlink \<Rightarrow>
         then_do (lift_result (ok_or (into_option (ps_content_hash post)) (ProtocolInvariant ''symlink_content_hash_missing'')))
           (\<lambda>hash. give (Some (FsUpsertSymlink (ps_path post) hash (ps_metadata post) expected)))
     | Tombstone \<Rightarrow> give (if expected = Missing then None else Some (FsDelete (ps_path post) expected)))"

definition operation_for_event ::
    "system_lib \<Rightarrow> WorkspaceEventMessage \<Rightarrow> (WorkspacePath \<times> ObservedEntry option) list \<Rightarrow> FsOperation option engine" where
  "operation_for_event lib event observed =
     (let m = ev_mutation event in
      if wm_kind m \<noteq> WorkspaceMutationKind.Rename then
        operation_for_state lib (ev_path_state event) (case observed of [] \<Rightarrow> None | (_, entry) # _ \<Rightarrow> entry)
      else
        then_do (lift_result (ok_or (wm_new_path m) (ProtocolInvariant ''rename_target_missing''))) (\<lambda>new_path.
        case observed_at observed (wm_path m) of
          None \<Rightarrow> give None
        | Some source \<Rightarrow>
            then_do (expected_from_observed lib (Some source)) (\<lambda>source_expected.
            then_do (expected_from_observed lib (observed_at observed new_path)) (\<lambda>target_expected.
            then_do (lift_result (ok_or (ev_new_path_state event) (ProtocolInvariant ''rename_target_state_missing'')))
              (\<lambda>target.
            give (Some (FsRename (wm_path m) new_path (into_option (ps_content_hash target)) (ps_metadata target)
              source_expected target_expected)))))))"

definition from_state :: "WorkspacePathState \<Rightarrow> RemoteApplyOperation" where
  "from_state state = (if ps_kind state = Tombstone then RemoteDelete state else RemoteUpsert state)"

definition from_event :: "WorkspaceEventMessage \<Rightarrow> (RemoteApplyOperation, SyncError) result" where
  "from_event event =
     (if wm_kind (ev_mutation event) = WorkspaceMutationKind.Rename then
        and_then (ok_or (ev_old_path_state event) (ProtocolInvariant ''panic'')) (\<lambda>old.
        and_then (ok_or (ev_new_path_state event) (ProtocolInvariant ''panic'')) (\<lambda>new. Ok (RemoteRename old new)))
      else Ok (from_state (ev_path_state event)))"

fun filesystem_operation_matches_remote :: "FsOperation \<Rightarrow> RemoteApplyOperation \<Rightarrow> bool" where
  "filesystem_operation_matches_remote (FsUpsertFile path hash metadata _) (RemoteUpsert state) =
     (ps_kind state = File \<and> path = ps_path state \<and> into_option (ps_content_hash state) = Some hash \<and>
      metadata = ps_metadata state)"
| "filesystem_operation_matches_remote (FsMkdir path metadata _) (RemoteUpsert state) =
     (ps_kind state = Directory \<and> path = ps_path state \<and> metadata = ps_metadata state)"
| "filesystem_operation_matches_remote (FsUpsertSymlink path hash metadata _) (RemoteUpsert state) =
     (ps_kind state = Symlink \<and> path = ps_path state \<and> into_option (ps_content_hash state) = Some hash \<and>
      metadata = ps_metadata state)"
| "filesystem_operation_matches_remote (FsDelete path _) (RemoteDelete state) =
     (path = ps_path state \<and> ps_kind state = Tombstone \<and> ps_tombstone state)"
| "filesystem_operation_matches_remote (FsRename path new_path hash metadata _ _) (RemoteRename old new) =
     (path = ps_path old \<and> new_path = ps_path new \<and> ps_kind old = Tombstone \<and> ps_tombstone old \<and>
      ps_kind new \<noteq> Tombstone \<and> \<not> ps_tombstone new \<and> hash = into_option (ps_content_hash new) \<and>
      metadata = ps_metadata new)"
| "filesystem_operation_matches_remote _ _ = False"

fun expected_snapshot :: "ExpectedEntry \<Rightarrow> DirectorySnapshot option" where
  "expected_snapshot (Present _ _ (Some snapshot) _) = Some snapshot"
| "expected_snapshot _ = None"

definition snapshot_at :: "WorkspacePath \<Rightarrow> ExpectedEntry \<Rightarrow> (WorkspacePath \<times> DirectorySnapshot) list" where
  "snapshot_at path expected =
     (case expected_snapshot expected of None \<Rightarrow> [] | Some snapshot \<Rightarrow> [(path, snapshot)])"

fun operation_directory_snapshots :: "FsOperation \<Rightarrow> (WorkspacePath \<times> DirectorySnapshot) list" where
  "operation_directory_snapshots (FsDelete path expected) = snapshot_at path expected"
| "operation_directory_snapshots (FsRename path new_path _ _ source_expected target_expected) =
     snapshot_at path source_expected @ snapshot_at new_path target_expected"
| "operation_directory_snapshots _ = []"

definition plan_tuple :: "ApplyCommitPlan \<Rightarrow> (RemoteApplyOperation \<times> WorkspacePathState list, SyncError) result" where
  "plan_tuple plan =
     (let of_state = (\<lambda>state. Ok (from_state state, [state]));
          of_event = (\<lambda>event. and_then (from_event event) (\<lambda>operation.
            and_then (post_states_of event) (\<lambda>states. Ok (operation, states))))
      in case plan of
           PlanSnapshotEntry entry \<Rightarrow> of_state (se_entry entry)
         | PlanStreamEvent event _ \<Rightarrow> of_event event
         | PlanLiveEvent event _ \<Rightarrow> of_event event
         | PlanStreamConflictResolved message \<Rightarrow> of_state (cr_path_state message)
         | PlanLiveConflictResolved message \<Rightarrow> of_state (cr_path_state message))"

definition validate_apply_recovery_tuple ::
    "RemoteApplyOperation \<Rightarrow> FsOperation \<Rightarrow> WorkspacePathState list \<Rightarrow> ApplyCommitPlan \<Rightarrow> (unit, SyncError) result" where
  "validate_apply_recovery_tuple operation filesystem_operation post_states plan =
     (let corrupt = CorruptState ''apply_journal'' in
      and_then (plan_tuple plan) (\<lambda>(expected_operation, expected_post_states).
      fail_if (operation \<noteq> expected_operation) (corrupt ''operation_json'')
     (fail_if (post_states \<noteq> expected_post_states \<or> list_ex (\<lambda>state. \<not> is_ok (path_state_validate state)) post_states)
        (corrupt ''postimage_json'')
     (fail_if (\<not> filesystem_operation_matches_remote filesystem_operation operation)
        (corrupt ''filesystem_operation_json'') (Ok ())))))"

section \<open>Wishes that a divergence leaves behind\<close>

definition desired_from_current :: "system_lib \<Rightarrow> WorkspacePath \<Rightarrow> DesiredOperation engine" where
  "desired_from_current lib path =
     then_do (inspect lib path) (\<lambda>observed.
     case observed of
       None \<Rightarrow> give (DesiredDelete path)
     | Some observed \<Rightarrow> then_do (desired_entry_from_observed lib observed) (\<lambda>entry. give (Upsert entry)))"

fun draw_timestamps :: "engine_lib \<Rightarrow> WorkspacePath list \<Rightarrow> (WorkspacePath \<times> i64) list engine" where
  "draw_timestamps lib [] = give []"
| "draw_timestamps lib (path # paths) =
     then_do (next_timestamp lib) (\<lambda>timestamp.
     then_do (draw_timestamps lib paths) (\<lambda>rest. give ((path, timestamp) # rest)))"

definition queue_desired_with_states ::
    "system_lib \<Rightarrow> DesiredOperation \<Rightarrow> (WorkspacePath \<rightharpoonup> WorkspacePathState) \<Rightarrow> unit engine" where
  "queue_desired_with_states lib desired states =
     (let lib = sy_engine lib; touched = desired_paths desired in
      then_do (read_state (outbox (el_store lib))) (\<lambda>records.
      case find_touching lib touched records of
        Some (record, m) \<Rightarrow>
          if ob_stage record = Queued \<and> mutation_matches_desired m desired then give ()
          else
            then_do (lift_result (encode_intent lib (intent_for_path desired (hd touched)))) (\<lambda>body.
            then_do (draw_timestamps lib touched) (\<lambda>pairs en.
            write_state (transaction (tx_each (\<lambda>(path, timestamp).
              put_local_intent_at (el_store lib) (st_workspace_id (en_state en)) body timestamp path) pairs)) en))
      | None \<Rightarrow>
          then_do (next_operation_id lib) (\<lambda>op.
          then_do (next_timestamp lib) (\<lambda>timestamp en.
          let st = en_state en;
              m = mutation_for_desired desired (st_workspace_id st) (st_client_id st) op states
          in write_state (transaction (enqueue_tx lib st m timestamp)) en))))"

record PreservedReplacements =
  pr_mutations :: "(WorkspaceMutation \<times> i64) list"
  pr_settled_paths :: "WorkspacePath list"

fun cover_observed ::
    "system_lib \<Rightarrow> (WorkspacePath \<times> ObservedEntry option) list \<Rightarrow> DesiredOperation list \<Rightarrow> DesiredOperation list engine" where
  "cover_observed lib [] desired = give desired"
| "cover_observed lib ((path, entry) # observed) desired =
     (if list_ex (\<lambda>operation. desired_operation_covers_path operation path) desired then cover_observed lib observed desired
      else
        then_do (if entry \<noteq> None then desired_from_current lib path else give (DesiredDelete path)) (\<lambda>operation.
        cover_observed lib observed (if operation \<in> set desired then desired else desired @ [operation])))"

definition insert_states ::
    "WorkspacePathState list \<Rightarrow> (WorkspacePath \<rightharpoonup> WorkspacePathState) \<Rightarrow> (WorkspacePath \<rightharpoonup> WorkspacePathState)" where
  "insert_states post_states states = fold (\<lambda>state m. m(ps_path state \<mapsto> state)) post_states states"

text \<open>
  The loop of \<open>deferred_operations_intersecting\<close> always ends (\<open>intersect_loop_ends\<close>), so the error for a loop that does
  not is never returned.
\<close>

definition preserved_replacements ::
    "system_lib \<Rightarrow> WorkspaceEventMessage \<Rightarrow> (WorkspacePath \<times> ObservedEntry option) list \<Rightarrow> WorkspacePathState list \<Rightarrow>
     PreservedReplacements engine" where
  "preserved_replacements lib event observed post_states =
     (let paths = mutation_paths (ev_mutation event) in
      then_do (read_state (\<lambda>st. and_then (deferred_operations_intersecting (sy_engine lib) paths st) (\<lambda>found.
        ok_or found (ProtocolInvariant ''diverges'')))) (\<lambda>deferred.
      then_do (cover_observed lib observed deferred) (\<lambda>desired.
      then_do (read_state (path_state_map (sy_engine lib))) (\<lambda>states.
      let states = insert_states post_states states in
      then_do (next_mutations (sy_engine lib) (map (\<lambda>operation. replacement_desired_against_states operation states) desired)
        states) (\<lambda>mutations.
      give \<lparr>pr_mutations = mutations, pr_settled_paths = paths_for_desired_operations paths desired\<rparr>)))))"

end
