(* ===== verification/Engine_Commit.thy ===== *)
theory Engine_Commit
  imports Engine_System
begin

text \<open>
  How \<open>SyncEngine\<close> (\<open>fns-sync-core/src/engine.rs\<close>) commits an item of the server to the store: entries, events
  and resolved conflicts, applied or preserved, each in one transaction that also advances the cursor; the
  journal around a change of the file system; and what a resolution clears away. The failpoints of the code only
  abort debug builds for tests and are left out.
\<close>

section \<open>Transactions\<close>

definition transact :: "(WorkspaceId \<Rightarrow> ClientId \<Rightarrow> 'a tx) \<Rightarrow> 'a engine" where
  "transact f en = write_state (transaction (f (st_workspace_id (en_state en)) (st_client_id (en_state en)))) en"

definition tx_unit :: "'a tx \<Rightarrow> unit tx" where
  "tx_unit f = tx_then f (\<lambda>_. tx_done)"

definition tx_when :: "bool \<Rightarrow> unit tx \<Rightarrow> unit tx" where
  "tx_when c f = (if c then f else tx_done)"

fun tx_seq :: "unit tx list \<Rightarrow> unit tx" where
  "tx_seq [] = tx_done"
| "tx_seq (f # fs) = tx_then f (\<lambda>_. tx_seq fs)"

definition put_states :: "system_lib \<Rightarrow> WorkspaceId \<Rightarrow> WorkspacePathState list \<Rightarrow> unit tx" where
  "put_states lib ws = tx_each (put_path_state_tx (sy_store lib) ws)"

definition commit_stage :: "WorkspaceId \<Rightarrow> ApplyId option \<Rightarrow> unit tx" where
  "commit_stage ws = tx_opt (\<lambda>apply_id. set_apply_stage_tx ws apply_id DatabaseCommitted)"

definition put_replacements :: "system_lib \<Rightarrow> WorkspaceId \<Rightarrow> ClientId \<Rightarrow> PreservedReplacements \<Rightarrow> unit tx" where
  "put_replacements lib ws client replacements =
     tx_then (tx_each (remove_local_intent_tx ws) (pr_settled_paths replacements)) (\<lambda>_.
     tx_each (\<lambda>(m, timestamp). tx_unit (enqueue_mutation_at (sy_store lib) ws client m timestamp))
       (pr_mutations replacements))"

fun legacy_of :: "AppliedReceiptMatch \<Rightarrow> u8 list option" where
  "legacy_of (ReceiptLegacy d) = Some d"
| "legacy_of _ = None"

definition event_legacy :: "system_lib \<Rightarrow> WorkspaceEventMessage \<Rightarrow> u8 list option engine" where
  "event_legacy lib event =
     then_do (read_state (event_receipt_match (sy_engine lib) event)) (\<lambda>receipt. give (legacy_of receipt))"

definition record_event ::
    "system_lib \<Rightarrow> WorkspaceEventMessage \<Rightarrow> u8 list \<Rightarrow> u8 list option \<Rightarrow> unit tx" where
  "record_event lib event operation_digest legacy =
     record_mutation_applied_operation (sy_store lib) (ev_origin_client_id event) (ev_operation_id event) (ev_revision event)
       operation_digest (ev_mutation event) legacy"

section \<open>Events and entries\<close>

definition commit_live_event_with_journal ::
    "system_lib \<Rightarrow> WorkspaceEventMessage \<Rightarrow> WorkspacePathState list \<Rightarrow> u8 list \<Rightarrow> bool \<Rightarrow> ApplyId option \<Rightarrow> unit engine" where
  "commit_live_event_with_journal lib event post_states operation_digest remove_it apply_id =
     then_do (event_legacy lib event) (\<lambda>legacy.
     transact (\<lambda>ws client. tx_seq
       [put_states lib ws post_states,
        record_event lib event operation_digest legacy,
        tx_when remove_it (remove_outbox_tx client (ev_operation_id event)),
        set_last_applied_revision_tx ws (ev_revision event),
        set_pending_ack_tx ws (ev_revision event),
        commit_stage ws apply_id]))"

definition commit_entry_with_journal ::
    "system_lib \<Rightarrow> WorkspaceSnapshotEntryMessage \<Rightarrow> StreamItemStatus \<Rightarrow> WorkspacePathState list \<Rightarrow> ApplyId option \<Rightarrow> unit engine" where
  "commit_entry_with_journal lib entry status post_states apply_id =
     transact (\<lambda>ws client. tx_seq
       [put_states lib ws post_states,
        tx_unit (put_stream_entry_tx (sy_store lib) ws entry status),
        commit_stage ws apply_id])"

text \<open>Every caller passes the identifier of the event and a digest, so the code always writes the receipt.\<close>

definition commit_event_with_journal ::
    "system_lib \<Rightarrow> WorkspaceEventMessage \<Rightarrow> StreamItemStatus \<Rightarrow> WorkspacePathState list \<Rightarrow> u8 list \<Rightarrow> bool \<Rightarrow>
     ApplyId option \<Rightarrow> unit engine" where
  "commit_event_with_journal lib event status post_states operation_digest remove_it apply_id =
     then_do (event_legacy lib event) (\<lambda>legacy.
     transact (\<lambda>ws client. tx_seq
       [put_states lib ws post_states,
        record_event lib event operation_digest legacy,
        tx_when remove_it (remove_outbox_tx client (ev_operation_id event)),
        tx_when (status = Applied) (set_last_applied_revision_tx ws (ev_revision event)),
        tx_unit (put_stream_event_tx (sy_store lib) ws event status),
        commit_stage ws apply_id]))"

definition preserve_event ::
    "system_lib \<Rightarrow> WorkspaceEventMessage \<Rightarrow> (WorkspacePath \<times> ObservedEntry option) list \<Rightarrow> WorkspacePathState list \<Rightarrow>
     u8 list \<Rightarrow> bool \<Rightarrow> unit engine" where
  "preserve_event lib event observed post_states operation_digest remove_it =
     then_do (preserved_replacements lib event observed post_states) (\<lambda>replacements.
     then_do (event_legacy lib event) (\<lambda>legacy.
     transact (\<lambda>ws client. tx_seq
       [put_states lib ws post_states,
        record_event lib event operation_digest legacy,
        tx_when remove_it (remove_outbox_tx client (ev_operation_id event)),
        put_replacements lib ws client replacements,
        tx_unit (put_stream_event_tx (sy_store lib) ws event Preserved)])))"

definition preserve_live_event ::
    "system_lib \<Rightarrow> WorkspaceEventMessage \<Rightarrow> (WorkspacePath \<times> ObservedEntry option) list \<Rightarrow> WorkspacePathState list \<Rightarrow>
     u8 list \<Rightarrow> bool \<Rightarrow> unit engine" where
  "preserve_live_event lib event observed post_states operation_digest remove_it =
     then_do (preserved_replacements lib event observed post_states) (\<lambda>replacements.
     then_do (event_legacy lib event) (\<lambda>legacy.
     transact (\<lambda>ws client. tx_seq
       [put_states lib ws post_states,
        record_event lib event operation_digest legacy,
        tx_when remove_it (remove_outbox_tx client (ev_operation_id event)),
        put_replacements lib ws client replacements,
        set_last_applied_revision_tx ws (ev_revision event),
        set_pending_ack_tx ws (ev_revision event)])))"

datatype SupersededEventSource = SupersededLive | SupersededStream

fun keep_newest :: "system_lib \<Rightarrow> WorkspacePathState list \<Rightarrow> WorkspacePathState list engine" where
  "keep_newest lib [] = give []"
| "keep_newest lib (state # states) =
     then_do (stored_state lib (ps_path state)) (\<lambda>current.
     then_do (keep_newest lib states) (\<lambda>rest.
     give (if (case current of None \<Rightarrow> False | Some c \<Rightarrow> ps_path_revision c > ps_path_revision state)
           then rest else state # rest)))"

definition non_regressing_event_post_states :: "system_lib \<Rightarrow> WorkspaceEventMessage \<Rightarrow> WorkspacePathState list engine" where
  "non_regressing_event_post_states lib event =
     then_do (lift_result (post_states_of event)) (\<lambda>states. keep_newest lib states)"

text \<open>An acknowledgement is only asked for above the one that is waiting.\<close>

definition newer_than :: "WorkspaceRevision \<Rightarrow> WorkspaceRevision option \<Rightarrow> bool" where
  "newer_than revision waiting = (case waiting of None \<Rightarrow> True | Some w \<Rightarrow> revision > w)"

definition settle_superseded_event ::
    "system_lib \<Rightarrow> WorkspaceEventMessage \<Rightarrow> u8 list \<Rightarrow> u8 list \<Rightarrow> bool \<Rightarrow> bool \<Rightarrow> SupersededEventSource \<Rightarrow> unit engine" where
  "settle_superseded_event lib event operation_digest legacy own_event remove_it source =
     then_do (read_state cursor) (\<lambda>c.
     then_do
       (if own_event then
          then_do (non_regressing_event_post_states lib event) (\<lambda>post_states.
          then_do (observed_for_event lib event) (\<lambda>observed.
          then_do (preserved_replacements lib event observed post_states) (\<lambda>replacements.
          give (post_states, replacements))))
        else give ([], \<lparr>pr_mutations = [], pr_settled_paths = []\<rparr>)) (\<lambda>(post_states, replacements).
     transact (\<lambda>ws client. tx_seq
       [put_states lib ws post_states,
        record_event lib event operation_digest (Some legacy),
        tx_when remove_it (remove_outbox_tx client (ev_operation_id event)),
        put_replacements lib ws client replacements,
        (case source of
           SupersededLive \<Rightarrow>
             tx_when (ev_revision event > wc_last_ack_revision c \<and> newer_than (ev_revision event) (wc_pending_ack_revision c))
               (set_pending_ack_tx ws (ev_revision event))
         | SupersededStream \<Rightarrow>
             tx_unit (put_stream_event_tx (sy_store lib) ws event
               (if pr_mutations replacements = [] then Applied else Preserved)))])))"

section \<open>What a resolution clears away\<close>

record ConflictCleanup =
  cu_resolution_operation_id :: "OperationId option"
  cu_originating_operation_id :: "OperationId option"
  cu_remove_conflict :: bool
  cu_preserve_newer_generation :: bool

definition no_cleanup :: ConflictCleanup where
  "no_cleanup = \<lparr>cu_resolution_operation_id = None, cu_originating_operation_id = None, cu_remove_conflict = False,
     cu_preserve_newer_generation = False\<rparr>"

record LocalConflictResolutionWitness =
  lw_matching_outbox_operation_id :: "OperationId option"
  lw_exact :: bool
  lw_preserve_newer_generation :: bool

datatype ConflictResolutionSource = ResolutionLive | ResolutionStream

definition cleanup_conflict_resolution :: "WorkspaceId \<Rightarrow> ClientId \<Rightarrow> ConflictId \<Rightarrow> ConflictCleanup \<Rightarrow> unit tx" where
  "cleanup_conflict_resolution ws client conflict_id cleanup = tx_seq
     [tx_opt (remove_outbox_tx client) (cu_resolution_operation_id cleanup),
      tx_opt (remove_outbox_tx client) (cu_originating_operation_id cleanup),
      tx_when (cu_remove_conflict cleanup) (remove_conflict_tx ws conflict_id)]"

definition decode_pending_resolution ::
    "system_lib \<Rightarrow> ConflictRecord \<Rightarrow> WorkspaceConflictCreatedMessage \<Rightarrow> ClientId \<Rightarrow>
     (WorkspaceConflictResolvedRequest option, SyncError) result" where
  "decode_pending_resolution lib c created client =
     (let codec = lib_resolution (sy_store lib); corrupt = CorruptState ''conflicts'' in
      case cf_resolution_json c of
        None \<Rightarrow> fail_if (cf_resolution_digest c \<noteq> None) (corrupt ''resolution_digest'') (Ok None)
      | Some json \<Rightarrow>
          and_then (ok_or (from_slice codec json) (corrupt ''resolution_json'')) (\<lambda>request.
          and_then (ok_or (cf_resolution_digest c) (corrupt ''resolution_digest'')) (\<lambda>d.
          and_then (canonical_json codec request) (\<lambda>canonical.
          fail_if (canonical \<noteq> json \<or> body_digest (sy_store lib) json \<noteq> d \<or> rq_workspace_id request \<noteq> cf_workspace_id c \<or>
                   rq_client_id request \<noteq> client \<or> rq_conflict_id request \<noteq> cf_conflict_id c \<or>
                   \<not> is_ok (conflict_resolved_request_validate_against request created)) (corrupt ''resolution_json'')
         (and_then
            (if rq_choice request = Merged then
               and_then (ok_or (into_option (rq_content_hash request)) (corrupt ''resolution_json'')) (\<lambda>candidate.
               fail_if (cf_candidate_hash c \<noteq> Some (hash_str candidate)) (corrupt ''candidate_hash'') (Ok ()))
             else fail_if (cf_candidate_hash c \<noteq> None) (corrupt ''candidate_hash'') (Ok ())) (\<lambda>_.
          Ok (Some request)))))))"

definition decode_body :: "system_lib \<Rightarrow> OutboxRecord \<Rightarrow> (OutboxBody, SyncError) result" where
  "decode_body lib record = ok_or (decoded_body (sy_store lib) record) (CorruptState ''outbox'' ''body_json'')"

definition conflict_resolution_is_covered_by_newer_generation ::
    "system_lib \<Rightarrow> WorkspaceConflictResolvedMessage \<Rightarrow> SqliteState \<Rightarrow> (bool, SyncError) result" where
  "conflict_resolution_is_covered_by_newer_generation lib message st =
     and_then (conflict (sy_store lib) (cr_conflict_id message) st) (\<lambda>found.
     case found of
       None \<Rightarrow> Ok False
     | Some c \<Rightarrow>
         if cf_conflict_revision c = cr_conflict_revision message then Ok False
         else
           and_then (decode_conflict_created (sy_engine lib) c) (\<lambda>created.
           and_then (cursor st) (\<lambda>cur.
           Ok (cr_revision message \<le> wc_last_applied_revision cur \<or>
               cr_revision message \<le> cs_path_revision (cc_current created)))))"

fun decode_conflicts ::
    "engine_lib \<Rightarrow> ConflictRecord list \<Rightarrow> ((ConflictRecord \<times> WorkspaceConflictCreatedMessage) list, SyncError) result" where
  "decode_conflicts lib [] = Ok []"
| "decode_conflicts lib (c # cs) =
     and_then (decode_conflict_created lib c) (\<lambda>created.
     and_then (decode_conflicts lib cs) (\<lambda>rest. Ok ((c, created) # rest)))"

text \<open>The loop over the stored conflicts with the flag that a matching resolution was found.\<close>

fun match_resolutions ::
    "system_lib \<Rightarrow> WorkspaceConflictResolvedMessage \<Rightarrow> ClientId \<Rightarrow> bool \<Rightarrow>
     (ConflictRecord \<times> WorkspaceConflictCreatedMessage) list \<Rightarrow> bool \<Rightarrow> (bool, SyncError) result" where
  "match_resolutions lib message client preserve_newer [] exact = Ok exact"
| "match_resolutions lib message client preserve_newer ((c, created) # rest) exact =
     and_then (decode_pending_resolution lib c created client) (\<lambda>request.
     case request of
       None \<Rightarrow> match_resolutions lib message client preserve_newer rest exact
     | Some request \<Rightarrow>
         if rq_operation_id request = cr_operation_id message then
           fail_if (\<not> resolved_matches_request message request (Some created)) OperationChanged
             (match_resolutions lib message client preserve_newer rest True)
         else if rq_conflict_id request = cr_conflict_id message then
           (if preserve_newer \<and> rq_conflict_revision request \<noteq> cr_conflict_revision message
            then match_resolutions lib message client preserve_newer rest exact
            else fail_if (\<not> resolved_matches_request message request (Some created)) OperationChanged
                   (match_resolutions lib message client preserve_newer rest True))
         else match_resolutions lib message client preserve_newer rest exact)"

definition validate_local_conflict_resolution_operation ::
    "system_lib \<Rightarrow> WorkspaceConflictResolvedMessage \<Rightarrow> SqliteState \<Rightarrow> (LocalConflictResolutionWitness, SyncError) result" where
  "validate_local_conflict_resolution_operation lib message st =
     and_then (conflict_resolution_is_covered_by_newer_generation lib message st) (\<lambda>preserve_newer.
     if cr_resolved_by_client_id message \<noteq> st_client_id st then
       Ok \<lparr>lw_matching_outbox_operation_id = None, lw_exact = False, lw_preserve_newer_generation = preserve_newer\<rparr>
     else
       and_then (conflicts (sy_store lib) st) (\<lambda>records.
       and_then (decode_conflicts (sy_engine lib) records) (\<lambda>decoded.
       and_then (outbox_entry (sy_store lib) (cr_operation_id message) st) (\<lambda>entry.
       and_then
         (case entry of
            None \<Rightarrow> Ok None
          | Some record \<Rightarrow>
              and_then (decode_body lib record) (\<lambda>body.
              case body of
                BodyMutation _ \<Rightarrow> Err OperationChanged
              | BodyResolution request \<Rightarrow>
                  fail_if (\<not> resolved_matches_request message request
                    (find (\<lambda>created. cc_conflict_id created = rq_conflict_id request \<and>
                       cc_conflict_revision created = rq_conflict_revision request) (map snd decoded))) OperationChanged
                    (Ok (Some (rq_operation_id request))))) (\<lambda>matching.
       and_then (match_resolutions lib message (st_client_id st) preserve_newer decoded (matching \<noteq> None)) (\<lambda>exact.
       Ok \<lparr>lw_matching_outbox_operation_id = matching, lw_exact = exact,
           lw_preserve_newer_generation = preserve_newer\<rparr>))))))"

definition inbound_conflict_resolution_receipt_match ::
    "system_lib \<Rightarrow> WorkspaceConflictResolvedMessage \<Rightarrow> u8 list \<Rightarrow> SqliteState \<Rightarrow> (AppliedReceiptMatch, SyncError) result" where
  "inbound_conflict_resolution_receipt_match lib message d st =
     and_then (conflict_resolution_receipt_match message d st) (\<lambda>receipt_match.
     if receipt_match = ReceiptExact then Ok receipt_match
     else
       and_then (validate_local_conflict_resolution_operation lib message st) (\<lambda>witness.
       fail_if (cr_resolved_by_client_id message = st_client_id st \<and> receipt_match = ReceiptMissing \<and>
                \<not> lw_exact witness \<and> \<not> lw_preserve_newer_generation witness) OperationChanged
         (Ok receipt_match)))"

text \<open>The operation that caused the conflict, when it still waits in the outbox for its resolution.\<close>

definition originating_operation ::
    "system_lib \<Rightarrow> WorkspaceConflictCreatedMessage \<Rightarrow> SqliteState \<Rightarrow> (OperationId option, SyncError) result" where
  "originating_operation lib created st =
     and_then (outbox_entry (sy_store lib) (cc_created_by_operation_id created) st) (\<lambda>record.
     case record of
       None \<Rightarrow> Ok None
     | Some record \<Rightarrow>
         if ob_stage record \<noteq> BlockedConflict then Ok None
         else
           and_then (decode_body lib record) (\<lambda>body.
           case body of
             BodyMutation m \<Rightarrow>
               Ok (if mutation_matches_conflict_origin m created then Some (cc_created_by_operation_id created) else None)
           | BodyResolution _ \<Rightarrow> Ok None))"

definition body_changed :: "OutboxRecord \<Rightarrow> ConflictRecord \<Rightarrow> bool" where
  "body_changed record c \<longleftrightarrow>
     Some (ob_body_json record) \<noteq> cf_resolution_json c \<or> Some (ob_body_digest record) \<noteq> cf_resolution_digest c"

definition conflict_cleanup_operations ::
    "system_lib \<Rightarrow> WorkspaceConflictResolvedMessage \<Rightarrow> SqliteState \<Rightarrow> (ConflictCleanup, SyncError) result" where
  "conflict_cleanup_operations lib message st =
     and_then (validate_local_conflict_resolution_operation lib message st) (\<lambda>witness.
     let matching = lw_matching_outbox_operation_id witness in
     and_then (conflict (sy_store lib) (cr_conflict_id message) st) (\<lambda>found.
     case found of
       None \<Rightarrow> Ok (no_cleanup\<lparr>cu_resolution_operation_id := matching\<rparr>)
     | Some c \<Rightarrow>
         and_then (decode_conflict_created (sy_engine lib) c) (\<lambda>created.
         if lw_preserve_newer_generation witness
         then Ok (no_cleanup\<lparr>cu_resolution_operation_id := matching, cu_preserve_newer_generation := True\<rparr>)
         else
           and_then (decode_pending_resolution lib c created (st_client_id st)) (\<lambda>pending_resolution.
           fail_if
             (case pending_resolution of
                None \<Rightarrow> False
              | Some request \<Rightarrow>
                  rq_client_id request = cr_resolved_by_client_id message \<and>
                  rq_operation_id request = cr_operation_id message \<and>
                  \<not> resolved_matches_request message request (Some created)) OperationChanged
          (and_then
             (case pending_resolution of
                None \<Rightarrow> Ok None
              | Some request \<Rightarrow> outbox_entry (sy_store lib) (rq_operation_id request) st) (\<lambda>waiting.
           fail_if (case waiting of None \<Rightarrow> False | Some record \<Rightarrow> body_changed record c) OperationChanged
          (let pending_id = map_option rq_operation_id pending_resolution in
           fail_if (pending_id \<noteq> None \<and> matching \<noteq> None \<and> pending_id \<noteq> matching) OperationChanged
          (and_then (originating_operation lib created st) (\<lambda>originating.
           Ok \<lparr>cu_resolution_operation_id = (if pending_id \<noteq> None then pending_id else matching),
               cu_originating_operation_id = originating, cu_remove_conflict = True,
               cu_preserve_newer_generation = False\<rparr>)))))))))"

definition exact_conflict_resolution_replay_cleanup ::
    "system_lib \<Rightarrow> WorkspaceConflictResolvedMessage \<Rightarrow> SqliteState \<Rightarrow> (ConflictCleanup, SyncError) result" where
  "exact_conflict_resolution_replay_cleanup lib message st =
     (if cr_resolved_by_client_id message \<noteq> st_client_id st then Ok no_cleanup
      else
        and_then (outbox_entry (sy_store lib) (cr_operation_id message) st) (\<lambda>record.
        case record of
          None \<Rightarrow> Ok no_cleanup
        | Some record \<Rightarrow>
            and_then (decode_body lib record) (\<lambda>body.
            case body of
              BodyMutation _ \<Rightarrow> Err OperationChanged
            | BodyResolution request \<Rightarrow>
                if resolution_identity_matches_request message request
                then Ok (no_cleanup\<lparr>cu_resolution_operation_id := Some (cr_operation_id message)\<rparr>)
                else Err OperationChanged)))"

section \<open>Resolved conflicts\<close>

definition record_resolution ::
    "system_lib \<Rightarrow> WorkspaceConflictResolvedMessage \<Rightarrow> u8 list \<Rightarrow> u8 list option \<Rightarrow> unit tx" where
  "record_resolution lib message d legacy =
     record_conflict_applied_operation (sy_store lib) (cr_resolved_by_client_id message) (cr_operation_id message)
       (cr_revision message) d legacy"

definition settle_exact_conflict_resolution_replay ::
    "system_lib \<Rightarrow> WorkspaceConflictResolvedMessage \<Rightarrow> ConflictResolutionSource \<Rightarrow> unit engine" where
  "settle_exact_conflict_resolution_replay lib message source =
     then_do (read_state (conflict (sy_store lib) (cr_conflict_id message))) (\<lambda>found.
     let matching = (case found of None \<Rightarrow> False | Some c \<Rightarrow> cf_conflict_revision c = cr_conflict_revision message) in
     then_do (read_state (if matching then conflict_cleanup_operations lib message
                          else exact_conflict_resolution_replay_cleanup lib message)) (\<lambda>cleanup.
     then_do (read_state cursor) (\<lambda>c.
     transact (\<lambda>ws client. tx_seq
       [if matching then cleanup_conflict_resolution ws client (cr_conflict_id message) cleanup
        else tx_opt (remove_outbox_tx client) (cu_resolution_operation_id cleanup),
        (case source of
           ResolutionStream \<Rightarrow> tx_unit (put_stream_conflict_resolved_tx (sy_store lib) ws message Applied)
         | ResolutionLive \<Rightarrow>
             tx_when (cr_revision message > wc_last_ack_revision c) (tx_seq
               [tx_when (cr_revision message > wc_last_applied_revision c) (set_last_applied_revision_tx ws (cr_revision message)),
                tx_when (newer_than (cr_revision message) (wc_pending_ack_revision c))
                  (set_pending_ack_tx ws (cr_revision message))]))]))))"

definition commit_superseded_conflict_resolution ::
    "system_lib \<Rightarrow> WorkspaceConflictResolvedMessage \<Rightarrow> u8 list \<Rightarrow> u8 list option \<Rightarrow> ConflictCleanup \<Rightarrow> unit engine" where
  "commit_superseded_conflict_resolution lib message d legacy cleanup =
     transact (\<lambda>ws client. tx_seq
       [record_resolution lib message d legacy,
        cleanup_conflict_resolution ws client (cr_conflict_id message) cleanup,
        tx_unit (put_stream_conflict_resolved_tx (sy_store lib) ws message Applied)])"

definition commit_superseded_live_conflict_resolution ::
    "system_lib \<Rightarrow> WorkspaceConflictResolvedMessage \<Rightarrow> u8 list \<Rightarrow> u8 list option \<Rightarrow> ConflictCleanup \<Rightarrow> unit engine" where
  "commit_superseded_live_conflict_resolution lib message d legacy cleanup =
     then_do (read_state cursor) (\<lambda>c.
     transact (\<lambda>ws client. tx_seq
       [record_resolution lib message d legacy,
        cleanup_conflict_resolution ws client (cr_conflict_id message) cleanup,
        tx_when (cr_revision message > wc_last_applied_revision c) (set_last_applied_revision_tx ws (cr_revision message)),
        tx_when (cr_revision message > wc_last_ack_revision c \<and> newer_than (cr_revision message) (wc_pending_ack_revision c))
          (set_pending_ack_tx ws (cr_revision message))]))"

definition resolution_digest :: "system_lib \<Rightarrow> WorkspaceConflictResolvedMessage \<Rightarrow> (u8 list, SyncError) result" where
  "resolution_digest lib message = digest (sy_store lib) (lib_resolved (sy_store lib)) message"

definition commit_conflict_resolved_with_journal ::
    "system_lib \<Rightarrow> WorkspaceConflictResolvedMessage \<Rightarrow> StreamItemStatus \<Rightarrow> ConflictResolutionSource \<Rightarrow> ApplyId option \<Rightarrow>
     unit engine" where
  "commit_conflict_resolved_with_journal lib message status source apply_id =
     then_do (lift_result (resolution_digest lib message)) (\<lambda>d.
     then_do (read_state (conflict_resolution_receipt_match message d)) (\<lambda>receipt.
     then_do (read_state (conflict_cleanup_operations lib message)) (\<lambda>cleanup.
     let keep = cu_preserve_newer_generation cleanup in
     transact (\<lambda>ws client. tx_seq
       [tx_when (\<not> keep) (put_path_state_tx (sy_store lib) ws (cr_path_state message)),
        record_resolution lib message d (legacy_of receipt),
        cleanup_conflict_resolution ws client (cr_conflict_id message) cleanup,
        (case source of
           ResolutionStream \<Rightarrow> tx_seq
             [tx_when (status = Applied \<and> \<not> keep) (set_last_applied_revision_tx ws (cr_revision message)),
              tx_unit (put_stream_conflict_resolved_tx (sy_store lib) ws message status)]
         | ResolutionLive \<Rightarrow>
             tx_when (\<not> keep) (tx_seq
               [set_last_applied_revision_tx ws (cr_revision message), set_pending_ack_tx ws (cr_revision message)])),
        commit_stage ws apply_id]))))"

section \<open>The journal around a change of the file system\<close>

definition item_kind_as_str :: "ApplyItemKind \<Rightarrow> string" where
  "item_kind_as_str kind =
     (case kind of ApplyItemKind.Entry \<Rightarrow> ''entry'' | ApplyItemKind.Event \<Rightarrow> ''event''
      | ApplyItemKind.ConflictResolved \<Rightarrow> ''conflict_resolved'')"

definition namespace_as_str :: "ApplyNamespace \<Rightarrow> string" where
  "namespace_as_str namespace =
     (case namespace of
        SnapshotEntry \<Rightarrow> ''snapshot_entry'' | StreamEvent \<Rightarrow> ''stream_event'' | ApplyNamespace.LiveEvent \<Rightarrow> ''live_event''
      | StreamConflictResolved \<Rightarrow> ''stream_conflict_resolved'' | LiveConflictResolved \<Rightarrow> ''live_conflict_resolved'')"

fun workspace_text :: "store_lib \<Rightarrow> WorkspaceId \<Rightarrow> string" where
  "workspace_text lib (WorkspaceId u) = uuid_to_string (lib_uuid lib) u"

fun stream_text :: "store_lib \<Rightarrow> StreamId \<Rightarrow> string" where
  "stream_text lib (StreamId u) = uuid_to_string (lib_uuid lib) u"

definition apply_journal_immutable_digest :: "store_lib \<Rightarrow> ApplyJournalRecord \<Rightarrow> u8 list" where
  "apply_journal_immutable_digest lib r =
     lib_blake3 lib (concat (map update_length_prefixed
       [string_bytes (apply_id_text lib (aj_apply_id r)), string_bytes (workspace_text lib (aj_workspace_id r)),
        string_bytes (stream_text lib (aj_stream_id r)), string_bytes (item_kind_as_str (aj_item_kind r)),
        string_bytes (aj_item_key r), string_bytes (namespace_as_str (aj_apply_namespace r)), aj_operation_json r,
        aj_filesystem_operation_json r, aj_commit_json r, aj_preimage_json r, aj_postimage_json r]))"

text \<open>The row that is written before the file system is touched.\<close>

definition journal_record ::
    "system_lib \<Rightarrow> WorkspaceId \<Rightarrow> ApplyId \<Rightarrow> StreamId \<Rightarrow> ApplyItemKind \<Rightarrow> string \<Rightarrow> RemoteApplyOperation \<Rightarrow>
     WorkspacePathState list \<Rightarrow> ApplyCommitPlan \<Rightarrow> FsOperation \<Rightarrow> (ApplyJournalRecord, SyncError) result" where
  "journal_record lib ws apply_id stream_id item_kind item_key operation_spec post_states plan operation =
     and_then (canonical_json (sy_operation lib) operation_spec) (\<lambda>operation_json.
     and_then (canonical_json (sy_fs_operation lib) operation) (\<lambda>filesystem_json.
     and_then (canonical_json (sy_plan lib) plan) (\<lambda>commit_json.
     and_then (canonical_json (sy_states lib) post_states) (\<lambda>postimage_json.
     let record = \<lparr>aj_apply_id = apply_id, aj_workspace_id = ws, aj_stream_id = stream_id,
           aj_item_kind = item_kind, aj_item_key = item_key, aj_apply_namespace = plan_namespace plan,
           aj_operation_body_digest = replicate 32 0, aj_operation_json = operation_json,
           aj_filesystem_operation_json = filesystem_json, aj_commit_json = commit_json,
           aj_preimage_json = filesystem_json, aj_postimage_json = postimage_json,
           aj_filesystem_receipt_json = None, aj_stage = Prepared\<rparr>
     in Ok (record\<lparr>aj_operation_body_digest := apply_journal_immutable_digest (sy_store lib) record\<rparr>)))))"

definition apply_with_journal ::
    "system_lib \<Rightarrow> StreamId \<Rightarrow> ApplyItemKind \<Rightarrow> string \<Rightarrow> RemoteApplyOperation \<Rightarrow> WorkspacePathState list \<Rightarrow>
     ApplyCommitPlan \<Rightarrow> FsOperation \<Rightarrow> ApplyReceipt engine" where
  "apply_with_journal lib stream_id item_kind item_key operation_spec post_states plan operation =
     then_do (ask (\<lambda>n. Ok (ApplyId (el_new_v4 (sy_engine lib) n)))) (\<lambda>apply_id.
     then_do (read_state (\<lambda>st. journal_record lib (st_workspace_id st) apply_id stream_id item_kind item_key operation_spec
       post_states plan operation)) (\<lambda>record.
     then_do (write_state (put_apply_journal record)) (\<lambda>_.
     then_do (write_state (set_apply_stage apply_id FilesystemStarted)) (\<lambda>_.
     then_do (ask_fs (\<lambda>n. sy_apply lib n apply_id operation)) (\<lambda>receipt.
     then_do (lift_result (canonical_json (sy_receipt lib) receipt)) (\<lambda>receipt_json.
     then_do (write_state (set_apply_filesystem_applied apply_id receipt_json)) (\<lambda>_.
     give receipt)))))))"

definition receipt_id :: "ApplyReceipt \<Rightarrow> ApplyId" where
  "receipt_id receipt = ApplyId (ar_apply_id receipt)"

definition finish_apply_journal :: "system_lib \<Rightarrow> ApplyReceipt \<Rightarrow> unit engine" where
  "finish_apply_journal lib receipt =
     then_do (ask_fs (\<lambda>n. sy_finalize lib n receipt)) (\<lambda>_.
     then_do (write_state (set_apply_stage (receipt_id receipt) Finalized)) (\<lambda>_.
     write_state (remove_apply_journal (receipt_id receipt))))"

end
