(* ===== verification/Engine_Plans.thy ===== *)
theory Engine_Plans
  imports Engine_Commit
begin

text \<open>
  Conflicts in \<open>SyncEngine\<close> (\<open>fns-sync-core/src/engine.rs\<close>): what happens to a blocked local operation when
  the server replaces the conflict it waits for, and the way of a resolution from the choice of the user through
  the outbox to the answer of the server.
\<close>

section \<open>A conflict is replaced\<close>

record ConflictGenerationReplacementPlan =
  gp_blocked_operation_id :: OperationId
  gp_remove_intent_paths :: "WorkspacePath list"
  gp_replacement_intents :: "(WorkspacePath \<times> u8 list) list"
  gp_updated_at_ms :: i64

definition apply_conflict_generation_replacement ::
    "system_lib \<Rightarrow> WorkspaceId \<Rightarrow> ClientId \<Rightarrow> ConflictGenerationReplacementPlan \<Rightarrow> unit tx" where
  "apply_conflict_generation_replacement lib ws client plan = tx_seq
     [remove_outbox_tx client (gp_blocked_operation_id plan),
      tx_each (remove_local_intent_tx ws) (gp_remove_intent_paths plan),
      tx_each (\<lambda>(path, intent_json). put_local_intent_at (sy_store lib) ws intent_json (gp_updated_at_ms plan) path)
        (gp_replacement_intents plan)]"

text \<open>The scan as the loop sees it: the entries found, unless there were issues.\<close>

definition scan_entries :: "system_lib \<Rightarrow> ObservedEntry list engine" where
  "scan_entries lib =
     then_do (ask_fs (sy_scan lib)) (\<lambda>(entries, issues).
     then_do (require (\<not> issues) ScanIncomplete) (\<lambda>_. give entries))"

definition intent_for_scope ::
    "WorkspacePath \<Rightarrow> LocalDesiredEntry option \<Rightarrow> WorkspacePathState option \<Rightarrow> DesiredOperation option" where
  "intent_for_scope path current remote =
     (case current of
        Some entry \<Rightarrow>
          if (case remote of None \<Rightarrow> False | Some state \<Rightarrow> remote_matches_entry state entry) then None
          else Some (Upsert entry)
      | None \<Rightarrow>
          (case remote of
             None \<Rightarrow> None
           | Some state \<Rightarrow>
               if ps_kind state \<noteq> Tombstone \<and> \<not> ps_tombstone state then Some (DesiredDelete path) else None))"

fun encode_intents ::
    "engine_lib \<Rightarrow> (WorkspacePath \<times> DesiredOperation) list \<Rightarrow> ((WorkspacePath \<times> u8 list) list, SyncError) result" where
  "encode_intents lib [] = Ok []"
| "encode_intents lib ((path, desired) # rest) =
     and_then (encode_intent lib (intent_for_path desired path)) (\<lambda>json.
     and_then (encode_intents lib rest) (\<lambda>intents. Ok ((path, json) # intents)))"

definition independent_intents_for_rename_scope ::
    "system_lib \<Rightarrow> WorkspacePath list \<Rightarrow> (WorkspacePath \<times> u8 list) list engine" where
  "independent_intents_for_rename_scope lib scopes =
     then_do (scan_entries lib) (\<lambda>entries.
     then_do (collect_do (\<lambda>observed. then_do (desired_entry_from_observed lib observed) (\<lambda>entry. give (oe_path observed, entry)))
       (filter (\<lambda>observed. path_is_in_scopes (oe_path observed) scopes) entries)) (\<lambda>current.
     then_do (read_state (path_states (sy_store lib))) (\<lambda>records.
     let remote = map (\<lambda>r. (pt_path r, pt_state r)) (filter (\<lambda>r. path_is_in_scopes (pt_path r) scopes) records);
         paths = remdups_adj (sort (map fst current @ map fst remote))
     in lift_result (encode_intents (sy_engine lib) (List.map_filter (\<lambda>path.
          map_option (\<lambda>desired. (path, desired))
            (intent_for_scope path (map_of (rev current) path) (map_of (rev remote) path))) paths)))))"

fun decode_intents ::
    "engine_lib \<Rightarrow> LocalIntentRecord list \<Rightarrow> ((WorkspacePath \<times> DesiredOperation) list, SyncError) result" where
  "decode_intents lib [] = Ok []"
| "decode_intents lib (r # records) =
     and_then (decode_intent lib (li_intent_json r)) (\<lambda>intent.
     and_then (decode_intents lib records) (\<lambda>rest. Ok ((li_path r, desired_from_intent intent) # rest)))"

text \<open>The intents of the plan, once the blocked mutation is known.\<close>

definition replacement_intents ::
    "system_lib \<Rightarrow> WorkspaceMutation \<Rightarrow> DesiredOperation \<Rightarrow> (WorkspacePath list \<times> (WorkspacePath \<times> u8 list) list) engine" where
  "replacement_intents lib m desired =
     (let paths = desired_paths desired in
      then_do (read_state local_intents) (\<lambda>records.
      then_do (lift_result (decode_intents (sy_engine lib) records)) (\<lambda>existing.
      if list_ex (\<lambda>(_, d). touches paths d) existing then
        (if wm_kind m = WorkspaceMutationKind.Rename then
           then_do (lift_result (ok_or (rename_intent_closure paths existing) (ProtocolInvariant ''diverges'')))
             (\<lambda>(closure, remove_paths).
           then_do (independent_intents_for_rename_scope lib closure) (\<lambda>intents. give (remove_paths, intents)))
         else give ([], []))
      else
        then_do (lift_result (encode_intent (sy_engine lib) (intent_for_path desired (hd paths)))) (\<lambda>json.
        give ([], map (\<lambda>path. (path, json)) paths)))))"

definition conflict_generation_replacement_plan ::
    "system_lib \<Rightarrow> WorkspaceConflictCreatedMessage \<Rightarrow> WorkspaceConflictCreatedMessage option \<Rightarrow>
     ConflictGenerationReplacementPlan option engine" where
  "conflict_generation_replacement_plan lib old replacement =
     (if (case replacement of None \<Rightarrow> False
          | Some new \<Rightarrow> cc_conflict_revision new = cc_conflict_revision old \<or>
              cc_created_by_operation_id new = cc_created_by_operation_id old)
      then give None
      else
        then_do (read_state (outbox_entry (sy_store lib) (cc_created_by_operation_id old))) (\<lambda>record.
        case record of
          None \<Rightarrow> give None
        | Some record \<Rightarrow>
            if ob_stage record \<noteq> BlockedConflict then give None
            else
              then_do (lift_result (decode_body lib record)) (\<lambda>body.
              case body of
                BodyResolution _ \<Rightarrow> give None
              | BodyMutation m \<Rightarrow>
                  if \<not> mutation_matches_conflict_origin m old then give None
                  else
                    let rename_kind = (if wm_kind m \<noteq> WorkspaceMutationKind.Rename then None
                          else Some (if is_null (cs_content_hash (cc_current old)) then Directory else File))
                    in
                    then_do (lift_result (ok_or (desired_from_mutation m rename_kind) (ProtocolInvariant ''panic'')))
                      (\<lambda>desired.
                    then_do (replacement_intents lib m desired) (\<lambda>(remove_paths, intents).
                    then_do (next_timestamp (sy_engine lib)) (\<lambda>timestamp.
                    give (Some \<lparr>gp_blocked_operation_id = wm_operation_id m, gp_remove_intent_paths = remove_paths,
                      gp_replacement_intents = intents, gp_updated_at_ms = timestamp\<rparr>)))))))"

fun decode_staged ::
    "system_lib \<Rightarrow> StreamConflictRecord list \<Rightarrow> ((ConflictId \<times> WorkspaceConflictCreatedMessage) list, SyncError) result" where
  "decode_staged lib [] = Ok []"
| "decode_staged lib (r # records) =
     (let codec = lib_created (sy_store lib); corrupt = CorruptState ''stream_conflicts'' ''created_json'' in
      and_then (ok_or (from_slice codec (sc_created_json r)) corrupt) (\<lambda>created.
      and_then (map_err (\<lambda>_. corrupt) (conflict_created_validate created)) (\<lambda>_.
      fail_if (cc_workspace_id created \<noteq> sc_workspace_id r \<or> cc_conflict_id created \<noteq> sc_conflict_id r \<or>
               cc_conflict_revision created \<noteq> sc_conflict_revision r) corrupt
     (and_then (canonical_json codec created) (\<lambda>json.
      fail_if (json \<noteq> sc_created_json r) corrupt
     (and_then (decode_staged lib records) (\<lambda>rest. Ok ((cc_conflict_id created, created) # rest))))))))"

fun replacement_plans ::
    "system_lib \<Rightarrow> (ConflictId \<times> WorkspaceConflictCreatedMessage) list \<Rightarrow> ConflictRecord list \<Rightarrow>
     ConflictGenerationReplacementPlan list engine" where
  "replacement_plans lib staged [] = give []"
| "replacement_plans lib staged (c # cs) =
     then_do (lift_result (decode_conflict_created (sy_engine lib) c)) (\<lambda>old.
     let replacement = map_of (rev staged) (cc_conflict_id old) in
     if replacement = None \<and> cf_resolution_json c \<noteq> None then replacement_plans lib staged cs
     else
       then_do (conflict_generation_replacement_plan lib old replacement) (\<lambda>plan.
       then_do (replacement_plans lib staged cs) (\<lambda>plans.
       give (case plan of None \<Rightarrow> plans | Some plan \<Rightarrow> plan # plans))))"

definition authoritative_conflict_generation_replacement_plans ::
    "system_lib \<Rightarrow> StreamId \<Rightarrow> u32 \<Rightarrow> ConflictGenerationReplacementPlan list engine" where
  "authoritative_conflict_generation_replacement_plans lib stream_id expected_conflict_count =
     then_do (read_state (stream_conflicts_bounded (sy_store lib) stream_id expected_conflict_count)) (\<lambda>records.
     then_do (lift_result (decode_staged lib records)) (\<lambda>staged.
     then_do (read_state (conflicts (sy_store lib))) (\<lambda>cs.
     replacement_plans lib staged cs)))"

section \<open>A conflict is resolved by the user\<close>

record ConflictResolutionProposal =
  rp_choice :: WorkspaceConflictChoice
  rp_path :: WorkspacePath
  rp_content_hash :: "WorkspaceContentHash RequiredNullable"
  rp_metadata :: WorkspaceFileMetadata

definition proposal_matches :: "ConflictResolutionProposal \<Rightarrow> WorkspaceConflictResolvedRequest \<Rightarrow> bool" where
  "proposal_matches proposal request \<longleftrightarrow>
     rq_choice request = rp_choice proposal \<and> rq_path request = rp_path proposal \<and>
     rq_content_hash request = rp_content_hash proposal \<and> rq_metadata request = rp_metadata proposal"

definition into_request ::
    "ConflictResolutionProposal \<Rightarrow> WorkspaceId \<Rightarrow> ClientId \<Rightarrow> OperationId \<Rightarrow> ConflictId \<Rightarrow> WorkspaceConflictRevision \<Rightarrow>
     WorkspaceConflictResolvedRequest" where
  "into_request proposal ws client op conflict_id conflict_revision =
     \<lparr>rq_workspace_id = ws, rq_client_id = client, rq_operation_id = op, rq_conflict_id = conflict_id,
      rq_conflict_revision = conflict_revision, rq_choice = rp_choice proposal, rq_path = rp_path proposal,
      rq_content_hash = rp_content_hash proposal, rq_metadata = rp_metadata proposal\<rparr>"

definition conflict_resolution_proposal ::
    "system_lib \<Rightarrow> WorkspaceConflictCreatedMessage \<Rightarrow> WorkspaceConflictChoice \<Rightarrow> ConflictResolutionProposal engine" where
  "conflict_resolution_proposal lib created choice =
     (let of_side = (\<lambda>side.
        then_do (require (\<not> cs_tombstone side) (ConflictResolutionBlocked SelectedSideDeleted)) (\<lambda>_.
        then_do (lift_result (ok_or (into_option (cs_path side)) (CorruptState ''conflicts'' ''created_json''))) (\<lambda>path.
        give \<lparr>rp_choice = choice, rp_path = path, rp_content_hash = cs_content_hash side, rp_metadata = cs_metadata side\<rparr>)))
      in case choice of
           Current \<Rightarrow> of_side (cc_current created)
         | Incoming \<Rightarrow> of_side (cc_incoming created)
         | Merged \<Rightarrow>
             then_do (inspect lib (cc_path created)) (\<lambda>observed.
             then_do (require (case observed of None \<Rightarrow> False | Some entry \<Rightarrow> oe_kind entry = File)
               (MergeRejected ''merged_file_required'')) (\<lambda>_.
             then_do (stage_workspace_entry lib (cc_path created)) (\<lambda>descriptor.
             give \<lparr>rp_choice = choice, rp_path = cc_path created, rp_content_hash = Value (dc_content_hash descriptor),
                   rp_metadata = dc_metadata descriptor\<rparr>)))
         | WorkspaceConflictChoice.Delete \<Rightarrow>
             give \<lparr>rp_choice = choice, rp_path = cc_path created, rp_content_hash = Null, rp_metadata = zero_metadata\<rparr>)"

definition queue_new_resolution ::
    "system_lib \<Rightarrow> WorkspaceConflictResolvedRequest \<Rightarrow> ConflictRecord \<Rightarrow> u8 list \<Rightarrow> unit engine" where
  "queue_new_resolution lib request c json =
     (let d = body_digest (sy_store lib) json in
      then_do (read_state (outbox_entry (sy_store lib) (rq_operation_id request))) (\<lambda>existing.
      then_do (require (case existing of None \<Rightarrow> True | Some r \<Rightarrow> ob_body_json r = json \<and> ob_body_digest r = d)
        OperationChanged) (\<lambda>_.
      then_do
        (if rq_choice request = Merged then
           then_do (lift_result (ok_or (into_option (rq_content_hash request))
             (ProtocolInvariant ''merged_resolution_without_content_hash''))) (\<lambda>hash.
           then_do (content_available lib hash (md_size (rq_metadata request))) (\<lambda>available.
           then_do (require available (MergeRejected ''merged_content_unavailable'')) (\<lambda>_.
           give (c\<lparr>cf_candidate_hash := Some (hash_str hash)\<rparr>))))
         else give c) (\<lambda>c.
      then_do (ask (\<lambda>n. Ok (el_now_ms (sy_engine lib) n))) (\<lambda>now.
      let c = c\<lparr>cf_status := Resolving, cf_resolution_json := Some json, cf_resolution_digest := Some d\<rparr> in
      transact (\<lambda>ws client. tx_seq
        [tx_unit (enqueue_conflict_resolution_at (sy_store lib) ws client request now),
         put_conflict_tx (sy_store lib) ws c]))))))"

definition queue_conflict_resolution :: "system_lib \<Rightarrow> WorkspaceConflictResolvedRequest \<Rightarrow> unit engine" where
  "queue_conflict_resolution lib request =
     then_do ensure_open (\<lambda>_.
     then_do (require (is_ok (conflict_resolved_request_validate request)) (ProtocolInvariant ''invalid_conflict_resolution'')) (\<lambda>_.
     then_do (validate_identity (rq_workspace_id request) (rq_client_id request)) (\<lambda>_.
     then_do (read_state (conflict (sy_store lib) (rq_conflict_id request))) (\<lambda>found.
     then_do (lift_result (ok_or found ConflictUnavailable)) (\<lambda>c.
     then_do (lift_result (ok_or (from_slice (lib_created (sy_store lib)) (cf_created_json c))
       (CorruptState ''conflicts'' ''created_json''))) (\<lambda>created.
     then_do (lift_result (map_err (\<lambda>e. if reason e = ''conflict_revision_stale'' then ConflictRevisionStale
         else ProtocolInvariant ''conflict_resolution_mismatch'')
       (conflict_resolved_request_validate_against request created))) (\<lambda>_.
     then_do (lift_result (canonical_json (lib_resolution (sy_store lib)) request)) (\<lambda>json.
     let d = body_digest (sy_store lib) json in
     case cf_resolution_json c of
       Some existing_json \<Rightarrow>
         then_do (require (existing_json = json \<and> cf_resolution_digest c = Some d) OperationChanged) (\<lambda>_.
         then_do (read_state (outbox_entry (sy_store lib) (rq_operation_id request))) (\<lambda>record.
         require (case record of None \<Rightarrow> True | Some r \<Rightarrow> ob_body_json r = json \<and> ob_body_digest r = d) OperationChanged))
     | None \<Rightarrow> queue_new_resolution lib request c json))))))))"

text \<open>The receipt has the status \<open>Queued\<close> and the identifier of the operation, which is returned.\<close>

definition resolve_conflict ::
    "system_lib \<Rightarrow> ConflictId \<Rightarrow> WorkspaceConflictRevision \<Rightarrow> WorkspaceConflictChoice \<Rightarrow> OperationId engine" where
  "resolve_conflict lib conflict_id conflict_revision choice =
     then_do ensure_open (\<lambda>_.
     then_do (read_state (conflict (sy_store lib) conflict_id)) (\<lambda>found.
     then_do (lift_result (ok_or found ConflictUnavailable)) (\<lambda>c.
     then_do (lift_result (decode_conflict_created (sy_engine lib) c)) (\<lambda>created.
     then_do (require (conflict_revision = cc_conflict_revision created) ConflictRevisionStale) (\<lambda>_.
     then_do (lift_result (case cf_status c of
         Manual \<Rightarrow> Ok () | Resolving \<Rightarrow> Ok ()
       | WaitingBlobs \<Rightarrow> Err (ConflictResolutionBlocked BlockedWaitingBlobs)
       | AutoReady \<Rightarrow> Err (ConflictResolutionBlocked AutomaticResolutionPending)
       | RefreshRequired \<Rightarrow> Err (ConflictResolutionBlocked BlockedRefreshRequired))) (\<lambda>_.
     then_do (conflict_resolution_proposal lib created choice) (\<lambda>proposal.
     if cf_status c = Resolving then
       then_do (read_state (\<lambda>st. decode_pending_resolution lib c created (st_client_id st))) (\<lambda>existing.
       then_do (lift_result (ok_or existing (CorruptState ''conflicts'' ''resolution_json''))) (\<lambda>existing.
       then_do (require (proposal_matches proposal existing) ConflictResolutionChanged) (\<lambda>_.
       then_do (queue_conflict_resolution lib existing) (\<lambda>_.
       give (rq_operation_id existing)))))
     else
       then_do (require (cf_resolution_json c = None \<and> cf_resolution_digest c = None)
         (CorruptState ''conflicts'' ''resolution_json'')) (\<lambda>_.
       then_do (next_operation_id (sy_engine lib)) (\<lambda>op en.
       let request = into_request proposal (st_workspace_id (en_state en)) (st_client_id (en_state en)) op conflict_id
             conflict_revision
       in then_do (queue_conflict_resolution lib request) (\<lambda>_. give (rq_operation_id request)) en)))))))))"

section \<open>The server answers a resolution\<close>

definition conflict_resolution_accepted :: "system_lib \<Rightarrow> WorkspaceConflictResolvedMessage \<Rightarrow> unit engine" where
  "conflict_resolution_accepted lib message =
     then_do ensure_open (\<lambda>_.
     then_do (require (is_ok (conflict_resolved_validate message)) (ProtocolInvariant ''invalid_conflict_resolution'')) (\<lambda>_ en.
     then_do (require (cr_workspace_id message = st_workspace_id (en_state en)) (ProtocolInvariant ''conflict_workspace_mismatch'')) (\<lambda>_.
     then_do (read_state (conflict (sy_store lib) (cr_conflict_id message))) (\<lambda>found.
     case found of
       None \<Rightarrow>
         then_do (lift_result (resolution_digest lib message)) (\<lambda>d.
         then_do (read_state (conflict_resolution_receipt_match message d)) (\<lambda>receipt.
         require (receipt = ReceiptExact) ConflictUnavailable))
     | Some c \<Rightarrow>
         then_do (lift_result (ok_or (cf_resolution_json c) (ProtocolInvariant ''conflict_resolution_not_outstanding''))) (\<lambda>json.
         then_do (lift_result (ok_or (from_slice (lib_resolution (sy_store lib)) json)
           (CorruptState ''conflicts'' ''resolution_json''))) (\<lambda>request.
         then_do (lift_result (decode_conflict_created (sy_engine lib) c)) (\<lambda>created.
         then_do (require (resolved_matches_request message request (Some created)) OperationChanged) (\<lambda>_.
         then_do (read_state (outbox_entry (sy_store lib) (rq_operation_id request))) (\<lambda>record.
         case record of
           None \<Rightarrow> give ()
         | Some record \<Rightarrow>
             if ob_body_json record = json then write_state (remove_outbox (rq_operation_id request))
             else lift_result (Err OperationChanged)))))))) en))"

definition conflict_resolution_rejected ::
    "system_lib \<Rightarrow> OperationId \<Rightarrow> WorkspaceV2ErrorCode \<Rightarrow> SyncCommand list engine" where
  "conflict_resolution_rejected lib op code =
     (let terminal = (code = WorkspaceV2ErrorCode.ConflictRevisionStale \<or> code = ConflictNotFound) in
      then_do ensure_open (\<lambda>_.
      then_do (read_state (outbox_entry (sy_store lib) op)) (\<lambda>record.
      case record of
        None \<Rightarrow> then_do (require terminal (ProtocolInvariant ''conflict_resolution_not_outstanding'')) (\<lambda>_. give [])
      | Some record \<Rightarrow>
          then_do (lift_result (decode_body lib record)) (\<lambda>body.
          case body of
            BodyMutation _ \<Rightarrow> lift_result (Err (ProtocolInvariant ''operation_not_conflict_resolution''))
          | BodyResolution request \<Rightarrow>
              if code = WorkspaceV2ErrorCode.BlobRequired then
                then_do (lift_result (ok_or (into_option (rq_content_hash request))
                  (ProtocolInvariant ''blob_required_without_content_hash''))) (\<lambda>hash.
                then_do (write_state (set_outbox_stage (sy_store lib) op AwaitingBlob)) (\<lambda>_.
                give [UploadBlob (rq_workspace_id request) op hash (md_size (rq_metadata request))]))
              else if terminal then
                then_do (transact (\<lambda>ws client. tx_seq
                  [remove_outbox_tx client op, set_conflict_status_tx ws (rq_conflict_id request) RefreshRequired])) (\<lambda>_.
                give [])
              else give []))))"

section \<open>Conflicts as the user sees them\<close>

record ConflictSideView =
  sv_path :: "WorkspacePath option"
  sv_path_revision :: WorkspaceRevision
  sv_content_hash :: "WorkspaceContentHash option"
  sv_size :: u64
  sv_modified_at_ms :: i64
  sv_executable :: bool
  sv_tombstone :: bool

record PendingConflictResolutionView =
  pv_view_operation_id :: OperationId
  pv_choice :: WorkspaceConflictChoice
  pv_content_hash :: "WorkspaceContentHash option"
  pv_size :: "u64 option"

record ConflictView =
  cv_conflict_id :: ConflictId
  cv_conflict_revision :: WorkspaceConflictRevision
  cv_path :: WorkspacePath
  cv_kind :: WorkspaceConflictKind
  cv_status :: ConflictStatus
  cv_ancestor :: ConflictSideView
  cv_current :: ConflictSideView
  cv_incoming :: ConflictSideView
  cv_created_by_operation_id :: OperationId
  cv_pending_resolution :: "PendingConflictResolutionView option"
  cv_can_resolve :: bool
  cv_blocked_reason :: "ConflictBlockedReason option"

definition side_view :: "WorkspaceConflictSide \<Rightarrow> ConflictSideView" where
  "side_view side =
     \<lparr>sv_path = into_option (cs_path side), sv_path_revision = cs_path_revision side,
      sv_content_hash = into_option (cs_content_hash side), sv_size = md_size (cs_metadata side),
      sv_modified_at_ms = md_modified_at_ms (cs_metadata side), sv_executable = md_executable (cs_metadata side),
      sv_tombstone = cs_tombstone side\<rparr>"

definition conflict_view :: "system_lib \<Rightarrow> ConflictRecord \<Rightarrow> SqliteState \<Rightarrow> (ConflictView, SyncError) result" where
  "conflict_view lib c st =
     and_then (decode_conflict_created (sy_engine lib) c) (\<lambda>created.
     and_then (decode_pending_resolution lib c created (st_client_id st)) (\<lambda>pending.
     fail_if ((cf_status c = Resolving) \<noteq> (pending \<noteq> None) \<and> cf_status c \<noteq> RefreshRequired)
       (CorruptState ''conflicts'' ''resolution_json'')
    (let (can_resolve, blocked) = (case cf_status c of
           Manual \<Rightarrow> (True, None)
         | WaitingBlobs \<Rightarrow> (False, Some BlockedWaitingBlobs)
         | AutoReady \<Rightarrow> (False, Some AutomaticResolutionPending)
         | Resolving \<Rightarrow> (False, Some ResolutionPending)
         | RefreshRequired \<Rightarrow> (False, Some BlockedRefreshRequired))
     in Ok \<lparr>cv_conflict_id = cc_conflict_id created, cv_conflict_revision = cc_conflict_revision created,
            cv_path = cc_path created, cv_kind = cc_kind created, cv_status = cf_status c,
            cv_ancestor = side_view (cc_ancestor created), cv_current = side_view (cc_current created),
            cv_incoming = side_view (cc_incoming created), cv_created_by_operation_id = cc_created_by_operation_id created,
            cv_pending_resolution = map_option (\<lambda>request.
              \<lparr>pv_view_operation_id = rq_operation_id request, pv_choice = rq_choice request,
               pv_content_hash = into_option (rq_content_hash request),
               pv_size = (if rq_choice request = WorkspaceConflictChoice.Delete then None
                          else Some (md_size (rq_metadata request)))\<rparr>) pending,
            cv_can_resolve = can_resolve, cv_blocked_reason = blocked\<rparr>)))"

fun conflict_views :: "system_lib \<Rightarrow> ConflictRecord list \<Rightarrow> SqliteState \<Rightarrow> (ConflictView list, SyncError) result" where
  "conflict_views lib [] st = Ok []"
| "conflict_views lib (c # cs) st =
     and_then (conflict_view lib c st) (\<lambda>view. and_then (conflict_views lib cs st) (\<lambda>views. Ok (view # views)))"

definition list_conflicts :: "system_lib \<Rightarrow> ConflictView list engine" where
  "list_conflicts lib =
     then_do ensure_open (\<lambda>_.
     then_do (read_state (conflicts (sy_store lib))) (\<lambda>records.
     then_do (read_state (conflict_views lib records)) (\<lambda>views.
     give (sort_key (\<lambda>view. case cv_conflict_id view of ConflictId u \<Rightarrow> u) views))))"

end
