(* ===== verification/Engine_Inbound.thy ===== *)
theory Engine_Inbound
  imports Engine_Plans
begin

text \<open>
  The inbound half of \<open>SyncEngine\<close> (\<open>fns-sync-core/src/engine.rs\<close>): the handlers of what the server sends, the
  application of one item, and the loop that works on stored and waiting items in turn, within a budget of items
  and bytes per call.
\<close>

section \<open>The budget of a call\<close>

record InboundWorkBudget =
  ib_max_items :: nat
  ib_max_serialized_bytes :: nat
  ib_used_items :: nat
  ib_used_serialized_bytes :: nat

definition budget_new :: "InboundWorkLimits \<Rightarrow> InboundWorkBudget" where
  "budget_new limits = \<lparr>ib_max_items = iw_max_items_per_call limits,
     ib_max_serialized_bytes = iw_max_serialized_bytes_per_call limits, ib_used_items = 0, ib_used_serialized_bytes = 0\<rparr>"

definition remaining_items :: "InboundWorkBudget \<Rightarrow> nat" where
  "remaining_items b = ib_max_items b - ib_used_items b"

definition remaining_serialized_bytes :: "InboundWorkBudget \<Rightarrow> nat" where
  "remaining_serialized_bytes b = ib_max_serialized_bytes b - ib_used_serialized_bytes b"

definition allows_oversized_first_item :: "InboundWorkBudget \<Rightarrow> bool" where
  "allows_oversized_first_item b = (ib_used_items b = 0)"

definition budget_consume :: "nat \<Rightarrow> InboundWorkBudget \<Rightarrow> InboundWorkBudget option" where
  "budget_consume serialized_bytes b =
     (if ib_used_items b = ib_max_items b then None
      else if serialized_bytes > remaining_serialized_bytes b \<and> \<not> allows_oversized_first_item b then None
      else Some (b\<lparr>ib_used_items := ib_used_items b + 1,
        ib_used_serialized_bytes := min (2 ^ 64 - 1) (ib_used_serialized_bytes b + serialized_bytes)\<rparr>))"

datatype ResumeStep = Progressed | Blocked | Idle | BudgetExhausted

fun source_other :: "InboundWorkSource \<Rightarrow> InboundWorkSource" where
  "source_other SourceStream = SourceLive"
| "source_other SourceLive = SourceStream"

fun live_revision_of :: "PendingLiveMessage \<Rightarrow> WorkspaceRevision" where
  "live_revision_of (LiveEvent event) = ev_revision event"
| "live_revision_of (LiveResolved message) = cr_revision message"

section \<open>One item is applied\<close>

definition apply_and_commit ::
    "system_lib \<Rightarrow> StreamId \<Rightarrow> ApplyItemKind \<Rightarrow> string \<Rightarrow> RemoteApplyOperation \<Rightarrow> WorkspacePathState list \<Rightarrow>
     ApplyCommitPlan \<Rightarrow> FsOperation \<Rightarrow> (ApplyId option \<Rightarrow> unit engine) \<Rightarrow> unit engine" where
  "apply_and_commit lib stream_id item_kind item_key operation_spec post_states plan operation commit =
     then_do (apply_with_journal lib stream_id item_kind item_key operation_spec post_states plan operation) (\<lambda>receipt.
     then_do (commit (Some (receipt_id receipt))) (\<lambda>_.
     finish_apply_journal lib receipt))"

definition apply_snapshot_entry :: "system_lib \<Rightarrow> WorkspaceSnapshotEntryMessage \<Rightarrow> unit engine" where
  "apply_snapshot_entry lib entry =
     (let post = se_entry entry; commit = (\<lambda>status. commit_entry_with_journal lib entry status [post]) in
      then_do (stored_state lib (ps_path post)) (\<lambda>previous.
      then_do (inspect lib (ps_path post)) (\<lambda>observed.
      then_do (observed_matches_post lib post observed) (\<lambda>post_matches.
      then_do (baseline_matches_observed lib previous observed) (\<lambda>baseline_matches.
      if post_matches then commit Applied None
      else if \<not> baseline_matches \<and> observed \<noteq> None then
        then_do (desired_from_current lib (ps_path post)) (\<lambda>desired.
        then_do (queue_desired_with_states lib desired Map.empty) (\<lambda>_. commit Preserved None))
      else if \<not> baseline_matches \<and> observed = None \<and> previous \<noteq> None then
        then_do (queue_desired_with_states lib (DesiredDelete (ps_path post)) Map.empty) (\<lambda>_. commit Preserved None)
      else
        then_do (operation_for_state lib post observed) (\<lambda>operation.
        case operation of
          None \<Rightarrow> commit Applied None
        | Some operation \<Rightarrow>
            apply_and_commit lib (se_stream_id entry) ApplyItemKind.Entry (path_str (ps_path post)) (from_state post) [post]
              (PlanSnapshotEntry entry) operation (commit Applied)))))))"

text \<open>An event of this client must have its operation in the outbox with the same body, or a receipt.\<close>

definition check_own_event ::
    "bool \<Rightarrow> u8 list \<Rightarrow> OutboxRecord option \<Rightarrow> AppliedReceiptMatch \<Rightarrow> (unit, SyncError) result" where
  "check_own_event own_event mutation_body record receipt_match =
     fail_if (own_event \<and> (case record of None \<Rightarrow> False | Some r \<Rightarrow> ob_body_json r \<noteq> mutation_body))
       (ProtocolInvariant ''event_operation_body_mismatch'')
    (fail_if (own_event \<and> receipt_match = ReceiptMissing \<and> record = None)
       (ProtocolInvariant ''event_operation_not_outstanding'') (Ok ()))"

definition apply_live_event :: "system_lib \<Rightarrow> WorkspaceEventMessage \<Rightarrow> unit engine" where
  "apply_live_event lib event =
     then_do (lift_result (applied_event_digest (sy_engine lib) event)) (\<lambda>operation_digest.
     then_do (lift_result (canonical_json (lib_mutation (sy_store lib)) (ev_mutation event))) (\<lambda>mutation_body en.
     let own_event = (ev_origin_client_id event = st_client_id (en_state en)) in
     then_do (read_state (outbox_entry (sy_store lib) (ev_operation_id event))) (\<lambda>record.
     then_do (read_state (event_receipt_match (sy_engine lib) event)) (\<lambda>receipt_match.
     if receipt_match = ReceiptExact then mark_live_event_applied (ev_revision event)
     else
       then_do (lift_result (check_own_event own_event mutation_body record receipt_match)) (\<lambda>_.
       let remove_it = (own_event \<and> record \<noteq> None);
           commit = (\<lambda>states. commit_live_event_with_journal lib event states operation_digest remove_it)
       in
       then_do (case legacy_of receipt_match of
           None \<Rightarrow> give None
         | Some legacy \<Rightarrow> then_do (read_state cursor) (\<lambda>c.
             give (if wc_last_applied_revision c > ev_revision event then Some legacy else None))) (\<lambda>superseded.
       case superseded of
         Some legacy \<Rightarrow> settle_superseded_event lib event operation_digest legacy own_event remove_it SupersededLive
       | None \<Rightarrow>
           then_do (lift_result (post_states_of event)) (\<lambda>post_states.
           then_do (path_states_for_event lib event) (\<lambda>previous.
           then_do (observed_for_event lib event) (\<lambda>observed.
           then_do (event_post_matches lib post_states observed) (\<lambda>post_matches.
           if post_matches then commit post_states None
           else
             then_do (event_baseline_matches lib previous observed) (\<lambda>baseline_matches.
             if \<not> baseline_matches then preserve_live_event lib event observed post_states operation_digest remove_it
             else
               then_do (operation_for_event lib event observed) (\<lambda>operation.
               case operation of
                 None \<Rightarrow> commit post_states None
               | Some operation \<Rightarrow>
                   then_do (lift_result (from_event event)) (\<lambda>operation_spec.
                   apply_and_commit lib (ev_stream_id event) ApplyItemKind.Event (revision_print (ev_revision event))
                     operation_spec post_states (PlanLiveEvent event remove_it) operation (commit post_states))))))))))))
     en))"

definition apply_event :: "system_lib \<Rightarrow> WorkspaceEventMessage \<Rightarrow> unit engine" where
  "apply_event lib event =
     then_do (lift_result (canonical_json (lib_mutation (sy_store lib)) (ev_mutation event))) (\<lambda>mutation_body.
     then_do (lift_result (applied_event_digest (sy_engine lib) event)) (\<lambda>operation_digest.
     then_do (read_state (outbox_entry (sy_store lib) (ev_operation_id event))) (\<lambda>record.
     then_do (read_state (event_receipt_match (sy_engine lib) event)) (\<lambda>receipt_match en.
     (if receipt_match = ReceiptExact then
       then_do (write_state (put_stream_event (sy_store lib) event Applied)) (\<lambda>_. give ())
      else
       let own_event = (ev_origin_client_id event = st_client_id (en_state en)) in
       then_do (lift_result (check_own_event own_event mutation_body record receipt_match)) (\<lambda>_.
       let remove_it = (own_event \<and> record \<noteq> None);
           commit = (\<lambda>states. commit_event_with_journal lib event Applied states operation_digest remove_it)
       in
       then_do (case legacy_of receipt_match of
           None \<Rightarrow> give None
         | Some legacy \<Rightarrow> then_do (read_state cursor) (\<lambda>c.
             give (if wc_last_applied_revision c > ev_revision event then Some legacy else None))) (\<lambda>superseded.
       case superseded of
         Some legacy \<Rightarrow> settle_superseded_event lib event operation_digest legacy own_event remove_it SupersededStream
       | None \<Rightarrow>
           then_do (lift_result (post_states_of event)) (\<lambda>post_states.
           if own_event \<and> receipt_match = ReceiptMissing then commit post_states None
           else
             then_do (path_states_for_event lib event) (\<lambda>previous.
             then_do (observed_for_event lib event) (\<lambda>observed.
             then_do (event_post_matches lib post_states observed) (\<lambda>post_matches.
             then_do (event_baseline_matches lib previous observed) (\<lambda>baseline_matches.
             if post_matches then commit post_states None
             else if \<not> baseline_matches then preserve_event lib event observed post_states operation_digest remove_it
             else
               then_do (operation_for_event lib event observed) (\<lambda>operation.
               case operation of
                 None \<Rightarrow> commit post_states None
               | Some operation \<Rightarrow>
                   then_do (lift_result (from_event event)) (\<lambda>operation_spec.
                   apply_and_commit lib (ev_stream_id event) ApplyItemKind.Event (revision_print (ev_revision event))
                     operation_spec post_states (PlanStreamEvent event remove_it) operation (commit post_states))))))))))) en))))"

text \<open>\<open>live_apply_stream_id\<close>: \<open>00000000-0000-4000-8000-0000000000c0\<close>.\<close>

definition live_apply_stream_id :: StreamId where
  "live_apply_stream_id = StreamId 0x000000000000400080000000000000c0"

definition apply_conflict_resolved_from ::
    "system_lib \<Rightarrow> WorkspaceConflictResolvedMessage \<Rightarrow> ConflictResolutionSource \<Rightarrow> unit engine" where
  "apply_conflict_resolved_from lib message source =
     then_do (lift_result (resolution_digest lib message)) (\<lambda>d.
     then_do (read_state (inbound_conflict_resolution_receipt_match lib message d)) (\<lambda>receipt_match.
     if receipt_match = ReceiptExact then settle_exact_conflict_resolution_replay lib message source
     else
       then_do (read_state (conflict_cleanup_operations lib message)) (\<lambda>cleanup.
       then_do (read_state cursor) (\<lambda>c.
       let legacy = legacy_of receipt_match; state = cr_path_state message;
           commit = (\<lambda>status. commit_conflict_resolved_with_journal lib message status source)
       in
       if cu_preserve_newer_generation cleanup \<or> legacy \<noteq> None \<and> wc_last_applied_revision c > cr_revision message then
         (case source of
            ResolutionStream \<Rightarrow> commit_superseded_conflict_resolution lib message d legacy cleanup
          | ResolutionLive \<Rightarrow> commit_superseded_live_conflict_resolution lib message d legacy cleanup)
       else
         then_do (require (\<not> (source = ResolutionLive \<and> receipt_match = ReceiptMissing \<and>
             cr_revision message \<le> wc_last_applied_revision c)) (StreamInvariant ''live_revision_regression'')) (\<lambda>_.
         then_do (stored_state lib (ps_path state)) (\<lambda>previous.
         then_do (inspect lib (ps_path state)) (\<lambda>observed.
         then_do (observed_matches_post lib state observed) (\<lambda>post_matches.
         if post_matches then commit Applied None
         else
           then_do (baseline_matches_observed lib previous observed) (\<lambda>baseline_matches.
           if \<not> baseline_matches then
             then_do (desired_from_current lib (ps_path state)) (\<lambda>desired.
             then_do (queue_desired_with_states lib desired
               (case previous of None \<Rightarrow> Map.empty | Some s \<Rightarrow> [ps_path state \<mapsto> s])) (\<lambda>_.
             commit Preserved None))
           else
             then_do (operation_for_state lib state observed) (\<lambda>operation.
             case operation of
               None \<Rightarrow> commit Applied None
             | Some operation \<Rightarrow>
                 then_do (case source of
                     ResolutionLive \<Rightarrow> give live_apply_stream_id
                   | ResolutionStream \<Rightarrow>
                       then_do (read_state stream_state) (\<lambda>active.
                       then_do (lift_result (ok_or active (StreamInvariant ''no_active_stream''))) (\<lambda>active.
                       give (ss_stream_id active)))) (\<lambda>stream_id.
                 apply_and_commit lib stream_id ApplyItemKind.ConflictResolved (revision_print (cr_revision message))
                   (from_state state) [state]
                   (case source of ResolutionStream \<Rightarrow> PlanStreamConflictResolved message
                    | ResolutionLive \<Rightarrow> PlanLiveConflictResolved message) operation (commit Applied))))))))))))"

section \<open>A stream is finished\<close>

text \<open>The path of a stored entry, as \<open>json_extract\<close> finds it in a body that was written from an entry.\<close>

definition snapshot_stream_contains_path :: "store_lib \<Rightarrow> StreamId \<Rightarrow> WorkspacePath \<Rightarrow> SqliteState \<Rightarrow> bool" where
  "snapshot_stream_contains_path lib stream_id path st =
     list_ex (\<lambda>r. case from_slice (lib_snapshot_entry lib) (sr_body_json r) of
         None \<Rightarrow> False | Some entry \<Rightarrow> ps_path (se_entry entry) = path)
       (entries_of (st_workspace_id st) stream_id (st_conn st))"

definition contains_path :: "system_lib \<Rightarrow> StreamId \<Rightarrow> WorkspacePath \<Rightarrow> bool engine" where
  "contains_path lib stream_id path = read_state (\<lambda>st. Ok (snapshot_stream_contains_path (sy_store lib) stream_id path st))"

definition drop_unlisted :: "system_lib \<Rightarrow> StreamId \<Rightarrow> WorkspacePath \<Rightarrow> unit engine" where
  "drop_unlisted lib stream_id path =
     then_do (contains_path lib stream_id path) (\<lambda>listed.
     if listed then give ()
     else
       then_do (write_state (remove_path_state path)) (\<lambda>_.
       then_do (inspect lib path) (\<lambda>observed.
       if observed = None then give ()
       else
         then_do (desired_from_current lib path) (\<lambda>desired.
         queue_desired_with_states lib desired Map.empty))))"

definition queue_unlisted :: "system_lib \<Rightarrow> StreamId \<Rightarrow> ObservedEntry \<Rightarrow> unit engine" where
  "queue_unlisted lib stream_id observed =
     then_do (contains_path lib stream_id (oe_path observed)) (\<lambda>listed.
     if listed then give ()
     else
       then_do (desired_entry_from_observed lib observed) (\<lambda>entry.
       queue_desired_with_states lib (Upsert entry) Map.empty))"

definition reconcile_full_snapshot :: "system_lib \<Rightarrow> StreamId \<Rightarrow> unit engine" where
  "reconcile_full_snapshot lib stream_id =
     then_do (read_state (path_states (sy_store lib))) (\<lambda>records.
     then_do (each_do (drop_unlisted lib stream_id) (remdups_adj (sort (map pt_path records)))) (\<lambda>_.
     then_do (scan_entries lib) (\<lambda>entries.
     each_do (queue_unlisted lib stream_id) entries)))"

definition items_ready :: "StreamStateRecord \<Rightarrow> StreamTableSummary \<Rightarrow> bool" where
  "items_ready active summary =
     (case ss_mode active of
        Snapshot \<Rightarrow> sm_entry_count summary = unat (ss_expected_entry_count active) \<and> sm_pending_entry_count summary = 0 \<and>
          sm_revision_count summary = 0
      | Incremental \<Rightarrow> sm_revision_count summary = unat (ss_expected_event_count active) \<and>
          sm_pending_revision_count summary = 0 \<and> sm_entry_count summary = 0)"

text \<open>Everything announced has arrived and is settled, and no change of the file system is under way.\<close>

definition stream_complete :: "StreamStateRecord \<Rightarrow> SqliteState \<Rightarrow> bool" where
  "stream_complete active st =
     (let summary = stream_table_summary (ss_stream_id active) st in
      items_ready active summary \<and> sm_conflict_count summary = unat (ss_expected_conflict_count active) \<and>
      \<not> has_apply_journals st)"

definition finish_stream_if_ready :: "system_lib \<Rightarrow> bool engine" where
  "finish_stream_if_ready lib =
     then_do (read_state stream_state) (\<lambda>found en.
     (case found of
        None \<Rightarrow> give False
      | Some active \<Rightarrow>
          if \<not> ss_end_received active \<or> \<not> stream_complete active (en_state en) then give False
          else
            then_do (if ss_mode active = Snapshot then reconcile_full_snapshot lib (ss_stream_id active) else give ()) (\<lambda>_.
            then_do (authoritative_conflict_generation_replacement_plans lib (ss_stream_id active)
              (ss_expected_conflict_count active)) (\<lambda>plans.
            then_do (read_state cursor) (\<lambda>c.
            then_do (transact (\<lambda>ws client. tx_seq
              [tx_each (apply_conflict_generation_replacement lib ws client) plans,
               replace_authoritative_conflicts_tx ws (ss_stream_id active),
               set_last_applied_revision_tx ws (ss_final_revision active),
               clear_pending_segment_ack_tx ws,
               if ss_final_revision active > wc_last_ack_revision c then set_pending_ack_tx ws (ss_final_revision active)
               else clear_stream_tx ws])) (\<lambda>_.
            then_do (materialize_local_intents (sy_engine lib)) (\<lambda>_.
            give True)))))) en)"

definition advance_segment_ack_if_stalled :: "unit engine" where
  "advance_segment_ack_if_stalled =
     then_do (read_state cursor) (\<lambda>c.
     if wc_pending_ack_revision c \<noteq> None then give ()
     else
       then_do (read_state stream_state) (\<lambda>found en.
       (case found of
          None \<Rightarrow> give ()
        | Some active \<Rightarrow>
            let summary = stream_table_summary (ss_stream_id active) (en_state en);
                target = wc_last_applied_revision c in
            if ss_mode active \<noteq> Incremental \<or> target \<le> wc_last_ack_revision c \<or> target \<ge> ss_final_revision active \<or>
               sm_revision_count summary \<noteq> unat (ss_expected_event_count active) \<or>
               sm_pending_revision_count summary \<noteq> 0 \<or> sm_entry_count summary \<noteq> 0 \<or>
               wc_pending_segment_ack_revision c = Some target
            then give ()
            else transact (\<lambda>ws client. set_pending_segment_ack_tx ws target)) en))"

definition completed_stream_ack_revision :: "WorkspaceRevision option engine" where
  "completed_stream_ack_revision =
     then_do ensure_open (\<lambda>_.
     then_do (read_state stream_state) (\<lambda>found en.
     (case found of
        None \<Rightarrow> give None
      | Some active \<Rightarrow>
          if \<not> ss_end_received active \<or> \<not> stream_complete active (en_state en) then give None
          else
            then_do (read_state cursor) (\<lambda>c.
            give (if wc_pending_ack_revision c = Some (ss_final_revision active) then Some (ss_final_revision active)
                  else None))) en))"

end
