(* ===== verification/Engine_Work.thy ===== *)
theory Engine_Work
  imports Engine_Inbound Engine_Deferred
begin

text \<open>
  The work loop of \<open>SyncEngine\<close> (\<open>fns-sync-core/src/engine.rs\<close>) and the handlers that run it: each takes stored
  items of a stream and waiting live items in turn, until both are exhausted or blocked or the budget of the
  call is used up. The termination of the loop is proved from the budget.
\<close>

section \<open>One step\<close>

definition missing_content ::
    "system_lib \<Rightarrow> (WorkspaceContentHash \<times> u64) option \<Rightarrow> (WorkspaceContentHash \<times> u64) option engine" where
  "missing_content lib required =
     (case required of
        None \<Rightarrow> give None
      | Some (hash, byte_size) \<Rightarrow>
          then_do (content_available lib hash byte_size) (\<lambda>available.
          give (if available then None else Some (hash, byte_size))))"

definition ask_download ::
    "nat \<Rightarrow> bool \<Rightarrow> OperationId option \<Rightarrow> WorkspaceContentHash \<times> u64 \<Rightarrow> SyncCommand list \<Rightarrow> SyncCommand list engine" where
  "ask_download limit reissue op content commands en =
     (case content of (hash, byte_size) \<Rightarrow>
       (Ok (if reissue then push_download commands limit (st_workspace_id (en_state en)) op hash byte_size else commands), en))"

fun live_operation :: "PendingLiveMessage \<Rightarrow> OperationId" where
  "live_operation (LiveEvent event) = ev_operation_id event"
| "live_operation (LiveResolved message) = cr_operation_id message"

definition pop_live :: "PendingLiveItem \<Rightarrow> unit engine" where
  "pop_live item en =
     (case en_pending_live_events en of
        [] \<Rightarrow> (Err (ProtocolInvariant ''pending_live_queue_changed''), en)
      | applied # rest \<Rightarrow>
          let en = en\<lparr>en_pending_live_events := rest\<rparr> in
          if pl_body_digest applied \<noteq> pl_body_digest item \<or> pl_serialized_bytes applied \<noteq> pl_serialized_bytes item
          then (Err (ProtocolInvariant ''pending_live_queue_changed''), en)
          else if en_pending_live_serialized_bytes en < pl_serialized_bytes item
          then (Err (ProtocolInvariant ''pending_live_bytes_underflow''), en)
          else (Ok (), en\<lparr>en_pending_live_serialized_bytes :=
                  en_pending_live_serialized_bytes en - pl_serialized_bytes item\<rparr>))"

definition live_item ::
    "system_lib \<Rightarrow> nat \<Rightarrow> bool \<Rightarrow> PendingLiveItem \<Rightarrow> SyncCommand list \<Rightarrow> (ResumeStep \<times> SyncCommand list) engine" where
  "live_item lib limit reissue item commands =
     then_do (lift_result (case pl_message item of
         LiveEvent event \<Rightarrow> required_event_content event
       | LiveResolved message \<Rightarrow> Ok (required_content (cr_path_state message)))) (\<lambda>required.
     then_do (missing_content lib required) (\<lambda>missing.
     case missing of
       Some content \<Rightarrow>
         then_do (ask_download limit reissue (Some (live_operation (pl_message item))) content commands) (\<lambda>commands.
         give (Blocked, commands))
     | None \<Rightarrow>
         then_do (case pl_message item of
             LiveEvent event \<Rightarrow> apply_live_event lib event
           | LiveResolved message \<Rightarrow> apply_conflict_resolved_from lib message ResolutionLive) (\<lambda>_.
         then_do (pop_live item) (\<lambda>_. give (Progressed, commands)))))"

definition stream_entry_item ::
    "system_lib \<Rightarrow> nat \<Rightarrow> bool \<Rightarrow> StreamEntryRecord \<Rightarrow> SyncCommand list \<Rightarrow> (ResumeStep \<times> SyncCommand list) engine" where
  "stream_entry_item lib limit reissue record commands =
     then_do (lift_result (ok_or (from_slice (lib_snapshot_entry (sy_store lib)) (sr_body_json record))
       (CorruptState ''stream_entries'' ''body_json''))) (\<lambda>entry.
     then_do (missing_content lib (required_content (se_entry entry))) (\<lambda>missing.
     case missing of
       Some content \<Rightarrow>
         then_do (write_state (put_stream_entry (sy_store lib) entry WaitingBlob)) (\<lambda>_.
         then_do (ask_download limit reissue None content commands) (\<lambda>commands. give (Blocked, commands)))
     | None \<Rightarrow>
         then_do (if sr_status record \<noteq> Ready
                  then then_do (write_state (put_stream_entry (sy_store lib) entry Ready)) (\<lambda>_. give ())
                  else give ()) (\<lambda>_.
         then_do (apply_snapshot_entry lib entry) (\<lambda>_. give (Progressed, commands)))))"

definition stream_event_item ::
    "system_lib \<Rightarrow> nat \<Rightarrow> bool \<Rightarrow> StreamRevisionItemRecord \<Rightarrow> SyncCommand list \<Rightarrow> (ResumeStep \<times> SyncCommand list) engine" where
  "stream_event_item lib limit reissue record commands =
     then_do (lift_result (ok_or (from_slice (lib_event (sy_store lib)) (si_body_json record))
       (CorruptState ''stream_revision_items'' ''body_json''))) (\<lambda>event.
     then_do (read_state (event_receipt_match (sy_engine lib) event)) (\<lambda>receipt_match.
     if receipt_match = ReceiptExact then
       then_do (write_state (put_stream_event (sy_store lib) event Applied)) (\<lambda>_. give (Progressed, commands))
     else
       then_do (if si_status record \<noteq> Ready then missing_content lib (required_content (ev_path_state event))
                else give None) (\<lambda>missing.
       case missing of
         Some content \<Rightarrow>
           then_do (write_state (put_stream_event (sy_store lib) event WaitingBlob)) (\<lambda>_.
           then_do (ask_download limit reissue (Some (ev_operation_id event)) content commands) (\<lambda>commands.
           give (Blocked, commands)))
       | None \<Rightarrow>
           then_do (if si_status record \<noteq> Ready
                    then then_do (write_state (put_stream_event (sy_store lib) event Ready)) (\<lambda>_. give ())
                    else give ()) (\<lambda>_.
           then_do (apply_event lib event) (\<lambda>_. give (Progressed, commands))))))"

definition stream_resolved_item ::
    "system_lib \<Rightarrow> nat \<Rightarrow> bool \<Rightarrow> StreamRevisionItemRecord \<Rightarrow> SyncCommand list \<Rightarrow> (ResumeStep \<times> SyncCommand list) engine" where
  "stream_resolved_item lib limit reissue record commands =
     (let put = (\<lambda>message status. write_state (put_stream_conflict_resolved (sy_store lib) message None status)) in
      then_do (lift_result (ok_or (from_slice (lib_resolved (sy_store lib)) (si_body_json record))
        (CorruptState ''stream_revision_items'' ''body_json''))) (\<lambda>message.
      then_do (lift_result (resolution_digest lib message)) (\<lambda>d.
      then_do (read_state (inbound_conflict_resolution_receipt_match lib message d)) (\<lambda>receipt_match.
      if receipt_match = ReceiptExact then
        then_do (settle_exact_conflict_resolution_replay lib message ResolutionStream) (\<lambda>_. give (Progressed, commands))
      else
        then_do (missing_content lib (required_content (cr_path_state message))) (\<lambda>missing.
        case missing of
          Some content \<Rightarrow>
            then_do (put message WaitingBlob) (\<lambda>_.
            then_do (ask_download limit reissue (Some (cr_operation_id message)) content commands) (\<lambda>commands.
            give (Blocked, commands)))
        | None \<Rightarrow>
            then_do (if si_status record \<noteq> Ready then then_do (put message Ready) (\<lambda>_. give ()) else give ()) (\<lambda>_.
            then_do (apply_conflict_resolved_from lib message ResolutionStream) (\<lambda>_. give (Progressed, commands))))))))"

type_synonym step_result = "ResumeStep \<times> InboundWorkBudget \<times> SyncCommand list"

text \<open>The budget is charged for an item before it is looked at.\<close>

definition charged ::
    "nat \<Rightarrow> InboundWorkBudget \<Rightarrow> SyncCommand list \<Rightarrow> (ResumeStep \<times> SyncCommand list) engine \<Rightarrow> step_result engine" where
  "charged serialized_bytes budget commands work =
     (case budget_consume serialized_bytes budget of
        None \<Rightarrow> give (BudgetExhausted, budget, commands)
      | Some budget \<Rightarrow> then_do work (\<lambda>(step, commands). give (step, budget, commands)))"

definition resume_live_step ::
    "system_lib \<Rightarrow> nat \<Rightarrow> bool \<Rightarrow> InboundWorkBudget \<Rightarrow> SyncCommand list \<Rightarrow> step_result engine" where
  "resume_live_step lib limit reissue budget commands en =
     (case en_pending_live_events en of
        [] \<Rightarrow> (Ok (Idle, budget, commands), en)
      | item # _ \<Rightarrow> charged (pl_serialized_bytes item) budget commands (live_item lib limit reissue item commands) en)"

definition page_step ::
    "('r \<Rightarrow> nat) \<Rightarrow> ('r \<Rightarrow> (ResumeStep \<times> SyncCommand list) engine) \<Rightarrow> InboundWorkBudget \<Rightarrow> SyncCommand list \<Rightarrow>
     'r BoundedPage \<Rightarrow> step_result engine" where
  "page_step size_of work budget commands page =
     (case pg_items page of
        [] \<Rightarrow> give (if pg_deferred_by_byte_budget page then BudgetExhausted else Idle, budget, commands)
      | record # _ \<Rightarrow> charged (size_of record) budget commands (work record))"

definition resume_stream_step ::
    "system_lib \<Rightarrow> nat \<Rightarrow> bool \<Rightarrow> InboundWorkBudget \<Rightarrow> SyncCommand list \<Rightarrow> step_result engine" where
  "resume_stream_step lib limit reissue budget commands =
     then_do (read_state stream_state) (\<lambda>found.
     case found of
       None \<Rightarrow> give (Idle, budget, commands)
     | Some active \<Rightarrow>
         (let items = min (remaining_items budget) 1; bytes = remaining_serialized_bytes budget;
              oversized = allows_oversized_first_item budget in
          case ss_mode active of
            Snapshot \<Rightarrow>
              then_do (read_state (pending_stream_entries_page (sy_store lib) (ss_stream_id active) items bytes oversized))
                (page_step (\<lambda>r. length (sr_body_json r)) (\<lambda>r. stream_entry_item lib limit reissue r commands) budget commands)
          | Incremental \<Rightarrow>
              then_do (read_state (pending_stream_revision_items_page (sy_store lib) (ss_stream_id active) items bytes oversized))
                (page_step (\<lambda>r. length (si_body_json r))
                  (\<lambda>r. case si_item_kind r of
                     StreamRevisionItemKind.Event \<Rightarrow> stream_event_item lib limit reissue r commands
                   | StreamRevisionItemKind.ConflictResolved \<Rightarrow> stream_resolved_item lib limit reissue r commands)
                  budget commands)))"

fun resume_step ::
    "system_lib \<Rightarrow> nat \<Rightarrow> bool \<Rightarrow> InboundWorkSource \<Rightarrow> InboundWorkBudget \<Rightarrow> SyncCommand list \<Rightarrow> step_result engine" where
  "resume_step lib limit reissue SourceStream budget commands = resume_stream_step lib limit reissue budget commands"
| "resume_step lib limit reissue SourceLive budget commands = resume_live_step lib limit reissue budget commands"

section \<open>The budget pays for every step\<close>

definition pays :: "InboundWorkBudget \<Rightarrow> step_result \<Rightarrow> bool" where
  "pays b r \<longleftrightarrow> (case r of (step, b', _) \<Rightarrow>
     b' = b \<and> step \<noteq> Progressed \<or> (\<exists>n. budget_consume n b = Some b'))"

lemma budget_consume_remaining:
  "budget_consume n b = Some b' \<Longrightarrow> 0 < remaining_items b \<Longrightarrow> remaining_items b' < remaining_items b"
  by (auto simp: budget_consume_def remaining_items_def split: if_splits)

lemma pays_remaining:
  assumes "pays b (step, b', cs)" "0 < remaining_items b"
  shows "remaining_items b' \<le> remaining_items b" "step = Progressed \<Longrightarrow> remaining_items b' < remaining_items b"
  using assms budget_consume_remaining by (fastforce simp: pays_def)+

lemma charged_pays: "charged n b cs work en = (Ok r, en') \<Longrightarrow> pays b r"
  by (auto simp: charged_def pays_def then_do_Ok_iff split: option.splits)

lemma page_step_pays: "page_step size_of work b cs page en = (Ok r, en') \<Longrightarrow> pays b r"
  by (auto simp: page_step_def dest: charged_pays split: list.splits) (auto simp: pays_def)

lemma resume_live_step_pays: "resume_live_step lib limit reissue b cs en = (Ok r, en') \<Longrightarrow> pays b r"
  by (auto simp: resume_live_step_def dest: charged_pays split: list.splits) (auto simp: pays_def)

lemma resume_stream_step_pays:
  assumes "resume_stream_step lib limit reissue b cs en = (Ok r, en')"
  shows "pays b r"
proof -
  obtain found where found: "stream_state (en_state en) = Ok found"
    using assms by (auto simp: resume_stream_step_def then_do_Ok_iff)
  show ?thesis
  proof (cases found)
    case None
    then show ?thesis using assms found by (auto simp: resume_stream_step_def pays_def)
  next
    case (Some active)
    then show ?thesis using assms found
      by (cases "ss_mode active") (auto simp: resume_stream_step_def then_do_Ok_iff Let_def dest: page_step_pays)
  qed
qed

lemma resume_step_pays: "resume_step lib limit reissue source b cs en = (Ok r, en') \<Longrightarrow> pays b r"
  by (cases source) (auto dest: resume_live_step_pays resume_stream_step_pays)

section \<open>The loop\<close>

fun source_unavailable :: "InboundWorkSource \<Rightarrow> bool \<Rightarrow> bool \<Rightarrow> bool" where
  "source_unavailable SourceStream stream_unavailable live_unavailable = stream_unavailable"
| "source_unavailable SourceLive stream_unavailable live_unavailable = live_unavailable"

function resume_loop ::
    "system_lib \<Rightarrow> nat \<Rightarrow> bool \<Rightarrow> bool \<Rightarrow> bool \<Rightarrow> InboundWorkSource \<Rightarrow> InboundWorkBudget \<Rightarrow> SyncCommand list \<Rightarrow>
     SyncEngine \<Rightarrow> (SyncCommand list, SyncError) result \<times> SyncEngine" where
  "resume_loop lib limit reissue stream_unavailable live_unavailable source budget commands en =
     (if remaining_items budget = 0 \<or> stream_unavailable \<and> live_unavailable then (Ok commands, en)
      else if source_unavailable source stream_unavailable live_unavailable
      then resume_loop lib limit reissue stream_unavailable live_unavailable (source_other source) budget commands en
      else
        case resume_step lib limit reissue source budget commands en of
          (Err e, en') \<Rightarrow> (Err e, en')
        | (Ok (step, budget', commands'), en') \<Rightarrow>
            resume_loop lib limit reissue
              (stream_unavailable \<or> step \<noteq> Progressed \<and> source = SourceStream)
              (live_unavailable \<or> step \<noteq> Progressed \<and> source = SourceLive)
              (source_other source) budget' commands' en')"
  by pat_completeness auto

termination
proof (relation "measures
    [\<lambda>(_, _, _, _, _, _, budget, _, _). remaining_items budget,
     \<lambda>(_, _, _, stream_unavailable, live_unavailable, _, _, _, _).
       (if stream_unavailable then 0 else 1) + (if live_unavailable then 0 else 1),
     \<lambda>(_, _, _, stream_unavailable, live_unavailable, source, _, _, _).
       if source_unavailable source stream_unavailable live_unavailable then 1 else 0]", goal_cases)
  case (2 lib limit reissue su lu source budget commands en)
  then show ?case by (cases source) auto
next
  case (3 lib limit reissue su lu source budget commands en r en' v step rest budget' commands')
  then have r: "resume_step lib limit reissue source budget commands en = (Ok (step, budget', commands'), en')"
    by (metis prod.collapse)
  have left: "0 < remaining_items budget" using 3 by simp
  note paid = pays_remaining [OF resume_step_pays [OF r] left]
  show ?case
  proof (cases "step = Progressed")
    case True
    then show ?thesis using paid(2) by simp
  next
    case False
    then show ?thesis using paid(1) 3 by (cases source) auto
  qed
qed simp

declare resume_loop.simps [simp del]

definition resume_inbound_work :: "system_lib \<Rightarrow> nat \<Rightarrow> bool \<Rightarrow> SyncCommand list engine" where
  "resume_inbound_work lib command_limit reissue en =
     (let source = en_next_inbound_source en;
          en = en\<lparr>en_next_inbound_source := source_other source\<rparr> in
      then_do (resume_loop lib command_limit reissue False False source (budget_new (en_inbound_work_limits en)) []) (\<lambda>commands.
      then_do (finish_stream_if_ready lib) (\<lambda>_.
      then_do advance_segment_ack_if_stalled (\<lambda>_.
      give commands))) en)"

end
