(* ===== verification/Engine_Scan.thy ===== *)
theory Engine_Scan
  imports Engine_Plans FNS_Maps
begin

text \<open>
  Local changes in \<open>SyncEngine\<close> (\<open>fns-sync-core/src/engine.rs\<close>): the comparison of a scan of the workspace with
  the states of the server, which reports creations, updates, deletions and renames, and the filter that every
  local change passes before it becomes a wish. The two maps of the comparison are association lists in key order.
\<close>

section \<open>The comparison of a scan\<close>

type_synonym remote_map = "(WorkspacePath, WorkspacePathState) btree_map"
type_synonym current_map = "(WorkspacePath, LocalDesiredEntry) btree_map"

definition scan_additions :: "remote_map \<Rightarrow> current_map \<Rightarrow> (WorkspacePath \<times> LocalDesiredEntry) list" where
  "scan_additions remote current =
     filter (\<lambda>(path, _). case bt_get remote path of None \<Rightarrow> True | Some state \<Rightarrow> ps_kind state = Tombstone) current"

definition scan_updates :: "remote_map \<Rightarrow> current_map \<Rightarrow> (WorkspacePath \<times> LocalDesiredEntry) list" where
  "scan_updates remote current =
     filter (\<lambda>(path, entry). case bt_get remote path of None \<Rightarrow> False
       | Some state \<Rightarrow> ps_kind state \<noteq> Tombstone \<and> \<not> remote_matches_entry state entry) current"

definition scan_deletions :: "remote_map \<Rightarrow> current_map \<Rightarrow> WorkspacePath list" where
  "scan_deletions remote current =
     sort (map fst (filter (\<lambda>(path, state). ps_kind state \<noteq> Tombstone \<and> bt_get current path = None) remote))"

text \<open>The summaries are computed for the directories among the deletions and the additions.\<close>

definition remote_directory_subtrees ::
    "(u8 list \<Rightarrow> u8 list) \<Rightarrow> remote_map \<Rightarrow> current_map \<Rightarrow> WorkspacePath \<Rightarrow> DirectorySubtreeSummary option" where
  "remote_directory_subtrees blake3 remote current path =
     (if path \<in> set (scan_deletions remote current) \<and>
         (case bt_get remote path of None \<Rightarrow> False | Some state \<Rightarrow> ps_kind state = Directory)
      then Some (remote_directory_subtree_identity blake3 path remote) else None)"

definition current_directory_subtrees ::
    "(u8 list \<Rightarrow> u8 list) \<Rightarrow> remote_map \<Rightarrow> current_map \<Rightarrow> WorkspacePath \<Rightarrow> DirectorySubtreeSummary option" where
  "current_directory_subtrees blake3 remote current path =
     (if list_ex (\<lambda>(p, entry). p = path \<and> de_kind entry = Directory) (scan_additions remote current)
      then Some (current_directory_subtree_identity blake3 path current) else None)"

definition rename_candidate ::
    "(u8 list \<Rightarrow> u8 list) \<Rightarrow> remote_map \<Rightarrow> current_map \<Rightarrow> WorkspacePath \<Rightarrow> WorkspacePath \<times> LocalDesiredEntry \<Rightarrow> bool" where
  "rename_candidate blake3 remote current old_path addition =
     (case (bt_get remote old_path, addition) of
        (None, _) \<Rightarrow> False
      | (Some old_state, new_path, entry) \<Rightarrow>
          same_rename_identity old_state entry \<and>
          (ps_kind old_state \<noteq> Directory \<or>
           remote_directory_subtrees blake3 remote current old_path = current_directory_subtrees blake3 remote current new_path \<and>
           directory_subtrees_exact_match old_path new_path remote current))"

definition rename_candidates ::
    "(u8 list \<Rightarrow> u8 list) \<Rightarrow> remote_map \<Rightarrow> current_map \<Rightarrow> WorkspacePath \<Rightarrow> nat list" where
  "rename_candidates blake3 remote current old_path =
     (let additions = scan_additions remote current
      in filter (\<lambda>i. rename_candidate blake3 remote current old_path (additions ! i)) [0..<length additions])"

definition reverse_candidate_count ::
    "(u8 list \<Rightarrow> u8 list) \<Rightarrow> remote_map \<Rightarrow> current_map \<Rightarrow> nat \<Rightarrow> nat" where
  "reverse_candidate_count blake3 remote current add_index =
     count_list (concat (map (rename_candidates blake3 remote current) (scan_deletions remote current))) add_index"

text \<open>
  The pairing of deletions with additions: a deletion with one candidate that is a candidate for nothing else,
  unless it lies in a directory that was renamed. The state has the indices of the paired additions and deletions
  and the renames found.
\<close>

record rename_pairs_state =
  rn_paired_additions :: "nat list"
  rn_paired_deletions :: "nat list"
  rn_renames :: "(WorkspacePath \<times> WorkspacePath) list"
  rn_directory_renames :: "(WorkspacePath \<times> WorkspacePath) list"

definition pair_deletion ::
    "(u8 list \<Rightarrow> u8 list) \<Rightarrow> remote_map \<Rightarrow> current_map \<Rightarrow> nat \<times> WorkspacePath \<Rightarrow> rename_pairs_state \<Rightarrow> rename_pairs_state" where
  "pair_deletion blake3 remote current deletion s =
     (case deletion of (delete_index, old_path) \<Rightarrow>
      case (bt_get remote old_path, rename_candidates blake3 remote current old_path) of
        (Some old_state, [add_index]) \<Rightarrow>
          if reverse_candidate_count blake3 remote current add_index \<noteq> 1 \<or>
             list_ex (\<lambda>(from, _). path_is_descendant old_path from) (rn_directory_renames s)
          then s
          else
            (case scan_additions remote current ! add_index of (new_path, entry) \<Rightarrow>
              \<lparr>rn_paired_additions = add_index # rn_paired_additions s,
               rn_paired_deletions = delete_index # rn_paired_deletions s,
               rn_renames = rn_renames s @ [(old_path, new_path)],
               rn_directory_renames = rn_directory_renames s @
                 (if ps_kind old_state = Directory \<and> de_kind entry = Directory then [(old_path, new_path)] else [])\<rparr>)
      | _ \<Rightarrow> s)"

definition pair_renames :: "(u8 list \<Rightarrow> u8 list) \<Rightarrow> remote_map \<Rightarrow> current_map \<Rightarrow> rename_pairs_state" where
  "pair_renames blake3 remote current =
     fold (pair_deletion blake3 remote current) (List.enumerate 0 (scan_deletions remote current))
       \<lparr>rn_paired_additions = [], rn_paired_deletions = [], rn_renames = [], rn_directory_renames = []\<rparr>"

definition scan_diff :: "(u8 list \<Rightarrow> u8 list) \<Rightarrow> remote_map \<Rightarrow> current_map \<Rightarrow> FsChange list" where
  "scan_diff blake3 remote current =
     (let s = pair_renames blake3 remote current;
          in_renamed = (\<lambda>path. list_ex (\<lambda>(from, _). path_is_descendant path from) (rn_directory_renames s));
          in_target = (\<lambda>path. list_ex (\<lambda>(_, to). path_is_descendant path to) (rn_directory_renames s))
      in map (\<lambda>(_, path, _). Create path)
           (filter (\<lambda>(i, path, _). i \<notin> set (rn_paired_additions s) \<and> \<not> in_target path)
             (List.enumerate 0 (scan_additions remote current))) @
         map (\<lambda>(path, _). Update path) (scan_updates remote current) @
         map (\<lambda>(_, path). FsChange.Delete path)
           (filter (\<lambda>(i, path). i \<notin> set (rn_paired_deletions s) \<and> \<not> in_renamed path)
             (List.enumerate 0 (scan_deletions remote current))) @
         map (\<lambda>(from, to). FsChange.Rename from to)
           (sort (filter (\<lambda>(from, _). \<not> in_renamed from) (rn_renames s))))"

fun insert_all :: "(WorkspacePath \<times> LocalDesiredEntry) list \<Rightarrow> current_map \<Rightarrow> current_map" where
  "insert_all [] m = m"
| "insert_all ((path, entry) # entries) m = insert_all entries (bt_insert path entry m)"

definition scan_changes :: "system_lib \<Rightarrow> FsChange list engine" where
  "scan_changes lib =
     then_do ensure_open (\<lambda>_.
     then_do (scan_entries lib) (\<lambda>entries.
     then_do (collect_do (\<lambda>observed. then_do (desired_entry_from_observed lib observed) (\<lambda>entry. give (oe_path observed, entry)))
       entries) (\<lambda>current.
     then_do (read_state (path_states (sy_store lib))) (\<lambda>records.
     give (scan_diff (lib_blake3 (sy_store lib)) (map (\<lambda>r. (pt_path r, pt_state r)) records) (insert_all current []))))))"

section \<open>Local changes\<close>

definition path_is_synced :: "system_lib \<Rightarrow> WorkspacePath \<Rightarrow> bool engine" where
  "path_is_synced lib path =
     then_do (inspect lib path) (\<lambda>observed.
     let is_directory = (case observed of None \<Rightarrow> False | Some entry \<Rightarrow> oe_kind entry = Directory)
     in give (rd_included (decide (sy_rules lib) path is_directory)))"

fun admit_local_change :: "system_lib \<Rightarrow> FsChange \<Rightarrow> FsChange option engine" where
  "admit_local_change lib (Create path) =
     then_do (path_is_synced lib path) (\<lambda>synced. give (if synced then Some (Create path) else None))"
| "admit_local_change lib (Update path) =
     then_do (path_is_synced lib path) (\<lambda>synced. give (if synced then Some (Update path) else None))"
| "admit_local_change lib (FsChange.Delete path) =
     then_do (path_is_synced lib path) (\<lambda>synced. give (if synced then Some (FsChange.Delete path) else None))"
| "admit_local_change lib (FsChange.Rename from to) =
     then_do (path_is_synced lib from) (\<lambda>from_synced.
     then_do (path_is_synced lib to) (\<lambda>to_synced.
     give (if from_synced then Some (if to_synced then FsChange.Rename from to else FsChange.Delete from)
           else if to_synced then Some (Create to) else None)))"
| "admit_local_change lib RescanRequired = give (Some RescanRequired)"

text \<open>A request for a rescan is expanded before this point; the code panics on it.\<close>

fun desired_from_change :: "system_lib \<Rightarrow> FsChange \<Rightarrow> DesiredOperation engine" where
  "desired_from_change lib (Create path) =
     then_do (inspect lib path) (\<lambda>observed.
     then_do (lift_result (ok_or observed (Filesystem (Io ''observe local change'')))) (\<lambda>observed.
     then_do (desired_entry_from_observed lib observed) (\<lambda>entry. give (Upsert entry))))"
| "desired_from_change lib (Update path) =
     then_do (inspect lib path) (\<lambda>observed.
     then_do (lift_result (ok_or observed (Filesystem (Io ''observe local change'')))) (\<lambda>observed.
     then_do (desired_entry_from_observed lib observed) (\<lambda>entry. give (Upsert entry))))"
| "desired_from_change lib (FsChange.Delete path) =
     then_do (cache_do ''invalidate hash cache'' (cache_invalidate path)) (\<lambda>_. give (DesiredDelete path))"
| "desired_from_change lib (FsChange.Rename from to) =
     then_do (cache_do ''invalidate hash cache'' (cache_invalidate from)) (\<lambda>_.
     then_do (inspect lib to) (\<lambda>observed.
     then_do (lift_result (ok_or observed (Filesystem (Io ''observe local rename target'')))) (\<lambda>observed.
     then_do (desired_entry_from_observed lib observed) (\<lambda>entry.
     give (DesiredRename from to (de_kind entry) (de_content_hash entry) (de_metadata entry))))))"
| "desired_from_change lib RescanRequired = lift_result (Err (ProtocolInvariant ''panic''))"

definition record_change :: "system_lib \<Rightarrow> FsChange \<Rightarrow> unit engine" where
  "record_change lib change =
     then_do (admit_local_change lib change) (\<lambda>admitted.
     case admitted of
       None \<Rightarrow> give ()
     | Some change \<Rightarrow>
         then_do (desired_from_change lib change) (\<lambda>desired.
         then_do (read_state stream_state) (\<lambda>active.
         if active \<noteq> None then
           then_do (read_state (path_state_map (sy_engine lib))) (\<lambda>states.
           if desired_matches_remote desired states then give () else defer_desired (sy_engine lib) desired)
         else record_desired (sy_engine lib) desired)))"

text \<open>
  The queue of changes: a rescan appends its changes at the end, and a scan never asks for another rescan, so the
  changes of the scans are recorded after the others, scan by scan.
\<close>

fun split_rescans :: "system_lib \<Rightarrow> FsChange list \<Rightarrow> FsChange list \<Rightarrow> unit engine" where
  "split_rescans lib [] found = each_do (record_change lib) found"
| "split_rescans lib (change # changes) found =
     (if change = RescanRequired
      then then_do (scan_changes lib) (\<lambda>scanned. split_rescans lib changes (found @ scanned))
      else then_do (record_change lib change) (\<lambda>_. split_rescans lib changes found))"

definition record_local_changes :: "system_lib \<Rightarrow> FsChange list \<Rightarrow> unit engine" where
  "record_local_changes lib changes = then_do ensure_open (\<lambda>_. split_rescans lib changes [])"

definition scan_and_record :: "system_lib \<Rightarrow> unit engine" where
  "scan_and_record lib =
     then_do ensure_open (\<lambda>_.
     then_do (scan_changes lib) (\<lambda>changes. record_local_changes lib changes))"

end
