(* ===== verification/Engine_Handlers.thy ===== *)
theory Engine_Handlers
  imports Engine_Work Engine_Scan
begin

text \<open>
  The handlers of \<open>SyncEngine\<close> (\<open>fns-sync-core/src/engine.rs\<close>) for the messages of a stream and of the live
  connection, and \<open>pending_commands\<close>, which tells the transport what to send next.
\<close>

section \<open>Live messages\<close>

fun same_discriminant :: "PendingLiveMessage \<Rightarrow> PendingLiveMessage \<Rightarrow> bool" where
  "same_discriminant (LiveEvent _) (LiveEvent _) = True"
| "same_discriminant (LiveResolved _) (LiveResolved _) = True"
| "same_discriminant _ _ = False"

definition resume_all :: "system_lib \<Rightarrow> bool \<Rightarrow> SyncCommand list engine" where
  "resume_all lib reissue en = resume_inbound_work lib (iw_max_items_per_call (en_inbound_work_limits en)) reissue en"

definition push_live :: "system_lib \<Rightarrow> PendingLiveMessage \<Rightarrow> u8 list \<Rightarrow> unit engine" where
  "push_live lib message body en =
     (let limits = en_inbound_work_limits en;
          next_bytes = en_pending_live_serialized_bytes en + length body in
      if next_bytes \<ge> 2 ^ 64 \<or> length (en_pending_live_events en) \<ge> iw_max_pending_live_items limits \<or>
         next_bytes > iw_max_pending_live_serialized_bytes limits
      then (Err (ResourceLimit ''pending_live_events''), en)
      else (Ok (), en\<lparr>en_pending_live_events := en_pending_live_events en @
              [\<lparr>pl_message = message, pl_body_digest = body_digest (sy_store lib) body, pl_serialized_bytes = length body\<rparr>],
             en_pending_live_serialized_bytes := next_bytes\<rparr>))"

definition enqueue_live_message :: "system_lib \<Rightarrow> PendingLiveMessage \<Rightarrow> u8 list \<Rightarrow> SyncCommand list engine" where
  "enqueue_live_message lib message body en =
     (let revision = live_revision_of message; waiting = en_pending_live_events en in
      case find (\<lambda>item. live_revision_of (pl_message item) = revision) waiting of
        Some item \<Rightarrow>
          if pl_body_digest item \<noteq> body_digest (sy_store lib) body \<or> \<not> same_discriminant (pl_message item) message
          then (Err OperationChanged, en)
          else resume_all lib True en
      | None \<Rightarrow>
          if waiting \<noteq> [] \<and> revision < live_revision_of (pl_message (last waiting))
          then (Err (StreamInvariant ''live_revision_order''), en)
          else then_do (push_live lib message body) (\<lambda>_. resume_all lib True) en)"

definition pending_live_revision_precedes_or_matches :: "WorkspaceRevision \<Rightarrow> SyncEngine \<Rightarrow> bool" where
  "pending_live_revision_precedes_or_matches revision en =
     (case en_pending_live_events en of [] \<Rightarrow> False | item # _ \<Rightarrow> live_revision_of (pl_message item) \<le> revision)"

definition check_workspace :: "WorkspaceId \<Rightarrow> string \<Rightarrow> unit engine" where
  "check_workspace ws label en = require (ws = st_workspace_id (en_state en)) (ProtocolInvariant label) en"

definition live_event :: "system_lib \<Rightarrow> WorkspaceEventMessage \<Rightarrow> SyncCommand list engine" where
  "live_event lib message =
     then_do ensure_open (\<lambda>_.
     then_do (require (is_ok (event_validate message)) (ProtocolInvariant ''invalid_workspace_event'')) (\<lambda>_.
     then_do (check_workspace (ev_workspace_id message) ''event_workspace_mismatch'') (\<lambda>_.
     then_do (read_state (event_receipt_match (sy_engine lib) message)) (\<lambda>receipt_match en.
     (if receipt_match = ReceiptExact \<and> \<not> pending_live_revision_precedes_or_matches (ev_revision message) en then
        then_do (mark_live_event_applied (ev_revision message)) (\<lambda>_. give [])
      else
        then_do
          (if receipt_match = ReceiptMissing \<and> ev_origin_client_id message = st_client_id (en_state en) then
             then_do (read_state (outbox_entry (sy_store lib) (ev_operation_id message))) (\<lambda>record.
             require (record \<noteq> None) (ProtocolInvariant ''event_operation_not_outstanding''))
           else give ()) (\<lambda>_.
        then_do (lift_result (canonical_json (lib_event (sy_store lib)) message)) (\<lambda>body.
        enqueue_live_message lib (LiveEvent message) body))) en))))"

section \<open>Messages of a stream\<close>

text \<open>After an item was stored: the loop runs, and content that was missing is asked for.\<close>

definition resume_and_download ::
    "system_lib \<Rightarrow> OperationId option \<Rightarrow> StreamItemStatus \<Rightarrow> WorkspacePathState \<Rightarrow> SyncCommand list engine" where
  "resume_and_download lib op status state =
     then_do (resume_all lib False) (\<lambda>commands en.
     (case required_content state of
        Some content \<Rightarrow>
          if status = WaitingBlob
          then ask_download (iw_max_items_per_call (en_inbound_work_limits en)) True op content commands en
          else (Ok commands, en)
      | None \<Rightarrow> (Ok commands, en)))"

definition snapshot_entry :: "system_lib \<Rightarrow> WorkspaceSnapshotEntryMessage \<Rightarrow> SyncCommand list engine" where
  "snapshot_entry lib message =
     then_do ensure_open (\<lambda>_.
     then_do (require (is_ok (snapshot_entry_validate message)) (StreamInvariant ''invalid_stream_entry'')) (\<lambda>_.
     then_do (check_workspace (se_workspace_id message) ''stream_workspace_mismatch'') (\<lambda>_.
     then_do (status_for_state lib (se_entry message)) (\<lambda>status.
     then_do (write_state (put_stream_entry (sy_store lib) message status)) (\<lambda>staged.
     if settled (sr_status staged) then give [] else resume_and_download lib None status (se_entry message))))))"

definition workspace_event :: "system_lib \<Rightarrow> WorkspaceEventMessage \<Rightarrow> SyncCommand list engine" where
  "workspace_event lib message =
     then_do ensure_open (\<lambda>_.
     then_do (require (is_ok (event_validate message)) (ProtocolInvariant ''invalid_workspace_event'')) (\<lambda>_.
     then_do (check_workspace (ev_workspace_id message) ''event_workspace_mismatch'') (\<lambda>_.
     then_do (lift_result (canonical_json (lib_event (sy_store lib)) message)) (\<lambda>body.
     then_do (read_state (stream_revision_item (sy_store lib) (ev_stream_id message) (ev_revision message))) (\<lambda>existing.
     then_do (lift_result (case existing of
         None \<Rightarrow> Ok False
       | Some existing \<Rightarrow>
           fail_if (si_event_index existing \<noteq> Some (ev_index message)) (StreamInvariant ''stream_revision_order'')
          (fail_if (si_body_digest existing \<noteq> body_digest (sy_store lib) body) OperationChanged
          (Ok (settled (si_status existing)))))) (\<lambda>finished.
     if finished then give []
     else
       then_do (read_state (event_receipt_match (sy_engine lib) message)) (\<lambda>receipt_match.
       if receipt_match = ReceiptExact then
         then_do (write_state (put_stream_event (sy_store lib) message Applied)) (\<lambda>_. resume_all lib False)
       else
         then_do (event_is_diverged lib message) (\<lambda>diverged.
         then_do (if diverged then give Ready else status_for_state lib (ev_path_state message)) (\<lambda>status.
         then_do (write_state (put_stream_event (sy_store lib) message status)) (\<lambda>_.
         resume_and_download lib (Some (ev_operation_id message)) status (ev_path_state message)))))))))))"

definition replace_conflict ::
    "system_lib \<Rightarrow> WorkspaceConflictCreatedMessage \<Rightarrow> u8 list \<Rightarrow> ConflictRecord \<Rightarrow> SyncCommand list engine" where
  "replace_conflict lib message created_json existing =
     then_do (lift_result (decode_conflict_created (sy_engine lib) existing)) (\<lambda>existing_created.
     then_do (read_state (\<lambda>st. decode_pending_resolution lib existing existing_created (st_client_id st))) (\<lambda>prior.
     then_do (conflict_generation_replacement_plan lib existing_created (Some message)) (\<lambda>plan.
     then_do (read_state (\<lambda>st. case prior of None \<Rightarrow> Ok None | Some r \<Rightarrow> outbox_entry (sy_store lib) (rq_operation_id r) st)) (\<lambda>waiting.
     then_do (require (case waiting of None \<Rightarrow> True | Some record \<Rightarrow> \<not> body_changed record existing) OperationChanged) (\<lambda>_.
     then_do (transact (\<lambda>ws client. tx_seq
       [tx_opt (\<lambda>r. remove_outbox_tx client (rq_operation_id r)) prior,
        tx_opt (apply_conflict_generation_replacement lib ws client) plan,
        put_conflict_tx (sy_store lib) ws
          \<lparr>cf_conflict_id = cc_conflict_id message, cf_workspace_id = cc_workspace_id message,
           cf_conflict_revision = cc_conflict_revision message, cf_created_json = created_json, cf_status = Manual,
           cf_candidate_hash = None, cf_resolution_json = None, cf_resolution_digest = None\<rparr>])) (\<lambda>_.
     give []))))))"

definition conflict_created :: "system_lib \<Rightarrow> WorkspaceConflictCreatedMessage \<Rightarrow> SyncCommand list engine" where
  "conflict_created lib message =
     then_do ensure_open (\<lambda>_.
     then_do (require (is_ok (conflict_created_validate message)) (ProtocolInvariant ''invalid_conflict'')) (\<lambda>_.
     then_do (check_workspace (cc_workspace_id message) ''stream_workspace_mismatch'') (\<lambda>_.
     then_do (read_state stream_state) (\<lambda>active.
     case active of
       Some active \<Rightarrow>
         then_do (write_state (put_stream_conflict (sy_store lib) message StreamConflictStatus.Received (ss_stream_id active))) (\<lambda>_.
         resume_all lib False)
     | None \<Rightarrow>
         then_do (lift_result (canonical_json (lib_created (sy_store lib)) message)) (\<lambda>created_json.
         then_do (read_state (conflict (sy_store lib) (cc_conflict_id message))) (\<lambda>found.
         case found of
           Some existing \<Rightarrow>
             if cf_conflict_revision existing = cc_conflict_revision message then
               then_do (require (cf_created_json existing = created_json) OperationChanged) (\<lambda>_. give [])
             else replace_conflict lib message created_json existing
         | None \<Rightarrow>
             then_do (write_state (record_conflict (sy_store lib) message Manual)) (\<lambda>_. give [])))))))"

definition live_conflict_resolved :: "system_lib \<Rightarrow> WorkspaceConflictResolvedMessage \<Rightarrow> SyncCommand list engine" where
  "live_conflict_resolved lib message =
     then_do (lift_result (resolution_digest lib message)) (\<lambda>d.
     then_do (read_state (inbound_conflict_resolution_receipt_match lib message d)) (\<lambda>receipt_match en.
     (if receipt_match = ReceiptExact \<and> \<not> pending_live_revision_precedes_or_matches (cr_revision message) en then
        then_do (settle_exact_conflict_resolution_replay lib message ResolutionLive) (\<lambda>_. give [])
      else
        then_do (if receipt_match = ReceiptMissing
                 then then_do (read_state cursor) (\<lambda>c. give (cr_revision message \<le> wc_last_applied_revision c))
                 else give False) (\<lambda>late.
        if late then
          then_do (read_state (conflict_cleanup_operations lib message)) (\<lambda>cleanup.
          then_do (require (cu_preserve_newer_generation cleanup) (StreamInvariant ''live_revision_regression'')) (\<lambda>_.
          then_do (commit_superseded_live_conflict_resolution lib message d None cleanup) (\<lambda>_. give [])))
        else
          then_do (lift_result (canonical_json (lib_resolved (sy_store lib)) message)) (\<lambda>body.
          enqueue_live_message lib (LiveResolved message) body))) en))"

definition stream_conflict_resolved ::
    "system_lib \<Rightarrow> WorkspaceConflictResolvedMessage \<Rightarrow> StreamId \<Rightarrow> SyncCommand list engine" where
  "stream_conflict_resolved lib message stream_id =
     then_do (read_state (stream_revision_item (sy_store lib) stream_id (cr_revision message))) (\<lambda>existing.
     then_do (lift_result (resolution_digest lib message)) (\<lambda>d.
     then_do (lift_result (case existing of
         None \<Rightarrow> Ok None
       | Some existing \<Rightarrow> fail_if (si_body_digest existing \<noteq> d) OperationChanged (Ok (Some (si_status existing))))) (\<lambda>stored.
     if stored = Some Applied then
       then_do (read_state (inbound_conflict_resolution_receipt_match lib message d)) (\<lambda>receipt_match.
       if receipt_match = ReceiptExact
       then then_do (settle_exact_conflict_resolution_replay lib message ResolutionStream) (\<lambda>_. give [])
       else give [])
     else if stored = Some Preserved then give []
     else
       then_do (read_state (inbound_conflict_resolution_receipt_match lib message d)) (\<lambda>receipt_match.
       if receipt_match = ReceiptExact then
         then_do (settle_exact_conflict_resolution_replay lib message ResolutionStream) (\<lambda>_. resume_all lib False)
       else
         then_do (status_for_state lib (cr_path_state message)) (\<lambda>status.
         then_do (write_state (put_stream_conflict_resolved (sy_store lib) message None status)) (\<lambda>_.
         resume_and_download lib (Some (cr_operation_id message)) status (cr_path_state message)))))))"

definition conflict_resolved :: "system_lib \<Rightarrow> WorkspaceConflictResolvedMessage \<Rightarrow> SyncCommand list engine" where
  "conflict_resolved lib message =
     then_do ensure_open (\<lambda>_.
     then_do (require (is_ok (conflict_resolved_validate message)) (ProtocolInvariant ''invalid_stream_conflict_resolution'')) (\<lambda>_.
     then_do (check_workspace (cr_workspace_id message) ''stream_workspace_mismatch'') (\<lambda>_.
     then_do (read_state stream_state) (\<lambda>active.
     case active of
       None \<Rightarrow> live_conflict_resolved lib message
     | Some active \<Rightarrow> stream_conflict_resolved lib message (ss_stream_id active)))))"

definition snapshot_end :: "system_lib \<Rightarrow> WorkspaceSnapshotEndMessage \<Rightarrow> SyncCommand list engine" where
  "snapshot_end lib message =
     then_do ensure_open (\<lambda>_.
     then_do (read_state stream_state) (\<lambda>active.
     then_do (lift_result (ok_or active (StreamInvariant ''no_active_stream''))) (\<lambda>active.
     let begn = \<lparr>sb_workspace_id = ss_workspace_id active, sb_stream_id = ss_stream_id active, sb_mode = ss_mode active,
           sb_from_revision = ss_from_revision active, sb_final_revision = ss_final_revision active,
           sb_entry_count = ss_expected_entry_count active, sb_event_count = ss_expected_event_count active,
           sb_conflict_count = ss_expected_conflict_count active\<rparr> in
     then_do (require (is_ok (snapshot_end_validate_against message begn)) (StreamInvariant ''end_mismatch'')) (\<lambda>_.
     then_do (write_state (set_stream_end_received True)) (\<lambda>_.
     resume_all lib False)))))"

definition blob_available :: "system_lib \<Rightarrow> WorkspaceContentHash \<Rightarrow> u64 \<Rightarrow> SyncCommand list engine" where
  "blob_available lib hash byte_size =
     then_do ensure_open (\<lambda>_.
     then_do (ask_fs (\<lambda>n. sy_import lib n hash byte_size)) (\<lambda>_. resume_all lib False))"

section \<open>What to send\<close>

fun replay_commands :: "system_lib \<Rightarrow> OutboxRecord list \<Rightarrow> (SyncCommand list, SyncError) result" where
  "replay_commands lib [] = Ok []"
| "replay_commands lib (record # records) =
     and_then (decode_body lib record) (\<lambda>body.
     and_then (replay_commands lib records) (\<lambda>rest.
     Ok ((case body of BodyMutation m \<Rightarrow> CmdMutation m | BodyResolution r \<Rightarrow> ResolveConflict r) # rest)))"

text \<open>The uploads of the waiting operations, up to the limit.\<close>

fun upload_commands :: "system_lib \<Rightarrow> nat \<Rightarrow> OutboxRecord list \<Rightarrow> (SyncCommand list, SyncError) result" where
  "upload_commands lib n [] = Ok []"
| "upload_commands lib n (record # records) =
     (if n = 0 then Ok []
      else if ob_stage record \<noteq> AwaitingBlob then upload_commands lib n records
      else
        and_then (decode_body lib record) (\<lambda>body.
        let (ws, op, content_hash, byte_size) = (case body of
              BodyMutation m \<Rightarrow> (wm_workspace_id m, wm_operation_id m, wm_content_hash m, md_size (wm_metadata m))
            | BodyResolution r \<Rightarrow> (rq_workspace_id r, rq_operation_id r, rq_content_hash r, md_size (rq_metadata r)))
        in
        and_then (ok_or (into_option content_hash) (ProtocolInvariant ''blob_without_content_hash'')) (\<lambda>hash.
        and_then (upload_commands lib (n - 1) records) (\<lambda>rest.
        Ok (UploadBlob ws op hash byte_size # rest)))))"

text \<open>The acknowledgement that is due: the one of a finished stream or live event, or else of an applied prefix.\<close>

definition due_ack :: "WorkspaceCursor \<Rightarrow> WorkspaceRevision option" where
  "due_ack c = (if wc_pending_ack_revision c \<noteq> None then wc_pending_ack_revision c else wc_pending_segment_ack_revision c)"

definition ack_commands :: "SqliteState \<Rightarrow> (SyncCommand list, SyncError) result" where
  "ack_commands st =
     and_then (cursor st) (\<lambda>c.
     Ok (case due_ack c of
           None \<Rightarrow> []
         | Some revision \<Rightarrow> [SendAck \<lparr>ack_workspace_id = st_workspace_id st, ack_client_id = st_client_id st,
             ack_revision = revision\<rparr>]))"

definition take_up_intents :: "system_lib \<Rightarrow> SyncCommand list \<Rightarrow> unit engine" where
  "take_up_intents lib commands =
     then_do (read_state stream_state) (\<lambda>active en.
     (if commands = [] \<and> active = None \<and> en_pending_live_events en = [] \<and> \<not> has_apply_journals (en_state en)
      then materialize_local_intents (sy_engine lib) en else (Ok (), en)))"

definition pending_commands :: "system_lib \<Rightarrow> nat \<Rightarrow> SyncCommand list engine" where
  "pending_commands lib limit =
     then_do ensure_open (\<lambda>_.
     if limit = 0 then give []
     else
       then_do (resume_inbound_work lib limit True) (\<lambda>commands.
       if length commands = limit then give commands
       else
         then_do (if commands = [] then take_up_intents lib commands else give ()) (\<lambda>_.
         then_do (write_state (pending_outbox_replay (sy_store lib) (limit - length commands))) (\<lambda>records.
         then_do (lift_result (replay_commands lib records)) (\<lambda>replayed.
         let commands = commands @ replayed in
         then_do (if length commands < limit then
             then_do (read_state (outbox (sy_store lib))) (\<lambda>waiting.
             lift_result (upload_commands lib (limit - length commands) waiting))
           else give []) (\<lambda>uploads.
         let commands = commands @ uploads in
         if length commands < limit
         then then_do (read_state ack_commands) (\<lambda>acks. give (commands @ acks))
         else give commands))))))"

definition close_engine :: "unit engine" where
  "close_engine en = (Ok (), en\<lparr>en_closed := True\<rparr>)"

end
