(* ===== verification/Engine_Frame.thy ===== *)
theory Engine_Frame
  imports Engine_Handlers Sync_Durable
begin

text \<open>
  What the operations of the engine may do to the cursor of the store. A transaction is \<open>tx_still\<close> when it does not
  touch the cursor. An operation of the engine is \<open>inner\<close> when, from a sound cursor, it leaves a sound one that has
  not moved back, whether it succeeds or fails, and leaves the queue of live items alone.
\<close>

named_theorems tx_stills \<open>transactions that leave the cursor alone\<close>
named_theorems inners \<open>operations that keep the cursor sound and the live queue as it is\<close>

section \<open>Transactions\<close>

definition tx_still :: "'a tx \<Rightarrow> bool" where
  "tx_still f \<longleftrightarrow> (\<forall>db v db'. f db = Ok (v, db') \<longrightarrow> db_workspace_cursor db' = db_workspace_cursor db)"

lemma tx_stillI: "(\<And>db v db'. f db = Ok (v, db') \<Longrightarrow> db_workspace_cursor db' = db_workspace_cursor db) \<Longrightarrow> tx_still f"
  by (simp add: tx_still_def)

lemma tx_still_then [tx_stills]: "tx_still f \<Longrightarrow> (\<And>v. tx_still (g v)) \<Longrightarrow> tx_still (tx_then f g)"
  by (fastforce simp: tx_still_def tx_then_Ok_iff)

lemma tx_still_done [tx_stills]: "tx_still tx_done"
  by (auto simp: tx_still_def tx_done_def)

lemma tx_still_each [tx_stills]: "(\<And>x. tx_still (f x)) \<Longrightarrow> tx_still (tx_each f xs)"
  by (induction xs) (auto intro: tx_stills)

lemma tx_still_opt [tx_stills]: "(\<And>x. tx_still (f x)) \<Longrightarrow> tx_still (tx_opt f x)"
  by (auto simp: tx_opt_def intro: tx_stills split: option.split)

lemma tx_still_unit [tx_stills]: "tx_still f \<Longrightarrow> tx_still (tx_unit f)"
  by (auto simp: tx_unit_def intro: tx_stills)

lemma tx_still_when [tx_stills]: "tx_still f \<Longrightarrow> tx_still (tx_when c f)"
  by (auto simp: tx_when_def intro: tx_stills)

lemma tx_still_seq [tx_stills]: "tx_still (tx_seq [])" "tx_still f \<Longrightarrow> tx_still (tx_seq fs) \<Longrightarrow> tx_still (tx_seq (f # fs))"
  by (auto intro: tx_stills)

lemma tx_still_pair [tx_stills]: "(\<And>a b. tx_still (f a b)) \<Longrightarrow> tx_still (case x of (a, b) \<Rightarrow> f a b)"
  by (cases x) simp

lemma tx_still_option [tx_stills]:
  "tx_still f \<Longrightarrow> (\<And>v. tx_still (g v)) \<Longrightarrow> tx_still (case x of None \<Rightarrow> f | Some v \<Rightarrow> g v)"
  by (cases x) simp_all

lemma tx_still_if [tx_stills]: "tx_still f \<Longrightarrow> tx_still g \<Longrightarrow> tx_still (if c then f else g)"
  by simp

lemma tx_still_and_then [tx_stills]:
  "(\<And>v. tx_still (g v)) \<Longrightarrow> tx_still (\<lambda>db. and_then r (\<lambda>v. g v db))"
  by (cases r) (simp_all add: tx_still_def)

lemma tx_still_fail_if [tx_stills]: "tx_still g \<Longrightarrow> tx_still (\<lambda>db. fail_if c e (g db))"
  by (simp add: tx_still_def fail_if_def)

text \<open>The same, read from the body of a transaction.\<close>

definition leaves :: "database \<Rightarrow> ('a \<times> database, SyncError) result \<Rightarrow> bool" where
  "leaves db r \<longleftrightarrow> (\<forall>v db'. r = Ok (v, db') \<longrightarrow> db_workspace_cursor db' = db_workspace_cursor db)"

lemma tx_still_leaves: "tx_still f \<longleftrightarrow> (\<forall>db. leaves db (f db))"
  by (simp add: tx_still_def leaves_def)

lemma leaves_Ok [simp]: "leaves db (Ok (v, db')) \<longleftrightarrow> db_workspace_cursor db' = db_workspace_cursor db"
  by (simp add: leaves_def)

lemma leaves_Err [simp]: "leaves db (Err e)"
  by (simp add: leaves_def)

lemma leaves_and_then [intro!]: "(\<And>v. r = Ok v \<Longrightarrow> leaves db (g v)) \<Longrightarrow> leaves db (and_then r g)"
  by (cases r) auto

lemma leaves_fail_if [intro!]: "leaves db k \<Longrightarrow> leaves db (fail_if c e k)"
  by (simp add: fail_if_def)

lemma put_path_state_still [tx_stills]: "tx_still (put_path_state_tx lib ws state)"
  by (rule tx_stillI) (auto simp: put_path_state_tx_def result_simps)

lemma remove_path_state_still [tx_stills]: "tx_still (remove_path_state_tx ws path)"
  by (rule tx_stillI) (auto simp: remove_path_state_tx_def)

lemma enqueue_outbox_still: "enqueue_outbox_tx lib client op ws body t db = Ok (v, db') \<Longrightarrow>
    db_workspace_cursor db' = db_workspace_cursor db"
  by (auto simp: enqueue_outbox_tx_def result_simps Let_def split: option.splits if_splits)

lemma enqueue_mutation_still [tx_stills]: "tx_still (enqueue_mutation_at lib ws client m t)"
  by (rule tx_stillI) (auto simp: enqueue_mutation_at_def result_simps dest: enqueue_outbox_still)

lemma enqueue_resolution_still [tx_stills]: "tx_still (enqueue_conflict_resolution_at lib ws client q t)"
  by (rule tx_stillI) (auto simp: enqueue_conflict_resolution_at_def result_simps dest: enqueue_outbox_still)

lemma enqueue_tx_still [tx_stills]: "tx_still (enqueue_tx lib st m t)"
  by (auto simp: enqueue_tx_def intro: tx_stills)

lemma remove_outbox_still [tx_stills]: "tx_still (remove_outbox_tx client op)"
  by (rule tx_stillI) (auto simp: remove_outbox_tx_def)

lemma set_outbox_stage_still [tx_stills]: "tx_still (set_outbox_stage_tx lib client op stage)"
  by (rule tx_stillI) (auto simp: set_outbox_stage_tx_def result_simps Let_def split: option.splits if_splits)

lemma replay_awaiting_still [tx_stills]: "tx_still (replay_awaiting_blob_tx client)"
  by (rule tx_stillI) (auto simp: replay_awaiting_blob_tx_def Let_def)

lemma outbox_replay_still [tx_stills]: "tx_still (pending_outbox_replay_tx lib client n)"
  by (rule tx_stillI) (auto simp: pending_outbox_replay_tx_def result_simps Let_def split: if_splits)

lemma put_local_intent_still [tx_stills]: "tx_still (put_local_intent_tx ws path body t)"
  by (rule tx_stillI) (auto simp: put_local_intent_tx_def)

lemma put_local_intent_at_still [tx_stills]: "tx_still (put_local_intent_at lib ws body t path)"
  unfolding put_local_intent_at_def by (intro tx_stills)

lemma remove_local_intent_still [tx_stills]: "tx_still (remove_local_intent_tx ws path)"
  by (rule tx_stillI) (auto simp: remove_local_intent_tx_def)

lemma put_stream_entry_still [tx_stills]: "tx_still (put_stream_entry_tx lib ws entry status)"
  by (rule tx_stillI) (auto simp: put_stream_entry_tx_def result_simps Let_def split: option.splits if_splits)

lemma claim_event_index_cursor:
  "claim_event_index ws kind index active db = Ok db' \<Longrightarrow> db_workspace_cursor db' = db_workspace_cursor db"
  by (cases kind) (auto simp: claim_event_index_def set_next_event_index_def result_simps)

lemma put_item_leaves: "leaves db (put_stream_revision_item_tx lib ws stream revision kind index body d status db)"
  unfolding put_stream_revision_item_tx_def Let_def
  by (auto split: prod.split option.split) (erule claim_event_index_cursor)+

lemma put_item_still: "put_stream_revision_item_tx lib ws stream revision kind index body d status db = Ok (v, db') \<Longrightarrow>
    db_workspace_cursor db' = db_workspace_cursor db"
  using put_item_leaves by (auto simp: leaves_def)

lemma put_stream_event_still [tx_stills]: "tx_still (put_stream_event_tx lib ws event status)"
  by (rule tx_stillI) (auto simp: put_stream_event_tx_def result_simps dest: put_item_still)

lemma put_stream_resolved_still [tx_stills]: "tx_still (put_stream_conflict_resolved_tx lib ws message status)"
  by (rule tx_stillI) (auto simp: put_stream_conflict_resolved_tx_def result_simps dest: put_item_still)

lemma put_stream_conflict_still [tx_stills]: "tx_still (put_stream_conflict_tx lib ws message stream status)"
  by (rule tx_stillI) (auto simp: put_stream_conflict_tx_def result_simps Let_def split: option.splits if_splits)

lemma set_stream_end_still [tx_stills]: "tx_still (set_stream_end_received_tx ws received)"
  by (rule tx_stillI) (auto simp: set_stream_end_received_tx_def result_simps)

lemma clear_stream_still [tx_stills]: "tx_still (clear_stream_tx ws)"
  by (rule tx_stillI) (auto simp: clear_stream_tx_def result_simps)

lemma begin_stream_still [tx_stills]: "tx_still (begin_stream_tx ws begn)"
  by (rule tx_stillI)
    (auto simp: begin_stream_tx_def result_simps Let_def clear_stream_tx_def split: option.splits if_splits)

lemma put_apply_journal_still [tx_stills]: "tx_still (put_apply_journal_tx ws record)"
  by (rule tx_stillI) (auto simp: put_apply_journal_tx_def result_simps update_journal_def split: option.splits)

lemma set_apply_applied_still [tx_stills]: "tx_still (set_apply_filesystem_applied_tx ws apply_id json)"
  by (rule tx_stillI) (auto simp: set_apply_filesystem_applied_tx_def result_simps split: if_splits)

lemma set_apply_stage_still [tx_stills]: "tx_still (set_apply_stage_tx ws apply_id stage)"
  by (rule tx_stillI) (auto simp: set_apply_stage_tx_def result_simps update_journal_def)

lemma remove_apply_journal_still [tx_stills]: "tx_still (remove_apply_journal_tx ws apply_id)"
  by (rule tx_stillI) (auto simp: remove_apply_journal_tx_def)

lemma record_applied_leaves: "leaves db (record_applied_operation_tx lib w db)"
  unfolding record_applied_operation_tx_def Let_def by (auto split: option.split)

lemma record_applied_still: "record_applied_operation_tx lib w db = Ok (v, db') \<Longrightarrow>
    db_workspace_cursor db' = db_workspace_cursor db"
  using record_applied_leaves by (auto simp: leaves_def)

lemma record_mutation_still [tx_stills]: "tx_still (record_mutation_applied_operation lib client op revision d m legacy)"
  by (rule tx_stillI)
    (auto simp: record_mutation_applied_operation_def remove_provisional_mutation_acceptance_tx_def result_simps
      dest: record_applied_still)

lemma record_conflict_applied_still [tx_stills]: "tx_still (record_conflict_applied_operation lib client op revision d legacy)"
  by (rule tx_stillI) (auto simp: record_conflict_applied_operation_def dest: record_applied_still)

lemma record_provisional_still [tx_stills]: "tx_still (record_provisional_mutation_acceptance_tx lib accepted)"
  by (rule tx_stillI)
    (auto simp: record_provisional_mutation_acceptance_tx_def result_simps split: option.splits if_splits)

lemma put_conflict_still [tx_stills]: "tx_still (put_conflict_tx lib ws c)"
  by (rule tx_stillI) (auto simp: put_conflict_tx_def result_simps)

lemma set_conflict_status_still [tx_stills]: "tx_still (set_conflict_status_tx ws conflict_id status)"
  by (rule tx_stillI) (auto simp: set_conflict_status_tx_def)

lemma remove_conflict_still [tx_stills]: "tx_still (remove_conflict_tx ws conflict_id)"
  by (rule tx_stillI) (auto simp: remove_conflict_tx_def)

lemma replace_conflicts_still [tx_stills]: "tx_still (replace_authoritative_conflicts_tx ws stream_id)"
  by (rule tx_stillI) (auto simp: replace_authoritative_conflicts_tx_def result_simps Let_def)

lemma put_states_still [tx_stills]: "tx_still (put_states lib ws states)"
  unfolding put_states_def by (intro tx_stills)

lemma commit_stage_still [tx_stills]: "tx_still (commit_stage ws apply_id)"
  unfolding commit_stage_def by (intro tx_stills)

lemma put_replacements_still [tx_stills]: "tx_still (put_replacements lib ws client replacements)"
  unfolding put_replacements_def by (auto intro!: tx_stills split: prod.split)

lemma record_event_still [tx_stills]: "tx_still (record_event lib event d legacy)"
  unfolding record_event_def by (intro tx_stills)

lemma record_resolution_still [tx_stills]: "tx_still (record_resolution lib message d legacy)"
  unfolding record_resolution_def by (intro tx_stills)

lemma cleanup_still [tx_stills]: "tx_still (cleanup_conflict_resolution ws client conflict_id cleanup)"
  unfolding cleanup_conflict_resolution_def by (auto intro!: tx_stills)

lemma replacement_still [tx_stills]: "tx_still (apply_conflict_generation_replacement lib ws client plan)"
  unfolding apply_conflict_generation_replacement_def by (auto intro!: tx_stills split: prod.split)

lemma settle_tx_still [tx_stills]: "tx_still (settle_tx lib st accepted m d paths next)"
  unfolding settle_tx_def put_states_tx_def by (auto intro!: tx_stills split: prod.split)

section \<open>The cursor\<close>

definition ack_safe :: "WorkspaceCursor \<Rightarrow> bool" where
  "ack_safe c \<longleftrightarrow> wc_last_ack_revision c \<le> wc_last_applied_revision c \<and>
     (\<forall>r. wc_pending_ack_revision c = Some r \<longrightarrow> r \<le> wc_last_applied_revision c) \<and>
     (\<forall>r. wc_pending_segment_ack_revision c = Some r \<longrightarrow> r \<le> wc_last_applied_revision c)"

text \<open>A transaction that, once revision \<open>r\<close> is applied, ends with revision \<open>r'\<close> applied and the cursor sound.\<close>

definition lifts :: "WorkspaceId \<Rightarrow> WorkspaceRevision \<Rightarrow> 'a tx \<Rightarrow> WorkspaceRevision \<Rightarrow> bool" where
  "lifts ws r f r' \<longleftrightarrow> (\<forall>db c v db'. db_workspace_cursor db = [c] \<longrightarrow> wc_workspace_id c = ws \<longrightarrow> ack_safe c \<longrightarrow>
     r \<le> wc_last_applied_revision c \<longrightarrow> f db = Ok (v, db') \<longrightarrow>
     (\<exists>c'. db_workspace_cursor db' = [c'] \<and> cursor_later c c' \<and> ack_safe c' \<and> r' \<le> wc_last_applied_revision c'))"

lemma cursor_later_refl: "cursor_later c c"
  by (simp add: cursor_later_def)

lemma cursor_later_trans: "cursor_later a b \<Longrightarrow> cursor_later b c \<Longrightarrow> cursor_later a c"
  by (auto simp: cursor_later_def)

lemma lifts_still: "tx_still f \<Longrightarrow> lifts ws r f r"
  by (auto simp: lifts_def tx_still_def cursor_later_refl)

lemma liftsI:
  assumes "\<And>db c v db'. db_workspace_cursor db = [c] \<Longrightarrow> wc_workspace_id c = ws \<Longrightarrow> ack_safe c \<Longrightarrow>
     r \<le> wc_last_applied_revision c \<Longrightarrow> f db = Ok (v, db') \<Longrightarrow>
     \<exists>c'. db_workspace_cursor db' = [c'] \<and> cursor_later c c' \<and> ack_safe c' \<and> r' \<le> wc_last_applied_revision c'"
  shows "lifts ws r f r'"
  using assms by (simp add: lifts_def)

lemma liftsD:
  assumes "lifts ws r f r'" "db_workspace_cursor db = [c]" "wc_workspace_id c = ws" "ack_safe c"
    "r \<le> wc_last_applied_revision c" "f db = Ok (v, db')"
  obtains c' where "db_workspace_cursor db' = [c']" "cursor_later c c'" "ack_safe c'" "r' \<le> wc_last_applied_revision c'"
  using assms unfolding lifts_def by blast

lemma lifts_then:
  assumes f: "lifts ws r f r1" and g: "\<And>v. lifts ws r1 (g v) r2"
  shows "lifts ws r (tx_then f g) r2"
proof (rule liftsI)
  fix db c v db'
  assume c: "db_workspace_cursor db = [c]" "wc_workspace_id c = ws" "ack_safe c" "r \<le> wc_last_applied_revision c"
    and run: "tx_then f g db = Ok (v, db')"
  obtain w db1 where f1: "f db = Ok (w, db1)" and g1: "g w db1 = Ok (v, db')" using run by (auto simp: tx_then_Ok_iff)
  obtain c1 where c1: "db_workspace_cursor db1 = [c1]" "cursor_later c c1" "ack_safe c1" "r1 \<le> wc_last_applied_revision c1"
    by (rule liftsD [OF f c f1])
  have "wc_workspace_id c1 = ws" using c c1 by (simp add: cursor_later_def)
  then obtain c2 where "db_workspace_cursor db' = [c2]" "cursor_later c1 c2" "ack_safe c2" "r2 \<le> wc_last_applied_revision c2"
    by (rule liftsD [OF g c1(1) _ c1(3,4) g1])
  then show "\<exists>c'. db_workspace_cursor db' = [c'] \<and> cursor_later c c' \<and> ack_safe c' \<and> r2 \<le> wc_last_applied_revision c'"
    using c1(2) cursor_later_trans by blast
qed

lemmas cursor_ops = set_pending_ack_tx_def clear_pending_ack_tx_def set_pending_segment_ack_tx_def
  clear_pending_segment_ack_tx_def set_last_ack_revision_tx_def set_last_applied_revision_tx_def update_cursor_def
  cursor_row_single cursor_later_def sql_update_def ack_safe_def

lemma lifts_applied: "lifts ws r (set_last_applied_revision_tx ws revision) revision"
  by (auto simp: lifts_def cursor_ops result_simps not_less dest: order_trans)

lemma lifts_pending: "revision \<le> r \<Longrightarrow> lifts ws r (set_pending_ack_tx ws revision) r"
  by (auto simp: lifts_def cursor_ops result_simps)

lemma lifts_segment: "revision \<le> r \<Longrightarrow> lifts ws r (set_pending_segment_ack_tx ws revision) r"
  by (auto simp: lifts_def cursor_ops)

lemma lifts_acked: "revision \<le> r \<Longrightarrow> lifts ws r (set_last_ack_revision_tx ws revision) r"
  by (auto simp: lifts_def cursor_ops result_simps not_less)

lemma lifts_clear: "lifts ws r (clear_pending_ack_tx ws) r" "lifts ws r (clear_pending_segment_ack_tx ws) r"
  by (auto simp: lifts_def cursor_ops)

lemma lifts_lower:
  assumes "lifts ws r f r'" "r'' \<le> r'"
  shows "lifts ws r f r''"
proof (rule liftsI)
  fix db c v db'
  assume "db_workspace_cursor db = [c]" "wc_workspace_id c = ws" "ack_safe c" "r \<le> wc_last_applied_revision c"
    "f db = Ok (v, db')"
  then obtain c' where "db_workspace_cursor db' = [c']" "cursor_later c c'" "ack_safe c'" "r' \<le> wc_last_applied_revision c'"
    by (rule liftsD [OF assms(1)])
  then show "\<exists>c'. db_workspace_cursor db' = [c'] \<and> cursor_later c c' \<and> ack_safe c' \<and> r'' \<le> wc_last_applied_revision c'"
    using assms(2) order_trans by blast
qed

section \<open>Operations of the engine\<close>

definition outside ::
    "SyncEngine \<Rightarrow> WorkspaceId \<times> ClientId \<times> PendingLiveItem list \<times> nat \<times> InboundWorkLimits" where
  "outside en = (st_workspace_id (en_state en), st_client_id (en_state en), en_pending_live_events en,
     en_pending_live_serialized_bytes en, en_inbound_work_limits en)"

definition cursor_rows :: "SyncEngine \<Rightarrow> WorkspaceCursor list" where
  "cursor_rows en = db_workspace_cursor (st_conn (en_state en))"

definition cursor_sound :: "SyncEngine \<Rightarrow> WorkspaceCursor \<Rightarrow> bool" where
  "cursor_sound en c \<longleftrightarrow> cursor_rows en = [c] \<and> wc_workspace_id c = st_workspace_id (en_state en) \<and>
     wc_client_id c = st_client_id (en_state en) \<and> ack_safe c"

definition inner :: "SyncEngine \<Rightarrow> ('a, SyncError) result \<times> SyncEngine \<Rightarrow> bool" where
  "inner en p \<longleftrightarrow> (\<forall>c. cursor_sound en c \<longrightarrow>
     outside (snd p) = outside en \<and> (\<exists>c'. cursor_sound (snd p) c' \<and> cursor_later c c'))"

lemma inner_same: "cursor_rows (snd p) = cursor_rows en \<Longrightarrow> outside (snd p) = outside en \<Longrightarrow> inner en p"
  by (auto simp: inner_def cursor_sound_def cursor_later_refl outside_def)

lemma inner_then_cursor:
  assumes "inner en (f en)"
    and "\<And>v en' c c'. f en = (Ok v, en') \<Longrightarrow> cursor_sound en c \<Longrightarrow> cursor_sound en' c' \<Longrightarrow> cursor_later c c' \<Longrightarrow>
      inner en' (g v en')"
  shows "inner en (then_do f g en)"
  unfolding inner_def
proof (intro allI impI)
  fix c assume c: "cursor_sound en c"
  obtain r en' where f: "f en = (r, en')" by fastforce
  obtain c' where c': "outside en' = outside en" "cursor_sound en' c'" "cursor_later c c'"
    using assms(1) c by (auto simp: inner_def f)
  show "outside (snd (then_do f g en)) = outside en \<and>
      (\<exists>c'. cursor_sound (snd (then_do f g en)) c' \<and> cursor_later c c')"
  proof (cases r)
    case (Ok v)
    then have "inner en' (g v en')" using assms(2) f c c' by blast
    then obtain c'' where "outside (snd (g v en')) = outside en'" "cursor_sound (snd (g v en')) c''" "cursor_later c' c''"
      using c' by (auto simp: inner_def)
    then show ?thesis using Ok f c' cursor_later_trans by auto
  qed (use f c' in auto)
qed

lemma inner_then [inners]: "inner en (f en) \<Longrightarrow> (\<And>v en'. inner en' (g v en')) \<Longrightarrow> inner en (then_do f g en)"
  by (rule inner_then_cursor)

lemma inner_pair [inners]: "inner en (Ok v, en)" "inner en (Err e, en)" "inner en (lift_result r en)" "inner en (give v en)"
  by (simp_all add: inner_same)

lemma inner_checks [inners]:
  "inner en (require c e en)" "inner en (read_state f en)" "inner en (ensure_open en)" "inner en (validate_identity ws client en)"
  "inner en (check_workspace ws label en)"
  by (simp_all add: inner_same require_apply ensure_open_def validate_identity_def check_workspace_def)

lemma inner_ask [inners]: "inner en (ask f en)" "inner en (ask_fs f' en)" "inner en (inspect lib path en)"
  by (simp_all add: inner_same ask_def ask_fs_def inspect_def outside_def cursor_rows_def)

lemma inner_timestamp [inners]: "inner en (next_timestamp lib en)"
  by (rule inner_same) (auto simp: next_timestamp_def outside_def cursor_rows_def split: list.splits)

lemma inner_operation_id [inners]: "inner en (next_operation_id lib en)"
  by (rule inner_same)
    (auto simp: next_operation_id_def outside_def cursor_rows_def split: prod.splits result.splits option.splits)

lemma inner_transaction [inners]: "tx_still f \<Longrightarrow> inner en (write_state (transaction f) en)"
  by (rule inner_same)
    (auto simp: write_state_def transaction_def tx_still_def outside_def cursor_rows_def split: prod.splits result.splits)

lemma inner_transact [inners]: "(\<And>ws client. tx_still (f ws client)) \<Longrightarrow> inner en (transact f en)"
  unfolding transact_def by (rule inner_transaction)

lemma inner_write:
  assumes "tx_still f" "operation (en_state en) = transaction f (en_state en)"
  shows "inner en (write_state operation en)"
  using inner_transaction [OF assms(1), of en] assms(2) by (simp add: write_state_def)

lemma inner_lifts:
  assumes f: "lifts (st_workspace_id (en_state en)) r f r'" and r: "\<And>c. cursor_sound en c \<Longrightarrow> r \<le> wc_last_applied_revision c"
  shows "inner en (write_state (transaction f) en)"
  unfolding inner_def
proof (intro allI impI)
  fix c assume c: "cursor_sound en c"
  show "outside (snd (write_state (transaction f) en)) = outside en \<and>
      (\<exists>c'. cursor_sound (snd (write_state (transaction f) en)) c' \<and> cursor_later c c')"
  proof (cases "f (st_conn (en_state en))")
    case (Ok p)
    obtain v db' where p: "p = (v, db')" by fastforce
    obtain c' where "db_workspace_cursor db' = [c']" "cursor_later c c'" "ack_safe c'"
      by (rule liftsD [OF f, of "st_conn (en_state en)" c v db'])
        (use c r [OF c] Ok p in \<open>auto simp: cursor_sound_def cursor_rows_def\<close>)
    then show ?thesis
      using Ok c p by (auto simp: write_state_def transaction_def outside_def cursor_sound_def cursor_rows_def cursor_later_def)
  qed (use c in \<open>auto simp: write_state_def transaction_def cursor_later_refl outside_def cursor_sound_def cursor_rows_def\<close>)
qed

lemma inner_transact_lifts:
  "(\<And>ws client. lifts ws r (f ws client) r') \<Longrightarrow> (\<And>c. cursor_sound en c \<Longrightarrow> r \<le> wc_last_applied_revision c) \<Longrightarrow>
    inner en (transact f en)"
  unfolding transact_def by (rule inner_lifts)

text \<open>A rule for the operations that read the cursor.\<close>

lemma inner_cursor:
  assumes "\<And>c. cursor_sound en c \<Longrightarrow> inner en (g c en)"
  shows "inner en (then_do (read_state cursor) g en)"
proof (rule inner_then_cursor)
  fix v en' c c'
  assume r: "read_state cursor en = (Ok v, en')" and c: "cursor_sound en c"
  then have "v = c" "en' = en" by (auto simp: cursor_def cursor_row_def cursor_sound_def cursor_rows_def)
  then show "inner en' (g v en')" using assms c by simp
qed (rule inners)

lemma inner_cache [inners]:
  assumes "\<exists>rows. snd (f (en_state en)) = (en_state en)\<lparr>st_conn := (st_conn (en_state en))\<lparr>db_hash_cache := rows\<rparr>\<rparr>"
  shows "inner en (cache_do operation f en)"
  by (rule inner_same) (use assms in \<open>auto simp: cache_do_def outside_def cursor_rows_def split: prod.splits\<close>)

lemma inner_each [inners]: "(\<And>x en. inner en (f x en)) \<Longrightarrow> inner en (each_do f xs en)"
  by (induction xs arbitrary: en) (auto intro!: inners simp del: give_apply)

lemma inner_collect [inners]: "(\<And>x en. inner en (f x en)) \<Longrightarrow> inner en (collect_do f xs en)"
  by (induction xs arbitrary: en) (auto intro!: inners simp del: give_apply)

lemma inner_if [inners]: "(c \<Longrightarrow> inner en (f en)) \<Longrightarrow> (\<not> c \<Longrightarrow> inner en (g en)) \<Longrightarrow> inner en ((if c then f else g) en)"
  by simp

lemma inner_if_pair [inners]: "(c \<Longrightarrow> inner en p) \<Longrightarrow> (\<not> c \<Longrightarrow> inner en q) \<Longrightarrow> inner en (if c then p else q)"
  by simp

lemma inner_option [inners]:
  "inner en (f en) \<Longrightarrow> (\<And>v. inner en (g v en)) \<Longrightarrow> inner en ((case x of None \<Rightarrow> f | Some v \<Rightarrow> g v) en)"
  by (cases x) simp_all

lemma inner_option_pair [inners]:
  "inner en p \<Longrightarrow> (\<And>v. inner en (q v)) \<Longrightarrow> inner en (case x of None \<Rightarrow> p | Some v \<Rightarrow> q v)"
  by (cases x) simp_all

lemma inner_prod [inners]: "(\<And>a b. inner en (f a b en)) \<Longrightarrow> inner en ((case x of (a, b) \<Rightarrow> f a b) en)"
  by (cases x) simp

lemma inner_list [inners]:
  "inner en (f en) \<Longrightarrow> (\<And>x xs. inner en (g x xs en)) \<Longrightarrow> inner en ((case l of [] \<Rightarrow> f | x # xs \<Rightarrow> g x xs) en)"
  by (cases l) simp_all

lemma inner_body [inners]: "(\<And>m. inner en (f m en)) \<Longrightarrow> (\<And>r. inner en (g r en)) \<Longrightarrow>
    inner en ((case body of BodyMutation m \<Rightarrow> f m | BodyResolution r \<Rightarrow> g r) en)"
  by (cases body) simp_all

lemma inner_let [inners]: "(\<And>v. inner en (f v en)) \<Longrightarrow> inner en (Let x f en)"
  by (simp add: Let_def)

section \<open>Reading the workspace\<close>

lemma cache_store_rows: "\<exists>rows. snd (cache_store lib path fp hash st) = st\<lparr>st_conn := (st_conn st)\<lparr>db_hash_cache := rows\<rparr>\<rparr>"
proof (cases "snd (cache_store lib path fp hash st) = st")
  case True
  then show ?thesis by (intro exI [of _ "db_hash_cache (st_conn st)"]) simp
next
  case False
  then show ?thesis by (auto simp: cache_store_def split: result.splits)
qed

lemma cache_invalidate_rows: "\<exists>rows. snd (cache_invalidate path st) = st\<lparr>st_conn := (st_conn st)\<lparr>db_hash_cache := rows\<rparr>\<rparr>"
  by (auto simp: cache_invalidate_def)

lemma inner_cache_ops [inners]:
  "inner en (cache_do label (cache_invalidate path) en)" "inner en (cache_do label (cache_store lib path fp hash) en)"
  by (intro inner_cache cache_store_rows cache_invalidate_rows)+

lemma inner_stage_attempts [inners]: "inner en (stage_attempts lib path n en)"
proof (induction n arbitrary: en)
  case (Suc n)
  show ?case unfolding stage_attempts.simps by (intro inners Suc)
qed (unfold stage_attempts.simps, rule inners)

lemma inner_stage [inners]: "inner en (stage_workspace_entry lib path en)"
  unfolding stage_workspace_entry_def by (intro inners)

lemma inner_content_available [inners]: "inner en (content_available lib hash n en)"
  unfolding content_available_def by (intro inners)

lemma inner_status [inners]: "inner en (status_for_state lib state en)"
  unfolding status_for_state_def by (intro inners)

lemma inner_desired_entry [inners]: "inner en (desired_entry_from_observed lib observed en)"
  unfolding desired_entry_from_observed_def by (intro inners)

lemma inner_observed_hash [inners]: "inner en (observed_content_hash lib observed en)"
  unfolding observed_content_hash_def by (intro inners)

lemma inner_expected [inners]: "inner en (expected_from_observed lib observed en)"
  unfolding expected_from_observed_def by (intro inners)

lemma inner_post [inners]: "inner en (observed_matches_post lib state observed en)"
  unfolding observed_matches_post_def by (intro inners)

lemma inner_baseline [inners]: "inner en (baseline_matches_observed lib baseline observed en)"
  unfolding baseline_matches_observed_def by (intro inners)

lemma inner_stored [inners]: "inner en (stored_state lib path en)"
  unfolding stored_state_def by (intro inners)

lemma inner_event_states [inners]: "inner en (path_states_for_event lib event en)" "inner en (observed_for_event lib event en)"
  unfolding path_states_for_event_def observed_for_event_def by (intro inners)+

lemma inner_event_post [inners]: "inner en (event_post_matches lib states observed en)"
proof (induction states arbitrary: en)
  case (Cons state states)
  show ?case unfolding event_post_matches.simps by (intro inners Cons)
qed (unfold event_post_matches.simps, rule inners)

lemma inner_event_baseline [inners]: "inner en (event_baseline_matches lib previous observed en)"
proof (induction previous arbitrary: en)
  case (Cons p previous)
  then show ?case by (cases p) (simp only: event_baseline_matches.simps, intro inners Cons)
qed (unfold event_baseline_matches.simps, rule inners)

lemma inner_diverged [inners]: "inner en (event_is_diverged lib event en)"
  unfolding event_is_diverged_def by (intro inners)

lemma inner_kind [inners]:
  "inner en (f en) \<Longrightarrow> inner en (g en) \<Longrightarrow> inner en (h en) \<Longrightarrow> inner en (k en) \<Longrightarrow>
    inner en ((case kind of File \<Rightarrow> f | Directory \<Rightarrow> g | Symlink \<Rightarrow> h | Tombstone \<Rightarrow> k) en)"
  by (cases kind) simp_all

lemma inner_operation_for_state [inners]: "inner en (operation_for_state lib post observed en)"
  unfolding operation_for_state_def by (intro inners)

lemma inner_operation_for_event [inners]: "inner en (operation_for_event lib event observed en)"
  unfolding operation_for_event_def by (intro inners)

lemma inner_current [inners]: "inner en (desired_from_current lib path en)"
  unfolding desired_from_current_def by (intro inners)

lemma inner_timestamps [inners]: "inner en (draw_timestamps lib paths en)"
proof (induction paths arbitrary: en)
  case (Cons path paths)
  show ?case unfolding draw_timestamps.simps by (intro inners Cons)
qed (unfold draw_timestamps.simps, rule inners)

section \<open>Local wishes\<close>

lemma inner_queue_desired [inners]: "inner en (queue_desired_with_states lib desired states en)"
  unfolding queue_desired_with_states_def Let_def by (intro inners tx_stills)

lemma inner_cover [inners]: "inner en (cover_observed lib observed desired en)"
proof (induction observed arbitrary: desired en)
  case (Cons p observed)
  then show ?case by (cases p) (simp only: cover_observed.simps, intro inners Cons)
qed (unfold cover_observed.simps, rule inners)

lemma inner_next_mutations [inners]: "inner en (next_mutations lib desired states en)"
proof (induction desired arbitrary: en)
  case (Cons d desired)
  show ?case unfolding next_mutations.simps by (intro inners Cons)
qed (unfold next_mutations.simps, rule inners)

lemma inner_preserved [inners]: "inner en (preserved_replacements lib event observed post_states en)"
  unfolding preserved_replacements_def Let_def by (intro inners)

lemma inner_defer [inners]: "inner en (defer_desired lib desired en)"
  unfolding defer_desired_def Let_def by (intro inners tx_stills)

lemma inner_record_desired [inners]: "inner en (record_desired lib desired en)"
  unfolding record_desired_def Let_def by (intro inners tx_stills)

lemma inner_remove_intent [inners]: "inner en (write_state (remove_local_intent path) en)"
  by (rule inner_write [OF remove_local_intent_still]) (simp add: remove_local_intent_def)

lemma inner_materialize_one [inners]: "inner en (materialize_one lib conflicted states record en)"
  unfolding materialize_one_def Let_def by (intro inners tx_stills)

lemma inner_materialize_each [inners]: "inner en (materialize_each lib conflicted states records en)"
proof (induction records arbitrary: en)
  case (Cons r records)
  show ?case unfolding materialize_each.simps by (intro inners Cons)
qed (unfold materialize_each.simps, rule inners)

lemma inner_materialize [inners]: "inner en (materialize_local_intents lib en)"
  unfolding materialize_local_intents_def by (intro inners)

section \<open>Answers of the server\<close>

lemma inner_set_stage [inners]: "inner en (write_state (set_outbox_stage lib op stage) en)"
  by (rule inner_write [OF set_outbox_stage_still]) (simp add: set_outbox_stage_def)

lemma inner_remove_outbox [inners]: "inner en (write_state (remove_outbox op) en)"
  by (rule inner_write [OF remove_outbox_still]) (simp add: remove_outbox_def)

lemma inner_accept [inners]: "inner en (accept_legacy lib accepted m en)" "inner en (accept_missing lib accepted m en)"
  unfolding accept_legacy_def accept_missing_def Let_def by (intro inners tx_stills)+

lemma inner_accepted [inners]: "inner en (mutation_accepted lib accepted en)"
  unfolding mutation_accepted_def by (intro inners)

lemma tx_still_nullable [tx_stills]:
  "tx_still f \<Longrightarrow> (\<And>v. tx_still (g v)) \<Longrightarrow> tx_still (case x of Null \<Rightarrow> f | Value v \<Rightarrow> g v)"
  by (cases x) simp_all

lemma inner_stale [inners]: "inner en (reconcile_stale lib m current en)"
  unfolding reconcile_stale_def Let_def by (intro inners tx_stills)

lemma inner_rejected [inners]: "inner en (mutation_rejected lib rejected en)"
  unfolding mutation_rejected_def by (intro inners) (cases "mr_reason rejected"; simp only: WorkspaceMutationRejectReason.case; intro inners)

lemma inner_result [inners]: "inner en (mutation_result lib result en)"
  by (cases result) (simp_all add: inners)

lemma inner_uploaded [inners]: "inner en (blob_uploaded lib op en)"
  unfolding blob_uploaded_def by (intro inners) (auto intro: inners split: OutboxStage.split)

lemma inner_prepare [inners]: "inner en (prepare_connection_attempt en)"
  unfolding prepare_connection_attempt_def
  by (intro inners, rule inner_write [OF replay_awaiting_still]) (simp add: replay_awaiting_blob_mutations_def)

end
