(* ===== verification/Engine_Recovery.thy ===== *)
theory Engine_Recovery
  imports Engine_Inbound Engine_Scan Sync_Example
begin

text \<open>
  Recovery after a crash (\<open>fns-sync-core/src/engine.rs\<close> and \<open>state.rs\<close>): when the engine is opened, every row of
  the apply journal is checked against itself and taken to its end, whatever stage it had reached, and what
  other programs changed in the meantime becomes a local wish. Rows of an older version, and the gap that an older
  version left in the cursor, have paths of their own.
\<close>

section \<open>Rows of the journal\<close>

abbreviation journal_corrupt :: "string \<Rightarrow> SyncError" where
  "journal_corrupt column \<equiv> CorruptState ''apply_journal'' column"

definition parse_apply_journal_json :: "'a serde \<Rightarrow> u8 list \<Rightarrow> string \<Rightarrow> ('a, SyncError) result" where
  "parse_apply_journal_json codec bytes column =
     and_then (ok_or (from_slice codec bytes) (journal_corrupt column)) (\<lambda>v.
     and_then (canonical_json codec v) (\<lambda>json.
     fail_if (json \<noteq> bytes) (journal_corrupt column) (Ok v)))"

fun apply_id_uuid :: "ApplyId \<Rightarrow> uuid" where
  "apply_id_uuid (ApplyId u) = u"

definition plan_validate :: "ApplyCommitPlan \<Rightarrow> bool" where
  "plan_validate plan =
     (case plan of
        PlanSnapshotEntry entry \<Rightarrow> is_ok (snapshot_entry_validate entry)
      | PlanStreamEvent event _ \<Rightarrow> is_ok (event_validate event)
      | PlanLiveEvent event _ \<Rightarrow> is_ok (event_validate event)
      | PlanStreamConflictResolved message \<Rightarrow> is_ok (conflict_resolved_validate message)
      | PlanLiveConflictResolved message \<Rightarrow> is_ok (conflict_resolved_validate message))"

definition plan_exact :: "ApplyJournalRecord \<Rightarrow> ApplyCommitPlan \<Rightarrow> SqliteState \<Rightarrow> (bool, SyncError) result" where
  "plan_exact record plan st =
     (let of_event = (\<lambda>event. Ok (aj_item_kind record = ApplyItemKind.Event \<and> aj_workspace_id record = ev_workspace_id event \<and>
            aj_stream_id record = ev_stream_id event \<and> aj_item_key record = revision_print (ev_revision event)))
      in case plan of
           PlanSnapshotEntry entry \<Rightarrow>
             Ok (aj_item_kind record = ApplyItemKind.Entry \<and> aj_workspace_id record = se_workspace_id entry \<and>
                 aj_stream_id record = se_stream_id entry \<and> aj_item_key record = path_str (ps_path (se_entry entry)))
         | PlanStreamEvent event _ \<Rightarrow> of_event event
         | PlanLiveEvent event _ \<Rightarrow> of_event event
         | PlanStreamConflictResolved message \<Rightarrow>
             if aj_item_kind record = ApplyItemKind.ConflictResolved \<and> aj_workspace_id record = cr_workspace_id message then
               and_then (stream_state st) (\<lambda>active.
               Ok ((case active of None \<Rightarrow> False | Some a \<Rightarrow> ss_stream_id a = aj_stream_id record) \<and>
                   aj_item_key record = revision_print (cr_revision message)))
             else Ok False
         | PlanLiveConflictResolved message \<Rightarrow>
             Ok (aj_item_kind record = ApplyItemKind.ConflictResolved \<and> aj_workspace_id record = cr_workspace_id message \<and>
                 aj_stream_id record = live_apply_stream_id \<and> aj_item_key record = revision_print (cr_revision message)))"

definition validate_apply_commit_plan ::
    "ApplyJournalRecord \<Rightarrow> ApplyCommitPlan \<Rightarrow> SqliteState \<Rightarrow> (unit, SyncError) result" where
  "validate_apply_commit_plan record plan st =
     fail_if (aj_apply_namespace record \<noteq> plan_namespace plan) (journal_corrupt ''apply_namespace'')
    (fail_if (\<not> plan_validate plan) (journal_corrupt ''commit_json'')
    (and_then (plan_exact record plan st) (\<lambda>exact.
     fail_if (\<not> exact) (journal_corrupt ''commit_json'') (Ok ()))))"

type_synonym journal_item = "FsOperation \<times> RemoteApplyOperation \<times> WorkspacePathState list \<times> ApplyCommitPlan"

text \<open>The checks of a row, and what it says.\<close>

definition journal_checks :: "system_lib \<Rightarrow> ApplyJournalRecord \<Rightarrow> SqliteState \<Rightarrow> (journal_item, SyncError) result" where
  "journal_checks lib record st =
     fail_if (apply_journal_immutable_digest (sy_store lib) record \<noteq> aj_operation_body_digest record)
       (journal_corrupt ''operation_body_digest'')
    (and_then (parse_apply_journal_json (sy_fs_operation lib) (aj_filesystem_operation_json record)
       ''filesystem_operation_json'') (\<lambda>operation.
     fail_if (aj_preimage_json record \<noteq> aj_filesystem_operation_json record) (journal_corrupt ''preimage_json'')
    (and_then (parse_apply_journal_json (sy_operation lib) (aj_operation_json record) ''operation_json'') (\<lambda>operation_spec.
     and_then (parse_apply_journal_json (sy_states lib) (aj_postimage_json record) ''postimage_json'') (\<lambda>post_states.
     and_then (parse_apply_journal_json (sy_plan lib) (aj_commit_json record) ''commit_json'') (\<lambda>plan.
     and_then (validate_apply_commit_plan record plan st) (\<lambda>_.
     and_then (validate_apply_recovery_tuple operation_spec operation post_states plan) (\<lambda>_.
     Ok (operation, operation_spec, post_states, plan)))))))))"

section \<open>Rows of an older version\<close>

definition is_migrated_legacy_apply_journal :: "ApplyJournalRecord \<Rightarrow> bool" where
  "is_migrated_legacy_apply_journal record \<longleftrightarrow>
     aj_commit_json record = [] \<and>
     (aj_filesystem_operation_json record = [] \<or> aj_filesystem_operation_json record = aj_operation_json record) \<and>
     aj_filesystem_receipt_json record = None \<and> aj_stage record \<in> {Prepared, FilesystemStarted} \<and>
     (aj_item_kind record, aj_apply_namespace record) \<in>
       {(ApplyItemKind.Entry, SnapshotEntry), (ApplyItemKind.Event, StreamEvent),
        (ApplyItemKind.ConflictResolved, StreamConflictResolved)}"

fun legacy_filesystem_operation :: "RemoteApplyOperation \<Rightarrow> (FsOperation, SyncError) result" where
  "legacy_filesystem_operation (RemoteUpsert state) =
     (case ps_kind state of
        File \<Rightarrow>
          and_then (ok_or (into_option (ps_content_hash state)) (journal_corrupt ''operation_json'')) (\<lambda>hash.
          Ok (FsUpsertFile (ps_path state) hash (ps_metadata state) Missing))
      | Directory \<Rightarrow> Ok (FsMkdir (ps_path state) (ps_metadata state) Missing)
      | Symlink \<Rightarrow>
          and_then (ok_or (into_option (ps_content_hash state)) (journal_corrupt ''operation_json'')) (\<lambda>hash.
          Ok (FsUpsertSymlink (ps_path state) hash (ps_metadata state) Missing))
      | Tombstone \<Rightarrow> Err (journal_corrupt ''operation_json''))"
| "legacy_filesystem_operation (RemoteDelete state) = Ok (FsDelete (ps_path state) Missing)"
| "legacy_filesystem_operation (RemoteRename old_state new_state) =
     Ok (FsRename (ps_path old_state) (ps_path new_state) (into_option (ps_content_hash new_state)) (ps_metadata new_state)
       Missing Missing)"

fun operation_states :: "RemoteApplyOperation \<Rightarrow> WorkspacePathState list" where
  "operation_states (RemoteUpsert state) = [state]"
| "operation_states (RemoteDelete state) = [state]"
| "operation_states (RemoteRename old_state new_state) = [old_state, new_state]"

definition recover_legacy_apply_journal :: "system_lib \<Rightarrow> ApplyJournalRecord \<Rightarrow> unit engine" where
  "recover_legacy_apply_journal lib record =
     then_do (lift_result (ok_or (from_slice (sy_operation lib) (aj_operation_json record)) (journal_corrupt ''operation_json'')))
       (\<lambda>operation.
     then_do (lift_result (ok_or (from_slice (sy_states lib) (aj_postimage_json record)) (journal_corrupt ''postimage_json'')))
       (\<lambda>post_states.
     then_do (require (post_states = operation_states operation \<and> list_all (\<lambda>s. is_ok (path_state_validate s)) post_states)
       (journal_corrupt ''postimage_json'')) (\<lambda>_.
     then_do
       (if aj_stage record = FilesystemStarted then
          then_do (lift_result (legacy_filesystem_operation operation)) (\<lambda>filesystem_operation.
          ask_fs (\<lambda>n. sy_abandon lib n (aj_apply_id record) filesystem_operation))
        else give ()) (\<lambda>_.
     write_state (remove_apply_journal (aj_apply_id record))))))"

section \<open>A gap that an older version left\<close>

text \<open>
  An older version could advance the cursor past a live event whose content was still missing. The row of
  that event is recovered by moving the cursor back to it, after every part of the situation was checked.
\<close>

datatype LegacyGapValidationPhase = Preflight | Commit

record ValidatedLegacyLiveEventGap =
  vg_event :: WorkspaceEventMessage
  vg_remove_outbox :: bool
  vg_post_states :: "WorkspacePathState list"
  vg_mutation_json :: "u8 list"
  vg_mutation_digest :: "u8 list"
  vg_last_ack :: WorkspaceRevision
  vg_last_applied :: WorkspaceRevision

definition parse_canonical_recovery_json :: "'a serde \<Rightarrow> u8 list \<Rightarrow> string \<Rightarrow> ('a, SyncError) result" where
  "parse_canonical_recovery_json codec bytes column =
     and_then (ok_or (from_slice codec bytes) (journal_corrupt column)) (\<lambda>v.
     and_then (canonical_json codec v) (\<lambda>json.
     fail_if (json \<noteq> bytes) (journal_corrupt column) (Ok v)))"

definition recovery_operation_for_event :: "WorkspaceEventMessage \<Rightarrow> (RemoteApplyOperation, SyncError) result" where
  "recovery_operation_for_event event =
     (if wm_kind (ev_mutation event) = WorkspaceMutationKind.Rename then
        and_then (ok_or (ev_old_path_state event) (journal_corrupt ''operation_json'')) (\<lambda>old.
        and_then (ok_or (ev_new_path_state event) (journal_corrupt ''operation_json'')) (\<lambda>new.
        Ok (RemoteRename old new)))
      else if ps_kind (ev_path_state event) = Tombstone then Ok (RemoteDelete (ev_path_state event))
      else Ok (RemoteUpsert (ev_path_state event)))"

definition recovery_post_states_for_event :: "WorkspaceEventMessage \<Rightarrow> (WorkspacePathState list, SyncError) result" where
  "recovery_post_states_for_event event =
     (if wm_kind (ev_mutation event) = WorkspaceMutationKind.Rename then
        and_then (ok_or (ev_old_path_state event) (journal_corrupt ''postimage_json'')) (\<lambda>old.
        and_then (ok_or (ev_new_path_state event) (journal_corrupt ''postimage_json'')) (\<lambda>new. Ok [old, new]))
      else Ok [ev_path_state event])"

text \<open>The part of a path before its last slash.\<close>

definition rsplit_parent :: "string \<Rightarrow> string option" where
  "rsplit_parent s =
     (if CHR ''/'' \<in> set s then Some (rev (tl (dropWhile (\<lambda>c. c \<noteq> CHR ''/'') (rev s)))) else None)"

definition expected_cleanup :: "store_lib \<Rightarrow> ApplyReceipt \<Rightarrow> WorkspacePath \<Rightarrow> ExpectedEntry \<Rightarrow> string option" where
  "expected_cleanup lib receipt path expected =
     (let leaf = ''.fns-delete-'' @ uuid_to_string (lib_uuid lib) (ar_apply_id receipt) in
      case expected of
        Missing \<Rightarrow> None
      | Present _ _ _ _ \<Rightarrow>
          Some (case rsplit_parent (path_str path) of None \<Rightarrow> leaf | Some parent \<Rightarrow> parent @ ''/'' @ leaf))"

definition validate_legacy_gap_receipt_shape ::
    "store_lib \<Rightarrow> ApplyReceipt \<Rightarrow> FsOperation \<Rightarrow> WorkspacePathState list \<Rightarrow> (unit, SyncError) result" where
  "validate_legacy_gap_receipt_shape lib receipt operation post_states =
     (let invalid = Err (journal_corrupt ''filesystem_receipt_json'') in
      if ar_touched receipt = [] \<and> ar_postimages receipt = [] \<and> ar_postimage_hashes receipt = [] \<and>
         ar_cleanup_name receipt = None then Ok ()
      else
        case (operation, post_states, ar_touched receipt, ar_postimages receipt, ar_postimage_hashes receipt) of
          (FsUpsertFile path hash metadata expected, [post_state], [touched], [Some observed], [Some observed_hash]) \<Rightarrow>
            if touched \<noteq> path \<or> observed_hash \<noteq> hash \<or> ps_path post_state \<noteq> path \<or> ps_kind post_state \<noteq> File \<or>
               into_option (ps_content_hash post_state) \<noteq> Some hash \<or> ps_metadata post_state \<noteq> metadata \<or>
               oe_path observed \<noteq> path \<or> oe_kind observed \<noteq> File \<or> oe_metadata observed \<noteq> metadata \<or>
               ar_cleanup_name receipt \<noteq> expected_cleanup lib receipt path expected
            then invalid else Ok ()
        | _ \<Rightarrow> invalid)"

definition gap_receipt ::
    "system_lib \<Rightarrow> LegacyGapValidationPhase \<Rightarrow> ApplyJournalRecord \<Rightarrow> (ApplyReceipt option, SyncError) result" where
  "gap_receipt lib phase record =
     (case aj_filesystem_receipt_json record of
        None \<Rightarrow>
          if phase = Preflight \<and> aj_stage record \<in> {Prepared, FilesystemStarted} then Ok None
          else Err (StreamInvariant ''legacy_live_event_gap_stage'')
      | Some json \<Rightarrow>
          fail_if (aj_stage record \<noteq> FilesystemApplied) (StreamInvariant ''legacy_live_event_gap_stage'')
         (and_then (parse_canonical_recovery_json (sy_receipt lib) json ''filesystem_receipt_json'') (\<lambda>receipt.
          fail_if (ApplyId (ar_apply_id receipt) \<noteq> aj_apply_id record) (journal_corrupt ''filesystem_receipt_json'')
         (Ok (Some receipt)))))"

text \<open>Only the upload of one file is repaired this way.\<close>

fun gap_operation_supported ::
    "WorkspaceMutationKind \<Rightarrow> RemoteApplyOperation \<Rightarrow> FsOperation \<Rightarrow> WorkspacePathState list \<Rightarrow> bool" where
  "gap_operation_supported kind (RemoteUpsert state) (FsUpsertFile path hash metadata _) [post_state] =
     (kind = WorkspaceMutationKind.UpsertFile \<and> state = post_state \<and> ps_kind post_state = File \<and> path = ps_path post_state \<and>
      into_option (ps_content_hash post_state) = Some hash \<and> metadata = ps_metadata post_state)"
| "gap_operation_supported _ _ _ _ = False"

definition gap_event ::
    "system_lib \<Rightarrow> WorkspaceId \<Rightarrow> ApplyJournalRecord \<Rightarrow> (WorkspaceEventMessage \<times> bool, SyncError) result" where
  "gap_event lib ws record =
     and_then (parse_canonical_recovery_json (sy_plan lib) (aj_commit_json record) ''commit_json'') (\<lambda>plan.
     and_then (case plan of PlanLiveEvent event remove_it \<Rightarrow> Ok (event, remove_it) | _ \<Rightarrow> Err (journal_corrupt ''commit_json''))
       (\<lambda>(event, remove_it).
     fail_if (\<not> is_ok (event_validate event)) (journal_corrupt ''commit_json'')
    (fail_if (ev_workspace_id event \<noteq> ws \<or> ev_stream_id event \<noteq> aj_stream_id record \<or>
              revision_print (ev_revision event) \<noteq> aj_item_key record) (journal_corrupt ''commit_json'')
    (Ok (event, remove_it)))))"

definition gap_post_states ::
    "system_lib \<Rightarrow> ApplyJournalRecord \<Rightarrow> ApplyReceipt option \<Rightarrow> WorkspaceEventMessage \<Rightarrow>
     (WorkspacePathState list, SyncError) result" where
  "gap_post_states lib record receipt event =
     and_then (parse_canonical_recovery_json (sy_operation lib) (aj_operation_json record) ''operation_json'') (\<lambda>operation.
     and_then (recovery_operation_for_event event) (\<lambda>expected_operation.
     fail_if (operation \<noteq> expected_operation) (journal_corrupt ''operation_json'')
    (fail_if (aj_preimage_json record \<noteq> aj_filesystem_operation_json record) (journal_corrupt ''preimage_json'')
    (and_then (parse_canonical_recovery_json (sy_fs_operation lib) (aj_filesystem_operation_json record)
       ''filesystem_operation_json'') (\<lambda>filesystem_operation.
     and_then (parse_canonical_recovery_json (sy_states lib) (aj_postimage_json record) ''postimage_json'') (\<lambda>post_states.
     and_then (recovery_post_states_for_event event) (\<lambda>expected_post_states.
     fail_if (post_states \<noteq> expected_post_states \<or> list_ex (\<lambda>s. \<not> is_ok (path_state_validate s)) post_states)
       (journal_corrupt ''postimage_json'')
    (fail_if (\<not> gap_operation_supported (wm_kind (ev_mutation event)) operation filesystem_operation post_states)
       (StreamInvariant ''legacy_live_event_gap_operation_kind'')
    (and_then (case receipt of None \<Rightarrow> Ok ()
       | Some receipt \<Rightarrow> validate_legacy_gap_receipt_shape (sy_store lib) receipt filesystem_operation post_states) (\<lambda>_.
     Ok post_states))))))))))"

text \<open>The cursor is one step behind the event, has skipped it, and waits for the acknowledgement of what follows.\<close>

definition gap_cursor ::
    "WorkspaceId \<Rightarrow> ClientId \<Rightarrow> WorkspaceRevision \<Rightarrow> database \<Rightarrow> (WorkspaceRevision \<times> WorkspaceRevision, SyncError) result" where
  "gap_cursor ws client revision db =
     and_then (ok_or (cursor_row ws db) StorageUnavailable) (\<lambda>c.
     fail_if (wc_client_id c \<noteq> client) (CorruptState ''workspace_cursor'' ''client_id'')
    (let last_ack = wc_last_ack_revision c; last_applied = wc_last_applied_revision c in
     fail_if (revision_get last_ack = - 1 \<or> revision \<noteq> WorkspaceRevision (revision_get last_ack + 1))
       (StreamInvariant ''legacy_live_event_gap_not_contiguous'')
    (fail_if (revision \<ge> last_applied) (StreamInvariant ''legacy_live_event_gap_not_superseded'')
    (fail_if (wc_pending_ack_revision c \<noteq> Some last_applied) (StreamInvariant ''legacy_live_event_gap_pending_ack'')
    (Ok (last_ack, last_applied))))))"

fun gap_states :: "store_lib \<Rightarrow> WorkspaceId \<Rightarrow> database \<Rightarrow> WorkspacePathState list \<Rightarrow> (unit, SyncError) result" where
  "gap_states lib ws db [] = Ok ()"
| "gap_states lib ws db (state # states) =
     (case find (\<lambda>r. path_state_key r = (ws, ps_path state)) (db_path_states db) of
        None \<Rightarrow> gap_states lib ws db states
      | Some row \<Rightarrow>
          let corrupt = CorruptState ''path_states'' ''state_json'' in
          and_then (ok_or (from_slice (lib_path_state lib) (pr_state_json row)) corrupt) (\<lambda>existing.
          fail_if (\<not> is_ok (path_state_validate existing) \<or> ps_path existing \<noteq> ps_path state) corrupt
         (and_then (canonical_json (lib_path_state lib) existing) (\<lambda>json.
          fail_if (json \<noteq> pr_state_json row \<or> pr_state_digest row \<noteq> body_digest lib (pr_state_json row)) corrupt
         (fail_if (ps_path_revision existing > ps_path_revision state)
            (StreamInvariant ''legacy_live_event_gap_newer_path_state'')
         (fail_if (ps_path_revision existing = ps_path_revision state \<and> existing \<noteq> state)
            (StreamInvariant ''legacy_live_event_gap_path_state_changed'')
         (gap_states lib ws db states)))))))"

definition gap_outbox ::
    "WorkspaceId \<Rightarrow> ClientId \<Rightarrow> WorkspaceEventMessage \<Rightarrow> u8 list \<Rightarrow> u8 list \<Rightarrow> database \<Rightarrow> (unit, SyncError) result" where
  "gap_outbox ws client event mutation_json mutation_digest db =
     fail_if (ev_origin_client_id event \<noteq> client) (ProtocolInvariant ''legacy_live_event_gap_outbox_identity'')
    (and_then (ok_or (find (\<lambda>r. outbox_key r = (client, ev_operation_id event)) (db_outbox db))
       (ProtocolInvariant ''legacy_live_event_gap_outbox_missing'')) (\<lambda>row.
     fail_if (ob_workspace_id row \<noteq> ws \<or> ob_body_json row \<noteq> mutation_json \<or> ob_body_digest row \<noteq> mutation_digest)
       (ProtocolInvariant ''legacy_live_event_gap_outbox_mismatch'') (Ok ())))"

definition validate_legacy_live_event_gap ::
    "system_lib \<Rightarrow> WorkspaceId \<Rightarrow> ClientId \<Rightarrow> ApplyJournalRecord \<Rightarrow> LegacyGapValidationPhase \<Rightarrow> database \<Rightarrow>
     (ValidatedLegacyLiveEventGap, SyncError) result" where
  "validate_legacy_live_event_gap lib ws client record phase db =
     fail_if (aj_workspace_id record \<noteq> ws \<or> aj_item_kind record \<noteq> ApplyItemKind.Event \<or>
              aj_apply_namespace record \<noteq> ApplyNamespace.LiveEvent) (journal_corrupt ''apply_namespace'')
    (and_then (gap_receipt lib phase record) (\<lambda>receipt.
     fail_if (apply_journal_immutable_digest (sy_store lib) record \<noteq> aj_operation_body_digest record)
       (journal_corrupt ''operation_body_digest'')
    (and_then (gap_event lib ws record) (\<lambda>(event, remove_it).
     and_then (gap_post_states lib record receipt event) (\<lambda>post_states.
     fail_if (length (filter (\<lambda>r. aj_workspace_id r = ws) (db_apply_journal db)) \<noteq> 1)
       (StreamInvariant ''legacy_live_event_gap_journal_count'')
    (fail_if (list_ex (\<lambda>r. ss_workspace_id r = ws) (db_stream_state db) \<or>
              list_ex (\<lambda>r. sr_workspace_id r = ws) (db_stream_entries db) \<or>
              list_ex (\<lambda>r. si_workspace_id r = ws) (db_stream_revision_items db) \<or>
              list_ex (\<lambda>r. sc_workspace_id r = ws) (db_stream_conflicts db))
       (StreamInvariant ''legacy_live_event_gap_active_stream'')
    (and_then (gap_cursor ws client (ev_revision event) db) (\<lambda>(last_ack, last_applied).
     fail_if (list_ex (\<lambda>r. ao_revision r = ev_revision event) (db_applied_operations db))
       (StreamInvariant ''legacy_live_event_gap_receipt_present'')
    (and_then (gap_states (sy_store lib) ws db post_states) (\<lambda>_.
     and_then (canonical_json (lib_mutation (sy_store lib)) (ev_mutation event)) (\<lambda>mutation_json.
     let mutation_digest = body_digest (sy_store lib) mutation_json in
     and_then (if remove_it then gap_outbox ws client event mutation_json mutation_digest db else Ok ()) (\<lambda>_.
     Ok \<lparr>vg_event = event, vg_remove_outbox = remove_it, vg_post_states = post_states, vg_mutation_json = mutation_json,
         vg_mutation_digest = mutation_digest, vg_last_ack = last_ack, vg_last_applied = last_applied\<rparr>))))))))))))"

definition preflight_legacy_live_event_gap :: "system_lib \<Rightarrow> ApplyJournalRecord \<Rightarrow> SqliteState \<Rightarrow> (unit, SyncError) result" where
  "preflight_legacy_live_event_gap lib record st =
     and_then (apply_journal (aj_apply_id record) st) (\<lambda>found.
     and_then (ok_or found (ProtocolInvariant ''apply_journal_not_found'')) (\<lambda>persisted.
     fail_if (persisted \<noteq> record) OperationChanged
    (and_then (validate_legacy_live_event_gap lib (st_workspace_id st) (st_client_id st) record Preflight (st_conn st)) (\<lambda>_.
     Ok ()))))"

definition remove_gap_outbox :: "WorkspaceId \<Rightarrow> ClientId \<Rightarrow> ValidatedLegacyLiveEventGap \<Rightarrow> unit tx" where
  "remove_gap_outbox ws client gap db =
     (let hit = (\<lambda>r. outbox_key r = (client, ev_operation_id (vg_event gap)) \<and> ob_workspace_id r = ws \<and>
            ob_body_json r = vg_mutation_json gap \<and> ob_body_digest r = vg_mutation_digest gap)
      in fail_if (length (filter hit (db_outbox db)) \<noteq> 1) (ProtocolInvariant ''legacy_live_event_gap_outbox_changed'')
        (Ok ((), db\<lparr>db_outbox := sql_delete hit (db_outbox db)\<rparr>)))"

definition move_cursor_back :: "WorkspaceId \<Rightarrow> ClientId \<Rightarrow> ValidatedLegacyLiveEventGap \<Rightarrow> unit tx" where
  "move_cursor_back ws client gap db =
     (let hit = (\<lambda>r. wc_workspace_id r = ws \<and> wc_client_id r = client \<and> wc_last_ack_revision r = vg_last_ack gap \<and>
            wc_last_applied_revision r = vg_last_applied gap \<and> wc_pending_ack_revision r = Some (vg_last_applied gap))
      in fail_if (length (filter hit (db_workspace_cursor db)) \<noteq> 1) (StreamInvariant ''legacy_live_event_gap_cursor_changed'')
        (Ok ((), db\<lparr>db_workspace_cursor := sql_update hit
           (\<lambda>r. r\<lparr>wc_last_applied_revision := ev_revision (vg_event gap), wc_pending_ack_revision := None\<rparr>)
           (db_workspace_cursor db)\<rparr>)))"

definition commit_legacy_live_event_gap_tx :: "system_lib \<Rightarrow> WorkspaceId \<Rightarrow> ClientId \<Rightarrow> ApplyJournalRecord \<Rightarrow> unit tx" where
  "commit_legacy_live_event_gap_tx lib ws client record =
     tx_then (put_apply_journal_tx ws record) (\<lambda>_ db.
     and_then (validate_legacy_live_event_gap lib ws client record Commit db) (\<lambda>gap.
     let event = vg_event gap in
     tx_then (put_states lib ws (vg_post_states gap)) (\<lambda>_ db.
     and_then (applied_event_digest (sy_engine lib) event) (\<lambda>result_digest.
     tx_seq
       [record_applied_operation_tx (sy_store lib)
          \<lparr>aw_origin_client_id = ev_origin_client_id event, aw_operation_id = ev_operation_id event,
           aw_revision = ev_revision event, aw_body_digest = result_digest, aw_receipt_kind = MutationResult,
           aw_mutation_json = Some (vg_mutation_json gap), aw_legacy_body_digest = None\<rparr>,
        remove_provisional_mutation_acceptance_tx (ev_origin_client_id event) (ev_operation_id event),
        tx_when (vg_remove_outbox gap) (remove_gap_outbox ws client gap),
        move_cursor_back ws client gap,
        set_apply_stage_tx ws (aj_apply_id record) DatabaseCommitted] db)) db))"

definition commit_legacy_live_event_gap ::
    "system_lib \<Rightarrow> ApplyJournalRecord \<Rightarrow> SqliteState \<Rightarrow> (unit, SyncError) result \<times> SqliteState" where
  "commit_legacy_live_event_gap lib record st =
     transaction (commit_legacy_live_event_gap_tx lib (st_workspace_id st) (st_client_id st) record) st"

section \<open>Recovery\<close>

text \<open>The receipt matches what is in the workspace now, entry by entry.\<close>

fun receipt_entries_match ::
    "system_lib \<Rightarrow> (WorkspacePath \<times> ObservedEntry option \<times> WorkspaceContentHash option) list \<Rightarrow> bool engine" where
  "receipt_entries_match lib [] = give True"
| "receipt_entries_match lib ((path, expected, expected_hash) # entries) =
     then_do (inspect lib path) (\<lambda>observed.
     if observed \<noteq> expected then give False
     else
       then_do (case (observed, expected_hash) of
           (Some observed, Some hash) \<Rightarrow>
             then_do (observed_content_hash lib observed) (\<lambda>actual. give (actual = Some hash))
         | _ \<Rightarrow> give True) (\<lambda>same.
       if same then receipt_entries_match lib entries else give False))"

definition apply_receipt_matches_workspace :: "system_lib \<Rightarrow> ApplyReceipt \<Rightarrow> bool engine" where
  "apply_receipt_matches_workspace lib receipt =
     then_do (require (length (ar_touched receipt) = length (ar_postimages receipt) \<and>
                       length (ar_touched receipt) = length (ar_postimage_hashes receipt))
       (journal_corrupt ''filesystem_receipt_json'')) (\<lambda>_.
     receipt_entries_match lib (zip (ar_touched receipt) (zip (ar_postimages receipt) (ar_postimage_hashes receipt))))"

definition commit_recovered_apply :: "system_lib \<Rightarrow> ApplyCommitPlan \<Rightarrow> ApplyId \<Rightarrow> StreamItemStatus \<Rightarrow> unit engine" where
  "commit_recovered_apply lib plan apply_id status =
     (case plan of
        PlanSnapshotEntry entry \<Rightarrow> commit_entry_with_journal lib entry status [se_entry entry] (Some apply_id)
      | PlanStreamEvent event remove_it \<Rightarrow>
          then_do (lift_result (post_states_of event)) (\<lambda>states.
          then_do (lift_result (applied_event_digest (sy_engine lib) event)) (\<lambda>d.
          commit_event_with_journal lib event status states d remove_it (Some apply_id)))
      | PlanLiveEvent event remove_it \<Rightarrow>
          then_do (lift_result (post_states_of event)) (\<lambda>states.
          then_do (lift_result (applied_event_digest (sy_engine lib) event)) (\<lambda>d.
          commit_live_event_with_journal lib event states d remove_it (Some apply_id)))
      | PlanStreamConflictResolved message \<Rightarrow>
          commit_conflict_resolved_with_journal lib message status ResolutionStream (Some apply_id)
      | PlanLiveConflictResolved message \<Rightarrow>
          commit_conflict_resolved_with_journal lib message status ResolutionLive (Some apply_id))"

fun operation_paths :: "FsOperation \<Rightarrow> WorkspacePath list" where
  "operation_paths (FsRename path new_path _ _ _ _) = [path, new_path]"
| "operation_paths (FsUpsertFile path _ _ _) = [path]"
| "operation_paths (FsMkdir path _ _) = [path]"
| "operation_paths (FsUpsertSymlink path _ _ _) = [path]"
| "operation_paths (FsDelete path _) = [path]"

definition change_at :: "system_lib \<Rightarrow> WorkspacePath \<Rightarrow> FsChange engine" where
  "change_at lib path =
     then_do (inspect lib path) (\<lambda>observed. give (if observed \<noteq> None then Update path else FsChange.Delete path))"

fun missing_entries ::
    "system_lib \<Rightarrow> WorkspacePath \<Rightarrow> DirectorySnapshotEntry list \<Rightarrow> FsChange list \<Rightarrow> FsChange list engine" where
  "missing_entries lib root [] changes = give changes"
| "missing_entries lib root (entry # entries) changes =
     then_do (lift_result (map_err (\<lambda>_. journal_corrupt ''filesystem_operation_json'')
       (path_parse (lib_nfc (sy_store lib)) (path_str root @ ''/'' @ path_str (dn_relative_path entry))))) (\<lambda>path.
     then_do (inspect lib path) (\<lambda>observed.
     missing_entries lib root entries
       (if observed = None \<and> FsChange.Delete path \<notin> set changes then changes @ [FsChange.Delete path] else changes)))"

fun missing_in_snapshots ::
    "system_lib \<Rightarrow> (WorkspacePath \<times> DirectorySnapshot) list \<Rightarrow> FsChange list \<Rightarrow> FsChange list engine" where
  "missing_in_snapshots lib [] changes = give changes"
| "missing_in_snapshots lib ((root, snapshot) # snapshots) changes =
     then_do (inspect lib root) (\<lambda>observed.
     if observed = None then missing_in_snapshots lib snapshots changes
     else
       then_do (missing_entries lib root (ds_entries snapshot) changes) (\<lambda>changes.
       missing_in_snapshots lib snapshots changes))"

definition preserve_recovered_local_intent :: "system_lib \<Rightarrow> FsOperation \<Rightarrow> unit engine" where
  "preserve_recovered_local_intent lib operation =
     (let snapshots = operation_directory_snapshots operation in
      then_do (if snapshots = [] then collect_do (change_at lib) (operation_paths operation) else scan_changes lib) (\<lambda>changes.
      then_do (missing_in_snapshots lib snapshots changes) (\<lambda>changes.
      record_local_changes lib changes)))"

text \<open>
  The receipt of the change: made now for a row whose change may not have happened, or read from the row. The flag
  says that the workspace has something else, so that the local content must be kept.
\<close>

definition empty_receipt :: "ApplyId \<Rightarrow> ApplyReceipt" where
  "empty_receipt apply_id = \<lparr>ar_apply_id = apply_id_uuid apply_id, ar_touched = [], ar_postimages = [],
     ar_postimage_hashes = [], ar_cleanup_name = None\<rparr>"

definition redo_apply :: "system_lib \<Rightarrow> ApplyId \<Rightarrow> FsOperation \<Rightarrow> (ApplyReceipt \<times> bool) engine" where
  "redo_apply lib apply_id operation =
     then_do (ask (\<lambda>n. Ok (sy_apply lib n apply_id operation))) (\<lambda>outcome.
     case outcome of
       Ok receipt \<Rightarrow> give (receipt, False)
     | Err e \<Rightarrow>
         if e = ContentMismatch then
           then_do (ask_fs (\<lambda>n. sy_abandon lib n apply_id operation)) (\<lambda>_. give (empty_receipt apply_id, True))
         else lift_result (Err (Filesystem e)))"

definition recover_receipt ::
    "system_lib \<Rightarrow> ApplyJournalRecord \<Rightarrow> ApplyStage \<Rightarrow> FsOperation \<Rightarrow> (ApplyReceipt \<times> ApplyJournalRecord \<times> bool) engine" where
  "recover_receipt lib record stage operation =
     (let apply_id = aj_apply_id record in
      if stage = FilesystemStarted then
        then_do (redo_apply lib apply_id operation) (\<lambda>(receipt, preserve).
        then_do (lift_result (canonical_json (sy_receipt lib) receipt)) (\<lambda>json.
        then_do (write_state (set_apply_filesystem_applied apply_id json)) (\<lambda>_.
        give (receipt, record\<lparr>aj_stage := FilesystemApplied, aj_filesystem_receipt_json := Some json\<rparr>, preserve))))
      else
        then_do (lift_result (ok_or (aj_filesystem_receipt_json record) (journal_corrupt ''filesystem_receipt_json''))) (\<lambda>json.
        then_do (lift_result (parse_apply_journal_json (sy_receipt lib) json ''filesystem_receipt_json'')) (\<lambda>receipt.
        then_do (require (ApplyId (ar_apply_id receipt) = apply_id) (journal_corrupt ''filesystem_receipt_json'')) (\<lambda>_.
        then_do (if ar_touched receipt = [] then give False else apply_receipt_matches_workspace lib receipt) (\<lambda>same.
        if same then give (receipt, record, False)
        else
          then_do (ask_fs (\<lambda>n. sy_abandon lib n apply_id operation)) (\<lambda>_. give (receipt, record, True)))))))"

definition recovering_legacy_live_gap :: "ApplyJournalRecord \<Rightarrow> ApplyCommitPlan \<Rightarrow> SqliteState \<Rightarrow> (bool, SyncError) result" where
  "recovering_legacy_live_gap record plan st =
     (if aj_stage record \<notin> {Prepared, FilesystemStarted, FilesystemApplied} then Ok False
      else
        case plan of
          PlanLiveEvent event _ \<Rightarrow> and_then (cursor st) (\<lambda>c. Ok (ev_revision event < wc_last_applied_revision c))
        | _ \<Rightarrow> Ok False)"

text \<open>A checked row is taken to its end.\<close>

definition finish_recovery :: "system_lib \<Rightarrow> ApplyJournalRecord \<Rightarrow> FsOperation \<Rightarrow> ApplyCommitPlan \<Rightarrow> bool \<Rightarrow> unit engine" where
  "finish_recovery lib record operation plan gap =
     (let apply_id = aj_apply_id record in
      then_do (if aj_stage record = Prepared
               then then_do (write_state (set_apply_stage apply_id FilesystemStarted)) (\<lambda>_. give FilesystemStarted)
               else give (aj_stage record)) (\<lambda>stage.
      then_do (recover_receipt lib record stage operation) (\<lambda>(receipt, commit_record, diverged).
      let preserve = (diverged \<or> ar_touched receipt = []) in
      then_do (if gap then write_state (commit_legacy_live_event_gap lib commit_record)
               else if stage = FilesystemStarted \<or> stage = FilesystemApplied
               then commit_recovered_apply lib plan apply_id (if preserve then Preserved else Applied)
               else give ()) (\<lambda>_.
      then_do (if preserve then preserve_recovered_local_intent lib operation else give ()) (\<lambda>_.
      then_do (if stage \<noteq> Finalized
               then then_do (ask_fs (\<lambda>n. sy_finalize lib n receipt)) (\<lambda>_. write_state (set_apply_stage apply_id Finalized))
               else give ()) (\<lambda>_.
      write_state (remove_apply_journal apply_id)))))))"

definition recover_record :: "system_lib \<Rightarrow> ApplyJournalRecord \<Rightarrow> unit engine" where
  "recover_record lib record =
     then_do (read_state (\<lambda>st. fail_if (aj_workspace_id record \<noteq> st_workspace_id st) (journal_corrupt ''workspace_id'') (Ok ()))) (\<lambda>_.
     if aj_operation_body_digest record = replicate 32 0 then
       then_do (require (is_migrated_legacy_apply_journal record) (journal_corrupt ''operation_body_digest'')) (\<lambda>_.
       recover_legacy_apply_journal lib record)
     else
       then_do (read_state (journal_checks lib record)) (\<lambda>(operation, operation_spec, post_states, plan).
       then_do (read_state (recovering_legacy_live_gap record plan)) (\<lambda>gap.
       then_do (if gap then read_state (preflight_legacy_live_event_gap lib record) else give ()) (\<lambda>_.
       if aj_stage record = Prepared \<and> aj_apply_namespace record = SnapshotEntry
       then write_state (remove_apply_journal (aj_apply_id record))
       else finish_recovery lib record operation plan gap))))"

definition recover_apply_journals :: "system_lib \<Rightarrow> unit engine" where
  "recover_apply_journals lib =
     then_do (read_state (apply_journals (sy_store lib))) (\<lambda>records. each_do (recover_record lib) records)"

end
