(* ===== verification/Engine_Cursor.thy ===== *)
theory Engine_Cursor
  imports Engine_Frame Engine_Recovery
begin

text \<open>
  The cursor over the whole life of a store. Besides the cursor operations of \<open>Sync_Durable\<close> there is one operation
  that writes the cursor: the repair of the gap that an older version left (\<open>SqliteState::commit_legacy_live_event_gap\<close>),
  which takes the applied revision back to the event that was skipped. A \<open>store_step\<close> is any of the two, or a
  transaction that does not touch the cursor table.
\<close>

section \<open>Repair of a gap\<close>

lemma less_next: "x \<noteq> - 1 \<Longrightarrow> (x :: u64) < x + 1"
  using unatSuc [of x] by (simp add: word_less_nat_alt add.commute eq_neg_iff_add_eq_0)

lemma gap_cursor_Ok_iff:
  "gap_cursor ws client revision db = Ok (last_ack, last_applied) \<longleftrightarrow>
     (\<exists>c. cursor_row ws db = Some c \<and> wc_client_id c = client \<and> wc_last_ack_revision c = last_ack \<and>
        wc_last_applied_revision c = last_applied \<and> wc_pending_ack_revision c = Some last_applied \<and>
        revision_get last_ack \<noteq> - 1 \<and> revision = WorkspaceRevision (revision_get last_ack + 1) \<and> revision < last_applied)"
  by (cases "cursor_row ws db") (auto simp: gap_cursor_def Let_def result_simps not_le)

lemma validated_gap_cursor:
  "validate_legacy_live_event_gap lib ws client record phase db = Ok gap \<Longrightarrow>
     gap_cursor ws client (ev_revision (vg_event gap)) db = Ok (vg_last_ack gap, vg_last_applied gap)"
  by (auto simp: validate_legacy_live_event_gap_def Let_def result_simps)

lemma move_cursor_back_single:
  "db_workspace_cursor db = [c] \<Longrightarrow> move_cursor_back ws client gap db = Ok (u, db') \<Longrightarrow>
     db_workspace_cursor db' = [c\<lparr>wc_last_applied_revision := ev_revision (vg_event gap), wc_pending_ack_revision := None\<rparr>]"
  by (auto simp: move_cursor_back_def Let_def sql_update_def result_simps split: if_splits)

lemma remove_gap_outbox_still: "tx_still (remove_gap_outbox ws client gap)"
  by (rule tx_stillI) (auto simp: remove_gap_outbox_def Let_def result_simps)

lemma remove_provisional_still: "tx_still (remove_provisional_mutation_acceptance_tx client op)"
  by (rule tx_stillI) (auto simp: remove_provisional_mutation_acceptance_tx_def)

lemma record_applied_tx_still: "tx_still (record_applied_operation_tx lib w)"
  by (rule tx_stillI) (rule record_applied_still)

lemma tx_stillD: "tx_still f \<Longrightarrow> f db = Ok (v, db') \<Longrightarrow> db_workspace_cursor db' = db_workspace_cursor db"
  by (auto simp: tx_still_def)

definition gap_closed :: "WorkspaceCursor \<Rightarrow> WorkspaceCursor" where
  "gap_closed c = c\<lparr>wc_last_applied_revision := WorkspaceRevision (revision_get (wc_last_ack_revision c) + 1),
     wc_pending_ack_revision := None\<rparr>"

lemma gap_commit_cursor:
  assumes run: "commit_legacy_live_event_gap_tx lib ws client record db = Ok (u, db')"
    and c: "db_workspace_cursor db = [c]" "wc_workspace_id c = ws"
  shows "db_workspace_cursor db' = [gap_closed c] \<and> wc_last_ack_revision c < wc_last_applied_revision (gap_closed c) \<and>
    wc_last_applied_revision (gap_closed c) < wc_last_applied_revision c \<and>
    wc_pending_ack_revision c = Some (wc_last_applied_revision c)"
proof -
  obtain gap db1 db2 db3 db4 db5 db6 u1 u2 u3 u4 u5 u6 w where
      steps: "put_apply_journal_tx ws record db = Ok (u1, db1)" "put_states lib ws (vg_post_states gap) db1 = Ok (u2, db2)"
        "record_applied_operation_tx (sy_store lib) w db2 = Ok (u3, db3)"
        "remove_provisional_mutation_acceptance_tx (ev_origin_client_id (vg_event gap)) (ev_operation_id (vg_event gap)) db3 = Ok (u4, db4)"
        "tx_when (vg_remove_outbox gap) (remove_gap_outbox ws client gap) db4 = Ok (u5, db5)"
        "move_cursor_back ws client gap db5 = Ok (u6, db6)"
        "set_apply_stage_tx ws (aj_apply_id record) DatabaseCommitted db6 = Ok (u, db')"
      and gap: "validate_legacy_live_event_gap lib ws client record Commit db1 = Ok gap"
    using run unfolding commit_legacy_live_event_gap_tx_def Let_def
    by (auto simp: tx_then_Ok_iff result_simps tx_done_def)
  have "db_workspace_cursor db1 = [c]" using tx_stillD [OF put_apply_journal_still steps(1)] c by simp
  moreover from this have at: "db_workspace_cursor db5 = [c]"
    using tx_stillD [OF put_states_still steps(2)] tx_stillD [OF record_applied_tx_still steps(3)]
      tx_stillD [OF remove_provisional_still steps(4)] tx_stillD [OF tx_still_when [OF remove_gap_outbox_still] steps(5)]
    by simp
  ultimately have "wc_last_applied_revision c = vg_last_applied gap" "wc_pending_ack_revision c = Some (vg_last_applied gap)"
      "revision_get (wc_last_ack_revision c) \<noteq> - 1" "ev_revision (vg_event gap) < wc_last_applied_revision c"
      "ev_revision (vg_event gap) = WorkspaceRevision (revision_get (wc_last_ack_revision c) + 1)"
    using validated_gap_cursor [OF gap] c by (auto simp: gap_cursor_Ok_iff cursor_row_single)
  moreover from this have "wc_last_ack_revision c < ev_revision (vg_event gap)"
    by (cases "wc_last_ack_revision c") (simp add: less_WorkspaceRevision_def less_next)
  ultimately show ?thesis
    using move_cursor_back_single [OF at steps(6)] tx_stillD [OF set_apply_stage_still steps(7)] by (simp add: gap_closed_def)
qed

text \<open>The rows that the engine writes meet the condition of the journal steps.\<close>

lemma journal_record_consistent:
  "journal_record lib ws apply_id stream kind key spec states plan operation = Ok r \<Longrightarrow> receipt_consistent r"
  by (auto simp: journal_record_def receipt_consistent_def result_simps Let_def)

section \<open>Life of the cursor\<close>

inductive store_step :: "WorkspaceId \<Rightarrow> ClientId \<Rightarrow> database \<Rightarrow> database \<Rightarrow> bool" for ws client where
  step_cursor: "cursor_step ws client db db' \<Longrightarrow> store_step ws client db db'"
| step_gap: "commit_legacy_live_event_gap_tx lib ws client record db = Ok (u, db') \<Longrightarrow> store_step ws client db db'"
| step_elsewhere: "db_workspace_cursor db' = db_workspace_cursor db \<Longrightarrow> store_step ws client db db'"

definition cursor_onward :: "WorkspaceCursor \<Rightarrow> WorkspaceCursor \<Rightarrow> bool" where
  "cursor_onward c c' \<longleftrightarrow>
     wc_workspace_id c' = wc_workspace_id c \<and> wc_client_id c' = wc_client_id c \<and>
     wc_last_ack_revision c \<le> wc_last_ack_revision c' \<and>
     (wc_last_applied_revision c \<le> wc_last_applied_revision c' \<or> wc_last_ack_revision c < wc_last_applied_revision c')"

lemma cursor_onward_trans: "cursor_onward a b \<Longrightarrow> cursor_onward b c \<Longrightarrow> cursor_onward a c"
  unfolding cursor_onward_def by (elim conjE disjE) auto

lemma store_step_onward:
  assumes "store_step ws client db db'" "db_workspace_cursor db = [c]" "wc_workspace_id c = ws" "wc_client_id c = client"
  shows "\<exists>c'. db_workspace_cursor db' = [c'] \<and> cursor_onward c c'"
  using assms(1)
proof cases
  case step_cursor
  then show ?thesis using cursor_step_later assms(2-4) unfolding cursor_later_def cursor_onward_def by blast
next
  case (step_gap lib journal u)
  with gap_commit_cursor assms(2,3) have
    "db_workspace_cursor db' = [gap_closed c]" "wc_last_ack_revision c < wc_last_applied_revision (gap_closed c)" by blast+
  then show ?thesis by (simp add: cursor_onward_def gap_closed_def)
next
  case step_elsewhere
  then show ?thesis using assms(2) by (simp add: cursor_onward_def)
qed

lemma store_steps_onward:
  assumes "(store_step ws client)\<^sup>*\<^sup>* db db'" "db_workspace_cursor db = [c]" "wc_workspace_id c = ws" "wc_client_id c = client"
  shows "\<exists>c'. db_workspace_cursor db' = [c'] \<and> cursor_onward c c'"
  using assms(1)
proof (induction rule: rtranclp_induct)
  case base
  with assms show ?case by (simp add: cursor_onward_def)
next
  case (step a b)
  then obtain c' where c': "db_workspace_cursor a = [c']" "cursor_onward c c'" by blast
  with store_step_onward [OF step.hyps(2) c'(1)] assms(3,4) obtain c'' where
    "db_workspace_cursor b = [c'']" "cursor_onward c' c''" by (auto simp: cursor_onward_def)
  with cursor_onward_trans [OF c'(2)] show ?case by blast
qed

text \<open>
  C35: The identity and the cursor of a store are durable. Opening an empty store under a workspace and a client
  writes the cursor at revision zero. Whatever the store does next (the cursor operations, the repair of a legacy gap
  by the recovery, transactions that do not write the cursor), the cursor can be read and belongs to that workspace
  and client, and the acknowledged revision never moves back. The applied revision does not move back either, as long as
  no gap is repaired. The repair of a gap is the one exception: it is only accepted while the applied
  revision waits for its acknowledgement and lies more than one above the acknowledged one; it sets the applied revision
  to the one right after the acknowledged revision, forgets the pending acknowledgement and changes nothing else of the
  cursor, so the applied revision never falls to what was acknowledged before. Opening the store again under the same
  identity changes nothing, and under another identity it is refused.
\<close>

theorem cursor_durable:
  assumes fresh: "db_workspace_cursor (st_conn st) = []"
    and opened: "transaction (ensure_identity ws client) st = (Ok (), st1)" and own: "st_workspace_id st = ws"
    and first: "(store_step ws client)\<^sup>*\<^sup>* (st_conn st1) db" and second: "(store_step ws client)\<^sup>*\<^sup>* db db'"
  shows "\<exists>c c'. cursor st1 = Ok \<lparr>wc_workspace_id = ws, wc_client_id = client, wc_last_ack_revision = ZERO,
      wc_last_applied_revision = ZERO, wc_pending_ack_revision = None, wc_pending_segment_ack_revision = None\<rparr> \<and>
    cursor (st1\<lparr>st_conn := db\<rparr>) = Ok c \<and> cursor (st1\<lparr>st_conn := db'\<rparr>) = Ok c' \<and>
    wc_workspace_id c' = ws \<and> wc_client_id c' = client \<and>
    wc_last_ack_revision c \<le> wc_last_ack_revision c' \<and>
    (wc_last_applied_revision c \<le> wc_last_applied_revision c' \<or> wc_last_ack_revision c < wc_last_applied_revision c') \<and>
    ((cursor_step ws client)\<^sup>*\<^sup>* db db' \<longrightarrow> wc_last_applied_revision c \<le> wc_last_applied_revision c') \<and>
    (\<forall>lib record db''. commit_legacy_live_event_gap_tx lib ws client record db' = Ok ((), db'') \<longrightarrow>
      wc_pending_ack_revision c' = Some (wc_last_applied_revision c') \<and>
      wc_last_ack_revision c' < WorkspaceRevision (revision_get (wc_last_ack_revision c') + 1) \<and>
      WorkspaceRevision (revision_get (wc_last_ack_revision c') + 1) < wc_last_applied_revision c' \<and>
      cursor (st1\<lparr>st_conn := db''\<rparr>) = Ok (c'\<lparr>wc_last_applied_revision :=
        WorkspaceRevision (revision_get (wc_last_ack_revision c') + 1), wc_pending_ack_revision := None\<rparr>)) \<and>
    (\<forall>ws' client'. ensure_identity ws' client' db' =
      (if ws' = ws \<and> client' = client then Ok ((), db') else Err (InvalidConfiguration ''identity_mismatch'')))"
proof -
  let ?c0 = "\<lparr>wc_workspace_id = ws, wc_client_id = client, wc_last_ack_revision = ZERO,
      wc_last_applied_revision = ZERO, wc_pending_ack_revision = None, wc_pending_segment_ack_revision = None\<rparr>"
  have c0: "db_workspace_cursor (st_conn st1) = [?c0]" "st_workspace_id st1 = ws"
    using opened fresh own by (auto simp: transaction_cases ensure_identity_def result_simps Let_def cursor_row_def)
  then obtain c where c: "db_workspace_cursor db = [c]" "cursor_onward ?c0 c" using store_steps_onward [OF first c0(1)] by auto
  then have own_c: "wc_workspace_id c = ws" "wc_client_id c = client" by (simp_all add: cursor_onward_def)
  obtain c' where c': "db_workspace_cursor db' = [c']" "cursor_onward c c'"
    using store_steps_onward [OF second c(1) own_c] by blast
  have ident: "wc_workspace_id c' = ws" "wc_client_id c' = client" using own_c c'(2) by (simp_all add: cursor_onward_def)
  have "ensure_identity ws' client' db' =
      (if ws' = ws \<and> client' = client then Ok ((), db') else Err (InvalidConfiguration ''identity_mismatch''))" for ws' client'
    using c'(1) ident by (auto simp: ensure_identity_def cursor_row_def)
  moreover have "wc_last_applied_revision c \<le> wc_last_applied_revision c'" if "(cursor_step ws client)\<^sup>*\<^sup>* db db'"
    using cursor_steps_later [OF that c(1) own_c] c'(1) by (auto simp: cursor_later_def)
  moreover have readable: "cursor (st1\<lparr>st_conn := x\<rparr>) = Ok y" if "db_workspace_cursor x = [y]" "wc_workspace_id y = ws" for x y
    using that c0(2) by (simp add: cursor_def cursor_row_single)
  moreover have "cursor st1 = Ok ?c0" using readable [OF c0(1)] by simp
  moreover have "wc_pending_ack_revision c' = Some (wc_last_applied_revision c')"
      "wc_last_ack_revision c' < wc_last_applied_revision (gap_closed c')"
      "wc_last_applied_revision (gap_closed c') < wc_last_applied_revision c'" "cursor (st1\<lparr>st_conn := db''\<rparr>) = Ok (gap_closed c')"
      if "commit_legacy_live_event_gap_tx lib ws client journal db' = Ok ((), db'')" for lib journal db''
    using gap_commit_cursor [OF that c'(1) ident(1)] ident(1) by (auto intro!: readable simp: gap_closed_def)
  ultimately show ?thesis
    using c'(2) ident by (intro exI [of _ c] exI [of _ c'])
      (simp add: readable [OF c(1) own_c(1)] readable [OF c'(1) ident(1)] cursor_onward_def gap_closed_def)
qed

theorem cursor_durable_witness:
  "\<exists>st1 db c. transaction (ensure_identity demo_ws demo_client) (demo_state\<lparr>st_conn := empty_database\<rparr>) = (Ok (), st1) \<and>
     set_last_applied_revision_tx demo_ws (WorkspaceRevision 3) (st_conn st1) = Ok ((), db) \<and>
     cursor (st1\<lparr>st_conn := db\<rparr>) = Ok c \<and> wc_last_applied_revision c = WorkspaceRevision 3 \<and>
     ensure_identity demo_ws (ClientId 9) db = Err (InvalidConfiguration ''identity_mismatch'')"
proof -
  let ?st = "demo_state\<lparr>st_conn := empty_database\<rparr>"
  let ?c = "\<lparr>wc_workspace_id = demo_ws, wc_client_id = demo_client, wc_last_ack_revision = ZERO,
    wc_last_applied_revision = ZERO, wc_pending_ack_revision = None, wc_pending_segment_ack_revision = None\<rparr>"
  let ?db = "\<lambda>r. empty_database\<lparr>db_workspace_cursor := [?c\<lparr>wc_last_applied_revision := r\<rparr>]\<rparr>"
  have fresh: "db_workspace_cursor (st_conn ?st) = []" "st_workspace_id ?st = demo_ws"
    by (simp_all add: empty_database_def demo_state_def)
  have opened: "transaction (ensure_identity demo_ws demo_client) ?st = (Ok (), ?st\<lparr>st_conn := ?db ZERO\<rparr>)"
    by (simp add: transaction_def ensure_identity_def empty_database_def cursor_row_def Let_def)
  have set: "set_last_applied_revision_tx demo_ws (WorkspaceRevision 3) (?db ZERO) = Ok ((), ?db (WorkspaceRevision 3))"
    by (simp add: set_last_applied_revision_tx_def cursor_row_def update_cursor_def sql_update_def
        less_WorkspaceRevision_def ZERO_def)
  then have "(store_step demo_ws demo_client)\<^sup>*\<^sup>* (st_conn (?st\<lparr>st_conn := ?db ZERO\<rparr>)) (?db (WorkspaceRevision 3))"
    by (auto intro: store_step.step_cursor cursor_step.step_cursor_applied)
  from cursor_durable [OF fresh(1) opened fresh(2) this rtranclp.rtrancl_refl]
  have "ensure_identity demo_ws (ClientId 9) (?db (WorkspaceRevision 3)) = Err (InvalidConfiguration ''identity_mismatch'')"
    by (auto simp: demo_client_def)
  moreover have "cursor (?st\<lparr>st_conn := ?db (WorkspaceRevision 3)\<rparr>) = Ok (?c\<lparr>wc_last_applied_revision := WorkspaceRevision 3\<rparr>)"
    by (simp add: cursor_def cursor_row_def demo_state_def)
  ultimately show ?thesis using opened set
    by (intro exI [of _ "?st\<lparr>st_conn := ?db ZERO\<rparr>"] exI [of _ "?db (WorkspaceRevision 3)"]
        exI [of _ "?c\<lparr>wc_last_applied_revision := WorkspaceRevision 3\<rparr>"]) simp
qed

end
