(* ===== verification/Engine_Safe.thy ===== *)
theory Engine_Safe
  imports Engine_Frame
begin

text \<open>
  The operations of the engine that move the cursor, and the queue of live items. Whatever the server sends, the
  files contain and the user does, a revision is only acknowledged after it was applied, and the queue stays
  within its limits, in the order of the revisions.
\<close>

section \<open>Transactions that move the cursor\<close>

named_theorems chains \<open>transactions, statement by statement, that keep the cursor sound\<close>

lemma chain_nil [chains]: "lifts ws r (tx_seq []) r"
  by (auto intro: lifts_still tx_stills)

lemma chain_still [chains]: "tx_still f \<Longrightarrow> lifts ws r (tx_seq fs) r' \<Longrightarrow> lifts ws r (tx_seq (f # fs)) r'"
  unfolding tx_seq.simps by (rule lifts_then [OF lifts_still])

lemma chain_applied [chains]:
  "lifts ws revision (tx_seq fs) r' \<Longrightarrow> lifts ws r (tx_seq (set_last_applied_revision_tx ws revision # fs)) r'"
  unfolding tx_seq.simps by (rule lifts_then [OF lifts_applied])

lemma chain_keep: "lifts ws r f r \<Longrightarrow> lifts ws r (tx_seq fs) r' \<Longrightarrow> lifts ws r (tx_seq (f # fs)) r'"
  unfolding tx_seq.simps by (rule lifts_then)

lemma lifts_when: "(c \<Longrightarrow> lifts ws r f r) \<Longrightarrow> lifts ws r (tx_when c f) r"
  by (auto simp: tx_when_def intro: lifts_still tx_stills)

lemma lifts_pending_same: "lifts ws r (set_pending_ack_tx ws r) r"
  by (rule lifts_pending) simp

lemmas chain_pending [chains] = chain_keep [OF lifts_pending_same] chain_keep [OF lifts_when [OF lifts_pending_same]]

text \<open>An applied revision that is not older than the cursor was when it was read.\<close>

lemma lifts_max: "lifts ws r (tx_when (revision > r) (set_last_applied_revision_tx ws revision)) (max r revision)"
proof (cases "revision > r")
  case True
  then show ?thesis using lifts_applied by (simp add: tx_when_def max_absorb2 less_imp_le)
next
  case False
  then show ?thesis by (simp add: tx_when_def lifts_still tx_still_done max_absorb1 not_less)
qed

lemma lifts_pending_max: "lifts ws (max r revision) (set_pending_ack_tx ws revision) (max r revision)"
  by (rule lifts_pending) simp

lemma lifts_receive:
  "lifts ws r (tx_seq [tx_when (revision > r) (set_last_applied_revision_tx ws revision),
     tx_when c (set_pending_ack_tx ws revision)]) r"
  unfolding tx_seq.simps
  by (rule lifts_lower, rule lifts_then [OF lifts_max], rule lifts_then [OF lifts_when [OF lifts_pending_max]],
      rule lifts_still, rule tx_stills) simp

lemma inner_mark_live [inners]: "inner en (mark_live_event_applied revision en)"
  unfolding mark_live_event_applied_def Let_def
proof (rule inner_cursor, intro inner_if inner_pair)
  fix c assume c: "cursor_sound en c"
  show "inner en (write_state (transaction (tx_then
      (if revision > wc_last_applied_revision c then set_last_applied_revision_tx (st_workspace_id (en_state en)) revision
       else tx_done)
      (\<lambda>_. if case wc_pending_ack_revision c of None \<Rightarrow> True | Some waiting \<Rightarrow> revision > waiting
        then set_pending_ack_tx (st_workspace_id (en_state en)) revision else tx_done))) en)"
    unfolding tx_when_def [symmetric]
    by (rule inner_lifts [OF lifts_then [OF lifts_max lifts_when [OF lifts_pending_max]]]) (use c in \<open>auto simp: cursor_sound_def\<close>)
qed

text \<open>The server confirms a revision that was asked for: a prefix of a stream, or what the cursor waits for.\<close>

lemma lifts_segment_acked: "revision \<le> r \<Longrightarrow>
    lifts ws r (tx_then (set_last_ack_revision_tx ws revision) (\<lambda>_. clear_pending_segment_ack_tx ws)) r"
  by (rule lifts_then [OF lifts_acked lifts_clear(2)])

lemma lifts_waiting_acked: "revision \<le> r \<Longrightarrow>
    lifts ws r (tx_then (set_last_ack_revision_tx ws revision) (\<lambda>_.
      if c then tx_then (clear_pending_ack_tx ws) (\<lambda>_. tx_then (clear_pending_segment_ack_tx ws) (\<lambda>_. clear_stream_tx ws))
      else tx_done)) r"
  by (rule lifts_then [OF lifts_acked], assumption)
    (simp add: lifts_still tx_still_done lifts_then [OF lifts_clear(1) lifts_then [OF lifts_clear(2) lifts_still]]
      clear_stream_still)

lemma inner_acked:
  assumes "cursor_sound en c" "lifts (st_workspace_id (en_state en)) (wc_last_applied_revision c) f (wc_last_applied_revision c)"
  shows "inner en (write_state (transaction f) en)"
  by (rule inner_lifts [OF assms(2)]) (use assms(1) in \<open>auto simp: cursor_sound_def\<close>)

lemma inner_ack_confirmed [inners]: "inner en (ack_confirmed message en)"
  unfolding ack_confirmed_def
proof (rule inner_then [OF inner_checks(3)], rule inner_then [OF inner_checks(1)], rule inner_then [OF inner_checks(4)],
    rule inner_cursor)
  fix u v w and en1 en2 en :: SyncEngine and c
  assume c: "cursor_sound en c"
  show "inner en ((let ws = st_workspace_id (en_state en); revision = ack_revision message in
     (case wc_pending_ack_revision c of
        None \<Rightarrow>
          if revision = wc_last_ack_revision c then give ()
          else if wc_pending_segment_ack_revision c = Some revision \<and> revision > wc_last_ack_revision c \<and>
                  revision \<le> wc_last_applied_revision c
          then write_state (transaction
                 (tx_then (set_last_ack_revision_tx ws revision) (\<lambda>_. clear_pending_segment_ack_tx ws)))
          else lift_result (Err (ProtocolInvariant ''ack_not_pending''))
      | Some waiting \<Rightarrow>
          if revision \<le> wc_last_ack_revision c \<or> revision > waiting \<or> revision > wc_last_applied_revision c
          then lift_result (Err (ProtocolInvariant ''ack_mismatch''))
          else write_state (transaction
                 (tx_then (set_last_ack_revision_tx ws revision) (\<lambda>_.
                  if revision = waiting
                  then tx_then (clear_pending_ack_tx ws) (\<lambda>_.
                       tx_then (clear_pending_segment_ack_tx ws) (\<lambda>_. clear_stream_tx ws))
                  else tx_done)))) en))"
    unfolding Let_def
    by (intro inner_option inner_if inner_pair inner_acked [OF c] lifts_segment_acked lifts_waiting_acked)
      (simp_all add: not_less)
qed

section \<open>Commits\<close>

lemma inner_event_legacy [inners]: "inner en (event_legacy lib event en)"
  unfolding event_legacy_def by (intro inners)

lemma ZERO_le: "ZERO \<le> r"
  by (simp add: ZERO_def less_eq_WorkspaceRevision_def)

lemma inner_chain: "(\<And>ws client. lifts ws ZERO (f ws client) r') \<Longrightarrow> inner en (transact f en)"
  by (rule inner_transact_lifts [OF _ ZERO_le])

lemma inner_commit_live [inners]:
  "inner en (commit_live_event_with_journal lib event states d remove_it apply_id en)"
  unfolding commit_live_event_with_journal_def
  by (rule inner_then [OF inner_event_legacy], rule inner_chain) (fast intro: chains tx_stills)

lemma inner_commit_entry [inners]: "inner en (commit_entry_with_journal lib entry status states apply_id en)"
  unfolding commit_entry_with_journal_def by (intro inners tx_stills)

lemma inner_preserve [inners]: "inner en (preserve_event lib event observed states d remove_it en)"
  unfolding preserve_event_def by (intro inners tx_stills)

lemma inner_preserve_live [inners]: "inner en (preserve_live_event lib event observed states d remove_it en)"
  unfolding preserve_live_event_def
  by (rule inner_then [OF inner_preserved], rule inner_then [OF inner_event_legacy], rule inner_chain)
    (fast intro: chains tx_stills)

lemma inner_commit_event [inners]:
  "inner en (commit_event_with_journal lib event status states d remove_it apply_id en)"
  unfolding commit_event_with_journal_def
proof (cases "status = Applied")
  case True
  show "inner en (then_do (event_legacy lib event) (\<lambda>legacy. transact (\<lambda>ws client. tx_seq
       [put_states lib ws states, record_event lib event d legacy,
        tx_when remove_it (remove_outbox_tx client (ev_operation_id event)),
        tx_when (status = Applied) (set_last_applied_revision_tx ws (ev_revision event)),
        tx_unit (put_stream_event_tx (sy_store lib) ws event status), commit_stage ws apply_id])) en)"
    unfolding True tx_when_def simp_thms if_True
    by (rule inner_then [OF inner_event_legacy], rule inner_chain) (fast intro: chains tx_stills)
next
  case False
  then show "inner en (then_do (event_legacy lib event) (\<lambda>legacy. transact (\<lambda>ws client. tx_seq
       [put_states lib ws states, record_event lib event d legacy,
        tx_when remove_it (remove_outbox_tx client (ev_operation_id event)),
        tx_when (status = Applied) (set_last_applied_revision_tx ws (ev_revision event)),
        tx_unit (put_stream_event_tx (sy_store lib) ws event status), commit_stage ws apply_id])) en)"
    by (simp only: tx_when_def [of False] if_False) (intro inners tx_stills)
qed

lemma inner_keep_newest [inners]: "inner en (keep_newest lib states en)"
proof (induction states arbitrary: en)
  case (Cons state states)
  show ?case unfolding keep_newest.simps by (intro inners Cons)
qed (unfold keep_newest.simps, rule inners)

lemma inner_non_regressing [inners]: "inner en (non_regressing_event_post_states lib event en)"
  unfolding non_regressing_event_post_states_def by (intro inners)

text \<open>An old event is settled late: its revision is below what was applied.\<close>

lemma inner_superseded:
  assumes old: "\<And>c. cursor_sound en c \<Longrightarrow> ev_revision event \<le> wc_last_applied_revision c"
  shows "inner en (settle_superseded_event lib event d legacy own remove_it source en)"
  unfolding settle_superseded_event_def
proof (rule inner_cursor, rule inner_then_cursor, intro inners)
  fix c v en1 c0 c1
  assume "cursor_sound en c" "cursor_sound en c0" and c1: "cursor_sound en1 c1" and later: "cursor_later c0 c1"
  then have r: "ev_revision event \<le> wc_last_applied_revision c'" if "cursor_sound en1 c'" for c'
    using old [of c0] that order_trans by (fastforce simp: cursor_sound_def cursor_later_def)
  show "inner en1 ((case v of (post_states, replacements) \<Rightarrow>
     transact (\<lambda>ws client. tx_seq
       [put_states lib ws post_states,
        record_event lib event d (Some legacy),
        tx_when remove_it (remove_outbox_tx client (ev_operation_id event)),
        put_replacements lib ws client replacements,
        (case source of
           SupersededLive \<Rightarrow>
             tx_when (ev_revision event > wc_last_ack_revision c \<and> newer_than (ev_revision event) (wc_pending_ack_revision c))
               (set_pending_ack_tx ws (ev_revision event))
         | SupersededStream \<Rightarrow>
             tx_unit (put_stream_event_tx (sy_store lib) ws event
               (if pr_mutations replacements = [] then Applied else Preserved)))])) en1)"
  proof (cases source)
    case SupersededLive
    show ?thesis unfolding SupersededLive SupersededEventSource.case
      by (intro inner_prod, rule inner_transact_lifts [OF _ r]) (fast intro: chains tx_stills)+
  next
    case SupersededStream
    show ?thesis unfolding SupersededStream SupersededEventSource.case by (intro inners tx_stills)
  qed
qed

section \<open>Resolved conflicts\<close>

lemma inner_settle_exact [inners]: "inner en (settle_exact_conflict_resolution_replay lib message source en)"
  unfolding settle_exact_conflict_resolution_replay_def Let_def
proof (rule inner_then [OF inner_checks(2)], rule inner_then [OF inner_checks(2)], rule inner_cursor)
  fix found cleanup and en1 en2 :: SyncEngine and c
  let ?matching = "case found of None \<Rightarrow> False | Some c \<Rightarrow> cf_conflict_revision c = cr_conflict_revision message"
  assume c: "cursor_sound en2 c"
  then have r: "wc_last_applied_revision c \<le> wc_last_applied_revision c'" if "cursor_sound en2 c'" for c'
    using that by (simp add: cursor_sound_def)
  have live: "lifts ws (wc_last_applied_revision c) (tx_when b (tx_seq
       [tx_when (cr_revision message > wc_last_applied_revision c) (set_last_applied_revision_tx ws (cr_revision message)),
        tx_when b' (set_pending_ack_tx ws (cr_revision message))])) (wc_last_applied_revision c)" for ws b b'
    by (rule lifts_when, rule lifts_receive)
  show "inner en2 (transact (\<lambda>ws client. tx_seq
       [if ?matching then cleanup_conflict_resolution ws client (cr_conflict_id message) cleanup
        else tx_opt (remove_outbox_tx client) (cu_resolution_operation_id cleanup),
        (case source of
           ResolutionStream \<Rightarrow> tx_unit (put_stream_conflict_resolved_tx (sy_store lib) ws message Applied)
         | ResolutionLive \<Rightarrow>
             tx_when (cr_revision message > wc_last_ack_revision c) (tx_seq
               [tx_when (cr_revision message > wc_last_applied_revision c) (set_last_applied_revision_tx ws (cr_revision message)),
                tx_when (newer_than (cr_revision message) (wc_pending_ack_revision c))
                  (set_pending_ack_tx ws (cr_revision message))]))]) en2)"
  proof (cases source)
    case ResolutionLive
    show ?thesis unfolding ResolutionLive ConflictResolutionSource.case
      by (rule inner_transact_lifts [OF _ r]) (rule chain_still, intro tx_stills, rule chain_keep [OF live chain_nil])
  next
    case ResolutionStream
    show ?thesis unfolding ResolutionStream ConflictResolutionSource.case by (intro inners tx_stills)
  qed
qed

lemma inner_superseded_resolution [inners]: "inner en (commit_superseded_conflict_resolution lib message d legacy cleanup en)"
  unfolding commit_superseded_conflict_resolution_def by (intro inners tx_stills)

lemma inner_superseded_live_resolution [inners]:
  "inner en (commit_superseded_live_conflict_resolution lib message d legacy cleanup en)"
  unfolding commit_superseded_live_conflict_resolution_def
proof (rule inner_cursor)
  fix c assume c: "cursor_sound en c"
  then have r: "wc_last_applied_revision c \<le> wc_last_applied_revision c'" if "cursor_sound en c'" for c'
    using that by (simp add: cursor_sound_def)
  show "inner en (transact (\<lambda>ws client. tx_seq
       [record_resolution lib message d legacy,
        cleanup_conflict_resolution ws client (cr_conflict_id message) cleanup,
        tx_when (cr_revision message > wc_last_applied_revision c) (set_last_applied_revision_tx ws (cr_revision message)),
        tx_when (cr_revision message > wc_last_ack_revision c \<and> newer_than (cr_revision message) (wc_pending_ack_revision c))
          (set_pending_ack_tx ws (cr_revision message))]) en)"
    by (rule inner_transact_lifts [OF _ r]) (rule chain_still, intro tx_stills, rule chain_still, intro tx_stills, rule lifts_receive)
qed

lemma inner_commit_resolved [inners]:
  "inner en (commit_conflict_resolved_with_journal lib message status source apply_id en)"
proof -
  have stream: "lifts ws ZERO (tx_seq [tx_when b (set_last_applied_revision_tx ws (cr_revision message)), f]) ZERO"
    if "tx_still f" for ws b f
  proof (cases b)
    case True
    show ?thesis
      by (simp only: tx_when_def True if_True, rule lifts_lower [OF _ ZERO_le], rule chain_applied, rule chain_still [OF that chain_nil])
  next
    case False
    then show ?thesis using that by (simp only: tx_when_def if_False) (fast intro: chains tx_stills)
  qed
  have live: "lifts ws ZERO (tx_when b (tx_seq [set_last_applied_revision_tx ws (cr_revision message),
      set_pending_ack_tx ws (cr_revision message)])) ZERO" for ws b
    by (rule lifts_when, rule lifts_lower [OF _ ZERO_le]) (fast intro: chains)
  show ?thesis unfolding commit_conflict_resolved_with_journal_def Let_def
  proof (rule inner_then [OF inner_pair(3)], rule inner_then [OF inner_checks(2)], rule inner_then [OF inner_checks(2)],
      rule inner_chain, (rule chain_still, intro tx_stills)+, rule chain_keep)
    fix d receipt cleanup ws client
    show "lifts ws ZERO (case source of
           ResolutionStream \<Rightarrow> tx_seq
             [tx_when (status = Applied \<and> \<not> cu_preserve_newer_generation cleanup)
                (set_last_applied_revision_tx ws (cr_revision message)),
              tx_unit (put_stream_conflict_resolved_tx (sy_store lib) ws message status)]
         | ResolutionLive \<Rightarrow>
             tx_when (\<not> cu_preserve_newer_generation cleanup) (tx_seq
               [set_last_applied_revision_tx ws (cr_revision message), set_pending_ack_tx ws (cr_revision message)])) ZERO"
      by (cases source) (simp_all only: ConflictResolutionSource.case live, rule stream, intro tx_stills)
  qed (fast intro: chains tx_stills)
qed

section \<open>The journal, plans and streams\<close>

lemma inner_journal_writes [inners]:
  "inner en (write_state (put_apply_journal record) en)" "inner en (write_state (set_apply_stage apply_id stage) en)"
  "inner en (write_state (set_apply_filesystem_applied apply_id json) en)"
  "inner en (write_state (remove_apply_journal apply_id) en)"
  by (rule inner_write, rule tx_stills, simp add: put_apply_journal_def set_apply_stage_def
      set_apply_filesystem_applied_def remove_apply_journal_def)+

lemma inner_stream_writes [inners]:
  "inner en (write_state (put_stream_entry lib entry status) en)"
  "inner en (write_state (put_stream_conflict lib created conflict_status stream_id) en)"
  "inner en (write_state (set_stream_end_received received) en)"
  "inner en (write_state (begin_stream begn) en)"
  by (rule inner_write, rule tx_stills, simp add: put_stream_entry_def put_stream_conflict_def set_stream_end_received_def
      begin_stream_def)+

lemma inner_item_writes [inners]:
  "inner en (write_state (put_stream_event lib event status) en)"
  "inner en (write_state (put_stream_conflict_resolved lib message index status) en)"
  by (rule inner_write [rotated], (rule put_stream_event_def put_stream_conflict_resolved_def),
      use put_stream_event_still in \<open>auto simp: tx_still_leaves intro: put_item_leaves\<close>)+

lemma inner_record_conflict [inners]: "inner en (write_state (record_conflict lib message status) en)"
  by (rule inner_write [rotated], rule record_conflict_def)
    (auto simp: tx_still_leaves Let_def dest!: put_conflict_still [unfolded tx_still_def, rule_format])

lemma inner_replay [inners]: "inner en (write_state (pending_outbox_replay lib n) en)"
proof (cases "n = 0")
  case True
  then show ?thesis by (auto simp: write_state_def pending_outbox_replay_def intro: inner_same)
next
  case False
  then show ?thesis by (intro inner_write [OF outbox_replay_still]) (simp add: pending_outbox_replay_def)
qed

lemma inner_apply_with_journal [inners]: "inner en (apply_with_journal lib stream kind key spec states plan operation en)"
  unfolding apply_with_journal_def Let_def by (intro inners)

lemma inner_finish_journal [inners]: "inner en (finish_apply_journal lib receipt en)"
  unfolding finish_apply_journal_def by (intro inners)

lemma inner_apply_and_commit [inners]: "(\<And>id en. inner en (commit id en)) \<Longrightarrow>
    inner en (apply_and_commit lib stream kind key spec states plan operation commit en)"
  unfolding apply_and_commit_def by (intro inners)

lemma inner_scan_entries [inners]: "inner en (scan_entries lib en)"
  unfolding scan_entries_def by (intro inners)

lemma inner_independent [inners]: "inner en (independent_intents_for_rename_scope lib scopes en)"
  unfolding independent_intents_for_rename_scope_def Let_def by (intro inners)

lemma inner_replacement_intents [inners]: "inner en (replacement_intents lib m desired en)"
  unfolding replacement_intents_def Let_def by (intro inners)

lemma inner_plan [inners]: "inner en (conflict_generation_replacement_plan lib old replacement en)"
  unfolding conflict_generation_replacement_plan_def Let_def by (intro inners)

lemma inner_plans [inners]: "inner en (replacement_plans lib staged cs en)"
proof (induction cs arbitrary: en)
  case (Cons c cs)
  show ?case unfolding replacement_plans.simps Let_def by (intro inners Cons)
qed (unfold replacement_plans.simps, rule inners)

lemma inner_authoritative [inners]: "inner en (authoritative_conflict_generation_replacement_plans lib stream n en)"
  unfolding authoritative_conflict_generation_replacement_plans_def by (intro inners)

lemma inner_contains [inners]: "inner en (contains_path lib stream path en)"
  unfolding contains_path_def by (intro inners)

lemma inner_remove_state [inners]: "inner en (write_state (remove_path_state path) en)"
  by (rule inner_write [OF remove_path_state_still]) (simp add: remove_path_state_def)

lemma inner_reconcile [inners]: "inner en (drop_unlisted lib stream path en)" "inner en (queue_unlisted lib stream observed en)"
  "inner en (reconcile_full_snapshot lib stream en)"
  unfolding drop_unlisted_def queue_unlisted_def reconcile_full_snapshot_def by (intro inners tx_stills)+

lemma inner_finish [inners]: "inner en (finish_stream_if_ready lib en)"
  unfolding finish_stream_if_ready_def
proof (rule inner_then [OF inner_checks(2)])
  fix found en
  have commit: "lifts ws ZERO (tx_seq
      [tx_each (apply_conflict_generation_replacement lib ws client) plans, replace_authoritative_conflicts_tx ws stream,
       set_last_applied_revision_tx ws revision, clear_pending_segment_ack_tx ws,
       if b then set_pending_ack_tx ws revision else clear_stream_tx ws]) revision" for ws client plans stream revision b
    by (rule chain_still, intro tx_stills, rule chain_still, intro tx_stills, rule chain_applied,
        rule chain_keep [OF lifts_clear(2)], rule chain_keep [OF _ chain_nil])
      (simp add: lifts_pending_same lifts_still [OF clear_stream_still])
  show "inner en ((case found of
        None \<Rightarrow> give False
      | Some active \<Rightarrow>
          if \<not> ss_end_received active \<or> \<not> stream_complete active (en_state en) then give False
          else
            then_do (if ss_mode active = Snapshot then reconcile_full_snapshot lib (ss_stream_id active) else give ()) (\<lambda>_.
            then_do (authoritative_conflict_generation_replacement_plans lib (ss_stream_id active)
              (ss_expected_conflict_count active)) (\<lambda>plans.
            then_do (read_state cursor) (\<lambda>c.
            then_do (transact (\<lambda>ws client. tx_seq
              [tx_each (apply_conflict_generation_replacement lib ws client) plans,
               replace_authoritative_conflicts_tx ws (ss_stream_id active),
               set_last_applied_revision_tx ws (ss_final_revision active),
               clear_pending_segment_ack_tx ws,
               if ss_final_revision active > wc_last_ack_revision c then set_pending_ack_tx ws (ss_final_revision active)
               else clear_stream_tx ws])) (\<lambda>_.
            then_do (materialize_local_intents (sy_engine lib)) (\<lambda>_.
            give True)))))) en)"
    by (intro inner_option inner_if inner_then inner_pair inner_reconcile inner_authoritative inner_checks inner_materialize
        inner_chain [OF commit])
qed

lemma inner_segment [inners]: "inner en (advance_segment_ack_if_stalled en)"
  unfolding advance_segment_ack_if_stalled_def Let_def
proof (rule inner_cursor, intro inner_if inner_pair, rule inner_then_cursor [OF inner_checks(2)])
  fix c found en1 c0 c1
  assume c: "cursor_sound en c" and read: "read_state stream_state en = (Ok found, en1)"
  have r: "wc_last_applied_revision c \<le> wc_last_applied_revision c'" if "cursor_sound en1 c'" for c'
    using that read c by (auto simp: cursor_sound_def)
  show "inner en1 ((case found of
          None \<Rightarrow> give ()
        | Some active \<Rightarrow>
            if ss_mode active \<noteq> Incremental \<or> wc_last_applied_revision c \<le> wc_last_ack_revision c \<or>
               wc_last_applied_revision c \<ge> ss_final_revision active \<or>
               sm_revision_count (stream_table_summary (ss_stream_id active) (en_state en1)) \<noteq>
                 unat (ss_expected_event_count active) \<or>
               sm_pending_revision_count (stream_table_summary (ss_stream_id active) (en_state en1)) \<noteq> 0 \<or>
               sm_entry_count (stream_table_summary (ss_stream_id active) (en_state en1)) \<noteq> 0 \<or>
               wc_pending_segment_ack_revision c = Some (wc_last_applied_revision c)
            then give ()
            else transact (\<lambda>ws client. set_pending_segment_ack_tx ws (wc_last_applied_revision c))) en1)"
    by (intro inner_option inner_if inner_pair inner_transact_lifts [OF lifts_segment [OF order_refl] r])
qed

lemma inner_apply_entry [inners]: "inner en (apply_snapshot_entry lib entry en)"
  unfolding apply_snapshot_entry_def Let_def by (intro inners)

lemma inner_apply_resolved [inners]: "inner en (apply_conflict_resolved_from lib message source en)"
  unfolding apply_conflict_resolved_from_def Let_def
  by (intro inners; (cases source; simp only: ConflictResolutionSource.case; intro inners))

lemma inner_superseded_check:
  assumes fresh: "\<And>en. inner en (fresh en)"
  shows "inner en (then_do (case legacy_of receipt_match of
           None \<Rightarrow> give None
         | Some legacy \<Rightarrow> then_do (read_state cursor) (\<lambda>c.
             give (if wc_last_applied_revision c > ev_revision event then Some legacy else None))) (\<lambda>superseded.
       case superseded of
         Some legacy \<Rightarrow> settle_superseded_event lib event d legacy own remove_it source
       | None \<Rightarrow> fresh) en)"
proof (rule inner_then_cursor, intro inners)
  fix superseded en1 c c1
  assume run: "(case legacy_of receipt_match of
           None \<Rightarrow> give None
         | Some legacy \<Rightarrow> then_do (read_state cursor) (\<lambda>c.
             give (if wc_last_applied_revision c > ev_revision event then Some legacy else None))) en = (Ok superseded, en1)"
    and c: "cursor_sound en c" "cursor_sound en1 c1" "cursor_later c c1"
  show "inner en1 ((case superseded of Some legacy \<Rightarrow> settle_superseded_event lib event d legacy own remove_it source
       | None \<Rightarrow> fresh) en1)"
  proof (cases superseded)
    case (Some legacy)
    then have "ev_revision event < wc_last_applied_revision c"
      using run c(1)
      by (auto simp: then_do_Ok_iff cursor_def cursor_row_def cursor_sound_def cursor_rows_def
          split: option.splits if_splits)
    then have "ev_revision event \<le> wc_last_applied_revision c'" if "cursor_sound en1 c'" for c'
      using that c(2,3) by (auto simp: cursor_sound_def cursor_later_def)
    then show ?thesis using Some inner_superseded by simp
  qed (simp add: fresh)
qed

lemma inner_apply_live [inners]: "inner en (apply_live_event lib event en)"
  unfolding apply_live_event_def Let_def
  by (rule inner_then [OF inner_pair(3)], rule inner_then [OF inner_pair(3)], rule inner_then [OF inner_checks(2)],
      rule inner_then [OF inner_checks(2)], intro inner_if inner_mark_live, rule inner_then [OF inner_pair(3)],
      rule inner_superseded_check, intro inners)

lemma inner_apply_event [inners]: "inner en (apply_event lib event en)"
  unfolding apply_event_def Let_def
  by (rule inner_then [OF inner_pair(3)], rule inner_then [OF inner_pair(3)], rule inner_then [OF inner_checks(2)],
      rule inner_then [OF inner_checks(2)], rule inner_if, intro inners, rule inner_then [OF inner_pair(3)],
      rule inner_superseded_check, intro inners)

section \<open>Resolutions and local changes\<close>

lemma inner_proposal [inners]: "inner en (conflict_resolution_proposal lib created choice en)"
  unfolding conflict_resolution_proposal_def Let_def
  by (cases choice; simp only: WorkspaceConflictChoice.case; intro inners)

lemma inner_new_resolution [inners]: "inner en (queue_new_resolution lib request c json en)"
  unfolding queue_new_resolution_def Let_def by (intro inners tx_stills)

lemma inner_queue_resolution [inners]: "inner en (queue_conflict_resolution lib request en)"
  unfolding queue_conflict_resolution_def Let_def by (intro inners)

lemma inner_resolve [inners]: "inner en (resolve_conflict lib conflict_id revision choice en)"
  unfolding resolve_conflict_def Let_def by (intro inners)

lemma inner_resolution_answers [inners]:
  "inner en (conflict_resolution_accepted lib message en)" "inner en (conflict_resolution_rejected lib op code en)"
  unfolding conflict_resolution_accepted_def conflict_resolution_rejected_def Let_def by (intro inners tx_stills)+

lemma inner_scan_changes [inners]: "inner en (scan_changes lib en)"
  unfolding scan_changes_def by (intro inners)

lemma inner_synced [inners]: "inner en (path_is_synced lib path en)"
  unfolding path_is_synced_def Let_def by (intro inners)

lemma inner_admit [inners]: "inner en (admit_local_change lib change en)"
  by (cases change; simp only: admit_local_change.simps; intro inners)

lemma inner_change [inners]: "inner en (desired_from_change lib change en)"
  by (cases change; simp only: desired_from_change.simps; intro inners)

lemma inner_record_change [inners]: "inner en (record_change lib change en)"
  unfolding record_change_def by (intro inners)

lemma inner_split_rescans [inners]: "inner en (split_rescans lib changes found en)"
proof (induction changes arbitrary: found en)
  case (Cons change changes)
  show ?case unfolding split_rescans.simps by (intro inners Cons)
qed (unfold split_rescans.simps, intro inners)

lemma inner_record_local_changes [inners]: "inner en (record_local_changes lib changes en)"
  unfolding record_local_changes_def by (intro inners)

lemma inner_scan_and_record [inners]: "inner en (scan_and_record lib en)"
  unfolding scan_and_record_def by (intro inners)

lemma inner_replace_conflict [inners]: "inner en (replace_conflict lib message json existing en)"
  unfolding replace_conflict_def by (intro inners tx_stills)

lemma inner_intents [inners]: "inner en (take_up_intents lib commands en)"
  unfolding take_up_intents_def by (intro inners)

end
