(* ===== verification/Engine_Live.thy ===== *)
theory Engine_Live
  imports Engine_Safe
begin

text \<open>
  The invariant of \<open>SyncEngine\<close> over all its operations: the cursor never acknowledges, nor asks to acknowledge, a
  revision that is not applied, and the queue of live items stays within its limits and in the order of the revisions.
\<close>

section \<open>The queue of live items\<close>

definition queue_ok :: "SyncEngine \<Rightarrow> bool" where
  "queue_ok en \<longleftrightarrow>
     length (en_pending_live_events en) \<le> iw_max_pending_live_items (en_inbound_work_limits en) \<and>
     en_pending_live_serialized_bytes en = sum_list (map pl_serialized_bytes (en_pending_live_events en)) \<and>
     en_pending_live_serialized_bytes en \<le> iw_max_pending_live_serialized_bytes (en_inbound_work_limits en) \<and>
     sorted_wrt (<) (map (\<lambda>item. live_revision_of (pl_message item)) (en_pending_live_events en))"

definition identity :: "SyncEngine \<Rightarrow> WorkspaceId \<times> ClientId \<times> InboundWorkLimits" where
  "identity en = (st_workspace_id (en_state en), st_client_id (en_state en), en_inbound_work_limits en)"

definition sound :: "SyncEngine \<Rightarrow> WorkspaceCursor \<Rightarrow> bool" where
  "sound en c \<longleftrightarrow> cursor_sound en c \<and> queue_ok en"

definition outer :: "SyncEngine \<Rightarrow> ('a, SyncError) result \<times> SyncEngine \<Rightarrow> bool" where
  "outer en p \<longleftrightarrow> (\<forall>c. sound en c \<longrightarrow> identity (snd p) = identity en \<and> (\<exists>c'. sound (snd p) c' \<and> cursor_later c c'))"

named_theorems outers \<open>operations that keep the cursor sound and the live queue in order\<close>

lemma outside_queue: "outside en' = outside en \<Longrightarrow> queue_ok en' = queue_ok en \<and> identity en' = identity en"
  by (simp add: outside_def queue_ok_def identity_def)

lemma outer_inner: "inner en p \<Longrightarrow> outer en p"
  unfolding inner_def outer_def sound_def using outside_queue by blast

lemma outer_then_inner:
  assumes "inner en (f en)"
    and "\<And>v en'. f en = (Ok v, en') \<Longrightarrow> outside en' = outside en \<Longrightarrow> outer en' (g v en')"
  shows "outer en (then_do f g en)"
  unfolding outer_def
proof (intro allI impI)
  fix c assume c: "sound en c"
  obtain r en' where f: "f en = (r, en')" by fastforce
  obtain c' where "outside en' = outside en" "cursor_sound en' c'" "cursor_later c c'"
    using assms(1) c by (auto simp: inner_def f sound_def)
  then have c': "outside en' = outside en" "identity en' = identity en" "sound en' c'" "cursor_later c c'"
    using c outside_queue [of en' en] by (simp_all add: sound_def)
  show "identity (snd (then_do f g en)) = identity en \<and> (\<exists>c'. sound (snd (then_do f g en)) c' \<and> cursor_later c c')"
  proof (cases r)
    case (Ok v)
    then have "outer en' (g v en')" using assms(2) f c' by blast
    then obtain c'' where "identity (snd (g v en')) = identity en'" "sound (snd (g v en')) c''" "cursor_later c' c''"
      using c' by (auto simp: outer_def)
    then show ?thesis using Ok f c' cursor_later_trans by auto
  qed (use f c' in auto)
qed

lemma outer_then:
  assumes "outer en (f en)" and "\<And>v en'. outer en' (g v en')"
  shows "outer en (then_do f g en)"
proof -
  obtain r en' where f: "f en = (r, en')" by fastforce
  show ?thesis
  proof (cases r)
    case (Ok v)
    then show ?thesis using assms(1) assms(2) [of en' v] f by (fastforce simp: outer_def intro: cursor_later_trans)
  qed (use assms(1) f in \<open>auto simp: outer_def\<close>)
qed

lemma outer_if [outers]: "(c \<Longrightarrow> outer en (f en)) \<Longrightarrow> (\<not> c \<Longrightarrow> outer en (g en)) \<Longrightarrow> outer en ((if c then f else g) en)"
  by simp

lemma outer_option [outers]:
  "outer en (f en) \<Longrightarrow> (\<And>v. outer en (g v en)) \<Longrightarrow> outer en ((case x of None \<Rightarrow> f | Some v \<Rightarrow> g v) en)"
  by (cases x) simp_all

lemma outer_pop:
  assumes "en_pending_live_events en = item # rest"
  shows "outer en (pop_live item en)"
  using assms
  by (auto simp: outer_def sound_def queue_ok_def pop_live_def Let_def identity_def cursor_sound_def cursor_rows_def
      cursor_later_refl)

lemma outer_push: 
  assumes "\<And>item. item \<in> set (en_pending_live_events en) \<Longrightarrow> live_revision_of (pl_message item) < live_revision_of message"
  shows "outer en (push_live lib message body en)"
  using assms
  by (auto simp: outer_def sound_def queue_ok_def push_live_def Let_def identity_def cursor_sound_def cursor_rows_def
      cursor_later_refl sorted_wrt_append)

section \<open>The work loop\<close>

lemma outer_live_item:
  assumes front: "en_pending_live_events en = item # rest"
  shows "outer en (live_item lib limit reissue item commands en)"
proof -
  have same: "outside en' = outside en \<Longrightarrow> en_pending_live_events en' = item # rest" for en'
    using front by (simp add: outside_def)
  show ?thesis unfolding live_item_def
  proof (rule outer_then_inner [OF inner_pair(3)], rule outer_then_inner)
    fix required en1 missing en2
    assume "outside en1 = outside en" "outside en2 = outside en1"
    then have front2: "en_pending_live_events en2 = item # rest" using same by simp
    show "outer en2 ((case missing of
       Some content \<Rightarrow>
         then_do (ask_download limit reissue (Some (live_operation (pl_message item))) content commands) (\<lambda>commands.
         give (Blocked, commands))
     | None \<Rightarrow>
         then_do (case pl_message item of
             LiveEvent event \<Rightarrow> apply_live_event lib event
           | LiveResolved message \<Rightarrow> apply_conflict_resolved_from lib message ResolutionLive) (\<lambda>_.
         then_do (pop_live item) (\<lambda>_. give (Progressed, commands)))) en2)"
    proof (cases missing)
      case None
      have apply_it: "inner en2 ((case pl_message item of LiveEvent event \<Rightarrow> apply_live_event lib event
           | LiveResolved message \<Rightarrow> apply_conflict_resolved_from lib message ResolutionLive) en2)"
        by (cases "pl_message item") (simp_all add: inner_apply_live inner_apply_resolved)
      have "outer en2 (then_do (case pl_message item of
             LiveEvent event \<Rightarrow> apply_live_event lib event
           | LiveResolved message \<Rightarrow> apply_conflict_resolved_from lib message ResolutionLive) (\<lambda>_.
         then_do (pop_live item) (\<lambda>_. give (Progressed, commands))) en2)"
        by (rule outer_then_inner, rule apply_it, rule outer_then, rule outer_pop [of _ _ rest])
          (use front2 in \<open>auto simp: outside_def intro: outer_inner inner_pair\<close>)
      then show ?thesis using None by simp
    next
      case (Some content)
      then show ?thesis
        by (auto intro!: outer_inner inners simp: ask_download_def split: prod.split simp del: give_apply)
    qed
  qed (unfold missing_content_def, intro inners)
qed

lemma outer_charged: "outer en (work en) \<Longrightarrow> outer en (charged n budget commands work en)"
  unfolding charged_def
  by (intro outers outer_inner [OF inner_pair(4)] outer_then, assumption) (auto intro!: outer_inner inners split: prod.split)

lemma outer_live_step: "outer en (resume_live_step lib limit reissue budget commands en)"
  unfolding resume_live_step_def
  by (cases "en_pending_live_events en") (auto intro!: outer_charged outer_live_item outer_inner [OF inner_pair(1)])

lemma inner_download [inners]: "inner en (ask_download limit reissue op content commands en)"
  by (cases content) (simp add: ask_download_def inner_same)

lemma inner_missing [inners]: "inner en (missing_content lib required en)"
  unfolding missing_content_def by (intro inners)

lemma inner_items [inners]: "inner en (stream_entry_item lib limit reissue entry commands en)"
  "inner en (stream_event_item lib limit reissue item commands en)"
  "inner en (stream_resolved_item lib limit reissue item commands en)"
  unfolding stream_entry_item_def stream_event_item_def stream_resolved_item_def Let_def by (intro inners)+

lemma inner_charged [inners]: "inner en (work en) \<Longrightarrow> inner en (charged n budget commands work en)"
  unfolding charged_def by (intro inners)

lemma inner_page [inners]: "(\<And>r. inner en (work r en)) \<Longrightarrow> inner en (page_step size_of work budget commands page en)"
  unfolding page_step_def by (intro inners)

lemma inner_mode [inners]:
  "inner en (f en) \<Longrightarrow> inner en (g en) \<Longrightarrow> inner en ((case mode of Snapshot \<Rightarrow> f | Incremental \<Rightarrow> g) en)"
  by (cases mode) simp_all

lemma inner_item_kind [inners]: "inner en (f en) \<Longrightarrow> inner en (g en) \<Longrightarrow>
    inner en ((case kind of StreamRevisionItemKind.Event \<Rightarrow> f | StreamRevisionItemKind.ConflictResolved \<Rightarrow> g) en)"
  by (cases kind) simp_all

lemma inner_stream_step [inners]: "inner en (resume_stream_step lib limit reissue budget commands en)"
  unfolding resume_stream_step_def Let_def
  by (intro inners)

lemma outer_step: "outer en (resume_step lib limit reissue source budget commands en)"
  by (cases source) (simp_all add: outer_live_step outer_inner [OF inner_stream_step])

lemma outer_after:
  assumes "outer en (r, en')" "outer en' p"
  shows "outer en p"
  using assms by (fastforce simp: outer_def intro: cursor_later_trans)

lemma outer_value: "outer en (r, en') \<Longrightarrow> outer en (r', en')"
  by (simp add: outer_def)

lemma outer_loop: "outer en (resume_loop lib limit reissue su lu source budget commands en)"
proof (induction lib limit reissue su lu source budget commands en rule: resume_loop.induct)
  case (1 lib limit reissue su lu source budget commands en)
  note step = outer_step [of en lib limit reissue source budget commands]
  show ?case
  proof (cases "remaining_items budget = 0 \<or> su \<and> lu")
    case True
    then show ?thesis by (subst resume_loop.simps) (auto intro: outer_inner inner_pair)
  next
    case False
    show ?thesis
    proof (cases "source_unavailable source su lu")
      case True
      then show ?thesis using 1(1) False by (subst resume_loop.simps) auto
    next
      case avail: False
      obtain r en' where r: "resume_step lib limit reissue source budget commands en = (r, en')" by fastforce
      show ?thesis
      proof (cases r)
        case (Ok v)
        obtain st b cs where v: "v = (st, b, cs)" by (cases v)
        have "outer en' (resume_loop lib limit reissue (su \<or> st \<noteq> Progressed \<and> source = SourceStream)
            (lu \<or> st \<noteq> Progressed \<and> source = SourceLive) (source_other source) b cs en')"
          using 1(2) [OF False avail r [symmetric]] Ok v by blast
        then have "outer en (resume_loop lib limit reissue (su \<or> st \<noteq> Progressed \<and> source = SourceStream)
            (lu \<or> st \<noteq> Progressed \<and> source = SourceLive) (source_other source) b cs en')"
          by (rule outer_after [rotated]) (use step r in simp)
        then show ?thesis using False avail r Ok v by (subst resume_loop.simps) auto
      qed (use False avail r step in \<open>subst resume_loop.simps, auto intro: outer_value\<close>)
    qed
  qed
qed

lemma outer_resume [outers]: "outer en (resume_inbound_work lib limit reissue en)"
proof -
  let ?en = "en\<lparr>en_next_inbound_source := source_other (en_next_inbound_source en)\<rparr>"
  have "outer en (Ok (), ?en)"
    by (auto simp: outer_def sound_def queue_ok_def identity_def cursor_sound_def cursor_rows_def cursor_later_refl)
  moreover have "outer ?en (resume_inbound_work lib limit reissue en)"
    unfolding resume_inbound_work_def Let_def
    by (intro outer_then outer_loop; rule outer_inner; rule inners)
  ultimately show ?thesis by (rule outer_after)
qed

lemma outer_resume_all [outers]: "outer en (resume_all lib reissue en)"
  unfolding resume_all_def by (rule outers)

section \<open>Handlers\<close>

lemma outer_enqueue [outers]: "outer en (enqueue_live_message lib message body en)"
proof (cases "find (\<lambda>item. live_revision_of (pl_message item) = live_revision_of message) (en_pending_live_events en)")
  case None
  show ?thesis
  proof (cases "en_pending_live_events en \<noteq> [] \<and>
      live_revision_of message < live_revision_of (pl_message (last (en_pending_live_events en)))")
    case False
    have "outer en (then_do (push_live lib message body) (\<lambda>_. resume_all lib True) en)"
    proof (cases "queue_ok en")
      case True
      have "live_revision_of (pl_message item) < live_revision_of message" if "item \<in> set (en_pending_live_events en)" for item
        using True None False that
        by (cases "en_pending_live_events en" rule: rev_cases)
          (force simp: queue_ok_def sorted_wrt_append find_None_iff not_less le_less)+
      then show ?thesis by (intro outer_then outer_push outer_resume_all)
    qed (simp add: outer_def sound_def)
    then show ?thesis using None False by (auto simp: enqueue_live_message_def Let_def)
  qed (use None in \<open>auto simp: enqueue_live_message_def Let_def intro: outer_inner inner_pair\<close>)
qed (auto simp: enqueue_live_message_def Let_def intro: outer_inner inner_pair outer_resume_all)

lemma outer_live_event [outers]: "outer en (live_event lib message en)"
  unfolding live_event_def by (intro outer_then outers; rule outer_inner; intro inners)

lemma outer_resume_download [outers]: "outer en (resume_and_download lib op status state en)"
  unfolding resume_and_download_def by (intro outer_then outers; rule outer_inner; intro inners)

lemma outer_stream_messages [outers]:
  "outer en (snapshot_entry lib entry en)" "outer en (workspace_event lib event en)" "outer en (conflict_created lib created en)"
  "outer en (snapshot_end lib ending en)" "outer en (blob_available lib hash n en)"
  unfolding snapshot_entry_def workspace_event_def conflict_created_def snapshot_end_def blob_available_def Let_def
  by (intro outer_then outers; rule outer_inner; intro inners)+

lemma outer_resolved [outers]: "outer en (live_conflict_resolved lib message en)"
  "outer en (stream_conflict_resolved lib message stream en)" "outer en (conflict_resolved lib message en)"
  unfolding conflict_resolved_def live_conflict_resolved_def stream_conflict_resolved_def
  by (intro outer_then outers; rule outer_inner; intro inners)+

lemma outer_begin: "outer en (snapshot_begin message en)"
proof -
  have fresh: "outer en' (Ok (), if c then en'\<lparr>en_pending_live_events := [], en_pending_live_serialized_bytes := 0,
      en_next_inbound_source := SourceStream\<rparr> else en')" for en' c
    by (auto simp: outer_def sound_def queue_ok_def identity_def cursor_sound_def cursor_rows_def cursor_later_refl)
  show ?thesis unfolding snapshot_begin_def by (intro outer_then fresh; rule outer_inner; intro inners)
qed

lemma outer_pending: "outer en (pending_commands lib limit en)"
  unfolding pending_commands_def Let_def by (intro outer_then outers; rule outer_inner; intro inners)

lemma outer_close: "outer en (close_engine en)"
  by (auto simp: close_engine_def outer_def sound_def queue_ok_def identity_def cursor_sound_def cursor_rows_def cursor_later_refl)

section \<open>What is sent\<close>

text \<open>The work loop only asks for content.\<close>

definition downloads :: "nat \<Rightarrow> SyncCommand list \<Rightarrow> bool" where
  "downloads limit commands \<longleftrightarrow> length commands \<le> limit \<and>
     list_all (\<lambda>command. case command of DownloadBlob _ _ _ _ \<Rightarrow> True | _ \<Rightarrow> False) commands"

definition fetches :: "nat \<Rightarrow> SyncCommand list \<Rightarrow> SyncCommand list \<Rightarrow> bool" where
  "fetches limit commands commands' \<longleftrightarrow> (downloads limit commands \<longrightarrow> downloads limit commands')"

lemma fetches_simps [simp]: "fetches limit commands commands" "fetches limit commands (push_download commands limit ws op hash n)"
  by (auto simp: fetches_def downloads_def push_download_def)

lemma fetches_download: "ask_download limit reissue op content commands en = (Ok commands', en') \<Longrightarrow> fetches limit commands commands'"
  by (auto simp: ask_download_def split: prod.splits)

lemma fetches_items:
  "live_item lib limit reissue item commands en = (Ok (st, commands'), en') \<Longrightarrow> fetches limit commands commands'"
  "stream_entry_item lib limit reissue entry commands en = (Ok (st, commands'), en') \<Longrightarrow> fetches limit commands commands'"
  "stream_event_item lib limit reissue record commands en = (Ok (st, commands'), en') \<Longrightarrow> fetches limit commands commands'"
  "stream_resolved_item lib limit reissue record commands en = (Ok (st, commands'), en') \<Longrightarrow> fetches limit commands commands'"
  unfolding live_item_def stream_entry_item_def stream_event_item_def stream_resolved_item_def Let_def
  by (auto simp: then_do_Ok_iff dest!: fetches_download split: option.splits if_splits)

lemma fetches_charged:
  assumes "charged n budget commands work en = (Ok (st, budget', commands'), en')"
    and "\<And>st commands' en'. work en = (Ok (st, commands'), en') \<Longrightarrow> fetches limit commands commands'"
  shows "fetches limit commands commands'"
  using assms by (auto simp: charged_def then_do_Ok_iff split: option.splits)

lemma fetches_page:
  assumes "page_step size_of work budget commands page en = (Ok (st, budget', commands'), en')"
    and "\<And>r st commands' en'. work r en = (Ok (st, commands'), en') \<Longrightarrow> fetches limit commands commands'"
  shows "fetches limit commands commands'"
proof (cases "pg_items page")
  case (Cons r rest)
  then have "charged (size_of r) budget commands (work r) en = (Ok (st, budget', commands'), en')"
    using assms(1) by (simp add: page_step_def)
  then show ?thesis by (rule fetches_charged) (rule assms(2))
qed (use assms(1) in \<open>simp add: page_step_def\<close>)

lemma fetches_step:
  assumes "resume_step lib limit reissue source budget commands en = (Ok (st, budget', commands'), en')"
  shows "fetches limit commands commands'"
proof (cases source)
  case SourceLive
  then have "resume_live_step lib limit reissue budget commands en = (Ok (st, budget', commands'), en')" using assms by simp
  then show ?thesis
    by (cases "en_pending_live_events en") (auto simp: resume_live_step_def elim: fetches_charged [OF _ fetches_items(1)])
next
  case SourceStream
  then have run: "resume_stream_step lib limit reissue budget commands en = (Ok (st, budget', commands'), en')" using assms by simp
  obtain found where found: "stream_state (en_state en) = Ok found"
    using run by (auto simp: resume_stream_step_def then_do_Ok_iff)
  show ?thesis
  proof (cases found)
    case None
    then show ?thesis using run found by (simp add: resume_stream_step_def)
  next
    case (Some active)
    have revision: "(case si_item_kind r of StreamRevisionItemKind.Event \<Rightarrow> stream_event_item lib limit reissue r commands
        | StreamRevisionItemKind.ConflictResolved \<Rightarrow> stream_resolved_item lib limit reissue r commands) en =
        (Ok (st, commands'), en') \<Longrightarrow> fetches limit commands commands'" for r st commands' en'
      by (cases "si_item_kind r") (auto dest: fetches_items)
    show ?thesis
    proof (cases "ss_mode active")
      case Snapshot
      then show ?thesis using run found Some
        by (auto simp: resume_stream_step_def Let_def then_do_Ok_iff elim: fetches_page [OF _ fetches_items(2)])
    next
      case Incremental
      then show ?thesis using run found Some
        by (auto simp: resume_stream_step_def Let_def then_do_Ok_iff elim: fetches_page [OF _ revision])
    qed
  qed
qed

lemma fetches_loop:
  assumes "resume_loop lib limit reissue su lu source budget commands en = (Ok commands', en')"
  shows "fetches limit commands commands'"
  using assms
proof (induction lib limit reissue su lu source budget commands en rule: resume_loop.induct)
  case (1 lib limit reissue su lu source budget commands en)
  show ?case
  proof (cases "remaining_items budget = 0 \<or> su \<and> lu")
    case True
    then show ?thesis using 1(3) by (subst (asm) resume_loop.simps) auto
  next
    case False
    show ?thesis
    proof (cases "source_unavailable source su lu")
      case True
      then have "resume_loop lib limit reissue su lu (source_other source) budget commands en = (Ok commands', en')"
        using 1(3) False by (subst (asm) resume_loop.simps) auto
      then show ?thesis using 1(1) [OF False True] by simp
    next
      case avail: False
      obtain st b cs en1 where r: "resume_step lib limit reissue source budget commands en = (Ok (st, b, cs), en1)"
        and rest: "resume_loop lib limit reissue (su \<or> st \<noteq> Progressed \<and> source = SourceStream)
            (lu \<or> st \<noteq> Progressed \<and> source = SourceLive) (source_other source) b cs en1 = (Ok commands', en')"
        using 1(3) False avail by (subst (asm) resume_loop.simps) (auto split: prod.splits result.splits)
      then show ?thesis
        using 1(2) [OF False avail r [symmetric]] fetches_step [OF r] by (auto simp: fetches_def)
    qed
  qed
qed

lemma resume_downloads: "resume_inbound_work lib limit reissue en = (Ok commands, en') \<Longrightarrow> downloads limit commands"
  unfolding resume_inbound_work_def Let_def
  by (auto simp: then_do_Ok_iff dest!: fetches_loop) (simp add: fetches_def downloads_def)

end
