(* ===== verification/Engine_Journal.thy ===== *)
theory Engine_Journal
  imports Engine_Recovery Engine_Deferred
begin

text \<open>
  The journal that \<open>SyncEngine\<close> writes before it changes the file system, read back by the recovery of the next
  start: which rows the recovery accepts.
\<close>

section \<open>What is written\<close>

text \<open>The operations that the code plans for an item, whatever it observed.\<close>

inductive planned :: "system_lib \<Rightarrow> ApplyCommitPlan \<Rightarrow> FsOperation \<Rightarrow> bool" for lib where
  planned_entry: "operation_for_state lib (se_entry entry) observed en = (Ok (Some operation), en') \<Longrightarrow>
    planned lib (PlanSnapshotEntry entry) operation"
| planned_event: "operation_for_event lib event entries en = (Ok (Some operation), en') \<Longrightarrow>
    planned lib (PlanStreamEvent event remove_it) operation"
| planned_live_event: "operation_for_event lib event entries en = (Ok (Some operation), en') \<Longrightarrow>
    planned lib (PlanLiveEvent event remove_it) operation"
| planned_resolved: "operation_for_state lib (cr_path_state message) observed en = (Ok (Some operation), en') \<Longrightarrow>
    planned lib (PlanStreamConflictResolved message) operation"
| planned_live_resolved: "operation_for_state lib (cr_path_state message) observed en = (Ok (Some operation), en') \<Longrightarrow>
    planned lib (PlanLiveConflictResolved message) operation"

text \<open>What the code writes into the row beside the plan and the operation.\<close>

definition plan_stream :: "ApplyCommitPlan \<Rightarrow> SqliteState \<Rightarrow> StreamId option" where
  "plan_stream plan st =
     (case plan of
        PlanSnapshotEntry entry \<Rightarrow> Some (se_stream_id entry)
      | PlanStreamEvent event _ \<Rightarrow> Some (ev_stream_id event)
      | PlanLiveEvent event _ \<Rightarrow> Some (ev_stream_id event)
      | PlanStreamConflictResolved message \<Rightarrow>
          (case stream_state st of Ok (Some active) \<Rightarrow> Some (ss_stream_id active) | _ \<Rightarrow> None)
      | PlanLiveConflictResolved message \<Rightarrow> Some live_apply_stream_id)"

definition plan_key :: "ApplyCommitPlan \<Rightarrow> ApplyItemKind \<times> string \<times> WorkspaceId" where
  "plan_key plan =
     (case plan of
        PlanSnapshotEntry entry \<Rightarrow> (ApplyItemKind.Entry, path_str (ps_path (se_entry entry)), se_workspace_id entry)
      | PlanStreamEvent event _ \<Rightarrow> (ApplyItemKind.Event, revision_print (ev_revision event), ev_workspace_id event)
      | PlanLiveEvent event _ \<Rightarrow> (ApplyItemKind.Event, revision_print (ev_revision event), ev_workspace_id event)
      | PlanStreamConflictResolved message \<Rightarrow>
          (ApplyItemKind.ConflictResolved, revision_print (cr_revision message), cr_workspace_id message)
      | PlanLiveConflictResolved message \<Rightarrow>
          (ApplyItemKind.ConflictResolved, revision_print (cr_revision message), cr_workspace_id message))"

text \<open>A rename that leaves a tombstone behind and something at its target.\<close>

definition clean_event :: "WorkspaceEventMessage \<Rightarrow> bool" where
  "clean_event event \<longleftrightarrow> (wm_kind (ev_mutation event) = WorkspaceMutationKind.Rename \<longrightarrow>
     (\<forall>old. ev_old_path_state event = Some old \<longrightarrow> ps_kind old = Tombstone) \<and>
     (\<forall>new. ev_new_path_state event = Some new \<longrightarrow> ps_kind new \<noteq> Tombstone))"

definition clean_plan :: "ApplyCommitPlan \<Rightarrow> bool" where
  "clean_plan plan =
     (case plan of PlanStreamEvent event _ \<Rightarrow> clean_event event | PlanLiveEvent event _ \<Rightarrow> clean_event event | _ \<Rightarrow> True)"

section \<open>What is read\<close>

lemma parse_written: "codec_law codec \<Longrightarrow> to_vec codec v = Some bytes \<Longrightarrow> parse_apply_journal_json codec bytes column = Ok v"
  by (simp add: parse_apply_journal_json_def codec_lawD canonical_json_def)

lemma digest_written: "journal_record lib ws apply_id stream kind key spec states plan operation = Ok r \<Longrightarrow>
    apply_journal_immutable_digest (sy_store lib) (r\<lparr>aj_stage := stage, aj_filesystem_receipt_json := receipt\<rparr>) =
      aj_operation_body_digest r"
  by (auto simp: journal_record_def result_simps Let_def apply_journal_immutable_digest_def)

lemma operation_for_state_matches:
  assumes "operation_for_state lib post observed en = (Ok (Some operation), en')" "path_state_wf post"
  shows "filesystem_operation_matches_remote operation (from_state post)"
  using assms
  by (cases "ps_kind post")
    (auto simp: operation_for_state_def then_do_Ok_iff from_state_def path_state_wf_def result_simps split: if_splits)

lemma operation_for_event_matches:
  assumes run: "operation_for_event lib event entries en = (Ok (Some operation), en')" and valid: "event_validate event = Ok ()"
    and spec: "from_event event = Ok spec"
  shows "filesystem_operation_matches_remote operation spec \<longleftrightarrow> clean_event event"
proof (cases "wm_kind (ev_mutation event) = WorkspaceMutationKind.Rename")
  case False
  then have "operation_for_state lib (ev_path_state event) (case entries of [] \<Rightarrow> None | (_, entry) # _ \<Rightarrow> entry) en =
      (Ok (Some operation), en')" "spec = from_state (ev_path_state event)" "clean_event event"
    using run spec by (auto simp: operation_for_event_def from_event_def clean_event_def Let_def)
  moreover have "path_state_wf (ev_path_state event)"
    using valid by (auto simp: event_validate_def result_simps)
  ultimately show ?thesis using operation_for_state_matches by blast
next
  case True
  obtain old new where states: "ev_old_path_state event = Some old" "ev_new_path_state event = Some new"
      and spec': "spec = RemoteRename old new" using spec True by (auto simp: from_event_def result_simps)
  have wf: "path_state_wf old" "path_state_wf new" "ps_path old = wm_path (ev_mutation event)"
      "wm_new_path (ev_mutation event) = Some (ps_path new)"
    using valid True states by (auto simp: event_validate_def event_validate_states_def result_simps split: option.splits)
  obtain source_expected target_expected where
    "operation = FsRename (wm_path (ev_mutation event)) (ps_path new) (into_option (ps_content_hash new)) (ps_metadata new)
       source_expected target_expected"
    using run True states wf(4)
    by (auto simp: operation_for_event_def Let_def then_do_Ok_iff split: option.splits)
  then show ?thesis using wf states True spec' by (auto simp: clean_event_def path_state_wf_def)
qed

lemma plan_states_valid:
  assumes "plan_validate plan" "plan_tuple plan = Ok (spec, states)"
  shows "list_all (\<lambda>s. is_ok (path_state_validate s)) states"
  using assms
  by (cases plan)
    (auto simp: plan_validate_def plan_tuple_def is_ok_iff result_simps Let_def post_states_of_def event_post_states_def
      snapshot_entry_validate_def conflict_resolved_validate_def event_validate_def event_validate_states_def
      split: option.splits if_splits)

lemma plan_operation_matches:
  assumes "planned lib plan operation" "plan_validate plan" "plan_tuple plan = Ok (spec, states)"
  shows "filesystem_operation_matches_remote operation spec \<longleftrightarrow> clean_plan plan"
  using assms
proof (cases rule: planned.cases)
  case (planned_entry entry observed en en')
  then show ?thesis
    using assms(2,3) operation_for_state_matches
    by (auto simp: plan_validate_def plan_tuple_def clean_plan_def is_ok_iff result_simps snapshot_entry_validate_def)
next
  case (planned_resolved message observed en en')
  then show ?thesis
    using assms(2,3) operation_for_state_matches
    by (auto simp: plan_validate_def plan_tuple_def clean_plan_def is_ok_iff result_simps conflict_resolved_validate_def)
next
  case (planned_live_resolved message observed en en')
  then show ?thesis
    using assms(2,3) operation_for_state_matches
    by (auto simp: plan_validate_def plan_tuple_def clean_plan_def is_ok_iff result_simps conflict_resolved_validate_def)
next
  case (planned_event event entries en en' remove_it)
  then show ?thesis
    using assms(2,3) operation_for_event_matches
    by (auto simp: plan_validate_def plan_tuple_def clean_plan_def is_ok_iff result_simps)
next
  case (planned_live_event event entries en en' remove_it)
  then show ?thesis
    using assms(2,3) operation_for_event_matches
    by (auto simp: plan_validate_def plan_tuple_def clean_plan_def is_ok_iff result_simps)
qed

lemma plan_key_exact:
  assumes "plan_key plan = (kind, key, st_workspace_id st)" "plan_stream plan st = Some stream"
    and "aj_item_kind r = kind" "aj_item_key r = key" "aj_workspace_id r = st_workspace_id st" "aj_stream_id r = stream"
  shows "plan_exact r plan st = Ok True"
  using assms by (cases plan) (auto simp: plan_exact_def plan_key_def plan_stream_def split: result.splits option.splits)

text \<open>
  The checks that the row passes in every stage, as a lemma: what the engine wrote for a valid item is read back, unless
  the item is a rename event that does not leave a tombstone behind.
\<close>

lemma journal_checks_written:
  assumes codecs: "codec_law (sy_fs_operation lib)" "codec_law (sy_operation lib)" "codec_law (sy_states lib)" "codec_law (sy_plan lib)"
    and item: "plan_validate plan" "plan_tuple plan = Ok (spec, states)" "planned lib plan operation"
    and key: "plan_key plan = (kind, key, st_workspace_id st)" "plan_stream plan st = Some stream"
    and row: "journal_record lib (st_workspace_id st) apply_id stream kind key spec states plan operation = Ok r"
  shows "journal_checks lib (r\<lparr>aj_stage := stage, aj_filesystem_receipt_json := receipt\<rparr>) st =
    (if clean_plan plan then Ok (operation, spec, states, plan) else Err (journal_corrupt ''filesystem_operation_json''))"
proof -
  let ?r = "r\<lparr>aj_stage := stage, aj_filesystem_receipt_json := receipt\<rparr>"
  have json: "to_vec (sy_operation lib) spec = Some (aj_operation_json r)"
      "to_vec (sy_fs_operation lib) operation = Some (aj_filesystem_operation_json r)"
      "to_vec (sy_plan lib) plan = Some (aj_commit_json r)" "to_vec (sy_states lib) states = Some (aj_postimage_json r)"
    and columns: "aj_preimage_json r = aj_filesystem_operation_json r" "aj_apply_namespace r = plan_namespace plan"
      "aj_item_kind r = kind" "aj_item_key r = key" "aj_workspace_id r = st_workspace_id st" "aj_stream_id r = stream"
    using row by (auto simp: journal_record_def result_simps Let_def)
  have parse: "parse_apply_journal_json (sy_fs_operation lib) (aj_filesystem_operation_json r) ''filesystem_operation_json'' = Ok operation"
      "parse_apply_journal_json (sy_operation lib) (aj_operation_json r) ''operation_json'' = Ok spec"
      "parse_apply_journal_json (sy_states lib) (aj_postimage_json r) ''postimage_json'' = Ok states"
      "parse_apply_journal_json (sy_plan lib) (aj_commit_json r) ''commit_json'' = Ok plan"
    by (rule parse_written [OF codecs(1) json(2)] parse_written [OF codecs(2) json(1)] parse_written [OF codecs(3) json(4)]
        parse_written [OF codecs(4) json(3)])+
  have exact: "plan_exact ?r plan st = Ok True" by (rule plan_key_exact [OF key]) (simp_all add: columns)
  have valid: "\<not> list_ex (\<lambda>s. \<not> is_ok (path_state_validate s)) states"
    using plan_states_valid [OF item(1,2)] by (auto simp: list_all_iff list_ex_iff)
  note matches = plan_operation_matches [OF item(3,1,2)]
  show ?thesis
    using parse exact valid matches item columns digest_written [OF row]
    by (simp add: journal_checks_def validate_apply_commit_plan_def validate_apply_recovery_tuple_def Let_def)
qed

lemma then_do_lifted: "then_do (lift_result (Ok v)) g = g v"
  by (simp add: then_do_def lift_result_def fun_eq_iff)

lemma recover_receipt_written:
  assumes "codec_law (sy_receipt lib)" "to_vec (sy_receipt lib) receipt = Some json"
    and "ar_apply_id receipt = apply_id_uuid (aj_apply_id row)" "aj_filesystem_receipt_json row = Some json" "stage \<noteq> FilesystemStarted"
  shows "recover_receipt lib row stage operation =
    then_do (if ar_touched receipt = [] then give False else apply_receipt_matches_workspace lib receipt) (\<lambda>same.
      if same then give (receipt, row, False)
      else then_do (ask_fs (\<lambda>n. sy_abandon lib n (aj_apply_id row) operation)) (\<lambda>_. give (receipt, row, True)))"
proof -
  have "ApplyId (apply_id_uuid (aj_apply_id row)) = aj_apply_id row" by (cases "aj_apply_id row") simp
  then show ?thesis
    using assms by (simp add: recover_receipt_def Let_def then_do_lifted require_def parse_written)
qed


section \<open>An example\<close>

text \<open>A rename event that leaves the old directory where it is, and an empty workspace directory.\<close>

definition demo_move_event :: WorkspaceEventMessage where
  "demo_move_event = (demo_event 0 2)\<lparr>
     ev_mutation := (demo_mkdir 11 ''a'')\<lparr>wm_kind := WorkspaceMutationKind.Rename, wm_new_path := Some (WorkspacePath ''b''),
       wm_target_base_path_revision := Some ZERO\<rparr>,
     ev_path_state := demo_dir ''b'' 2, ev_old_path_state := Some (demo_dir ''a'' 2), ev_new_path_state := Some (demo_dir ''b'' 2)\<rparr>"

definition demo_found :: ObservedEntry where
  "demo_found = \<lparr>oe_path = WorkspacePath ''a'', oe_kind = Directory, oe_metadata = demo_metadata,
     oe_fingerprint = \<lparr>fp_file_id = Unix 1 2, fp_size = 0, fp_modified_at_ns = 0, fp_changed_at_ns = 0\<rparr>, oe_symlink_target = None\<rparr>"

definition demo_move_operation :: FsOperation where
  "demo_move_operation = FsRename (WorkspacePath ''a'') (WorkspacePath ''b'') None demo_metadata
     (Present Directory None (Some \<lparr>ds_digest = WorkspaceContentHash ''h'', ds_entries = []\<rparr>) (oe_fingerprint demo_found)) Missing"

definition demo_system :: system_lib where
  "demo_system =
     \<lparr>sy_engine = demo_engine_lib,
      sy_operation = table_codec [(RemoteUpsert (demo_dir ''a'' 1), [1]), (RemoteRename (demo_dir ''a'' 2) (demo_dir ''b'' 2), [2])],
      sy_fs_operation = table_codec [(FsMkdir (WorkspacePath ''a'') demo_metadata Missing, [1]), (demo_move_operation, [2])],
      sy_plan = table_codec [(PlanSnapshotEntry (demo_entry 0 ''a''), [1]), (PlanLiveEvent demo_move_event False, [2])],
      sy_states = table_codec [([demo_dir ''a'' 1], [1]), ([demo_dir ''a'' 2, demo_dir ''b'' 2], [2])],
      sy_receipt = table_codec [], sy_to_hex = (\<lambda>_. ''00''),
      sy_rules = \<lparr>hard_internal = [], hard_env_secrets = [], hard_other_secrets = [], user_excludes = [], user_includes = [],
        default_excludes = [], default_includes = [], user_include_prefixes = [], protect_secrets = True\<rparr>,
      sy_inspect = (\<lambda>_ _. Ok None), sy_directory_snapshot = (\<lambda>_ _. Ok \<lparr>ds_digest = WorkspaceContentHash ''h'', ds_entries = []\<rparr>), sy_scan = (\<lambda>_. Ok ([], False)),
      sy_read_blob = (\<lambda>_ _. None), sy_blob_matches = (\<lambda>_ _ _. Ok False), sy_stream_observed = (\<lambda>_ _ _. Err (Io ''read'')),
      sy_commit_temporary = (\<lambda>_ _ _. Ok ()), sy_import = (\<lambda>_ _ _. Ok ()), sy_apply = (\<lambda>_ _ _. Err (Io ''apply'')),
      sy_finalize = (\<lambda>_ _. Ok ()), sy_abandon = (\<lambda>_ _ _. Ok ())\<rparr>"

text \<open>The same with a hash that is never zero, so that rows are not taken for migrated ones.\<close>

definition demo_marked :: system_lib where
  "demo_marked = demo_system\<lparr>sy_engine := demo_engine_lib\<lparr>el_store := demo_store\<lparr>lib_blake3 := \<lambda>_. replicate 32 1\<rparr>\<rparr>\<rparr>"

lemma demo_laws: "codec_law (sy_fs_operation demo_marked)" "codec_law (sy_operation demo_marked)"
  "codec_law (sy_states demo_marked)" "codec_law (sy_plan demo_marked)" "codec_law (sy_receipt demo_marked)"
  by (simp_all add: demo_marked_def demo_system_def table_codec_law)

lemma demo_mkdir_planned: "planned demo_marked (PlanSnapshotEntry (demo_entry 0 ''a'')) (FsMkdir (WorkspacePath ''a'') demo_metadata Missing)"
  by (rule planned.intros(1) [of _ _ None "demo_engine []"])
    (simp add: operation_for_state_def expected_from_observed_def demo_entry_def demo_dir_def)

lemma demo_move_planned: "planned demo_marked (PlanLiveEvent demo_move_event False) demo_move_operation"
proof (rule planned.intros(3) [of _ _ "[(WorkspacePath ''a'', Some demo_found), (WorkspacePath ''b'', None)]" "demo_engine []"])
  show "operation_for_event demo_marked demo_move_event [(WorkspacePath ''a'', Some demo_found), (WorkspacePath ''b'', None)]
      (demo_engine []) = (Ok (Some demo_move_operation), (demo_engine [])\<lparr>en_draws := 1\<rparr>)"
    by (simp add: operation_for_event_def expected_from_observed_def observed_content_hash_def observed_at_def demo_found_def
        demo_move_event_def demo_event_def demo_mkdir_def demo_dir_def demo_move_operation_def ask_fs_def ask_def
        demo_marked_def demo_system_def then_do_def Let_def demo_engine_def)
qed

lemma demo_move_valid: "event_validate demo_move_event = Ok ()"
  by code_simp


end
