(* ===== verification/Engine_Invariant.thy ===== *)
theory Engine_Invariant
  imports Engine_Live Engine_Journal
begin

text \<open>
  Sequences of calls of \<open>SyncEngine\<close> (\<open>fns-sync-core/src/engine.rs\<close>) and the property that holds after all of
  them. The file system and the content cache may answer every question of the engine in any way.
\<close>

section \<open>Calls\<close>

datatype EngineCall =
    CallScanChanges
  | CallScanAndRecord
  | CallRecordLocalChanges "FsChange list"
  | CallPendingCommands nat
  | CallPrepareConnectionAttempt
  | CallResolveConflict ConflictId WorkspaceConflictRevision WorkspaceConflictChoice
  | CallQueueConflictResolution WorkspaceConflictResolvedRequest
  | CallConflictResolutionAccepted WorkspaceConflictResolvedMessage
  | CallConflictResolutionRejected OperationId WorkspaceV2ErrorCode
  | CallMutationResult MutationResult
  | CallBlobUploaded OperationId
  | CallEvent WorkspaceEventMessage
  | CallSnapshotBegin WorkspaceSnapshotBeginMessage
  | CallSnapshotEntry WorkspaceSnapshotEntryMessage
  | CallWorkspaceEvent WorkspaceEventMessage
  | CallConflictCreated WorkspaceConflictCreatedMessage
  | CallConflictResolved WorkspaceConflictResolvedMessage
  | CallSnapshotEnd WorkspaceSnapshotEndMessage
  | CallBlobAvailable WorkspaceContentHash u64
  | CallAckConfirmed WorkspaceAckRequest
  | CallClose

fun perform :: "system_lib \<Rightarrow> EngineCall \<Rightarrow> SyncEngine \<Rightarrow> SyncEngine" where
  "perform lib CallScanChanges en = snd (scan_changes lib en)"
| "perform lib CallScanAndRecord en = snd (scan_and_record lib en)"
| "perform lib (CallRecordLocalChanges changes) en = snd (record_local_changes lib changes en)"
| "perform lib (CallPendingCommands limit) en = snd (pending_commands lib limit en)"
| "perform lib CallPrepareConnectionAttempt en = snd (prepare_connection_attempt en)"
| "perform lib (CallResolveConflict conflict_id revision choice) en = snd (resolve_conflict lib conflict_id revision choice en)"
| "perform lib (CallQueueConflictResolution request) en = snd (queue_conflict_resolution lib request en)"
| "perform lib (CallConflictResolutionAccepted message) en = snd (conflict_resolution_accepted lib message en)"
| "perform lib (CallConflictResolutionRejected op code) en = snd (conflict_resolution_rejected lib op code en)"
| "perform lib (CallMutationResult result) en = snd (mutation_result (sy_engine lib) result en)"
| "perform lib (CallBlobUploaded op) en = snd (blob_uploaded (sy_engine lib) op en)"
| "perform lib (CallEvent message) en = snd (live_event lib message en)"
| "perform lib (CallSnapshotBegin message) en = snd (snapshot_begin message en)"
| "perform lib (CallSnapshotEntry message) en = snd (snapshot_entry lib message en)"
| "perform lib (CallWorkspaceEvent message) en = snd (workspace_event lib message en)"
| "perform lib (CallConflictCreated message) en = snd (conflict_created lib message en)"
| "perform lib (CallConflictResolved message) en = snd (conflict_resolved lib message en)"
| "perform lib (CallSnapshotEnd message) en = snd (snapshot_end lib message en)"
| "perform lib (CallBlobAvailable hash byte_size) en = snd (blob_available lib hash byte_size en)"
| "perform lib (CallAckConfirmed message) en = snd (ack_confirmed message en)"
| "perform lib CallClose en = snd (close_engine en)"

definition run_calls :: "system_lib \<Rightarrow> EngineCall list \<Rightarrow> SyncEngine \<Rightarrow> SyncEngine" where
  "run_calls lib calls en = fold (perform lib) calls en"

lemma outerD: "outer en p \<Longrightarrow> sound en c \<Longrightarrow> \<exists>c'. sound (snd p) c' \<and> cursor_later c c'"
  by (auto simp: outer_def)

lemma innerD: "inner en p \<Longrightarrow> sound en c \<Longrightarrow> \<exists>c'. sound (snd p) c' \<and> cursor_later c c'"
  by (rule outerD [OF outer_inner])

lemma perform_sound:
  assumes "sound en c"
  shows "\<exists>c'. sound (perform lib call en) c' \<and> cursor_later c c'"
  by (cases call)
    (simp_all add: innerD [OF _ assms] outerD [OF _ assms] inners outers outer_begin outer_pending outer_close)

lemma run_calls_sound:
  assumes "sound en c"
  shows "\<exists>c'. sound (run_calls lib calls en) c' \<and> cursor_later c c'"
  using assms unfolding run_calls_def
proof (induction calls arbitrary: en c)
  case (Cons call calls)
  obtain c1 where "sound (perform lib call en) c1" "cursor_later c c1" using perform_sound [OF Cons.prems] by blast
  with Cons.IH show ?case by (fastforce intro: cursor_later_trans)
qed (auto intro: cursor_later_refl)

section \<open>Commands\<close>

lemma replay_commands_result:
  "replay_commands lib records = Ok commands \<Longrightarrow> length commands = length records \<and> (\<forall>ack. SendAck ack \<notin> set commands)"
proof (induction records arbitrary: commands)
  case (Cons r rs)
  then obtain body rest where "replay_commands lib rs = Ok rest"
      "commands = (case body of BodyMutation m \<Rightarrow> CmdMutation m | BodyResolution r \<Rightarrow> ResolveConflict r) # rest"
    by (auto simp: and_then_Ok_iff)
  then show ?case using Cons.IH by (cases body) auto
qed simp

lemma upload_commands_result:
  "upload_commands lib n records = Ok commands \<Longrightarrow> length commands \<le> n \<and> (\<forall>ack. SendAck ack \<notin> set commands)"
proof (induction records arbitrary: n commands)
  case (Cons r rs)
  show ?case
  proof (cases "n = 0 \<or> ob_stage r \<noteq> AwaitingBlob")
    case True
    then show ?thesis using Cons by (auto split: if_splits)
  next
    case False
    then obtain ws op hash byte_size rest where "upload_commands lib (n - 1) rs = Ok rest"
        "commands = UploadBlob ws op hash byte_size # rest"
      using Cons.prems by (auto simp: and_then_Ok_iff Let_def case_prod_beta)
    then show ?thesis using Cons.IH [of "n - 1" rest] False by auto
  qed
qed simp

lemma replay_length: "pending_outbox_replay lib n st = (Ok records, st') \<Longrightarrow> length records \<le> n"
  by (auto simp: pending_outbox_replay_def pending_outbox_replay_tx_def transaction_cases result_simps query_map_Ok_iff
      split: if_splits dest: arg_cong [where f = length])

text \<open>The acknowledgement that is sent is one that the cursor waits for.\<close>

definition acks_due :: "SyncEngine \<Rightarrow> SyncCommand list \<Rightarrow> bool" where
  "acks_due en commands \<longleftrightarrow> (\<forall>ack c. SendAck ack \<in> set commands \<longrightarrow> cursor (en_state en) = Ok c \<longrightarrow>
     ack_workspace_id ack = st_workspace_id (en_state en) \<and> ack_client_id ack = st_client_id (en_state en) \<and>
     due_ack c = Some (ack_revision ack))"

lemma ack_commands_result: "ack_commands (en_state en) = Ok commands \<Longrightarrow> length commands \<le> 1 \<and> acks_due en commands"
  by (auto simp: ack_commands_def acks_due_def result_simps split: option.splits)

lemma downloads_result: "downloads limit commands \<Longrightarrow> length commands \<le> limit \<and> (\<forall>ack. SendAck ack \<notin> set commands)"
  by (auto simp: downloads_def list_all_iff split: SyncCommand.splits)

lemma acks_due_none: "\<forall>ack. SendAck ack \<notin> set commands \<Longrightarrow> acks_due en commands"
  by (simp add: acks_due_def)

lemma acks_due_append: "\<forall>ack. SendAck ack \<notin> set commands \<Longrightarrow> acks_due en acks \<Longrightarrow> acks_due en (commands @ acks)"
  by (auto simp: acks_due_def)

lemma ensure_open_Ok: "ensure_open en = (Ok v, en') \<longleftrightarrow> \<not> en_closed en \<and> en' = en"
  by (auto simp: ensure_open_def)

lemma pending_commands_result:
  assumes run: "pending_commands lib limit en = (Ok commands, en')"
  shows "length commands \<le> limit \<and> acks_due en' commands"
proof (cases "limit = 0")
  case True
  then show ?thesis using run by (auto simp: pending_commands_def then_do_Ok_iff acks_due_def)
next
  case False
  obtain found en1 where found: "resume_inbound_work lib limit True en = (Ok found, en1)"
    using run False by (auto simp: pending_commands_def then_do_Ok_iff ensure_open_def split: if_splits)
  note work = downloads_result [OF resume_downloads [OF found]]
  show ?thesis
  proof (cases "length found = limit")
    case True
    then show ?thesis using run False found work
      by (auto simp: pending_commands_def then_do_Ok_iff ensure_open_def acks_due_none split: if_splits)
  next
    case short: False
    obtain en2 records en3 replayed uploads en4 where
      replay: "write_state (pending_outbox_replay (sy_store lib) (limit - length found)) en2 = (Ok records, en3)"
        "replay_commands lib records = Ok replayed"
      and up: "(if length (found @ replayed) < limit
          then then_do (read_state (outbox (sy_store lib))) (\<lambda>waiting.
            lift_result (upload_commands lib (limit - length (found @ replayed)) waiting))
          else give []) en3 = (Ok uploads, en4)"
      and last: "(if length ((found @ replayed) @ uploads) < limit
          then then_do (read_state ack_commands) (\<lambda>acks. give (((found @ replayed) @ uploads) @ acks))
          else give ((found @ replayed) @ uploads)) en4 = (Ok commands, en')"
      using run found False short by (auto simp only: pending_commands_def then_do_Ok_iff ensure_open_Ok if_False Let_def
          lift_result_apply prod.inject)
    have uploads: "if length (found @ replayed) < limit then
          \<exists>waiting. upload_commands lib (limit - length (found @ replayed)) waiting = Ok uploads else uploads = []"
      using up by (auto simp: then_do_Ok_iff split: if_splits)
    have acks: "if length (found @ replayed @ uploads) < limit
        then \<exists>acks. ack_commands (en_state en') = Ok acks \<and> commands = found @ replayed @ uploads @ acks
        else commands = found @ replayed @ uploads"
      using last by (auto simp: then_do_Ok_iff split: if_splits)
    have "length records \<le> limit - length found"
      using replay(1) by (auto simp: write_state_def split: prod.splits dest: replay_length)
    moreover have "length uploads \<le> limit - length (found @ replayed) \<and> (\<forall>ack. SendAck ack \<notin> set uploads)"
      using uploads upload_commands_result by (auto split: if_splits)
    ultimately show ?thesis
      using work short replay_commands_result [OF replay(2)] acks
      by (cases "length (found @ replayed @ uploads) < limit")
        (auto simp: acks_due_none acks_due_append dest!: ack_commands_result)
  qed
qed

lemma due_ack_applied: "ack_safe c \<Longrightarrow> due_ack c = Some revision \<Longrightarrow> revision \<le> wc_last_applied_revision c"
  by (auto simp: ack_safe_def due_ack_def split: if_splits)

text \<open>
  C1: Whatever calls are made, in any order, whatever the server sends, the files contain and the user decides, and
  whether the calls succeed or fail: the cursor of the store stays readable and never moves back, and the queue of
  live items stays within its limits and in the order of the revisions. A revision is acknowledged, or waits to be
  acknowledged, only once it is applied; so every acknowledgement among the commands to send is for this workspace
  and client and for an applied revision, and there are never more commands than the limit asked for.
\<close>

theorem acks_only_applied:
  assumes "sound en c"
  shows "(\<exists>c'. sound (run_calls lib calls en) c' \<and> cursor_later c c') \<and>
    (\<forall>limit commands en'. pending_commands lib limit (run_calls lib calls en) = (Ok commands, en') \<longrightarrow>
       length commands \<le> limit \<and>
       (\<forall>ack. SendAck ack \<in> set commands \<longrightarrow>
          ack_workspace_id ack = wc_workspace_id c \<and> ack_client_id ack = wc_client_id c \<and>
          (\<exists>c'. cursor (en_state en') = Ok c' \<and> ack_revision ack \<le> wc_last_applied_revision c')))"
proof (intro conjI allI impI run_calls_sound [OF assms])
  fix limit commands en'
  assume run: "pending_commands lib limit (run_calls lib calls en) = (Ok commands, en')"
  then show "length commands \<le> limit" by (simp add: pending_commands_result)
  obtain c1 where "sound (run_calls lib calls en) c1" and c1: "cursor_later c c1" using run_calls_sound [OF assms] by blast
  then obtain c2 where c2: "sound en' c2" "cursor_later c1 c2" using outerD [OF outer_pending] run by (metis snd_conv)
  have read: "cursor (en_state en') = Ok c2"
    using c2(1) by (simp add: sound_def cursor_sound_def cursor_rows_def cursor_def cursor_row_def)
  fix ack assume "SendAck ack \<in> set commands"
  then have ack: "ack_workspace_id ack = st_workspace_id (en_state en')" "ack_client_id ack = st_client_id (en_state en')"
      "due_ack c2 = Some (ack_revision ack)"
    using pending_commands_result [OF run] read by (auto simp: acks_due_def)
  then show "ack_workspace_id ack = wc_workspace_id c" "ack_client_id ack = wc_client_id c"
    using c1 c2 by (auto simp: sound_def cursor_sound_def cursor_later_def)
  show "\<exists>c'. cursor (en_state en') = Ok c' \<and> ack_revision ack \<le> wc_last_applied_revision c'"
    using read ack(3) c2(1) due_ack_applied by (auto simp: sound_def cursor_sound_def)
qed

section \<open>An example\<close>

text \<open>An engine that has applied three revisions and waits to acknowledge them.\<close>

definition demo_cursor :: "WorkspaceRevision \<Rightarrow> WorkspaceRevision option \<Rightarrow> WorkspaceCursor" where
  "demo_cursor acked waiting =
     \<lparr>wc_workspace_id = demo_ws, wc_client_id = demo_client, wc_last_ack_revision = acked,
      wc_last_applied_revision = WorkspaceRevision 3, wc_pending_ack_revision = waiting,
      wc_pending_segment_ack_revision = None\<rparr>"

definition demo_waiting :: "WorkspaceCursor \<Rightarrow> SyncEngine" where
  "demo_waiting c = (let en = demo_engine [] in
     en\<lparr>en_state := (en_state en)\<lparr>st_conn := (st_conn (en_state en))\<lparr>db_workspace_cursor := [c]\<rparr>\<rparr>\<rparr>)"

definition demo_ack :: WorkspaceAckRequest where
  "demo_ack = \<lparr>ack_workspace_id = demo_ws, ack_client_id = demo_client, ack_revision = WorkspaceRevision 3\<rparr>"

lemma demo_waiting_tables:
  "st_workspace_id (en_state (demo_waiting c)) = demo_ws" "st_client_id (en_state (demo_waiting c)) = demo_client"
  "st_conn (en_state (demo_waiting c)) = empty_database\<lparr>db_workspace_cursor := [c]\<rparr>"
  "en_pending_live_events (demo_waiting c) = []" "en_pending_live_serialized_bytes (demo_waiting c) = 0"
  "en_inbound_work_limits (demo_waiting c) = default_inbound_work_limits" "en_closed (demo_waiting c) = False"
  "en_next_inbound_source (demo_waiting c) = SourceStream"
  by (simp_all add: demo_waiting_def demo_engine_def demo_state_def empty_database_def)

lemma demo_sound: "sound (demo_waiting (demo_cursor ZERO (Some (WorkspaceRevision 3)))) (demo_cursor ZERO (Some (WorkspaceRevision 3)))"
  by (simp add: sound_def cursor_sound_def cursor_rows_def queue_ok_def ack_safe_def demo_waiting_tables demo_cursor_def
      default_inbound_work_limits_def ZERO_le)

lemma demo_confirmed:
  "run_calls demo_system [CallAckConfirmed demo_ack] (demo_waiting (demo_cursor ZERO (Some (WorkspaceRevision 3)))) =
     demo_waiting (demo_cursor (WorkspaceRevision 3) None)"
  by (simp add: run_calls_def ack_confirmed_def then_do_def ensure_open_def require_apply ack_request_validate_def is_ok_iff
      validate_identity_def demo_ack_def demo_waiting_tables cursor_def cursor_row_def demo_cursor_def cursor_ops
      write_state_def transaction_def tx_then_def clear_stream_tx_def Let_def ZERO_def less_eq_WorkspaceRevision_def
      less_WorkspaceRevision_def sql_delete_def empty_database_def demo_waiting_def demo_engine_def demo_state_def)

lemma idle_step:
  assumes "stream_state (en_state en) = Ok None" "en_pending_live_events en = []"
  shows "resume_step lib limit reissue source budget commands en = (Ok (Idle, budget, commands), en)"
  using assms by (cases source) (simp_all add: resume_stream_step_def resume_live_step_def)

lemma idle_loop:
  assumes "stream_state (en_state en) = Ok None" "en_pending_live_events en = []"
  shows "resume_loop lib limit reissue False False source budget commands en = (Ok commands, en)"
proof (cases "remaining_items budget = 0")
  case False
  have last: "resume_loop lib limit reissue True True source budget commands en = (Ok commands, en)" for source
    by (subst resume_loop.simps) simp
  show ?thesis using False
    by (cases source; subst resume_loop.simps; simp add: idle_step [OF assms] del: resume_step.simps;
        subst resume_loop.simps; simp add: idle_step [OF assms] last del: resume_step.simps)
qed (subst resume_loop.simps, simp)

lemma idle_resume:
  assumes "stream_state (en_state en) = Ok None" "en_pending_live_events en = []"
    "cursor (en_state en) = Ok c" "wc_pending_ack_revision c \<noteq> None"
  shows "resume_inbound_work lib limit reissue en =
    (Ok [], en\<lparr>en_next_inbound_source := source_other (en_next_inbound_source en)\<rparr>)"
proof -
  let ?en = "en\<lparr>en_next_inbound_source := source_other (en_next_inbound_source en)\<rparr>"
  have "finish_stream_if_ready lib ?en = (Ok False, ?en)" "advance_segment_ack_if_stalled ?en = (Ok (), ?en)"
    using assms by (auto simp: finish_stream_if_ready_def advance_segment_ack_if_stalled_def)
  then show ?thesis using assms by (simp add: resume_inbound_work_def Let_def idle_loop then_do_def)
qed

lemma demo_sends:
  "pending_commands demo_system 5 (demo_waiting (demo_cursor ZERO (Some (WorkspaceRevision 3)))) =
     (Ok [SendAck demo_ack],
      (demo_waiting (demo_cursor ZERO (Some (WorkspaceRevision 3))))\<lparr>en_next_inbound_source := SourceLive\<rparr>)"
proof -
  let ?c = "demo_cursor ZERO (Some (WorkspaceRevision 3))"
  let ?en = "demo_waiting ?c"
  have state: "stream_state (en_state ?en) = Ok None" "cursor (en_state ?en) = Ok ?c" "local_intents (en_state ?en) = Ok []"
      "\<not> has_apply_journals (en_state ?en)" "outbox demo_store (en_state ?en) = Ok []"
      "pending_outbox_replay demo_store 5 (en_state ?en) = (Ok [], en_state ?en)"
    by (simp_all add: stream_state_def active_stream_state_def stream_state_row_def query_optional_def cursor_def cursor_row_def demo_waiting_tables empty_database_def
        demo_cursor_def local_intents_def has_apply_journals_def outbox_def pending_outbox_replay_def
        pending_outbox_replay_tx_def outbox_select_def transaction_def)
  have lib: "sy_store demo_system = demo_store" by (simp add: demo_system_def demo_engine_lib_def)
  show ?thesis
    using state idle_resume [OF state(1) _ state(2), of demo_system 5 True]
    by (simp add: pending_commands_def ensure_open_def demo_waiting_tables lib take_up_intents_def
        materialize_local_intents_def write_state_def ack_commands_def demo_cursor_def due_ack_def demo_ack_def then_do_def)
qed

theorem acks_only_applied_witness:
  "\<exists>en'. sound (demo_waiting (demo_cursor ZERO (Some (WorkspaceRevision 3)))) (demo_cursor ZERO (Some (WorkspaceRevision 3))) \<and>
     pending_commands demo_system 5 (demo_waiting (demo_cursor ZERO (Some (WorkspaceRevision 3)))) = (Ok [SendAck demo_ack], en') \<and>
     (\<exists>c'. cursor (en_state en') = Ok c' \<and> ack_revision demo_ack \<le> wc_last_applied_revision c') \<and>
     run_calls demo_system [CallAckConfirmed demo_ack] (demo_waiting (demo_cursor ZERO (Some (WorkspaceRevision 3)))) =
       demo_waiting (demo_cursor (WorkspaceRevision 3) None) \<and>
     (\<exists>c'. sound (demo_waiting (demo_cursor (WorkspaceRevision 3) None)) c')"
  using acks_only_applied [OF demo_sound, of demo_system "[]"] acks_only_applied [OF demo_sound, of demo_system "[CallAckConfirmed demo_ack]"]
    demo_sends demo_confirmed demo_sound
  by (fastforce simp: run_calls_def)

end
