(* ===== verification/Spec2Isabelle.thy ===== *)
theory Spec2Isabelle
  imports Protocol_Binary Protocol_Envelope Fs_Coalesce Sync_Reconcile Transport_Uploads Transport_Timers
    Sync_Queue Sync_Received Sync_Durable Sync_Conflicts Sync_Paths Engine_Closure Engine_Deferred Engine_Cursor
    Engine_Invariant
begin

text \<open>
  A verification development of the workspace synchronisation of CCHaven, the Rust crates \<open>fns-protocol\<close>,
  \<open>fns-fs\<close>, \<open>fns-sync-core\<close> and \<open>fns-transport\<close> under \<open>cchaven/crates\<close>.

  \<^bold>\<open>The program.\<close> A client keeps a directory of files equal to a workspace on a server. The watcher of the file
  system reports changes; \<open>fns-fs\<close> filters them by rules and coalesces bursts of them. The engine of \<open>fns-sync-core\<close>
  turns what changed into wishes, and wishes into mutations in an outbox, which the session of \<open>fns-transport\<close> sends over one
  WebSocket connection. The server answers mutations and sends a stream (a snapshot, or the events since a revision), live
  events and conflicts. The engine stores them, applies them to the files with a journal around every change, and
  moves a cursor of two revisions: what is applied and what is acknowledged. The content of files travels
  as blobs, in binary frames of at most one mebibyte, beside the text frames of \<open>fns-protocol\<close>. Everything
  that must survive a crash is in one SQLite database; after a crash the engine recovers from its journal.

  \<^bold>\<open>How code becomes definitions.\<close> A struct is a \<open>record\<close>, an enum a \<open>datatype\<close>, both with the names of the source
  (fields have a prefix for their record). Integers keep their width (\<open>u8\<close>, \<open>u32\<close>, \<open>u64\<close>, \<open>i64\<close> are words; checked
  operations return options); lengths are natural numbers. Text is a list of characters. A method that can fail
  returns \<open>('a, 'e) result\<close>, with \<open>and_then\<close> for the operator \<open>?\<close>, \<open>fail_if\<close> for an early return and \<open>map_err\<close>. A method that
  changes state takes and returns it: \<open>tx\<close> in the store (a function of the database), \<open>engine\<close> in the engine (of
  \<open>SyncEngine\<close>, combined by \<open>then_do\<close>), \<open>fallible\<close> in a session (of \<open>session\<close>, combined by \<open>bindm\<close>). An error keeps the state that the
  code leaves behind, which for a transaction is the old database. \<open>BTreeMap\<close> and \<open>HashMap\<close> are association lists;
  the order in which a hash map is visited is an argument.

  \<^bold>\<open>What is a parameter.\<close> Code outside the crates is an argument: BLAKE3, the text of UUIDs (\<open>uuid_law\<close>: parsing reads what is
  printed), Unicode normalisation, the serde codecs (\<open>codec_law\<close>: decoding reads what is encoded), the glob matcher,
  the JSON parser, fresh UUIDs, the clock, whether a send on the socket succeeds, and the file system. The
  engine asks the file system and the content cache through \<open>system_lib\<close>, whose answers are indexed by the number of questions
  asked so far (\<open>en_draws\<close>), so that they can change in any way between two questions. The session calls
  the engine through \<open>engine_ops\<close>, over an arbitrary engine state. The server is the list of the events of a run.

  \<^bold>\<open>Shared theories.\<close>
  \<^item> \<open>FNS_Prelude\<close>: results, checked arithmetic, UTF-8, text and decimal numbers, with the collections \<open>result_simps\<close> and
    others; the locales \<open>wire_enum\<close> (an enumeration and its names, interpreted for actions, flows, stages, statuses and receipt
    kinds) and \<open>canonical_text\<close> (parse and print, interpreted for revisions, hashes and paths).
  \<^item> \<open>FNS_Maps\<close>: the locale \<open>map_ops\<close> of finite maps, interpreted for the ordered map and the hash map.

  \<^bold>\<open>Protocol\<close> (\<open>fns-protocol/src\<close>).
  \<^item> \<open>Protocol_Values\<close> (\<open>error.rs\<close>, \<open>revision.rs\<close>, \<open>nullable.rs\<close>, \<open>value.rs\<close>): identifiers, revisions, hashes, paths, metadata, the error
    catalogue. Accepted paths stay below the root by the rules of POSIX and of Windows; errors are canonical.
  \<^item> \<open>Protocol_Binary\<close> (\<open>binary.rs\<close>): the frames of blobs; decoding and encoding are inverse, exactly.
  \<^item> \<open>Protocol_Messages\<close> (\<open>message.rs\<close>): all messages and their validation, characterised by well-formedness.
  \<^item> \<open>Protocol_Actions\<close> (\<open>action.rs\<close>, \<open>strict_json.rs\<close>): the registry of flows and bodies, and the reader that refuses repeated keys.
  \<^item> \<open>Protocol_Envelope\<close> (\<open>envelope.rs\<close>): text frames; round trip, and the shape of everything that decodes.

  \<^bold>\<open>File system\<close> (\<open>fns-fs/src\<close>).
  \<^item> \<open>Fs_Rules\<close> (\<open>rules.rs\<close>): protected paths are never included, whatever the configuration.
  \<^item> \<open>Fs_Coalesce\<close> (\<open>coalesce.rs\<close>): the coalescer as a state machine (\<open>coalescer_reachable\<close>); its capacity, the net effect of
    bursts, and how renames are collapsed, with what goes wrong when they are observed out of order.

  \<^bold>\<open>Store\<close> (\<open>fns-sync-core/src/store.rs\<close>, \<open>state.rs\<close>, \<open>model.rs\<close>, \<open>migrations\<close>).
  \<^item> \<open>Sync_Model\<close>, \<open>Sync_Tables\<close>: the records and stages, the tables with their keys, the statements on them, transactions and row
    readers. A database is a record of tables, a table the list of its rows.
  \<^item> \<open>Sync_Outbox\<close>, \<open>Sync_Stream\<close>, \<open>Sync_Journal\<close>: the operations on path states, outbox, wishes and hash cache; on the incoming
    stream; on cursor, apply journal, receipts and conflicts.
  \<^item> \<open>Sync_Paths\<close>: tables keyed by paths implement maps (locale \<open>path_table\<close>). \<open>Sync_Queue\<close>: the outbox implements a priority
    queue by time stamp and identifier (locale \<open>ordered_queue\<close>), and what was dispatched is replayed unchanged; the steps
    considered there are all that keep rows, and rows leave by their removal only. \<open>Sync_Received\<close>: what is stored of a stream is a
    prefix of it, and pages are bounded. \<open>Sync_Durable\<close>: journal stages only move forward (locale \<open>stage_machine\<close>), receipts are
    written once, and the cursor operations do not move the cursor back. \<open>Sync_Conflicts\<close>: the exchange of conflicts by those of a snapshot.
    \<open>Sync_Example\<close>: concrete inputs.
  \<^item> \<open>Sync_Reconcile\<close> (\<open>reconcile.rs\<close>): wishes, the mutations for them, and their recognition.

  \<^bold>\<open>Engine\<close> (\<open>fns-sync-core/src/engine.rs\<close>, with parts of \<open>state.rs\<close>).
  \<^item> \<open>Engine_Paths\<close>: pure helpers; \<open>Engine_Local\<close>: wishes and the outbox; \<open>Engine_Settle\<close>: the answers of the server;
    \<open>Engine_System\<close>: what is found in the workspace; \<open>Engine_Commit\<close>: commits and the journal around changes; \<open>Engine_Plans\<close>: conflicts;
    \<open>Engine_Inbound\<close>: the application of remote items; \<open>Engine_Scan\<close>: local changes; \<open>Engine_Work\<close>, \<open>Engine_Handlers\<close>: the work loop,
    the handlers and the commands; \<open>Engine_Recovery\<close>: recovery after a crash.
  \<^item> \<open>Engine_Closure\<close>: the operations a rename touches are the least closed set; merged wishes have the effect of both;
    summaries of subtrees are exact. \<open>Engine_Deferred\<close>: a rename that is taken back blocks the wishes after it.
  \<^item> \<open>Engine_Journal\<close>: what the recovery does with the rows that the engine writes, in every stage. \<open>Engine_Cursor\<close>: the
    cursor over the life of a store, with the one operation that takes its applied revision back, the repair of the gap that an
    older version left.
  \<^item> \<open>Engine_Frame\<close>, \<open>Engine_Safe\<close>, \<open>Engine_Live\<close>, \<open>Engine_Invariant\<close>: over all sequences of the calls of the engine, only what is applied is
    acknowledged. A transaction is \<open>tx_still\<close> or \<open>lifts\<close> the cursor, a method is \<open>inner\<close> or \<open>outer\<close>; the collections carry
    these facts through the methods. The sequences start after the recovery.

  \<^bold>\<open>Transport\<close> (\<open>fns-transport/src\<close>).
  \<^item> \<open>Transport_Transfer\<close> (\<open>transfer.rs\<close>, \<open>blob.rs\<close>), \<open>Transport_Dispatch\<close> (\<open>dispatch.rs\<close>): the table of transfers and the tracker of
    requests; over everything sent and received on a connection, a request is settled once and repetitions are recognised.
  \<^item> \<open>Transport_Session\<close>, \<open>Transport_Commands\<close>, \<open>Transport_Inbound\<close> (\<open>session.rs\<close>, \<open>socket.rs\<close>): the session, its drain, its handlers and
    its loop. \<open>Transport_Example\<close>: a run.
  \<^item> \<open>Transport_Invariant\<close>, \<open>Transport_Safety\<close>: weakest preconditions and the invariant of a session (locale \<open>frame_predicate\<close> for what only
    touches engine, counters and output), so limits and unique requests in every run. \<open>Transport_Stream\<close>: uploads send,
    and downloads accept, exactly the frames of a content, and the upload is ended. \<open>Transport_Uploads\<close>: in every run the
    frames on the socket agree with the uploads in the table. \<open>Transport_Timers\<close>: the loop sleeps until the earliest deadline.

  \<^bold>\<open>Loops and bounds.\<close> Loops are structural recursion, or functions with a termination proof (the trimming of
  receipts by their number, the budgeted work loop \<open>resume_loop\<close> by its budget). The two fixpoint loops over deferred operations
  (\<open>closure_loop\<close>, \<open>intersect_loop\<close>) are \<open>partial_function (option)\<close>; both are proved to return for every input. The
  drain of a session recurses on the items left in its budget, which every turn decreases. The loop of a session recurses on the list
  of events, so statements on whole runs hold at every moment of a run. There is no fuel.

  \<^bold>\<open>Not modelled.\<close> Of the engine: \<open>SyncEngine::open\<close> with the checks of the state directory, builders of configurations,
  plain accessors and aliases, fail points of tests. Of the store: opening and migrating the database. Of the session: a shutdown in the middle
  of a method, the timeout around the handshake, I/O errors while a blob file is read (a file is the list of its bytes), and logs. Around
  the modelled parts: the worker thread and the reconnection of \<open>fns-transport\<close>, its URL parser, the operating-system calls of
  \<open>fns-fs\<close> (atomic writes, scans, watching, hashing), \<open>fns-observability\<close>, \<open>fns-platform\<close>, the agent, the desktop and web applications and the control
  service. The crates under \<open>codex\<close> are another program.
\<close>

end
